(* ===== verification/Prelude.thy ===== *)
theory Prelude imports Main "HOL-Library.Multiset" "HOL-Library.Char_ord" "HOL-Library.List_Lexorder" "HOL-Library.Code_Target_Nat" begin

text \<open>
  Shared vocabulary of the development.

  Types: \<open>ms\<close> and \<open>secs\<close> name the code's millisecond and second counts. They are natural numbers
  (or integers for the signed Unix timestamps): the code only compares, divides and subtracts them
  with \<open>saturating_sub\<close>, which is the subtraction of \<^typ>\<open>nat\<close>.

  Containers: \<open>BTreeMap\<close> is a strictly sorted association list (\<open>bt_insert\<close>, \<open>bt_get\<close>,
  \<open>bt_remove\<close>, \<open>bt_entry_or\<close>): its iteration order is observable in the code (template rendering,
  filter evaluation, JSON objects), so a plain map would lose behaviour. \<open>HashMap\<close> values that the
  code only looks up, inserts and removes are maps \<open>'k \<Rightarrow> 'v option\<close>.

  The locale \<open>keyed_store\<close> is the contract of a map as its clients use it; \<open>bt_\<close> implements it.

  Collections: \<open>wf_intros\<close> holds the preservation lemmas of well-formedness invariants,
  \<open>rust_simps\<close> the equations for the operations of the standard library.
\<close>

named_theorems wf_intros
named_theorems rust_simps

type_synonym ms = nat
type_synonym secs = int

section \<open>Errors as values\<close>

abbreviation Ok :: "'a \<Rightarrow> 'e + 'a" where "Ok \<equiv> Inr"
abbreviation Err :: "'e \<Rightarrow> 'e + 'a" where "Err \<equiv> Inl"

definition ok_or :: "'a option \<Rightarrow> 'e \<Rightarrow> 'e + 'a" where
  "ok_or x e = (case x of None \<Rightarrow> Err e | Some a \<Rightarrow> Ok a)"

definition res_bind :: "'e + 'a \<Rightarrow> ('a \<Rightarrow> 'e + 'b) \<Rightarrow> 'e + 'b" where
  "res_bind r f = (case r of Inl e \<Rightarrow> Inl e | Inr a \<Rightarrow> f a)"

fun is_ok :: "'e + 'a \<Rightarrow> bool" where
  "is_ok (Inr _) = True"
| "is_ok (Inl _) = False"

fun res_ok :: "'e + 'a \<Rightarrow> 'a option" where
  "res_ok (Inr a) = Some a"
| "res_ok (Inl _) = None"

definition opt_or :: "'a option \<Rightarrow> 'a option \<Rightarrow> 'a option" where
  "opt_or a b = (case a of None \<Rightarrow> b | Some x \<Rightarrow> Some x)"

definition opt_filter :: "('a \<Rightarrow> bool) \<Rightarrow> 'a option \<Rightarrow> 'a option" where
  "opt_filter P x = (case x of None \<Rightarrow> None | Some a \<Rightarrow> if P a then Some a else None)"

definition unwrap_or :: "'a option \<Rightarrow> 'a \<Rightarrow> 'a" where
  "unwrap_or x d = (case x of None \<Rightarrow> d | Some a \<Rightarrow> a)"

fun find_map :: "('a \<Rightarrow> 'b option) \<Rightarrow> 'a list \<Rightarrow> 'b option" where
  "find_map f [] = None"
| "find_map f (x # xs) = (case f x of None \<Rightarrow> find_map f xs | Some y \<Rightarrow> Some y)"

lemma ok_or_simps [simp]: "ok_or None e = Err e" "ok_or (Some a) e = Ok a"
  by (simp_all add: ok_or_def)

lemma res_bind_simps [simp]: "res_bind (Inl e) f = Inl e" "res_bind (Inr a) f = f a"
  by (simp_all add: res_bind_def)

lemma res_bind_Inr: "res_bind r f = Inr b \<longleftrightarrow> (\<exists>a. r = Inr a \<and> f a = Inr b)"
  by (cases r) auto

lemma opt_or_simps [simp]: "opt_or None b = b" "opt_or (Some x) b = Some x" "opt_or a None = a"
  by (auto simp: opt_or_def split: option.splits)

lemma opt_or_Some: "opt_or a b = Some x \<longleftrightarrow> a = Some x \<or> (a = None \<and> b = Some x)"
  by (cases a) auto

lemma opt_or_None [simp]: "opt_or a b = None \<longleftrightarrow> a = None \<and> b = None"
  by (cases a) auto

lemma opt_filter_simps [simp]:
  "opt_filter P None = None" "opt_filter P (Some a) = (if P a then Some a else None)"
  by (simp_all add: opt_filter_def)

lemma opt_filter_Some: "opt_filter P x = Some a \<longleftrightarrow> x = Some a \<and> P a"
  by (cases x) auto

lemma unwrap_or_simps [simp]: "unwrap_or None d = d" "unwrap_or (Some a) d = a"
  by (simp_all add: unwrap_or_def)

lemma find_map_Some: "find_map f xs = Some y \<Longrightarrow> \<exists>x \<in> set xs. f x = Some y"
  by (induction xs) (auto split: option.splits)

lemma find_map_None: "find_map f xs = None \<longleftrightarrow> (\<forall>x \<in> set xs. f x = None)"
  by (induction xs) (auto split: option.splits)

section \<open>Ordered maps\<close>

type_synonym ('k, 'v) btree = "('k \<times> 'v) list"

fun bt_insert :: "'k::linorder \<Rightarrow> 'v \<Rightarrow> ('k, 'v) btree \<Rightarrow> ('k, 'v) btree" where
  "bt_insert k v [] = [(k, v)]"
| "bt_insert k v ((k', v') # m) =
     (if k = k' then (k, v) # m
      else if k < k' then (k, v) # (k', v') # m
      else (k', v') # bt_insert k v m)"

definition bt_get :: "('k, 'v) btree \<Rightarrow> 'k \<Rightarrow> 'v option" where
  "bt_get m k = map_of m k"

definition bt_remove :: "'k \<Rightarrow> ('k, 'v) btree \<Rightarrow> ('k, 'v) btree" where
  "bt_remove k m = filter (\<lambda>(k', _). k' \<noteq> k) m"

definition bt_has :: "('k, 'v) btree \<Rightarrow> 'k \<Rightarrow> bool" where
  "bt_has m k = (bt_get m k \<noteq> None)"

definition bt_entry_or :: "'k::linorder \<Rightarrow> 'v \<Rightarrow> ('k, 'v) btree \<Rightarrow> ('k, 'v) btree" where
  "bt_entry_or k v m = (if bt_has m k then m else bt_insert k v m)"

fun bt_extend :: "('k::linorder \<times> 'v) list \<Rightarrow> ('k, 'v) btree \<Rightarrow> ('k, 'v) btree" where
  "bt_extend [] m = m"
| "bt_extend ((k, v) # kvs) m = bt_extend kvs (bt_insert k v m)"

definition bt_ok :: "('k::linorder, 'v) btree \<Rightarrow> bool" where
  "bt_ok m = sorted_wrt (<) (map fst m)"

lemma bt_get_simps [simp]:
  "bt_get [] k = None" "bt_get ((k', v) # m) k = (if k' = k then Some v else bt_get m k)"
  by (simp_all add: bt_get_def)

lemma bt_get_insert: "bt_get (bt_insert k v m) k' = (if k' = k then Some v else bt_get m k')"
  by (induction k v m rule: bt_insert.induct) auto

lemma bt_get_remove: "bt_get (bt_remove k m) k' = (if k' = k then None else bt_get m k')"
  by (induction m) (auto simp: bt_remove_def)

lemma bt_has_insert [simp]: "bt_has (bt_insert k v m) k' \<longleftrightarrow> k' = k \<or> bt_has m k'"
  by (auto simp: bt_has_def bt_get_insert)

lemma keys_bt_insert: "fst ` set (bt_insert k v m) = insert k (fst ` set m)"
  by (induction k v m rule: bt_insert.induct) auto

lemma bt_ok_Nil [simp, wf_intros]: "bt_ok []"
  by (simp add: bt_ok_def)

lemma bt_ok_Cons: "bt_ok ((k, v) # m) \<longleftrightarrow> (\<forall>k' \<in> fst ` set m. k < k') \<and> bt_ok m"
  by (auto simp: bt_ok_def)

lemma bt_ok_insert [wf_intros]: "bt_ok m \<Longrightarrow> bt_ok (bt_insert k v m)"
  by (induction k v m rule: bt_insert.induct) (auto simp: bt_ok_Cons keys_bt_insert)

lemma bt_ok_remove [wf_intros]: "bt_ok m \<Longrightarrow> bt_ok (bt_remove k m)"
  by (induction m) (auto simp: bt_ok_Cons bt_remove_def)

lemma bt_ok_entry_or [wf_intros]: "bt_ok m \<Longrightarrow> bt_ok (bt_entry_or k v m)"
  by (simp add: bt_entry_or_def bt_ok_insert)

lemma bt_ok_extend [wf_intros]: "bt_ok m \<Longrightarrow> bt_ok (bt_extend kvs m)"
  by (induction kvs m rule: bt_extend.induct) (auto intro: bt_ok_insert)

lemma bt_get_entry_or:
  "bt_get (bt_entry_or k v m) k' = (if k' = k then opt_or (bt_get m k) (Some v) else bt_get m k')"
  by (auto simp: bt_entry_or_def bt_has_def bt_get_insert)

lemma bt_get_Some_in: "bt_get m k = Some v \<Longrightarrow> (k, v) \<in> set m"
  by (simp add: bt_get_def map_of_SomeD)

lemma bt_get_None: "bt_get m k = None \<longleftrightarrow> k \<notin> fst ` set m"
  by (simp add: bt_get_def map_of_eq_None_iff)

lemma bt_ok_distinct: "bt_ok m \<Longrightarrow> distinct (map fst m)"
  by (simp add: bt_ok_def strict_sorted_iff)

lemma bt_get_in: "bt_ok m \<Longrightarrow> (k, v) \<in> set m \<Longrightarrow> bt_get m k = Some v"
  by (simp add: bt_get_def bt_ok_distinct)

lemma set_bt_insert: "set (bt_insert k v m) \<subseteq> insert (k, v) (set m)"
  by (induction k v m rule: bt_insert.induct) auto

text \<open>From here on inserts stay symbolic: lookups go through \<open>bt_get_insert\<close>.\<close>

declare bt_insert.simps [simp del]

section \<open>The map contract\<close>

text \<open>
  What the code's clients rely on when they hold a \<open>BTreeMap\<close> or a JSON object: lookup after an
  insert and the invariant of the representation. The derived lemmas describe the idiom
  \<open>if map.get(k).is_none() { map.insert(k, v) }\<close> once for every value type.
\<close>

locale keyed_store =
  fixes get :: "'m \<Rightarrow> 'k \<Rightarrow> 'v option"
    and ins :: "'k \<Rightarrow> 'v \<Rightarrow> 'm \<Rightarrow> 'm"
    and inv :: "'m \<Rightarrow> bool"
  assumes get_ins: "get (ins k v m) k' = (if k' = k then Some v else get m k')"
    and inv_ins: "inv m \<Longrightarrow> inv (ins k v m)"
begin

lemma get_guarded:
  "get (if get m k = None then ins k v m else m) k' =
     (if k' = k \<and> get m k = None then Some v else get m k')"
  by (simp add: get_ins)

lemma guarded_keeps: "get m k' = Some w \<Longrightarrow> get (if get m k = None then ins k v m else m) k' = Some w"
  by (auto simp: get_ins)

lemma guarded_again:
  "get (if get m k = None then ins k v m else m) k \<noteq> None"
  by (simp add: get_ins)

lemma inv_guarded: "inv m \<Longrightarrow> inv (if get m k = None then ins k v m else m)"
  by (simp add: inv_ins)

end

interpretation bt: keyed_store "bt_get :: ('k::linorder, 'v) btree \<Rightarrow> 'k \<Rightarrow> 'v option" bt_insert bt_ok
  by unfold_locales (auto simp: bt_get_insert bt_ok_insert)

section \<open>Stable descending sort\<close>

text \<open>
  Rust's \<open>sort_by\<close> is stable; the router calls it with the comparison reversed. The library's
  \<^const>\<open>sort_key\<close> is stable and ascending, so a stable descending sort reverses, sorts and reverses.
\<close>

definition sort_desc :: "('a \<Rightarrow> nat) \<Rightarrow> 'a list \<Rightarrow> 'a list" where
  "sort_desc f xs = rev (sort_key f (rev xs))"

lemma mset_sort_desc [simp]: "mset (sort_desc f xs) = mset xs"
  by (simp add: sort_desc_def)

lemma set_sort_desc [simp]: "set (sort_desc f xs) = set xs"
  by (simp add: sort_desc_def)

lemma length_sort_desc [simp]: "length (sort_desc f xs) = length xs"
  by (simp add: sort_desc_def)

lemma sort_desc_Nil_iff [simp]: "sort_desc f xs = [] \<longleftrightarrow> xs = []"
  by (metis length_sort_desc length_0_conv)

lemma sorted_sort_desc: "sorted_wrt (\<lambda>a b. f b \<le> f a) (sort_desc f xs)"
  using sorted_sort_key[of f "rev xs"]
  by (simp add: sort_desc_def sorted_wrt_rev sorted_map)

lemma sort_desc_stable: "filter (\<lambda>x. f x = k) (sort_desc f xs) = filter (\<lambda>x. f x = k) xs"
  by (simp add: sort_desc_def rev_filter [symmetric] sort_key_stable)

end
