(* ===== verification/RustStr.thy ===== *)
theory RustStr imports Prelude "HOL-Library.Word" begin

text \<open>
  The operations of Rust's \<open>str\<close> and \<open>String\<close> that the code uses. A \<open>String\<close> is its UTF-8 bytes, so
  it is a \<^typ>\<open>string\<close> whose characters are the bytes: \<open>len\<close> is \<^const>\<open>length\<close>, equality, order, \<open>find\<close>,
  \<open>split\<close> and slicing at a match act on bytes exactly as in Rust. Operations on Unicode scalar values
  (\<open>chars\<close>, \<open>trim\<close>, \<open>char::is_whitespace\<close>) go through \<open>chars\<close>, which cuts the bytes at the
  continuation bytes \<open>10xxxxxx\<close>; a scalar value is the string of its one to four bytes.
  Patterns passed to \<open>split_str\<close> and \<open>replace\<close> are non-empty in the code.
\<close>

section \<open>Bytes\<close>

definition byte :: "char \<Rightarrow> nat" where
  "byte c = of_char c"

fun is_cont :: "char \<Rightarrow> bool" where
  "is_cont (Char b0 b1 b2 b3 b4 b5 b6 b7) = (b7 \<and> \<not> b6)"

definition is_ascii_digit :: "char \<Rightarrow> bool" where
  "is_ascii_digit c = (48 \<le> byte c \<and> byte c \<le> 57)"

definition is_ascii_upper :: "char \<Rightarrow> bool" where
  "is_ascii_upper c = (65 \<le> byte c \<and> byte c \<le> 90)"

definition is_ascii_lower :: "char \<Rightarrow> bool" where
  "is_ascii_lower c = (97 \<le> byte c \<and> byte c \<le> 122)"

definition is_ascii_alphanumeric :: "char \<Rightarrow> bool" where
  "is_ascii_alphanumeric c = (is_ascii_digit c \<or> is_ascii_upper c \<or> is_ascii_lower c)"

definition lower_byte :: "char \<Rightarrow> char" where
  "lower_byte c = (if is_ascii_upper c then char_of (byte c + 32) else c)"

definition to_ascii_lowercase :: "string \<Rightarrow> string" where
  "to_ascii_lowercase s = map lower_byte s"

definition eq_ignore_ascii_case :: "string \<Rightarrow> string \<Rightarrow> bool" where
  "eq_ignore_ascii_case s t = (to_ascii_lowercase s = to_ascii_lowercase t)"

section \<open>Searching and splitting\<close>

fun strip_prefix :: "string \<Rightarrow> string \<Rightarrow> string option" where
  "strip_prefix [] s = Some s"
| "strip_prefix (p # ps) [] = None"
| "strip_prefix (p # ps) (c # cs) = (if p = c then strip_prefix ps cs else None)"

definition starts_with :: "string \<Rightarrow> string \<Rightarrow> bool" where
  "starts_with p s = (strip_prefix p s \<noteq> None)"

definition strip_suffix :: "string \<Rightarrow> string \<Rightarrow> string option" where
  "strip_suffix p s = map_option rev (strip_prefix (rev p) (rev s))"

definition ends_with :: "string \<Rightarrow> string \<Rightarrow> bool" where
  "ends_with p s = starts_with (rev p) (rev s)"

fun str_find :: "string \<Rightarrow> string \<Rightarrow> nat option" where
  "str_find p [] = (if p = [] then Some 0 else None)"
| "str_find p (c # cs) = (if starts_with p (c # cs) then Some 0 else map_option Suc (str_find p cs))"

definition str_contains :: "string \<Rightarrow> string \<Rightarrow> bool" where
  "str_contains p s = (str_find p s \<noteq> None)"

definition split_once :: "string \<Rightarrow> string \<Rightarrow> (string \<times> string) option" where
  "split_once p s = map_option (\<lambda>i. (take i s, drop (i + length p) s)) (str_find p s)"

definition rsplit_once :: "string \<Rightarrow> string \<Rightarrow> (string \<times> string) option" where
  "rsplit_once p s = map_option (\<lambda>(a, b). (rev b, rev a)) (split_once (rev p) (rev s))"

fun split_on :: "char \<Rightarrow> string \<Rightarrow> string list" where
  "split_on c [] = [[]]"
| "split_on c (x # xs) =
     (if x = c then [] # split_on c xs
      else (case split_on c xs of [] \<Rightarrow> [[x]] | y # ys \<Rightarrow> (x # y) # ys))"

lemma strip_prefix_Some: "strip_prefix p s = Some r \<longleftrightarrow> s = p @ r"
  by (induction p s rule: strip_prefix.induct) auto

lemma starts_with_iff: "starts_with p s \<longleftrightarrow> (\<exists>r. s = p @ r)"
  by (auto simp: starts_with_def strip_prefix_Some)

lemma str_find_split: "str_find p s = Some i \<Longrightarrow> \<exists>r. s = take i s @ p @ r \<and> i + length p \<le> length s"
proof (induction p s arbitrary: i rule: str_find.induct)
  case (1 p)
  then show ?case by (auto split: if_splits)
next
  case (2 p c cs)
  show ?case
  proof (cases "starts_with p (c # cs)")
    case True
    then obtain r where "c # cs = p @ r" by (auto simp: starts_with_iff)
    then have "length p \<le> length (c # cs)" by (metis le_add1 length_append)
    moreover have "i = 0" using True 2 by simp
    ultimately show ?thesis using \<open>c # cs = p @ r\<close> by (intro exI[of _ r]) simp
  next
    case False
    with 2 obtain j where j: "str_find p cs = Some j" "i = Suc j" by auto
    from 2(1)[OF False j(1)] j show ?thesis by auto
  qed
qed

lemma split_once_shorter: "split_once p s = Some (a, b) \<Longrightarrow> p \<noteq> [] \<Longrightarrow> length b < length s"
  by (cases p) (auto simp: split_once_def dest!: str_find_split)

function split_str :: "string \<Rightarrow> string \<Rightarrow> string list" where
  "split_str p s =
     (if p = [] then [s]
      else (case split_once p s of None \<Rightarrow> [s] | Some (a, b) \<Rightarrow> a # split_str p b))"
  by pat_completeness auto
termination
  by (relation "measure (\<lambda>(p, s). length s)") (auto simp: split_once_shorter)

declare split_str.simps [simp del]

fun join_with :: "string \<Rightarrow> string list \<Rightarrow> string" where
  "join_with sep [] = []"
| "join_with sep [x] = x"
| "join_with sep (x # y # xs) = x @ sep @ join_with sep (y # xs)"

definition replace_str :: "string \<Rightarrow> string \<Rightarrow> string \<Rightarrow> string" where
  "replace_str p w s = join_with w (split_str p s)"

section \<open>Unicode scalar values\<close>

function chars :: "string \<Rightarrow> string list" where
  "chars [] = []"
| "chars (c # cs) = (c # takeWhile is_cont cs) # chars (dropWhile is_cont cs)"
  by pat_completeness auto
termination
  by (relation "measure length") (auto simp: less_Suc_eq_le length_dropWhile_le)

definition char_count :: "string \<Rightarrow> nat" where
  "char_count s = length (chars s)"

definition take_chars :: "nat \<Rightarrow> string \<Rightarrow> string" where
  "take_chars n s = concat (take n (chars s))"

text \<open>The scalar values with the Unicode property \<open>White_Space\<close>, in UTF-8.\<close>

definition white_space :: "string list" where
  "white_space =
     [[CHR 0x20], [CHR 0x0A], [CHR 0x09], [CHR 0x0D], [CHR 0x0B], [CHR 0x0C],
      [CHR 0xC2, CHR 0x85], [CHR 0xC2, CHR 0xA0], [CHR 0xE1, CHR 0x9A, CHR 0x80],
      [CHR 0xE2, CHR 0x80, CHR 0x80], [CHR 0xE2, CHR 0x80, CHR 0x81], [CHR 0xE2, CHR 0x80, CHR 0x82],
      [CHR 0xE2, CHR 0x80, CHR 0x83], [CHR 0xE2, CHR 0x80, CHR 0x84], [CHR 0xE2, CHR 0x80, CHR 0x85],
      [CHR 0xE2, CHR 0x80, CHR 0x86], [CHR 0xE2, CHR 0x80, CHR 0x87], [CHR 0xE2, CHR 0x80, CHR 0x88],
      [CHR 0xE2, CHR 0x80, CHR 0x89], [CHR 0xE2, CHR 0x80, CHR 0x8A], [CHR 0xE2, CHR 0x80, CHR 0xA8],
      [CHR 0xE2, CHR 0x80, CHR 0xA9], [CHR 0xE2, CHR 0x80, CHR 0xAF], [CHR 0xE2, CHR 0x81, CHR 0x9F],
      [CHR 0xE3, CHR 0x80, CHR 0x80]]"

definition is_white_space :: "string \<Rightarrow> bool" where
  "is_white_space ch = List.member white_space ch"

definition is_control :: "string \<Rightarrow> bool" where
  "is_control ch =
     (case ch of
        [c] \<Rightarrow> byte c < 32 \<or> byte c = 127
      | [c, d] \<Rightarrow> byte c = 194 \<and> 128 \<le> byte d \<and> byte d \<le> 159
      | _ \<Rightarrow> False)"

definition trim_start_matches :: "(string \<Rightarrow> bool) \<Rightarrow> string \<Rightarrow> string" where
  "trim_start_matches P s = concat (dropWhile P (chars s))"

definition trim_end_matches :: "(string \<Rightarrow> bool) \<Rightarrow> string \<Rightarrow> string" where
  "trim_end_matches P s = concat (rev (dropWhile P (rev (chars s))))"

definition trim_start :: "string \<Rightarrow> string" where
  "trim_start s = trim_start_matches is_white_space s"

definition trim_end :: "string \<Rightarrow> string" where
  "trim_end s = trim_end_matches is_white_space s"

definition trim :: "string \<Rightarrow> string" where
  "trim s = concat (rev (dropWhile is_white_space (rev (dropWhile is_white_space (chars s)))))"

definition blank :: "string \<Rightarrow> bool" where
  "blank s = (trim s = [])"

fun words_of :: "string list \<Rightarrow> string \<Rightarrow> string list" where
  "words_of [] w = (if w = [] then [] else [w])"
| "words_of (ch # chs) w =
     (if is_white_space ch then (if w = [] then words_of chs [] else w # words_of chs [])
      else words_of chs (w @ ch))"

definition split_whitespace :: "string \<Rightarrow> string list" where
  "split_whitespace s = words_of (chars s) []"

section \<open>Numbers\<close>

definition digit_char :: "nat \<Rightarrow> char" where
  "digit_char d = char_of (48 + d)"

fun show_nat :: "nat \<Rightarrow> string" where
  "show_nat n = (if n < 10 then [digit_char n] else show_nat (n div 10) @ [digit_char (n mod 10)])"

declare show_nat.simps [simp del]

definition digits_value :: "string \<Rightarrow> nat" where
  "digits_value s = foldl (\<lambda>n c. 10 * n + (byte c - 48)) 0 s"

definition parse_uint :: "nat \<Rightarrow> string \<Rightarrow> nat option" where
  "parse_uint limit s =
     (let ds = (case s of [] \<Rightarrow> [] | c # cs \<Rightarrow> if c = CHR ''+'' then cs else s)
      in if ds \<noteq> [] \<and> list_all is_ascii_digit ds \<and> digits_value ds \<le> limit
         then Some (digits_value ds) else None)"

definition u8_max :: nat where "u8_max = 255"
definition u64_max :: nat where "u64_max = 18446744073709551615"

section \<open>Facts about searching\<close>

lemma starts_with_self_append [simp]: "starts_with p (p @ r)"
  by (auto simp: starts_with_iff)

lemma starts_with_Nil [simp]: "starts_with [] s"
  by (simp add: starts_with_def)

lemma strip_suffix_Some: "strip_suffix p s = Some r \<longleftrightarrow> s = r @ p"
  by (auto simp: strip_suffix_def strip_prefix_Some rev_eq_append_conv) (metis rev_append rev_rev_ident)

lemma ends_with_iff: "ends_with p s \<longleftrightarrow> (\<exists>r. s = r @ p)"
  by (simp add: ends_with_def starts_with_iff rev_eq_append_conv) (metis rev_rev_ident)

lemma str_find_Nil [simp]: "str_find [] s = Some 0"
  by (cases s) auto

lemma str_find_append: "\<exists>i \<le> length a. str_find p (a @ p @ b) = Some i"
proof (induction a)
  case Nil
  show ?case by (cases p; cases b) (auto simp: starts_with_iff)
next
  case (Cons c a)
  then obtain i where "i \<le> length a" "str_find p (a @ p @ b) = Some i" by auto
  then show ?case by (cases "starts_with p (c # a @ p @ b)") auto
qed

lemma str_find_None: "str_find p s = None \<longleftrightarrow> (\<nexists>a b. s = a @ p @ b)"
proof
  assume "str_find p s = None"
  then show "\<nexists>a b. s = a @ p @ b" using str_find_append by (metis option.distinct(1))
next
  assume "\<nexists>a b. s = a @ p @ b"
  then show "str_find p s = None"
    by (cases "str_find p s") (use str_find_split in fastforce)+
qed

lemma str_contains_iff: "str_contains p s \<longleftrightarrow> (\<exists>a b. s = a @ p @ b)"
  using str_find_None[of p s] by (auto simp: str_contains_def)

lemma split_once_Some: "split_once p s = Some (a, b) \<Longrightarrow> s = a @ p @ b"
proof -
  assume "split_once p s = Some (a, b)"
  then obtain i where i: "str_find p s = Some i" "a = take i s" "b = drop (i + length p) s"
    by (auto simp: split_once_def)
  from str_find_split[OF i(1)] obtain r where r: "s = take i s @ p @ r" "i + length p \<le> length s" by auto
  then have "b = r" using i
    by (metis add_diff_cancel_left' append_assoc append_eq_conv_conj drop_drop length_append
        length_take min.absorb2 add_leD1 add.commute)
  with r i show ?thesis by simp
qed

lemma split_once_None: "split_once p s = None \<longleftrightarrow> \<not> str_contains p s"
  by (auto simp: split_once_def str_contains_def)

lemma split_str_not_Nil [simp]: "split_str p s \<noteq> []"
  by (subst split_str.simps) (auto split: option.splits)

lemma split_on_not_Nil [simp]: "split_on c s \<noteq> []"
  by (induction s) (auto split: list.splits)

text \<open>Cutting at a separator and joining with it again gives the text back.\<close>

lemma join_split_str: "join_with p (split_str p s) = s"
proof (induction p s rule: split_str.induct)
  case (1 p s)
  show ?case
  proof (cases "p = [] \<or> split_once p s = None")
    case True
    then show ?thesis by (subst split_str.simps) auto
  next
    case False
    then obtain a b where ab: "split_once p s = Some (a, b)" "p \<noteq> []" by auto
    obtain y ys where y: "split_str p b = y # ys" by (cases "split_str p b") auto
    have "join_with p (split_str p b) = b" using 1 ab by auto
    then show ?thesis using ab y split_once_Some[OF ab(1)]
      by (subst split_str.simps) simp
  qed
qed

section \<open>Facts about scalar values\<close>

lemma concat_chars [simp]: "concat (chars s) = s"
  by (induction s rule: chars.induct) auto

lemma chars_Nil_iff [simp]: "chars s = [] \<longleftrightarrow> s = []"
  by (cases s) auto

text \<open>A list of pieces is a decomposition into scalar values: each piece is one lead byte and its
  continuation bytes, and every piece but the first starts with a byte that continues nothing.\<close>

fun scalar_tail :: "string list \<Rightarrow> bool" where
  "scalar_tail [] = True"
| "scalar_tail (ch # chs) = (ch \<noteq> [] \<and> \<not> is_cont (hd ch) \<and> list_all is_cont (tl ch) \<and> scalar_tail chs)"

fun scalar_list :: "string list \<Rightarrow> bool" where
  "scalar_list [] = True"
| "scalar_list (ch # chs) = (ch \<noteq> [] \<and> list_all is_cont (tl ch) \<and> scalar_tail chs)"

lemma scalar_tail_imp: "scalar_tail chs \<Longrightarrow> scalar_list chs"
  by (cases chs) auto

lemma list_all_takeWhile: "list_all P (takeWhile P xs)"
  by (induction xs) auto

lemma scalar_tail_chars_dropWhile: "scalar_list (chars s) \<Longrightarrow> (s \<noteq> [] \<Longrightarrow> \<not> is_cont (hd s)) \<Longrightarrow> scalar_tail (chars s)"
  by (cases s) auto

lemma scalar_list_chars: "scalar_list (chars s)"
proof (induction s rule: chars.induct)
  case (2 c cs)
  then have "scalar_tail (chars (dropWhile is_cont cs))"
    by (intro scalar_tail_chars_dropWhile) (simp, rule hd_dropWhile, simp)
  then show ?case by (simp add: list_all_takeWhile)
qed simp

lemma scalar_tail_concat: "scalar_tail chs \<Longrightarrow> concat chs \<noteq> [] \<Longrightarrow> \<not> is_cont (hd (concat chs))"
  by (cases chs) auto

lemma takeWhile_boundary: "list_all P xs \<Longrightarrow> (ys \<noteq> [] \<Longrightarrow> \<not> P (hd ys)) \<Longrightarrow>
    takeWhile P (xs @ ys) = xs \<and> dropWhile P (xs @ ys) = ys"
  by (induction xs; cases ys) auto

lemma chars_concat_append:
  "scalar_list chs \<Longrightarrow> (t \<noteq> [] \<Longrightarrow> \<not> is_cont (hd t)) \<Longrightarrow> chars (concat chs @ t) = chs @ chars t"
proof (induction chs)
  case (Cons ch chs)
  then have tl: "scalar_tail chs" "ch \<noteq> []" "list_all is_cont (tl ch)" by auto
  then obtain c r where ch: "ch = c # r" by (cases ch) auto
  have "takeWhile is_cont (r @ concat chs @ t) = r \<and> dropWhile is_cont (r @ concat chs @ t) = concat chs @ t"
  proof (rule takeWhile_boundary)
    show "list_all is_cont r" using tl ch by simp
    show "concat chs @ t \<noteq> [] \<Longrightarrow> \<not> is_cont (hd (concat chs @ t))"
      using scalar_tail_concat[OF tl(1)] Cons.prems(2)
      by (cases "concat chs = []") (simp_all del: concat_eq_Nil_conv)
  qed
  moreover have "chars (concat chs @ t) = chs @ chars t"
    using Cons.IH[OF scalar_tail_imp[OF tl(1)] Cons.prems(2)] .
  ultimately show ?case by (simp add: ch)
qed simp

lemma scalar_tail_take: "scalar_tail chs \<Longrightarrow> scalar_tail (take n chs)"
  by (induction chs arbitrary: n) (auto simp: take_Cons split: nat.splits)

lemma scalar_list_take: "scalar_list chs \<Longrightarrow> scalar_list (take n chs)"
  by (cases chs; cases n) (auto simp: scalar_tail_take)

lemma chars_take_chars: "chars (take_chars n s) = take n (chars s)"
  using chars_concat_append[of "take n (chars s)" "[]"] scalar_list_take[OF scalar_list_chars]
  by (simp add: take_chars_def)

lemma chars_take_chars_append:
  "t \<noteq> [] \<Longrightarrow> \<not> is_cont (hd t) \<Longrightarrow> chars (take_chars n s @ t) = take n (chars s) @ chars t"
  by (simp add: take_chars_def chars_concat_append scalar_list_take scalar_list_chars)

lemma chars_append:
  "(t \<noteq> [] \<Longrightarrow> \<not> is_cont (hd t)) \<Longrightarrow> chars (s @ t) = chars s @ chars t"
  using chars_concat_append[OF scalar_list_chars, of t s] by simp

lemma take_chars_prefix: "\<exists>r. s = take_chars n s @ r"
  by (metis append_take_drop_id concat_append concat_chars take_chars_def)

lemma length_chars_le: "char_count s \<le> length s"
  unfolding char_count_def
  by (induction s rule: chars.induct) (auto, meson le_trans length_dropWhile_le)

section \<open>Facts about numbers\<close>

lemma byte_digit_char: "d < 10 \<Longrightarrow> byte (digit_char d) = 48 + d"
  by (simp add: byte_def digit_char_def)

lemma digits_value_snoc: "digits_value (s @ [c]) = 10 * digits_value s + (byte c - 48)"
  by (simp add: digits_value_def)

lemma digits_value_show: "digits_value (show_nat n) = n"
proof (induction n rule: show_nat.induct)
  case (1 n)
  then show ?case
    by (subst show_nat.simps)
       (auto simp: digits_value_snoc byte_digit_char, simp add: digits_value_def byte_digit_char)
qed

lemma is_ascii_digit_char: "d < 10 \<Longrightarrow> is_ascii_digit (digit_char d)"
  by (simp add: is_ascii_digit_def byte_digit_char)

lemma show_nat_digits: "list_all is_ascii_digit (show_nat n) \<and> show_nat n \<noteq> []"
proof (induction n rule: show_nat.induct)
  case (1 n)
  then show ?case
    by (subst (1 2) show_nat.simps) (auto simp: is_ascii_digit_char)
qed

lemma parse_show_nat: "n \<le> limit \<Longrightarrow> parse_uint limit (show_nat n) = Some n"
proof -
  assume n: "n \<le> limit"
  obtain c cs where c: "show_nat n = c # cs" using show_nat_digits[of n] by (cases "show_nat n") auto
  then have "is_ascii_digit c" using show_nat_digits[of n] by simp
  then have "c \<noteq> CHR ''+''" by (auto simp: is_ascii_digit_def byte_def)
  then show ?thesis using n show_nat_digits[of n] digits_value_show[of n] c by (simp add: parse_uint_def Let_def)
qed

lemma parse_uint_le: "parse_uint limit s = Some n \<Longrightarrow> n \<le> limit"
  by (auto simp: parse_uint_def Let_def split: if_splits)

end
