(* ===== verification/CircuitBreaker.thy ===== *)
theory CircuitBreaker imports Prelude begin

text \<open>
  The circuit breaker of \<open>src/core/circuit_breaker.rs\<close>. An \<open>Instant\<close> is a natural number of clock
  ticks and the clock reading of \<open>Instant::now()\<close> / \<open>elapsed()\<close> is an argument \<open>now\<close>
  (\<open>elapsed\<close> saturates at zero, as the subtraction of \<^typ>\<open>nat\<close>). \<open>consecutive_failures\<close> is the code's
  \<open>u32\<close>; the invariant \<open>breaker_inv\<close> bounds it by the threshold, so its increment does not overflow.
\<close>

datatype circuit_state = Closed | Open nat | HalfOpen

record circuit_transition =
  tr_from :: string
  tr_to :: string

record circuit_breaker =
  cb_state :: circuit_state
  consecutive_failures :: nat
  failure_threshold :: nat
  cooldown :: nat

definition breaker_new :: "nat \<Rightarrow> nat \<Rightarrow> circuit_breaker" where
  "breaker_new threshold cd =
     \<lparr>cb_state = Closed, consecutive_failures = 0, failure_threshold = threshold, cooldown = cd\<rparr>"

fun state_name :: "circuit_state \<Rightarrow> string" where
  "state_name Closed = ''closed''"
| "state_name (Open t) = ''open''"
| "state_name HalfOpen = ''half-open''"

text \<open>The transition both \<open>record_\<close> operations report: the two names when they differ.\<close>

definition transition_report :: "string \<Rightarrow> circuit_breaker \<Rightarrow> circuit_transition option" where
  "transition_report previous b =
     (if previous \<noteq> state_name (cb_state b)
      then Some \<lparr>tr_from = previous, tr_to = state_name (cb_state b)\<rparr> else None)"

definition allow_request :: "nat \<Rightarrow> circuit_breaker \<Rightarrow> circuit_breaker \<times> bool \<times> circuit_transition option" where
  "allow_request now b =
     (case cb_state b of
        Closed \<Rightarrow> (b, True, None)
      | HalfOpen \<Rightarrow> (b, True, None)
      | Open opened_at \<Rightarrow>
          if cooldown b \<le> now - opened_at
          then (let previous = state_name (cb_state b);
                    b' = b\<lparr>cb_state := HalfOpen\<rparr>
                in (b', True, Some \<lparr>tr_from = previous, tr_to = state_name (cb_state b')\<rparr>))
          else (b, False, None))"

definition record_success :: "circuit_breaker \<Rightarrow> circuit_breaker \<times> circuit_transition option" where
  "record_success b =
     (let previous = state_name (cb_state b);
          b' = b\<lparr>consecutive_failures := 0, cb_state := Closed\<rparr>
      in (b', transition_report previous b'))"

definition record_failure :: "nat \<Rightarrow> circuit_breaker \<Rightarrow> circuit_breaker \<times> circuit_transition option" where
  "record_failure now b =
     (let previous = state_name (cb_state b);
          b' = (case cb_state b of
                  Closed \<Rightarrow>
                    (let c = b\<lparr>consecutive_failures := consecutive_failures b + 1\<rparr>
                     in if failure_threshold c \<le> consecutive_failures c
                        then c\<lparr>cb_state := Open now\<rparr> else c)
                | HalfOpen \<Rightarrow> b\<lparr>cb_state := Open now\<rparr>
                | Open _ \<Rightarrow> b)
      in (b', transition_report previous b'))"

section \<open>Runs\<close>

text \<open>The calls a client makes, in order, each with its clock reading.\<close>

datatype breaker_op = Allow nat | Success | Failure nat

fun breaker_step :: "circuit_breaker \<Rightarrow> breaker_op \<Rightarrow> circuit_breaker" where
  "breaker_step b (Allow now) = fst (allow_request now b)"
| "breaker_step b Success = fst (record_success b)"
| "breaker_step b (Failure now) = fst (record_failure now b)"

definition breaker_run :: "circuit_breaker \<Rightarrow> breaker_op list \<Rightarrow> circuit_breaker" where
  "breaker_run b ops = foldl breaker_step b ops"

text \<open>What each call reports as a transition, for the log of state names.\<close>

fun op_report :: "circuit_breaker \<Rightarrow> breaker_op \<Rightarrow> circuit_transition option" where
  "op_report b (Allow now) = snd (snd (allow_request now b))"
| "op_report b Success = snd (record_success b)"
| "op_report b (Failure now) = snd (record_failure now b)"

definition breaker_inv :: "circuit_breaker \<Rightarrow> bool" where
  "breaker_inv b =
     (consecutive_failures b \<le> max 1 (failure_threshold b) \<and>
      (cb_state b = Closed \<longrightarrow> consecutive_failures b < max 1 (failure_threshold b)))"

section \<open>Lemmas\<close>

lemmas breaker_defs = allow_request_def record_success_def record_failure_def transition_report_def

lemma breaker_inv_new: "breaker_inv (breaker_new k cd)"
  by (simp add: breaker_inv_def breaker_new_def)

lemma breaker_step_frame:
  "failure_threshold (breaker_step b e) = failure_threshold b \<and> cooldown (breaker_step b e) = cooldown b"
  by (cases e; cases "cb_state b") (auto simp: breaker_defs Let_def)

lemma breaker_step_inv [wf_intros]: "breaker_inv b \<Longrightarrow> breaker_inv (breaker_step b e)"
  by (cases e; cases "cb_state b") (auto simp: breaker_defs breaker_inv_def Let_def)

lemma breaker_run_inv: "breaker_inv b \<Longrightarrow> breaker_inv (breaker_run b ops)"
  by (induction ops arbitrary: b) (auto simp: breaker_run_def breaker_step_inv)

lemma breaker_run_Cons: "breaker_run b (e # ops) = breaker_run (breaker_step b e) ops"
  by (simp add: breaker_run_def)

lemma breaker_run_frame: "failure_threshold (breaker_run b ops) = failure_threshold b \<and>
    cooldown (breaker_run b ops) = cooldown b"
  by (induction ops arbitrary: b) (auto simp: breaker_run_def breaker_step_frame)

lemma op_report_iff:
  "op_report b e = Some \<lparr>tr_from = p, tr_to = q\<rparr> \<longleftrightarrow>
     p = state_name (cb_state b) \<and> q = state_name (cb_state (breaker_step b e)) \<and> p \<noteq> q"
  by (cases e; cases "cb_state b") (auto simp: breaker_defs Let_def)

lemma op_report_None:
  "op_report b e = None \<longleftrightarrow> state_name (cb_state b) = state_name (cb_state (breaker_step b e))"
  by (cases e; cases "cb_state b") (auto simp: breaker_defs Let_def)

lemma failures_closed:
  "cb_state b = Closed \<Longrightarrow> consecutive_failures b + length ts < max 1 (failure_threshold b) \<Longrightarrow>
   breaker_run b (map Failure ts) = b\<lparr>consecutive_failures := consecutive_failures b + length ts\<rparr>"
proof (induction ts arbitrary: b)
  case (Cons t ts)
  have step: "breaker_step b (Failure t) = b\<lparr>consecutive_failures := consecutive_failures b + 1\<rparr>"
    using Cons.prems by (auto simp: breaker_defs Let_def)
  then show ?case using Cons by (simp add: breaker_run_Cons)
qed (simp add: breaker_run_def)

section \<open>Properties\<close>

text \<open>
  The breaker trips exactly on the failure that reaches the threshold: from a closed breaker with
  no failures counted, any run of failures shorter than the threshold leaves it closed, and the run
  that reaches it opens it at the clock reading of its last failure.
\<close>

theorem breaker_trips_at_threshold:
  assumes "cb_state b = Closed" and "consecutive_failures b = 0" and "0 < failure_threshold b"
    and "length ts + 1 = failure_threshold b"
  shows "cb_state (breaker_run b (map Failure ts)) = Closed \<and>
         cb_state (breaker_run b (map Failure (ts @ [t]))) = Open t"
proof -
  have run: "breaker_run b (map Failure ts) = b\<lparr>consecutive_failures := length ts\<rparr>"
    using failures_closed[of b ts] assms by simp
  then show ?thesis using assms
    by (simp add: breaker_run_def breaker_defs Let_def)
qed

theorem breaker_trips_at_threshold_witness:
  "cb_state (breaker_run (breaker_new 3 5) (map Failure [1, 2])) = Closed \<and>
   cb_state (breaker_run (breaker_new 3 5) (map Failure ([1, 2] @ [7]))) = Open 7"
  by (rule breaker_trips_at_threshold) (simp_all add: breaker_new_def)

text \<open>
  Fail-fast window and probe: a request is refused exactly while the breaker is open and its
  cooldown has not elapsed; a refused request changes nothing, and an admitted request on an open
  breaker moves it to half-open and reports that transition.
\<close>

theorem breaker_refuses_until_cooldown:
  "allow_request now b =
     (if \<exists>t. cb_state b = Open t \<and> now - t < cooldown b then (b, False, None)
      else if \<exists>t. cb_state b = Open t
      then (b\<lparr>cb_state := HalfOpen\<rparr>, True, Some \<lparr>tr_from = ''open'', tr_to = ''half-open''\<rparr>)
      else (b, True, None))"
  by (cases "cb_state b") (auto simp: allow_request_def Let_def)

text \<open>
  The failure counter never exceeds the threshold (so the \<open>u32\<close> never overflows) and a closed
  breaker always has room for one more failure, in every state a new breaker can reach by any
  sequence of calls.
\<close>

theorem breaker_reachable_inv:
  "breaker_inv (breaker_run (breaker_new k cd) ops) \<and>
   failure_threshold (breaker_run (breaker_new k cd) ops) = k"
  using breaker_run_inv[OF breaker_inv_new] breaker_run_frame[of "breaker_new k cd" ops]
  by (simp add: breaker_new_def)

end
