(* ===== verification/RateLimit.thy ===== *)
theory RateLimit imports Prelude Complex_Main begin

text \<open>
  The token bucket and the keyed limiter of \<open>src/core/rate_limit.rs\<close>. The code's \<open>f64\<close> token counts,
  rates and delays are exact rationals here: rounding of floating-point arithmetic is not modelled,
  so the theorems state what the algorithm does in exact arithmetic. An \<open>Instant\<close> is a rational
  number of seconds, a \<open>Duration\<close> a rational number of seconds, and the clock is an argument.
\<close>

definition f64_epsilon :: rat where
  "f64_epsilon = 1 / 4503599627370496"

record token_bucket =
  capacity :: nat
  tokens :: rat
  refill_rate :: rat
  last_refill :: rat

definition bucket_new :: "rat \<Rightarrow> nat \<Rightarrow> rat \<Rightarrow> token_bucket" where
  "bucket_new now cap rate =
     \<lparr>capacity = cap, tokens = of_nat cap, refill_rate = rate, last_refill = now\<rparr>"

text \<open>\<open>duration_since\<close> saturates at zero when the clock reading is older.\<close>

definition refill :: "rat \<Rightarrow> token_bucket \<Rightarrow> token_bucket" where
  "refill now b =
     (let elapsed = max 0 (now - last_refill b)
      in b\<lparr>tokens := min (elapsed * refill_rate b + tokens b) (of_nat (capacity b)), last_refill := now\<rparr>)"

definition consume_or_delay :: "rat \<Rightarrow> nat \<Rightarrow> token_bucket \<Rightarrow> token_bucket \<times> rat" where
  "consume_or_delay now n b =
     (let b = refill now b; needed = of_nat n
      in if needed \<le> tokens b then (b\<lparr>tokens := tokens b - needed\<rparr>, 0)
         else if refill_rate b \<le> f64_epsilon then (b, 1)
         else (b\<lparr>tokens := 0\<rparr>, (needed - tokens b) / refill_rate b))"

record rate_limiter =
  buckets :: "string \<Rightarrow> token_bucket option"
  rl_capacity :: nat
  refill_per_sec :: rat

definition limiter_new :: "nat \<Rightarrow> rat \<Rightarrow> rate_limiter" where
  "limiter_new cap rate = \<lparr>buckets = (\<lambda>_. None), rl_capacity = cap, refill_per_sec = rate\<rparr>"

definition delay_for :: "rat \<Rightarrow> string \<Rightarrow> rate_limiter \<Rightarrow> rate_limiter \<times> rat" where
  "delay_for now key l =
     (let b = unwrap_or (buckets l key) (bucket_new now (rl_capacity l) (refill_per_sec l));
          (b', d) = consume_or_delay now 1 b
      in (l\<lparr>buckets := (buckets l)(key := Some b')\<rparr>, d))"

section \<open>Lemmas\<close>

definition bucket_inv :: "token_bucket \<Rightarrow> bool" where
  "bucket_inv b = (0 \<le> tokens b \<and> tokens b \<le> of_nat (capacity b) \<and> 0 \<le> refill_rate b)"

definition limiter_inv :: "rate_limiter \<Rightarrow> bool" where
  "limiter_inv l = (0 \<le> refill_per_sec l \<and> (\<forall>k b. buckets l k = Some b \<longrightarrow> bucket_inv b))"

lemma refill_inv [wf_intros]: "bucket_inv b \<Longrightarrow> bucket_inv (refill now b)"
  by (auto simp: bucket_inv_def refill_def Let_def intro!: add_nonneg_nonneg mult_nonneg_nonneg)

lemma consume_inv [wf_intros]: "bucket_inv b \<Longrightarrow> bucket_inv (fst (consume_or_delay now n b))"
  using refill_inv[of b now] by (auto simp: consume_or_delay_def Let_def bucket_inv_def)

lemma bucket_new_inv: "0 \<le> rate \<Longrightarrow> bucket_inv (bucket_new now cap rate)"
  by (simp add: bucket_inv_def bucket_new_def)

lemma f64_epsilon_pos: "0 < f64_epsilon"
  by (simp add: f64_epsilon_def)

lemma consume_delay_nonneg: "bucket_inv b \<Longrightarrow> 0 \<le> snd (consume_or_delay now n b)"
  using f64_epsilon_pos by (auto simp: consume_or_delay_def Let_def intro!: divide_nonneg_nonneg)

text \<open>One request that finds a token spends exactly one and is not delayed.\<close>

lemma consume_ready:
  "of_nat n \<le> tokens (refill now b) \<Longrightarrow>
   consume_or_delay now n b = ((refill now b)\<lparr>tokens := tokens (refill now b) - of_nat n\<rparr>, 0)"
  by (simp add: consume_or_delay_def Let_def)

text \<open>
  The limiter keeps every bucket between zero and its capacity, never answers a negative delay,
  and one key's request leaves every other key's bucket untouched.
\<close>

theorem limiter_keyed_and_bounded:
  assumes "limiter_inv l"
  shows "limiter_inv (fst (delay_for now key l)) \<and> 0 \<le> snd (delay_for now key l) \<and>
         (\<forall>k. k \<noteq> key \<longrightarrow> buckets (fst (delay_for now key l)) k = buckets l k)"
proof -
  let ?b = "unwrap_or (buckets l key) (bucket_new now (rl_capacity l) (refill_per_sec l))"
  have b: "bucket_inv ?b"
    using assms by (cases "buckets l key") (auto simp: limiter_inv_def bucket_new_inv)
  obtain b' d where c: "consume_or_delay now 1 ?b = (b', d)" by fastforce
  have "bucket_inv b'" "0 \<le> d"
    using consume_inv[OF b, of now 1] consume_delay_nonneg[OF b, of now 1] c by simp_all
  then show ?thesis using assms c by (auto simp: delay_for_def limiter_inv_def Let_def)
qed

theorem limiter_keyed_and_bounded_witness:
  "limiter_inv (fst (delay_for 0 ''a'' (limiter_new 5 5))) \<and> 0 \<le> snd (delay_for 0 ''a'' (limiter_new 5 5)) \<and>
   buckets (fst (delay_for 0 ''a'' (limiter_new 5 5))) ''b'' = buckets (limiter_new 5 5) ''b''"
proof -
  have "limiter_inv (limiter_new 5 5)" by (simp add: limiter_inv_def limiter_new_def)
  from limiter_keyed_and_bounded[OF this, of 0 "''a''"] show ?thesis by simp
qed

end
