(* ===== verification/TimerWheel.thy ===== *)
theory TimerWheel imports Prelude "HOL-Library.Word" begin

text \<open>
  The hierarchical timer wheel of \<open>src/core/timer_wheel.rs\<close>: four rings of slots (60 seconds, 60
  minutes, 24 hours, 365 days), \<open>schedule\<close>, \<open>tick\<close> and the four drains it runs. A ring is a list of
  slots and a slot a list of entries in push order. Times are the code's \<open>u64\<close> milliseconds; the code
  only divides, compares and subtracts them with \<open>saturating_sub\<close>, so natural numbers lose nothing.

  \<open>delay_queue\<close> is the contract the batchers of the dispatcher rely on; the wheel implements it.
\<close>

type_synonym bytes = "8 word list"

record delayed_entry =
  deliver_at_ms :: ms
  entry_record :: bytes

record timer_wheel =
  seconds :: "delayed_entry list list"
  minutes :: "delayed_entry list list"
  hours :: "delayed_entry list list"
  days :: "delayed_entry list list"
  current_ms :: ms

definition wheel_new :: "ms \<Rightarrow> timer_wheel" where
  "wheel_new now =
     \<lparr>seconds = replicate 60 [], minutes = replicate 60 [], hours = replicate 24 [],
      days = replicate 365 [], current_ms = now\<rparr>"

definition push_slot :: "nat \<Rightarrow> 'a \<Rightarrow> 'a list list \<Rightarrow> 'a list list" where
  "push_slot i e ring = ring[i := ring ! i @ [e]]"

definition schedule :: "delayed_entry \<Rightarrow> timer_wheel \<Rightarrow> timer_wheel" where
  "schedule e w =
     (let delta = deliver_at_ms e - current_ms w
      in if delta < 60000
         then w\<lparr>seconds := push_slot ((deliver_at_ms e div 1000) mod 60) e (seconds w)\<rparr>
         else if delta < 3600000
         then w\<lparr>minutes := push_slot ((deliver_at_ms e div 60000) mod 60) e (minutes w)\<rparr>
         else if delta < 86400000
         then w\<lparr>hours := push_slot ((deliver_at_ms e div 3600000) mod 24) e (hours w)\<rparr>
         else w\<lparr>days := push_slot ((deliver_at_ms e div 86400000) mod 365) e (days w)\<rparr>)"

text \<open>The inner loop of a drain: a due entry is emitted, another one is kept by \<open>keep\<close>.\<close>

definition drain_entry ::
    "(delayed_entry \<Rightarrow> timer_wheel \<Rightarrow> timer_wheel) \<Rightarrow> ms \<Rightarrow> timer_wheel \<times> delayed_entry list \<Rightarrow>
     delayed_entry \<Rightarrow> timer_wheel \<times> delayed_entry list" where
  "drain_entry keep now wd e =
     (case wd of (w, due) \<Rightarrow>
        if deliver_at_ms e \<le> now then (w, due @ [e]) else (keep e w, due))"

definition drain_seconds :: "ms \<Rightarrow> timer_wheel \<times> delayed_entry list \<Rightarrow> timer_wheel \<times> delayed_entry list" where
  "drain_seconds now wd =
     (let old_sec = current_ms (fst wd) div 1000; new_sec = now div 1000
      in foldl (\<lambda>(w, due) second.
           let slot = second mod 60; entries = seconds w ! slot
           in foldl (drain_entry (\<lambda>e w. w\<lparr>seconds := push_slot slot e (seconds w)\<rparr>) now)
                (w\<lparr>seconds := (seconds w)[slot := []]\<rparr>, due) entries)
         wd [old_sec..<Suc new_sec])"

definition drain_minutes :: "ms \<Rightarrow> timer_wheel \<times> delayed_entry list \<Rightarrow> timer_wheel \<times> delayed_entry list" where
  "drain_minutes now wd =
     (let old = current_ms (fst wd) div 60000; new = now div 60000
      in foldl (\<lambda>(w, due) minute.
           let slot = minute mod 60; entries = minutes w ! slot
           in foldl (drain_entry schedule now) (w\<lparr>minutes := (minutes w)[slot := []]\<rparr>, due) entries)
         wd [old..<Suc new])"

definition drain_hours :: "ms \<Rightarrow> timer_wheel \<times> delayed_entry list \<Rightarrow> timer_wheel \<times> delayed_entry list" where
  "drain_hours now wd =
     (let old = current_ms (fst wd) div 3600000; new = now div 3600000
      in foldl (\<lambda>(w, due) hour.
           let slot = hour mod 24; entries = hours w ! slot
           in foldl (drain_entry schedule now) (w\<lparr>hours := (hours w)[slot := []]\<rparr>, due) entries)
         wd [old..<Suc new])"

definition drain_days :: "ms \<Rightarrow> timer_wheel \<times> delayed_entry list \<Rightarrow> timer_wheel \<times> delayed_entry list" where
  "drain_days now wd =
     (let old = current_ms (fst wd) div 86400000; new = now div 86400000
      in foldl (\<lambda>(w, due) day.
           let slot = day mod 365; entries = days w ! slot
           in foldl (drain_entry schedule now) (w\<lparr>days := (days w)[slot := []]\<rparr>, due) entries)
         wd [old..<Suc new])"

definition tick :: "ms \<Rightarrow> timer_wheel \<Rightarrow> timer_wheel \<times> delayed_entry list" where
  "tick now w =
     (let wd = drain_seconds now (w, []);
          wd = drain_minutes now wd;
          wd = drain_hours now wd;
          (w, due) = drain_days now wd
      in (w\<lparr>current_ms := now\<rparr>, due))"

section \<open>The four rings at once\<close>

datatype level = Sec | Min | Hour | Day

fun ring :: "level \<Rightarrow> timer_wheel \<Rightarrow> delayed_entry list list" where
  "ring Sec w = seconds w"
| "ring Min w = minutes w"
| "ring Hour w = hours w"
| "ring Day w = days w"

fun set_ring :: "level \<Rightarrow> delayed_entry list list \<Rightarrow> timer_wheel \<Rightarrow> timer_wheel" where
  "set_ring Sec r w = w\<lparr>seconds := r\<rparr>"
| "set_ring Min r w = w\<lparr>minutes := r\<rparr>"
| "set_ring Hour r w = w\<lparr>hours := r\<rparr>"
| "set_ring Day r w = w\<lparr>days := r\<rparr>"

fun unit_of :: "level \<Rightarrow> nat" where
  "unit_of Sec = 1000"
| "unit_of Min = 60000"
| "unit_of Hour = 3600000"
| "unit_of Day = 86400000"

fun size_of :: "level \<Rightarrow> nat" where
  "size_of Sec = 60"
| "size_of Min = 60"
| "size_of Hour = 24"
| "size_of Day = 365"

definition slot_of :: "level \<Rightarrow> delayed_entry \<Rightarrow> nat" where
  "slot_of l e = (deliver_at_ms e div unit_of l) mod size_of l"

definition slots_ok :: "timer_wheel \<Rightarrow> bool" where
  "slots_ok w = (\<forall>l. length (ring l w) = size_of l \<and>
     (\<forall>i < size_of l. \<forall>e \<in> set (ring l w ! i). slot_of l e = i))"

definition on_level :: "level \<Rightarrow> timer_wheel \<Rightarrow> delayed_entry multiset" where
  "on_level l w = mset (concat (ring l w))"

definition wheel_entries :: "timer_wheel \<Rightarrow> delayed_entry multiset" where
  "wheel_entries w = on_level Sec w + on_level Min w + on_level Hour w + on_level Day w"

text \<open>No pending entry is older than the wheel's clock: what \<open>schedule\<close> callers have to ensure.\<close>

definition wheel_inv :: "timer_wheel \<Rightarrow> bool" where
  "wheel_inv w = (slots_ok w \<and> (\<forall>e \<in># wheel_entries w. current_ms w \<le> deliver_at_ms e))"

lemma size_of_pos [simp]: "0 < size_of l"
  by (cases l) auto

lemma unit_of_pos [simp]: "0 < unit_of l"
  by (cases l) auto

lemma slot_of_less [simp]: "slot_of l e < size_of l"
  by (simp add: slot_of_def)

lemma ring_set_ring [simp]:
  "ring l (set_ring m r w) = (if l = m then r else ring l w)"
  "current_ms (set_ring m r w) = current_ms w"
  by (cases l; cases m; simp)+

lemma ring_current [simp]: "ring l (w\<lparr>current_ms := t\<rparr>) = ring l w"
  by (cases l) auto

lemma mset_concat_update:
  "i < length xs \<Longrightarrow> mset (concat (xs[i := ys])) + mset (xs ! i) = mset (concat xs) + mset ys"
proof (induction xs arbitrary: i)
  case (Cons x xs)
  then show ?case by (cases i) (auto simp: ac_simps)
qed simp

lemma mset_concat_push:
  "i < length xs \<Longrightarrow> mset (concat (push_slot i e xs)) = add_mset e (mset (concat xs))"
  using mset_concat_update[of i xs "xs ! i @ [e]"] by (simp add: push_slot_def ac_simps)

lemma wheel_entries_set_ring:
  "wheel_entries (set_ring l r w) + on_level l w = wheel_entries w + mset (concat r)"
  by (cases l) (simp_all add: wheel_entries_def on_level_def ac_simps)

lemma in_wheel_entries: "e \<in># wheel_entries w \<longleftrightarrow> (\<exists>l. e \<in># on_level l w)"
proof
  assume "e \<in># wheel_entries w"
  then show "\<exists>l. e \<in># on_level l w" by (auto simp: wheel_entries_def)
next
  assume "\<exists>l. e \<in># on_level l w"
  then obtain l where "e \<in># on_level l w" ..
  then show "e \<in># wheel_entries w" by (cases l) (auto simp: wheel_entries_def)
qed

lemma in_on_level:
  "slots_ok w \<Longrightarrow> e \<in># on_level l w \<longleftrightarrow> e \<in> set (ring l w ! slot_of l e)"
proof
  assume ok: "slots_ok w" and "e \<in># on_level l w"
  then obtain es where "es \<in> set (ring l w)" "e \<in> set es" by (auto simp: on_level_def)
  then obtain i where "i < length (ring l w)" "e \<in> set (ring l w ! i)"
    by (metis in_set_conv_nth)
  with ok show "e \<in> set (ring l w ! slot_of l e)" by (auto simp: slots_ok_def)
next
  assume "slots_ok w" and "e \<in> set (ring l w ! slot_of l e)"
  then show "e \<in># on_level l w"
    by (auto simp: on_level_def slots_ok_def intro!: bexI[of _ "ring l w ! slot_of l e"] nth_mem)
qed

text \<open>Pushing an entry into the slot it belongs to.\<close>

definition put :: "level \<Rightarrow> delayed_entry \<Rightarrow> timer_wheel \<Rightarrow> timer_wheel" where
  "put l e w = set_ring l (push_slot (slot_of l e) e (ring l w)) w"

lemma put_facts:
  assumes "slots_ok w"
  shows "slots_ok (put l e w)" "current_ms (put l e w) = current_ms w"
    "wheel_entries (put l e w) = add_mset e (wheel_entries w)"
    "on_level m (put l e w) = (if m = l then add_mset e (on_level m w) else on_level m w)"
proof -
  have len: "length (ring l w) = size_of l" for l using assms by (simp add: slots_ok_def)
  show "slots_ok (put l e w)"
    using assms by (auto simp: slots_ok_def put_def push_slot_def nth_list_update)
  show "current_ms (put l e w) = current_ms w" by (simp add: put_def)
  show "on_level m (put l e w) = (if m = l then add_mset e (on_level m w) else on_level m w)"
    using len by (simp add: put_def on_level_def mset_concat_push)
  show "wheel_entries (put l e w) = add_mset e (wheel_entries w)"
    using wheel_entries_set_ring[of l "push_slot (slot_of l e) e (ring l w)" w] len
    by (simp add: put_def mset_concat_push on_level_def)
qed

definition schedule_level :: "delayed_entry \<Rightarrow> timer_wheel \<Rightarrow> level" where
  "schedule_level e w =
     (let delta = deliver_at_ms e - current_ms w
      in if delta < 60000 then Sec else if delta < 3600000 then Min
         else if delta < 86400000 then Hour else Day)"

lemma schedule_put: "schedule e w = put (schedule_level e w) e w"
  by (simp add: schedule_def schedule_level_def put_def slot_of_def Let_def)

section \<open>One drain\<close>

text \<open>
  \<open>drained now w due w' due'\<close>: a piece of a drain took the wheel from \<open>w\<close> to \<open>w'\<close> and appended to
  \<open>due\<close>. No entry is lost or invented, only due entries are emitted, and no due entry is put back.
\<close>

definition drained :: "ms \<Rightarrow> timer_wheel \<times> delayed_entry list \<Rightarrow> timer_wheel \<times> delayed_entry list \<Rightarrow> bool" where
  "drained now wd wd' =
     (slots_ok (fst wd') \<and> current_ms (fst wd') = current_ms (fst wd) \<and>
      mset (snd wd') + wheel_entries (fst wd') = mset (snd wd) + wheel_entries (fst wd) \<and>
      (\<forall>e \<in> set (snd wd') - set (snd wd). deliver_at_ms e \<le> now) \<and>
      (\<forall>l e. deliver_at_ms e \<le> now \<longrightarrow> e \<in># on_level l (fst wd') \<longrightarrow> e \<in># on_level l (fst wd)))"

lemma drained_refl: "slots_ok (fst wd) \<Longrightarrow> drained now wd wd"
  by (simp add: drained_def)

lemma drained_trans: "drained now a b \<Longrightarrow> drained now b c \<Longrightarrow> drained now a c"
  unfolding drained_def by (metis DiffD1 DiffD2 DiffI)

text \<open>The two ways a drain keeps an entry that is not due put it on some level.\<close>

definition keeps :: "(delayed_entry \<Rightarrow> timer_wheel \<Rightarrow> timer_wheel) \<Rightarrow> delayed_entry list \<Rightarrow> bool" where
  "keeps keep es = (\<forall>e \<in> set es. \<forall>w. slots_ok w \<longrightarrow> (\<exists>l. keep e w = put l e w))"

lemma keeps_schedule: "keeps schedule es"
  by (auto simp: keeps_def schedule_put)

lemma drain_entries:
  "keeps keep es \<Longrightarrow> slots_ok w \<Longrightarrow> foldl (drain_entry keep now) (w, due) es = (w', due') \<Longrightarrow>
   slots_ok w' \<and> current_ms w' = current_ms w \<and> due' = due @ filter (\<lambda>e. deliver_at_ms e \<le> now) es \<and>
   wheel_entries w' = wheel_entries w + mset (filter (\<lambda>e. \<not> deliver_at_ms e \<le> now) es) \<and>
   (\<forall>l e. deliver_at_ms e \<le> now \<longrightarrow> e \<in># on_level l w' \<longrightarrow> e \<in># on_level l w)"
proof (induction es arbitrary: w due)
  case (Cons x es)
  have ks: "keeps keep es" using Cons.prems(1) by (simp add: keeps_def)
  show ?case
  proof (cases "deliver_at_ms x \<le> now")
    case True
    then show ?thesis using Cons.IH[OF ks Cons.prems(2), of "due @ [x]"] Cons.prems(3)
      by (simp add: drain_entry_def)
  next
    case False
    obtain l where l: "keep x w = put l x w" using Cons.prems(1,2) by (auto simp: keeps_def)
    note put = put_facts[OF Cons.prems(2), where l = l and e = x]
    from Cons.IH[OF ks put(1), of due] Cons.prems(3) False l put(2-4) show ?thesis
      by (auto simp: drain_entry_def split: if_splits)
  qed
qed simp

text \<open>Draining one slot: it is taken out whole, then its entries are emitted or kept.\<close>

definition drain_slot ::
    "level \<Rightarrow> (nat \<Rightarrow> delayed_entry \<Rightarrow> timer_wheel \<Rightarrow> timer_wheel) \<Rightarrow> ms \<Rightarrow>
     timer_wheel \<times> delayed_entry list \<Rightarrow> nat \<Rightarrow> timer_wheel \<times> delayed_entry list" where
  "drain_slot l keep now wd t =
     (case wd of (w, due) \<Rightarrow>
        let slot = t mod size_of l; entries = ring l w ! slot
        in foldl (drain_entry (keep slot) now) (set_ring l ((ring l w)[slot := []]) w, due) entries)"

definition slot_keeps :: "level \<Rightarrow> (nat \<Rightarrow> delayed_entry \<Rightarrow> timer_wheel \<Rightarrow> timer_wheel) \<Rightarrow> bool" where
  "slot_keeps l keep = (\<forall>i es. (\<forall>e \<in> set es. slot_of l e = i) \<longrightarrow> keeps (keep i) es)"

lemma drain_slot_drained:
  assumes ok: "slots_ok w" and keep: "slot_keeps l keep"
  shows "drained now (w, due) (drain_slot l keep now (w, due) t) \<and>
    (\<forall>e. deliver_at_ms e \<le> now \<longrightarrow> e \<in># on_level l (fst (drain_slot l keep now (w, due) t)) \<longrightarrow>
         slot_of l e \<noteq> t mod size_of l)"
proof -
  let ?i = "t mod size_of l"
  let ?es = "ring l w ! ?i"
  let ?w = "set_ring l ((ring l w)[?i := []]) w"
  obtain w' due' where r: "foldl (drain_entry (keep ?i) now) (?w, due) ?es = (w', due')" by fastforce
  have len: "?i < length (ring l w)" using ok by (simp add: slots_ok_def)
  have es: "\<forall>e \<in> set ?es. slot_of l e = ?i" using ok len by (auto simp: slots_ok_def)
  have okw: "slots_ok ?w" using ok by (auto simp: slots_ok_def nth_list_update)
  have ent: "wheel_entries ?w + mset ?es = wheel_entries w"
  proof -
    let ?r = "(ring l w)[?i := []]"
    have 1: "wheel_entries ?w + on_level l w = wheel_entries w + mset (concat ?r)"
      by (rule wheel_entries_set_ring)
    have 2: "on_level l w = mset (concat ?r) + mset ?es"
      using mset_concat_update[OF len, of "[]"] by (simp add: on_level_def)
    have "wheel_entries ?w + mset ?es + mset (concat ?r) = wheel_entries w + mset (concat ?r)"
      using 1 unfolding 2 by (simp only: ac_simps)
    then show ?thesis by simp
  qed
  have lv: "e \<in># on_level m ?w \<Longrightarrow> e \<in># on_level m w \<and> (m = l \<longrightarrow> slot_of l e \<noteq> ?i)" for m e
  proof -
    assume e: "e \<in># on_level m ?w"
    show "e \<in># on_level m w \<and> (m = l \<longrightarrow> slot_of l e \<noteq> ?i)"
      using e len unfolding in_on_level[OF okw] in_on_level[OF ok]
      by (cases "m = l"; cases "slot_of l e = ?i") (auto simp: nth_list_update)
  qed
  have kp: "keeps (keep ?i) ?es" using keep es by (simp add: slot_keeps_def)
  note d = drain_entries[OF kp okw r]
  have ms: "mset ?es = mset (filter (\<lambda>e. deliver_at_ms e \<le> now) ?es) + mset (filter (\<lambda>e. \<not> deliver_at_ms e \<le> now) ?es)"
    using multiset_partition[of "mset ?es" "\<lambda>e. deliver_at_ms e \<le> now"] by simp
  have "mset due' + wheel_entries w' = mset due + (wheel_entries ?w + mset ?es)"
    using d ms by (simp only: mset_append ac_simps)
  then have "mset due' + wheel_entries w' = mset due + wheel_entries w"
    unfolding ent .
  then have "drained now (w, due) (w', due')" using d lv by (auto simp: drained_def)
  moreover have "\<forall>e. deliver_at_ms e \<le> now \<longrightarrow> e \<in># on_level l w' \<longrightarrow> slot_of l e \<noteq> ?i"
    using d lv by blast
  ultimately show ?thesis using r by (simp add: drain_slot_def Let_def)
qed

lemma drain_slots_drained:
  assumes keep: "slot_keeps l keep"
  shows "slots_ok (fst wd) \<Longrightarrow> drained now wd (foldl (drain_slot l keep now) wd ts) \<and>
    (\<forall>e. deliver_at_ms e \<le> now \<longrightarrow> e \<in># on_level l (fst (foldl (drain_slot l keep now) wd ts)) \<longrightarrow>
         slot_of l e \<notin> (\<lambda>t. t mod size_of l) ` set ts)"
proof (induction ts arbitrary: wd)
  case (Cons t ts)
  let ?wd = "drain_slot l keep now wd t"
  have one: "drained now wd ?wd"
    "\<forall>e. deliver_at_ms e \<le> now \<longrightarrow> e \<in># on_level l (fst ?wd) \<longrightarrow> slot_of l e \<noteq> t mod size_of l"
    using drain_slot_drained[OF _ keep, of "fst wd" now "snd wd" t] Cons.prems by simp_all
  then have "slots_ok (fst ?wd)" by (simp add: drained_def)
  from Cons.IH[OF this] one show ?case
    by (auto dest: drained_trans) (auto simp: drained_def)
qed (simp add: drained_refl)

text \<open>A whole drain empties its level of due entries, when none of them is older than the clock.\<close>

lemma drain_level_complete:
  assumes keep: "slot_keeps l keep" and ok: "slots_ok (fst wd)"
    and old: "\<forall>e \<in># on_level l (fst wd). current_ms (fst wd) \<le> deliver_at_ms e"
    and wd': "wd' = foldl (drain_slot l keep now) wd [current_ms (fst wd) div unit_of l..<Suc (now div unit_of l)]"
  shows "drained now wd wd' \<and> (\<forall>e \<in># on_level l (fst wd'). now < deliver_at_ms e)"
proof -
  let ?ts = "[current_ms (fst wd) div unit_of l..<Suc (now div unit_of l)]"
  note d = drain_slots_drained[OF keep ok, of now ?ts, folded wd']
  have "now < deliver_at_ms e" if e: "e \<in># on_level l (fst wd')" for e
  proof (rule ccontr)
    assume "\<not> now < deliver_at_ms e"
    then have due: "deliver_at_ms e \<le> now" by simp
    then have "e \<in># on_level l (fst wd)" using d e by (auto simp: drained_def)
    then have "current_ms (fst wd) \<le> deliver_at_ms e" using old by auto
    then have "deliver_at_ms e div unit_of l \<in> set ?ts" 
      using due by (simp add: div_le_mono less_Suc_eq_le del: upt_Suc)
    then show False using d e due by (auto simp: slot_of_def)
  qed
  then show ?thesis using d by blast
qed

section \<open>The four drains of a tick\<close>

definition put_second :: "nat \<Rightarrow> delayed_entry \<Rightarrow> timer_wheel \<Rightarrow> timer_wheel" where
  "put_second i e w = w\<lparr>seconds := push_slot i e (seconds w)\<rparr>"

lemma slot_keeps_put_second: "slot_keeps Sec put_second"
  by (auto simp: slot_keeps_def keeps_def put_second_def put_def intro!: exI[of _ Sec])

lemma slot_keeps_schedule: "slot_keeps l (\<lambda>_. schedule)"
  by (simp add: slot_keeps_def keeps_schedule)

lemma drain_as_slots:
  "drain_seconds now wd = foldl (drain_slot Sec put_second now) wd [current_ms (fst wd) div 1000..<Suc (now div 1000)]"
  "drain_minutes now wd = foldl (drain_slot Min (\<lambda>_. schedule) now) wd [current_ms (fst wd) div 60000..<Suc (now div 60000)]"
  "drain_hours now wd = foldl (drain_slot Hour (\<lambda>_. schedule) now) wd [current_ms (fst wd) div 3600000..<Suc (now div 3600000)]"
  "drain_days now wd = foldl (drain_slot Day (\<lambda>_. schedule) now) wd [current_ms (fst wd) div 86400000..<Suc (now div 86400000)]"
  unfolding drain_seconds_def drain_minutes_def drain_hours_def drain_days_def Let_def
  by (rule foldl_cong, simp, simp, simp add: drain_slot_def put_second_def [abs_def] Let_def split_beta)+

text \<open>The state of a tick after some of its drains: the levels drained so far hold no due entry.\<close>

definition swept :: "level set \<Rightarrow> ms \<Rightarrow> timer_wheel \<Rightarrow> timer_wheel \<times> delayed_entry list \<Rightarrow> bool" where
  "swept ls now w wd = (drained now (w, []) wd \<and> (\<forall>l \<in> ls. \<forall>e \<in># on_level l (fst wd). now < deliver_at_ms e))"

lemma swept_level:
  assumes inv: "wheel_inv w" and sw: "swept ls now w wd" and le: "current_ms w \<le> now"
    and keep: "slot_keeps l keep"
  shows "swept (insert l ls) now w
     (foldl (drain_slot l keep now) wd [current_ms (fst wd) div unit_of l..<Suc (now div unit_of l)])"
proof -
  let ?wd = "foldl (drain_slot l keep now) wd [current_ms (fst wd) div unit_of l..<Suc (now div unit_of l)]"
  have d: "drained now (w, []) wd" using sw by (simp add: swept_def)
  then have cur: "current_ms (fst wd) = current_ms w" and ok: "slots_ok (fst wd)"
    by (auto simp: drained_def)
  have "current_ms (fst wd) \<le> deliver_at_ms e" if e: "e \<in># on_level l (fst wd)" for e
  proof (cases "deliver_at_ms e \<le> now")
    case True
    then have "e \<in># on_level l w" using d e by (auto simp: drained_def)
    then show ?thesis using inv cur in_wheel_entries by (auto simp: wheel_inv_def)
  next
    case False
    then show ?thesis using le cur by simp
  qed
  then have c: "drained now wd ?wd \<and> (\<forall>e \<in># on_level l (fst ?wd). now < deliver_at_ms e)"
    by (intro drain_level_complete[OF keep ok _ refl]) blast
  have "now < deliver_at_ms e" if "m \<in> ls" and e: "e \<in># on_level m (fst ?wd)" for m e
  proof (rule ccontr)
    assume "\<not> now < deliver_at_ms e"
    then have "e \<in># on_level m (fst wd)" using c e by (auto simp: drained_def)
    then show False using \<open>\<not> now < deliver_at_ms e\<close> sw that(1) by (auto simp: swept_def)
  qed
  then show ?thesis using c d by (auto simp: swept_def intro: drained_trans)
qed

lemma tick_swept:
  assumes "wheel_inv w" and "current_ms w \<le> now" and "tick now w = (w', due)"
  shows "\<exists>w0. swept UNIV now w (w0, due) \<and> w' = w0\<lparr>current_ms := now\<rparr>"
proof -
  have start: "swept {} now w (w, [])"
    using assms(1) by (auto simp: swept_def wheel_inv_def intro: drained_refl)
  note s1 = swept_level[OF assms(1) start assms(2) slot_keeps_put_second]
  note s2 = swept_level[OF assms(1) s1 assms(2) slot_keeps_schedule[of Min]]
  note s3 = swept_level[OF assms(1) s2 assms(2) slot_keeps_schedule[of Hour]]
  note s4 = swept_level[OF assms(1) s3 assms(2) slot_keeps_schedule[of Day]]
  have all: "insert Day (insert Hour (insert Min (insert Sec {}))) = UNIV"
    using level.exhaust by auto
  from s4[unfolded unit_of.simps, folded drain_as_slots, unfolded all] assms(3) show ?thesis
    by (auto simp: tick_def Let_def split: prod.splits)
qed

lemma filter_mset_split:
  assumes "D + R = M" and "\<forall>x \<in># D. P x" and "\<forall>x \<in># R. \<not> P x"
  shows "D = filter_mset P M \<and> R = filter_mset (\<lambda>x. \<not> P x) M"
proof -
  have "filter_mset P D = D" "filter_mset P R = {#}"
    "filter_mset (\<lambda>x. \<not> P x) D = {#}" "filter_mset (\<lambda>x. \<not> P x) R = R"
    using assms(2,3) by (auto simp: multiset_eq_iff not_in_iff)
  then show ?thesis by (simp flip: assms(1))
qed

lemma wheel_entries_current [simp]: "wheel_entries (w\<lparr>current_ms := t\<rparr>) = wheel_entries w"
  by (simp add: wheel_entries_def on_level_def)

lemma slots_ok_current [simp]: "slots_ok (w\<lparr>current_ms := t\<rparr>) = slots_ok w"
  by (simp add: slots_ok_def)

lemma tick_exact:
  assumes inv: "wheel_inv w" and le: "current_ms w \<le> now" and t: "tick now w = (w', due)"
  shows "mset due = {#e \<in># wheel_entries w. deliver_at_ms e \<le> now#}"
    "wheel_entries w' = {#e \<in># wheel_entries w. \<not> deliver_at_ms e \<le> now#}"
    "wheel_inv w'" "current_ms w' = now"
proof -
  obtain w0 where s: "swept UNIV now w (w0, due)" and w': "w' = w0\<lparr>current_ms := now\<rparr>"
    using tick_swept[OF assms] by blast
  then have d: "drained now (w, []) (w0, due)" by (simp add: swept_def)
  have rest: "\<forall>e \<in># wheel_entries w0. \<not> deliver_at_ms e \<le> now"
    using s by (auto simp: swept_def in_wheel_entries not_le)
  have sum: "mset due + wheel_entries w0 = wheel_entries w" and "\<forall>e \<in># mset due. deliver_at_ms e \<le> now"
    using d by (auto simp: drained_def)
  from filter_mset_split[OF this rest]
  show "mset due = {#e \<in># wheel_entries w. deliver_at_ms e \<le> now#}"
    "wheel_entries w' = {#e \<in># wheel_entries w. \<not> deliver_at_ms e \<le> now#}"
    by (simp_all add: w')
  show "wheel_inv w'" using d rest by (auto simp: wheel_inv_def w' drained_def)
  show "current_ms w' = now" by (simp add: w')
qed

lemma schedule_exact:
  assumes "wheel_inv w" and "current_ms w \<le> deliver_at_ms e"
  shows "wheel_inv (schedule e w)" "wheel_entries (schedule e w) = add_mset e (wheel_entries w)"
    "current_ms (schedule e w) = current_ms w"
proof -
  have ok: "slots_ok w" using assms(1) by (simp add: wheel_inv_def)
  note p = put_facts[OF ok, where l = "schedule_level e w" and e = e]
  show "wheel_inv (schedule e w)" "wheel_entries (schedule e w) = add_mset e (wheel_entries w)"
    "current_ms (schedule e w) = current_ms w"
    using assms p by (auto simp: schedule_put wheel_inv_def)
qed

lemma wheel_inv_new: "wheel_inv (wheel_new t)" "wheel_entries (wheel_new t) = {#}" "current_ms (wheel_new t) = t"
proof -
  have c: "concat (replicate n []) = ([] :: delayed_entry list)" for n by (induction n) auto
  have r: "ring l (wheel_new t) = replicate (size_of l) []" for l
    by (cases l) (simp_all add: wheel_new_def)
  show "wheel_entries (wheel_new t) = {#}" by (simp add: wheel_entries_def on_level_def r c)
  then show "wheel_inv (wheel_new t)" by (simp add: wheel_inv_def slots_ok_def r)
  show "current_ms (wheel_new t) = t" by (simp add: wheel_new_def)
qed

section \<open>The contract of a delay queue\<close>

text \<open>
  What a client of \<open>schedule\<close> and \<open>tick\<close> may rely on: entries scheduled at or after the queue's clock
  are all kept, and a tick to a later time returns exactly those whose time has come.
\<close>

locale delay_queue =
  fixes sched :: "'e \<Rightarrow> 'q \<Rightarrow> 'q"
    and advance :: "ms \<Rightarrow> 'q \<Rightarrow> 'q \<times> 'e list"
    and contents :: "'q \<Rightarrow> 'e multiset"
    and due_at :: "'e \<Rightarrow> ms"
    and clock :: "'q \<Rightarrow> ms"
    and inv :: "'q \<Rightarrow> bool"
  assumes sched_inv: "inv q \<Longrightarrow> clock q \<le> due_at e \<Longrightarrow> inv (sched e q)"
    and sched_contents: "inv q \<Longrightarrow> clock q \<le> due_at e \<Longrightarrow> contents (sched e q) = add_mset e (contents q)"
    and sched_clock: "inv q \<Longrightarrow> clock q \<le> due_at e \<Longrightarrow> clock (sched e q) = clock q"
    and advance_due: "inv q \<Longrightarrow> clock q \<le> now \<Longrightarrow> advance now q = (q', es) \<Longrightarrow>
          mset es = {#e \<in># contents q. due_at e \<le> now#}"
    and advance_rest: "inv q \<Longrightarrow> clock q \<le> now \<Longrightarrow> advance now q = (q', es) \<Longrightarrow>
          contents q' = {#e \<in># contents q. \<not> due_at e \<le> now#}"
    and advance_inv: "inv q \<Longrightarrow> clock q \<le> now \<Longrightarrow> advance now q = (q', es) \<Longrightarrow> inv q'"
    and advance_clock: "inv q \<Longrightarrow> clock q \<le> now \<Longrightarrow> advance now q = (q', es) \<Longrightarrow> clock q' = now"
begin

lemma advance_set:
  "inv q \<Longrightarrow> clock q \<le> now \<Longrightarrow> advance now q = (q', es) \<Longrightarrow>
   set es = {e. e \<in># contents q \<and> due_at e \<le> now}"
proof -
  assume "inv q" "clock q \<le> now" "advance now q = (q', es)"
  then have "set_mset (mset es) = set_mset {#e \<in># contents q. due_at e \<le> now#}"
    by (simp only: advance_due)
  then show ?thesis by auto
qed

text \<open>Two ticks in a row return what one tick to the later time would.\<close>

lemma advance_twice:
  assumes "inv q" and "clock q \<le> t" and "t \<le> u"
    and "advance t q = (q1, es1)" and "advance u q1 = (q2, es2)" and "advance u q = (q3, es3)"
  shows "mset es1 + mset es2 = mset es3 \<and> contents q2 = contents q3"
proof -
  note q1 = advance_inv[OF assms(1,2,4)] advance_clock[OF assms(1,2,4)]
    advance_rest[OF assms(1,2,4)] advance_due[OF assms(1,2,4)]
  have c1: "clock q1 \<le> u" and c3: "clock q \<le> u" using q1(2) assms(2,3) by simp_all
  note q2 = advance_due[OF q1(1) c1 assms(5)] advance_rest[OF q1(1) c1 assms(5)]
  note q3 = advance_due[OF assms(1) c3 assms(6)] advance_rest[OF assms(1) c3 assms(6)]
  show ?thesis unfolding q1(4) q2 q3 q1(3)
    using assms(3) by (auto simp: multiset_eq_iff)
qed

end

interpretation wheel: delay_queue schedule tick wheel_entries deliver_at_ms current_ms wheel_inv
  by unfold_locales (erule (1) schedule_exact | erule (2) tick_exact)+

section \<open>Properties\<close>

text \<open>
  The timer wheel loses no entry and fires none early: on a wheel holding no entry older than its
  clock, a tick to \<open>now\<close> returns exactly the pending entries with \<open>deliver_at_ms \<le> now\<close> (as a
  multiset, however the four rings distribute them), keeps exactly the others, and the resulting
  wheel satisfies the invariant again.
\<close>

theorem tick_returns_exactly_due:
  assumes "wheel_inv w" and "current_ms w \<le> now" and "tick now w = (w', due)"
  shows "mset due = {#e \<in># wheel_entries w. deliver_at_ms e \<le> now#} \<and>
         wheel_entries w' = {#e \<in># wheel_entries w. now < deliver_at_ms e#} \<and>
         wheel_inv w' \<and> current_ms w' = now"
  using wheel.advance_due[OF assms] wheel.advance_rest[OF assms] wheel.advance_inv[OF assms]
    wheel.advance_clock[OF assms] by (simp add: not_le)

theorem tick_returns_exactly_due_witness:
  "let soon = \<lparr>deliver_at_ms = 1000, entry_record = []\<rparr>; late = \<lparr>deliver_at_ms = 90000, entry_record = []\<rparr>
   in mset (snd (tick 5000 (schedule late (schedule soon (wheel_new 0))))) = {#soon#}"
proof -
  define soon :: delayed_entry where "soon = \<lparr>deliver_at_ms = 1000, entry_record = []\<rparr>"
  define late :: delayed_entry where "late = \<lparr>deliver_at_ms = 90000, entry_record = []\<rparr>"
  define w where "w = schedule late (schedule soon (wheel_new 0))"
  have clock: "current_ms (schedule soon (wheel_new 0)) = 0" "current_ms w = 0"
    by (simp_all add: w_def soon_def late_def schedule_def wheel_new_def Let_def)
  have inv: "wheel_inv (schedule soon (wheel_new 0))" "wheel_inv w"
    "wheel_entries w = {#late, soon#}"
    using clock(1) schedule_exact[of "wheel_new 0" soon] schedule_exact[of "schedule soon (wheel_new 0)" late]
    by (simp_all add: w_def wheel_inv_new)
  obtain w' due where t: "tick 5000 w = (w', due)" by fastforce
  from tick_returns_exactly_due[OF inv(2) _ t] clock inv(3) have "mset due = {#soon#}"
    by (simp add: soon_def late_def)
  with t show ?thesis by (simp add: w_def soon_def late_def)
qed

text \<open>
  An entry scheduled in the past waits for its slot to come round again: scheduled behind the
  clock it is not returned by the next tick although it is overdue. The contract above therefore
  needs its premise that callers schedule at or after the wheel's clock.
\<close>

theorem overdue_entry_is_delayed:
  "let w = schedule \<lparr>deliver_at_ms = 5000, entry_record = []\<rparr> (wheel_new 64000)
   in snd (tick 64999 w) = [] \<and> snd (tick 65000 w) = [\<lparr>deliver_at_ms = 5000, entry_record = []\<rparr>]"
  by code_simp

end
