(* ===== verification/Json.thy ===== *)
theory Json imports RustStr begin

text \<open>
  JSON payloads. \<open>serde_json::Value\<close> is the value type every event payload has; the code matches on its
  constructors and its objects are \<open>BTreeMap\<close>s (the crate is built without \<open>preserve_order\<close>), so an
  object is a sorted association list. A number is an unsigned or negative integer, or a float kept as
  the text it prints as: the code only prints floats. Serialising a value (\<open>to_string\<close>, \<open>to_vec\<close>) is
  the crate's own code and stays a parameter of the definitions that need it.
\<close>

datatype jnumber = PosInt nat | NegInt int | FloatText string

datatype json =
    JNull
  | JBool bool
  | JNum jnumber
  | JStr string
  | JArr "json list"
  | JObj "(string \<times> json) list"

abbreviation jnat :: "nat \<Rightarrow> json" where "jnat n \<equiv> JNum (PosInt n)"

definition jopt :: "('a \<Rightarrow> json) \<Rightarrow> 'a option \<Rightarrow> json" where
  "jopt f x = (case x of None \<Rightarrow> JNull | Some a \<Rightarrow> f a)"

text \<open>\<open>json!({...})\<close>: the fields inserted in the order written.\<close>

definition jobject :: "(string \<times> json) list \<Rightarrow> json" where
  "jobject kvs = JObj (bt_extend kvs [])"

fun show_number :: "jnumber \<Rightarrow> string" where
  "show_number (PosInt n) = show_nat n"
| "show_number (NegInt i) = (if i < 0 then CHR ''-'' # show_nat (nat (- i)) else show_nat (nat i))"
| "show_number (FloatText s) = s"

fun as_str :: "json \<Rightarrow> string option" where
  "as_str (JStr s) = Some s"
| "as_str _ = None"

fun as_bool :: "json \<Rightarrow> bool option" where
  "as_bool (JBool b) = Some b"
| "as_bool _ = None"

fun as_u64 :: "json \<Rightarrow> nat option" where
  "as_u64 (JNum (PosInt n)) = Some n"
| "as_u64 _ = None"

fun as_object :: "json \<Rightarrow> (string \<times> json) list option" where
  "as_object (JObj kvs) = Some kvs"
| "as_object _ = None"

definition is_object :: "json \<Rightarrow> bool" where
  "is_object v = (as_object v \<noteq> None)"

fun json_get :: "json \<Rightarrow> string \<Rightarrow> json option" where
  "json_get (JObj kvs) k = bt_get kvs k"
| "json_get _ k = None"

text \<open>\<open>value["key"]\<close>: null when the key is missing or the value is no object.\<close>

definition json_index :: "json \<Rightarrow> string \<Rightarrow> json" where
  "json_index v k = unwrap_or (json_get v k) JNull"

definition get_str :: "json \<Rightarrow> string \<Rightarrow> string option" where
  "get_str v k = Option.bind (json_get v k) as_str"

definition get_u64 :: "json \<Rightarrow> string \<Rightarrow> nat option" where
  "get_u64 v k = Option.bind (json_get v k) as_u64"

definition get_bool :: "json \<Rightarrow> string \<Rightarrow> bool option" where
  "get_bool v k = Option.bind (json_get v k) as_bool"

fun json_insert :: "string \<Rightarrow> json \<Rightarrow> json \<Rightarrow> json" where
  "json_insert k v (JObj kvs) = JObj (bt_insert k v kvs)"
| "json_insert k v j = j"

section \<open>JSON pointers\<close>

text \<open>\<open>Value::pointer\<close> of RFC 6901: reference tokens between slashes, \<open>~1\<close> and \<open>~0\<close> unescaped; an array
  token is a decimal index without sign or leading zero.\<close>

definition array_index :: "string \<Rightarrow> nat option" where
  "array_index t =
     (if starts_with ''+'' t \<or> (starts_with ''0'' t \<and> length t \<noteq> 1) then None else parse_uint u64_max t)"

definition pointer_step :: "json \<Rightarrow> string \<Rightarrow> json option" where
  "pointer_step v t =
     (case v of
        JObj kvs \<Rightarrow> bt_get kvs t
      | JArr xs \<Rightarrow> (case array_index t of
                     None \<Rightarrow> None
                   | Some i \<Rightarrow> if i < length xs then Some (xs ! i) else None)
      | _ \<Rightarrow> None)"

fun pointer_walk :: "string list \<Rightarrow> json \<Rightarrow> json option" where
  "pointer_walk [] v = Some v"
| "pointer_walk (t # ts) v =
     (case pointer_step v (replace_str ''~0'' ''~'' (replace_str ''~1'' ''/'' t)) of
        None \<Rightarrow> None | Some w \<Rightarrow> pointer_walk ts w)"

definition pointer :: "json \<Rightarrow> string \<Rightarrow> json option" where
  "pointer v p =
     (case p of
        [] \<Rightarrow> Some v
      | c # cs \<Rightarrow> if c = CHR ''/'' then pointer_walk (split_on CHR ''/'' cs) v else None)"

section \<open>Well-formed values\<close>

text \<open>Every object inside the value is a proper map: its keys are strictly increasing.\<close>

fun json_ok :: "json \<Rightarrow> bool" where
  "json_ok (JArr xs) = (\<forall>x \<in> set xs. json_ok x)"
| "json_ok (JObj kvs) = (bt_ok kvs \<and> (\<forall>kv \<in> set kvs. json_ok (snd kv)))"
| "json_ok _ = True"

lemma json_ok_insert [wf_intros]:
  assumes "json_ok j" and "json_ok v"
  shows "json_ok (json_insert k v j)"
proof (cases j)
  case (JObj kvs)
  then show ?thesis using assms set_bt_insert[of k v kvs]
    by (auto simp: bt_ok_insert)
qed (use assms in simp_all)

lemma json_get_insert:
  "is_object j \<Longrightarrow> json_get (json_insert k v j) k' = (if k' = k then Some v else json_get j k')"
  by (cases j) (auto simp: is_object_def bt_get_insert)

lemma json_get_insert_same: "is_object j \<Longrightarrow> json_get (json_insert k v j) k = Some v"
  by (simp add: json_get_insert)

lemma is_object_insert [simp]: "is_object (json_insert k v j) = is_object j"
  by (cases j) (auto simp: is_object_def)

lemma is_object_JObj [simp]: "is_object (JObj kvs)"
  by (simp add: is_object_def)

lemma is_object_jobject [simp]: "is_object (jobject kvs)"
  by (simp add: jobject_def)

lemma is_objectE: "is_object v \<Longrightarrow> (\<And>kvs. v = JObj kvs \<Longrightarrow> P) \<Longrightarrow> P"
  by (cases v) (auto simp: is_object_def)


end
