(* ===== verification/Events.thy ===== *)
theory Events imports Json begin

text \<open>
  Events at the boundary of the program: \<open>src/events.rs\<close> (message formats, \<open>IncomingEvent\<close>, its
  constructors, its canonical kind, the template context) and the event structures of
  \<open>src/event/body.rs\<close> the constructors take. Random UUIDs and clock readings are arguments. The text
  \<open>serde_json::to_string\<close> gives for an array is the parameter \<open>show_array\<close>.
\<close>

section \<open>Formats\<close>

datatype message_format = Compact | Alert | Inline | Raw

fun format_as_str :: "message_format \<Rightarrow> string" where
  "format_as_str Compact = ''compact''"
| "format_as_str Alert = ''alert''"
| "format_as_str Inline = ''inline''"
| "format_as_str Raw = ''raw''"

definition format_from_label :: "string \<Rightarrow> string + message_format" where
  "format_from_label label =
     (if label = ''compact'' then Ok Compact
      else if label = ''alert'' then Ok Alert
      else if label = ''inline'' then Ok Inline
      else if label = ''raw'' then Ok Raw
      else Err (''unsupported message format: '' @ label))"

section \<open>Events\<close>

record incoming_event =
  ev_kind :: string
  ev_channel :: "string option"
  ev_mention :: "string option"
  ev_format :: "message_format option"
  ev_template :: "string option"
  ev_payload :: json

record routing_metadata =
  rm_tool :: "string option"
  rm_project :: "string option"
  rm_repo_name :: "string option"
  rm_repo_path :: "string option"
  rm_worktree_path :: "string option"
  rm_session_id :: "string option"
  rm_branch :: "string option"

text \<open>The wire form: a payload field, or the remaining fields collected into an object.\<close>

record incoming_event_wire =
  wire_kind :: string
  wire_channel :: "string option"
  wire_mention :: "string option"
  wire_format :: "message_format option"
  wire_template :: "string option"
  wire_payload :: "json option"
  wire_extra :: "(string, json) btree"

definition event_from_wire :: "incoming_event_wire \<Rightarrow> incoming_event" where
  "event_from_wire w =
     \<lparr>ev_kind = wire_kind w, ev_channel = wire_channel w, ev_mention = wire_mention w,
      ev_format = wire_format w, ev_template = wire_template w,
      ev_payload = unwrap_or (wire_payload w) (JObj (wire_extra w))\<rparr>"

definition workspace_event :: "string \<Rightarrow> json \<Rightarrow> string option \<Rightarrow> incoming_event" where
  "workspace_event kind payload channel =
     \<lparr>ev_kind = kind, ev_channel = channel, ev_mention = None, ev_format = None, ev_template = None,
      ev_payload = payload\<rparr>"

definition custom_event :: "string \<Rightarrow> string option \<Rightarrow> string \<Rightarrow> incoming_event" where
  "custom_event uuid channel message =
     workspace_event ''custom''
       (jobject [(''event_id'', JStr uuid), (''message'', JStr message)]) channel"

definition opt_field :: "string \<Rightarrow> ('a \<Rightarrow> 'v) \<Rightarrow> 'a option \<Rightarrow> (string, 'v) btree \<Rightarrow> (string, 'v) btree" where
  "opt_field k f x m = (case x of None \<Rightarrow> m | Some a \<Rightarrow> bt_insert k (f a) m)"

definition agent_event ::
    "string \<Rightarrow> string \<Rightarrow> string \<Rightarrow> string option \<Rightarrow> string option \<Rightarrow> nat option \<Rightarrow> string option \<Rightarrow>
     string option \<Rightarrow> string option \<Rightarrow> string option \<Rightarrow> incoming_event" where
  "agent_event kind status agent_name session_id project elapsed_secs summary error_message mention channel =
     (let payload = bt_extend [(''agent_name'', JStr agent_name), (''status'', JStr status)] [];
          payload = opt_field ''session_id'' JStr session_id payload;
          payload = opt_field ''project'' JStr project payload;
          payload = opt_field ''elapsed_secs'' jnat elapsed_secs payload;
          payload = opt_field ''summary'' JStr summary payload;
          payload = opt_field ''error_message'' JStr error_message payload;
          payload = opt_field ''mention'' JStr mention payload
      in workspace_event kind (JObj payload) channel)"

definition agent_started where
  "agent_started name session project elapsed summary mention channel =
     agent_event ''agent.started'' ''started'' name session project elapsed summary None mention channel"

definition agent_blocked where
  "agent_blocked name session project elapsed summary mention channel =
     agent_event ''agent.blocked'' ''blocked'' name session project elapsed summary None mention channel"

definition agent_finished where
  "agent_finished name session project elapsed summary mention channel =
     agent_event ''agent.finished'' ''finished'' name session project elapsed summary None mention channel"

definition agent_failed where
  "agent_failed name session project elapsed summary error mention channel =
     agent_event ''agent.failed'' ''failed'' name session project elapsed summary (Some error) mention channel"

definition github_issue_opened :: "string \<Rightarrow> nat \<Rightarrow> string \<Rightarrow> string option \<Rightarrow> incoming_event" where
  "github_issue_opened repo number title channel =
     workspace_event ''github.issue-opened''
       (jobject [(''repo'', JStr repo), (''number'', jnat number), (''title'', JStr title)]) channel"

definition github_issue_commented :: "string \<Rightarrow> nat \<Rightarrow> string \<Rightarrow> nat \<Rightarrow> string option \<Rightarrow> incoming_event" where
  "github_issue_commented repo number title comments channel =
     workspace_event ''github.issue-commented''
       (jobject [(''repo'', JStr repo), (''number'', jnat number), (''title'', JStr title),
          (''comments'', jnat comments)]) channel"

definition github_issue_closed :: "string \<Rightarrow> nat \<Rightarrow> string \<Rightarrow> string option \<Rightarrow> incoming_event" where
  "github_issue_closed repo number title channel =
     workspace_event ''github.issue-closed''
       (jobject [(''repo'', JStr repo), (''number'', jnat number), (''title'', JStr title)]) channel"

record github_pr_comment =
  prc_repo :: string
  prc_number :: nat
  prc_title :: string
  prc_author :: string
  prc_pr_author :: string
  prc_url :: string
  prc_comment_id :: nat

record github_pr_review_comment =
  prrc_comment :: github_pr_comment
  prrc_path :: string

record github_pr_review =
  prr_repo :: string
  prr_number :: nat
  prr_title :: string
  prr_author :: string
  prr_pr_author :: string
  prr_url :: string
  prr_review_id :: nat
  prr_state :: string

definition github_pr_commented :: "github_pr_comment \<Rightarrow> string option \<Rightarrow> incoming_event" where
  "github_pr_commented c channel =
     workspace_event ''github.pr-commented''
       (jobject [(''repo'', JStr (prc_repo c)), (''number'', jnat (prc_number c)), (''title'', JStr (prc_title c)),
          (''author'', JStr (prc_author c)), (''pr_author'', JStr (prc_pr_author c)),
          (''url'', JStr (prc_url c)), (''comment_id'', jnat (prc_comment_id c))]) channel"

definition github_pr_review_commented :: "github_pr_review_comment \<Rightarrow> string option \<Rightarrow> incoming_event" where
  "github_pr_review_commented c channel =
     (let event = github_pr_commented (prrc_comment c) channel
      in event\<lparr>ev_kind := ''github.pr-review-commented'',
           ev_payload := json_insert ''path'' (JStr (prrc_path c)) (ev_payload event)\<rparr>)"

definition github_pr_reviewed :: "github_pr_review \<Rightarrow> string option \<Rightarrow> incoming_event" where
  "github_pr_reviewed r channel =
     workspace_event ''github.pr-reviewed''
       (jobject [(''repo'', JStr (prr_repo r)), (''number'', jnat (prr_number r)), (''title'', JStr (prr_title r)),
          (''author'', JStr (prr_author r)), (''pr_author'', JStr (prr_pr_author r)), (''url'', JStr (prr_url r)),
          (''review_id'', jnat (prr_review_id r)), (''state'', JStr (prr_state r))]) channel"

definition short_sha :: "string \<Rightarrow> string" where
  "short_sha commit = take_chars 7 commit"

definition git_commit :: "string \<Rightarrow> string \<Rightarrow> string \<Rightarrow> string \<Rightarrow> string option \<Rightarrow> incoming_event" where
  "git_commit repo branch commit summary channel =
     workspace_event ''git.commit''
       (jobject [(''repo'', JStr repo), (''branch'', JStr branch), (''commit'', JStr commit),
          (''short_commit'', JStr (short_sha commit)), (''summary'', JStr summary)]) channel"

definition git_commit_events ::
    "string \<Rightarrow> string \<Rightarrow> (string \<times> string) list \<Rightarrow> string option \<Rightarrow> incoming_event list" where
  "git_commit_events repo branch commits channel =
     (case commits of
        [] \<Rightarrow> []
      | [(commit, summary)] \<Rightarrow> [git_commit repo branch commit summary channel]
      | (first_commit, first_summary) # _ \<Rightarrow>
          [workspace_event ''git.commit''
             (jobject [(''repo'', JStr repo), (''branch'', JStr branch), (''commit'', JStr first_commit),
                (''short_commit'', JStr (short_sha first_commit)), (''summary'', JStr first_summary),
                (''commit_count'', jnat (length commits)),
                (''commits'', JArr (map (\<lambda>(commit, summary).
                    jobject [(''commit'', JStr commit), (''short_commit'', JStr (short_sha commit)),
                      (''summary'', JStr summary)]) commits))]) channel])"

definition git_branch_changed :: "string \<Rightarrow> string \<Rightarrow> string \<Rightarrow> string option \<Rightarrow> incoming_event" where
  "git_branch_changed repo old_branch new_branch channel =
     workspace_event ''git.branch-changed''
       (jobject [(''repo'', JStr repo), (''old_branch'', JStr old_branch), (''new_branch'', JStr new_branch)]) channel"

definition github_pr_status_changed ::
    "string \<Rightarrow> nat \<Rightarrow> string \<Rightarrow> string \<Rightarrow> string \<Rightarrow> string \<Rightarrow> string option \<Rightarrow> incoming_event" where
  "github_pr_status_changed repo number title old_status new_status url channel =
     workspace_event ''github.pr-status-changed''
       (jobject [(''repo'', JStr repo), (''number'', jnat number), (''title'', JStr title),
          (''old_status'', JStr old_status), (''new_status'', JStr new_status), (''url'', JStr url)]) channel"

definition github_ci ::
    "string \<Rightarrow> string \<Rightarrow> nat option \<Rightarrow> string \<Rightarrow> string \<Rightarrow> string option \<Rightarrow> string \<Rightarrow> string \<Rightarrow>
     string option \<Rightarrow> string option \<Rightarrow> incoming_event" where
  "github_ci kind repo number workflow status conclusion sha url branch channel =
     (let payload = bt_extend [(''repo'', JStr repo), (''workflow'', JStr workflow), (''status'', JStr status),
            (''sha'', JStr sha), (''url'', JStr url)] [];
          payload = opt_field ''number'' jnat number payload;
          payload = opt_field ''conclusion'' JStr conclusion payload;
          payload = opt_field ''branch'' JStr branch payload
      in workspace_event kind (JObj payload) channel)"

definition github_release ::
    "string \<Rightarrow> string \<Rightarrow> string \<Rightarrow> string \<Rightarrow> bool \<Rightarrow> string \<Rightarrow> string option \<Rightarrow> string option \<Rightarrow> incoming_event" where
  "github_release action repo tag name is_prerelease url actor channel =
     (let kind = (if action = ''prereleased'' then ''github.release-prereleased''
                  else if action = ''edited'' then ''github.release-edited''
                  else ''github.release-published'');
          payload = bt_extend [(''repo'', JStr repo), (''tag'', JStr tag), (''name'', JStr name),
            (''action'', JStr action), (''is_prerelease'', JBool is_prerelease), (''url'', JStr url)] [];
          payload = opt_field ''actor'' JStr actor payload
      in workspace_event kind (JObj payload) channel)"

record github_notification =
  gn_repo :: string
  gn_thread_id :: string
  gn_reason :: string
  gn_subject_type :: string
  gn_title :: string
  gn_number :: "nat option"
  gn_url :: string
  gn_updated_at :: string

definition github_notification_event :: "github_notification \<Rightarrow> string option \<Rightarrow> incoming_event" where
  "github_notification_event e channel =
     (let payload = jobject [(''repo'', JStr (gn_repo e)), (''thread_id'', JStr (gn_thread_id e)),
            (''reason'', JStr (gn_reason e)), (''subject_type'', JStr (gn_subject_type e)),
            (''title'', JStr (gn_title e)), (''url'', JStr (gn_url e)), (''updated_at'', JStr (gn_updated_at e))];
          payload = (case gn_number e of None \<Rightarrow> payload | Some n \<Rightarrow> json_insert ''number'' (jnat n) payload)
      in workspace_event ''github.notification'' payload channel)"

definition github_actions_status ::
    "string \<Rightarrow> string \<Rightarrow> string \<Rightarrow> string \<Rightarrow> string option \<Rightarrow> incoming_event" where
  "github_actions_status component old_status new_status url channel =
     workspace_event ''github.actions-status''
       (jobject [(''component'', JStr component), (''old_status'', JStr old_status),
          (''new_status'', JStr new_status), (''url'', JStr url), (''provider'', JStr ''github-statuspage'')]) channel"

definition github_actions_incident ::
    "string \<Rightarrow> string \<Rightarrow> string \<Rightarrow> string \<Rightarrow> string \<Rightarrow> string option \<Rightarrow> string option \<Rightarrow> string option \<Rightarrow>
     string option \<Rightarrow> string list \<Rightarrow> string \<Rightarrow> string option \<Rightarrow> incoming_event" where
  "github_actions_incident incident_id name status impact change old_status update_id update_status update_body
     affected url channel =
     (let payload = bt_extend [(''incident_id'', JStr incident_id), (''name'', JStr name),
            (''status'', JStr status), (''impact'', JStr impact), (''change'', JStr change), (''url'', JStr url),
            (''provider'', JStr ''github-statuspage''), (''affected_components'', JArr (map JStr affected))] [];
          payload = opt_field ''old_status'' JStr old_status payload;
          payload = opt_field ''update_id'' JStr update_id payload;
          payload = opt_field ''update_status'' JStr update_status payload;
          payload = opt_field ''update_body'' JStr update_body payload
      in workspace_event ''github.actions-incident'' (JObj payload) channel)"

definition gajae_hold_dedupe_key :: "string \<Rightarrow> string \<Rightarrow> string \<Rightarrow> string \<Rightarrow> string" where
  "gajae_hold_dedupe_key repo target action relevant_ref =
     trim repo @ '':'' @ trim target @ '':'' @ trim action @ '':'' @ trim relevant_ref"

definition gajae_hold ::
    "string \<Rightarrow> string \<Rightarrow> string \<Rightarrow> string \<Rightarrow> string \<Rightarrow> string option \<Rightarrow> string option \<Rightarrow> string \<Rightarrow> string \<Rightarrow>
     string option \<Rightarrow> incoming_event" where
  "gajae_hold kind repo target action boundary version sha disallowed_action why actor =
     (let relevant_ref = unwrap_or (opt_or version sha) [];
          dedupe_key = gajae_hold_dedupe_key repo target action relevant_ref;
          payload = bt_extend [(''repo'', JStr repo), (''target'', JStr target), (''action'', JStr action),
            (''boundary'', JStr boundary), (''disallowed_action'', JStr disallowed_action),
            (''why_autonomous_disallowed'', JStr why), (''autonomous_execution_allowed'', JBool False),
            (''held_action_executed'', JBool False), (''dedupe_key'', JStr dedupe_key)] [];
          payload = opt_field ''version'' JStr version payload;
          payload = opt_field ''sha'' JStr sha payload;
          payload = opt_field ''actor'' JStr actor payload
      in \<lparr>ev_kind = kind, ev_channel = Some target, ev_mention = None, ev_format = Some Compact,
          ev_template = None, ev_payload = JObj payload\<rparr>)"

definition gajae_release_hold ::
    "string \<Rightarrow> string \<Rightarrow> string \<Rightarrow> string \<Rightarrow> string \<Rightarrow> string \<Rightarrow> string option \<Rightarrow> incoming_event" where
  "gajae_release_hold repo target action version disallowed_action why actor =
     gajae_hold ''gajae.release.hold'' repo target action ''release'' (Some version) None disallowed_action why actor"

definition gajae_merge_hold ::
    "string \<Rightarrow> string \<Rightarrow> string \<Rightarrow> string \<Rightarrow> string \<Rightarrow> string \<Rightarrow> string option \<Rightarrow> incoming_event" where
  "gajae_merge_hold repo target action sha disallowed_action why actor =
     gajae_hold ''gajae.merge.hold'' repo target action ''main-merge'' None (Some sha) disallowed_action why actor"

definition tmux_keyword :: "string \<Rightarrow> string \<Rightarrow> string \<Rightarrow> string option \<Rightarrow> incoming_event" where
  "tmux_keyword session keyword line channel =
     workspace_event ''tmux.keyword''
       (jobject [(''session'', JStr session), (''keyword'', JStr keyword), (''line'', JStr line)]) channel"

definition tmux_keyword_aggregated :: "string \<Rightarrow> (string \<times> string) list \<Rightarrow> string option \<Rightarrow> incoming_event" where
  "tmux_keyword_aggregated session hits channel =
     (let (keyword, line) = (case hits of [] \<Rightarrow> ([], []) | hit # _ \<Rightarrow> hit)
      in workspace_event ''tmux.keyword''
           (jobject [(''session'', JStr session), (''keyword'', JStr keyword), (''line'', JStr line),
              (''hit_count'', jnat (length hits)),
              (''hits'', JArr (map (\<lambda>(keyword, line).
                  jobject [(''keyword'', JStr keyword), (''line'', JStr line)]) hits))]) channel)"

definition tmux_keywords :: "string \<Rightarrow> (string \<times> string) list \<Rightarrow> string option \<Rightarrow> incoming_event" where
  "tmux_keywords session hits channel =
     (case hits of
        [] \<Rightarrow> tmux_keyword session [] [] channel
      | [(keyword, line)] \<Rightarrow> tmux_keyword session keyword line channel
      | _ \<Rightarrow> tmux_keyword_aggregated session hits channel)"

definition tmux_stale :: "string \<Rightarrow> string \<Rightarrow> nat \<Rightarrow> string \<Rightarrow> string option \<Rightarrow> incoming_event" where
  "tmux_stale session pane minutes last_line channel =
     workspace_event ''tmux.stale''
       (jobject [(''session'', JStr session), (''pane'', JStr pane), (''minutes'', jnat minutes),
          (''last_line'', JStr last_line)]) channel"

definition with_mention :: "string option \<Rightarrow> incoming_event \<Rightarrow> incoming_event" where
  "with_mention m e = e\<lparr>ev_mention := m\<rparr>"

definition with_format :: "message_format option \<Rightarrow> incoming_event \<Rightarrow> incoming_event" where
  "with_format f e = e\<lparr>ev_format := f\<rparr>"

definition with_template :: "string option \<Rightarrow> incoming_event \<Rightarrow> incoming_event" where
  "with_template t e = e\<lparr>ev_template := t\<rparr>"

definition with_repo_context :: "string option \<Rightarrow> string option \<Rightarrow> incoming_event \<Rightarrow> incoming_event" where
  "with_repo_context repo_path worktree_path e =
     (case ev_payload e of
        JObj payload \<Rightarrow>
          (let payload = opt_field ''repo_path'' JStr (opt_filter (\<lambda>v. \<not> blank v) repo_path) payload;
               payload = opt_field ''worktree_path'' JStr (opt_filter (\<lambda>v. \<not> blank v) worktree_path) payload
           in e\<lparr>ev_payload := JObj payload\<rparr>)
      | _ \<Rightarrow> e)"

text \<open>The trimmed value, when it is not empty: \<open>map(str::trim).filter(|v| !v.is_empty())\<close>.\<close>

definition trimmed_non_empty :: "string option \<Rightarrow> string option" where
  "trimmed_non_empty x = opt_filter (\<lambda>v. v \<noteq> []) (map_option trim x)"

definition routing_fields :: "routing_metadata \<Rightarrow> (string \<times> string option) list" where
  "routing_fields r =
     [(''tool'', rm_tool r), (''project'', rm_project r), (''repo_name'', rm_repo_name r),
      (''repo_path'', rm_repo_path r), (''worktree_path'', rm_worktree_path r),
      (''session_id'', rm_session_id r), (''branch'', rm_branch r)]"

definition with_routing_metadata :: "routing_metadata \<Rightarrow> incoming_event \<Rightarrow> incoming_event" where
  "with_routing_metadata r e =
     (case ev_payload e of
        JObj payload \<Rightarrow>
          e\<lparr>ev_payload := JObj (foldl (\<lambda>m (k, v). opt_field k JStr (trimmed_non_empty v) m)
                                payload (routing_fields r))\<rparr>
      | _ \<Rightarrow> e)"

definition subscription_event ::
    "string \<Rightarrow> string \<Rightarrow> string \<Rightarrow> string \<Rightarrow> string \<Rightarrow> json \<Rightarrow> routing_metadata \<Rightarrow> string \<Rightarrow> incoming_event" where
  "subscription_event event_uuid corr_uuid seen_at received_at kind payload routing name =
     (let e = with_routing_metadata routing (workspace_event kind payload None)
      in case ev_payload e of
           JObj obj \<Rightarrow>
             e\<lparr>ev_payload := JObj (bt_extend
                 [(''event_id'', JStr event_uuid), (''correlation_id'', JStr corr_uuid),
                  (''first_seen_at'', JStr seen_at), (''contract_event'', JStr (ev_kind e)),
                  (''subscription_name'', JStr name), (''subscription_transport'', JStr ''websocket''),
                  (''subscription_received_at'', JStr received_at)] obj)\<rparr>
         | _ \<Rightarrow> e)"

section \<open>Canonical kind\<close>

definition canonical_kinds :: "(string \<times> string) list" where
  "canonical_kinds =
     [(''issue-opened'', ''github.issue-opened''),
      (''discord.message_create'', ''discord.message-create''),
      (''discord.message.created'', ''discord.message-create''),
      (''discord.message-create'', ''discord.message-create''),
      (''git.pr-status-changed'', ''github.pr-status-changed''),
      (''session-start'', ''session.started''), (''started'', ''session.started''),
      (''session-idle'', ''session.blocked''), (''blocked'', ''session.blocked''),
      (''session-end'', ''session.finished''), (''finished'', ''session.finished''),
      (''failed'', ''session.failed''),
      (''retry-needed'', ''session.retry-needed''),
      (''pr-created'', ''session.pr-created''),
      (''test-started'', ''session.test-started''),
      (''test-finished'', ''session.test-finished''),
      (''test-failed'', ''session.test-failed''),
      (''handoff-needed'', ''session.handoff-needed''),
      (''prompt-submitted'', ''session.prompt-submitted''),
      (''prompt-delivered'', ''session.prompt-delivered''),
      (''prompt-delivery-failed'', ''session.prompt-delivery-failed''),
      (''stopped'', ''session.stopped'')]"

text \<open>The \<open>match\<close> on the kind, its or-patterns written out, with \<open>other => other\<close> as the default.\<close>

definition canonical_kind_of :: "string \<Rightarrow> string" where
  "canonical_kind_of kind = unwrap_or (map_of canonical_kinds kind) kind"

definition canonical_kind :: "incoming_event \<Rightarrow> string" where
  "canonical_kind e = canonical_kind_of (ev_kind e)"

section \<open>Template context\<close>

type_synonym context_map = "(string, string) btree"

fun flatten_json :: "(json list \<Rightarrow> string) \<Rightarrow> string \<Rightarrow> json \<Rightarrow> context_map \<Rightarrow> context_map"
and flatten_fields :: "(json list \<Rightarrow> string) \<Rightarrow> string \<Rightarrow> (string \<times> json) list \<Rightarrow> context_map \<Rightarrow> context_map" where
  "flatten_json show_array prefix (JObj kvs) out = flatten_fields show_array prefix kvs out"
| "flatten_json show_array prefix (JArr xs) out = bt_insert prefix (show_array xs) out"
| "flatten_json show_array prefix (JStr s) out = bt_insert prefix s out"
| "flatten_json show_array prefix (JBool b) out = bt_insert prefix (if b then ''true'' else ''false'') out"
| "flatten_json show_array prefix (JNum n) out = bt_insert prefix (show_number n) out"
| "flatten_json show_array prefix JNull out = bt_insert prefix ''null'' out"
| "flatten_fields show_array prefix [] out = out"
| "flatten_fields show_array prefix ((key, value) # kvs) out =
     flatten_fields show_array prefix kvs
       (flatten_json show_array (if prefix = [] then key else prefix @ ''.'' @ key) value out)"

definition insert_context_alias_pair :: "string \<Rightarrow> string \<Rightarrow> context_map \<Rightarrow> context_map" where
  "insert_context_alias_pair primary alias ctx =
     (case (bt_get ctx primary, bt_get ctx alias) of
        (Some v, None) \<Rightarrow> bt_insert alias v ctx
      | (None, Some v) \<Rightarrow> bt_insert primary v ctx
      | _ \<Rightarrow> ctx)"

text \<open>\<open>insert\<close> of a payload key the context reserves: the payload's own value moves to \<open>spare\<close>.\<close>

definition insert_reserved :: "string \<Rightarrow> string \<Rightarrow> string \<Rightarrow> context_map \<Rightarrow> context_map" where
  "insert_reserved key spare v ctx =
     (case bt_get ctx key of
        None \<Rightarrow> bt_insert key v ctx
      | Some old \<Rightarrow> bt_entry_or spare old (bt_insert key v ctx))"

definition insert_context_aliases :: "string \<Rightarrow> context_map \<Rightarrow> context_map" where
  "insert_context_aliases canonical ctx =
     (let ctx = insert_reserved ''event'' ''payload_event'' canonical ctx;
          ctx = insert_reserved ''contract_event'' ''payload_contract_event'' canonical ctx;
          ctx = bt_insert ''kind'' canonical ctx;
          ctx = insert_context_alias_pair ''repo'' ''repo_name'' ctx;
          ctx = insert_context_alias_pair ''session'' ''session_name'' ctx;
          ctx = insert_context_alias_pair ''channel'' ''channel_hint'' ctx
      in bt_entry_or ''route_key'' canonical ctx)"

definition template_context :: "(json list \<Rightarrow> string) \<Rightarrow> incoming_event \<Rightarrow> context_map" where
  "template_context show_array e =
     (let ctx = opt_field ''channel'' (\<lambda>c. c) (trimmed_non_empty (ev_channel e)) [];
          ctx = opt_field ''channel_hint'' (\<lambda>c. c) (trimmed_non_empty (ev_channel e)) ctx;
          ctx = opt_field ''mention'' (\<lambda>m. m) (trimmed_non_empty (ev_mention e)) ctx;
          ctx = opt_field ''format'' format_as_str (ev_format e) ctx;
          ctx = opt_field ''template'' (\<lambda>t. t) (trimmed_non_empty (ev_template e)) ctx;
          ctx = flatten_json show_array [] (ev_payload e) ctx
      in insert_context_aliases (canonical_kind e) ctx)"

definition render_template :: "string \<Rightarrow> context_map \<Rightarrow> string" where
  "render_template template ctx =
     foldl (\<lambda>rendered (key, value). replace_str (''{'' @ key @ ''}'') value rendered) template ctx"

section \<open>Lemmas\<close>

lemma canonical_kinds_fixed: "list_all (\<lambda>(_, k). canonical_kind_of k = k) canonical_kinds"
  by code_simp

lemma canonical_kind_idem: "canonical_kind_of (canonical_kind_of kind) = canonical_kind_of kind"
proof (cases "map_of canonical_kinds kind")
  case (Some k)
  then have "canonical_kind_of k = k"
    using canonical_kinds_fixed map_of_SomeD[OF Some] by (auto simp: list_all_iff)
  with Some show ?thesis by (simp add: canonical_kind_of_def)
qed (simp add: canonical_kind_of_def)

lemma opt_field_ok [wf_intros]: "bt_ok m \<Longrightarrow> bt_ok (opt_field k f x m)"
  by (cases x) (auto simp: opt_field_def bt_ok_insert)

lemma bt_get_opt_field:
  "bt_get (opt_field k f x m) k' = (if k' = k then opt_or (map_option f x) (bt_get m k) else bt_get m k')"
  by (cases x) (auto simp: opt_field_def bt_get_insert)

lemma flatten_ok [wf_intros]:
  "bt_ok out \<Longrightarrow> bt_ok (flatten_json sh prefix v out)"
  "bt_ok out \<Longrightarrow> bt_ok (flatten_fields sh prefix kvs out)"
  by (induction sh prefix v out and sh prefix kvs out rule: flatten_json_flatten_fields.induct)
     (auto intro: bt_ok_insert)

lemma alias_pair_ok [wf_intros]: "bt_ok ctx \<Longrightarrow> bt_ok (insert_context_alias_pair p a ctx)"
  by (auto simp: insert_context_alias_pair_def intro: bt_ok_insert split: option.splits)

lemma insert_reserved_ok [wf_intros]: "bt_ok ctx \<Longrightarrow> bt_ok (insert_reserved k s v ctx)"
  by (auto simp: insert_reserved_def intro: bt_ok_insert bt_ok_entry_or split: option.splits)

lemma bt_get_alias_pair:
  "k \<noteq> p \<Longrightarrow> k \<noteq> a \<Longrightarrow> bt_get (insert_context_alias_pair p a ctx) k = bt_get ctx k"
  by (auto simp: insert_context_alias_pair_def bt_get_insert split: option.splits)

lemma bt_get_alias_pair_same:
  "bt_get (insert_context_alias_pair p a ctx) p = opt_or (bt_get ctx p) (bt_get ctx a)"
  "bt_get (insert_context_alias_pair p a ctx) a = opt_or (bt_get ctx a) (bt_get ctx p)"
  by (auto simp: insert_context_alias_pair_def bt_get_insert split: option.splits)

lemma bt_get_insert_reserved:
  "k \<noteq> spare \<Longrightarrow> bt_get (insert_reserved key spare v ctx) k = (if k = key then Some v else bt_get ctx k)"
  by (auto simp: insert_reserved_def bt_get_insert bt_get_entry_or split: option.splits)

lemma bt_get_reserved_spare:
  "key \<noteq> spare \<Longrightarrow> bt_get (insert_reserved key spare v ctx) spare = opt_or (bt_get ctx spare) (bt_get ctx key)"
  by (auto simp: insert_reserved_def bt_get_insert bt_get_entry_or split: option.splits)

lemmas context_gets = insert_context_aliases_def Let_def bt_get_entry_or bt_get_alias_pair bt_get_alias_pair_same
  bt_get_insert_reserved bt_get_reserved_spare bt_get_insert

lemma insert_context_aliases_ok [wf_intros]: "bt_ok ctx \<Longrightarrow> bt_ok (insert_context_aliases c ctx)"
  by (simp add: insert_context_aliases_def Let_def wf_intros)

lemma template_context_ok: "bt_ok (template_context sh e)"
  by (simp add: template_context_def Let_def wf_intros)

text \<open>
  The last step of the context: whatever the payload contained, these keys are the router's.
\<close>

lemma aliases_reserved:
  "bt_get (insert_context_aliases c ctx) ''event'' = Some c"
  "bt_get (insert_context_aliases c ctx) ''contract_event'' = Some c"
  "bt_get (insert_context_aliases c ctx) ''kind'' = Some c"
  by (simp_all add: context_gets)

lemma aliases_agree:
  "bt_has ctx ''repo'' \<noteq> bt_has ctx ''repo_name'' \<Longrightarrow>
   bt_get (insert_context_aliases c ctx) ''repo'' = bt_get (insert_context_aliases c ctx) ''repo_name''"
  by (auto simp: context_gets bt_has_def)

section \<open>Properties\<close>

text \<open>
  A payload cannot forge the keys routes are matched on: in the template context of any event, the
  keys \<open>event\<close>, \<open>contract_event\<close> and \<open>kind\<close> carry the canonical kind of the event whatever the payload
  says, that kind is canonical (canonicalising it again changes nothing), and the context is a proper
  ordered map.
\<close>

theorem context_reserved_keys:
  "let ctx = template_context sh e
   in bt_ok ctx \<and>
      bt_get ctx ''event'' = Some (canonical_kind e) \<and>
      bt_get ctx ''contract_event'' = Some (canonical_kind e) \<and>
      bt_get ctx ''kind'' = Some (canonical_kind e) \<and>
      canonical_kind e = canonical_kind_of (canonical_kind e)"
  using template_context_ok[of sh e] aliases_reserved
  by (auto simp: template_context_def Let_def canonical_kind_def canonical_kind_idem)

end
