(* ===== verification/Normalize.thy ===== *)
theory Normalize imports Events begin

text \<open>
  \<open>normalize_event\<close> of \<open>src/events.rs\<close>: the canonical kind chosen from the payload's native signals and
  the metadata copied to well-known top-level fields. The daemon normalises an event when it accepts
  it and the dispatcher normalises it again when it takes it from the queue. The clock reading
  \<open>now\<close> and the random identifier \<open>uuid\<close> are arguments. Each lookup of the code's long function
  is a definition with the pointers in the code's order.
\<close>

section \<open>Lookups\<close>

definition first_string :: "json \<Rightarrow> string list \<Rightarrow> string option" where
  "first_string payload pointers =
     find_map (\<lambda>p. trimmed_non_empty (Option.bind (pointer payload p) as_str)) pointers"

definition first_u64 :: "json \<Rightarrow> string list \<Rightarrow> nat option" where
  "first_u64 payload pointers = find_map (\<lambda>p. Option.bind (pointer payload p) as_u64) pointers"

definition boolish :: "json \<Rightarrow> bool option" where
  "boolish v =
     (case v of
        JBool b \<Rightarrow> Some b
      | JNum n \<Rightarrow> map_option (\<lambda>k. k \<noteq> 0) (as_u64 (JNum n))
      | JStr s \<Rightarrow>
          map_of [(''1'', True), (''true'', True), (''yes'', True), (''attached'', True),
                  (''0'', False), (''false'', False), (''no'', False), (''detached'', False)]
            (to_ascii_lowercase (trim s))
      | _ \<Rightarrow> None)"

definition first_boolish :: "json \<Rightarrow> string list \<Rightarrow> bool option" where
  "first_boolish payload pointers = find_map (\<lambda>p. Option.bind (pointer payload p) boolish) pointers"

definition u64ish :: "json \<Rightarrow> nat option" where
  "u64ish v =
     (case v of
        JNum n \<Rightarrow> as_u64 (JNum n)
      | JStr s \<Rightarrow> parse_uint u64_max (trim s)
      | _ \<Rightarrow> None)"

definition first_u64ish :: "json \<Rightarrow> string list \<Rightarrow> nat option" where
  "first_u64ish payload pointers = find_map (\<lambda>p. Option.bind (pointer payload p) u64ish) pointers"

section \<open>Kinds\<close>

definition native_signals :: "(string \<times> string) list" where
  "native_signals =
     [(''session-start'', ''session.started''), (''started'', ''session.started''),
      (''session.started'', ''session.started''),
      (''session-idle'', ''session.blocked''), (''blocked'', ''session.blocked''),
      (''session.blocked'', ''session.blocked''), (''session.idle'', ''session.blocked''),
      (''question.requested'', ''session.blocked''),
      (''session-end'', ''session.finished''), (''finished'', ''session.finished''),
      (''session.finished'', ''session.finished''),
      (''failed'', ''session.failed''), (''session.failed'', ''session.failed''),
      (''tool.failed'', ''session.failed''), (''pull-request.failed'', ''session.failed''),
      (''retry-needed'', ''session.retry-needed''), (''session.retry-needed'', ''session.retry-needed''),
      (''pr-created'', ''session.pr-created''), (''session.pr-created'', ''session.pr-created''),
      (''pull-request.created'', ''session.pr-created''),
      (''test-started'', ''session.test-started''), (''session.test-started'', ''session.test-started''),
      (''test.started'', ''session.test-started''),
      (''test-finished'', ''session.test-finished''), (''session.test-finished'', ''session.test-finished''),
      (''test.finished'', ''session.test-finished''),
      (''test-failed'', ''session.test-failed''), (''session.test-failed'', ''session.test-failed''),
      (''test.failed'', ''session.test-failed''),
      (''handoff-needed'', ''session.handoff-needed''),
      (''session.handoff-needed'', ''session.handoff-needed''),
      (''stop'', ''session.stopped''), (''stopped'', ''session.stopped''),
      (''session.stopped'', ''session.stopped''),
      (''userpromptsubmit'', ''session.prompt-submitted''),
      (''user-prompt-submit'', ''session.prompt-submitted''),
      (''user-prompt-submitted'', ''session.prompt-submitted''),
      (''prompt-submitted'', ''session.prompt-submitted''),
      (''prompt.submitted'', ''session.prompt-submitted''),
      (''session.prompt-submitted'', ''session.prompt-submitted''),
      (''prompt-delivered'', ''session.prompt-delivered''),
      (''session.prompt-delivered'', ''session.prompt-delivered''),
      (''first-prompt-delivered'', ''session.prompt-delivered''),
      (''prompt-delivery-failed'', ''session.prompt-delivery-failed''),
      (''session.prompt-delivery-failed'', ''session.prompt-delivery-failed''),
      (''first-prompt-delivery-failed'', ''session.prompt-delivery-failed'')]"

definition replace_char :: "char \<Rightarrow> char \<Rightarrow> string \<Rightarrow> string" where
  "replace_char a b s = map (\<lambda>c. if c = a then b else c) s"

definition map_native_signal :: "string \<Rightarrow> string option" where
  "map_native_signal raw =
     map_of native_signals (to_ascii_lowercase (replace_char CHR ''_'' CHR ''-'' (trim raw)))"

definition native_contract_kind :: "string \<Rightarrow> json \<Rightarrow> string option" where
  "native_contract_kind kind payload =
     (let by_route = Option.bind
            (first_string payload [''/signal/routeKey'', ''/route_key'', ''/context/route_key''])
            map_native_signal;
          by_event = Option.bind
            (first_string payload [''/context/normalized_event'', ''/normalized_event'']) map_native_signal
      in opt_or by_route (opt_or by_event (map_native_signal kind)))"

definition canonical_event_kind :: "string \<Rightarrow> json \<Rightarrow> string" where
  "canonical_event_kind kind payload =
     (if kind \<in> {''github.notification'', ''github.pr-commented'', ''github.pr-review-commented'',
                 ''github.pr-reviewed''} then kind
      else if kind = ''issue-opened'' then ''github.issue-opened''
      else if kind = ''git.pr-status-changed'' then ''github.pr-status-changed''
      else unwrap_or (native_contract_kind kind payload) kind)"

definition event_status_from_kind :: "string \<Rightarrow> string option" where
  "event_status_from_kind kind =
     map_of [(''agent.started'', ''started''), (''session.started'', ''started''),
             (''agent.blocked'', ''blocked''), (''session.blocked'', ''blocked''),
             (''agent.finished'', ''finished''), (''session.finished'', ''finished''),
             (''agent.failed'', ''failed''), (''session.failed'', ''failed''),
             (''session.retry-needed'', ''retry-needed''), (''session.pr-created'', ''pr-created''),
             (''session.test-started'', ''test-started''), (''session.test-finished'', ''test-finished''),
             (''session.test-failed'', ''test-failed''), (''session.handoff-needed'', ''handoff-needed''),
             (''session.prompt-submitted'', ''prompt-submitted''),
             (''session.prompt-delivered'', ''prompt-delivered''),
             (''session.prompt-delivery-failed'', ''prompt-delivery-failed''),
             (''session.stopped'', ''stopped'')] kind"

section \<open>Numbers in text\<close>

definition extract_number_after :: "string \<Rightarrow> string \<Rightarrow> nat option" where
  "extract_number_after text marker =
     (let text = to_ascii_lowercase text; marker = to_ascii_lowercase marker
      in case str_find marker text of
           None \<Rightarrow> None
         | Some i \<Rightarrow>
             (let digits = takeWhile is_ascii_digit (drop (i + length marker) text)
              in if digits = [] then None else parse_uint u64_max digits))"

definition extract_issue_number :: "string \<Rightarrow> nat option" where
  "extract_issue_number text =
     opt_or (extract_number_after text ''issue-'')
       (opt_or (extract_number_after text ''issue/'')
          (opt_or (extract_number_after text ''issue#'') (extract_number_after text ''#'')))"

definition nth_opt :: "'a list \<Rightarrow> nat \<Rightarrow> 'a option" where
  "nth_opt xs i = (if i < length xs then Some (xs ! i) else None)"

definition extract_pr_number_from_url :: "string \<Rightarrow> nat option" where
  "extract_pr_number_from_url url =
     (case nth_opt (split_str ''/pull/'' url) 1 of
        None \<Rightarrow> None
      | Some tail \<Rightarrow> parse_uint u64_max (hd (split_on CHR ''/'' tail)))"

section \<open>The metadata, field by field\<close>

definition infer_tool :: "json \<Rightarrow> string option" where
  "infer_tool payload =
     (case first_string payload [''/tool''] of
        Some tool \<Rightarrow> Some tool
      | None \<Rightarrow>
          (let agent = to_ascii_lowercase (trim (unwrap_or (first_string payload [''/agent_name'']) []))
           in if agent \<in> {''omc'', ''openclaw''} then Some ''omc''
              else if agent = ''omx'' then Some ''omx''
              else if pointer payload ''/signal/routeKey'' \<noteq> None then Some ''omc''
              else if pointer payload ''/context/normalized_event'' \<noteq> None then Some ''omx''
              else None))"

definition infer_test_runner :: "string \<Rightarrow> string option" where
  "infer_test_runner command =
     (let command = to_ascii_lowercase command
      in if str_contains ''cargo test'' command then Some ''cargo-test''
         else if str_contains ''pytest'' command then Some ''pytest''
         else if str_contains ''vitest'' command then Some ''vitest''
         else if str_contains ''jest'' command then Some ''jest''
         else if str_contains ''go test'' command then Some ''go-test''
         else if str_contains ''npm test'' command \<or> str_contains ''pnpm test'' command \<or>
                 str_contains ''yarn test'' command \<or> str_contains ''bun test'' command
         then Some ''package-test''
         else None)"

text \<open>\<open>Path::file_name\<close> on Unix: the last component, unless it is \<open>..\<close>; \<open>.\<close> components are dropped.\<close>

definition path_file_name :: "string \<Rightarrow> string option" where
  "path_file_name p =
     (let comps = filter (\<lambda>c. c \<noteq> [] \<and> c \<noteq> ''.'') (split_on CHR ''/'' p)
      in if comps = [] \<or> last comps = ''..'' then None else Some (last comps))"

definition meta_session_name :: "json \<Rightarrow> string option" where
  "meta_session_name p = first_string p
     [''/session_name'', ''/context/session_name'', ''/session'', ''/tmuxSession'', ''/tmux_session'',
      ''/context/tmuxSession'', ''/context/tmux_session'', ''/session_id'', ''/sessionId'',
      ''/context/session_id'', ''/context/sessionId'']"

definition meta_session_id :: "json \<Rightarrow> string option" where
  "meta_session_id p = first_string p
     [''/session_id'', ''/sessionId'', ''/context/session_id'', ''/context/sessionId'', ''/sessionId'',
      ''/session_name'', ''/context/session_name'']"

definition meta_project :: "json \<Rightarrow> string option" where
  "meta_project p = first_string p
     [''/project'', ''/projectName'', ''/project_name'', ''/context/project'', ''/context/projectName'',
      ''/context/project_name'']"

definition meta_repo_name :: "json \<Rightarrow> string option" where
  "meta_repo_name p =
     opt_or (first_string p [''/repo_name'', ''/context/repo_name'', ''/projectName'', ''/context/projectName''])
       (Option.bind (first_string p [''/repo_path'', ''/context/repo_path'']) path_file_name)"

definition meta_repo_path :: "json \<Rightarrow> string option" where
  "meta_repo_path p = first_string p
     [''/repo_path'', ''/context/repo_path'', ''/projectPath'', ''/context/projectPath'']"

definition meta_worktree_path :: "json \<Rightarrow> string option" where
  "meta_worktree_path p = first_string p
     [''/worktree_path'', ''/context/worktree_path'', ''/projectPath'', ''/context/projectPath'']"

definition meta_branch :: "json \<Rightarrow> string option" where
  "meta_branch p = first_string p [''/branch'', ''/context/branch'']"

definition meta_command :: "json \<Rightarrow> string option" where
  "meta_command p = first_string p [''/command'', ''/context/command'', ''/signal/command'']"

definition meta_tool_name :: "json \<Rightarrow> string option" where
  "meta_tool_name p = first_string p [''/tool_name'', ''/context/tool_name'', ''/signal/toolName'']"

definition meta_test_runner :: "json \<Rightarrow> string option" where
  "meta_test_runner p =
     opt_or (first_string p [''/test_runner'', ''/signal/testRunner''])
       (Option.bind (meta_command p) infer_test_runner)"

definition meta_elapsed_secs :: "json \<Rightarrow> nat option" where
  "meta_elapsed_secs p = first_u64 p [''/elapsed_secs'', ''/context/elapsed_secs'']"

definition meta_status :: "string \<Rightarrow> json \<Rightarrow> string option" where
  "meta_status canonical p =
     opt_or (first_string p [''/status'', ''/context/status'', ''/signal/phase''])
       (event_status_from_kind canonical)"

definition meta_summary :: "json \<Rightarrow> string option" where
  "meta_summary p = first_string p
     [''/summary'', ''/signal/summary'', ''/reason'', ''/context/summary'', ''/context/contextSummary'',
      ''/context/reason'', ''/context/question'']"

definition meta_error_message :: "string \<Rightarrow> json \<Rightarrow> string option" where
  "meta_error_message canonical p =
     opt_or (first_string p [''/error_message'', ''/error_summary'', ''/context/error_summary'',
                ''/context/error_message''])
       (if ends_with ''.failed'' canonical then meta_summary p else None)"

definition meta_event_id :: "string \<Rightarrow> json \<Rightarrow> bool \<times> string" where
  "meta_event_id uuid p =
     (let prior = first_string p [''/_clawhip_generated_event_id''];
          supplied = first_string p [''/event_id'']
      in (supplied = None \<or> supplied = prior, unwrap_or supplied uuid))"

definition meta_correlation_id :: "string \<Rightarrow> json \<Rightarrow> string" where
  "meta_correlation_id event_id p =
     unwrap_or (opt_or (first_string p [''/correlation_id''])
        (find_map (\<lambda>x. opt_filter (\<lambda>v. \<not> blank v) x)
           [meta_session_id p, meta_session_name p, meta_project p, meta_repo_name p])) event_id"

definition meta_route_key :: "json \<Rightarrow> string option" where
  "meta_route_key p = first_string p [''/route_key'', ''/signal/routeKey'', ''/context/route_key'']"

definition meta_tmux_session :: "json \<Rightarrow> string option" where
  "meta_tmux_session p = first_string p
     [''/tmux_session'', ''/tmuxSession'', ''/context/tmux_session'', ''/context/tmuxSession'',
      ''/tmux/session'', ''/context/tmux/session'', ''/payload/tmux_session'', ''/payload/tmuxSession'',
      ''/payload/tmux/session'']"

definition meta_tmux_window :: "json \<Rightarrow> string option" where
  "meta_tmux_window p = first_string p
     [''/tmux_window'', ''/tmuxWindow'', ''/context/tmux_window'', ''/context/tmuxWindow'',
      ''/tmux/window'', ''/context/tmux/window'', ''/payload/tmux_window'', ''/payload/tmuxWindow'',
      ''/payload/tmux/window'']"

definition meta_tmux_pane :: "json \<Rightarrow> string option" where
  "meta_tmux_pane p = first_string p
     [''/tmux_pane'', ''/tmuxPane'', ''/context/tmux_pane'', ''/context/tmuxPane'',
      ''/tmux/pane'', ''/context/tmux/pane'', ''/payload/tmux_pane'', ''/payload/tmuxPane'',
      ''/payload/tmux/pane'']"

definition meta_tmux_pane_tty :: "json \<Rightarrow> string option" where
  "meta_tmux_pane_tty p = first_string p
     [''/tmux_pane_tty'', ''/tmuxPaneTty'', ''/context/tmux_pane_tty'', ''/context/tmuxPaneTty'',
      ''/tmux/pane_tty'', ''/tmux/paneTty'', ''/context/tmux/pane_tty'', ''/context/tmux/paneTty'',
      ''/payload/tmux_pane_tty'', ''/payload/tmuxPaneTty'', ''/payload/tmux/pane_tty'',
      ''/payload/tmux/paneTty'']"

definition meta_tmux_attached :: "json \<Rightarrow> bool option" where
  "meta_tmux_attached p = first_boolish p
     [''/tmux_attached'', ''/tmuxAttached'', ''/context/tmux_attached'', ''/context/tmuxAttached'',
      ''/tmux/attached'', ''/context/tmux/attached'', ''/payload/tmux_attached'', ''/payload/tmuxAttached'',
      ''/payload/tmux/attached'']"

definition meta_tmux_client_count :: "json \<Rightarrow> nat option" where
  "meta_tmux_client_count p = first_u64ish p
     [''/tmux_client_count'', ''/tmuxClientCount'', ''/context/tmux_client_count'',
      ''/context/tmuxClientCount'', ''/tmux/client_count'', ''/tmux/clientCount'',
      ''/context/tmux/client_count'', ''/context/tmux/clientCount'', ''/payload/tmux_client_count'',
      ''/payload/tmuxClientCount'', ''/payload/tmux/client_count'', ''/payload/tmux/clientCount'']"

definition meta_pr_url :: "json \<Rightarrow> string option" where
  "meta_pr_url p =
     opt_or (first_string p [''/pr_url'', ''/context/pr_url'', ''/signal/prUrl''])
       (opt_filter (\<lambda>v. extract_pr_number_from_url v \<noteq> None) (meta_summary p))"

definition meta_pr_number :: "json \<Rightarrow> nat option" where
  "meta_pr_number p =
     opt_or (first_u64 p [''/pr_number'', ''/context/pr_number''])
       (Option.bind (meta_pr_url p) extract_pr_number_from_url)"

definition meta_issue_number :: "json \<Rightarrow> nat option" where
  "meta_issue_number p =
     opt_or (opt_or (first_u64 p [''/issue_number'', ''/context/issue_number''])
               (find_map (\<lambda>x. Option.bind x extract_issue_number)
                  [meta_session_name p, meta_branch p, meta_worktree_path p, meta_command p]))
       (meta_pr_number p)"

section \<open>Writing the metadata\<close>

definition insert_if_missing :: "string \<Rightarrow> ('a \<Rightarrow> json) \<Rightarrow> 'a option \<Rightarrow> (string, json) btree \<Rightarrow> (string, json) btree" where
  "insert_if_missing key f value obj =
     (case value of
        None \<Rightarrow> obj
      | Some v \<Rightarrow> if bt_get obj key = None then bt_insert key (f v) obj else obj)"

definition insert_agent_name :: "string \<Rightarrow> (string, json) btree \<Rightarrow> (string, json) btree" where
  "insert_agent_name canonical obj =
     (if (starts_with ''agent.'' canonical \<or> starts_with ''session.'' canonical) \<and> bt_get obj ''agent_name'' = None
      then opt_field ''agent_name'' JStr (trimmed_non_empty (Option.bind (bt_get obj ''tool'') as_str)) obj
      else obj)"

definition identity_fields :: "string \<Rightarrow> string \<Rightarrow> string \<Rightarrow> string \<Rightarrow> json \<Rightarrow> (string, json) btree \<Rightarrow> (string, json) btree" where
  "identity_fields now uuid raw_kind canonical p obj =
     (let (generated, event_id) = meta_event_id uuid p;
          obj = (if raw_kind \<noteq> canonical then bt_entry_or ''raw_event'' (JStr raw_kind) obj else obj);
          obj = bt_entry_or ''contract_event'' (JStr canonical) obj;
          obj = insert_if_missing ''tool'' JStr (infer_tool p) obj;
          obj = insert_if_missing ''event_id'' JStr (Some event_id) obj;
          obj = (if generated then bt_insert ''_clawhip_generated_event_id'' (JStr event_id) obj
                 else bt_remove ''_clawhip_generated_event_id'' obj);
          obj = insert_if_missing ''correlation_id'' JStr (Some (meta_correlation_id event_id p)) obj
      in insert_if_missing ''first_seen_at'' JStr (Some now) obj)"

definition metadata_fields :: "string \<Rightarrow> json \<Rightarrow> (string, json) btree \<Rightarrow> (string, json) btree" where
  "metadata_fields canonical p obj =
     (let obj = insert_if_missing ''session_name'' JStr (meta_session_name p) obj;
          obj = insert_if_missing ''session_id'' JStr (meta_session_id p) obj;
          obj = insert_if_missing ''project'' JStr (meta_project p) obj;
          obj = insert_if_missing ''repo_name'' JStr (meta_repo_name p) obj;
          obj = insert_if_missing ''repo_path'' JStr (meta_repo_path p) obj;
          obj = insert_if_missing ''worktree_path'' JStr (meta_worktree_path p) obj;
          obj = insert_if_missing ''branch'' JStr (meta_branch p) obj;
          obj = insert_if_missing ''issue_number'' jnat (meta_issue_number p) obj;
          obj = insert_if_missing ''pr_number'' jnat (meta_pr_number p) obj;
          obj = insert_if_missing ''pr_url'' JStr (meta_pr_url p) obj;
          obj = insert_if_missing ''command'' JStr (meta_command p) obj;
          obj = insert_if_missing ''tool_name'' JStr (meta_tool_name p) obj;
          obj = insert_if_missing ''test_runner'' JStr (meta_test_runner p) obj;
          obj = insert_if_missing ''elapsed_secs'' jnat (meta_elapsed_secs p) obj;
          obj = insert_if_missing ''status'' JStr (meta_status canonical p) obj;
          obj = insert_if_missing ''normalized_event'' JStr (meta_status canonical p) obj;
          obj = insert_if_missing ''summary'' JStr (meta_summary p) obj;
          obj = insert_if_missing ''error_message'' JStr (meta_error_message canonical p) obj;
          obj = insert_if_missing ''event_timestamp'' JStr (first_string p [''/event_timestamp'', ''/timestamp'']) obj;
          obj = insert_if_missing ''route_key'' JStr (meta_route_key p) obj;
          obj = insert_if_missing ''source'' JStr (first_string p [''/source'']) obj;
          obj = insert_if_missing ''tmux_session'' JStr (meta_tmux_session p) obj;
          obj = insert_if_missing ''tmux_window'' JStr (meta_tmux_window p) obj;
          obj = insert_if_missing ''tmux_pane'' JStr (meta_tmux_pane p) obj;
          obj = insert_if_missing ''tmux_pane_tty'' JStr (meta_tmux_pane_tty p) obj;
          obj = insert_if_missing ''tmux_attached'' JBool (meta_tmux_attached p) obj
      in insert_if_missing ''tmux_client_count'' jnat (meta_tmux_client_count p) obj)"

definition normalize_native_metadata :: "string \<Rightarrow> string \<Rightarrow> string \<Rightarrow> string \<Rightarrow> json \<Rightarrow> json" where
  "normalize_native_metadata now uuid raw_kind canonical p =
     (case p of
        JObj obj \<Rightarrow>
          JObj (metadata_fields canonical p
                  (insert_agent_name canonical (identity_fields now uuid raw_kind canonical p obj)))
      | _ \<Rightarrow> p)"

definition normalize_event :: "string \<Rightarrow> string \<Rightarrow> incoming_event \<Rightarrow> incoming_event" where
  "normalize_event now uuid e =
     (let payload = (if is_object (ev_payload e) then ev_payload e else jobject [(''value'', ev_payload e)]);
          canonical = canonical_event_kind (ev_kind e) payload
      in e\<lparr>ev_kind := canonical,
           ev_payload := normalize_native_metadata now uuid (ev_kind e) canonical payload\<rparr>)"

section \<open>Lemmas\<close>

lemma insert_if_missing_guarded:
  "insert_if_missing k f (Some v) obj = (if bt_get obj k = None then bt_insert k (f v) obj else obj)"
  "insert_if_missing k f None obj = obj"
  by (simp_all add: insert_if_missing_def)

lemma insert_if_missing_keeps:
  "bt_get obj k' = Some w \<Longrightarrow> bt_get (insert_if_missing k f v obj) k' = Some w"
  by (cases v) (simp_all only: insert_if_missing_guarded bt.guarded_keeps)

lemma insert_if_missing_get:
  "bt_get (insert_if_missing k f v obj) k' =
     (if k' = k then opt_or (bt_get obj k) (map_option f v) else bt_get obj k')"
  by (cases v; cases "bt_get obj k") (auto simp: insert_if_missing_guarded bt_get_insert)

lemma insert_if_missing_ok [wf_intros]: "bt_ok obj \<Longrightarrow> bt_ok (insert_if_missing k f v obj)"
  by (cases v) (auto simp: insert_if_missing_guarded intro: bt_ok_insert)

lemma bt_entry_or_keeps: "bt_get obj k' = Some w \<Longrightarrow> bt_get (bt_entry_or k v obj) k' = Some w"
  by (auto simp: bt_get_entry_or)

lemmas keeps_rules = insert_if_missing_keeps bt_entry_or_keeps

lemma insert_agent_name_keeps:
  "bt_get obj k = Some w \<Longrightarrow> bt_get (insert_agent_name canonical obj) k = Some w"
  by (auto simp: insert_agent_name_def bt_get_opt_field)

lemma metadata_fields_keeps:
  "bt_get obj k = Some w \<Longrightarrow> bt_get (metadata_fields canonical p obj) k = Some w"
  unfolding metadata_fields_def Let_def by (intro keeps_rules)

lemma identity_fields_keeps:
  assumes "bt_get obj k = Some w" and "k \<noteq> ''_clawhip_generated_event_id''"
  shows "bt_get (identity_fields now uuid raw canonical p obj) k = Some w"
proof -
  have r: "bt_get (if raw \<noteq> canonical then bt_entry_or ''raw_event'' (JStr raw) obj else obj) k = Some w"
    using assms(1) by (simp add: bt_entry_or_keeps)
  show ?thesis using assms
    by (auto simp: identity_fields_def Let_def bt_get_insert bt_get_remove split: prod.splits
        intro!: keeps_rules r)
qed

lemma identity_fields_event_id:
  "bt_get (identity_fields now uuid raw canonical p obj) ''event_id'' =
     opt_or (bt_get obj ''event_id'') (Some (JStr (snd (meta_event_id uuid p))))"
  by (simp add: identity_fields_def Let_def insert_if_missing_get bt_get_insert bt_get_remove bt_get_entry_or
      split: prod.splits)

lemma normalized_payload_get:
  "bt_get (metadata_fields canonical p (insert_agent_name canonical obj)) k = Some w" if "bt_get obj k = Some w"
  using that by (intro metadata_fields_keeps insert_agent_name_keeps)

definition payload_fields :: "incoming_event \<Rightarrow> (string, json) btree" where
  "payload_fields e = unwrap_or (as_object (ev_payload e)) []"

lemma normalize_payload:
  assumes "ev_payload e = JObj obj"
  shows "ev_payload (normalize_event now uuid e) =
     JObj (metadata_fields (canonical_event_kind (ev_kind e) (JObj obj)) (JObj obj)
        (insert_agent_name (canonical_event_kind (ev_kind e) (JObj obj))
          (identity_fields now uuid (ev_kind e) (canonical_event_kind (ev_kind e) (JObj obj)) (JObj obj) obj)))"
  using assms by (simp add: normalize_event_def normalize_native_metadata_def Let_def)

lemma normalize_is_object: "is_object (ev_payload (normalize_event now uuid e))"
  by (cases "ev_payload e")
     (simp_all add: normalize_event_def normalize_native_metadata_def Let_def jobject_def is_object_def)

lemma normalize_event_id:
  assumes "ev_payload e = JObj obj"
  shows "json_get (ev_payload (normalize_event now uuid e)) ''event_id'' =
     opt_or (bt_get obj ''event_id'') (Some (JStr (snd (meta_event_id uuid (JObj obj)))))"
proof -
  obtain w where w: "opt_or (bt_get obj ''event_id'') (Some (JStr (snd (meta_event_id uuid (JObj obj))))) = Some w"
    by (cases "bt_get obj ''event_id''") auto
  show ?thesis using assms w
    by (simp add: normalize_payload normalized_payload_get identity_fields_event_id)
qed

section \<open>Properties\<close>

text \<open>
  Normalisation only adds: every field the payload already has keeps its value (the marker for
  generated identifiers apart), so a producer's own identifiers, status and routing fields are never
  overwritten; and the result is an object that carries an event identifier.
\<close>

theorem normalize_keeps_fields:
  assumes "ev_payload e = JObj obj" and "bt_get obj k = Some v" and "k \<noteq> ''_clawhip_generated_event_id''"
  shows "json_get (ev_payload (normalize_event now uuid e)) k = Some v \<and>
         json_get (ev_payload (normalize_event now uuid e)) ''event_id'' \<noteq> None"
  using assms normalize_event_id[OF assms(1), of now uuid]
  by (simp add: normalize_payload normalized_payload_get identity_fields_keeps)

theorem normalize_keeps_fields_witness:
  "let e = workspace_event ''custom'' (jobject [(''status'', JStr ''mine'')]) None
   in json_get (ev_payload (normalize_event ''t'' ''u'' e)) ''status'' = Some (JStr ''mine'') \<and>
      json_get (ev_payload (normalize_event ''t'' ''u'' e)) ''event_id'' \<noteq> None"
proof -
  let ?e = "workspace_event ''custom'' (jobject [(''status'', JStr ''mine'')]) None"
  have "ev_payload ?e = JObj [(''status'', JStr ''mine'')]" by code_simp
  from normalize_keeps_fields[OF this, of "''status''" "JStr ''mine''" "''t''" "''u''"]
  show ?thesis by simp
qed

text \<open>
  The identifier is assigned once: normalising a normalised event again, with any other clock
  reading and any other fresh identifier, leaves the event identifier unchanged. The ledger's
  duplicate detection relies on this, since an event is normalised on acceptance and again on dispatch.
\<close>

theorem event_id_assigned_once:
  "json_get (ev_payload (normalize_event now2 uuid2 (normalize_event now1 uuid1 e))) ''event_id'' =
   json_get (ev_payload (normalize_event now1 uuid1 e)) ''event_id''"
proof -
  obtain obj where o: "ev_payload (normalize_event now1 uuid1 e) = JObj obj"
    using normalize_is_object by (rule is_objectE)
  have "\<exists>v. bt_get obj ''event_id'' = Some v"
  proof (cases "is_object (ev_payload e)")
    case True
    then obtain o1 where "ev_payload e = JObj o1" by (rule is_objectE)
    from normalize_event_id[OF this, of now1 uuid1] o show ?thesis
      by (cases "bt_get o1 ''event_id''") auto
  next
    case False
    let ?e = "e\<lparr>ev_payload := jobject [(''value'', ev_payload e)]\<rparr>"
    have "normalize_event now1 uuid1 e = normalize_event now1 uuid1 ?e"
      using False by (simp add: normalize_event_def Let_def)
    then show ?thesis using o normalize_event_id[of ?e "bt_extend [(''value'', ev_payload e)] []" now1 uuid1]
      by (cases "bt_get (bt_extend [(''value'', ev_payload e)] []) ''event_id''") (auto simp: jobject_def)
  qed
  then show ?thesis using normalize_event_id[OF o, of now2 uuid2] o by auto
qed

text \<open>
  The kind is not stable under the second normalisation: the first run of \<open>normalize_event\<close> on an
  \<open>agent.started\<close> event keeps its kind and records the status as \<open>normalized_event\<close>; the second run reads
  that field as a native signal and turns the event into \<open>session.started\<close>.
\<close>

theorem renormalisation_changes_agent_kind:
  "let e = agent_started ''omx'' None None None None None None;
       once = normalize_event ''t'' ''u'' e;
       twice = normalize_event ''t'' ''u'' once
   in ev_kind once = ''agent.started'' \<and> ev_kind twice = ''session.started''"
  by code_simp

end
