(* ===== verification/Glob.thy ===== *)
theory Glob imports RustStr begin

text \<open>
  The wildcard matcher \<open>glob_match\<close> of \<open>src/router.rs\<close>, which decides both the event patterns and the
  filters of a route, and its specification: the relation \<open>globs\<close>, where a star stands for any
  string and every other character for itself. \<open>glob_match_spec\<close> proves that the greedy left-to-right
  search of the code decides that relation.
\<close>

section \<open>The matcher\<close>

text \<open>
  The loop over the parts between stars: \<open>i\<close> is the index of the next part, \<open>n\<close> the number of parts,
  \<open>sw\<close> and \<open>ew\<close> whether the pattern starts and ends with a star.
\<close>

fun glob_loop :: "bool \<Rightarrow> bool \<Rightarrow> nat \<Rightarrow> nat \<Rightarrow> string list \<Rightarrow> string \<Rightarrow> bool" where
  "glob_loop sw ew n i [] remainder = (ew \<or> remainder = [])"
| "glob_loop sw ew n i (part # parts) remainder =
     (if part = [] then glob_loop sw ew n (i + 1) parts remainder
      else if i = 0 \<and> \<not> sw then
        (if \<not> starts_with part remainder then False
         else glob_loop sw ew n (i + 1) parts (drop (length part) remainder))
      else if i = n - 1 \<and> \<not> ew then ends_with part remainder
      else (case str_find part remainder of
              Some position \<Rightarrow> glob_loop sw ew n (i + 1) parts (drop (position + length part) remainder)
            | None \<Rightarrow> False))"

definition glob_match :: "string \<Rightarrow> string \<Rightarrow> bool" where
  "glob_match pattern value =
     (if pattern = value then True
      else if \<not> str_contains ''*'' pattern then False
      else let parts = split_on CHR ''*'' pattern
           in glob_loop (starts_with ''*'' pattern) (ends_with ''*'' pattern) (length parts) 0 parts value)"

section \<open>The specification\<close>

inductive globs :: "string \<Rightarrow> string \<Rightarrow> bool" where
  globs_end: "globs [] []"
| globs_char: "c \<noteq> CHR ''*'' \<Longrightarrow> globs p v \<Longrightarrow> globs (c # p) (c # v)"
| globs_star: "globs p v \<Longrightarrow> globs (CHR ''*'' # p) (u @ v)"

inductive_cases globs_NilE [elim!]: "globs [] v"
inductive_cases globs_ConsE: "globs (c # p) v"
inductive_simps globs_Nil [simp]: "globs [] v"

lemma globs_Cons_star: "globs (CHR ''*'' # p) v \<longleftrightarrow> (\<exists>u w. v = u @ w \<and> globs p w)"
proof
  assume "globs (CHR ''*'' # p) v"
  then show "\<exists>u w. v = u @ w \<and> globs p w" by (rule globs_ConsE) auto
qed (auto intro: globs_star)

lemma globs_Cons_char: "c \<noteq> CHR ''*'' \<Longrightarrow> globs (c # p) v \<longleftrightarrow> (\<exists>w. v = c # w \<and> globs p w)"
  by (auto intro: globs_char elim: globs_ConsE)

lemma globs_append_chars:
  "CHR ''*'' \<notin> set q \<Longrightarrow> globs (q @ p) v \<longleftrightarrow> (\<exists>w. v = q @ w \<and> globs p w)"
  by (induction q arbitrary: v) (auto simp: globs_Cons_char)

text \<open>The same relation over the parts: the first part is anchored, the others float.\<close>

fun anchored :: "string list \<Rightarrow> string \<Rightarrow> bool" where
  "anchored [] v = (v = [])"
| "anchored [q] v = (v = q)"
| "anchored (q # qs) v = (\<exists>u w. v = q @ u @ w \<and> anchored qs w)"

definition floating :: "string list \<Rightarrow> string \<Rightarrow> bool" where
  "floating qs v = (\<exists>u w. v = u @ w \<and> anchored qs w)"

lemma split_on_parts:
  "split_on c p = q # qs \<Longrightarrow> c \<notin> set q \<and> (if qs = [] then p = q else (\<exists>p'. p = q @ c # p' \<and> split_on c p' = qs))"
proof (induction p arbitrary: q)
  case Nil
  then show ?case by simp
next
  case (Cons x p)
  show ?case
  proof (cases "x = c")
    case True
    with Cons.prems show ?thesis by auto
  next
    case False
    with Cons.prems obtain q' where q': "split_on c p = q' # qs" "q = x # q'"
      by (cases "split_on c p") auto
    from Cons.IH[OF q'(1)] q'(2) False show ?thesis by auto
  qed
qed

lemma anchored_globs: "anchored (split_on CHR ''*'' p) v \<longleftrightarrow> globs p v"
proof (induction "split_on CHR ''*'' p" arbitrary: p v)
  case Nil
  then show ?case by (metis split_on_not_Nil)
next
  case (Cons q qs)
  note parts = split_on_parts[OF Cons.hyps(2)[symmetric]]
  show ?case
  proof (cases qs)
    case Nil
    with parts have "p = q" "CHR ''*'' \<notin> set q" by auto
    then show ?thesis using globs_append_chars[of q "[]" v] Nil Cons.hyps(2)[symmetric] by simp
  next
    case (Cons q' qs')
    with parts obtain p' where p': "p = q @ CHR ''*'' # p'" "split_on CHR ''*'' p' = qs" "CHR ''*'' \<notin> set q"
      by auto
    have "anchored (q # qs) v \<longleftrightarrow> (\<exists>u w. v = q @ u @ w \<and> globs p' w)"
      using Cons Cons.hyps(1)[OF p'(2)[symmetric]] p'(2) by simp
    also have "\<dots> \<longleftrightarrow> globs p v"
      using p' by (auto simp: globs_append_chars globs_Cons_star)
    finally show ?thesis using Cons.hyps(2)[symmetric] by simp
  qed
qed

section \<open>The greedy search\<close>

lemma floating_weaken: "floating qs w \<Longrightarrow> floating qs (u @ w)"
  unfolding floating_def by (metis append.assoc)

lemma floating_single: "floating [q] v \<longleftrightarrow> ends_with q v"
  by (auto simp: floating_def ends_with_iff)

lemma floating_Cons:
  "qs \<noteq> [] \<Longrightarrow> floating (q # qs) v \<longleftrightarrow> (\<exists>u w. v = u @ q @ w \<and> floating qs w)"
  by (cases qs) (auto simp: floating_def)

lemma str_find_least: "str_find q (u @ q @ w) = Some i \<Longrightarrow> \<exists>r. drop (i + length q) (u @ q @ w) = r @ w"
proof -
  assume i: "str_find q (u @ q @ w) = Some i"
  with str_find_append[of u q w] have "i \<le> length u" by auto
  then have "drop (i + length q) ((u @ q) @ w) = drop (i + length q) (u @ q) @ w" by simp
  then show ?thesis by auto
qed

lemma floating_greedy:
  assumes "qs \<noteq> []"
  shows "floating (q # qs) v \<longleftrightarrow>
    (case str_find q v of Some i \<Rightarrow> floating qs (drop (i + length q) v) | None \<Rightarrow> False)"
proof (cases "str_find q v")
  case None
  then have "\<nexists>a b. v = a @ q @ b" by (simp add: str_find_None)
  with None assms show ?thesis by (auto simp: floating_Cons)
next
  case (Some i)
  have "floating qs (drop (i + length q) v)" if "v = u @ q @ w" "floating qs w" for u w
    using str_find_least[of q u w i] Some that floating_weaken by auto
  moreover have "\<exists>u w. v = u @ q @ w \<and> floating qs w" if "floating qs (drop (i + length q) v)"
  proof -
    from str_find_split[OF Some] obtain r where r: "v = take i v @ q @ r" "i + length q \<le> length v" by auto
    then have "drop (i + length q) v = r"
      by (metis add.commute append.assoc append_eq_conv_conj drop_drop length_append length_take min.absorb2
          add_leD1)
    with that r show ?thesis by metis
  qed
  ultimately show ?thesis using Some assms by (auto simp: floating_Cons)
qed

lemma floating_Nil_part: "qs \<noteq> [] \<Longrightarrow> floating ([] # qs) v \<longleftrightarrow> floating qs v"
  using floating_weaken by (auto simp: floating_Cons)

lemma glob_loop_floating:
  assumes "qs \<noteq> []" and "0 < i" and "n = i + length qs" and "ew \<longleftrightarrow> last qs = []"
  shows "glob_loop sw ew n i qs v \<longleftrightarrow> floating qs v"
  using assms
proof (induction qs arbitrary: i v)
  case Nil
  then show ?case by simp
next
  case (Cons q qs)
  show ?case
  proof (cases "qs = []")
    case True
    with Cons.prems show ?thesis by (auto simp: floating_single ends_with_def)
  next
    case False
    then have "length qs \<noteq> 0" by simp
    with Cons.prems(3) have i: "i \<noteq> n - 1" "n = i + 1 + length qs" unfolding length_Cons by linarith+
    have ih: "glob_loop sw ew n (i + 1) qs w \<longleftrightarrow> floating qs w" for w
      using Cons.prems(4) False i(2) by (intro Cons.IH) auto
    have "glob_loop sw ew n i (q # qs) v \<longleftrightarrow>
        (if q = [] then floating qs v
         else (case str_find q v of Some k \<Rightarrow> floating qs (drop (k + length q) v) | None \<Rightarrow> False))"
      using i(1) Cons.prems(2) ih by (auto split: option.split)
    also have "\<dots> \<longleftrightarrow> floating (q # qs) v"
      using floating_Nil_part[OF False] floating_greedy[OF False] by auto
    finally show ?thesis .
  qed
qed

lemma glob_loop_anchored:
  assumes "qs \<noteq> []" and "sw \<longleftrightarrow> q = []" and "n = 1 + length qs" and "ew \<longleftrightarrow> last qs = []"
  shows "glob_loop sw ew n 0 (q # qs) v \<longleftrightarrow> anchored (q # qs) v"
proof -
  have anch: "anchored (q # qs) v \<longleftrightarrow> (\<exists>w. v = q @ w \<and> floating qs w)"
    using assms(1) by (cases qs) (auto simp: floating_def)
  have float: "glob_loop sw ew n 1 qs w \<longleftrightarrow> floating qs w" for w
    using assms by (intro glob_loop_floating) auto
  have "glob_loop sw ew n 0 (q # qs) v \<longleftrightarrow>
      (if q = [] then floating qs v else starts_with q v \<and> floating qs (drop (length q) v))"
    using float assms(2) by (cases "q = []") simp_all
  also have "\<dots> \<longleftrightarrow> (\<exists>w. v = q @ w \<and> floating qs w)"
    by (auto simp: starts_with_iff)
  finally show ?thesis using anch by simp
qed

lemma str_contains_star: "str_contains ''*'' p \<longleftrightarrow> CHR ''*'' \<in> set p"
  by (simp add: str_contains_iff in_set_conv_decomp)

lemma starts_with_star: "starts_with ''*'' p \<longleftrightarrow> hd (split_on CHR ''*'' p) = [] \<and> p \<noteq> []"
  by (cases p) (auto simp: starts_with_iff split: list.splits)

lemma ends_with_star:
  "str_contains ''*'' p \<Longrightarrow> ends_with ''*'' p \<longleftrightarrow> last (split_on CHR ''*'' p) = []"
proof (induction p)
  case Nil
  then show ?case by (simp add: str_contains_iff)
next
  case (Cons x p)
  show ?case
  proof (cases "str_contains ''*'' p")
    case True
    then have "p \<noteq> []" by (auto simp: str_contains_iff)
    then have "ends_with ''*'' (x # p) \<longleftrightarrow> ends_with ''*'' p"
      by (auto simp: ends_with_iff Cons_eq_append_conv)
    moreover obtain q qs where q: "split_on CHR ''*'' p = q # qs" "qs \<noteq> []"
    proof (cases "split_on CHR ''*'' p")
      case (Cons a as)
      with True split_on_parts[OF Cons] that show ?thesis
        by (auto simp: str_contains_iff split: if_splits)
    qed simp
    ultimately show ?thesis using Cons.IH[OF True] by auto
  next
    case False
    then have "CHR ''*'' \<notin> set p" by (simp add: str_contains_star)
    with Cons.prems have x: "x = CHR ''*''"
      by (auto simp: str_contains_iff Cons_eq_append_conv)
    have "split_on CHR ''*'' p = [p]"
      using \<open>CHR ''*'' \<notin> set p\<close> by (induction p) auto
    with x \<open>CHR ''*'' \<notin> set p\<close> show ?thesis
      by (auto simp: ends_with_iff Cons_eq_append_conv)
  qed
qed

lemma globs_refl: "globs p p"
proof (induction p)
  case (Cons c p)
  then show ?case using globs_star[of p p "[c]"] globs_char[of c p p] by (cases "c = CHR ''*''") auto
qed simp

text \<open>
  C9. The matcher decides exactly the declarative meaning of a pattern: a star stands for any string,
  the empty one included, every other character for itself. In particular the leftmost-first search
  never misses a match that a different choice of positions would find.
\<close>

theorem glob_match_spec: "glob_match pattern value = globs pattern value"
proof (cases "str_contains ''*'' pattern")
  case False
  then have "CHR ''*'' \<notin> set pattern" by (simp add: str_contains_star)
  then show ?thesis using globs_append_chars[of pattern "[]" "value"] False
    by (auto simp: glob_match_def)
next
  case True
  then have ne: "pattern \<noteq> []" by (auto simp: str_contains_iff)
  obtain q qs where q: "split_on CHR ''*'' pattern = q # qs"
    by (metis list.exhaust split_on_not_Nil)
  with True split_on_parts[OF q] have qs: "qs \<noteq> []"
    by (auto simp: str_contains_star)
  have "glob_loop (starts_with ''*'' pattern) (ends_with ''*'' pattern) (length (q # qs)) 0 (q # qs) value
      \<longleftrightarrow> anchored (q # qs) value"
    using qs q ne True by (intro glob_loop_anchored) (auto simp: starts_with_star ends_with_star)
  then show ?thesis using anchored_globs[of pattern "value"] True globs_refl
    by (auto simp: glob_match_def q)
qed

end
