(* ===== verification/DynamicTokens.thy ===== *)
theory DynamicTokens imports Events begin

text \<open>
  \<open>src/dynamic_tokens.rs\<close>: the opt-in tokens of a template. The clock, the environment, the processes
  and the files a token reads are the fields of \<open>token_env\<close>: each returns \<open>None\<close> where the code's call
  fails, times out or exits with an error, and otherwise the text the code decodes from the output.
\<close>

record token_env =
  te_now :: "nat option"
  te_iso_time :: "string option"
  te_var :: "string \<Rightarrow> string option"
  te_shell :: "string \<Rightarrow> string option"
  te_tmux :: "string \<Rightarrow> nat \<Rightarrow> string option"
  te_file :: "string \<Rightarrow> string option"

definition max_output_chars :: nat where "max_output_chars = 1200"
definition max_tail_lines :: nat where "max_tail_lines = 200"

definition ellipsis :: string where "ellipsis = [CHR 0xE2, CHR 0x80, CHR 0xA6]"

definition cap_output :: "string \<Rightarrow> string" where
  "cap_output v =
     (let trimmed = trim v
      in take_chars max_output_chars trimmed
         @ (if max_output_chars < char_count trimmed then ellipsis else []))"

definition usize_max :: nat where "usize_max = 18446744073709551615"

definition parse_tail_spec :: "string \<Rightarrow> (string \<times> nat) option" where
  "parse_tail_spec spec =
     (case rsplit_once '':'' spec of
        None \<Rightarrow> None
      | Some (target, lines) \<Rightarrow>
          (case parse_uint usize_max lines of
             None \<Rightarrow> None
           | Some n \<Rightarrow> Some (target, max 1 (min n max_tail_lines))))"

text \<open>\<open>str::lines\<close>: split at line feeds, a final empty line dropped, one carriage return stripped.\<close>

definition str_lines :: "string \<Rightarrow> string list" where
  "str_lines s =
     (let parts = split_on (CHR 0x0A) s;
          parts = (if last parts = [] then butlast parts else parts)
      in map (\<lambda>l. unwrap_or (strip_suffix [CHR 0x0D] l) l) parts)"

text \<open>\<open>trim_start_matches\<close> with a string pattern strips the pattern repeatedly.\<close>

function trim_start_pattern :: "string \<Rightarrow> string \<Rightarrow> string" where
  "trim_start_pattern p s =
     (if p = [] then s
      else (case strip_prefix p s of None \<Rightarrow> s | Some r \<Rightarrow> trim_start_pattern p r))"
  by pat_completeness auto
termination
  by (relation "measure (\<lambda>(p, s). length s)") (auto simp: strip_prefix_Some)

declare trim_start_pattern.simps [simp del]

definition run_tmux_tail_token :: "token_env \<Rightarrow> string \<Rightarrow> string option" where
  "run_tmux_tail_token env spec =
     (case parse_tail_spec spec of
        None \<Rightarrow> None
      | Some (target, lines) \<Rightarrow> map_option (\<lambda>out. cap_output (trim out)) (te_tmux env target lines))"

definition tail_of :: "nat \<Rightarrow> string \<Rightarrow> string" where
  "tail_of lines content = join_with [CHR 0x0A] (rev (take lines (rev (str_lines content))))"

definition run_file_tail_token :: "token_env \<Rightarrow> string \<Rightarrow> string option" where
  "run_file_tail_token env spec =
     (case parse_tail_spec spec of
        None \<Rightarrow> None
      | Some (path, lines) \<Rightarrow> map_option (\<lambda>content. cap_output (trim (tail_of lines content))) (te_file env path))"

definition run_shell_token :: "token_env \<Rightarrow> string \<Rightarrow> string option" where
  "run_shell_token env command = map_option (\<lambda>out. cap_output (trim out)) (te_shell env command)"

definition evaluate_token :: "token_env \<Rightarrow> string \<Rightarrow> string option" where
  "evaluate_token env token =
     (if token = ''now'' then map_option show_nat (te_now env)
      else if token = ''iso_time'' then map_option cap_output (te_iso_time env)
      else if starts_with ''env:'' token then
        map_option (\<lambda>v. cap_output (trim v)) (te_var env (trim_start_pattern ''env:'' token))
      else if starts_with ''sh:'' token then run_shell_token env (trim_start_pattern ''sh:'' token)
      else if starts_with ''tmux_tail:'' token then
        run_tmux_tail_token env (trim_start_pattern ''tmux_tail:'' token)
      else if starts_with ''file_tail:'' token then
        run_file_tail_token env (trim_start_pattern ''file_tail:'' token)
      else None)"

text \<open>The scanning loop, with \<open>written\<close> the text written so far.\<close>

function expand_tokens :: "(string \<Rightarrow> string option) \<Rightarrow> string \<Rightarrow> string \<Rightarrow> string" where
  "expand_tokens eval written remainder =
     (case split_once ''{'' remainder of
        None \<Rightarrow> written @ remainder
      | Some (before, after_start) \<Rightarrow>
          (case split_once ''}'' after_start of
             None \<Rightarrow> (written @ before) @ ''{'' @ after_start
           | Some (token, rest) \<Rightarrow>
               expand_tokens eval
                 (written @ before
                  @ (case eval token of Some v \<Rightarrow> v | None \<Rightarrow> ''{'' @ token @ ''}'')) rest))"
  by pat_completeness auto
termination
  by (relation "measure (\<lambda>(_, _, r). length r)") (auto dest!: split_once_shorter)

declare expand_tokens.simps [simp del]

definition render_dynamic :: "token_env \<Rightarrow> string \<Rightarrow> context_map \<Rightarrow> bool \<Rightarrow> string" where
  "render_dynamic env template ctx allow =
     (let rendered = render_template template ctx
      in if \<not> allow then rendered else expand_tokens (evaluate_token env) [] rendered)"

section \<open>Lemmas\<close>

lemma expand_tokens_append: "expand_tokens eval (a @ written) r = a @ expand_tokens eval written r"
proof (induction eval written r arbitrary: a rule: expand_tokens.induct)
  case (1 eval written r)
  show ?case
    unfolding expand_tokens.simps[of eval "a @ written" r] expand_tokens.simps[of eval written r]
    by (auto split: option.splits simp: 1[simplified])
qed

lemma expand_tokens_skip:
  "split_once ''{'' r = Some (before, after) \<Longrightarrow> split_once ''}'' after = Some (token, rest) \<Longrightarrow>
   expand_tokens eval written r =
     written @ before @ (case eval token of Some v \<Rightarrow> v | None \<Rightarrow> ''{'' @ token @ ''}'')
     @ expand_tokens eval [] rest"
  using expand_tokens_append[of eval "written @ before @ (case eval token of Some v \<Rightarrow> v | None \<Rightarrow> ''{'' @ token @ ''}'')" "[]" rest]
  by (subst expand_tokens.simps) simp

lemma split_once_brace:
  "CHR ''{'' \<notin> set a \<Longrightarrow> split_once ''{'' (a @ CHR ''{'' # b) = Some (a, b)"
proof (induction a)
  case Nil
  then show ?case by (simp add: split_once_def starts_with_def)
next
  case (Cons c a)
  then show ?case by (auto simp: split_once_def starts_with_def)
qed

lemma split_once_close:
  "CHR ''}'' \<notin> set a \<Longrightarrow> split_once ''}'' (a @ CHR ''}'' # b) = Some (a, b)"
proof (induction a)
  case Nil
  then show ?case by (simp add: split_once_def starts_with_def)
next
  case (Cons c a)
  then show ?case by (auto simp: split_once_def starts_with_def)
qed

lemma char_count_take: "char_count (take_chars n s) \<le> n"
  by (simp add: char_count_def chars_take_chars)

lemma char_count_ellipsis: "char_count ellipsis = 1"
  by code_simp

lemma chars_ellipsis: "chars ellipsis = [ellipsis]"
  by code_simp

lemma ellipsis_start: "ellipsis \<noteq> []" "\<not> is_cont (hd ellipsis)"
  by code_simp+

lemma char_count_take_ellipsis: "char_count (take_chars n s @ ellipsis) \<le> Suc n"
  using char_count_ellipsis
  by (simp add: char_count_def chars_take_chars_append ellipsis_start chars_ellipsis)

text \<open>
  The output cap: what a token contributes to a message is at most 1,201 Unicode scalar values (the
  limit and an ellipsis), whatever the environment returns; only the decimal clock token is not
  capped, and the number of lines a tail token may ask for is between 1 and 200.
\<close>

theorem token_output_bounded:
  assumes "evaluate_token env token = Some out" and "token \<noteq> ''now''"
  shows "char_count out \<le> 1201 \<and>
    (\<forall>target lines. parse_tail_spec token = Some (target, lines) \<longrightarrow> 1 \<le> lines \<and> lines \<le> 200)"
proof -
  have cap: "char_count (cap_output v) \<le> 1201" for v
    using char_count_take_ellipsis[of max_output_chars "trim v"] char_count_take[of max_output_chars "trim v"]
    by (auto simp: cap_output_def Let_def max_output_chars_def)
  have "\<exists>v. out = cap_output v"
    using assms by (auto simp: evaluate_token_def run_shell_token_def run_tmux_tail_token_def
        run_file_tail_token_def split: if_splits option.splits)
  with cap show ?thesis
    by (auto simp: parse_tail_spec_def max_tail_lines_def split: option.splits)
qed

definition sample_env :: token_env where
  "sample_env = \<lparr>te_now = Some 7, te_iso_time = None, te_var = (\<lambda>_. None),
     te_shell = (\<lambda>cmd. Some (''ran '' @ cmd)), te_tmux = (\<lambda>_ _. None), te_file = (\<lambda>_. None)\<rparr>"

theorem token_output_bounded_witness:
  "evaluate_token sample_env ''sh:id'' = Some ''ran id'' \<and> char_count ''ran id'' \<le> 1201"
proof -
  have e: "evaluate_token sample_env ''sh:id'' = Some ''ran id''" by code_simp
  have "''sh:id'' \<noteq> ''now''" by simp
  from token_output_bounded[OF e this] e show ?thesis by simp
qed

text \<open>
  Expansion is a single left-to-right pass: a token is replaced by its value, the value itself is
  never scanned again, and the text after the token is expanded on its own; when no token of the
  text is known the text is unchanged.
\<close>

theorem expansion_single_pass:
  assumes "CHR ''{'' \<notin> set a" and "CHR ''}'' \<notin> set token"
  shows "expand_tokens eval [] (a @ ''{'' @ token @ ''}'' @ rest) =
           a @ (case eval token of Some v \<Rightarrow> v | None \<Rightarrow> ''{'' @ token @ ''}'') @ expand_tokens eval [] rest \<and>
         expand_tokens (\<lambda>_. None) [] rest = rest"
proof
  show "expand_tokens eval [] (a @ ''{'' @ token @ ''}'' @ rest) =
      a @ (case eval token of Some v \<Rightarrow> v | None \<Rightarrow> ''{'' @ token @ ''}'') @ expand_tokens eval [] rest"
    using expand_tokens_skip[OF split_once_brace[OF assms(1)] split_once_close[OF assms(2)], of eval "[]"]
    by simp
  have "expand_tokens eval written r = written @ r" if "eval = (\<lambda>_. None)" for eval written r
    using that
  proof (induction eval written r rule: expand_tokens.induct)
    case (1 eval written r)
    then show ?case
      by (subst expand_tokens.simps) (auto split: option.splits dest!: split_once_Some)
  qed
  then show "expand_tokens (\<lambda>_. None) [] rest = rest" by simp
qed

theorem expansion_single_pass_witness:
  "expand_tokens (evaluate_token sample_env) [] (''at '' @ ''{'' @ ''now'' @ ''}'' @ '' {sh:id}'') =
     ''at '' @ (case evaluate_token sample_env ''now'' of Some v \<Rightarrow> v | None \<Rightarrow> ''{'' @ ''now'' @ ''}'')
     @ expand_tokens (evaluate_token sample_env) [] '' {sh:id}'' \<and>
   expand_tokens (\<lambda>_. None) [] '' {sh:id}'' = '' {sh:id}''"
  by (rule expansion_single_pass) code_simp+

text \<open>
  The context is substituted before the tokens are expanded. So on a route that opts in, a token
  that arrives inside a payload value is evaluated like one the operator wrote in the template: here
  the message text of the event reaches the shell.
\<close>

theorem payload_text_reaches_tokens:
  "render_dynamic sample_env ''{message}'' (bt_insert ''message'' ''{sh:id}'' []) True = ''ran id'' \<and>
   render_dynamic sample_env ''{message}'' (bt_insert ''message'' ''{sh:id}'' []) False = ''{sh:id}''"
  by code_simp

end
