(* ===== verification/Targets.thy ===== *)
theory Targets imports Events "HOL-Library.Word" begin

unbundle bit_operations_syntax

text \<open>
  Where messages go: \<open>SinkTarget\<close>, \<open>SinkMessage\<close> and \<open>SinkTelemetry\<close> of \<open>src/sink/mod.rs\<close>, and the identifiers
  of \<open>src/telemetry.rs\<close>. URL parsing belongs to the \<open>url\<close> crate: \<open>parse_url\<close> gives the host and the port of
  a URL that parses and has a host. \<open>sip_hash\<close> is the standard library's \<open>DefaultHasher\<close> over a kind and a
  serialised payload, \<open>to_json\<close> is \<open>serde_json::to_string\<close>.
\<close>

datatype sink_target =
    DiscordChannel string
  | DiscordThread string
  | DiscordWebhook string
  | SlackWebhook string
  | HttpEndpoint string
  | LocalFile string

record sink_telemetry =
  st_correlation_id :: string
  st_route_result :: "string option"
  st_route_index :: "nat option"
  st_target :: string
  st_batch_count :: "nat option"

record sink_message =
  sm_event_kind :: string
  sm_format :: message_format
  sm_content :: string
  sm_payload :: json
  sm_telemetry :: "sink_telemetry option"

section \<open>Fingerprints\<close>

definition fnv_offset_basis :: "64 word" where "fnv_offset_basis = 0xcbf29ce484222325"
definition fnv_prime :: "64 word" where "fnv_prime = 0x00000100000001b3"

definition fingerprint :: "string \<Rightarrow> 64 word" where
  "fingerprint v = foldl (\<lambda>hash b. (hash XOR of_nat (byte b)) * fnv_prime) fnv_offset_basis v"

definition hex_digit :: "nat \<Rightarrow> char" where
  "hex_digit d = char_of (if d < 10 then 48 + d else 87 + d)"

fun hex_digits :: "nat \<Rightarrow> nat \<Rightarrow> string" where
  "hex_digits 0 n = []"
| "hex_digits (Suc k) n = hex_digits k (n div 16) @ [hex_digit (n mod 16)]"

text \<open>The format \<open>{:016x}\<close> of a \<open>u64\<close>.\<close>

definition hex16 :: "64 word \<Rightarrow> string" where
  "hex16 w = hex_digits 16 (unat w)"

section \<open>Safe target identifiers\<close>

type_synonym url_parser = "string \<Rightarrow> (string \<times> nat option) option"

text \<open>The host and port a fingerprint keeps; an IPv6 host is bracketed.\<close>

fun host_label :: "(string \<times> nat option) option \<Rightarrow> string" where
  "host_label None = ''unknown-host''"
| "host_label (Some (host, port)) =
     (if str_contains '':'' host then ''['' @ host @ '']'' else host)
     @ (case port of Some p \<Rightarrow> '':'' @ show_nat p | None \<Rightarrow> [])"

definition redacted_url_fingerprint :: "url_parser \<Rightarrow> string \<Rightarrow> string" where
  "redacted_url_fingerprint parse_url url =
     host_label (parse_url url) @ ''/redacted/'' @ hex16 (fingerprint url)"

fun safe_target_id :: "url_parser \<Rightarrow> sink_target \<Rightarrow> string" where
  "safe_target_id parse_url (DiscordChannel channel_id) = ''discord:channel:'' @ channel_id"
| "safe_target_id parse_url (DiscordThread thread_id) =
     ''discord:thread:redacted:'' @ hex16 (fingerprint thread_id)"
| "safe_target_id parse_url (DiscordWebhook url) =
     ''discord:webhook:'' @ redacted_url_fingerprint parse_url url"
| "safe_target_id parse_url (SlackWebhook url) =
     ''slack:webhook:'' @ redacted_url_fingerprint parse_url url"
| "safe_target_id parse_url (HttpEndpoint endpoint) =
     ''http:endpoint:'' @ redacted_url_fingerprint parse_url endpoint"
| "safe_target_id parse_url (LocalFile path) = ''localfile:'' @ hex16 (fingerprint path)"

section \<open>Correlation\<close>

type_synonym hasher = "string \<Rightarrow> string \<Rightarrow> 64 word"

definition stable_correlation_id :: "hasher \<Rightarrow> (json \<Rightarrow> string option) \<Rightarrow> string \<Rightarrow> json \<Rightarrow> string" where
  "stable_correlation_id sip_hash to_json kind payload =
     ''derived:'' @ hex16 (sip_hash kind (unwrap_or (to_json payload) ''<unserializable>''))"

definition correlation_id_for_message ::
    "hasher \<Rightarrow> (json \<Rightarrow> string option) \<Rightarrow> string \<Rightarrow> json \<Rightarrow> string" where
  "correlation_id_for_message sip_hash to_json kind payload =
     unwrap_or
       (opt_or (opt_filter (\<lambda>v. \<not> blank v) (get_str payload ''correlation_id''))
               (opt_filter (\<lambda>v. \<not> blank v) (get_str payload ''event_id'')))
       (stable_correlation_id sip_hash to_json kind payload)"

definition correlation_id_for_event ::
    "hasher \<Rightarrow> (json \<Rightarrow> string option) \<Rightarrow> incoming_event \<Rightarrow> string" where
  "correlation_id_for_event sip_hash to_json e =
     unwrap_or
       (opt_or (opt_filter (\<lambda>v. \<not> blank v) (get_str (ev_payload e) ''correlation_id''))
               (opt_filter (\<lambda>v. \<not> blank v) (get_str (ev_payload e) ''event_id'')))
       (stable_correlation_id sip_hash to_json (canonical_kind e) (ev_payload e))"

definition telemetry_record :: "string \<Rightarrow> string \<Rightarrow> string \<Rightarrow> (string, json) btree" where
  "telemetry_record event reason correlation =
     bt_insert ''correlation_id'' (JStr correlation)
       (bt_insert ''reason_code'' (JStr reason) (bt_insert ''telemetry_event'' (JStr event) []))"

definition render_line :: "(json \<Rightarrow> string option) \<Rightarrow> (string, json) btree \<Rightarrow> string" where
  "render_line to_json object =
     unwrap_or (to_json (JObj (bt_entry_or ''schema'' (JStr ''clawhip.telemetry.v1'') object)))
       ''{\"schema\":\"clawhip.telemetry.v1\",\"telemetry_event\":\"serialize_failed\"}''"

section \<open>Lemmas\<close>

lemma length_hex_digits [simp]: "length (hex_digits k n) = k"
  by (induction k arbitrary: n) auto

lemma hex_digit_inj: "a < 16 \<Longrightarrow> b < 16 \<Longrightarrow> hex_digit a = hex_digit b \<Longrightarrow> a = b"
proof -
  assume "a < 16" "b < 16" "hex_digit a = hex_digit b"
  then have "(of_char (hex_digit a) :: nat) = of_char (hex_digit b)" by simp
  with \<open>a < 16\<close> \<open>b < 16\<close> show "a = b" by (auto simp: hex_digit_def split: if_splits)
qed

lemma hex_digits_inj: "hex_digits k m = hex_digits k n \<Longrightarrow> m < 16 ^ k \<Longrightarrow> n < 16 ^ k \<Longrightarrow> m = n"
proof (induction k arbitrary: m n)
  case (Suc k)
  from Suc.prems(1) have d: "hex_digits k (m div 16) = hex_digits k (n div 16)"
    "hex_digit (m mod 16) = hex_digit (n mod 16)" by auto
  have "m div 16 = n div 16"
    using Suc.prems by (intro Suc.IH[OF d(1)]) (auto simp: less_mult_imp_div_less mult.commute)
  moreover have "m mod 16 = n mod 16" using d(2) by (intro hex_digit_inj) auto
  ultimately show ?case by (metis div_mult_mod_eq)
qed simp

lemma unat_16: "unat (w :: 64 word) < 16 ^ 16"
proof -
  have "unat w < 2 ^ LENGTH(64)" by (rule unsigned_less)
  then show ?thesis by simp
qed

lemma hex16_inj: "hex16 a = hex16 b \<longleftrightarrow> a = b"
proof
  assume "hex16 a = hex16 b"
  then have "unat a = unat b"
    using unat_16 by (intro hex_digits_inj[of 16]) (auto simp: hex16_def)
  then show "a = b" by (rule unsigned_word_eqI)
qed simp

definition is_hex :: "char \<Rightarrow> bool" where
  "is_hex c = (48 \<le> byte c \<and> byte c \<le> 57 \<or> 97 \<le> byte c \<and> byte c \<le> 102)"

lemma hex_digit_hex: "d < 16 \<Longrightarrow> is_hex (hex_digit d)"
  by (auto simp: is_hex_def hex_digit_def byte_def)

lemma hex16_hex: "list_all is_hex (hex16 w) \<and> length (hex16 w) = 16"
proof -
  have "list_all is_hex (hex_digits k n)" for k n
    by (induction k arbitrary: n) (auto simp: hex_digit_hex)
  then show ?thesis by (simp add: hex16_def)
qed

text \<open>
  Redaction: what telemetry shows of a thread or a file is a fixed label and sixteen hexadecimal
  digits, and of a URL its host and port, a fixed label and sixteen hexadecimal digits; and the digits
  are faithful: two threads (or files) get the same identifier exactly when their fingerprints agree.
\<close>

theorem redaction_shape:
  "(\<exists>h. safe_target_id parse_url (DiscordThread t) = ''discord:thread:redacted:'' @ h \<and>
        length h = 16 \<and> list_all is_hex h) \<and>
   (\<exists>h. safe_target_id parse_url (DiscordWebhook url) =
          ''discord:webhook:'' @ host_label (parse_url url) @ ''/redacted/'' @ h \<and>
        length h = 16 \<and> list_all is_hex h) \<and>
   (safe_target_id parse_url (DiscordThread t) = safe_target_id parse_url (DiscordThread t')
      \<longleftrightarrow> fingerprint t = fingerprint t') \<and>
   (safe_target_id parse_url (LocalFile t) = safe_target_id parse_url (LocalFile t')
      \<longleftrightarrow> fingerprint t = fingerprint t')"
  using hex16_hex[of "fingerprint t"] hex16_hex[of "fingerprint url"]
  by (simp add: redacted_url_fingerprint_def hex16_inj)

text \<open>A correlation identifier never depends on the payload beyond its own two fields when one is set.\<close>

lemma correlation_prefers_fields:
  "get_str (ev_payload e) ''correlation_id'' = Some c \<Longrightarrow> \<not> blank c \<Longrightarrow>
   correlation_id_for_event sip_hash to_json e = c"
  by (simp add: correlation_id_for_event_def)

lemma correlation_event_message:
  "correlation_id_for_event sip_hash to_json e =
   correlation_id_for_message sip_hash to_json (canonical_kind e) (ev_payload e)"
  by (simp add: correlation_id_for_event_def correlation_id_for_message_def)

end
