(* ===== verification/RouteConfig.thy ===== *)
theory RouteConfig imports Targets begin

text \<open>
  The routing configuration of \<open>src/config.rs\<close>: route rules, their effective sink and targets, the
  defaults and the HTTP provider, and the dispatch windows.
\<close>

record gajae_route_action =
  ga_subcommand :: string
  ga_args :: "string list"
  ga_requires_approval :: bool

record route_rule =
  rr_event :: string
  rr_filter :: "(string, string) btree"
  rr_sink :: string
  rr_channel :: "string option"
  rr_thread :: "string option"
  rr_channel_name :: "string option"
  rr_webhook :: "string option"
  rr_slack_webhook :: "string option"
  rr_local_path :: "string option"
  rr_mention :: "string option"
  rr_allow_dynamic_tokens :: bool
  rr_format :: "message_format option"
  rr_template :: "string option"
  rr_gajae :: "gajae_route_action option"

definition default_sink_name :: string where "default_sink_name = ''discord''"

definition default_route_rule :: route_rule where
  "default_route_rule =
     \<lparr>rr_event = [], rr_filter = [], rr_sink = default_sink_name, rr_channel = None, rr_thread = None,
      rr_channel_name = None, rr_webhook = None, rr_slack_webhook = None, rr_local_path = None,
      rr_mention = None, rr_allow_dynamic_tokens = False, rr_format = None, rr_template = None,
      rr_gajae = None\<rparr>"

definition non_empty_trimmed :: "string option \<Rightarrow> string option" where
  "non_empty_trimmed v =
     (case v of None \<Rightarrow> None | Some s \<Rightarrow> let trimmed = trim s in if trimmed \<noteq> [] then Some trimmed else None)"

definition slack_webhook_target :: "route_rule \<Rightarrow> string option" where
  "slack_webhook_target r =
     opt_or (non_empty_trimmed (rr_slack_webhook r))
       (if trim (rr_sink r) = ''slack'' then non_empty_trimmed (rr_webhook r) else None)"

definition effective_sink :: "route_rule \<Rightarrow> string" where
  "effective_sink r =
     (let sink = trim (rr_sink r)
      in if slack_webhook_target r \<noteq> None \<and> (sink = [] \<or> sink = ''discord'') then ''slack''
         else if sink = [] then ''discord'' else sink)"

definition discord_webhook_target :: "route_rule \<Rightarrow> string option" where
  "discord_webhook_target r =
     (if effective_sink r = ''discord'' then non_empty_trimmed (rr_webhook r) else None)"

definition discord_thread_target :: "route_rule \<Rightarrow> string option" where
  "discord_thread_target r =
     (if effective_sink r = ''discord'' then non_empty_trimmed (rr_thread r) else None)"

definition local_file_target :: "route_rule \<Rightarrow> string option" where
  "local_file_target r =
     (if effective_sink r = ''localfile'' then non_empty_trimmed (rr_local_path r) else None)"

record defaults_config =
  dc_channel :: "string option"
  dc_channel_name :: "string option"
  dc_format :: message_format

record http_config =
  hc_endpoint :: "string option"
  hc_hmac_secret_env :: "string option"

definition http_endpoint :: "http_config \<Rightarrow> string option" where
  "http_endpoint c = non_empty_trimmed (hc_endpoint c)"

definition http_hmac_secret_env :: "http_config \<Rightarrow> string option" where
  "http_hmac_secret_env c = non_empty_trimmed (hc_hmac_secret_env c)"

record dispatch_config =
  dp_ci_batch_window_secs :: nat
  dp_routine_batch_window_secs :: nat

definition ci_batch_window :: "dispatch_config \<Rightarrow> ms" where
  "ci_batch_window c = 1000 * max (dp_ci_batch_window_secs c) 1"

definition routine_batch_window :: "dispatch_config \<Rightarrow> ms option" where
  "routine_batch_window c =
     (if 0 < dp_routine_batch_window_secs c then Some (1000 * dp_routine_batch_window_secs c) else None)"

text \<open>The part of \<open>AppConfig\<close> the router reads.\<close>

record app_config =
  cfg_routes :: "route_rule list"
  cfg_defaults :: defaults_config
  cfg_http :: http_config

section \<open>Lemmas\<close>

lemma effective_sink_cases:
  "slack_webhook_target r \<noteq> None \<Longrightarrow> effective_sink r \<noteq> ''discord''"
  by (auto simp: effective_sink_def Let_def)

lemma non_empty_trimmed_Some: "non_empty_trimmed v = Some s \<Longrightarrow> s \<noteq> []"
  by (auto simp: non_empty_trimmed_def Let_def split: option.splits if_splits)

end
