(* ===== verification/Router.thy ===== *)
theory Router imports Glob RouteConfig DynamicTokens begin

text \<open>
  \<open>src/router.rs\<close> and the structures of \<open>src/provenance.rs\<close>: which routes an event matches, in which order,
  where each delivery goes, what its text is, and the explanation of all this. The code identifies a
  matched rule by its address; here \<open>matching_routes_for\<close> returns each rule with its position in the
  configuration. \<open>show_array\<close> is the serialisation of a JSON array in the template context, \<open>parse_url\<close>
  the URL parser of \<open>Targets\<close>; a renderer is a function from an event and a format to a text or an
  error. \<open>debug_str\<close> is Rust's \<open>{:?}\<close> of a string.
\<close>

section \<open>Traces and deliveries\<close>

datatype route_trace_result = Matched | Fallback | NoRoute

fun trace_result_str :: "route_trace_result \<Rightarrow> string" where
  "trace_result_str Matched = ''matched''"
| "trace_result_str Fallback = ''fallback''"
| "trace_result_str NoRoute = ''none''"

fun trace_reason_code :: "route_trace_result \<Rightarrow> string" where
  "trace_reason_code Matched = ''route_matched''"
| "trace_reason_code Fallback = ''route_fallback''"
| "trace_reason_code NoRoute = ''route_none''"

record route_trace =
  rt_result :: route_trace_result
  rt_matched_route_index :: "nat option"
  rt_event_pattern :: "string option"
  rt_filter_keys :: "string list"
  rt_target :: string

record resolved_delivery =
  rd_sink :: string
  rd_target :: sink_target
  rd_format :: message_format
  rd_mention :: "string option"
  rd_template :: "string option"
  rd_allow_dynamic_tokens :: bool
  rd_trace :: route_trace

section \<open>Matching\<close>

definition is_subscription_event :: "incoming_event \<Rightarrow> bool" where
  "is_subscription_event e = (get_str (ev_payload e) ''subscription_transport'' = Some ''websocket'')"

definition route_candidate_table :: "(string \<times> string list) list" where
  "route_candidate_table =
     [(''git.commit'', [''git.commit'', ''github.commit'']),
      (''git.branch-changed'', [''git.branch-changed'', ''github.branch-changed'']),
      (''agent.started'', [''agent.started'', ''agent.*'', ''session.*'']),
      (''agent.blocked'', [''agent.blocked'', ''agent.*'', ''session.*'']),
      (''agent.finished'', [''agent.finished'', ''agent.*'', ''session.*'']),
      (''agent.failed'', [''agent.failed'', ''agent.*'', ''session.*'']),
      (''session.started'', [''session.started'', ''session.*'', ''agent.*'']),
      (''session.blocked'', [''session.blocked'', ''session.*'', ''agent.*'']),
      (''session.finished'', [''session.finished'', ''session.*'', ''agent.*'']),
      (''session.failed'', [''session.failed'', ''session.*'', ''agent.*'']),
      (''session.endpoint-failed'', [''session.endpoint-failed'', ''session.*'', ''agent.*'']),
      (''session.stalled'', [''session.stalled'', ''session.*'', ''agent.*'']),
      (''workflow.question'', [''workflow.question'', ''workflow.*'']),
      (''workflow.gate'', [''workflow.gate'', ''workflow.*'']),
      (''session.retry-needed'', [''session.retry-needed'', ''session.*'']),
      (''session.pr-created'', [''session.pr-created'', ''session.*'']),
      (''session.test-started'', [''session.test-started'', ''session.*'']),
      (''session.test-finished'', [''session.test-finished'', ''session.*'']),
      (''session.test-failed'', [''session.test-failed'', ''session.*'']),
      (''session.handoff-needed'', [''session.handoff-needed'', ''session.*''])]"

text \<open>The \<open>match\<close> on the kind, with \<open>other => vec![other]\<close> as the default.\<close>

definition route_candidates :: "string \<Rightarrow> string list" where
  "route_candidates kind = unwrap_or (map_of route_candidate_table kind) [kind]"

definition filter_matches :: "context_map \<Rightarrow> string \<times> string \<Rightarrow> bool" where
  "filter_matches ctx f =
     (case bt_get ctx (fst f) of Some actual \<Rightarrow> glob_match (snd f) actual | None \<Rightarrow> False)"

definition route_matches :: "route_rule \<Rightarrow> string \<Rightarrow> context_map \<Rightarrow> bool" where
  "route_matches r ck ctx =
     (list_ex (\<lambda>candidate. glob_match (rr_event r) candidate) (route_candidates ck)
      \<and> list_all (filter_matches ctx) (rr_filter r))"

definition context_set :: "context_map \<Rightarrow> string \<Rightarrow> bool" where
  "context_set ctx key = (case bt_get ctx key of Some v \<Rightarrow> \<not> blank v | None \<Rightarrow> False)"

definition route_specificity_score :: "context_map \<Rightarrow> route_rule \<Rightarrow> nat" where
  "route_specificity_score ctx r =
     (let path_rank =
        (if bt_has (rr_filter r) ''worktree_path'' \<and> context_set ctx ''worktree_path'' then 3
         else if bt_has (rr_filter r) ''repo_path'' \<and> context_set ctx ''repo_path'' then 2
         else if bt_has (rr_filter r) ''repo_name'' \<and> context_set ctx ''repo_name'' then 1
         else 0)
      in path_rank * 100 + length (rr_filter r))"

definition prefers_metadata_first_routing :: "string \<Rightarrow> context_map \<Rightarrow> bool" where
  "prefers_metadata_first_routing ck ctx =
     (if \<not> (starts_with ''session.'' ck \<or> starts_with ''tmux.'' ck) then False
      else list_ex (context_set ctx)
             [''project'', ''repo_name'', ''repo_path'', ''worktree_path'', ''session_id''])"

definition route_uses_session_name_prefix_heuristics :: "route_rule \<Rightarrow> bool" where
  "route_uses_session_name_prefix_heuristics r =
     (rr_filter r \<noteq> [] \<and>
      list_all (\<lambda>(key, expected). (key = ''session'' \<or> key = ''session_name'') \<and> str_contains ''*'' expected)
        (rr_filter r))"

definition matching_routes_for :: "route_rule list \<Rightarrow> string \<Rightarrow> context_map \<Rightarrow> (nat \<times> route_rule) list" where
  "matching_routes_for routes ck ctx =
     (let prefer_metadata = prefers_metadata_first_routing ck ctx;
          matched = filter (\<lambda>(_, r). route_matches r ck ctx) (enumerate 0 routes);
          preferred = filter (\<lambda>(_, r). \<not> (prefer_metadata \<and> route_uses_session_name_prefix_heuristics r)) matched;
          heuristic = filter (\<lambda>(_, r). prefer_metadata \<and> route_uses_session_name_prefix_heuristics r) matched;
          preferred = sort_desc (\<lambda>(_, r). route_specificity_score ctx r) preferred;
          heuristic = sort_desc (\<lambda>(_, r). route_specificity_score ctx r) heuristic
      in if \<not> prefer_metadata then preferred @ heuristic else preferred)"

section \<open>Targets\<close>

definition target_for :: "app_config \<Rightarrow> incoming_event \<Rightarrow> route_rule option \<Rightarrow> string \<Rightarrow> string + sink_target" where
  "target_for cfg e route sink =
     (if sink = ''discord'' then
        (case Option.bind route discord_webhook_target of
           Some webhook \<Rightarrow> Ok (DiscordWebhook webhook)
         | None \<Rightarrow>
             (case (if canonical_kind e = ''custom'' then ev_channel e else None) of
                Some channel \<Rightarrow> Ok (DiscordChannel channel)
              | None \<Rightarrow>
                  (case Option.bind route discord_thread_target of
                     Some thread \<Rightarrow> Ok (DiscordThread thread)
                   | None \<Rightarrow>
                       res_bind
                         (ok_or (opt_or (Option.bind route rr_channel)
                                   (opt_or (ev_channel e) (dc_channel (cfg_defaults cfg))))
                            (''no channel or thread configured for event '' @ canonical_kind e))
                         (\<lambda>channel. Ok (DiscordChannel channel)))))
      else if sink = ''slack'' then
        ok_or (map_option SlackWebhook (Option.bind route slack_webhook_target))
          (''no Slack webhook configured for event '' @ canonical_kind e)
      else if sink = ''http'' then
        ok_or (map_option HttpEndpoint (http_endpoint (cfg_http cfg)))
          (''no HTTP endpoint configured for event '' @ canonical_kind e)
      else if sink = ''localfile'' then
        ok_or (map_option LocalFile (Option.bind route local_file_target))
          (''no local_path configured for event '' @ canonical_kind e)
      else Err (''unsupported sink '' @ [CHR 0x27] @ sink @ [CHR 0x27] @ '' for event '' @ canonical_kind e))"

definition allow_dynamic_tokens_for :: "app_config \<Rightarrow> incoming_event \<Rightarrow> route_rule option \<Rightarrow> bool" where
  "allow_dynamic_tokens_for cfg e route =
     (case route of
        Some r \<Rightarrow> rr_allow_dynamic_tokens r
      | None \<Rightarrow>
          (case (if canonical_kind e = ''custom'' then ev_channel e else None) of
             Some channel \<Rightarrow>
               list_ex (\<lambda>r. rr_allow_dynamic_tokens r \<and> rr_channel r = Some channel) (cfg_routes cfg)
           | None \<Rightarrow> False))"

section \<open>Resolution\<close>

definition resolve_delivery ::
    "url_parser \<Rightarrow> app_config \<Rightarrow> incoming_event \<Rightarrow> route_rule option \<Rightarrow> nat option \<Rightarrow> string + resolved_delivery" where
  "resolve_delivery parse_url cfg e route index =
     (let sink = unwrap_or (map_option effective_sink route) default_sink_name
      in res_bind (target_for cfg e route sink) (\<lambda>target.
           Ok \<lparr>rd_sink = sink,
               rd_target = target,
               rd_format = unwrap_or (opt_or (ev_format e) (Option.bind route rr_format)) (dc_format (cfg_defaults cfg)),
               rd_mention = opt_or (Option.bind route rr_mention) (ev_mention e),
               rd_template = opt_or (ev_template e) (Option.bind route rr_template),
               rd_allow_dynamic_tokens = allow_dynamic_tokens_for cfg e route,
               rd_trace =
                 \<lparr>rt_result = (if route \<noteq> None then Matched
                                 else if dc_channel (cfg_defaults cfg) \<noteq> None then Fallback else NoRoute),
                  rt_matched_route_index = index,
                  rt_event_pattern = map_option rr_event route,
                  rt_filter_keys = unwrap_or (map_option (\<lambda>r. map fst (rr_filter r)) route) [],
                  rt_target = safe_target_id parse_url target\<rparr>\<rparr>))"

text \<open>The loop over the matched routes, with the question mark of the first failure ending it.\<close>

fun resolve_all ::
    "url_parser \<Rightarrow> app_config \<Rightarrow> incoming_event \<Rightarrow> (nat \<times> route_rule) list \<Rightarrow> string + resolved_delivery list" where
  "resolve_all parse_url cfg e [] = Ok []"
| "resolve_all parse_url cfg e ((index, r) # matched) =
     res_bind (resolve_delivery parse_url cfg e (Some r) (Some index)) (\<lambda>d.
       res_bind (resolve_all parse_url cfg e matched) (\<lambda>ds. Ok (d # ds)))"

definition resolve ::
    "(json list \<Rightarrow> string) \<Rightarrow> url_parser \<Rightarrow> app_config \<Rightarrow> incoming_event \<Rightarrow> string + resolved_delivery list" where
  "resolve show_array parse_url cfg e =
     (let ctx = template_context show_array e;
          matched = matching_routes_for (cfg_routes cfg) (canonical_kind e) ctx
      in if matched = [] then
           (if is_subscription_event e then Err ''no configured route for subscription event''
            else res_bind (resolve_delivery parse_url cfg e None None) (\<lambda>d. Ok [d]))
         else resolve_all parse_url cfg e matched)"

section \<open>Text\<close>

definition discord_max_content_scalars :: nat where "discord_max_content_scalars = 2000"

definition cap_to_discord_limit :: "string \<Rightarrow> string" where
  "cap_to_discord_limit content =
     (if char_count content \<le> discord_max_content_scalars then content
      else take_chars (discord_max_content_scalars - char_count ellipsis) content @ ellipsis)"

type_synonym renderer = "incoming_event \<Rightarrow> message_format \<Rightarrow> string + string"

definition render_delivery_body ::
    "(json list \<Rightarrow> string) \<Rightarrow> token_env \<Rightarrow> renderer \<Rightarrow> incoming_event \<Rightarrow> resolved_delivery \<Rightarrow> string + string" where
  "render_delivery_body show_array env renderer e d =
     (case rd_template d of
        Some template \<Rightarrow>
          Ok (render_dynamic env template (template_context show_array e) (rd_allow_dynamic_tokens d))
      | None \<Rightarrow>
          res_bind (renderer e (rd_format d)) (\<lambda>rendered.
            Ok (if rd_allow_dynamic_tokens d
                then render_dynamic env rendered (template_context show_array e) True
                else rendered)))"

fun is_discord_target :: "sink_target \<Rightarrow> bool" where
  "is_discord_target (DiscordChannel _) = True"
| "is_discord_target (DiscordThread _) = True"
| "is_discord_target (DiscordWebhook _) = True"
| "is_discord_target _ = False"

definition with_mention_prefix :: "string option \<Rightarrow> string \<Rightarrow> string" where
  "with_mention_prefix mention content =
     (case map_option trim mention of
        Some m \<Rightarrow> if m \<noteq> [] then m @ '' '' @ content else content
      | None \<Rightarrow> content)"

definition render_delivery ::
    "(json list \<Rightarrow> string) \<Rightarrow> token_env \<Rightarrow> renderer \<Rightarrow> incoming_event \<Rightarrow> resolved_delivery \<Rightarrow> string + string" where
  "render_delivery show_array env renderer e d =
     res_bind (render_delivery_body show_array env renderer e d) (\<lambda>content.
       (let composed = with_mention_prefix (rd_mention d) content
        in Ok (if is_discord_target (rd_target d) then cap_to_discord_limit composed else composed)))"

section \<open>Explanation\<close>

record filter_result =
  fr_key :: string
  fr_pattern :: string
  fr_actual :: "string option"
  fr_matched :: bool

record route_explanation =
  re_route_index :: nat
  re_event_pattern :: string
  re_matched :: bool
  re_pattern_matched :: bool
  re_filter_results :: "filter_result list"

record delivery_expl =
  de_sink :: string
  de_target :: string
  de_channel :: "string option"
  de_format :: string
  de_mention :: "string option"
  de_template :: "string option"
  de_matched_route_index :: "nat option"

record provenance =
  pv_event_kind :: string
  pv_canonical_kind :: string
  pv_route_candidates :: "string list"
  pv_routes :: "route_explanation list"
  pv_deliveries :: "delivery_expl list"

definition delivery_explanation ::
    "(string \<Rightarrow> string) \<Rightarrow> url_parser \<Rightarrow> resolved_delivery \<Rightarrow> nat option \<Rightarrow> delivery_expl" where
  "delivery_explanation debug_str parse_url d index =
     (let (target_label, channel) =
        (case rd_target d of
           DiscordChannel name \<Rightarrow> (''DiscordChannel('' @ debug_str name @ '')'', Some name)
         | _ \<Rightarrow> (safe_target_id parse_url (rd_target d), None))
      in \<lparr>de_sink = rd_sink d, de_target = target_label, de_channel = channel,
          de_format = format_as_str (rd_format d), de_mention = rd_mention d, de_template = rd_template d,
          de_matched_route_index = index\<rparr>)"

definition explain_filter :: "context_map \<Rightarrow> string \<times> string \<Rightarrow> filter_result" where
  "explain_filter ctx f =
     (let actual = bt_get ctx (fst f)
      in \<lparr>fr_key = fst f, fr_pattern = snd f, fr_actual = actual,
          fr_matched = (case actual of Some a \<Rightarrow> glob_match (snd f) a | None \<Rightarrow> False)\<rparr>)"

definition explain_route :: "string list \<Rightarrow> context_map \<Rightarrow> nat \<times> route_rule \<Rightarrow> route_explanation" where
  "explain_route candidates ctx ir =
     (let r = snd ir;
          pattern_matched = list_ex (\<lambda>candidate. glob_match (rr_event r) candidate) candidates;
          filter_results = map (explain_filter ctx) (rr_filter r);
          all_filters_match = (filter_results = [] \<or> list_all fr_matched filter_results)
      in \<lparr>re_route_index = fst ir, re_event_pattern = rr_event r,
          re_matched = (pattern_matched \<and> all_filters_match),
          re_pattern_matched = pattern_matched, re_filter_results = filter_results\<rparr>)"

definition explain_deliveries ::
    "(string \<Rightarrow> string) \<Rightarrow> url_parser \<Rightarrow> app_config \<Rightarrow> incoming_event \<Rightarrow> (nat \<times> route_rule) list \<Rightarrow> delivery_expl list" where
  "explain_deliveries debug_str parse_url cfg e matched =
     (if matched = [] then
        (if is_subscription_event e then []
         else (case resolve_delivery parse_url cfg e None None of
                 Inr d \<Rightarrow> [delivery_explanation debug_str parse_url d None]
               | Inl _ \<Rightarrow> []))
      else List.map_filter (\<lambda>(index, r).
             map_option (\<lambda>d. delivery_explanation debug_str parse_url d (Some index))
               (res_ok (resolve_delivery parse_url cfg e (Some r) (Some index)))) matched)"

definition explain ::
    "(json list \<Rightarrow> string) \<Rightarrow> (string \<Rightarrow> string) \<Rightarrow> url_parser \<Rightarrow> app_config \<Rightarrow> incoming_event \<Rightarrow> provenance" where
  "explain show_array debug_str parse_url cfg e =
     (let ck = canonical_kind e;
          ctx = template_context show_array e;
          candidates = route_candidates ck
      in \<lparr>pv_event_kind = ev_kind e, pv_canonical_kind = ck, pv_route_candidates = candidates,
          pv_routes = map (explain_route candidates ctx) (enumerate 0 (cfg_routes cfg)),
          pv_deliveries = explain_deliveries debug_str parse_url cfg e
                            (matching_routes_for (cfg_routes cfg) ck ctx)\<rparr>)"

section \<open>The channel of a tmux session\<close>

definition route_channel :: "route_rule \<Rightarrow> string option" where
  "route_channel r = opt_filter (\<lambda>c. c \<noteq> []) (map_option trim (rr_channel r))"

definition session_probe :: "string \<Rightarrow> incoming_event" where
  "session_probe session_name =
     \<lparr>ev_kind = ''session.started'', ev_channel = None, ev_mention = None, ev_format = None,
      ev_template = None,
      ev_payload = jobject [(''session_name'', JStr session_name), (''session'', JStr session_name),
                            (''tool'', JStr ''tmux'')]\<rparr>"

definition resolve_tmux_session_channel_with_metadata ::
    "(json list \<Rightarrow> string) \<Rightarrow> app_config \<Rightarrow> string \<Rightarrow> routing_metadata \<Rightarrow> string option" where
  "resolve_tmux_session_channel_with_metadata show_array cfg session_name routing =
     (let tmux_context = template_context show_array
            (with_routing_metadata routing (tmux_keyword session_name [] [] None));
          session_context = template_context show_array
            (with_routing_metadata routing (session_probe session_name));
          prefer_metadata = (prefers_metadata_first_routing ''tmux.keyword'' tmux_context
                             \<or> prefers_metadata_first_routing ''session.started'' session_context);
          matched = filter (\<lambda>r. route_matches r ''tmux.keyword'' tmux_context
                               \<or> route_matches r ''session.started'' session_context) (cfg_routes cfg);
          preferred = filter (\<lambda>r. \<not> (prefer_metadata \<and> route_uses_session_name_prefix_heuristics r)) matched;
          heuristic = filter (\<lambda>r. prefer_metadata \<and> route_uses_session_name_prefix_heuristics r) matched;
          preferred = (if \<not> prefer_metadata then preferred @ heuristic else preferred)
      in opt_or
           (find_map (\<lambda>r. if effective_sink r \<noteq> ''discord'' then None else route_channel r) preferred)
           (dc_channel (cfg_defaults cfg)))"

definition resolve_tmux_session_channel :: "(json list \<Rightarrow> string) \<Rightarrow> app_config \<Rightarrow> string \<Rightarrow> string option" where
  "resolve_tmux_session_channel show_array cfg session_name =
     resolve_tmux_session_channel_with_metadata show_array cfg session_name
       \<lparr>rm_tool = None, rm_project = None, rm_repo_name = None, rm_repo_path = None,
        rm_worktree_path = None, rm_session_id = None, rm_branch = None\<rparr>"

section \<open>Lemmas on matching\<close>

definition route_qualifies :: "string \<Rightarrow> context_map \<Rightarrow> route_rule \<Rightarrow> bool" where
  "route_qualifies ck ctx r =
     (route_matches r ck ctx \<and>
      \<not> (prefers_metadata_first_routing ck ctx \<and> route_uses_session_name_prefix_heuristics r))"

lemma matching_routes_sorted:
  "matching_routes_for routes ck ctx =
     sort_desc (\<lambda>(_, r). route_specificity_score ctx r)
       (filter (\<lambda>(_, r). route_qualifies ck ctx r) (enumerate 0 routes))"
proof (cases "prefers_metadata_first_routing ck ctx")
  case True
  then show ?thesis
    by (simp add: matching_routes_for_def Let_def route_qualifies_def case_prod_unfold conj_commute)
next
  case False
  have "sort_desc f [] = []" for f :: "nat \<times> route_rule \<Rightarrow> nat" by simp
  with False show ?thesis
    by (simp add: matching_routes_for_def Let_def route_qualifies_def case_prod_unfold)
qed

lemma sorted_wrt_lex:
  "sorted_wrt (\<lambda>a b. (f b :: nat) \<le> f a) xs \<Longrightarrow> (\<And>k. sorted_wrt R (filter (\<lambda>x. f x = k) xs)) \<Longrightarrow>
   sorted_wrt (\<lambda>a b. f b < f a \<or> (f a = f b \<and> R a b)) xs"
proof (induction xs)
  case (Cons x xs)
  have "sorted_wrt R (filter (\<lambda>y. f y = k) xs)" for k
    using Cons.prems(2)[of k] by (auto split: if_splits)
  moreover have "f y < f x \<or> (f x = f y \<and> R x y)" if "y \<in> set xs" for y
    using Cons.prems(1) Cons.prems(2)[of "f x"] that by (cases "f y = f x") auto
  ultimately show ?case using Cons by auto
qed simp

lemma distinct_of_strict: "sorted_wrt R xs \<Longrightarrow> (\<And>x. \<not> R x x) \<Longrightarrow> distinct xs"
  by (induction xs) auto

lemma sort_desc_lex:
  assumes "sorted_wrt R xs"
  shows "sorted_wrt (\<lambda>a b. f b < f a \<or> (f a = f b \<and> R a b)) (sort_desc f xs)"
  by (rule sorted_wrt_lex)
    (simp_all add: sorted_sort_desc sort_desc_stable sorted_wrt_filter assms)

lemma sorted_wrt_enumerate: "sorted_wrt (\<lambda>a b. fst a < fst b) (enumerate n xs)"
  by (induction xs arbitrary: n) (auto simp: in_set_enumerate_eq)

lemma matching_routes_set:
  "(i, r) \<in> set (matching_routes_for routes ck ctx) \<longleftrightarrow>
     i < length routes \<and> routes ! i = r \<and> route_qualifies ck ctx r"
  by (auto simp: matching_routes_sorted in_set_enumerate_eq)

lemma matching_routes_order:
  "sorted_wrt (\<lambda>(i, r) (j, s). route_specificity_score ctx s < route_specificity_score ctx r \<or>
       (route_specificity_score ctx r = route_specificity_score ctx s \<and> i < j))
     (matching_routes_for routes ck ctx)"
  using sort_desc_lex[OF sorted_wrt_filter[OF sorted_wrt_enumerate], of "\<lambda>(_, r). route_specificity_score ctx r"]
  by (simp add: matching_routes_sorted case_prod_unfold)

section \<open>Lemmas on resolution\<close>

lemma resolve_delivery_Ok:
  "resolve_delivery parse_url cfg e route index = Ok d \<Longrightarrow>
     rt_matched_route_index (rd_trace d) = index \<and>
     rd_sink d = unwrap_or (map_option effective_sink route) default_sink_name \<and>
     target_for cfg e route (rd_sink d) = Ok (rd_target d)"
  by (auto simp: resolve_delivery_def Let_def res_bind_Inr)

lemma resolve_all_Ok:
  "resolve_all parse_url cfg e matched = Ok ds \<longleftrightarrow>
     list_all2 (\<lambda>(i, r) d. resolve_delivery parse_url cfg e (Some r) (Some i) = Ok d) matched ds"
  by (induction parse_url cfg e matched arbitrary: ds rule: resolve_all.induct)
    (auto simp: res_bind_Inr list_all2_Cons1)

lemma resolve_all_indices:
  "resolve_all parse_url cfg e matched = Ok ds \<Longrightarrow>
     map (\<lambda>d. rt_matched_route_index (rd_trace d)) ds = map (\<lambda>(i, _). Some i) matched"
  unfolding resolve_all_Ok
  by (induction rule: list_all2_induct) (auto dest: resolve_delivery_Ok)

lemma resolve_all_Err:
  "(i, r) \<in> set matched \<Longrightarrow> resolve_delivery parse_url cfg e (Some r) (Some i) = Err m \<Longrightarrow>
     \<exists>m'. resolve_all parse_url cfg e matched = Err m'"
  by (induction parse_url cfg e matched rule: resolve_all.induct) (auto simp: res_bind_def split: sum.splits)

lemma explain_deliveries_all:
  "list_all2 (\<lambda>(i, r) d. resolve_delivery parse_url cfg e (Some r) (Some i) = Ok d) matched ds \<Longrightarrow>
     List.map_filter (\<lambda>(index, r).
        map_option (\<lambda>d. delivery_explanation debug_str parse_url d (Some index))
          (res_ok (resolve_delivery parse_url cfg e (Some r) (Some index)))) matched
     = map (\<lambda>d. delivery_explanation debug_str parse_url d (rt_matched_route_index (rd_trace d))) ds"
  by (induction rule: list_all2_induct)
    (auto simp: map_filter_simps, metis resolve_delivery_Ok)

section \<open>Properties\<close>

text \<open>
  C1. Resolution delivers each qualifying route exactly once and in the specified order. When
  \<open>resolve\<close> succeeds and some route qualifies, the route indices of its deliveries are exactly the
  indices of the routes that match and are not displaced by metadata-first routing, each once, by
  falling specificity and then by configuration order. When none qualifies there is exactly one
  delivery, the default one, and the event is not a subscription event.
\<close>

theorem resolve_each_match_once:
  assumes "resolve show_array parse_url cfg e = Ok ds"
  shows "let ctx = template_context show_array e;
             routes = cfg_routes cfg;
             score = (\<lambda>i. route_specificity_score ctx (routes ! i));
             qualifying = {i. i < length routes \<and> route_qualifies (canonical_kind e) ctx (routes ! i)};
             idx = map (\<lambda>d. rt_matched_route_index (rd_trace d)) ds
         in (qualifying = {} \<longrightarrow> idx = [None] \<and> \<not> is_subscription_event e) \<and>
            (qualifying \<noteq> {} \<longrightarrow> distinct idx \<and> set idx = Some ` qualifying \<and>
               sorted_wrt (\<lambda>a b. score (the b) < score (the a) \<or> (score (the a) = score (the b) \<and> the a < the b)) idx)"
proof -
  let ?ctx = "template_context show_array e" and ?routes = "cfg_routes cfg"
  let ?m = "matching_routes_for ?routes (canonical_kind e) ?ctx"
  let ?q = "{i. i < length ?routes \<and> route_qualifies (canonical_kind e) ?ctx (?routes ! i)}"
  let ?idx = "map (\<lambda>d. rt_matched_route_index (rd_trace d)) ds"
  have mset: "fst ` set ?m = ?q"
    by (simp add: set_eq_iff image_iff Bex_def split_paired_Ex matching_routes_set)
  have ord: "sorted_wrt (\<lambda>i j. route_specificity_score ?ctx (?routes ! j) < route_specificity_score ?ctx (?routes ! i) \<or>
       (route_specificity_score ?ctx (?routes ! i) = route_specificity_score ?ctx (?routes ! j) \<and> i < j)) (map fst ?m)"
    unfolding sorted_wrt_map
    by (rule sorted_wrt_mono_rel[OF _ matching_routes_order]) (auto simp: matching_routes_set)
  show ?thesis
  proof (cases "?m = []")
    case True
    with mset have "?q = {}" by (metis image_empty list.set(1))
    moreover have "?idx = [None] \<and> \<not> is_subscription_event e"
      using assms True by (auto simp: resolve_def Let_def res_bind_Inr split: if_splits dest: resolve_delivery_Ok)
    ultimately show ?thesis by (auto simp: Let_def)
  next
    case False
    then have "?q \<noteq> {}" using mset by (metis image_is_empty set_empty)
    from assms False have "resolve_all parse_url cfg e ?m = Ok ds" by (simp add: resolve_def Let_def)
    from resolve_all_indices[OF this] have i: "?idx = map Some (map fst ?m)" by (simp add: case_prod_unfold)
    have "distinct (map fst ?m)"
      using ord by (rule distinct_of_strict) auto
    then have "distinct ?idx" unfolding i by (simp only: distinct_map[of Some]) simp
    moreover have "set ?idx = Some ` ?q" unfolding i mset[symmetric] by (simp only: list.set_map)
    moreover have "sorted_wrt (\<lambda>a b. route_specificity_score ?ctx (?routes ! the b) < route_specificity_score ?ctx (?routes ! the a) \<or>
        (route_specificity_score ?ctx (?routes ! the a) = route_specificity_score ?ctx (?routes ! the b) \<and> the a < the b)) ?idx"
      unfolding i sorted_wrt_map[of _ Some] option.sel by (rule ord)
    ultimately show ?thesis using \<open>?q \<noteq> {}\<close> unfolding Let_def by blast
  qed
qed

definition commit_route :: "string \<Rightarrow> route_rule" where
  "commit_route channel = default_route_rule\<lparr>rr_event := ''git.*'', rr_channel := Some channel\<rparr>"

definition slack_route :: route_rule where
  "slack_route = default_route_rule\<lparr>rr_event := ''git.commit'', rr_sink := ''slack''\<rparr>"

definition sample_config :: "route_rule list \<Rightarrow> app_config" where
  "sample_config routes =
     \<lparr>cfg_routes = routes,
      cfg_defaults = \<lparr>dc_channel = Some ''ops'', dc_channel_name = None, dc_format = Compact\<rparr>,
      cfg_http = \<lparr>hc_endpoint = None, hc_hmac_secret_env = None\<rparr>\<rparr>"

definition sample_commit :: incoming_event where
  "sample_commit = git_commit ''clawhip'' ''main'' ''0123456789'' ''fix'' None"

definition sample_repo_route :: route_rule where
  "sample_repo_route = (commit_route ''repo'')\<lparr>rr_filter := [(''repo_name'', ''claw*'')]\<rparr>"

theorem resolve_each_match_once_witness:
  "let ds = (case resolve (\<lambda>_. []) (\<lambda>_. None) (sample_config [commit_route ''all'', sample_repo_route]) sample_commit
             of Inr ds \<Rightarrow> ds | Inl _ \<Rightarrow> []);
       ctx = template_context (\<lambda>_. []) sample_commit;
       routes = cfg_routes (sample_config [commit_route ''all'', sample_repo_route]);
       score = (\<lambda>i. route_specificity_score ctx (routes ! i));
       qualifying = {i. i < length routes \<and> route_qualifies (canonical_kind sample_commit) ctx (routes ! i)};
       idx = map (\<lambda>d. rt_matched_route_index (rd_trace d)) ds
   in idx = [Some 1, Some 0] \<and> distinct idx \<and> set idx = Some ` qualifying \<and>
      sorted_wrt (\<lambda>a b. score (the b) < score (the a) \<or> (score (the a) = score (the b) \<and> the a < the b)) idx"
proof -
  let ?r = "resolve (\<lambda>_. []) (\<lambda>_. None) (sample_config [commit_route ''all'', sample_repo_route]) sample_commit"
  have ok: "is_ok ?r" by code_simp
  then obtain ds where ds: "?r = Ok ds" by (cases ?r) auto
  have "map_option (map (\<lambda>d. rt_matched_route_index (rd_trace d))) (res_ok ?r) = Some [Some 1, Some 0]"
    by code_simp
  with ds have idx: "map (\<lambda>d. rt_matched_route_index (rd_trace d)) ds = [Some 1, Some 0]" by simp
  have c: "(case ?r of Inr ds \<Rightarrow> ds | Inl _ \<Rightarrow> []) = ds" by (simp add: ds)
  have ne: "[Some 1, Some 0] \<noteq> [None :: nat option]" by simp
  note each = resolve_each_match_once[OF ds, unfolded Let_def idx]
  show ?thesis unfolding Let_def c idx using each ne by blast
qed

text \<open>
  C10. One delivery's failure is the whole event's failure: if the target of any qualifying route cannot
  be resolved, \<open>resolve\<close> returns an error and none of the other routes delivers; \<open>explain\<close> still lists
  a delivery for each route whose own target resolves. When \<open>resolve\<close> succeeds the explanation lists
  exactly its deliveries, in the same order.
\<close>

theorem resolve_all_or_nothing:
  assumes "matched = matching_routes_for (cfg_routes cfg) (canonical_kind e) (template_context show_array e)"
    and "matched \<noteq> []"
  shows "((\<exists>(i, r) \<in> set matched. \<not> is_ok (resolve_delivery parse_url cfg e (Some r) (Some i)))
            \<longleftrightarrow> \<not> is_ok (resolve show_array parse_url cfg e)) \<and>
         (\<forall>ds. resolve show_array parse_url cfg e = Ok ds \<longrightarrow>
            pv_deliveries (explain show_array debug_str parse_url cfg e) =
              map (\<lambda>d. delivery_explanation debug_str parse_url d (rt_matched_route_index (rd_trace d))) ds) \<and>
         (\<forall>(i, r) \<in> set matched. is_ok (resolve_delivery parse_url cfg e (Some r) (Some i)) \<longrightarrow>
            Some i \<in> de_matched_route_index ` set (pv_deliveries (explain show_array debug_str parse_url cfg e)))"
proof (intro conjI)
  have r: "resolve show_array parse_url cfg e = resolve_all parse_url cfg e matched"
    using assms by (simp add: resolve_def Let_def)
  have is_ok_ex: "is_ok x \<longleftrightarrow> (\<exists>a. x = Ok a)" for x :: "string + 'x" by (cases x) auto
  have "is_ok (resolve_all parse_url cfg e ms) \<longleftrightarrow>
      (\<forall>(i, r) \<in> set ms. is_ok (resolve_delivery parse_url cfg e (Some r) (Some i)))" for ms
    by (induction parse_url cfg e ms rule: resolve_all.induct) (auto simp: is_ok_ex res_bind_Inr)
  then show "(\<exists>(i, r) \<in> set matched. \<not> is_ok (resolve_delivery parse_url cfg e (Some r) (Some i)))
            \<longleftrightarrow> \<not> is_ok (resolve show_array parse_url cfg e)"
    unfolding r by auto
  have ex: "pv_deliveries (explain show_array debug_str parse_url cfg e) =
      List.map_filter (\<lambda>(index, r). map_option (\<lambda>d. delivery_explanation debug_str parse_url d (Some index))
        (res_ok (resolve_delivery parse_url cfg e (Some r) (Some index)))) matched"
    using assms by (simp add: explain_def Let_def explain_deliveries_def)
  show "\<forall>ds. resolve show_array parse_url cfg e = Ok ds \<longrightarrow>
      pv_deliveries (explain show_array debug_str parse_url cfg e) =
        map (\<lambda>d. delivery_explanation debug_str parse_url d (rt_matched_route_index (rd_trace d))) ds"
    unfolding ex r resolve_all_Ok by (blast intro: explain_deliveries_all)
  show "\<forall>(i, r) \<in> set matched. is_ok (resolve_delivery parse_url cfg e (Some r) (Some i)) \<longrightarrow>
      Some i \<in> de_matched_route_index ` set (pv_deliveries (explain show_array debug_str parse_url cfg e))"
  proof (clarsimp)
    fix i r
    assume i: "(i, r) \<in> set matched" "is_ok (resolve_delivery parse_url cfg e (Some r) (Some i))"
    then obtain d where d: "resolve_delivery parse_url cfg e (Some r) (Some i) = Ok d" by (auto simp: is_ok_ex)
    have "de_matched_route_index (delivery_explanation debug_str parse_url d (Some i)) = Some i"
      by (simp add: delivery_explanation_def Let_def split: prod.splits)
    moreover have "delivery_explanation debug_str parse_url d (Some i) \<in>
        set (pv_deliveries (explain show_array debug_str parse_url cfg e))"
      unfolding ex List.map_filter_def using i(1) by (auto simp: d intro!: image_eqI[where x = "(i, r)"])
    ultimately show "Some i \<in> de_matched_route_index ` set (pv_deliveries (explain show_array debug_str parse_url cfg e))"
      by (metis image_eqI)
  qed
qed

theorem resolve_all_or_nothing_witness:
  "let cfg = sample_config [commit_route ''all'', slack_route];
       matched = matching_routes_for (cfg_routes cfg) (canonical_kind sample_commit) (template_context (\<lambda>_. []) sample_commit)
   in \<not> is_ok (resolve (\<lambda>_. []) (\<lambda>_. None) cfg sample_commit) \<and>
      Some 0 \<in> de_matched_route_index ` set (pv_deliveries (explain (\<lambda>_. []) (\<lambda>s. s) (\<lambda>_. None) cfg sample_commit))"
proof -
  let ?cfg = "sample_config [commit_route ''all'', slack_route]"
  let ?m = "matching_routes_for (cfg_routes ?cfg) (canonical_kind sample_commit) (template_context (\<lambda>_. []) sample_commit)"
  have m: "map fst ?m = [0, 1]" by code_simp
  then have ne: "?m \<noteq> []" by auto
  have bad: "\<not> is_ok (resolve (\<lambda>_. []) (\<lambda>_. None) ?cfg sample_commit)" by code_simp
  have good: "is_ok (resolve_delivery (\<lambda>_. None) ?cfg sample_commit (Some (commit_route ''all'')) (Some 0))"
    by code_simp
  have "0 \<in> fst ` set ?m" using m by (metis list.set_intros(1) set_map)
  then have "(0, commit_route ''all'') \<in> set ?m"
    by (auto simp: matching_routes_set sample_config_def)
  with good bad resolve_all_or_nothing[OF refl ne, of "\<lambda>_. None" "\<lambda>s. s"] show ?thesis
    by (auto simp: Let_def)
qed

fun target_fits :: "string \<Rightarrow> sink_target \<Rightarrow> bool" where
  "target_fits sink (SlackWebhook _) = (sink = ''slack'')"
| "target_fits sink (HttpEndpoint _) = (sink = ''http'')"
| "target_fits sink (LocalFile _) = (sink = ''localfile'')"
| "target_fits sink _ = (sink = ''discord'')"

lemma target_for_fits: "target_for cfg e route sink = Ok target \<Longrightarrow> target_fits sink target"
  by (auto simp: target_for_def res_bind_Inr ok_or_def split: if_splits option.splits)

text \<open>
  C11. Every delivery goes to a sink that exists and that accepts its target: the sink name is one of
  the four the dispatcher registers, a Discord delivery has a Discord target, a Slack delivery a Slack
  webhook, and so on, so that no delivery reaches a sink with a target of another kind.
\<close>

theorem deliveries_fit_their_sink:
  assumes "resolve show_array parse_url cfg e = Ok ds" and "d \<in> set ds"
  shows "target_fits (rd_sink d) (rd_target d)"
proof -
  have "\<exists>route index. resolve_delivery parse_url cfg e route index = Ok d"
    using assms
    by (auto simp: resolve_def Let_def res_bind_Inr resolve_all_Ok list_all2_conv_all_nth in_set_conv_nth
        case_prod_unfold split: if_splits) blast+
  then show ?thesis by (auto dest!: resolve_delivery_Ok target_for_fits)
qed

theorem deliveries_fit_their_sink_witness:
  "\<exists>d. res_ok (resolve (\<lambda>_. []) (\<lambda>_. None) (sample_config []) sample_commit) = Some [d] \<and>
       target_fits (rd_sink d) (rd_target d)"
proof -
  let ?r = "resolve (\<lambda>_. []) (\<lambda>_. None) (sample_config []) sample_commit"
  have "map_option length (res_ok ?r) = Some 1" by code_simp
  then obtain ds where "?r = Ok ds" "length ds = 1" by (cases ?r) auto
  then obtain d where d: "?r = Ok [d]" by (auto simp: length_Suc_conv)
  from deliveries_fit_their_sink[OF this] d show ?thesis by simp
qed

text \<open>
  The explanation of the routes is the matcher's own verdict: for every configured route, in order,
  \<open>explain\<close> says matched exactly when \<open>route_matches\<close> holds. (It does not say whether the route is
  displaced by metadata-first routing; only the list of deliveries shows that.)
\<close>

theorem explain_is_the_matcher:
  "map re_matched (pv_routes (explain show_array debug_str parse_url cfg e)) =
     map (\<lambda>r. route_matches r (canonical_kind e) (template_context show_array e)) (cfg_routes cfg) \<and>
   map re_route_index (pv_routes (explain show_array debug_str parse_url cfg e)) = [0 ..< length (cfg_routes cfg)]"
proof -
  let ?ctx = "template_context show_array e" and ?cs = "route_candidates (canonical_kind e)"
  have one: "re_matched (explain_route ?cs ?ctx (i, r)) = route_matches r (canonical_kind e) ?ctx" for i r
    by (auto simp: explain_route_def route_matches_def Let_def list_all_iff explain_filter_def filter_matches_def)
  have fields: "re_route_index (explain_route cs ctx ir) = fst ir" for cs ctx ir
    by (simp add: explain_route_def Let_def)
  have "map re_matched (map (explain_route ?cs ?ctx) (enumerate n rs)) =
      map (\<lambda>r. route_matches r (canonical_kind e) ?ctx) rs" for n rs
    by (induction rs arbitrary: n) (simp_all add: one)
  then show ?thesis by (simp add: explain_def Let_def fields comp_def)
qed

lemma cap_scalars: "char_count (cap_to_discord_limit s) \<le> 2000"
  using char_count_take_ellipsis[of 1999 s]
  by (simp add: cap_to_discord_limit_def discord_max_content_scalars_def char_count_ellipsis)

text \<open>
  Discord's limit: the text rendered for a Discord target never exceeds 2,000 Unicode scalar
  values, mention included, whatever the renderer and the tokens return; text within the limit is
  unchanged, a longer one keeps its first 1,999 scalar values; other targets are never truncated.
\<close>

theorem rendered_text_capped:
  assumes "render_delivery show_array env renderer e d = Ok text"
    and "render_delivery_body show_array env renderer e d = Ok body"
  shows "let composed = with_mention_prefix (rd_mention d) body
         in (is_discord_target (rd_target d) \<longrightarrow> char_count text \<le> 2000 \<and>
               (if char_count composed \<le> 2000 then text = composed
                else text = take_chars 1999 composed @ ellipsis \<and> char_count text = 2000)) \<and>
            (\<not> is_discord_target (rd_target d) \<longrightarrow> text = composed)"
proof -
  let ?c = "with_mention_prefix (rd_mention d) body"
  have t: "text = (if is_discord_target (rd_target d) then cap_to_discord_limit ?c else ?c)"
    using assms by (simp add: render_delivery_def Let_def)
  have "char_count (take_chars 1999 ?c @ ellipsis) = 2000" if "2000 < char_count ?c"
    using that by (simp add: char_count_def chars_take_chars_append ellipsis_start chars_ellipsis)
  with t cap_scalars[of ?c] show ?thesis
    by (auto simp: Let_def cap_to_discord_limit_def discord_max_content_scalars_def char_count_ellipsis)
qed

definition sample_delivery :: resolved_delivery where
  "sample_delivery =
     \<lparr>rd_sink = ''discord'', rd_target = DiscordChannel ''ops'', rd_format = Compact, rd_mention = Some '' @dev '',
      rd_template = None, rd_allow_dynamic_tokens = False,
      rd_trace = \<lparr>rt_result = Fallback, rt_matched_route_index = None, rt_event_pattern = None,
                   rt_filter_keys = [], rt_target = []\<rparr>\<rparr>"

theorem rendered_text_capped_witness:
  "render_delivery (\<lambda>_. []) sample_env (\<lambda>_ _. Ok ''hello'') sample_commit sample_delivery = Ok ''@dev hello'' \<and>
   char_count ''@dev hello'' \<le> 2000 \<and>
   ''@dev hello'' = with_mention_prefix (rd_mention sample_delivery) ''hello''"
proof -
  have r: "render_delivery (\<lambda>_. []) sample_env (\<lambda>_ _. Ok ''hello'') sample_commit sample_delivery = Ok ''@dev hello''"
    by code_simp
  have b: "render_delivery_body (\<lambda>_. []) sample_env (\<lambda>_ _. Ok ''hello'') sample_commit sample_delivery = Ok ''hello''"
    by code_simp
  have "with_mention_prefix (rd_mention sample_delivery) ''hello'' = ''@dev hello''" by code_simp
  with rendered_text_capped[OF r b] r show ?thesis by (simp add: Let_def sample_delivery_def)
qed

text \<open>
  The channel announced for a tmux session is the trimmed, non-empty channel of a configured route
  whose effective sink is Discord and that matches the session's events, or the default channel.
\<close>

theorem session_channel_from_matching_route:
  "let tmux_context = template_context show_array
         (with_routing_metadata routing (tmux_keyword session [] [] None));
       session_context = template_context show_array
         (with_routing_metadata routing (session_probe session));
       eligible = {r \<in> set (cfg_routes cfg). effective_sink r = ''discord'' \<and> route_channel r \<noteq> None \<and>
         (route_matches r ''tmux.keyword'' tmux_context \<or> route_matches r ''session.started'' session_context)}
   in resolve_tmux_session_channel_with_metadata show_array cfg session routing
        \<in> route_channel ` eligible \<union> {dc_channel (cfg_defaults cfg)}"
proof -
  let ?t = "template_context show_array (with_routing_metadata routing (tmux_keyword session [] [] None))"
  let ?s = "template_context show_array (with_routing_metadata routing (session_probe session))"
  let ?F = "\<lambda>r. if effective_sink r \<noteq> ''discord'' then None else route_channel r"
  let ?S = "{r \<in> set (cfg_routes cfg). effective_sink r = ''discord'' \<and> route_channel r \<noteq> None \<and>
      (route_matches r ''tmux.keyword'' ?t \<or> route_matches r ''session.started'' ?s)}"
  have *: "opt_or (find_map ?F rs) d \<in> route_channel ` ?S \<union> {d}"
    if "\<And>r. r \<in> set rs \<Longrightarrow> r \<in> set (cfg_routes cfg) \<and>
      (route_matches r ''tmux.keyword'' ?t \<or> route_matches r ''session.started'' ?s)" for rs d
  proof (cases "find_map ?F rs")
    case (Some c)
    then obtain r where "r \<in> set rs" "?F r = Some c" by (blast dest: find_map_Some)
    then have "r \<in> ?S" "route_channel r = Some c" using that by (auto split: if_splits)
    then show ?thesis using Some by (auto intro!: image_eqI)
  qed simp
  show ?thesis
    unfolding resolve_tmux_session_channel_with_metadata_def Let_def
    by (rule *) (auto split: if_splits)
qed

end
