(* ===== verification/Chunks.thy ===== *)
theory Chunks imports Router begin

text \<open>
  \<open>split_discord_routine_chunks\<close> of \<open>src/dispatch.rs\<close>: the greedy split of a rendered routine batch into
  Discord messages. The loop's four local variables are the record \<open>chunk_state\<close>.
\<close>

record discord_routine_chunk =
  ch_content :: string
  ch_event_count :: nat
  ch_chunk_index :: nat
  ch_total_chunks :: nat
  ch_event_kinds :: "string list"

record chunk_state =
  cs_chunks :: "(nat list \<times> string \<times> string list) list"
  cs_items :: "nat list"
  cs_len :: nat
  cs_kinds :: "string list"

type_synonym rendered_item = "nat \<times> string \<times> string"

definition item_content :: "rendered_item list \<Rightarrow> nat \<Rightarrow> string" where
  "item_content rendered i = fst (snd (rendered ! i))"

definition item_kind :: "rendered_item list \<Rightarrow> nat \<Rightarrow> string" where
  "item_kind rendered i = snd (snd (rendered ! i))"

definition max_scalars :: nat where "max_scalars = 2000"
definition sep_len :: nat where "sep_len = 1"

definition joined_items :: "rendered_item list \<Rightarrow> nat list \<Rightarrow> string" where
  "joined_items rendered items = join_with [CHR 0x0A] (map (item_content rendered) items)"

definition flush_chunk :: "rendered_item list \<Rightarrow> chunk_state \<Rightarrow> chunk_state" where
  "flush_chunk rendered st =
     st\<lparr>cs_chunks := cs_chunks st @ [(cs_items st, joined_items rendered (cs_items st), cs_kinds st)],
        cs_items := [], cs_kinds := []\<rparr>"

text \<open>An item that starts a chunk of its own: included when it fits, capped and emitted when it does not.\<close>

definition start_chunk :: "nat \<Rightarrow> string \<Rightarrow> string \<Rightarrow> chunk_state \<Rightarrow> chunk_state" where
  "start_chunk i content kind st =
     (if char_count content \<le> max_scalars
      then st\<lparr>cs_items := cs_items st @ [i], cs_len := char_count content, cs_kinds := cs_kinds st @ [kind]\<rparr>
      else st\<lparr>cs_chunks := cs_chunks st @ [([i], cap_to_discord_limit content, [kind])], cs_len := 0\<rparr>)"

definition chunk_step :: "rendered_item list \<Rightarrow> chunk_state \<Rightarrow> nat \<times> rendered_item \<Rightarrow> chunk_state" where
  "chunk_step rendered st x =
     (let i = fst x; content = fst (snd (snd x)); kind = snd (snd (snd x));
          item_len = char_count content;
          added_len = (if cs_items st = [] then item_len else sep_len + item_len)
      in if cs_len st + added_len \<le> max_scalars then
           st\<lparr>cs_items := cs_items st @ [i], cs_len := cs_len st + added_len, cs_kinds := cs_kinds st @ [kind]\<rparr>
         else if cs_items st \<noteq> [] then start_chunk i content kind (flush_chunk rendered st)
         else start_chunk i content kind st)"

definition batch_chunks :: "rendered_item list \<Rightarrow> (nat list \<times> string \<times> string list) list" where
  "batch_chunks rendered =
     (let st = foldl (chunk_step rendered)
                 \<lparr>cs_chunks = [], cs_items = [], cs_len = 0, cs_kinds = []\<rparr> (enumerate 0 rendered)
      in if cs_items st \<noteq> []
         then cs_chunks st @ [(cs_items st, joined_items rendered (cs_items st), cs_kinds st)]
         else cs_chunks st)"

definition number_chunk :: "nat \<Rightarrow> nat \<times> nat list \<times> string \<times> string list \<Rightarrow> discord_routine_chunk" where
  "number_chunk total_chunks x =
     (case x of (idx, _, content, kinds) \<Rightarrow>
        \<lparr>ch_content = content, ch_event_count = length kinds, ch_chunk_index = idx,
         ch_total_chunks = total_chunks, ch_event_kinds = kinds\<rparr>)"

definition split_discord_routine_chunks :: "rendered_item list \<Rightarrow> discord_routine_chunk list" where
  "split_discord_routine_chunks rendered =
     (let chunks = batch_chunks rendered
      in map (number_chunk (length chunks)) (enumerate 0 chunks))"

section \<open>Lengths of joined text\<close>

lemma char_count_starts:
  "char_count s = length (filter (\<lambda>c. \<not> is_cont c) s) + (if s \<noteq> [] \<and> is_cont (hd s) then 1 else 0)"
proof (induction s rule: chars.induct)
  case (2 c cs)
  have f: "filter (\<lambda>c. \<not> is_cont c) (dropWhile is_cont cs) = filter (\<lambda>c. \<not> is_cont c) cs"
    by (induction cs) auto
  have "\<not> (dropWhile is_cont cs \<noteq> [] \<and> is_cont (hd (dropWhile is_cont cs)))"
    using hd_dropWhile by blast
  with 2 f show ?case by (simp add: char_count_def)
qed (simp add: char_count_def)

lemma char_count_append_le: "char_count (a @ b) \<le> char_count a + char_count b"
  by (cases a) (auto simp: char_count_starts)

lemma char_count_newline: "char_count (CHR 0x0A # s) \<le> Suc (char_count s)"
  by (simp add: char_count_starts)

lemma join_with_snoc: "xs \<noteq> [] \<Longrightarrow> join_with sep (xs @ [y]) = join_with sep xs @ sep @ y"
  by (induction xs rule: join_with.induct[of _ sep]) (auto simp: neq_Nil_conv)

lemma joined_snoc_le:
  "items \<noteq> [] \<Longrightarrow> char_count (joined_items rendered (items @ [i]))
     \<le> char_count (joined_items rendered items) + (1 + char_count (item_content rendered i))"
proof -
  assume "items \<noteq> []"
  then have "joined_items rendered (items @ [i]) =
      joined_items rendered items @ CHR 0x0A # item_content rendered i"
    by (simp add: joined_items_def join_with_snoc)
  then show ?thesis
    using char_count_append_le[of "joined_items rendered items" "CHR 0x0A # item_content rendered i"]
      char_count_newline[of "item_content rendered i"] by simp
qed

lemma joined_single [simp]: "joined_items rendered [i] = item_content rendered i"
  by (simp add: joined_items_def)

section \<open>The loop invariant\<close>

text \<open>The text of a chunk: the items joined by line feeds, a single item capped.\<close>

fun chunk_text :: "rendered_item list \<Rightarrow> nat list \<Rightarrow> string" where
  "chunk_text rendered [i] = cap_to_discord_limit (item_content rendered i)"
| "chunk_text rendered items = joined_items rendered items"

definition good_chunk :: "rendered_item list \<Rightarrow> nat list \<times> string \<times> string list \<Rightarrow> bool" where
  "good_chunk rendered c =
     (fst c \<noteq> [] \<and> fst (snd c) = chunk_text rendered (fst c) \<and> char_count (fst (snd c)) \<le> 2000 \<and>
      snd (snd c) = map (item_kind rendered) (fst c))"

definition chunk_inv :: "rendered_item list \<Rightarrow> nat \<Rightarrow> chunk_state \<Rightarrow> bool" where
  "chunk_inv rendered k st =
     (concat (map fst (cs_chunks st)) @ cs_items st = [0 ..< k] \<and>
      list_all (good_chunk rendered) (cs_chunks st) \<and>
      cs_kinds st = map (item_kind rendered) (cs_items st) \<and>
      (cs_items st \<noteq> [] \<longrightarrow> char_count (joined_items rendered (cs_items st)) \<le> cs_len st \<and> cs_len st \<le> 2000))"

lemma chunk_text_joined:
  "char_count (joined_items rendered g) \<le> 2000 \<Longrightarrow> chunk_text rendered g = joined_items rendered g"
  by (cases "(rendered, g)" rule: chunk_text.cases)
    (auto simp: cap_to_discord_limit_def discord_max_content_scalars_def)

lemma good_chunk_joined:
  "g \<noteq> [] \<Longrightarrow> char_count (joined_items rendered g) \<le> 2000 \<Longrightarrow>
     good_chunk rendered (g, joined_items rendered g, map (item_kind rendered) g)"
  by (simp add: good_chunk_def chunk_text_joined)

lemma flush_chunk_inv:
  "chunk_inv rendered k st \<Longrightarrow> cs_items st \<noteq> [] \<Longrightarrow> chunk_inv rendered k (flush_chunk rendered st)"
  using good_chunk_joined[of "cs_items st" rendered]
  by (auto simp: chunk_inv_def flush_chunk_def)

lemma start_chunk_inv:
  assumes "chunk_inv rendered k st" and "cs_items st = []"
  shows "chunk_inv rendered (Suc k) (start_chunk k (item_content rendered k) (item_kind rendered k) st)"
  using assms cap_scalars[of "item_content rendered k"]
  by (auto simp: chunk_inv_def start_chunk_def good_chunk_def max_scalars_def)

lemma flush_chunk_items [simp]: "cs_items (flush_chunk rendered st) = []"
  by (simp add: flush_chunk_def)

lemma chunk_step_inv:
  assumes inv: "chunk_inv rendered k st"
  shows "chunk_inv rendered (Suc k) (chunk_step rendered st (k, rendered ! k))"
proof -
  let ?c = "item_content rendered k" and ?kd = "item_kind rendered k"
  let ?len = "cs_len st + (if cs_items st = [] then char_count ?c else sep_len + char_count ?c)"
  consider (fits) "?len \<le> max_scalars" | (flush) "\<not> ?len \<le> max_scalars" "cs_items st \<noteq> []"
    | (start) "\<not> ?len \<le> max_scalars" "cs_items st = []" by blast
  then show ?thesis
  proof cases
    case fits
    then have st: "chunk_step rendered st (k, rendered ! k) =
        st\<lparr>cs_items := cs_items st @ [k], cs_len := ?len, cs_kinds := cs_kinds st @ [?kd]\<rparr>"
      by (simp add: chunk_step_def Let_def item_content_def item_kind_def split: if_splits)
    have "char_count (joined_items rendered (cs_items st @ [k])) \<le> ?len"
      using inv joined_snoc_le[of "cs_items st" rendered k]
      by (cases "cs_items st = []") (auto simp: chunk_inv_def sep_len_def)
    with fits inv show ?thesis unfolding st
      by (auto simp: chunk_inv_def max_scalars_def simp flip: append_assoc)
  next
    case flush
    then have st: "chunk_step rendered st (k, rendered ! k) = start_chunk k ?c ?kd (flush_chunk rendered st)"
      by (simp add: chunk_step_def Let_def item_content_def item_kind_def)
    show ?thesis unfolding st by (intro start_chunk_inv flush_chunk_inv inv flush) simp
  next
    case start
    then have st: "chunk_step rendered st (k, rendered ! k) = start_chunk k ?c ?kd st"
      by (simp add: chunk_step_def Let_def item_content_def item_kind_def)
    show ?thesis unfolding st by (rule start_chunk_inv[OF inv start(2)])
  qed
qed

lemma chunk_fold_inv:
  "chunk_inv rendered k st \<Longrightarrow> drop k rendered = rest \<Longrightarrow>
     chunk_inv rendered (k + length rest) (foldl (chunk_step rendered) st (enumerate k rest))"
proof (induction rest arbitrary: k st)
  case (Cons x rest)
  then have "rendered ! k = x" "drop (Suc k) rendered = rest"
    by (metis drop_eq_Nil hd_drop_conv_nth leI list.distinct(1) list.sel(1)) (metis Cons.prems(2) drop_Suc tl_drop list.sel(3))
  with Cons.IH[of "Suc k" "chunk_step rendered st (k, x)"] chunk_step_inv[OF Cons.prems(1)] show ?case by simp
qed simp

lemma batch_chunks_good:
  "list_all (good_chunk rendered) (batch_chunks rendered) \<and>
   concat (map fst (batch_chunks rendered)) = [0 ..< length rendered]"
proof -
  define st where "st = foldl (chunk_step rendered)
      \<lparr>cs_chunks = [], cs_items = [], cs_len = 0, cs_kinds = []\<rparr> (enumerate 0 rendered)"
  have "chunk_inv rendered 0 \<lparr>cs_chunks = [], cs_items = [], cs_len = 0, cs_kinds = []\<rparr>"
    by (simp add: chunk_inv_def)
  from chunk_fold_inv[OF this] have "chunk_inv rendered (length rendered) st" by (simp add: st_def)
  then show ?thesis using good_chunk_joined[of "cs_items st" rendered]
    by (auto simp: batch_chunks_def Let_def chunk_inv_def simp flip: st_def)
qed

lemma map_number_chunk:
  "map ch_content (map (number_chunk t) (enumerate n cs)) = map (\<lambda>c. fst (snd c)) cs"
  "map ch_event_kinds (map (number_chunk t) (enumerate n cs)) = map (\<lambda>c. snd (snd c)) cs"
  "map ch_event_count (map (number_chunk t) (enumerate n cs)) = map (\<lambda>c. length (snd (snd c))) cs"
  "map ch_chunk_index (map (number_chunk t) (enumerate n cs)) = [n ..< n + length cs]"
  "map ch_total_chunks (map (number_chunk t) (enumerate n cs)) = replicate (length cs) t"
  by (induction cs arbitrary: n) (auto simp: number_chunk_def upt_rec)

lemma chunks_partition_raw:
  "(\<exists>groups. concat groups = [0 ..< length rendered] \<and> [] \<notin> set groups \<and>
      map ch_content (split_discord_routine_chunks rendered) = map (chunk_text rendered) groups \<and>
      map ch_event_kinds (split_discord_routine_chunks rendered) = map (map (item_kind rendered)) groups \<and>
      map ch_event_count (split_discord_routine_chunks rendered) = map length groups) \<and>
   map ch_chunk_index (split_discord_routine_chunks rendered) = [0 ..< length (split_discord_routine_chunks rendered)] \<and>
   map ch_total_chunks (split_discord_routine_chunks rendered) =
     replicate (length (split_discord_routine_chunks rendered)) (length (split_discord_routine_chunks rendered)) \<and>
   list_all (\<lambda>text. char_count text \<le> 2000) (map ch_content (split_discord_routine_chunks rendered))"
proof -
  let ?cs = "batch_chunks rendered"
  have good: "fst (snd c) = chunk_text rendered (fst c)" "snd (snd c) = map (item_kind rendered) (fst c)"
      "fst c \<noteq> []" "char_count (fst (snd c)) \<le> 2000" if "c \<in> set ?cs" for c
    using batch_chunks_good[of rendered] that unfolding list_all_iff good_chunk_def by blast+
  have "map (\<lambda>c. fst (snd c)) ?cs = map (chunk_text rendered) (map fst ?cs)"
      "map (\<lambda>c. snd (snd c)) ?cs = map (map (item_kind rendered)) (map fst ?cs)"
      "map (\<lambda>c. length (snd (snd c))) ?cs = map length (map fst ?cs)"
    using good by simp_all
  moreover have "[] \<notin> set (map fst ?cs)" using good(3) unfolding set_map image_iff by metis
  moreover have "list_all (\<lambda>text. char_count text \<le> 2000) (map (\<lambda>c. fst (snd c)) ?cs)"
    using good(4) unfolding list_all_iff set_map by blast
  ultimately show ?thesis
    unfolding split_discord_routine_chunks_def Let_def map_number_chunk length_map length_enumerate
    using batch_chunks_good[of rendered] by (intro conjI exI[of _ "map fst ?cs"]) auto
qed

text \<open>
  C4. No event of a batch is dropped, duplicated or reordered: the chunks correspond to a partition of
  the rendered items, in order, into non-empty groups; a chunk's text is its items joined by line
  feeds (a single item capped), its kinds and count are those of its items, its index and the total
  are right, and every chunk respects Discord's limit of 2,000 scalar values.
\<close>

theorem chunks_partition_batch:
  "let chunks = split_discord_routine_chunks rendered
   in (\<exists>groups. concat groups = [0 ..< length rendered] \<and> [] \<notin> set groups \<and>
         map ch_content chunks = map (chunk_text rendered) groups \<and>
         map ch_event_kinds chunks = map (map (item_kind rendered)) groups \<and>
         map ch_event_count chunks = map length groups) \<and>
      map ch_chunk_index chunks = [0 ..< length chunks] \<and>
      map ch_total_chunks chunks = replicate (length chunks) (length chunks) \<and>
      list_all (\<lambda>text. char_count text \<le> 2000) (map ch_content chunks)"
  unfolding Let_def by (rule chunks_partition_raw)

end
