(* ===== verification/Batchers.thy ===== *)
theory Batchers imports TimerWheel Router begin

text \<open>
  The two batchers of \<open>src/dispatch.rs\<close>: routine deliveries (\<open>RoutineDeliveryBatcher\<close>) and CI jobs
  (\<open>GitHubCiBatcher\<close>). Both keep a map of pending batches by key and a timer wheel of scheduled
  (key, version) pairs; \<open>'b batcher\<close> is that state for batches of type \<open>'b\<close>. The JSON bytes in which a
  scheduled pair is stored belong to serde: \<open>enc\<close> is \<open>serde_json::to_vec\<close> and \<open>dec\<close> is \<open>from_slice\<close>, and
  \<open>codec_ok\<close> states that the second reads what the first writes. Clock readings are arguments.
\<close>

section \<open>Scheduled keys\<close>

record scheduled_batch_key =
  sb_key :: string
  sb_version :: nat

type_synonym encoder = "scheduled_batch_key \<Rightarrow> bytes option"
type_synonym decoder = "bytes \<Rightarrow> scheduled_batch_key option"

definition codec_ok :: "encoder \<Rightarrow> decoder \<Rightarrow> bool" where
  "codec_ok enc dec = (\<forall>k. dec (unwrap_or (enc k) []) = Some k)"

record 'b batcher =
  pending :: "string \<Rightarrow> 'b option"
  wheel :: timer_wheel
  window :: ms

definition batcher_new :: "ms \<Rightarrow> ms \<Rightarrow> 'b batcher" where
  "batcher_new now w = \<lparr>pending = (\<lambda>_. None), wheel = wheel_new now, window = w\<rparr>"

text \<open>The entry the code hands to the wheel for a batch.\<close>

definition scheduled_entry :: "encoder \<Rightarrow> string \<Rightarrow> nat \<Rightarrow> ms \<Rightarrow> delayed_entry" where
  "scheduled_entry enc key version deliver_at =
     \<lparr>deliver_at_ms = deliver_at, entry_record = unwrap_or (enc \<lparr>sb_key = key, sb_version = version\<rparr>) []\<rparr>"

definition take_batch :: "string \<Rightarrow> 'b batcher \<Rightarrow> 'b batcher \<times> 'b option" where
  "take_batch key q =
     (case pending q key of
        None \<Rightarrow> (q, None)
      | Some b \<Rightarrow> (q\<lparr>pending := (pending q)(key := None)\<rparr>, Some b))"

text \<open>The loop of \<open>flush_due\<close> over the entries the wheel returned.\<close>

fun flush_entries :: "decoder \<Rightarrow> ('b \<Rightarrow> nat) \<Rightarrow> delayed_entry list \<Rightarrow> 'b batcher \<Rightarrow> 'b batcher \<times> 'b list" where
  "flush_entries dec version_of [] q = (q, [])"
| "flush_entries dec version_of (entry # entries) q =
     (case dec (entry_record entry) of
        None \<Rightarrow> flush_entries dec version_of entries q
      | Some scheduled \<Rightarrow>
          (let is_current = (case pending q (sb_key scheduled) of
                               Some batch \<Rightarrow> version_of batch = sb_version scheduled
                             | None \<Rightarrow> False)
           in if is_current
              then (case take_batch (sb_key scheduled) q of
                      (q', Some batch) \<Rightarrow>
                        (let (q'', batches) = flush_entries dec version_of entries q' in (q'', batch # batches))
                    | (q', None) \<Rightarrow> flush_entries dec version_of entries q')
              else flush_entries dec version_of entries q))"

definition flush_due :: "decoder \<Rightarrow> ('b \<Rightarrow> nat) \<Rightarrow> ms \<Rightarrow> 'b batcher \<Rightarrow> 'b batcher \<times> 'b list" where
  "flush_due dec version_of now q =
     (let (w, due) = tick now (wheel q)
      in flush_entries dec version_of due (q\<lparr>wheel := w\<rparr>))"

section \<open>Routine deliveries\<close>

record queued_routine_delivery =
  qr_event :: incoming_event
  qr_delivery :: resolved_delivery

record pending_routine_batch =
  pr_items :: "queued_routine_delivery list"
  pr_deliver_at_ms :: ms
  pr_version :: nat

definition normalized_delivery_text :: "string option \<Rightarrow> string" where
  "normalized_delivery_text v = unwrap_or (trimmed_non_empty v) ''-''"

fun sink_target_key :: "sink_target \<Rightarrow> string" where
  "sink_target_key (DiscordChannel channel) = ''discord-channel:'' @ channel"
| "sink_target_key (DiscordThread thread) = ''discord-thread:'' @ thread"
| "sink_target_key (DiscordWebhook webhook) = ''discord-webhook:'' @ webhook"
| "sink_target_key (SlackWebhook webhook) = ''slack-webhook:'' @ webhook"
| "sink_target_key (HttpEndpoint endpoint) = ''http-endpoint:'' @ endpoint"
| "sink_target_key (LocalFile path) = ''localfile:'' @ path"

definition routine_batch_key :: "queued_routine_delivery \<Rightarrow> string" where
  "routine_batch_key queued =
     (let delivery = qr_delivery queued
      in join_with '':''
           [canonical_kind (qr_event queued), rd_sink delivery, sink_target_key (rd_target delivery),
            format_as_str (rd_format delivery), normalized_delivery_text (rd_mention delivery),
            normalized_delivery_text (rd_template delivery),
            if rd_allow_dynamic_tokens delivery then ''true'' else ''false''])"

definition routine_observe ::
    "encoder \<Rightarrow> queued_routine_delivery \<Rightarrow> ms \<Rightarrow> pending_routine_batch batcher \<Rightarrow> pending_routine_batch batcher" where
  "routine_observe enc delivery now q =
     (let key = routine_batch_key delivery;
          batch = unwrap_or (pending q key)
                    \<lparr>pr_items = [], pr_deliver_at_ms = now + window q, pr_version = 0\<rparr>;
          batch = batch\<lparr>pr_items := pr_items batch @ [delivery], pr_version := pr_version batch + 1\<rparr>
      in q\<lparr>pending := (pending q)(key := Some batch),
           wheel := schedule (scheduled_entry enc key (pr_version batch) (pr_deliver_at_ms batch)) (wheel q)\<rparr>)"

text \<open>\<open>FlushedRoutineDeliveryBatch\<close> is the list of its items.\<close>

definition routine_flush_due ::
    "decoder \<Rightarrow> ms \<Rightarrow> pending_routine_batch batcher \<Rightarrow> pending_routine_batch batcher \<times> queued_routine_delivery list list" where
  "routine_flush_due dec now q =
     (let (q', batches) = flush_due dec pr_version now q in (q', map pr_items batches))"

section \<open>CI batches\<close>

record batched_ci_job =
  cj_workflow :: string
  cj_status :: string
  cj_conclusion :: "string option"
  cj_url :: string

record pending_ci_batch =
  ci_repo :: string
  ci_number :: "nat option"
  ci_branch :: "string option"
  ci_sha :: string
  ci_url :: string
  ci_channel :: "string option"
  ci_mention :: "string option"
  ci_format :: "message_format option"
  ci_jobs :: "(string, batched_ci_job) btree"
  ci_expected_jobs :: nat
  ci_run_all_terminal :: bool
  ci_saw_in_progress :: bool
  ci_deliver_at_ms :: ms
  ci_version :: nat

definition is_terminal_job :: "batched_ci_job \<Rightarrow> bool" where
  "is_terminal_job job = (cj_status job = ''completed'')"

definition is_failure :: "batched_ci_job \<Rightarrow> bool" where
  "is_failure job =
     (cj_conclusion job \<in> {Some ''failure'', Some ''timed_out'', Some ''startup_failure'', Some ''action_required''})"

definition extract_run_id :: "string \<Rightarrow> string option" where
  "extract_run_id url =
     (case split_str ''/actions/runs/'' url of
        _ # tail # _ \<Rightarrow> opt_filter (\<lambda>part. part \<noteq> []) (Some (hd (split_on CHR ''/'' tail)))
      | _ \<Rightarrow> None)"

definition ci_batch_key :: "json \<Rightarrow> string" where
  "ci_batch_key payload =
     (let repo = unwrap_or (get_str payload ''repo'') ''unknown'';
          number = (case get_u64 payload ''number'' of Some n \<Rightarrow> show_nat n | None \<Rightarrow> ''none'');
          sha = unwrap_or (get_str payload ''sha'') ''unknown'';
          url = unwrap_or (get_str payload ''url'') [];
          run_id = unwrap_or (extract_run_id url) url
      in join_with '':'' [repo, number, sha, run_id])"

definition ci_run_job_count :: "json \<Rightarrow> nat" where
  "ci_run_job_count payload = unwrap_or (get_u64 payload ''run_job_count'') 1"

text \<open>The batch \<open>or_insert_with\<close> creates for the first job of a key.\<close>

definition ci_new_batch :: "ms \<Rightarrow> incoming_event \<Rightarrow> pending_ci_batch" where
  "ci_new_batch deliver_at e =
     (let p = ev_payload e
      in \<lparr>ci_repo = unwrap_or (as_str (json_index p ''repo'')) ''unknown'',
          ci_number = get_u64 p ''number'', ci_branch = get_str p ''branch'',
          ci_sha = unwrap_or (as_str (json_index p ''sha'')) [],
          ci_url = unwrap_or (as_str (json_index p ''url'')) [],
          ci_channel = ev_channel e, ci_mention = ev_mention e, ci_format = ev_format e,
          ci_jobs = [], ci_expected_jobs = ci_run_job_count p,
          ci_run_all_terminal = unwrap_or (get_bool p ''run_all_terminal'') False,
          ci_saw_in_progress = False, ci_deliver_at_ms = deliver_at, ci_version = 0\<rparr>)"

text \<open>The updates \<open>observe\<close> makes to the batch, new or not.\<close>

definition ci_update_batch :: "incoming_event \<Rightarrow> pending_ci_batch \<Rightarrow> pending_ci_batch" where
  "ci_update_batch e b =
     (let p = ev_payload e;
          workflow = unwrap_or (get_str p ''workflow'') ''unknown'';
          status = unwrap_or (as_str (json_index p ''status'')) ''unknown''
      in b\<lparr>ci_repo := unwrap_or (as_str (json_index p ''repo'')) (ci_repo b),
           ci_number := opt_or (get_u64 p ''number'') (ci_number b),
           ci_branch := opt_or (get_str p ''branch'') (ci_branch b),
           ci_sha := unwrap_or (as_str (json_index p ''sha'')) (ci_sha b),
           ci_url := unwrap_or (as_str (json_index p ''url'')) (ci_url b),
           ci_channel := opt_or (ev_channel e) (ci_channel b),
           ci_mention := opt_or (ev_mention e) (ci_mention b),
           ci_format := opt_or (ev_format e) (ci_format b),
           ci_expected_jobs := max (ci_expected_jobs b) (ci_run_job_count p),
           ci_run_all_terminal := unwrap_or (get_bool p ''run_all_terminal'') (ci_run_all_terminal b),
           ci_version := ci_version b + 1,
           ci_saw_in_progress := (ci_saw_in_progress b \<or> status \<noteq> ''completed''),
           ci_jobs := bt_insert workflow
             \<lparr>cj_workflow = workflow, cj_status = status, cj_conclusion = get_str p ''conclusion'',
              cj_url = unwrap_or (as_str (json_index p ''url'')) []\<rparr> (ci_jobs b)\<rparr>)"

definition ci_batch_complete :: "pending_ci_batch \<Rightarrow> bool" where
  "ci_batch_complete b =
     (ci_saw_in_progress b \<and> ci_run_all_terminal b \<and> ci_expected_jobs b \<le> length (ci_jobs b) \<and>
      list_all is_terminal_job (map snd (ci_jobs b)))"

definition job_json :: "batched_ci_job \<Rightarrow> json" where
  "job_json job =
     jobject [(''workflow'', JStr (cj_workflow job)), (''status'', JStr (cj_status job)),
              (''conclusion'', jopt JStr (cj_conclusion job)), (''url'', JStr (cj_url job))]"

definition count_jobs :: "(batched_ci_job \<Rightarrow> bool) \<Rightarrow> batched_ci_job list \<Rightarrow> nat" where
  "count_jobs P jobs = length (filter P jobs)"

definition ci_kind :: "batched_ci_job list \<Rightarrow> string" where
  "ci_kind jobs =
     (let passed = count_jobs (\<lambda>job. cj_conclusion job \<in> {Some ''success'', Some ''neutral''}) jobs;
          skipped = count_jobs (\<lambda>job. cj_conclusion job = Some ''skipped'') jobs;
          failed = count_jobs is_failure jobs;
          cancelled = count_jobs (\<lambda>job. cj_conclusion job = Some ''cancelled'') jobs
      in if 0 < failed then ''github.ci-failed''
         else if list_all is_terminal_job jobs then
           (if 0 < cancelled \<and> passed = 0 \<and> skipped = 0 then ''github.ci-cancelled'' else ''github.ci-passed'')
         else ''github.ci-started'')"

text \<open>The event of a removed batch. The job map is ordered by workflow, so its values are sorted already.\<close>

definition ci_batch_event :: "pending_ci_batch \<Rightarrow> incoming_event" where
  "ci_batch_event b =
     (let jobs = map snd (ci_jobs b);
          total = max (ci_expected_jobs b) (length jobs)
      in \<lparr>ev_kind = ci_kind jobs, ev_channel = ci_channel b, ev_mention = ci_mention b,
          ev_format = ci_format b, ev_template = None,
          ev_payload = jobject
            [(''repo'', JStr (ci_repo b)), (''number'', jopt jnat (ci_number b)),
             (''branch'', jopt JStr (ci_branch b)), (''sha'', JStr (ci_sha b)), (''url'', JStr (ci_url b)),
             (''batched'', JBool True), (''total_count'', jnat total),
             (''passed_count'', jnat (count_jobs (\<lambda>job. cj_conclusion job \<in> {Some ''success'', Some ''neutral''}) jobs)),
             (''skipped_count'', jnat (count_jobs (\<lambda>job. cj_conclusion job = Some ''skipped'') jobs)),
             (''failed_count'', jnat (count_jobs is_failure jobs)),
             (''cancelled_count'', jnat (count_jobs (\<lambda>job. cj_conclusion job = Some ''cancelled'') jobs)),
             (''jobs'', JArr (map job_json jobs))]\<rparr>)"

definition ci_flush_batch :: "string \<Rightarrow> pending_ci_batch batcher \<Rightarrow> pending_ci_batch batcher \<times> incoming_event option" where
  "ci_flush_batch key q = (let (q', b) = take_batch key q in (q', map_option ci_batch_event b))"

definition ci_observe ::
    "encoder \<Rightarrow> incoming_event \<Rightarrow> ms \<Rightarrow> pending_ci_batch batcher \<Rightarrow> pending_ci_batch batcher \<times> incoming_event list" where
  "ci_observe enc e now q =
     (let key = ci_batch_key (ev_payload e);
          batch = ci_update_batch e (unwrap_or (pending q key) (ci_new_batch (now + window q) e));
          q = q\<lparr>pending := (pending q)(key := Some batch),
                wheel := schedule (scheduled_entry enc key (ci_version batch) (ci_deliver_at_ms batch)) (wheel q)\<rparr>
      in if ci_batch_complete batch
         then (case ci_flush_batch key q of
                 (q', Some flushed) \<Rightarrow> (q', [flushed])
               | (q', None) \<Rightarrow> (q', []))
         else (q, []))"

definition ci_flush_due ::
    "decoder \<Rightarrow> ms \<Rightarrow> pending_ci_batch batcher \<Rightarrow> pending_ci_batch batcher \<times> incoming_event list" where
  "ci_flush_due dec now q =
     (let (q', batches) = flush_due dec ci_version now q in (q', map ci_batch_event batches))"

end
