(* ===== verification/BatchersCorrect.thy ===== *)
theory BatchersCorrect imports Batchers begin

text \<open>
  Correctness of the batchers. \<open>routine_reach\<close> and \<open>ci_reach\<close> are the states the dispatcher can bring
  the batchers into: it flushes what is due at the current clock reading and then observes at the
  same reading, and clock readings do not decrease. The timing facts rest on the contract of the
  timer wheel (\<open>wheel.\<close>), the rest on the characterisation of the flush loop.
\<close>

section \<open>The flush loop\<close>

definition ready_keys :: "decoder \<Rightarrow> ('b \<Rightarrow> nat) \<Rightarrow> delayed_entry list \<Rightarrow> 'b batcher \<Rightarrow> string set" where
  "ready_keys dec version_of entries q =
     {k. \<exists>e \<in> set entries. \<exists>b. pending q k = Some b \<and>
           dec (entry_record e) = Some \<lparr>sb_key = k, sb_version = version_of b\<rparr>}"

lemma ready_keys_pending: "k \<in> ready_keys dec version_of es q \<Longrightarrow> pending q k \<noteq> None"
  by (auto simp: ready_keys_def)

definition without_keys :: "string set \<Rightarrow> 'b batcher \<Rightarrow> 'b batcher" where
  "without_keys ks q = q\<lparr>pending := (\<lambda>k. if k \<in> ks then None else pending q k)\<rparr>"

lemma without_keys_sel [simp]:
  "pending (without_keys ks q) k = (if k \<in> ks then None else pending q k)"
  "wheel (without_keys ks q) = wheel q" "window (without_keys ks q) = window q"
  by (simp_all add: without_keys_def)

lemma without_no_keys [simp]: "without_keys {} q = q"
  by (simp add: without_keys_def)

lemma without_keys_twice: "without_keys ks (without_keys {k} q) = without_keys (insert k ks) q"
  by (auto simp: without_keys_def fun_eq_iff)

lemma take_batch_Some:
  "pending q k = Some b \<Longrightarrow> take_batch k q = (without_keys {k} q, Some b)"
  by (simp add: take_batch_def without_keys_def fun_upd_def)

lemma flush_entry_ready:
  assumes "dec (entry_record e) = Some \<lparr>sb_key = k, sb_version = version_of b\<rparr>" and "pending q k = Some b"
  shows "flush_entries dec version_of (e # es) q =
    (let (q'', bs) = flush_entries dec version_of es (without_keys {k} q) in (q'', b # bs))"
  using assms by (simp add: take_batch_Some)

lemma flush_entry_skip:
  assumes "\<nexists>k b. dec (entry_record e) = Some \<lparr>sb_key = k, sb_version = version_of b\<rparr> \<and> pending q k = Some b"
  shows "flush_entries dec version_of (e # es) q = flush_entries dec version_of es q"
proof (cases "dec (entry_record e)")
  case (Some s)
  then have "s = \<lparr>sb_key = sb_key s, sb_version = sb_version s\<rparr>" by simp
  with assms Some have "\<not> (case pending q (sb_key s) of Some b \<Rightarrow> version_of b = sb_version s | None \<Rightarrow> False)"
    by (auto split: option.splits)
  with Some show ?thesis by (simp add: Let_def)
qed simp

lemma flush_entries_spec:
  "flush_entries dec version_of es q = (q', bs) \<Longrightarrow>
     \<exists>ks. distinct ks \<and> set ks = ready_keys dec version_of es q \<and>
          bs = map (\<lambda>k. the (pending q k)) ks \<and> q' = without_keys (set ks) q"
proof (induction es arbitrary: q q' bs)
  case Nil
  then show ?case by (simp add: ready_keys_def)
next
  case (Cons e es)
  show ?case
  proof (cases "\<exists>k b. dec (entry_record e) = Some \<lparr>sb_key = k, sb_version = version_of b\<rparr> \<and> pending q k = Some b")
    case True
    then obtain k b where e: "dec (entry_record e) = Some \<lparr>sb_key = k, sb_version = version_of b\<rparr>"
      and b: "pending q k = Some b" by blast
    obtain bs' where bs': "flush_entries dec version_of es (without_keys {k} q) = (q', bs')"
      and bs: "bs = b # bs'"
      using Cons.prems flush_entry_ready[where dec = dec and e = e and k = k and version_of = version_of and b = b and q = q and es = es, OF e b]
      by (auto simp: Let_def simp del: flush_entries.simps split: prod.splits)
    from Cons.IH[OF bs'] obtain ks where ks: "distinct ks"
      "set ks = ready_keys dec version_of es (without_keys {k} q)"
      "bs' = map (\<lambda>k'. the (pending (without_keys {k} q) k')) ks" "q' = without_keys (set ks) (without_keys {k} q)"
      by blast
    have nk: "k \<notin> set ks" using ks(2) by (auto simp: ready_keys_def)
    have "set (k # ks) = ready_keys dec version_of (e # es) q"
      using ks(2) e b by (auto simp: ready_keys_def split: if_splits)
    moreover have "bs = map (\<lambda>k. the (pending q k)) (k # ks)" using bs ks(3) b nk by auto
    moreover have "q' = without_keys (set (k # ks)) q" using ks(4) by (simp add: without_keys_twice)
    ultimately show ?thesis using ks(1) nk by (intro exI[of _ "k # ks"]) auto
  next
    case False
    then have "flush_entries dec version_of es q = (q', bs)"
      using flush_entry_skip[of dec e version_of q es] Cons.prems by (simp del: flush_entries.simps)
    moreover have "ready_keys dec version_of (e # es) q = ready_keys dec version_of es q"
      using False by (auto simp: ready_keys_def)
    ultimately show ?thesis using Cons.IH by simp
  qed
qed

section \<open>Every pending batch is on the wheel\<close>

text \<open>\<open>at\<close> and \<open>ver\<close> read a batch's due time and version; they are the record fields of either batcher.\<close>

definition tracked :: "encoder \<Rightarrow> ('b \<Rightarrow> ms) \<Rightarrow> ('b \<Rightarrow> nat) \<Rightarrow> 'b batcher \<Rightarrow> bool" where
  "tracked enc at ver q =
     (wheel_inv (wheel q) \<and>
      (\<forall>k b. pending q k = Some b \<longrightarrow> scheduled_entry enc k (ver b) (at b) \<in># wheel_entries (wheel q)))"

text \<open>Every entry on the wheel belongs to a pending batch and carries its due time.\<close>

definition exact :: "encoder \<Rightarrow> ('b \<Rightarrow> ms) \<Rightarrow> 'b batcher \<Rightarrow> bool" where
  "exact enc at q =
     (\<forall>e. e \<in># wheel_entries (wheel q) \<longrightarrow>
        (\<exists>k b v. pending q k = Some b \<and> e = scheduled_entry enc k v (at b)))"

lemma scheduled_entry_sel [simp]: "deliver_at_ms (scheduled_entry enc k v t) = t"
  by (simp add: scheduled_entry_def)

lemma dec_scheduled:
  "codec_ok enc dec \<Longrightarrow> dec (entry_record (scheduled_entry enc k v t)) = Some \<lparr>sb_key = k, sb_version = v\<rparr>"
  by (simp add: codec_ok_def scheduled_entry_def)

lemma tracked_clock: "tracked enc at ver q \<Longrightarrow> pending q k = Some b \<Longrightarrow> current_ms (wheel q) \<le> at b"
  by (force simp: tracked_def wheel_inv_def)

lemma tracked_put:
  assumes "tracked enc at ver q" and "current_ms (wheel q) \<le> at b"
  shows "tracked enc at ver (q\<lparr>pending := (pending q)(k := Some b),
           wheel := schedule (scheduled_entry enc k (ver b) (at b)) (wheel q)\<rparr>)"
  using assms wheel.sched_inv[of "wheel q" "scheduled_entry enc k (ver b) (at b)"]
    wheel.sched_contents[of "wheel q" "scheduled_entry enc k (ver b) (at b)"]
  by (auto simp: tracked_def)

lemma exact_put:
  assumes "exact enc at q" and "tracked enc at ver q" and "current_ms (wheel q) \<le> at b"
    and "\<And>b0. pending q k = Some b0 \<Longrightarrow> at b = at b0"
  shows "exact enc at (q\<lparr>pending := (pending q)(k := Some b),
           wheel := schedule (scheduled_entry enc k (ver b) (at b)) (wheel q)\<rparr>)"
proof -
  let ?e = "scheduled_entry enc k (ver b) (at b)"
  have c: "wheel_entries (schedule ?e (wheel q)) = add_mset ?e (wheel_entries (wheel q))"
    using assms(2,3) by (intro wheel.sched_contents) (simp_all add: tracked_def)
  have "\<exists>k' b' v. ((pending q)(k := Some b)) k' = Some b' \<and> e = scheduled_entry enc k' v (at b')"
    if e: "e \<in># add_mset ?e (wheel_entries (wheel q))" for e
  proof (cases "e = ?e")
    case True
    then show ?thesis by (intro exI[of _ k] exI[of _ b] exI[of _ "ver b"]) simp
  next
    case False
    with e assms(1) obtain k' b' v where k': "pending q k' = Some b'" "e = scheduled_entry enc k' v (at b')"
      by (auto simp: exact_def)
    show ?thesis
    proof (cases "k' = k")
      case True
      with k' assms(4) show ?thesis by (intro exI[of _ k] exI[of _ b] exI[of _ v]) simp
    next
      case False
      with k' show ?thesis by (intro exI[of _ k'] exI[of _ b'] exI[of _ v]) simp
    qed
  qed
  then show ?thesis by (simp add: exact_def c)
qed

lemma tracked_without: "tracked enc at ver q \<Longrightarrow> tracked enc at ver (without_keys ks q)"
  by (auto simp: tracked_def split: if_splits)

lemma tracked_new: "tracked enc at ver (batcher_new now w)" "exact enc at (batcher_new now w)"
  by (simp_all add: tracked_def exact_def batcher_new_def wheel_inv_new)

text \<open>What a flush removes: at least the batches that are due, and, when every entry is a pending one's, no other.\<close>

lemma flush_due_spec:
  assumes codec: "codec_ok enc dec" and tr: "tracked enc at ver q" and le: "current_ms (wheel q) \<le> now"
    and fl: "flush_due dec ver now q = (q', bs)"
  shows "\<exists>ks. distinct ks \<and> bs = map (\<lambda>k. the (pending q k)) ks \<and> set ks \<subseteq> {k. pending q k \<noteq> None} \<and>
      (\<forall>k. pending q' k = (if k \<in> set ks then None else pending q k)) \<and>
      {k. \<exists>b. pending q k = Some b \<and> at b \<le> now} \<subseteq> set ks \<and>
      (exact enc at q \<longrightarrow> set ks = {k. \<exists>b. pending q k = Some b \<and> at b \<le> now})"
    and "tracked enc at ver q'" and "exact enc at q \<Longrightarrow> exact enc at q'"
    and "current_ms (wheel q') = now" and "window q' = window q"
proof -
  obtain w due where t: "tick now (wheel q) = (w, due)" by fastforce
  from fl t have "flush_entries dec ver due (q\<lparr>wheel := w\<rparr>) = (q', bs)" by (simp add: flush_due_def)
  from flush_entries_spec[OF this] obtain ks where ks: "distinct ks"
    "set ks = ready_keys dec ver due (q\<lparr>wheel := w\<rparr>)" "bs = map (\<lambda>k. the (pending q k)) ks"
    "q' = without_keys (set ks) (q\<lparr>wheel := w\<rparr>)" by auto
  have inv: "wheel_inv (wheel q)" using tr by (simp add: tracked_def)
  note dueset = wheel.advance_set[OF inv le t] and rest = wheel.advance_rest[OF inv le t]
  have due: "k \<in> set ks" if "pending q k = Some b" "at b \<le> now" for k b
  proof -
    have "scheduled_entry enc k (ver b) (at b) \<in> set due"
      using that tr by (simp add: dueset tracked_def)
    then show ?thesis using that(1) dec_scheduled[OF codec] by (auto simp: ks(2) ready_keys_def)
  qed
  have only: "at b \<le> now" if ex: "exact enc at q" and k: "k \<in> set ks" "pending q k = Some b" for k b
  proof -
    from k(1) obtain e v where e: "e \<in> set due" "dec (entry_record e) = Some \<lparr>sb_key = k, sb_version = v\<rparr>"
      by (auto simp: ks(2) ready_keys_def)
    then obtain k' b' v' where "pending q k' = Some b'" "e = scheduled_entry enc k' v' (at b')"
      using ex unfolding exact_def dueset by blast
    with e dec_scheduled[OF codec, of k' v' "at b'"] k(2) show ?thesis by (auto simp: dueset)
  qed
  have some: "pending q k \<noteq> None" if "k \<in> set ks" for k using that by (auto simp: ks(2) ready_keys_def)
  show "\<exists>ks. distinct ks \<and> bs = map (\<lambda>k. the (pending q k)) ks \<and> set ks \<subseteq> {k. pending q k \<noteq> None} \<and>
      (\<forall>k. pending q' k = (if k \<in> set ks then None else pending q k)) \<and>
      {k. \<exists>b. pending q k = Some b \<and> at b \<le> now} \<subseteq> set ks \<and>
      (exact enc at q \<longrightarrow> set ks = {k. \<exists>b. pending q k = Some b \<and> at b \<le> now})"
    using ks due only some by (intro exI[of _ ks]) fastforce
  show "tracked enc at ver q'"
    using tr due wheel.advance_inv[OF inv le t] rest ks(4)
    by (auto simp: tracked_def split: if_splits)
  show "exact enc at q'" if ex: "exact enc at q"
    unfolding exact_def
  proof (intro allI impI)
    fix e assume "e \<in># wheel_entries (wheel q')"
    then have e: "e \<in># wheel_entries (wheel q)" "now < deliver_at_ms e" by (auto simp: ks(4) rest)
    then obtain k b v where k: "pending q k = Some b" "e = scheduled_entry enc k v (at b)"
      using ex by (auto simp: exact_def)
    then have "k \<notin> set ks" using only[OF ex] e(2) by fastforce
    with k show "\<exists>k b v. pending q' k = Some b \<and> e = scheduled_entry enc k v (at b)" by (auto simp: ks(4))
  qed
  show "current_ms (wheel q') = now" "window q' = window q"
    using wheel.advance_clock[OF inv le t] by (simp_all add: ks(4))
qed

section \<open>Reachable states\<close>

text \<open>
  \<open>routine_reach enc dec observed flushed q\<close>: the dispatcher can bring the routine batcher into \<open>q\<close> by
  observing the deliveries \<open>observed\<close>, in this order, while the flushes returned the batches \<open>flushed\<close>.
\<close>

inductive routine_reach ::
    "encoder \<Rightarrow> decoder \<Rightarrow> queued_routine_delivery list \<Rightarrow> queued_routine_delivery list list
     \<Rightarrow> pending_routine_batch batcher \<Rightarrow> bool"
  for enc :: encoder and dec :: decoder where
  routine_start: "routine_reach enc dec [] [] (batcher_new now w)"
| routine_flush: "routine_reach enc dec obs fl q \<Longrightarrow> current_ms (wheel q) \<le> now \<Longrightarrow>
     routine_flush_due dec now q = (q', bs) \<Longrightarrow> routine_reach enc dec obs (fl @ bs) q'"
| routine_accept: "routine_reach enc dec obs fl q \<Longrightarrow> now = current_ms (wheel q) \<Longrightarrow>
     routine_reach enc dec (obs @ [it]) fl (routine_observe enc it now q)"

definition pending_items :: "pending_routine_batch batcher \<Rightarrow> string \<Rightarrow> queued_routine_delivery list" where
  "pending_items q k = (case pending q k of Some b \<Rightarrow> pr_items b | None \<Rightarrow> [])"

definition with_key :: "string \<Rightarrow> queued_routine_delivery list \<Rightarrow> queued_routine_delivery list" where
  "with_key k its = filter (\<lambda>it. routine_batch_key it = k) its"

lemma with_key_append [simp]: "with_key k (xs @ ys) = with_key k xs @ with_key k ys"
  by (simp add: with_key_def)

lemma routine_flush_due_parts:
  "routine_flush_due dec now q = (q', bs) \<longleftrightarrow>
     (\<exists>raw. flush_due dec pr_version now q = (q', raw) \<and> bs = map pr_items raw)"
  by (cases "flush_due dec pr_version now q") (auto simp: routine_flush_due_def)

lemma flush_due_items:
  assumes "flush_due dec pr_version now q = (q', raw)"
    and keys: "\<And>k b. pending q k = Some b \<Longrightarrow> with_key k (pr_items b) = pr_items b"
  shows "with_key k (concat (map pr_items raw)) @ pending_items q' k = pending_items q k"
proof -
  obtain w due where t: "tick now (wheel q) = (w, due)" by fastforce
  from assms(1) t have "flush_entries dec pr_version due (q\<lparr>wheel := w\<rparr>) = (q', raw)"
    by (simp add: flush_due_def)
  from flush_entries_spec[OF this] obtain ks where ks0: "distinct ks"
    "set ks = ready_keys dec pr_version due (q\<lparr>wheel := w\<rparr>)" "raw = map (\<lambda>k. the (pending q k)) ks"
    "q' = without_keys (set ks) (q\<lparr>wheel := w\<rparr>)" by auto
  have "\<forall>k \<in> set ks. pending q k \<noteq> None" using ready_keys_pending[of _ dec pr_version due] ks0(2) by fastforce
  note ks = ks0(1) this ks0(3,4)
  have other: "with_key k (pr_items (the (pending q k'))) = (if k' = k then pending_items q k else [])"
    if "pending q k' \<noteq> None" for k'
  proof -
    from that obtain b where b: "pending q k' = Some b" by auto
    show ?thesis
    proof (cases "k' = k")
      case True
      with b keys[OF b] show ?thesis by (simp add: pending_items_def)
    next
      case False
      have "with_key k (with_key k' its) = []" for its using False by (auto simp: with_key_def)
      with False b keys[OF b] show ?thesis by (metis option.sel)
    qed
  qed
  have "with_key k (concat (map (\<lambda>k. pr_items (the (pending q k))) ls)) = (if k \<in> set ls then pending_items q k else [])"
    if "distinct ls" "\<forall>k \<in> set ls. pending q k \<noteq> None" for ls
    using that by (induction ls) (auto simp: other, simp_all add: with_key_def)
  then show ?thesis using ks by (simp add: comp_def) (simp add: pending_items_def)
qed

lemma routine_reach_keys:
  "routine_reach enc dec obs fl q \<Longrightarrow> pending q k = Some b \<Longrightarrow> with_key k (pr_items b) = pr_items b"
proof (induction arbitrary: k b rule: routine_reach.induct)
  case (routine_start now w)
  then show ?case by (simp add: batcher_new_def)
next
  case (routine_flush obs fl q now q' bs)
  from routine_flush.hyps(3) obtain raw where "flush_due dec pr_version now q = (q', raw)"
    by (auto simp: routine_flush_due_parts)
  then have "pending q k = Some b"
    using routine_flush.prems
    by (auto simp: flush_due_def dest!: flush_entries_spec split: prod.splits if_splits)
  then show ?case by (rule routine_flush.IH)
next
  case (routine_accept obs fl q now it)
  then show ?case
    by (cases "pending q (routine_batch_key it)")
      (auto simp: routine_observe_def Let_def with_key_def split: if_splits)
qed

lemma routine_observe_put:
  "routine_observe enc it now q =
     (let k = routine_batch_key it;
          b0 = unwrap_or (pending q k) \<lparr>pr_items = [], pr_deliver_at_ms = now + window q, pr_version = 0\<rparr>;
          b = b0\<lparr>pr_items := pr_items b0 @ [it], pr_version := pr_version b0 + 1\<rparr>
      in q\<lparr>pending := (pending q)(k := Some b),
           wheel := schedule (scheduled_entry enc k (pr_version b) (pr_deliver_at_ms b)) (wheel q)\<rparr>)"
  by (simp add: routine_observe_def Let_def)

lemma routine_observe_inv:
  assumes "tracked enc pr_deliver_at_ms pr_version q" and "exact enc pr_deliver_at_ms q"
    and "now = current_ms (wheel q)"
  shows "tracked enc pr_deliver_at_ms pr_version (routine_observe enc it now q) \<and>
         exact enc pr_deliver_at_ms (routine_observe enc it now q) \<and>
         current_ms (wheel (routine_observe enc it now q)) = now"
proof -
  let ?k = "routine_batch_key it"
  let ?b0 = "unwrap_or (pending q ?k) \<lparr>pr_items = [], pr_deliver_at_ms = now + window q, pr_version = 0\<rparr>"
  let ?b = "?b0\<lparr>pr_items := pr_items ?b0 @ [it], pr_version := pr_version ?b0 + 1\<rparr>"
  have le: "current_ms (wheel q) \<le> pr_deliver_at_ms ?b"
    using tracked_clock[OF assms(1)] assms(3) by (cases "pending q ?k") auto
  have same: "pending q ?k = Some b0 \<Longrightarrow> pr_deliver_at_ms ?b = pr_deliver_at_ms b0" for b0 by simp
  have "current_ms (schedule (scheduled_entry enc ?k (pr_version ?b) (pr_deliver_at_ms ?b)) (wheel q)) = now"
    using wheel.sched_clock[of "wheel q"] le assms by (simp add: tracked_def)
  then show ?thesis
    unfolding routine_observe_put Let_def
    using tracked_put[OF assms(1) le, of ?k] exact_put[OF assms(2,1) le same] by simp
qed

lemma routine_reach_inv:
  assumes "codec_ok enc dec" and "routine_reach enc dec obs fl q"
  shows "tracked enc pr_deliver_at_ms pr_version q \<and> exact enc pr_deliver_at_ms q"
  using assms(2)
proof (induction rule: routine_reach.induct)
  case (routine_flush obs fl q now q' bs)
  then obtain raw where "flush_due dec pr_version now q = (q', raw)" by (auto simp: routine_flush_due_parts)
  with routine_flush flush_due_spec(2,3)[OF assms(1)] show ?case by blast
next
  case (routine_accept obs fl q now it)
  then show ?case by (simp add: routine_observe_inv)
qed (simp_all add: tracked_new)

lemma routine_observe_items:
  "pending_items (routine_observe enc it now q) k =
     (if k = routine_batch_key it then pending_items q k @ [it] else pending_items q k)"
  by (cases "pending q (routine_batch_key it)") (auto simp: routine_observe_def Let_def pending_items_def)

section \<open>Properties of the routine batcher\<close>

text \<open>
  C3. Nothing is lost, duplicated or reordered by routine batching: for every batch key, the deliveries
  already flushed under that key followed by those still pending are exactly the deliveries observed
  under that key, in the order they were observed. It holds in every reachable state, whatever the
  clock does and whatever bytes the wheel's records decode to.
\<close>

theorem routine_batching_fifo:
  assumes "routine_reach enc dec obs fl q"
  shows "with_key k (concat fl) @ pending_items q k = with_key k obs"
  using assms
proof (induction rule: routine_reach.induct)
  case (routine_start now w)
  then show ?case by (simp add: pending_items_def batcher_new_def with_key_def)
next
  case (routine_flush obs fl q now q' bs)
  from routine_flush.hyps(3) obtain raw where raw: "flush_due dec pr_version now q = (q', raw)" "bs = map pr_items raw"
    by (auto simp: routine_flush_due_parts)
  from flush_due_items[OF raw(1) routine_reach_keys[OF routine_flush.hyps(1)]]
  show ?case using routine_flush.IH raw(2) by simp
next
  case (routine_accept obs fl q now it)
  then show ?case by (auto simp: routine_observe_items) (auto simp: with_key_def)
qed

text \<open>
  Routine batches leave on time: in every reachable state, a flush at a clock reading \<open>now\<close> returns
  exactly the batches whose window has ended (\<open>pr_deliver_at_ms \<le> now\<close>), each once, keeps exactly the
  others, and a delivery observed now opens a batch that is due one window later or joins a batch
  that is due earlier.
\<close>

theorem routine_flush_on_time:
  assumes "codec_ok enc dec" and "routine_reach enc dec obs fl q" and "current_ms (wheel q) \<le> now"
    and "routine_flush_due dec now q = (q', bs)"
  shows "(\<exists>ks. distinct ks \<and> set ks = {k. \<exists>b. pending q k = Some b \<and> pr_deliver_at_ms b \<le> now} \<and>
            bs = map (pending_items q) ks) \<and>
         (\<forall>k. pending q' k = (case pending q k of
            Some b \<Rightarrow> if pr_deliver_at_ms b \<le> now then None else Some b | None \<Rightarrow> None)) \<and>
         (case pending (routine_observe enc it now q') (routine_batch_key it) of
            Some b \<Rightarrow> it \<in> set (pr_items b) \<and> now \<le> pr_deliver_at_ms b \<and>
              (pending q' (routine_batch_key it) = None \<and> pr_deliver_at_ms b = now + window q' \<or>
               map_option pr_deliver_at_ms (pending q' (routine_batch_key it)) = Some (pr_deliver_at_ms b))
          | None \<Rightarrow> False)"
proof -
  from assms(4) obtain raw where raw: "flush_due dec pr_version now q = (q', raw)" "bs = map pr_items raw"
    by (auto simp: routine_flush_due_parts)
  have inv: "tracked enc pr_deliver_at_ms pr_version q" "exact enc pr_deliver_at_ms q"
    using routine_reach_inv[OF assms(1,2)] by simp_all
  note spec = flush_due_spec[OF assms(1) inv(1) assms(3) raw(1)]
  from spec(1) inv(2) obtain ks where ks: "distinct ks" "raw = map (\<lambda>k. the (pending q k)) ks"
    "set ks = {k. \<exists>b. pending q k = Some b \<and> pr_deliver_at_ms b \<le> now}"
    "\<forall>k. pending q' k = (if k \<in> set ks then None else pending q k)" by blast
  have "bs = map (pending_items q) ks"
    using ks(3) by (auto simp: raw(2) ks(2) pending_items_def)
  moreover have "\<forall>k. pending q' k = (case pending q k of
      Some b \<Rightarrow> if pr_deliver_at_ms b \<le> now then None else Some b | None \<Rightarrow> None)"
    using ks(3,4) by (auto split: option.splits)
  moreover have "now \<le> pr_deliver_at_ms b" if "pending q' k = Some b" for k b
    using tracked_clock[OF spec(2) that] spec(4) by simp
  ultimately show ?thesis using ks(1,3)
    by (cases "pending q' (routine_batch_key it)") (auto simp: routine_observe_def Let_def)
qed

section \<open>A concrete codec and witnesses\<close>

text \<open>A record format with the round trip: the version in unary, a zero byte, the key's bytes.\<close>

definition unary_enc :: encoder where
  "unary_enc k = Some (replicate (sb_version k) 1 @ 0 # map of_char (sb_key k))"

definition unary_dec :: decoder where
  "unary_dec bs =
     (let n = length (takeWhile (\<lambda>b. b = 1) bs)
      in Some \<lparr>sb_key = map (\<lambda>b. char_of (unat b)) (drop (Suc n) bs), sb_version = n\<rparr>)"

lemma char_of_byte: "char_of (unat (of_char c :: 8 word)) = c"
proof -
  have "unat (of_nat (of_char c) :: 8 word) = of_char c"
    by (simp add: unat_of_nat)
  then have "unat (of_char c :: 8 word) = of_char c" by (simp add: of_nat_of_char)
  then show ?thesis by simp
qed

lemma unary_codec: "codec_ok unary_enc unary_dec"
  unfolding codec_ok_def
proof
  fix k
  have t: "takeWhile (\<lambda>b. b = 1) (replicate n 1 @ 0 # xs) = replicate n (1 :: 8 word)" for n xs
    by (induction n) auto
  have d: "drop (Suc n) (replicate n 1 @ 0 # xs) = xs" for n and xs :: "8 word list"
    by (induction n) auto
  show "unary_dec (unwrap_or (unary_enc k) []) = Some k"
    by (simp add: unary_enc_def unary_dec_def t d comp_def char_of_byte)
qed

lemma distinct_singleton: "distinct ks \<Longrightarrow> set ks = {x} \<Longrightarrow> ks = [x]"
proof (cases ks)
  case (Cons a l)
  assume "distinct ks" "set ks = {x}"
  with Cons have "a = x" "set l \<subseteq> {x}" "x \<notin> set l" by auto
  then have "l = []" by (cases l) auto
  with Cons \<open>a = x\<close> show ?thesis by simp
qed simp

definition sample_item :: queued_routine_delivery where
  "sample_item = \<lparr>qr_event = sample_commit, qr_delivery = sample_delivery\<rparr>"

definition sample_batcher :: "pending_routine_batch batcher" where
  "sample_batcher = routine_observe unary_enc sample_item 0 (batcher_new 0 5000)"

lemma sample_reach: "routine_reach unary_enc unary_dec [sample_item] [] sample_batcher"
proof -
  have "routine_reach unary_enc unary_dec [] [] (batcher_new 0 5000)" by (rule routine_start)
  from routine_accept[OF this, of 0 sample_item] show ?thesis
    by (simp add: sample_batcher_def batcher_new_def wheel_new_def)
qed

lemma sample_clock: "current_ms (wheel sample_batcher) = 0"
  by code_simp

theorem routine_batching_fifo_witness:
  "with_key (routine_batch_key sample_item) (concat []) @ pending_items sample_batcher (routine_batch_key sample_item)
     = with_key (routine_batch_key sample_item) [sample_item] \<and>
   pending_items sample_batcher (routine_batch_key sample_item) = [sample_item]"
  using routine_batching_fifo[OF sample_reach, of "routine_batch_key sample_item"]
  by (simp add: with_key_def)

theorem routine_flush_on_time_witness:
  "\<exists>q' bs. routine_flush_due unary_dec 6000 sample_batcher = (q', bs) \<and>
     (\<exists>ks. distinct ks \<and> set ks = {k. \<exists>b. pending sample_batcher k = Some b \<and> pr_deliver_at_ms b \<le> 6000} \<and>
        bs = map (pending_items sample_batcher) ks) \<and> bs = [[sample_item]]"
proof -
  obtain q' bs where f: "routine_flush_due unary_dec 6000 sample_batcher = (q', bs)" by fastforce
  have le: "current_ms (wheel sample_batcher) \<le> 6000" by (simp add: sample_clock)
  note on_time = routine_flush_on_time[OF unary_codec sample_reach le f]
  then obtain ks where ks: "distinct ks"
    "set ks = {k. \<exists>b. pending sample_batcher k = Some b \<and> pr_deliver_at_ms b \<le> 6000}"
    "bs = map (pending_items sample_batcher) ks" by blast
  have p: "pending sample_batcher k = (if k = routine_batch_key sample_item
      then Some \<lparr>pr_items = [sample_item], pr_deliver_at_ms = 5000, pr_version = 1\<rparr> else None)" for k
    by (simp add: sample_batcher_def routine_observe_def Let_def batcher_new_def)
  then have "set ks = {routine_batch_key sample_item}" using ks(2) by (auto split: if_splits)
  with ks(1) have "ks = [routine_batch_key sample_item]" by (rule distinct_singleton)
  with ks(3) p have "bs = [[sample_item]]" by (simp add: pending_items_def)
  with f ks show ?thesis by (intro exI[of _ q'] exI[of _ bs] conjI exI[of _ ks])
qed

section \<open>The CI batcher\<close>

inductive ci_reach :: "encoder \<Rightarrow> decoder \<Rightarrow> pending_ci_batch batcher \<Rightarrow> bool"
  for enc :: encoder and dec :: decoder where
  ci_start: "ci_reach enc dec (batcher_new now w)"
| ci_flush: "ci_reach enc dec q \<Longrightarrow> current_ms (wheel q) \<le> now \<Longrightarrow> ci_flush_due dec now q = (q', es) \<Longrightarrow>
     ci_reach enc dec q'"
| ci_accept: "ci_reach enc dec q \<Longrightarrow> now = current_ms (wheel q) \<Longrightarrow> ci_observe enc e now q = (q', es) \<Longrightarrow>
     ci_reach enc dec q'"

lemma ci_flush_due_parts:
  "ci_flush_due dec now q = (q', es) \<longleftrightarrow>
     (\<exists>raw. flush_due dec ci_version now q = (q', raw) \<and> es = map ci_batch_event raw)"
  by (cases "flush_due dec ci_version now q") (auto simp: ci_flush_due_def)

lemma ci_update_deliver [simp]: "ci_deliver_at_ms (ci_update_batch e b) = ci_deliver_at_ms b"
  by (simp add: ci_update_batch_def Let_def)

lemma ci_new_deliver [simp]: "ci_deliver_at_ms (ci_new_batch t e) = t"
  by (simp add: ci_new_batch_def Let_def)

lemma ci_observe_parts:
  "ci_observe enc e now q =
     (let k = ci_batch_key (ev_payload e);
          b = ci_update_batch e (unwrap_or (pending q k) (ci_new_batch (now + window q) e));
          q1 = q\<lparr>pending := (pending q)(k := Some b),
                 wheel := schedule (scheduled_entry enc k (ci_version b) (ci_deliver_at_ms b)) (wheel q)\<rparr>
      in if ci_batch_complete b then (without_keys {k} q1, [ci_batch_event b]) else (q1, []))"
  by (simp add: ci_observe_def Let_def ci_flush_batch_def take_batch_Some)

lemma ci_observe_tracked:
  assumes "tracked enc ci_deliver_at_ms ci_version q" and "now = current_ms (wheel q)"
    and "ci_observe enc e now q = (q', es)"
  shows "tracked enc ci_deliver_at_ms ci_version q'"
proof -
  let ?k = "ci_batch_key (ev_payload e)"
  let ?b = "ci_update_batch e (unwrap_or (pending q ?k) (ci_new_batch (now + window q) e))"
  have le: "current_ms (wheel q) \<le> ci_deliver_at_ms ?b"
    using tracked_clock[OF assms(1)] assms(2) by (cases "pending q ?k") auto
  note put = tracked_put[OF assms(1) le, of ?k]
  show ?thesis using assms(3) put tracked_without[OF put]
    by (auto simp: ci_observe_parts Let_def split: if_splits)
qed

lemma ci_reach_tracked:
  assumes "codec_ok enc dec" and "ci_reach enc dec q"
  shows "tracked enc ci_deliver_at_ms ci_version q"
  using assms(2)
proof (induction rule: ci_reach.induct)
  case (ci_flush q now q' es)
  then obtain raw where "flush_due dec ci_version now q = (q', raw)" by (auto simp: ci_flush_due_parts)
  with ci_flush flush_due_spec(2)[OF assms(1)] show ?case by blast
next
  case (ci_accept q now e q' es)
  then show ?case by (blast intro: ci_observe_tracked)
qed (simp add: tracked_new)

text \<open>
  C7. No CI batch is stuck: in every reachable state, a flush at \<open>now\<close> delivers the event of every batch
  whose window has ended by then, and no batch remains pending past its window. (Batches that are
  complete leave earlier, by \<open>ci_observe\<close>.)
\<close>

theorem ci_batches_not_stuck:
  assumes "codec_ok enc dec" and "ci_reach enc dec q" and "current_ms (wheel q) \<le> now"
    and "ci_flush_due dec now q = (q', es)"
  shows "(\<forall>k b. pending q k = Some b \<longrightarrow> ci_deliver_at_ms b \<le> now \<longrightarrow> ci_batch_event b \<in> set es) \<and>
         (\<forall>k b. pending q' k = Some b \<longrightarrow> now < ci_deliver_at_ms b)"
proof -
  from assms(4) obtain raw where raw: "flush_due dec ci_version now q = (q', raw)" "es = map ci_batch_event raw"
    by (auto simp: ci_flush_due_parts)
  from flush_due_spec(1)[OF assms(1) ci_reach_tracked[OF assms(1,2)] assms(3) raw(1)]
  obtain ks where ks: "raw = map (\<lambda>k. the (pending q k)) ks"
    "\<forall>k. pending q' k = (if k \<in> set ks then None else pending q k)"
    "{k. \<exists>b. pending q k = Some b \<and> ci_deliver_at_ms b \<le> now} \<subseteq> set ks" by blast
  have "ci_batch_event b \<in> set es" if "pending q k = Some b" "ci_deliver_at_ms b \<le> now" for k b
  proof -
    have "k \<in> set ks" using that ks(3) by blast
    then show ?thesis using that(1) by (force simp: raw(2) ks(1))
  qed
  moreover have "now < ci_deliver_at_ms b" if "pending q' k = Some b" for k b
  proof (rule ccontr)
    assume late: "\<not> now < ci_deliver_at_ms b"
    from that ks(2) have k: "k \<notin> set ks" "pending q k = Some b" by (auto split: if_splits)
    with late have "k \<in> {k. \<exists>b. pending q k = Some b \<and> ci_deliver_at_ms b \<le> now}" by (simp add: not_less)
    with ks(3) k(1) show False by blast
  qed
  ultimately show ?thesis by blast
qed

lemma count_jobs_split: "count_jobs P jobs + count_jobs (\<lambda>j. \<not> P j) jobs = length jobs"
  by (simp add: count_jobs_def sum_length_filter_compl)

lemma count_jobs_zero: "count_jobs P jobs = 0 \<longleftrightarrow> \<not> list_ex P jobs"
  by (auto simp: count_jobs_def list_ex_iff filter_empty_conv)

lemma count_jobs_pos: "0 < count_jobs P jobs \<longleftrightarrow> list_ex P jobs"
  using count_jobs_zero[of P jobs] by auto

lemma count_passed_zero:
  "count_jobs (\<lambda>job. cj_conclusion job \<in> {Some ''success'', Some ''neutral''}) jobs = 0 \<longleftrightarrow>
     \<not> list_ex (\<lambda>job. cj_conclusion job = Some ''success'') jobs \<and>
     \<not> list_ex (\<lambda>job. cj_conclusion job = Some ''neutral'') jobs"
  by (auto simp: count_jobs_zero list_ex_iff)

lemma ci_kind_cases:
  "ci_kind jobs =
     (if list_ex is_failure jobs then ''github.ci-failed''
      else if \<not> list_all is_terminal_job jobs then ''github.ci-started''
      else if list_ex (\<lambda>job. cj_conclusion job = Some ''cancelled'') jobs \<and>
           \<not> list_ex (\<lambda>job. cj_conclusion job = Some ''success'') jobs \<and>
           \<not> list_ex (\<lambda>job. cj_conclusion job = Some ''neutral'') jobs \<and>
           \<not> list_ex (\<lambda>job. cj_conclusion job = Some ''skipped'') jobs then ''github.ci-cancelled''
      else ''github.ci-passed'')"
  unfolding ci_kind_def Let_def count_jobs_pos count_passed_zero
  by (simp add: count_jobs_zero)

lemma count_jobs_disjoint:
  "(\<And>j. P j \<Longrightarrow> Q j \<Longrightarrow> False) \<Longrightarrow> count_jobs P jobs + count_jobs Q jobs = count_jobs (\<lambda>j. P j \<or> Q j) jobs"
  by (induction jobs) (auto simp: count_jobs_def)

lemma count_jobs_le: "count_jobs P jobs \<le> length jobs"
  by (simp add: count_jobs_def)


definition ci_job_event :: "string \<Rightarrow> bool \<Rightarrow> incoming_event" where
  "ci_job_event status terminal =
     workspace_event ''github.ci-started''
       (jobject [(''repo'', JStr ''r''), (''workflow'', JStr ''w''), (''status'', JStr status),
                 (''sha'', JStr ''s''), (''run_all_terminal'', JBool terminal)]) None"

definition ci_flush_then_observe :: "ms \<Rightarrow> incoming_event \<Rightarrow> pending_ci_batch batcher \<Rightarrow> pending_ci_batch batcher" where
  "ci_flush_then_observe now e q = fst (ci_observe unary_enc e now (fst (ci_flush_due unary_dec now q)))"

abbreviation "job_started \<equiv> ci_job_event ''in_progress'' False"
abbreviation "job_completed \<equiv> ci_job_event ''completed'' True"
abbreviation "job_entry v t \<equiv> scheduled_entry unary_enc ''r:none:s:'' v t"

definition "stale_w1 = schedule (job_entry 1 10000) (fst (tick 0 (wheel_new 0)))"
definition "stale_w2 = schedule (job_entry 2 10000) (fst (tick 1000 stale_w1))"
definition "stale_w3 = schedule (job_entry 1 12000) (fst (tick 2000 stale_w2))"
definition "stale_b1 = ci_update_batch job_started (ci_new_batch 10000 job_started)"
definition "stale_b3 = ci_update_batch job_started (ci_new_batch 12000 job_started)"

lemma stale_ticks:
  "snd (tick 0 (wheel_new 0)) = []" "snd (tick 1000 stale_w1) = []" "snd (tick 2000 stale_w2) = []"
  "snd (tick 10000 stale_w3) = [job_entry 1 10000, job_entry 2 10000]"
  by code_simp+

lemma stale_keys:
  "ci_batch_key (ev_payload job_started) = ''r:none:s:''" "ci_batch_key (ev_payload job_completed) = ''r:none:s:''"
  by code_simp+

lemma stale_batches:
  "ci_version stale_b1 = 1" "ci_version (ci_update_batch job_completed stale_b1) = 2" "ci_version stale_b3 = 1"
  "\<not> ci_batch_complete stale_b1" "ci_batch_complete (ci_update_batch job_completed stale_b1)"
  "\<not> ci_batch_complete stale_b3"
  by code_simp+

lemma flush_nothing: "snd (tick now (wheel q)) = [] \<Longrightarrow> ci_flush_due dec now q = (q\<lparr>wheel := fst (tick now (wheel q))\<rparr>, [])"
  by (cases "tick now (wheel q)") (simp add: ci_flush_due_def flush_due_def)

lemma stale_first:
  "ci_flush_then_observe 0 job_started (batcher_new 0 10000)
     = \<lparr>pending = [''r:none:s:'' \<mapsto> stale_b1], wheel = stale_w1, window = 10000\<rparr>"
  using stale_batches(1,4)
  by (simp add: ci_flush_then_observe_def flush_nothing stale_ticks batcher_new_def ci_observe_parts
      stale_keys stale_w1_def Let_def flip: stale_b1_def) (simp add: stale_b1_def)

lemma stale_run:
  "ci_flush_then_observe 2000 job_started (ci_flush_then_observe 1000 job_completed
     (ci_flush_then_observe 0 job_started (batcher_new 0 10000)))
   = \<lparr>pending = [''r:none:s:'' \<mapsto> stale_b3], wheel = stale_w3, window = 10000\<rparr>"
proof -
  have 2: "ci_flush_then_observe 1000 job_completed \<lparr>pending = [''r:none:s:'' \<mapsto> stale_b1], wheel = stale_w1, window = 10000\<rparr>
      = \<lparr>pending = (\<lambda>_. None), wheel = stale_w2, window = 10000\<rparr>"
    using stale_batches(2,5)
    by (simp add: ci_flush_then_observe_def flush_nothing stale_ticks ci_observe_parts stale_keys
        stale_w2_def Let_def without_keys_def fun_eq_iff) (simp add: stale_b1_def)
  have 3: "ci_flush_then_observe 2000 job_started \<lparr>pending = (\<lambda>_. None), wheel = stale_w2, window = 10000\<rparr>
      = \<lparr>pending = [''r:none:s:'' \<mapsto> stale_b3], wheel = stale_w3, window = 10000\<rparr>"
    using stale_batches(3,6)
    by (simp add: ci_flush_then_observe_def flush_nothing stale_ticks ci_observe_parts
        stale_keys stale_w3_def Let_def flip: stale_b3_def) (simp add: stale_b3_def)
  show ?thesis unfolding stale_first 2 3 ..
qed

text \<open>
  A batch can leave before its window ends. Versions restart at one when a key's batch is removed, and
  the removal of a complete batch leaves its entries on the wheel. Here a job starts at 0 s and
  completes at 1 s, which removes the batch; the run starts again at 2 s and its new batch, due at 12 s,
  is flushed at 10 s by the first batch's entry, which carries the same key and the same version.
\<close>

theorem stale_entry_flushes_new_batch:
  "let q = ci_flush_then_observe 2000 job_started (ci_flush_then_observe 1000 job_completed
             (ci_flush_then_observe 0 job_started (batcher_new 0 10000)));
       key = ci_batch_key (ev_payload job_started)
   in map_option ci_deliver_at_ms (pending q key) = Some 12000 \<and>
      snd (ci_flush_due unary_dec 10000 q) = map ci_batch_event [the (pending q key)] \<and>
      pending (fst (ci_flush_due unary_dec 10000 q)) key = None"
proof -
  have d: "unary_dec (entry_record (job_entry v t)) = Some \<lparr>sb_key = ''r:none:s:'', sb_version = v\<rparr>" for v t
    using dec_scheduled[OF unary_codec] .
  obtain w where t: "tick 10000 stale_w3 = (w, [job_entry 1 10000, job_entry 2 10000])"
    using stale_ticks(4) by (cases "tick 10000 stale_w3") auto
  have b: "ci_deliver_at_ms stale_b3 = 12000" by (simp add: stale_b3_def)
  show ?thesis
    unfolding stale_run stale_keys Let_def
    by (simp add: b ci_flush_due_def flush_due_def t d take_batch_def stale_batches)
qed

lemma stale_start_reach: "ci_reach unary_enc unary_dec (ci_flush_then_observe 0 job_started (batcher_new 0 10000))"
proof -
  obtain q1 es where f: "ci_flush_due unary_dec 0 (batcher_new 0 10000) = (q1, es)" by fastforce
  have c: "current_ms (wheel (batcher_new 0 10000)) = 0" by (simp add: batcher_new_def wheel_inv_new)
  have r: "ci_reach unary_enc unary_dec q1" by (rule ci_flush[OF ci_start _ f]) (simp add: c)
  have "current_ms (wheel q1) = 0"
  proof -
    obtain raw where "flush_due unary_dec ci_version 0 (batcher_new 0 10000) = (q1, raw)"
      using f by (auto simp: ci_flush_due_parts)
    from flush_due_spec(4)[OF unary_codec tracked_new(1) _ this] show ?thesis by (simp add: c)
  qed
  moreover obtain q2 es2 where o: "ci_observe unary_enc job_started 0 q1 = (q2, es2)" by fastforce
  ultimately have "ci_reach unary_enc unary_dec q2" using ci_accept[OF r _ o] by simp
  then show ?thesis by (simp add: ci_flush_then_observe_def f o)
qed

theorem ci_batches_not_stuck_witness:
  "let q = ci_flush_then_observe 0 job_started (batcher_new 0 10000)
   in \<exists>b q' es. pending q ''r:none:s:'' = Some b \<and> ci_flush_due unary_dec 10000 q = (q', es) \<and>
        ci_batch_event b \<in> set es"
proof -
  have q: "ci_flush_then_observe 0 job_started (batcher_new 0 10000)
      = \<lparr>pending = [''r:none:s:'' \<mapsto> stale_b1], wheel = stale_w1, window = 10000\<rparr>"
    by (rule stale_first)
  let ?q = "ci_flush_then_observe 0 job_started (batcher_new 0 10000)"
  obtain q' es where f: "ci_flush_due unary_dec 10000 ?q = (q', es)" by fastforce
  have "current_ms stale_w1 = 0" by code_simp
  then have le: "current_ms (wheel ?q) \<le> 10000" by (simp add: q)
  have p: "pending ?q ''r:none:s:'' = Some stale_b1" by (simp add: q)
  have "ci_deliver_at_ms stale_b1 \<le> 10000" by (simp add: stale_b1_def)
  with ci_batches_not_stuck[OF unary_codec stale_start_reach le f] p have "ci_batch_event stale_b1 \<in> set es" by blast
  with p f show ?thesis unfolding Let_def by blast
qed

end
