(* ===== verification/LaneState.thy ===== *)
theory LaneState imports Json begin

text \<open>
  The durable data of \<open>src/gjc_lane.rs\<close>: what clawhip keeps of an agent session (a lane), the alerts staged
  on it, the audit trail, and the store around the state file.
\<close>

section \<open>Enumerations\<close>

datatype lane_phase = PhUnavailable | PhIdle | PhActive | PhBlocked | PhComplete | PhFailed | PhRetired | PhRuntimeGone

definition phase_as_str :: "lane_phase \<Rightarrow> string" where
  "phase_as_str p =
     (case p of PhUnavailable \<Rightarrow> ''unavailable'' | PhIdle \<Rightarrow> ''idle'' | PhActive \<Rightarrow> ''active''
      | PhBlocked \<Rightarrow> ''blocked'' | PhComplete \<Rightarrow> ''complete'' | PhFailed \<Rightarrow> ''failed''
      | PhRetired \<Rightarrow> ''retired'' | PhRuntimeGone \<Rightarrow> ''runtime-gone'')"

datatype lane_turn_state = LtIdle | LtRunning | LtAwaitingInput | LtComplete | LtFailed | LtAborted
datatype lane_gate_state = LgClosed | LgReady | LgAnswered
datatype session_disposition = DispLive | DispComplete | DispFailed | DispRetired
datatype ownership_state = Unclaimed | OwnClaimed | Relinquished
datatype terminal_kind = TermComplete | TermFailed | TermRetired
datatype alert_delivery_state = Claimed | Delivered | Failed
datatype audit_kind =
    LaneRegistered | OwnershipChanged | ObservationApplied | PhaseChanged | TerminalDispositionSet
  | GhostWatchRemoved | EvidenceInvalidated | PrHeadChanged | PrBaseChanged | RestartReconciled
  | ReconcileSkippedRevisionConflict | PollingSuspended | PollingResumed | HistoricalFailureSuppressed

section \<open>Parts of a lane\<close>

record lane_ownership =
  ow_state :: ownership_state
  ow_owner_id :: "string option"
  ow_claimed_at :: "string option"
  ow_generation :: nat

definition ownership_default :: lane_ownership where
  "ownership_default = \<lparr>ow_state = Unclaimed, ow_owner_id = None, ow_claimed_at = None, ow_generation = 0\<rparr>"

record terminal_disposition =
  td_kind :: terminal_kind
  td_observed_at :: string
  td_evidence :: string

record pr_binding =
  pb_repo :: string
  pb_number :: nat
  pb_head_sha :: string
  pb_base_branch :: string
  pb_bound_at :: string

record turn_snapshot =
  ts_state :: lane_turn_state
  ts_turn_id :: "string option"
  ts_command_id :: "string option"
  ts_prompt_accepted :: bool
  ts_model :: "string option"
  ts_profile :: "string option"
  ts_observed_at :: string

record gate_snapshot =
  gs_state :: lane_gate_state
  gs_gate_id :: "string option"
  gs_revision :: nat
  gs_observed_at :: string

record pending_alert_delivery =
  pd_state :: alert_delivery_state
  pd_attempts :: nat
  pd_updated_at :: string

record turn_failure_causality =
  tf_session_id :: string
  tf_sdk_revision :: nat
  tf_turn_id :: string
  tf_command_id :: "string option"
  tf_model :: "string option"
  tf_profile :: "string option"

record pending_alert =
  pa_event_id :: string
  pa_kind :: string
  pa_payload :: json
  pa_queued_at :: string
  pa_attempts :: nat
  pa_turn_failure :: "turn_failure_causality option"
  pa_deliveries :: "(string, pending_alert_delivery) btree"

section \<open>The lane and the store\<close>

record lane_record =
  lr_lane_id :: string
  lr_sdk_session_id :: string
  lr_worktree :: "string option"
  lr_branch :: "string option"
  lr_endpoint_generation :: nat
  lr_endpoint_episode :: nat
  lr_endpoint_alerted :: bool
  lr_revision :: nat
  lr_sdk_revision :: nat
  lr_last_turn :: "turn_snapshot option"
  lr_last_gate :: "gate_snapshot option"
  lr_ownership :: lane_ownership
  lr_terminal :: "terminal_disposition option"
  lr_phase :: "lane_phase option"
  lr_pr :: "pr_binding option"
  lr_evidence_revision :: nat
  lr_review_valid :: bool
  lr_owner_valid :: bool
  lr_unavailable_polls :: nat
  lr_polling_suspended :: bool
  lr_last_query_at :: "string option"
  lr_watch_removed_at :: "string option"
  lr_registered_at :: string
  lr_updated_at :: string
  lr_pending_alerts :: "pending_alert list"

record audit_entry =
  au_at :: string
  au_lane_id :: string
  au_kind :: audit_kind
  au_detail :: string

record lane_state_file =
  lf_schema :: string
  lf_generation :: nat
  lf_lanes :: "(string, lane_record) btree"
  lf_aliases :: "(string, string) btree"
  lf_audit :: "audit_entry list"
  lf_dropped :: nat

datatype lane_store_status = StoreMissing | StoreLoaded nat | IgnoredInvalid string

text \<open>What the path of the state file holds: nothing, something that cannot be read or parsed, or a state.\<close>

datatype lane_file = NoFile | ReadError string | NotJson string | Parsed lane_state_file

record lane_store =
  ls_state :: lane_state_file
  ls_disk :: lane_file
  ls_status :: lane_store_status

definition lane_state_schema :: string where "lane_state_schema = ''clawhip.gjc-lane-state.v1''"
definition max_audit_entries :: nat where "max_audit_entries = 512"
definition max_pending_alerts :: nat where "max_pending_alerts = 64"
definition max_pending_alert_deliveries :: nat where "max_pending_alert_deliveries = 64"
definition max_lanes :: nat where "max_lanes = 1024"
definition max_session_len :: nat where "max_session_len = 128"
definition max_worktree_len :: nat where "max_worktree_len = 4096"
definition max_owner_len :: nat where "max_owner_len = 64"
definition max_evidence_len :: nat where "max_evidence_len = 400"
definition u32_max :: nat where "u32_max = 4294967295"

text \<open>A state file with no lanes.\<close>

definition lane_state_new :: lane_state_file where
  "lane_state_new = \<lparr>lf_schema = lane_state_schema, lf_generation = 0, lf_lanes = [], lf_aliases = [],
     lf_audit = [], lf_dropped = 0\<rparr>"

text \<open>The record of a lane that was just registered.\<close>

definition lane_record_new ::
    "string \<Rightarrow> string \<Rightarrow> string option \<Rightarrow> string option \<Rightarrow> nat \<Rightarrow> lane_ownership \<Rightarrow> pr_binding option \<Rightarrow> string
     \<Rightarrow> lane_record" where
  "lane_record_new lane_id session_id worktree branch generation ownership pr now =
     \<lparr>lr_lane_id = lane_id, lr_sdk_session_id = session_id, lr_worktree = worktree, lr_branch = branch,
      lr_endpoint_generation = generation, lr_endpoint_episode = 0, lr_endpoint_alerted = False, lr_revision = 1,
      lr_sdk_revision = 0, lr_last_turn = None, lr_last_gate = None, lr_ownership = ownership, lr_terminal = None,
      lr_phase = None, lr_pr = pr, lr_evidence_revision = 1, lr_review_valid = True, lr_owner_valid = True,
      lr_unavailable_polls = 0, lr_polling_suspended = False, lr_last_query_at = None, lr_watch_removed_at = None,
      lr_registered_at = now, lr_updated_at = now, lr_pending_alerts = []\<rparr>"

text \<open>The lanes a restart finds; a file that is missing or invalid counts as empty.\<close>

definition disk_state :: "lane_store \<Rightarrow> lane_state_file" where
  "disk_state st = (case ls_disk st of Parsed s \<Rightarrow> s | _ \<Rightarrow> lane_state_new)"

lemma disk_state_Parsed [simp]: "disk_state (st\<lparr>ls_disk := Parsed s\<rparr>) = s"
  by (simp add: disk_state_def)

lemma disk_state_upd [simp]: "disk_state (st\<lparr>ls_state := s\<rparr>) = disk_state st"
  by (simp add: disk_state_def)

end
