(* ===== verification/AlertStore.thy ===== *)
theory AlertStore imports LaneState begin

text \<open>
  The pending alerts of the lane store (\<open>src/gjc_lane.rs\<close>): the durable per-destination delivery states
  the dispatcher consults before it sends an alert, and the trait \<open>AlertDeliveryJournal\<close> of
  \<open>src/dispatch.rs\<close> the store implements. The file system is the function \<open>disk_ok\<close>, which tells for each
  generation of the state file whether writing it succeeds; \<open>ls_disk\<close> is what the file holds, so that a
  restart is \<open>lane_reload\<close>.

  The locale \<open>alert_journal\<close> is the contract the dispatcher relies on for at-most-once delivery.
\<close>

section \<open>Operations\<close>

definition canonical_lane_id :: "lane_state_file \<Rightarrow> string \<Rightarrow> string" where
  "canonical_lane_id s lane_id = unwrap_or (bt_get (lf_aliases s) lane_id) lane_id"

text \<open>The generation moves even when the write fails, and the in-memory state is kept.\<close>

definition persist_locked :: "(nat \<Rightarrow> bool) \<Rightarrow> lane_store \<Rightarrow> lane_store \<times> (string + unit)" where
  "persist_locked disk_ok st =
     (let s = (ls_state st)\<lparr>lf_generation := (lf_generation (ls_state st) + 1) mod 2 ^ 64\<rparr>
      in if disk_ok (lf_generation s) then (st\<lparr>ls_state := s, ls_disk := Parsed s\<rparr>, Ok ())
         else (st\<lparr>ls_state := s\<rparr>, Err ''failed to persist''))"

definition lane_reload :: "lane_store \<Rightarrow> lane_store" where
  "lane_reload st = st\<lparr>ls_state := disk_state st\<rparr>"

definition queue_pending_alert :: "pending_alert \<Rightarrow> lane_record \<Rightarrow> string + lane_record" where
  "queue_pending_alert alert r =
     (if list_ex (\<lambda>existing. pa_event_id existing = pa_event_id alert) (lr_pending_alerts r) then Ok r
      else if max_pending_alerts \<le> length (lr_pending_alerts r) then Err ''gjc pending alert queue is full''
      else Ok (r\<lparr>lr_pending_alerts := lr_pending_alerts r @ [alert]\<rparr>))"

definition find_alert :: "string \<Rightarrow> pending_alert list \<Rightarrow> pending_alert option" where
  "find_alert event_id alerts = List.find (\<lambda>a. pa_event_id a = event_id) alerts"

text \<open>Mutation through \<open>iter_mut().find(..)\<close>: the first alert with the identifier is replaced.\<close>

fun replace_alert :: "string \<Rightarrow> pending_alert \<Rightarrow> pending_alert list \<Rightarrow> pending_alert list" where
  "replace_alert event_id new [] = []"
| "replace_alert event_id new (a # as) =
     (if pa_event_id a = event_id then new # as else a # replace_alert event_id new as)"

definition pending_alert_delivery_state ::
    "lane_state_file \<Rightarrow> string \<Rightarrow> string \<Rightarrow> string \<Rightarrow> alert_delivery_state option" where
  "pending_alert_delivery_state s lane_id event_id destination =
     (case bt_get (lf_lanes s) (canonical_lane_id s lane_id) of
        None \<Rightarrow> None
      | Some r \<Rightarrow>
          (case find_alert event_id (lr_pending_alerts r) of
             None \<Rightarrow> None
           | Some a \<Rightarrow> map_option pd_state (bt_get (pa_deliveries a) destination)))"

definition valid_destination :: "string \<Rightarrow> bool" where
  "valid_destination d = (\<not> (d = [] \<or> 512 < length d \<or> list_ex is_control (chars d)))"

text \<open>The effect on one alert: \<open>Ok None\<close> is the early \<open>return Ok(true)\<close>.\<close>

definition update_delivery ::
    "string \<Rightarrow> string \<Rightarrow> alert_delivery_state \<Rightarrow> pending_alert \<Rightarrow> string + pending_alert option" where
  "update_delivery now destination next a =
     (let existing = bt_get (pa_deliveries a) destination;
          attempts = min u32_max (unwrap_or (map_option pd_attempts existing) 0 + (if next = Claimed then 1 else 0));
          written = Ok (Some (a\<lparr>pa_deliveries := bt_insert destination
            \<lparr>pd_state = next, pd_attempts = attempts, pd_updated_at = now\<rparr> (pa_deliveries a)\<rparr>))
      in case existing of
           Some x \<Rightarrow>
             (if pd_state x = Delivered \<or> (pd_state x = Claimed \<and> next = Claimed) then Ok None else written)
         | None \<Rightarrow>
             (if max_pending_alert_deliveries \<le> length (pa_deliveries a)
              then Err ''pending alert delivery map is full'' else written))"

definition update_pending_alert_delivery ::
    "(nat \<Rightarrow> bool) \<Rightarrow> string \<Rightarrow> string \<Rightarrow> string \<Rightarrow> string \<Rightarrow> alert_delivery_state \<Rightarrow> lane_store
     \<Rightarrow> lane_store \<times> (string + bool)" where
  "update_pending_alert_delivery disk_ok now lane_id event_id destination next st =
     (if \<not> valid_destination destination then (st, Err ''invalid pending alert destination'')
      else
        let s = ls_state st; canonical_id = canonical_lane_id s lane_id
        in case bt_get (lf_lanes s) canonical_id of
             None \<Rightarrow> (st, Err (''lane not found: '' @ lane_id))
           | Some r \<Rightarrow>
               (case find_alert event_id (lr_pending_alerts r) of
                  None \<Rightarrow> (st, Err (''pending alert not found: '' @ event_id))
                | Some a \<Rightarrow>
                    (case update_delivery now destination next a of
                       Inl e \<Rightarrow> (st, Err e)
                     | Inr None \<Rightarrow> (st, Ok True)
                     | Inr (Some a') \<Rightarrow>
                         (if u64_max \<le> lr_revision r then (st, Err ''revision overflow'')
                          else
                            let r' = r\<lparr>lr_pending_alerts := replace_alert event_id a' (lr_pending_alerts r),
                                       lr_revision := lr_revision r + 1, lr_updated_at := now\<rparr>;
                                (st', res) = persist_locked disk_ok
                                  (st\<lparr>ls_state := s\<lparr>lf_lanes := bt_insert canonical_id r' (lf_lanes s)\<rparr>\<rparr>)
                            in (st', res_bind res (\<lambda>_. Ok True))))))"

definition claim_pending_alert_delivery where
  "claim_pending_alert_delivery disk_ok now lane_id event_id destination st =
     update_pending_alert_delivery disk_ok now lane_id event_id destination Claimed st"

definition record_pending_alert_delivery where
  "record_pending_alert_delivery disk_ok now lane_id event_id destination delivered st =
     update_pending_alert_delivery disk_ok now lane_id event_id destination
       (if delivered then Delivered else Failed) st"

definition acknowledge_pending_alert ::
    "(nat \<Rightarrow> bool) \<Rightarrow> string \<Rightarrow> string \<Rightarrow> nat \<Rightarrow> string \<Rightarrow> lane_store \<Rightarrow> lane_store \<times> (string + lane_record)" where
  "acknowledge_pending_alert disk_ok now lane_id expected_revision event_id st =
     (let s = ls_state st; canonical_id = canonical_lane_id s lane_id
      in case bt_get (lf_lanes s) canonical_id of
           None \<Rightarrow> (st, Err (''lane not found: '' @ lane_id))
         | Some r \<Rightarrow>
             (if lr_revision r \<noteq> expected_revision
              then (st, Err (''lane revision conflict: expected '' @ show_nat expected_revision
                             @ '', current '' @ show_nat (lr_revision r)))
              else
                let alerts = filter (\<lambda>a. pa_event_id a \<noteq> event_id) (lr_pending_alerts r)
                in if length alerts = length (lr_pending_alerts r) then (st, Ok r)
                   else if u64_max \<le> lr_revision r then (st, Err ''revision overflow'')
                   else
                     let r' = r\<lparr>lr_pending_alerts := alerts, lr_revision := lr_revision r + 1, lr_updated_at := now\<rparr>;
                         (st', res) = persist_locked disk_ok
                           (st\<lparr>ls_state := s\<lparr>lf_lanes := bt_insert canonical_id r' (lf_lanes s)\<rparr>\<rparr>)
                     in (st', res_bind res (\<lambda>_. Ok r'))))"

section \<open>The journal of an alert\<close>

record alert_handle =
  ah_lane_id :: string
  ah_event_id :: string

definition journal_state :: "lane_store \<Rightarrow> alert_handle \<Rightarrow> string \<Rightarrow> alert_delivery_state option" where
  "journal_state st h destination =
     pending_alert_delivery_state (ls_state st) (ah_lane_id h) (ah_event_id h) destination"

definition journal_claim :: "(nat \<Rightarrow> bool) \<Rightarrow> string \<Rightarrow> lane_store \<Rightarrow> alert_handle \<Rightarrow> string \<Rightarrow> lane_store \<times> bool" where
  "journal_claim disk_ok now st h destination =
     (let (st', res) = claim_pending_alert_delivery disk_ok now (ah_lane_id h) (ah_event_id h) destination st
      in (st', unwrap_or (res_ok res) False))"

definition journal_record ::
    "(nat \<Rightarrow> bool) \<Rightarrow> string \<Rightarrow> lane_store \<Rightarrow> alert_handle \<Rightarrow> string \<Rightarrow> bool \<Rightarrow> lane_store \<times> bool" where
  "journal_record disk_ok now st h destination delivered =
     (let (st', res) = record_pending_alert_delivery disk_ok now (ah_lane_id h) (ah_event_id h) destination delivered st
      in (st', unwrap_or (res_ok res) False))"

text \<open>What a restart would find.\<close>

definition journal_durable :: "lane_store \<Rightarrow> alert_handle \<Rightarrow> string \<Rightarrow> alert_delivery_state option" where
  "journal_durable st h destination =
     pending_alert_delivery_state (disk_state st) (ah_lane_id h) (ah_event_id h) destination"

section \<open>The contract\<close>

definition owned :: "alert_delivery_state option \<Rightarrow> bool" where
  "owned x = (x = Some Claimed \<or> x = Some Delivered)"

text \<open>
  \<open>secured\<close>: a destination is owned in memory and on disk. A claim that succeeds secures its destination;
  a secured destination stays secured under every operation on other destinations, under the record
  of a success on itself, and across a restart.
\<close>

locale alert_journal =
  fixes state :: "'s \<Rightarrow> 'h \<Rightarrow> string \<Rightarrow> alert_delivery_state option"
    and durable :: "'s \<Rightarrow> 'h \<Rightarrow> string \<Rightarrow> alert_delivery_state option"
    and claim :: "'s \<Rightarrow> 'h \<Rightarrow> string \<Rightarrow> 's \<times> bool"
    and record_outcome :: "'s \<Rightarrow> 'h \<Rightarrow> string \<Rightarrow> bool \<Rightarrow> 's \<times> bool"
    and restart :: "'s \<Rightarrow> 's"
  assumes claim_secures: "snd (claim s h d) \<Longrightarrow> \<not> owned (state s h d) \<Longrightarrow>
        owned (state (fst (claim s h d)) h d) \<and> owned (durable (fst (claim s h d)) h d)"
    and claim_keeps: "owned (state s h d') \<and> owned (durable s h d') \<Longrightarrow>
        owned (state (fst (claim s h d)) h d') \<and> owned (durable (fst (claim s h d)) h d')"
    and record_keeps: "owned (state s h d') \<and> owned (durable s h d') \<Longrightarrow> d' \<noteq> d \<or> b \<Longrightarrow>
        owned (state (fst (record_outcome s h d b)) h d') \<and> owned (durable (fst (record_outcome s h d b)) h d')"
    and restart_state: "state (restart s) h d = durable s h d"
    and restart_durable: "durable (restart s) h d = durable s h d"
begin

definition secured :: "'s \<Rightarrow> 'h \<Rightarrow> string \<Rightarrow> bool" where
  "secured s h d = (owned (state s h d) \<and> owned (durable s h d))"

text \<open>
  One delivery attempt as the dispatcher makes it: nothing when the destination is owned, otherwise a
  claim, the sink's answer \<open>b\<close> when the claim succeeds, and the record of the answer. The second
  component lists the sink's answers.
\<close>

definition attempt :: "'h \<Rightarrow> 's \<Rightarrow> string \<times> bool \<Rightarrow> 's \<times> (string \<times> bool) list" where
  "attempt h s a =
     (if owned (state s h (fst a)) then (s, [])
      else let c = claim s h (fst a)
           in if snd c then (fst (record_outcome (fst c) h (fst a) (snd a)), [a]) else (fst c, []))"

text \<open>A history of attempts (\<open>Some\<close>) and restarts (\<open>None\<close>).\<close>

fun attempts :: "'h \<Rightarrow> 's \<Rightarrow> (string \<times> bool) option list \<Rightarrow> (string \<times> bool) list" where
  "attempts h s [] = []"
| "attempts h s (None # ops) = attempts h (restart s) ops"
| "attempts h s (Some a # ops) = snd (attempt h s a) @ attempts h (fst (attempt h s a)) ops"

lemma secured_claim: "secured s h d' \<Longrightarrow> secured (fst (claim s h d)) h d'"
  using claim_keeps by (simp add: secured_def)

lemma secured_record: "secured s h d' \<Longrightarrow> d' \<noteq> d \<or> b \<Longrightarrow> secured (fst (record_outcome s h d b)) h d'"
  using record_keeps by (simp add: secured_def)

lemma secured_restart: "secured s h d \<Longrightarrow> secured (restart s) h d"
  by (simp add: secured_def restart_state restart_durable)

lemma secured_owned: "secured s h d \<Longrightarrow> owned (state s h d)"
  by (simp add: secured_def)

lemma attempt_secured: "secured s h d \<Longrightarrow> attempt h s (d, b) = (s, [])"
  by (simp add: attempt_def secured_owned)

lemma attempt_keeps: "secured s h d \<Longrightarrow> secured (fst (attempt h s a)) h d"
proof (cases "fst a = d")
  case True
  moreover assume "secured s h d"
  ultimately show ?thesis using attempt_secured[of s h d "snd a"] by (cases a) simp
next
  case False
  moreover assume "secured s h d"
  ultimately show ?thesis by (simp add: attempt_def Let_def secured_claim secured_record)
qed

lemma attempt_sent: "snd (attempt h s a) = [] \<or> snd (attempt h s a) = [a]"
  by (simp add: attempt_def Let_def)

lemma attempt_success: "snd (attempt h s (d, True)) = [(d, True)] \<Longrightarrow> secured (fst (attempt h s (d, True))) h d"
  using claim_secures[of s h d]
  by (auto simp: attempt_def Let_def secured_def split: if_splits intro!: record_keeps)

lemma secured_no_send: "secured s h d \<Longrightarrow> (d, True) \<notin> set (attempts h s ops)"
proof (induction h s ops rule: attempts.induct)
  case (2 h s ops)
  then show ?case by (simp add: secured_restart)
next
  case (3 h s a ops)
  have "(d, True) \<notin> set (snd (attempt h s a))"
    using attempt_sent[of h s a] attempt_secured[OF 3(2), of "snd a"] by (cases "fst a = d") (cases a, auto)+
  with 3 attempt_keeps[OF 3(2)] show ?case by simp
qed simp

lemma at_most_once: "length (filter (\<lambda>a. a = (d, True)) (attempts h s ops)) \<le> 1"
proof (induction h s ops rule: attempts.induct)
  case (3 h s a ops)
  show ?case
  proof (cases "snd (attempt h s a) = [(d, True)]")
    case True
    then have "a = (d, True)" using attempt_sent[of h s a] by simp
    with True attempt_success have "secured (fst (attempt h s a)) h d" by simp
    from secured_no_send[OF this, of ops] True show ?thesis by (auto simp: filter_empty_conv)
  next
    case False
    with attempt_sent[of h s a] have "filter (\<lambda>x. x = (d, True)) (snd (attempt h s a)) = []" by auto
    with 3 show ?thesis by simp
  qed
qed simp_all

end

section \<open>The store meets the contract\<close>

lemma find_replace:
  "find_alert event_id as = Some a \<Longrightarrow> pa_event_id a' = event_id \<Longrightarrow>
   find_alert event_id (replace_alert event_id a' as) = Some a'"
  by (induction as) (auto simp: find_alert_def split: if_splits)

lemma find_alert_id: "find_alert event_id as = Some a \<Longrightarrow> pa_event_id a = event_id"
  by (auto simp: find_alert_def find_Some_iff)

lemma update_delivery_cases:
  assumes "update_delivery now d next a = Ok x"
  shows "(x = None \<and> owned (map_option pd_state (bt_get (pa_deliveries a) d))) \<or>
    (\<exists>a'. x = Some a' \<and> pa_event_id a' = pa_event_id a \<and>
       map_option pd_state (bt_get (pa_deliveries a) d) \<noteq> Some Delivered \<and>
       (\<forall>d'. map_option pd_state (bt_get (pa_deliveries a') d') =
          (if d' = d then Some next else map_option pd_state (bt_get (pa_deliveries a) d'))))"
  using assms
  by (auto simp: update_delivery_def Let_def owned_def bt_get_insert split: option.splits if_splits)

lemma persist_locked_cases:
  "persist_locked disk_ok st = (st', res) \<Longrightarrow>
     (\<forall>l ev d. pending_alert_delivery_state (ls_state st') l ev d = pending_alert_delivery_state (ls_state st) l ev d) \<and>
     (res = Ok () \<and> disk_state st' = ls_state st' \<or> \<not> is_ok res \<and> disk_state st' = disk_state st)"
  by (auto simp: persist_locked_def Let_def pending_alert_delivery_state_def canonical_lane_id_def split: if_splits)

text \<open>An update leaves the store alone, or writes one destination in memory and, if the disk allows, on disk.\<close>

lemma update_effect:
  assumes "update_pending_alert_delivery disk_ok now (ah_lane_id h) (ah_event_id h) d next st = (st', res)"
  shows "st' = st \<and> (res = Ok True \<longrightarrow> owned (journal_state st h d)) \<or>
    journal_state st h d \<noteq> Some Delivered \<and>
    (\<forall>d'. journal_state st' h d' = (if d' = d then Some next else journal_state st h d')) \<and>
    (res = Ok True \<and> (\<forall>d'. journal_durable st' h d' = journal_state st' h d') \<or>
     \<not> is_ok res \<and> (\<forall>d'. journal_durable st' h d' = journal_durable st h d'))"
proof -
  let ?s = "ls_state st" and ?l = "ah_lane_id h" and ?ev = "ah_event_id h"
  let ?c = "canonical_lane_id ?s ?l"
  show ?thesis
  proof (cases "st' = st \<and> \<not> is_ok res")
    case True
    then show ?thesis by (cases res) auto
  next
    case False
    with assms obtain r a x where r: "bt_get (lf_lanes ?s) ?c = Some r"
      and a: "find_alert ?ev (lr_pending_alerts r) = Some a" and x: "update_delivery now d next a = Ok x"
      by (auto simp: update_pending_alert_delivery_def Let_def split: if_splits option.splits sum.splits)
    have view: "journal_state st h d' = map_option pd_state (bt_get (pa_deliveries a) d')" for d'
      by (simp add: journal_state_def pending_alert_delivery_state_def r a)
    from update_delivery_cases[OF x] show ?thesis
    proof (elim disjE exE conjE)
      assume "x = None" "owned (map_option pd_state (bt_get (pa_deliveries a) d))"
      then show ?thesis using assms False r a x view
        by (simp add: update_pending_alert_delivery_def Let_def split: if_splits)
    next
      fix a' assume a': "x = Some a'" "pa_event_id a' = pa_event_id a"
        "map_option pd_state (bt_get (pa_deliveries a) d) \<noteq> Some Delivered"
        "\<forall>d'. map_option pd_state (bt_get (pa_deliveries a') d') =
          (if d' = d then Some next else map_option pd_state (bt_get (pa_deliveries a) d'))"
      let ?r = "r\<lparr>lr_pending_alerts := replace_alert ?ev a' (lr_pending_alerts r),
                   lr_revision := lr_revision r + 1, lr_updated_at := now\<rparr>"
      let ?st = "st\<lparr>ls_state := ?s\<lparr>lf_lanes := bt_insert ?c ?r (lf_lanes ?s)\<rparr>\<rparr>"
      from assms False r a x a'(1) obtain pres where pers: "persist_locked disk_ok ?st = (st', pres)"
        and res: "res = res_bind pres (\<lambda>_. Ok True)"
        by (auto simp: update_pending_alert_delivery_def Let_def split: if_splits prod.splits)
      have "pa_event_id a' = ?ev" using a'(2) find_alert_id[OF a] by simp
      then have "journal_state ?st h d' = map_option pd_state (bt_get (pa_deliveries a') d')" for d'
        by (simp add: journal_state_def pending_alert_delivery_state_def canonical_lane_id_def[of "_\<lparr>lf_lanes := _\<rparr>"]
            bt_get_insert find_replace[OF a] flip: canonical_lane_id_def)
      with persist_locked_cases[OF pers] a'(3,4) view res show ?thesis
        by (cases pres) (auto simp: journal_state_def journal_durable_def)
    qed
  qed
qed

lemma journal_update:
  "journal_claim disk_ok now st h d = (st', r) \<longleftrightarrow>
     (\<exists>res. update_pending_alert_delivery disk_ok now (ah_lane_id h) (ah_event_id h) d Claimed st = (st', res) \<and>
            r = unwrap_or (res_ok res) False)"
  "journal_record disk_ok now st h d b = (st', r) \<longleftrightarrow>
     (\<exists>res. update_pending_alert_delivery disk_ok now (ah_lane_id h) (ah_event_id h) d
              (if b then Delivered else Failed) st = (st', res) \<and> r = unwrap_or (res_ok res) False)"
  by (auto simp: journal_claim_def journal_record_def claim_pending_alert_delivery_def
      record_pending_alert_delivery_def Let_def split: prod.splits)

lemma update_keeps_secured:
  assumes "update_pending_alert_delivery disk_ok now (ah_lane_id h) (ah_event_id h) d next st = (st', res)"
    and "owned (journal_state st h d') \<and> owned (journal_durable st h d')" and "d' \<noteq> d \<or> owned (Some next)"
  shows "owned (journal_state st' h d') \<and> owned (journal_durable st' h d')"
  using update_effect[OF assms(1)] assms(2,3) by (cases "d' = d") auto

interpretation gjc: alert_journal journal_state journal_durable "journal_claim disk_ok now"
  "journal_record disk_ok now" lane_reload for disk_ok now
proof
  fix s h d d' b
  obtain s' r where c: "journal_claim disk_ok now s h d = (s', r)" by fastforce
  then obtain res where u: "update_pending_alert_delivery disk_ok now (ah_lane_id h) (ah_event_id h) d Claimed s = (s', res)"
      "r = unwrap_or (res_ok res) False" by (auto simp: journal_update)
  show "owned (journal_state (fst (journal_claim disk_ok now s h d)) h d) \<and>
      owned (journal_durable (fst (journal_claim disk_ok now s h d)) h d)"
    if "snd (journal_claim disk_ok now s h d)" "\<not> owned (journal_state s h d)"
  proof -
    from that(1) c u(2) have "res = Ok True" by (cases res) auto
    with update_effect[OF u(1)] that(2) show ?thesis by (auto simp: c owned_def)
  qed
  show "owned (journal_state (fst (journal_claim disk_ok now s h d)) h d') \<and>
      owned (journal_durable (fst (journal_claim disk_ok now s h d)) h d')"
    if "owned (journal_state s h d') \<and> owned (journal_durable s h d')"
    using update_keeps_secured[OF u(1) that] by (simp add: c owned_def)
  obtain s2 r2 where rc: "journal_record disk_ok now s h d b = (s2, r2)" by fastforce
  then obtain res2 where u2: "update_pending_alert_delivery disk_ok now (ah_lane_id h) (ah_event_id h) d
      (if b then Delivered else Failed) s = (s2, res2)" by (auto simp: journal_update)
  show "owned (journal_state (fst (journal_record disk_ok now s h d b)) h d') \<and>
      owned (journal_durable (fst (journal_record disk_ok now s h d b)) h d')"
    if "owned (journal_state s h d') \<and> owned (journal_durable s h d')" "d' \<noteq> d \<or> b"
    using update_keeps_secured[OF u2 that(1)] that(2) by (auto simp: rc owned_def)
  show "journal_state (lane_reload s) h d = journal_durable s h d"
    "journal_durable (lane_reload s) h d = journal_durable s h d"
    by (simp_all add: journal_state_def journal_durable_def lane_reload_def)
qed

end
