(* ===== verification/Ledger.thy ===== *)
theory Ledger imports Events "HOL-Library.Option_ord" "HOL-Library.Product_Lexorder" begin

text \<open>
  The event ledger, \<open>src/ledger.rs\<close>: records made from events, append with duplicate detection, indexed
  queries, loading after a restart, compaction into summary shards and pruning.

  The two directories of the ledger are the record \<open>ledger_fs\<close>: the raw segments as the bytes of each
  file and the summary shards with their modification time, both by file name. Every operation that
  changes a file asks \<open>le_fail\<close>, with the number of operations so far, whether it fails; a failed
  append leaves the first \<open>le_torn\<close> bytes in the file. A file replaced through a temporary one changes
  atomically, and a left-over temporary file is not modelled. SHA-256, the \<open>url\<close> and \<open>time\<close> crates and the
  JSON text of records and shards are parameters.
\<close>

section \<open>Data\<close>

record ledger_config =
  lc_enabled :: bool
  lc_raw_retention_days :: nat
  lc_summary_retention_days :: nat
  lc_compaction_interval_secs :: nat
  lc_max_records :: nat
  lc_max_record_bytes :: nat
  lc_max_keywords :: nat
  lc_max_keyword_bytes :: nat
  lc_max_query_results :: nat
  lc_max_records_per_compaction :: nat

record ledger_record =
  lr_schema_version :: nat
  lr_id :: string
  lr_dedupe_key :: string
  lr_timestamp :: string
  lr_timestamp_unix :: secs
  lr_event_type :: string
  lr_source :: string
  lr_repo :: "string option"
  lr_worktree :: "string option"
  lr_session_id :: "string option"
  lr_source_links :: "string list"
  lr_keywords :: "string list"

record ledger_summary =
  ls_schema_version :: nat
  ls_shard_id :: string
  ls_day :: int
  ls_repo :: "string option"
  ls_worktree :: "string option"
  ls_session_id :: "string option"
  ls_first_timestamp_unix :: secs
  ls_last_timestamp_unix :: secs
  ls_event_counts :: "(string, nat) btree"
  ls_top_keywords :: "string list"
  ls_source_record_ids :: "string list"
  ls_source_dedupe_keys :: "string list"
  ls_source_links :: "string list"

record ledger_query =
  lq_repo :: "string option"
  lq_worktree :: "string option"
  lq_session_id :: "string option"
  lq_event_type :: "string option"
  lq_since_unix :: "secs option"
  lq_until_unix :: "secs option"
  lq_keywords :: "string list"
  lq_limit :: "nat option"

datatype append_outcome = Appended | DuplicateEvent

text \<open>An absent key of an index has no positions.\<close>

type_synonym index = "string \<Rightarrow> nat set"

record indexes =
  ix_repo :: index
  ix_worktree :: index
  ix_session :: index
  ix_event_type :: index
  ix_keyword :: index

record ledger_counters =
  st_appended :: nat
  st_duplicates :: nat
  st_rejected :: nat
  st_append_failures :: nat
  st_query_count :: nat
  st_compacted_records :: nat
  st_degraded :: "string option"

record ledger_fs =
  fs_raw :: "(string, string) btree"
  fs_summaries :: "(string, string \<times> secs) btree"
  fs_ops :: nat

record event_ledger =
  el_records :: "ledger_record list"
  el_dedupe :: "string set"
  el_indexes :: indexes
  el_status :: ledger_counters
  el_last_compaction_unix :: secs
  el_fs :: ledger_fs

text \<open>What the code reads of a parsed URL.\<close>

record url_view =
  uv_scheme :: string
  uv_host :: "string option"
  uv_segments :: "string list"
  uv_username :: string
  uv_password :: "string option"
  uv_query :: "string option"
  uv_fragment :: "string option"

record 't ledger_env =
  le_config :: ledger_config
  le_sha256 :: "string \<Rightarrow> string"
  le_to_json :: "json \<Rightarrow> string option"
  le_url :: "string \<Rightarrow> url_view option"
  le_time_parse :: "string \<Rightarrow> 't option"
  le_time_unix :: "'t \<Rightarrow> secs"
  le_time_format :: "'t \<Rightarrow> string option"
  le_now :: 't
  le_enc_record :: "ledger_record \<Rightarrow> string option"
  le_dec_record :: "string \<Rightarrow> string + ledger_record"
  le_enc_summary :: "ledger_summary \<Rightarrow> string option"
  le_dec_summary :: "string \<Rightarrow> string + ledger_summary"
  le_fail :: "nat \<Rightarrow> string option"
  le_torn :: "nat \<Rightarrow> nat"
  le_read :: "string \<Rightarrow> string option"

definition schema_version :: nat where "schema_version = 1"
definition max_event_type_bytes :: nat where "max_event_type_bytes = 256"
definition max_source_bytes :: nat where "max_source_bytes = 128"
definition max_repo_chars :: nat where "max_repo_chars = 512"
definition max_worktree_chars :: nat where "max_worktree_chars = 1024"
definition max_session_chars :: nat where "max_session_chars = 256"
definition max_record_source_links :: nat where "max_record_source_links = 8"
definition max_summary_source_links :: nat where "max_summary_source_links = 32"
definition max_source_link_bytes :: nat where "max_source_link_bytes = 1024"
definition max_summary_records :: nat where "max_summary_records = 64"

definition public_string_fields :: "string list" where
  "public_string_fields =
     [''repo'', ''repo_name'', ''repo_path'', ''worktree'', ''worktree_path'', ''session_id'', ''project'',
      ''provider'', ''tool'', ''branch'', ''status'', ''source'', ''source_url'', ''html_url'', ''url'',
      ''commit'', ''sha'', ''number'', ''timestamp'', ''event_timestamp'', ''observed_at'', ''created_at'']"

definition private_field_markers :: "string list" where
  "private_field_markers =
     [''raw'', ''private'', ''secret'', ''token'', ''webhook'', ''prompt'', ''message'', ''content'',
      ''body'', ''command'', ''output'', ''stderr'', ''stdout'', ''authorization'', ''cookie'']"

section \<open>Text\<close>

definition hash_bytes :: "'t ledger_env \<Rightarrow> string \<Rightarrow> string" where
  "hash_bytes env v = le_sha256 env v"

definition is_sha256_hex :: "string \<Rightarrow> bool" where
  "is_sha256_hex v = (length v = 64 \<and> list_all (\<lambda>b. is_ascii_digit b \<or> (97 \<le> byte b \<and> byte b \<le> 102)) v)"

definition normalize_keyword :: "string \<Rightarrow> string" where
  "normalize_keyword v = to_ascii_lowercase (trim v)"

definition push_keyword :: "ledger_config \<Rightarrow> string list \<Rightarrow> string \<Rightarrow> string list" where
  "push_keyword cfg values v =
     (let v = normalize_keyword v
      in if length v < 2 \<or> lc_max_keyword_bytes cfg < length v \<or> lc_max_keywords cfg \<le> length values \<or> v \<in> set values
         then values else values @ [v])"

definition push_bounded_unique :: "nat \<Rightarrow> nat \<Rightarrow> string list \<Rightarrow> string \<Rightarrow> string list" where
  "push_bounded_unique max_bytes max_count values v =
     (if max_count \<le> length values \<or> max_bytes < length v \<or> v \<in> set values then values else values @ [v])"

text \<open>\<open>split\<close> at every character of a class; a multi-byte character outside the class only adds empty parts.\<close>

fun split_by :: "(char \<Rightarrow> bool) \<Rightarrow> string \<Rightarrow> string list" where
  "split_by P [] = [[]]"
| "split_by P (x # xs) =
     (if P x then [] # split_by P xs
      else (case split_by P xs of [] \<Rightarrow> [[x]] | y # ys \<Rightarrow> (x # y) # ys))"

definition bounded :: "string option \<Rightarrow> nat \<Rightarrow> string option" where
  "bounded v n = opt_filter (\<lambda>v. v \<noteq> []) (map_option (take_chars n) v)"

definition valid_optional_chars :: "string option \<Rightarrow> nat \<Rightarrow> bool" where
  "valid_optional_chars v n = (case v of None \<Rightarrow> True | Some v \<Rightarrow> v \<noteq> [] \<and> char_count v \<le> n)"

definition values_are_unique :: "string list \<Rightarrow> bool" where
  "values_are_unique values = distinct values"

definition valid_keywords :: "ledger_config \<Rightarrow> string list \<Rightarrow> bool" where
  "valid_keywords cfg values =
     (length values \<le> lc_max_keywords cfg \<and> values_are_unique values \<and>
      list_all (\<lambda>v. 2 \<le> length v \<and> length v \<le> lc_max_keyword_bytes cfg \<and> v = normalize_keyword v) values)"

section \<open>Links\<close>

definition is_version_segment :: "string \<Rightarrow> bool" where
  "is_version_segment s =
     (case s of
        c # v \<Rightarrow> (c = CHR ''v'' \<or> c = CHR ''V'') \<and> v \<noteq> [] \<and> list_all is_ascii_digit v
      | [] \<Rightarrow> False)"

definition seg :: "string list \<Rightarrow> nat \<Rightarrow> (string \<Rightarrow> bool) \<Rightarrow> bool" where
  "seg segments i P = (i < length segments \<and> P (segments ! i))"

definition discord_webhook_index :: "string list \<Rightarrow> nat option" where
  "discord_webhook_index segments =
     (if seg segments 1 (\<lambda>s. eq_ignore_ascii_case s ''webhooks'') then Some 1
      else if seg segments 1 is_version_segment \<and> seg segments 2 (\<lambda>s. eq_ignore_ascii_case s ''webhooks'')
      then Some 2 else None)"

definition is_credential_bearing_url :: "'t ledger_env \<Rightarrow> string \<Rightarrow> bool" where
  "is_credential_bearing_url env v =
     (case le_url env v of
        None \<Rightarrow> False
      | Some url \<Rightarrow>
          let host = to_ascii_lowercase (unwrap_or (uv_host url) []);
              segments = uv_segments url;
              discord_host = (host = ''discord.com'' \<or> ends_with ''.discord.com'' host \<or>
                host = ''discordapp.com'' \<or> ends_with ''.discordapp.com'' host);
              discord = (discord_host \<and> seg segments 0 (\<lambda>s. eq_ignore_ascii_case s ''api'') \<and>
                (case discord_webhook_index segments of None \<Rightarrow> False | Some i \<Rightarrow> i + 3 \<le> length segments));
              slack = (host = ''hooks.slack.com'' \<and> seg segments 0 (\<lambda>s. eq_ignore_ascii_case s ''services''));
              telegram = (host = ''api.telegram.org'' \<and>
                seg segments 0 (\<lambda>s. starts_with ''bot'' (to_ascii_lowercase s)))
          in discord \<or> slack \<or> telegram)"

definition is_public_link :: "'t ledger_env \<Rightarrow> string \<Rightarrow> bool" where
  "is_public_link env v =
     (if max_source_link_bytes < length v \<or> is_credential_bearing_url env v then False
      else case le_url env v of
        None \<Rightarrow> False
      | Some url \<Rightarrow> (uv_scheme url = ''http'' \<or> uv_scheme url = ''https'') \<and> uv_username url = [] \<and>
          uv_password url = None \<and> uv_query url = None \<and> uv_fragment url = None)"

definition valid_source_links :: "'t ledger_env \<Rightarrow> string list \<Rightarrow> nat \<Rightarrow> bool" where
  "valid_source_links env values n =
     (length values \<le> n \<and> values_are_unique values \<and>
      list_all (\<lambda>v. length v \<le> max_source_link_bytes \<and> is_public_link env v) values)"

section \<open>Records\<close>

definition is_private_request :: "string \<Rightarrow> bool" where
  "is_private_request key =
     (let lower = to_ascii_lowercase key
      in list_ex (\<lambda>marker. str_contains marker lower) private_field_markers \<and>
         lower \<in> {''raw'', ''raw_payload'', ''private'', ''private_payload'', ''retain_raw'', ''store_raw''})"

definition reject_private_storage_requests :: "(string, json) btree \<Rightarrow> string + unit" where
  "reject_private_storage_requests object =
     (if list_ex (\<lambda>(key, _). is_private_request key) object
      then Err ''ledger_raw_private_payload_rejected'' else Ok ())"

definition object_str :: "(string, json) btree \<Rightarrow> string \<Rightarrow> string option" where
  "object_str object key = Option.bind (bt_get object key) as_str"

definition first_field :: "(string, json) btree \<Rightarrow> string list \<Rightarrow> string option" where
  "first_field object keys = find_map (object_str object) keys"

fun public_identity_value :: "json \<Rightarrow> string option" where
  "public_identity_value (JStr v) = bounded (Some v) max_source_link_bytes"
| "public_identity_value (JNum n) = Some (show_number n)"
| "public_identity_value (JBool b) = Some (if b then ''true'' else ''false'')"
| "public_identity_value _ = None"

fun collect_links :: "'t ledger_env \<Rightarrow> (string, json) btree \<Rightarrow> string list \<Rightarrow> string list \<Rightarrow> string + string list" where
  "collect_links env object [] links = Ok links"
| "collect_links env object (key # keys) links =
     (case object_str object key of
        None \<Rightarrow> collect_links env object keys links
      | Some v \<Rightarrow>
          if is_credential_bearing_url env v then Err ''ledger_credential_bearing_source_link_rejected''
          else collect_links env object keys
            (if is_public_link env v
             then push_bounded_unique max_source_link_bytes max_record_source_links links v else links))"

definition event_keywords :: "ledger_config \<Rightarrow> incoming_event \<Rightarrow> (string, json) btree \<Rightarrow> string list" where
  "event_keywords cfg e object =
     (let of_kind = split_by (\<lambda>c. c = CHR ''.'' \<or> c = CHR ''-'' \<or> c = CHR ''_'') (canonical_kind e);
          of_fields = concat (map (\<lambda>key. case object_str object key of
              None \<Rightarrow> []
            | Some v \<Rightarrow> split_by (\<lambda>c. \<not> is_ascii_alphanumeric c \<and> c \<noteq> CHR ''-'' \<and> c \<noteq> CHR ''_'') v)
            [''status'', ''branch'', ''repo'', ''repo_name'', ''provider'', ''tool'']);
          listed = (case bt_get object ''keywords'' of
              Some (JArr values) \<Rightarrow> List.map_filter as_str values | _ \<Rightarrow> [])
      in foldl (push_keyword cfg) [] (of_kind @ of_fields @ listed))"

text \<open>The identity a producer supplies: an idempotency key, or an event identifier it did not get from
  normalisation.\<close>

definition supplied_identity :: "'t ledger_env \<Rightarrow> incoming_event \<Rightarrow> (string, json) btree \<Rightarrow> string option" where
  "supplied_identity env e object =
     (let generated = (object_str object ''_clawhip_generated_event_id'' \<noteq> None \<and>
            object_str object ''_clawhip_generated_event_id'' = object_str object ''event_id'')
      in case object_str object ''idempotency_key'' of
           Some key \<Rightarrow>
             (case object_str object ''subscription_name'' of
                Some name \<Rightarrow> Some (unwrap_or (le_to_json env
                    (JArr [JStr (canonical_kind e), JStr (take_chars max_session_chars name), JStr key])) [])
              | None \<Rightarrow> Some key)
         | None \<Rightarrow> if generated then None else first_field object [''event_id''])"

definition record_valid :: "'t ledger_env \<Rightarrow> ledger_record \<Rightarrow> string + unit" where
  "record_valid env r =
     (case le_time_parse env (lr_timestamp r) of
        None \<Rightarrow> Err ''invalid_ledger_record_timestamp''
      | Some t \<Rightarrow>
          if lr_schema_version r \<noteq> schema_version \<or> \<not> is_sha256_hex (lr_id r) \<or>
             \<not> is_sha256_hex (lr_dedupe_key r) \<or> lr_event_type r = [] \<or>
             max_event_type_bytes < length (lr_event_type r) \<or> lr_source r = [] \<or>
             max_source_bytes < length (lr_source r) \<or> le_time_unix env t \<noteq> lr_timestamp_unix r \<or>
             \<not> valid_optional_chars (lr_repo r) max_repo_chars \<or>
             \<not> valid_optional_chars (lr_worktree r) max_worktree_chars \<or>
             \<not> valid_optional_chars (lr_session_id r) max_session_chars \<or>
             \<not> valid_source_links env (lr_source_links r) max_record_source_links
          then Err ''invalid_ledger_record''
          else if \<not> valid_keywords (le_config env) (lr_keywords r) then Err ''invalid_ledger_keywords''
          else case le_enc_record env r of
            None \<Rightarrow> Err ''serialize''
          | Some encoded \<Rightarrow>
              if lc_max_record_bytes (le_config env) < length encoded then Err ''ledger_record_too_large''
              else Ok ())"

definition record_identity ::
    "incoming_event \<Rightarrow> (string, json) btree \<Rightarrow> string option \<Rightarrow> string \<Rightarrow> string option \<Rightarrow> string option \<Rightarrow>
     string option \<Rightarrow> string list \<Rightarrow> json" where
  "record_identity e object supplied_timestamp source repo worktree session_id links =
     jobject [(''event_type'', JStr (canonical_kind e)), (''timestamp'', jopt JStr supplied_timestamp),
       (''source'', JStr source), (''repo'', jopt JStr repo), (''worktree'', jopt JStr worktree),
       (''session_id'', jopt JStr session_id), (''source_links'', JArr (map JStr links)),
       (''identity'', jobject (List.map_filter (\<lambda>key.
          map_option (\<lambda>v. (key, JStr v)) (Option.bind (bt_get object key) public_identity_value))
          public_string_fields))]"

text \<open>The fields of a record that are read from the payload.\<close>

definition supplied_timestamp_of :: "(string, json) btree \<Rightarrow> string option" where
  "supplied_timestamp_of object = first_field object [''event_timestamp'', ''timestamp'', ''observed_at'', ''created_at'']"

definition repo_of :: "(string, json) btree \<Rightarrow> string option" where
  "repo_of object = bounded (first_field object [''repo'', ''repo_name'', ''repo_path'', ''project'']) max_repo_chars"

definition worktree_of :: "(string, json) btree \<Rightarrow> string option" where
  "worktree_of object = bounded (first_field object [''worktree'', ''worktree_path'', ''repo_path'']) max_worktree_chars"

definition session_of :: "(string, json) btree \<Rightarrow> string option" where
  "session_of object = bounded (first_field object [''session_id'']) max_session_chars"

definition source_of :: "(string, json) btree \<Rightarrow> string" where
  "source_of object =
     unwrap_or (bounded (first_field object [''source'', ''provider'', ''tool'']) max_source_bytes) ''clawhip''"

definition dedupe_key_of :: "'t ledger_env \<Rightarrow> incoming_event \<Rightarrow> (string, json) btree \<Rightarrow> string list \<Rightarrow> string" where
  "dedupe_key_of env e object links =
     (case supplied_identity env e object of
        Some v \<Rightarrow> hash_bytes env v
      | None \<Rightarrow> hash_bytes env (unwrap_or (le_to_json env
          (record_identity e object (supplied_timestamp_of object) (source_of object) (repo_of object)
             (worktree_of object) (session_of object) links)) []))"

definition record_from_event :: "'t ledger_env \<Rightarrow> incoming_event \<Rightarrow> string + ledger_record" where
  "record_from_event env e =
     (case as_object (ev_payload e) of
        None \<Rightarrow> Err ''ledger_payload_must_be_object''
      | Some object \<Rightarrow>
          res_bind (reject_private_storage_requests object) (\<lambda>_.
          res_bind (collect_links env object [''source_url'', ''html_url'', ''url''] []) (\<lambda>links.
          let timestamp = unwrap_or (Option.bind (supplied_timestamp_of object) (le_time_parse env)) (le_now env)
          in res_bind (ok_or (le_time_format env timestamp) ''format'') (\<lambda>text.
             let dedupe_key = dedupe_key_of env e object links;
                 r = \<lparr>lr_schema_version = schema_version, lr_id = hash_bytes env (dedupe_key @ '':'' @ text),
                      lr_dedupe_key = dedupe_key, lr_timestamp = text, lr_timestamp_unix = le_time_unix env timestamp,
                      lr_event_type = canonical_kind e, lr_source = source_of object, lr_repo = repo_of object,
                      lr_worktree = worktree_of object, lr_session_id = session_of object, lr_source_links = links,
                      lr_keywords = event_keywords (le_config env) e object\<rparr>
             in res_bind (record_valid env r) (\<lambda>_. Ok r)))))"

text \<open>The ledger section of \<open>AppConfig::validate\<close>; within these bounds no time computation overflows.\<close>

definition ledger_config_valid :: "ledger_config \<Rightarrow> bool" where
  "ledger_config_valid cfg \<longleftrightarrow>
     1 \<le> lc_raw_retention_days cfg \<and> lc_raw_retention_days cfg \<le> 3650 \<and>
     1 \<le> lc_summary_retention_days cfg \<and> lc_summary_retention_days cfg \<le> 3650 \<and>
     lc_raw_retention_days cfg \<le> lc_summary_retention_days cfg \<and>
     1 \<le> lc_compaction_interval_secs cfg \<and> lc_compaction_interval_secs cfg \<le> 86400 \<and>
     1 \<le> lc_max_records cfg \<and> lc_max_records cfg \<le> 10000000 \<and>
     512 \<le> lc_max_record_bytes cfg \<and> lc_max_record_bytes cfg \<le> 1048576 \<and>
     1 \<le> lc_max_keywords cfg \<and> lc_max_keywords cfg \<le> 64 \<and>
     8 \<le> lc_max_keyword_bytes cfg \<and> lc_max_keyword_bytes cfg \<le> 256 \<and>
     1 \<le> lc_max_query_results cfg \<and> lc_max_query_results cfg \<le> 10000 \<and>
     1 \<le> lc_max_records_per_compaction cfg \<and> lc_max_records_per_compaction cfg \<le> 100000"

section \<open>Files\<close>

definition show_int :: "int \<Rightarrow> string" where
  "show_int i = (if i < 0 then CHR ''-'' # show_nat (nat (- i)) else show_nat (nat i))"

definition parse_i64 :: "string \<Rightarrow> int option" where
  "parse_i64 s =
     (case s of
        [] \<Rightarrow> None
      | c # cs \<Rightarrow>
          if c = CHR ''-'' then
            (if cs \<noteq> [] \<and> list_all is_ascii_digit cs \<and> digits_value cs \<le> 2 ^ 63
             then Some (- int (digits_value cs)) else None)
          else map_option int (parse_uint (2 ^ 63 - 1) s))"

definition segment_name :: "int \<Rightarrow> string" where
  "segment_name day = ''events-'' @ show_int day @ ''.jsonl''"

definition day_of :: "secs \<Rightarrow> int" where
  "day_of t = t div 86400"

definition raw_segment_day :: "string \<Rightarrow> string + int" where
  "raw_segment_day name =
     (case Option.bind (Option.bind (strip_prefix ''events-'' name) (strip_suffix ''.jsonl'')) parse_i64 of
        None \<Rightarrow> Err ''invalid_ledger_raw_segment_name''
      | Some day \<Rightarrow> if name \<noteq> segment_name day then Err ''invalid_ledger_raw_segment_name'' else Ok day)"

definition has_extension :: "string \<Rightarrow> string \<Rightarrow> bool" where
  "has_extension ext name = (ends_with (CHR ''.'' # ext) name \<and> name \<noteq> CHR ''.'' # ext)"

definition jsonl_files :: "ledger_fs \<Rightarrow> (string \<times> string) list" where
  "jsonl_files fs = filter (\<lambda>(name, _). has_extension ''jsonl'' name) (fs_raw fs)"

definition json_files :: "ledger_fs \<Rightarrow> (string \<times> string \<times> secs) list" where
  "json_files fs = filter (\<lambda>(name, _). has_extension ''json'' name) (fs_summaries fs)"

text \<open>\<open>BufRead::lines\<close>: the lines of a file without their line ends; the last one may lack its end.\<close>

definition newline :: char where "newline = CHR 0x0A"

definition file_lines :: "string \<Rightarrow> string list" where
  "file_lines text =
     (let ls = split_on newline text
      in map (\<lambda>l. unwrap_or (strip_suffix [CHR 0x0D] l) l) (butlast ls) @ (if last ls = [] then [] else [last ls]))"

definition append_text :: "'t ledger_env \<Rightarrow> string \<Rightarrow> string \<Rightarrow> ledger_fs \<Rightarrow> ledger_fs \<times> string option" where
  "append_text env name text fs =
     (let failed = le_fail env (fs_ops fs);
          written = (if failed = None then text else take (le_torn env (fs_ops fs)) text);
          old = unwrap_or (bt_get (fs_raw fs) name) []
      in (fs\<lparr>fs_raw := (if written = [] then fs_raw fs else bt_insert name (old @ written) (fs_raw fs)),
            fs_ops := Suc (fs_ops fs)\<rparr>, failed))"

text \<open>An operation that changes one directory entry or fails and changes nothing.\<close>

definition atomic_op :: "'t ledger_env \<Rightarrow> (ledger_fs \<Rightarrow> ledger_fs) \<Rightarrow> ledger_fs \<Rightarrow> ledger_fs \<times> string option" where
  "atomic_op env change fs =
     (let fs' = fs\<lparr>fs_ops := Suc (fs_ops fs)\<rparr>
      in case le_fail env (fs_ops fs) of None \<Rightarrow> (change fs', None) | Some e \<Rightarrow> (fs', Some e))"

section \<open>The index\<close>

definition empty_indexes :: indexes where
  "empty_indexes =
     \<lparr>ix_repo = (\<lambda>_. {}), ix_worktree = (\<lambda>_. {}), ix_session = (\<lambda>_. {}), ix_event_type = (\<lambda>_. {}),
      ix_keyword = (\<lambda>_. {})\<rparr>"

definition index_value :: "string option \<Rightarrow> nat \<Rightarrow> index \<Rightarrow> index" where
  "index_value v i ix = (case v of None \<Rightarrow> ix | Some v \<Rightarrow> ix(v := insert i (ix v)))"

definition insert_indexed :: "ledger_record \<Rightarrow> event_ledger \<Rightarrow> event_ledger" where
  "insert_indexed r l =
     (let i = length (el_records l); ix = el_indexes l
      in l\<lparr>el_indexes :=
             \<lparr>ix_repo = index_value (lr_repo r) i (ix_repo ix),
              ix_worktree = index_value (lr_worktree r) i (ix_worktree ix),
              ix_session = index_value (lr_session_id r) i (ix_session ix),
              ix_event_type = index_value (Some (lr_event_type r)) i (ix_event_type ix),
              ix_keyword = foldl (\<lambda>ix k. index_value (Some k) i ix) (ix_keyword ix) (lr_keywords r)\<rparr>,
           el_records := el_records l @ [r]\<rparr>)"

definition ledger_insert :: "ledger_record \<Rightarrow> event_ledger \<Rightarrow> event_ledger" where
  "ledger_insert r l = insert_indexed r (l\<lparr>el_dedupe := insert (lr_dedupe_key r) (el_dedupe l)\<rparr>)"

section \<open>Append\<close>

definition count_rejected :: "event_ledger \<Rightarrow> event_ledger" where
  "count_rejected l = l\<lparr>el_status := (el_status l)\<lparr>st_rejected := Suc (st_rejected (el_status l))\<rparr>\<rparr>"

definition ledger_append :: "'t ledger_env \<Rightarrow> incoming_event \<Rightarrow> event_ledger \<Rightarrow> event_ledger \<times> (string + append_outcome)" where
  "ledger_append env e l =
     (if \<not> lc_enabled (le_config env) then (l, Ok Appended)
      else case record_from_event env e of
        Inl error \<Rightarrow> (count_rejected l, Err error)
      | Inr r \<Rightarrow>
          if lr_dedupe_key r \<in> el_dedupe l
          then (l\<lparr>el_status := (el_status l)\<lparr>st_duplicates := Suc (st_duplicates (el_status l))\<rparr>\<rparr>, Ok DuplicateEvent)
          else if lc_max_records (le_config env) \<le> length (el_records l)
          then (count_rejected l, Err ''ledger_max_records_exceeded'')
          else case le_enc_record env r of
            None \<Rightarrow> (l, Err ''serialize'')
          | Some encoded \<Rightarrow>
              if lc_max_record_bytes (le_config env) < length encoded
              then (count_rejected l, Err ''ledger_record_too_large'')
              else
                let (fs, failed) = append_text env (segment_name (day_of (lr_timestamp_unix r))) (encoded @ [newline]) (el_fs l);
                    l = l\<lparr>el_fs := fs\<rparr>
                in case failed of
                     Some error \<Rightarrow>
                       (l\<lparr>el_status := (el_status l)
                            \<lparr>st_append_failures := Suc (st_append_failures (el_status l)),
                             st_degraded := Some ''append_failed''\<rparr>\<rparr>, Err error)
                   | None \<Rightarrow>
                       let l = ledger_insert r l
                       in (l\<lparr>el_status := (el_status l)\<lparr>st_appended := Suc (st_appended (el_status l))\<rparr>\<rparr>, Ok Appended))"

section \<open>Query\<close>

definition intersect :: "nat set \<Rightarrow> nat set option \<Rightarrow> nat set option" where
  "intersect next candidate = Some (case candidate of None \<Rightarrow> next | Some current \<Rightarrow> current \<inter> next)"

definition restrict_by :: "index \<Rightarrow> string option \<Rightarrow> nat set option \<Rightarrow> nat set option" where
  "restrict_by ix v candidate = (case v of None \<Rightarrow> candidate | Some v \<Rightarrow> intersect (ix v) candidate)"

definition query_candidates :: "indexes \<Rightarrow> ledger_query \<Rightarrow> nat set option" where
  "query_candidates ix q =
     foldl (\<lambda>c k. intersect (ix_keyword ix (normalize_keyword k)) c)
       (restrict_by (ix_event_type ix) (lq_event_type q)
         (restrict_by (ix_session ix) (lq_session_id q)
           (restrict_by (ix_worktree ix) (lq_worktree q) (restrict_by (ix_repo ix) (lq_repo q) None))))
       (lq_keywords q)"

definition in_period :: "ledger_query \<Rightarrow> ledger_record \<Rightarrow> bool" where
  "in_period q r =
     ((case lq_since_unix q of None \<Rightarrow> True | Some since \<Rightarrow> since \<le> lr_timestamp_unix r) \<and>
      (case lq_until_unix q of None \<Rightarrow> True | Some until \<Rightarrow> lr_timestamp_unix r \<le> until))"

definition query_limit :: "ledger_config \<Rightarrow> ledger_query \<Rightarrow> nat" where
  "query_limit cfg q = min (unwrap_or (lq_limit q) (lc_max_query_results cfg)) (lc_max_query_results cfg)"

definition record_at :: "ledger_record list \<Rightarrow> nat \<Rightarrow> ledger_record option" where
  "record_at rs i = (if i < length rs then Some (rs ! i) else None)"

definition ledger_query_run :: "'t ledger_env \<Rightarrow> ledger_query \<Rightarrow> event_ledger \<Rightarrow> event_ledger \<times> ledger_record list" where
  "ledger_query_run env q l =
     (let positions = (case query_candidates (el_indexes l) q of
            Some c \<Rightarrow> sorted_list_of_set c | None \<Rightarrow> [0..<length (el_records l)])
      in (l\<lparr>el_status := (el_status l)\<lparr>st_query_count := Suc (st_query_count (el_status l))\<rparr>\<rparr>,
          take (query_limit (le_config env) q)
            (filter (in_period q) (List.map_filter (record_at (el_records l)) positions))))"

section \<open>Load\<close>

fun load_lines :: "'t ledger_env \<Rightarrow> int \<Rightarrow> string list \<Rightarrow> ledger_record list \<Rightarrow> string + ledger_record list" where
  "load_lines env day [] loaded = Ok loaded"
| "load_lines env day (line # ls) loaded =
     (if trim line = [] then load_lines env day ls loaded
      else res_bind (le_dec_record env line) (\<lambda>r.
           res_bind (record_valid env r) (\<lambda>_.
             if day_of (lr_timestamp_unix r) \<noteq> day then Err ''ledger_record_segment_day_mismatch''
             else load_lines env day ls (loaded @ [r]))))"

fun load_segments :: "'t ledger_env \<Rightarrow> (string \<times> string) list \<Rightarrow> ledger_record list \<Rightarrow> string + ledger_record list" where
  "load_segments env [] loaded = Ok loaded"
| "load_segments env ((name, text) # files) loaded =
     res_bind (raw_segment_day name) (\<lambda>day.
       case le_read env name of
         Some e \<Rightarrow> Err e
       | None \<Rightarrow> res_bind (load_lines env day (file_lines text) loaded) (\<lambda>loaded. load_segments env files loaded))"

definition shard_identity :: "int \<Rightarrow> string option \<Rightarrow> string option \<Rightarrow> string option \<Rightarrow> string list \<Rightarrow> json" where
  "shard_identity day repo worktree session_id ids =
     JArr [JNum (if day < 0 then NegInt day else PosInt (nat day)), jopt JStr repo, jopt JStr worktree,
       jopt JStr session_id, JArr (map JStr ids)]"

definition summary_valid :: "'t ledger_env \<Rightarrow> ledger_summary \<Rightarrow> string + unit" where
  "summary_valid env s =
     (let record_count = sum_list (map snd (ls_event_counts s))
      in case le_to_json env (shard_identity (ls_day s) (ls_repo s) (ls_worktree s) (ls_session_id s) (ls_source_record_ids s)) of
           None \<Rightarrow> Err ''serialize''
         | Some text \<Rightarrow>
             if u64_max < record_count \<or> ls_schema_version s \<noteq> schema_version \<or> \<not> is_sha256_hex (ls_shard_id s) \<or>
                ls_shard_id s \<noteq> hash_bytes env text \<or> ls_source_record_ids s = [] \<or>
                max_summary_records < length (ls_source_record_ids s) \<or>
                length (ls_source_dedupe_keys s) \<noteq> length (ls_source_record_ids s) \<or>
                \<not> list_all is_sha256_hex (ls_source_record_ids s) \<or>
                \<not> list_all is_sha256_hex (ls_source_dedupe_keys s) \<or>
                \<not> values_are_unique (ls_source_record_ids s) \<or> \<not> values_are_unique (ls_source_dedupe_keys s) \<or>
                record_count \<noteq> length (ls_source_record_ids s) \<or> ls_event_counts s = [] \<or>
                list_ex (\<lambda>(t, n). t = [] \<or> max_event_type_bytes < length t \<or> n = 0) (ls_event_counts s) \<or>
                \<not> valid_optional_chars (ls_repo s) max_repo_chars \<or>
                \<not> valid_optional_chars (ls_worktree s) max_worktree_chars \<or>
                \<not> valid_optional_chars (ls_session_id s) max_session_chars \<or>
                ls_last_timestamp_unix s < ls_first_timestamp_unix s \<or>
                day_of (ls_first_timestamp_unix s) \<noteq> ls_day s \<or> day_of (ls_last_timestamp_unix s) \<noteq> ls_day s \<or>
                \<not> valid_keywords (le_config env) (ls_top_keywords s) \<or>
                \<not> valid_source_links env (ls_source_links s) max_summary_source_links
             then Err ''invalid_ledger_summary'' else Ok ())"

fun load_summaries :: "'t ledger_env \<Rightarrow> (string \<times> string \<times> secs) list \<Rightarrow> string + ledger_summary list" where
  "load_summaries env [] = Ok []"
| "load_summaries env ((name, text, _) # files) =
     (case le_read env name of
        Some e \<Rightarrow> Err e
      | None \<Rightarrow>
          res_bind (le_dec_summary env text) (\<lambda>s.
          res_bind (summary_valid env s) (\<lambda>_.
          res_bind (load_summaries env files) (\<lambda>ss. Ok (s # ss)))))"

text \<open>The history of compacted keys, up to the cap; the flag tells that the cap was hit.\<close>

fun add_keys :: "nat \<Rightarrow> string list \<Rightarrow> string set \<Rightarrow> string set \<times> bool" where
  "add_keys cap [] keys = (keys, False)"
| "add_keys cap (k # ks) keys = (if cap \<le> card keys then (keys, True) else add_keys cap ks (insert k keys))"

fun add_history :: "nat \<Rightarrow> ledger_summary list \<Rightarrow> string set \<Rightarrow> string set \<times> bool" where
  "add_history cap [] keys = (keys, False)"
| "add_history cap (s # ss) keys =
     (case add_keys cap (ls_source_dedupe_keys s) keys of
        (keys, True) \<Rightarrow> (keys, True) | (keys, False) \<Rightarrow> add_history cap ss keys)"

definition insert_loaded :: "event_ledger \<Rightarrow> ledger_record \<Rightarrow> event_ledger" where
  "insert_loaded l r = (if lr_dedupe_key r \<in> el_dedupe l then l else ledger_insert r l)"

definition set_degraded :: "string \<Rightarrow> event_ledger \<Rightarrow> event_ledger" where
  "set_degraded why l = l\<lparr>el_status := (el_status l)\<lparr>st_degraded := Some why\<rparr>\<rparr>"

definition ledger_load :: "'t ledger_env \<Rightarrow> event_ledger \<Rightarrow> event_ledger \<times> (string + unit)" where
  "ledger_load env l =
     (let cap = lc_max_records (le_config env);
          l = l\<lparr>el_records := [], el_dedupe := {}, el_indexes := empty_indexes\<rparr>
      in case load_segments env (jsonl_files (el_fs l)) [] of
           Inl e \<Rightarrow> (l, Err e)
         | Inr loaded \<Rightarrow>
             let sorted = sort_key (\<lambda>r. (lr_timestamp_unix r, lr_id r)) loaded;
                 l = (if cap < length sorted then set_degraded ''startup_record_cap_applied'' l else l);
                 l = foldl insert_loaded l (drop (length sorted - cap) sorted)
             in case load_summaries env (json_files (el_fs l)) of
                  Inl e \<Rightarrow> (l, Err e)
                | Inr summaries \<Rightarrow>
                    let (keys, capped) = add_history cap (sort_key (\<lambda>s. - ls_last_timestamp_unix s) summaries) (el_dedupe l);
                        l = l\<lparr>el_dedupe := keys\<rparr>
                    in (if capped then set_degraded ''dedupe_history_cap_applied'' l else l, Ok ()))"

definition zero_counters :: ledger_counters where
  "zero_counters =
     \<lparr>st_appended = 0, st_duplicates = 0, st_rejected = 0, st_append_failures = 0, st_query_count = 0,
      st_compacted_records = 0, st_degraded = None\<rparr>"

text \<open>\<open>open\<close>: the directories are created when missing, then loaded.\<close>

definition ledger_open :: "'t ledger_env \<Rightarrow> ledger_fs \<Rightarrow> string + event_ledger" where
  "ledger_open env fs =
     (let l = \<lparr>el_records = [], el_dedupe = {}, el_indexes = empty_indexes, el_status = zero_counters,
               el_last_compaction_unix = 0, el_fs = fs\<rparr>
      in if \<not> lc_enabled (le_config env) then Ok l
         else case ledger_load env l of (l, Inl e) \<Rightarrow> Err e | (l, Inr _) \<Rightarrow> Ok l)"

section \<open>Compaction\<close>

type_synonym group_key = "int \<times> string option \<times> string option \<times> string option"

definition record_group :: "ledger_record \<Rightarrow> group_key" where
  "record_group r = (day_of (lr_timestamp_unix r), lr_repo r, lr_worktree r, lr_session_id r)"

definition group_records :: "('k::linorder) itself \<Rightarrow> (ledger_record \<Rightarrow> 'k) \<Rightarrow> ledger_record list \<Rightarrow> ('k, ledger_record list) btree" where
  "group_records _ key rs = foldl (\<lambda>m r. bt_insert (key r) (unwrap_or (bt_get m (key r)) [] @ [r]) m) [] rs"

function chunks_of :: "nat \<Rightarrow> 'a list \<Rightarrow> 'a list list" where
  "chunks_of n xs = (if xs = [] \<or> n = 0 then [] else take n xs # chunks_of n (drop n xs))"
  by pat_completeness auto
termination
  by (relation "measure (\<lambda>(n, xs). length xs)") auto

declare chunks_of.simps [simp del]

definition count_in :: "string \<Rightarrow> (string, nat) btree \<Rightarrow> (string, nat) btree" where
  "count_in k m = bt_insert k (Suc (unwrap_or (bt_get m k) 0)) m"

definition summary_from_records :: "'t ledger_env \<Rightarrow> group_key \<Rightarrow> ledger_record list \<Rightarrow> ledger_summary" where
  "summary_from_records env key rs =
     (case key of (day, repo, worktree, session_id) \<Rightarrow>
        let keyword_counts = foldl (\<lambda>m k. count_in k m) [] (concat (map lr_keywords rs));
            ranked = sort_key (\<lambda>(k, n). (- int n, k)) keyword_counts;
            kept = take max_summary_records rs;
            ids = map lr_id kept;
            times = map lr_timestamp_unix rs
        in \<lparr>ls_schema_version = schema_version,
            ls_shard_id = hash_bytes env (unwrap_or (le_to_json env (shard_identity day repo worktree session_id ids)) []),
            ls_day = day, ls_repo = repo, ls_worktree = worktree, ls_session_id = session_id,
            ls_first_timestamp_unix = (if times = [] then day * 86400 else Min (set times)),
            ls_last_timestamp_unix = (if times = [] then day * 86400 else Max (set times)),
            ls_event_counts = foldl (\<lambda>m r. count_in (lr_event_type r) m) [] rs,
            ls_top_keywords = map fst (take (lc_max_keywords (le_config env)) ranked),
            ls_source_record_ids = ids, ls_source_dedupe_keys = map lr_dedupe_key kept,
            ls_source_links = foldl (push_bounded_unique max_source_link_bytes max_summary_source_links) []
              (concat (map lr_source_links rs))\<rparr>)"

text \<open>Writing one shard; the modification time of the file is the time of the compaction.\<close>

definition write_summary :: "'t ledger_env \<Rightarrow> secs \<Rightarrow> ledger_summary \<Rightarrow> ledger_fs \<Rightarrow> ledger_fs \<times> string option" where
  "write_summary env now s fs =
     (case le_enc_summary env s of
        None \<Rightarrow> (fs, Some ''serialize'')
      | Some encoded \<Rightarrow>
          atomic_op env (\<lambda>fs. fs\<lparr>fs_summaries := bt_insert (ls_shard_id s @ ''.json'') (encoded @ [newline], now) (fs_summaries fs)\<rparr>) fs)"

fun write_shards ::
    "'t ledger_env \<Rightarrow> secs \<Rightarrow> (group_key \<times> ledger_record list) list \<Rightarrow> nat \<Rightarrow> ledger_fs \<Rightarrow> ledger_fs \<times> (string + nat)" where
  "write_shards env now [] compacted fs = (fs, Ok compacted)"
| "write_shards env now ((key, chunk) # rest) compacted fs =
     (case write_summary env now (summary_from_records env key chunk) fs of
        (fs, Some e) \<Rightarrow> (fs, Err e)
      | (fs, None) \<Rightarrow> write_shards env now rest (compacted + length chunk) fs)"

text \<open>The lines a segment keeps: the records in memory of its day that were not selected.\<close>

fun encode_records :: "'t ledger_env \<Rightarrow> ledger_record list \<Rightarrow> string option" where
  "encode_records env [] = Some []"
| "encode_records env (r # rs) =
     (case (le_enc_record env r, encode_records env rs) of
        (Some a, Some b) \<Rightarrow> Some (a @ [newline] @ b) | _ \<Rightarrow> None)"

definition rewrite_segment :: "'t ledger_env \<Rightarrow> string set \<Rightarrow> int \<Rightarrow> ledger_record list \<Rightarrow> ledger_fs \<Rightarrow> ledger_fs \<times> string option" where
  "rewrite_segment env selected day rs fs =
     (let name = segment_name day; remaining = filter (\<lambda>r. lr_id r \<notin> selected) rs
      in if \<not> list_ex (\<lambda>r. lr_id r \<in> selected) rs then (fs, None)
         else if remaining = [] then
           (if bt_has (fs_raw fs) name then atomic_op env (\<lambda>fs. fs\<lparr>fs_raw := bt_remove name (fs_raw fs)\<rparr>) fs
            else (fs, None))
         else case encode_records env remaining of
           None \<Rightarrow> (fs, Some ''serialize'')
         | Some text \<Rightarrow> atomic_op env (\<lambda>fs. fs\<lparr>fs_raw := bt_insert name text (fs_raw fs)\<rparr>) fs)"

fun rewrite_segments :: "'t ledger_env \<Rightarrow> string set \<Rightarrow> (int \<times> ledger_record list) list \<Rightarrow> ledger_fs \<Rightarrow> ledger_fs \<times> string option" where
  "rewrite_segments env selected [] fs = (fs, None)"
| "rewrite_segments env selected ((day, rs) # rest) fs =
     (case rewrite_segment env selected day rs fs of
        (fs, Some e) \<Rightarrow> (fs, Some e) | (fs, None) \<Rightarrow> rewrite_segments env selected rest fs)"

definition remove_compacted_records :: "'t ledger_env \<Rightarrow> string set \<Rightarrow> event_ledger \<Rightarrow> event_ledger \<times> string option" where
  "remove_compacted_records env selected l =
     (case rewrite_segments env selected
         (group_records TYPE(int) (\<lambda>r. day_of (lr_timestamp_unix r)) (el_records l)) (el_fs l) of
        (fs, failed) \<Rightarrow> (l\<lparr>el_fs := fs\<rparr>, failed))"

fun prune_files :: "'t ledger_env \<Rightarrow> secs \<Rightarrow> (string \<times> string \<times> secs) list \<Rightarrow> nat \<Rightarrow> ledger_fs \<Rightarrow> ledger_fs \<times> (string + nat)" where
  "prune_files env cutoff [] pruned fs = (fs, Ok pruned)"
| "prune_files env cutoff ((name, _, modified) # files) pruned fs =
     (if modified < cutoff then
        (case atomic_op env (\<lambda>fs. fs\<lparr>fs_summaries := bt_remove name (fs_summaries fs)\<rparr>) fs of
           (fs, Some e) \<Rightarrow> (fs, Err e)
         | (fs, None) \<Rightarrow> prune_files env cutoff files (Suc pruned) fs)
      else prune_files env cutoff files pruned fs)"

definition prune_summary_before :: "'t ledger_env \<Rightarrow> secs \<Rightarrow> event_ledger \<Rightarrow> event_ledger \<times> (string + nat)" where
  "prune_summary_before env cutoff l =
     (case prune_files env cutoff (fs_summaries (el_fs l)) 0 (el_fs l) of (fs, res) \<Rightarrow> (l\<lparr>el_fs := fs\<rparr>, res))"

definition compaction_selection :: "ledger_config \<Rightarrow> secs \<Rightarrow> event_ledger \<Rightarrow> ledger_record list" where
  "compaction_selection cfg now l =
     take (lc_max_records_per_compaction cfg)
       (filter (\<lambda>r. lr_timestamp_unix r < now - int (lc_raw_retention_days cfg) * 86400) (el_records l))"

definition compaction_shards :: "(group_key, ledger_record list) btree \<Rightarrow> (group_key \<times> ledger_record list) list" where
  "compaction_shards groups = concat (map (\<lambda>(key, rs). map (\<lambda>chunk. (key, chunk)) (chunks_of 64 rs)) groups)"

definition prune_and_reload :: "'t ledger_env \<Rightarrow> secs \<Rightarrow> nat \<Rightarrow> event_ledger \<Rightarrow> event_ledger \<times> (string + nat)" where
  "prune_and_reload env now compacted l =
     (case prune_summary_before env (now - int (lc_summary_retention_days (le_config env)) * 86400) l of
        (l, Inl e) \<Rightarrow> (l, Err e)
      | (l, Inr pruned) \<Rightarrow>
          if 0 < compacted \<or> 0 < pruned
          then (case ledger_load env l of (l, Inl e) \<Rightarrow> (l, Err e) | (l, Inr _) \<Rightarrow> (l, Ok compacted))
          else (l, Ok compacted))"

definition compact_if_due :: "'t ledger_env \<Rightarrow> secs \<Rightarrow> event_ledger \<Rightarrow> event_ledger \<times> (string + nat)" where
  "compact_if_due env now l =
     (let cfg = le_config env
      in if \<not> lc_enabled cfg \<or> now - el_last_compaction_unix l < int (lc_compaction_interval_secs cfg)
         then (l, Ok 0)
         else
           let l = l\<lparr>el_last_compaction_unix := now\<rparr>;
               selection = compaction_selection cfg now l;
               groups = group_records TYPE(group_key) record_group selection;
               selected = lr_id ` set selection
           in case write_shards env now (compaction_shards groups) 0 (el_fs l) of
                (fs, Inl e) \<Rightarrow> (l\<lparr>el_fs := fs\<rparr>, Err e)
              | (fs, Inr compacted) \<Rightarrow>
                  let l = l\<lparr>el_fs := fs\<rparr>
                  in if compacted = 0 then prune_and_reload env now compacted l
                     else case remove_compacted_records env selected
                         (l\<lparr>el_status := (el_status l)\<lparr>st_compacted_records := st_compacted_records (el_status l) + compacted\<rparr>\<rparr>) of
                       (l, Some e) \<Rightarrow> (l, Err e)
                     | (l, None) \<Rightarrow> prune_and_reload env now compacted l)"

section \<open>Status and verification\<close>

record ledger_status =
  sr_enabled :: bool
  sr_records :: nat
  sr_counters :: ledger_counters
  sr_summary_shards :: nat
  sr_raw_segments :: nat
  sr_last_compaction_unix :: "secs option"

definition ledger_status_of :: "'t ledger_env \<Rightarrow> event_ledger \<Rightarrow> ledger_status" where
  "ledger_status_of env l =
     \<lparr>sr_enabled = lc_enabled (le_config env), sr_records = length (el_records l), sr_counters = el_status l,
      sr_summary_shards = length (fs_summaries (el_fs l)), sr_raw_segments = length (jsonl_files (el_fs l)),
      sr_last_compaction_unix = (if 0 < el_last_compaction_unix l then Some (el_last_compaction_unix l) else None)\<rparr>"

definition ledger_verify :: "'t ledger_env \<Rightarrow> event_ledger \<Rightarrow> string + ledger_status" where
  "ledger_verify env l =
     (let v = \<lparr>sr_enabled = lc_enabled (le_config env), sr_records = 0, sr_counters = zero_counters,
                sr_summary_shards = 0, sr_raw_segments = 0, sr_last_compaction_unix = None\<rparr>
      in if \<not> lc_enabled (le_config env) then Ok v
         else res_bind (load_segments env (jsonl_files (el_fs l)) []) (\<lambda>rs.
              res_bind (load_summaries env (json_files (el_fs l))) (\<lambda>ss.
                Ok (v\<lparr>sr_records := length rs, sr_summary_shards := length ss,
                      sr_raw_segments := length (jsonl_files (el_fs l))\<rparr>))))"

end
