(* ===== verification/Dispatch.thy ===== *)
theory Dispatch imports Normalize Batchers Chunks AlertStore Ledger begin

text \<open>
  The dispatcher of \<open>src/dispatch.rs\<close>: acceptance of an event, ledger verdicts, batching, delivery with
  the alert journal, and the periodic flush. Its state is the record \<open>dispatcher\<close>; everything it does
  to the outside (sink calls with their results, telemetry records, answers to acceptance waiters) is
  appended to \<open>d_log\<close>.

  \<open>dispatch_env\<close> holds what the handlers only read: the configuration, the renderer, the sinks (a sink
  sees what happened so far and answers with an error or not), and the functions of external code
  the router, the telemetry and the batchers need. The ledger is the type \<open>'l\<close> with its append and
  compaction. The alert journal is the lane store of \<open>AlertStore\<close>, the only implementation in the
  program. Native-hook observability counters and error output are not modelled.
\<close>

datatype effect =
    SinkSend string sink_target sink_message "string option"
  | Telemetry "(string, json) btree"
  | Answer nat bool

type_synonym sink = "effect list \<Rightarrow> sink_target \<Rightarrow> sink_message \<Rightarrow> string option"

datatype ledger_acceptance = Accepted | Duplicate | LedgerFailed | Unavailable

record 'l dispatch_env =
  de_cfg :: app_config
  de_show_array :: "json list \<Rightarrow> string"
  de_parse_url :: url_parser
  de_tokens :: token_env
  de_renderer :: renderer
  de_sip_hash :: hasher
  de_to_json :: "json \<Rightarrow> string option"
  de_enc :: encoder
  de_dec :: decoder
  de_sinks :: "string \<Rightarrow> sink option"
  de_disk_ok :: "nat \<Rightarrow> bool"
  de_rfc3339 :: string
  de_append :: "'l \<Rightarrow> incoming_event \<Rightarrow> 'l \<times> (string + append_outcome)"
  de_compact :: "nat \<Rightarrow> 'l \<Rightarrow> 'l"

record 'l dispatcher =
  d_ci :: "pending_ci_batch batcher"
  d_routine :: "pending_routine_batch batcher option"
  d_ledger :: "'l option"
  d_store :: lane_store
  d_journals :: "string \<Rightarrow> alert_handle option"
  d_acceptance :: "string \<Rightarrow> nat list option"
  d_log :: "effect list"

definition dispatcher_new ::
    "ms \<Rightarrow> ms \<Rightarrow> ms option \<Rightarrow> 'l option \<Rightarrow> lane_store \<Rightarrow> 'l dispatcher" where
  "dispatcher_new now ci_window routine_window ledger store =
     \<lparr>d_ci = batcher_new now ci_window, d_routine = map_option (batcher_new now) routine_window,
      d_ledger = ledger, d_store = store, d_journals = (\<lambda>_. None), d_acceptance = (\<lambda>_. None), d_log = []\<rparr>"

section \<open>Acceptance waiters and journals\<close>

definition event_id_of :: "incoming_event \<Rightarrow> string option" where
  "event_id_of e = get_str (ev_payload e) ''event_id''"

definition register_alert_acceptance :: "string \<Rightarrow> nat \<Rightarrow> 'l dispatcher \<Rightarrow> 'l dispatcher" where
  "register_alert_acceptance event_id sender st =
     st\<lparr>d_acceptance := (d_acceptance st)(event_id := Some (unwrap_or (d_acceptance st event_id) [] @ [sender]))\<rparr>"

definition cancel_alert_acceptance :: "string \<Rightarrow> 'l dispatcher \<Rightarrow> 'l dispatcher" where
  "cancel_alert_acceptance event_id st = st\<lparr>d_acceptance := (d_acceptance st)(event_id := None)\<rparr>"

definition register_alert_delivery_journal :: "string \<Rightarrow> alert_handle \<Rightarrow> 'l dispatcher \<Rightarrow> 'l dispatcher" where
  "register_alert_delivery_journal event_id journal st =
     st\<lparr>d_journals := (d_journals st)(event_id := Some journal)\<rparr>"

definition clear_alert_delivery_journal :: "string \<Rightarrow> 'l dispatcher \<Rightarrow> 'l dispatcher" where
  "clear_alert_delivery_journal event_id st = st\<lparr>d_journals := (d_journals st)(event_id := None)\<rparr>"

definition alert_delivery_journal :: "incoming_event \<Rightarrow> 'l dispatcher \<Rightarrow> alert_handle option" where
  "alert_delivery_journal e st = Option.bind (event_id_of e) (d_journals st)"

definition resolve_alert_acceptance_id :: "string \<Rightarrow> bool \<Rightarrow> 'l dispatcher \<Rightarrow> 'l dispatcher" where
  "resolve_alert_acceptance_id event_id accepted st =
     (case d_acceptance st event_id of
        None \<Rightarrow> st
      | Some senders \<Rightarrow>
          st\<lparr>d_acceptance := (d_acceptance st)(event_id := None),
             d_log := d_log st @ map (\<lambda>s. Answer s accepted) senders\<rparr>)"

definition resolve_alert_acceptance :: "incoming_event \<Rightarrow> bool \<Rightarrow> 'l dispatcher \<Rightarrow> 'l dispatcher" where
  "resolve_alert_acceptance e accepted st =
     (case event_id_of e of
        None \<Rightarrow> st
      | Some event_id \<Rightarrow> resolve_alert_acceptance_id event_id accepted st)"

section \<open>Telemetry\<close>

definition emit :: "(string, json) btree \<Rightarrow> 'l dispatcher \<Rightarrow> 'l dispatcher" where
  "emit r st = st\<lparr>d_log := d_log st @ [Telemetry r]\<rparr>"

definition correlation_of :: "'l dispatch_env \<Rightarrow> incoming_event \<Rightarrow> string" where
  "correlation_of env e = correlation_id_for_event (de_sip_hash env) (de_to_json env) e"

definition emit_route_trace :: "'l dispatch_env \<Rightarrow> incoming_event \<Rightarrow> resolved_delivery \<Rightarrow> 'l dispatcher \<Rightarrow> 'l dispatcher" where
  "emit_route_trace env e d st =
     (let t = rd_trace d
      in emit (bt_extend
           [(''event_kind'', JStr (canonical_kind e)), (''route_result'', JStr (trace_result_str (rt_result t))),
            (''route_index'', jopt jnat (rt_matched_route_index t)),
            (''event_pattern'', jopt JStr (rt_event_pattern t)),
            (''filter_keys'', JArr (map JStr (rt_filter_keys t))), (''target'', JStr (rt_target t))]
           (telemetry_record ''route_trace'' (trace_reason_code (rt_result t)) (correlation_of env e))) st)"

definition emit_routine_deferred :: "'l dispatch_env \<Rightarrow> incoming_event \<Rightarrow> resolved_delivery \<Rightarrow> 'l dispatcher \<Rightarrow> 'l dispatcher" where
  "emit_routine_deferred env e d st =
     emit (bt_extend
       [(''event_kind'', JStr (canonical_kind e)), (''target'', JStr (rt_target (rd_trace d))),
        (''route_result'', JStr (trace_result_str (rt_result (rd_trace d))))]
       (telemetry_record ''routine_deferred'' ''routine_batch_deferred'' (correlation_of env e))) st"

definition emit_routine_flushed :: "'l dispatch_env \<Rightarrow> queued_routine_delivery \<Rightarrow> nat \<Rightarrow> 'l dispatcher \<Rightarrow> 'l dispatcher" where
  "emit_routine_flushed env first n st =
     emit (bt_extend
       [(''event_kind'', JStr (canonical_kind (qr_event first))),
        (''target'', JStr (rt_target (rd_trace (qr_delivery first)))),
        (''route_result'', JStr (trace_result_str (rt_result (rd_trace (qr_delivery first))))),
        (''batch_count'', jnat n)]
       (telemetry_record ''routine_flushed'' ''routine_batch_flushed'' (correlation_of env (qr_event first)))) st"

definition emit_dispatch_failure ::
    "'l dispatch_env \<Rightarrow> incoming_event \<Rightarrow> string \<Rightarrow> resolved_delivery option \<Rightarrow> string \<Rightarrow> 'l dispatcher \<Rightarrow> 'l dispatcher" where
  "emit_dispatch_failure env e reason delivery error st =
     (let r = bt_extend [(''event_kind'', JStr (canonical_kind e)), (''error'', JStr error)]
                (telemetry_record ''dispatch_failure'' reason (correlation_of env e));
          r = (case delivery of
                 None \<Rightarrow> r
               | Some d \<Rightarrow> bt_extend
                   [(''target'', JStr (rt_target (rd_trace d))),
                    (''route_result'', JStr (trace_result_str (rt_result (rd_trace d)))),
                    (''route_index'', jopt jnat (rt_matched_route_index (rd_trace d)))] r)
      in emit r st)"

definition sink_telemetry_for :: "'l dispatch_env \<Rightarrow> incoming_event \<Rightarrow> resolved_delivery \<Rightarrow> nat option \<Rightarrow> sink_telemetry" where
  "sink_telemetry_for env e d batch_count =
     \<lparr>st_correlation_id = correlation_of env e,
      st_route_result = Some (trace_result_str (rt_result (rd_trace d))),
      st_route_index = rt_matched_route_index (rd_trace d), st_target = rt_target (rd_trace d),
      st_batch_count = batch_count\<rparr>"

section \<open>Sending\<close>

definition max_alert_destination_key :: nat where "max_alert_destination_key = 512"

definition alert_destination_key :: "'l dispatch_env \<Rightarrow> resolved_delivery \<Rightarrow> string" where
  "alert_destination_key env d =
     (let key = ''route:''
            @ (case rt_matched_route_index (rd_trace d) of Some i \<Rightarrow> show_nat i | None \<Rightarrow> ''fallback'')
            @ '':'' @ safe_target_id (de_parse_url env) (rd_target d)
      in if length key \<le> max_alert_destination_key then key
         else stable_correlation_id (de_sip_hash env) (de_to_json env) ''gjc.alert.destination''
                (jobject [(''key'', JStr key)]))"

definition send_sink_message ::
    "'l dispatch_env \<Rightarrow> string \<Rightarrow> sink \<Rightarrow> sink_target \<Rightarrow> sink_message \<Rightarrow> 'l dispatcher \<Rightarrow> 'l dispatcher \<times> bool" where
  "send_sink_message env name sink target message st =
     (let res = sink (d_log st) target message;
          st = st\<lparr>d_log := d_log st @ [SinkSend name target message res]\<rparr>
      in case res of
           Some error \<Rightarrow>
             (emit (bt_extend
                [(''target'', JStr (safe_target_id (de_parse_url env) target)),
                 (''event_kind'', JStr (sm_event_kind message)), (''error'', JStr error)]
                (telemetry_record ''dispatch_failure'' ''sink_send_failed''
                   (correlation_id_for_message (de_sip_hash env) (de_to_json env)
                      (sm_event_kind message) (sm_payload message)))) st, False)
         | None \<Rightarrow> (st, True))"

text \<open>\<open>send_delivery\<close> between the claim and the \<open>finish\<close> closure: sink lookup, rendering, sending.\<close>

definition attempt_delivery ::
    "'l dispatch_env \<Rightarrow> incoming_event \<Rightarrow> resolved_delivery \<Rightarrow> 'l dispatcher \<Rightarrow> 'l dispatcher \<times> bool" where
  "attempt_delivery env e d st =
     (case de_sinks env (rd_sink d) of
        None \<Rightarrow>
          (emit_dispatch_failure env e ''sink_missing'' (Some d)
             (''missing sink '' @ [CHR 0x27] @ rd_sink d @ [CHR 0x27]) st, False)
      | Some sink \<Rightarrow>
          (case render_delivery (de_show_array env) (de_tokens env) (de_renderer env) e d of
             Inl error \<Rightarrow> (emit_dispatch_failure env e ''render_failed'' (Some d) error st, False)
           | Inr content \<Rightarrow>
               send_sink_message env (rd_sink d) sink (rd_target d)
                 \<lparr>sm_event_kind = canonical_kind e, sm_format = rd_format d, sm_content = content,
                  sm_payload = ev_payload e,
                  sm_telemetry = Some (sink_telemetry_for env e d None)\<rparr> st))"

definition send_delivery ::
    "'l dispatch_env \<Rightarrow> incoming_event \<Rightarrow> resolved_delivery \<Rightarrow> 'l dispatcher \<Rightarrow> 'l dispatcher \<times> bool" where
  "send_delivery env e d st =
     (case alert_delivery_journal e st of
        None \<Rightarrow> attempt_delivery env e d st
      | Some journal \<Rightarrow>
          (let destination = alert_destination_key env d
           in if owned (journal_state (d_store st) journal destination) then (st, True)
              else
                let (store, claimed) = journal_claim (de_disk_ok env) (de_rfc3339 env) (d_store st) journal destination;
                    st = st\<lparr>d_store := store\<rparr>
                in if \<not> claimed then
                     (emit_dispatch_failure env e ''sink_send_failed'' (Some d)
                        ''durable alert delivery ownership unavailable'' st, False)
                   else
                     let (st, delivered) = attempt_delivery env e d st;
                         (store, persisted) = journal_record (de_disk_ok env) (de_rfc3339 env)
                           (d_store st) journal destination delivered
                     in (st\<lparr>d_store := store\<rparr>, delivered \<and> persisted)))"

section \<open>Routine batches\<close>

text \<open>The rendering loop of \<open>send_routine_batch\<close>: failures are recorded per item, the rest is kept.\<close>

fun render_items ::
    "'l dispatch_env \<Rightarrow> nat \<Rightarrow> queued_routine_delivery list \<Rightarrow> 'l dispatcher \<Rightarrow> 'l dispatcher \<times> rendered_item list" where
  "render_items env idx [] st = (st, [])"
| "render_items env idx (item # items) st =
     (case render_delivery_body (de_show_array env) (de_tokens env) (de_renderer env) (qr_event item) (qr_delivery item) of
        Inr content \<Rightarrow>
          (let (st, rendered) = render_items env (idx + 1) items st
           in (st, (idx, content, canonical_kind (qr_event item)) # rendered))
      | Inl error \<Rightarrow>
          render_items env (idx + 1) items
            (emit_dispatch_failure env (qr_event item) ''render_failed'' (Some (qr_delivery item)) error st))"

definition chunk_message :: "'l dispatch_env \<Rightarrow> queued_routine_delivery \<Rightarrow> nat \<Rightarrow> discord_routine_chunk \<Rightarrow> sink_message" where
  "chunk_message env first total_events chunk =
     \<lparr>sm_event_kind = ''dispatch.routine-batched'', sm_format = rd_format (qr_delivery first),
      sm_content = ch_content chunk,
      sm_payload = jobject
        [(''batched'', JBool True), (''count'', jnat (ch_event_count chunk)),
         (''total_events'', jnat total_events), (''chunk_index'', jnat (ch_chunk_index chunk)),
         (''total_chunks'', jnat (ch_total_chunks chunk)),
         (''event_kinds'', JArr (map JStr (ch_event_kinds chunk))),
         (''correlation_id'', JStr (correlation_of env (qr_event first)))],
      sm_telemetry = Some (sink_telemetry_for env (qr_event first) (qr_delivery first) (Some (ch_event_count chunk)))\<rparr>"

definition joined_message :: "'l dispatch_env \<Rightarrow> queued_routine_delivery \<Rightarrow> rendered_item list \<Rightarrow> sink_message" where
  "joined_message env first rendered =
     \<lparr>sm_event_kind = ''dispatch.routine-batched'', sm_format = rd_format (qr_delivery first),
      sm_content = join_with [CHR 0x0A] (map (\<lambda>x. fst (snd x)) rendered),
      sm_payload = jobject
        [(''batched'', JBool True), (''count'', jnat (length rendered)),
         (''event_kinds'', JArr (map (\<lambda>x. JStr (snd (snd x))) rendered)),
         (''correlation_id'', JStr (correlation_of env (qr_event first)))],
      sm_telemetry = Some (sink_telemetry_for env (qr_event first) (qr_delivery first) (Some (length rendered)))\<rparr>"

fun send_messages ::
    "'l dispatch_env \<Rightarrow> string \<Rightarrow> sink \<Rightarrow> sink_target \<Rightarrow> sink_message list \<Rightarrow> 'l dispatcher \<Rightarrow> 'l dispatcher" where
  "send_messages env name sink target [] st = st"
| "send_messages env name sink target (m # ms) st =
     send_messages env name sink target ms (fst (send_sink_message env name sink target m st))"

definition send_routine_batch :: "'l dispatch_env \<Rightarrow> queued_routine_delivery list \<Rightarrow> 'l dispatcher \<Rightarrow> 'l dispatcher" where
  "send_routine_batch env items st =
     (case items of
        [] \<Rightarrow> st
      | [first] \<Rightarrow> fst (send_delivery env (qr_event first) (qr_delivery first) st)
      | first # _ \<Rightarrow>
          (let d = qr_delivery first
           in case de_sinks env (rd_sink d) of
                None \<Rightarrow>
                  emit_dispatch_failure env (qr_event first) ''sink_missing'' (Some d)
                    (''missing sink '' @ [CHR 0x27] @ rd_sink d @ [CHR 0x27]) st
              | Some sink \<Rightarrow>
                  (let (st, rendered) = render_items env 0 items st
                   in if rendered = [] then st
                      else
                        let st = emit_routine_flushed env first (length rendered) st;
                            messages = (if is_discord_target (rd_target d)
                              then map (chunk_message env first (length rendered)) (split_discord_routine_chunks rendered)
                              else [joined_message env first rendered])
                        in send_messages env (rd_sink d) sink (rd_target d) messages st)))"

definition is_ci_event :: "incoming_event \<Rightarrow> bool" where
  "is_ci_event e =
     (canonical_kind e \<in> {''github.ci-started'', ''github.ci-failed'', ''github.ci-passed'', ''github.ci-cancelled''})"

definition should_bypass_routine_batch :: "incoming_event \<Rightarrow> bool" where
  "should_bypass_routine_batch e =
     (let kind = canonical_kind e
      in ends_with ''.failed'' kind \<or> ends_with ''-failed'' kind \<or> ends_with ''.blocked'' kind
         \<or> ends_with ''.stalled'' kind \<or> ends_with ''.retry-needed'' kind \<or> starts_with ''session.'' kind
         \<or> kind = ''tmux.stale'' \<or> starts_with ''github.ci-'' kind
         \<or> kind = ''workflow.question'' \<or> kind = ''workflow.gate'')"

definition should_batch_routine_delivery :: "incoming_event \<Rightarrow> resolved_delivery \<Rightarrow> 'l dispatcher \<Rightarrow> bool" where
  "should_batch_routine_delivery e d st =
     (d_routine st \<noteq> None \<and> rd_sink d = ''discord'' \<and> \<not> is_ci_event e
      \<and> alert_delivery_journal e st = None \<and> \<not> should_bypass_routine_batch e)"

section \<open>Handling one event\<close>

definition resolve_for :: "'l dispatch_env \<Rightarrow> incoming_event \<Rightarrow> string + resolved_delivery list" where
  "resolve_for env e = resolve (de_show_array env) (de_parse_url env) (de_cfg env) e"

fun send_deliveries :: "'l dispatch_env \<Rightarrow> incoming_event \<Rightarrow> resolved_delivery list \<Rightarrow> 'l dispatcher \<Rightarrow> 'l dispatcher" where
  "send_deliveries env e [] st = st"
| "send_deliveries env e (d # ds) st =
     send_deliveries env e ds (fst (send_delivery env e d (emit_route_trace env e d st)))"

definition deliver_event :: "'l dispatch_env \<Rightarrow> incoming_event \<Rightarrow> 'l dispatcher \<Rightarrow> 'l dispatcher" where
  "deliver_event env e st =
     (case resolve_for env e of
        Inl error \<Rightarrow> emit_dispatch_failure env e ''route_none'' None error st
      | Inr deliveries \<Rightarrow> send_deliveries env e deliveries st)"

text \<open>The delivery loop of \<open>resolve_and_dispatch\<close>, with \<open>accepted\<close> the conjunction so far.\<close>

fun dispatch_deliveries ::
    "'l dispatch_env \<Rightarrow> incoming_event \<Rightarrow> ms \<Rightarrow> resolved_delivery list \<Rightarrow> bool \<Rightarrow> 'l dispatcher \<Rightarrow> 'l dispatcher \<times> bool" where
  "dispatch_deliveries env e now [] accepted st = (st, accepted)"
| "dispatch_deliveries env e now (d # ds) accepted st =
     (let st = emit_route_trace env e d st
      in if should_batch_routine_delivery e d st then
           (let st = emit_routine_deferred env e d st
            in case d_routine st of
                 None \<Rightarrow>
                   (let (st, ok) = send_delivery env e d st
                    in dispatch_deliveries env e now ds (accepted \<and> ok) st)
               | Some q \<Rightarrow>
                   dispatch_deliveries env e now ds accepted
                     (st\<lparr>d_routine := Some (routine_observe (de_enc env) \<lparr>qr_event = e, qr_delivery = d\<rparr> now q)\<rparr>))
         else
           (let (st, ok) = send_delivery env e d st
            in dispatch_deliveries env e now ds (accepted \<and> ok) st))"

definition resolve_and_dispatch ::
    "'l dispatch_env \<Rightarrow> incoming_event \<Rightarrow> ms \<Rightarrow> 'l dispatcher \<Rightarrow> 'l dispatcher \<times> bool" where
  "resolve_and_dispatch env e now st =
     (case resolve_for env e of
        Inl error \<Rightarrow> (emit_dispatch_failure env e ''route_none'' None error st, False)
      | Inr deliveries \<Rightarrow>
          (if deliveries = [] then (st, False) else dispatch_deliveries env e now deliveries True st))"

definition deliver_events :: "'l dispatch_env \<Rightarrow> incoming_event list \<Rightarrow> 'l dispatcher \<Rightarrow> 'l dispatcher" where
  "deliver_events env es st = foldl (\<lambda>st e. deliver_event env e st) st es"

definition flush_due_batches :: "'l dispatch_env \<Rightarrow> ms \<Rightarrow> 'l dispatcher \<Rightarrow> 'l dispatcher" where
  "flush_due_batches env now st =
     (let (ci, events) = ci_flush_due (de_dec env) now (d_ci st);
          st = deliver_events env events (st\<lparr>d_ci := ci\<rparr>)
      in case d_routine st of
           None \<Rightarrow> st
         | Some q \<Rightarrow>
             (let (q, batches) = routine_flush_due (de_dec env) now q
              in foldl (\<lambda>st items. send_routine_batch env items st) (st\<lparr>d_routine := Some q\<rparr>) batches))"

definition record_event_result :: "'l dispatch_env \<Rightarrow> incoming_event \<Rightarrow> 'l dispatcher \<Rightarrow> 'l dispatcher \<times> ledger_acceptance" where
  "record_event_result env e st =
     (case d_ledger st of
        None \<Rightarrow> (st, Unavailable)
      | Some ledger \<Rightarrow>
          (let (ledger, res) = de_append env ledger e;
               st = st\<lparr>d_ledger := Some ledger\<rparr>
           in (st, case res of
                     Inr Appended \<Rightarrow> Accepted
                   | Inr DuplicateEvent \<Rightarrow> Duplicate
                   | Inl _ \<Rightarrow> LedgerFailed)))"

text \<open>The body of the receive branch after the ledger's verdict lets the event through.\<close>

definition dispatch_accepted :: "'l dispatch_env \<Rightarrow> ms \<Rightarrow> incoming_event \<Rightarrow> 'l dispatcher \<Rightarrow> 'l dispatcher" where
  "dispatch_accepted env now e st =
     (let st = flush_due_batches env now st
      in if is_ci_event e then
           (let (ci, flushed) = ci_observe (de_enc env) e now (d_ci st);
                st = deliver_events env flushed (st\<lparr>d_ci := ci\<rparr>)
            in resolve_alert_acceptance e True st)
         else
           (let (st, routed) = resolve_and_dispatch env e now st;
                st = (case event_id_of e of Some event_id \<Rightarrow> clear_alert_delivery_journal event_id st | None \<Rightarrow> st)
            in resolve_alert_acceptance e routed st))"

definition dispatch_event ::
    "'l dispatch_env \<Rightarrow> string \<Rightarrow> string \<Rightarrow> ms \<Rightarrow> incoming_event \<Rightarrow> 'l dispatcher \<Rightarrow> 'l dispatcher" where
  "dispatch_event env timestamp uuid now received st =
     (let e = normalize_event timestamp uuid received;
          (st, verdict) = record_event_result env e st
      in case verdict of
           Duplicate \<Rightarrow>
             (if alert_delivery_journal e st = None then resolve_alert_acceptance e True st
              else dispatch_accepted env now e st)
         | LedgerFailed \<Rightarrow> resolve_alert_acceptance e False st
         | Accepted \<Rightarrow> dispatch_accepted env now e st
         | Unavailable \<Rightarrow> dispatch_accepted env now e st)"

text \<open>The ticker branch.\<close>

definition dispatch_tick :: "'l dispatch_env \<Rightarrow> ms \<Rightarrow> 'l dispatcher \<Rightarrow> 'l dispatcher" where
  "dispatch_tick env now st =
     (let st = flush_due_batches env now st
      in st\<lparr>d_ledger := map_option (de_compact env (now div 1000)) (d_ledger st)\<rparr>)"

end
