(* ===== verification/DispatchCorrect.thy ===== *)
theory DispatchCorrect imports Dispatch BatchersCorrect begin

text \<open>
  Properties of the dispatcher. \<open>frame\<close> collects what every handler leaves alone: only the acceptance
  operations touch the waiters, only the acceptance step and the ticker touch the ledger, and the log only grows. \<open>frames\<close> is the collection of these facts.
\<close>

section \<open>Frames\<close>

definition frame :: "'l dispatcher \<Rightarrow> 'l dispatcher \<Rightarrow> bool" where
  "frame st st' = (d_acceptance st' = d_acceptance st \<and> d_ledger st' = d_ledger st \<and>
     (\<forall>i. d_journals st i = None \<longrightarrow> d_journals st' i = None) \<and> (\<exists>l. d_log st' = d_log st @ l))"

named_theorems frames

lemma frame_refl [frames]: "frame st st"
  by (simp add: frame_def)

lemma frame_trans: "frame a b \<Longrightarrow> frame b c \<Longrightarrow> frame a c"
  by (auto simp: frame_def)

lemma frame_emit: "frame a b \<Longrightarrow> frame a (emit r b)"
  by (auto simp: frame_def emit_def)

lemmas emit_defs = emit_route_trace_def emit_routine_deferred_def emit_routine_flushed_def emit_dispatch_failure_def

lemma frame_emits [frames]:
  "frame a b \<Longrightarrow> frame a (emit_route_trace env e d b)"
  "frame a b \<Longrightarrow> frame a (emit_routine_deferred env e d b)"
  "frame a b \<Longrightarrow> frame a (emit_routine_flushed env f n b)"
  "frame a b \<Longrightarrow> frame a (emit_dispatch_failure env e r x err b)"
  by (simp_all add: emit_defs Let_def frame_emit)

lemma frame_updates [frames]:
  "frame a b \<Longrightarrow> frame a (b\<lparr>d_store := s\<rparr>)" "frame a b \<Longrightarrow> frame a (b\<lparr>d_ci := q\<rparr>)"
  "frame a b \<Longrightarrow> frame a (b\<lparr>d_routine := r\<rparr>)"
  "frame a b \<Longrightarrow> frame a (b\<lparr>d_log := d_log b @ l\<rparr>)"
  by (auto simp: frame_def)

lemma frame_send_sink: "frame st (fst (send_sink_message env name sink target m st))"
  by (auto simp: send_sink_message_def Let_def split: option.split intro!: frame_emit frames)

lemma frame_attempt: "frame st (fst (attempt_delivery env e d st))"
  by (auto simp: attempt_delivery_def frame_send_sink split: option.split sum.split intro!: frames)

lemma frame_attempt_trans: "frame a st \<Longrightarrow> frame a (fst (attempt_delivery env e d st))"
  by (rule frame_trans[OF _ frame_attempt])

lemma frame_send_delivery: "frame st (fst (send_delivery env e d st))"
  by (auto simp: send_delivery_def Let_def case_prod_unfold frame_attempt split: option.split
      intro!: frames frame_attempt_trans)

lemma frame_render_items: "frame a st \<Longrightarrow> frame a (fst (render_items env idx items st))"
  by (induction env idx items st rule: render_items.induct)
    (auto simp: Let_def case_prod_unfold split: sum.split intro: frames)

lemma frame_send_messages: "frame a st \<Longrightarrow> frame a (send_messages env name sink target ms st)"
  by (induction env name sink target ms st rule: send_messages.induct) (auto intro: frame_trans frame_send_sink)

lemma frame_routine_batch: "frame st (send_routine_batch env items st)"
proof (cases items rule: remdups_adj.cases)
  case (3 first second rest)
  show ?thesis
    by (auto simp: send_routine_batch_def 3 Let_def case_prod_unfold simp del: render_items.simps send_messages.simps split: option.split
        intro!: frames frame_send_messages frame_render_items)
qed (simp_all add: send_routine_batch_def frame_refl frame_send_delivery)

lemma frame_send_deliveries: "frame a st \<Longrightarrow> frame a (send_deliveries env e ds st)"
  by (induction env e ds st rule: send_deliveries.induct)
    (auto intro: frame_trans[OF frame_emits(1) frame_send_delivery])

lemma frame_deliver_event: "frame a st \<Longrightarrow> frame a (deliver_event env e st)"
  by (auto simp: deliver_event_def split: sum.split intro: frames frame_send_deliveries)

lemma frame_deliver_events: "frame a st \<Longrightarrow> frame a (deliver_events env es st)"
  unfolding deliver_events_def by (induction es arbitrary: st) (auto intro: frame_deliver_event)

lemma frame_dispatch_deliveries: "frame a st \<Longrightarrow> frame a (fst (dispatch_deliveries env e now ds acc st))"
proof (induction ds arbitrary: acc st)
  case (Cons d ds)
  have send: "frame a (fst (send_delivery env e d st'))" if "frame a st'" for st'
    using that frame_send_delivery by (rule frame_trans)
  show ?case
    using Cons.prems by (auto simp: Let_def case_prod_unfold split: option.split intro!: Cons.IH send frames)
qed simp

lemma frame_resolve_and_dispatch: "frame a st \<Longrightarrow> frame a (fst (resolve_and_dispatch env e now st))"
  by (auto simp: resolve_and_dispatch_def split: sum.split intro: frames frame_dispatch_deliveries)

lemma frame_flush: "frame a st \<Longrightarrow> frame a (flush_due_batches env now st)"
proof -
  assume f: "frame a st"
  have batches: "frame a (foldl (\<lambda>st items. send_routine_batch env items st) st' bs)" if "frame a st'" for st' bs
    using that
  proof (induction bs arbitrary: st')
    case (Cons b bs)
    from Cons.IH[OF frame_trans[OF Cons.prems frame_routine_batch]] show ?case by simp
  qed simp
  show ?thesis using f
    by (auto simp: flush_due_batches_def Let_def case_prod_unfold split: option.split
        intro!: batches frames frame_deliver_events)
qed

text \<open>Recording an event changes the ledger and nothing else.\<close>

definition with_ledger :: "'l option \<Rightarrow> 'l dispatcher \<Rightarrow> 'l dispatcher" where
  "with_ledger g st = st\<lparr>d_ledger := g\<rparr>"

lemma with_ledger_sel [simp]:
  "d_acceptance (with_ledger g st) = d_acceptance st" "d_log (with_ledger g st) = d_log st"
  "d_ledger (with_ledger g st) = g" "d_journals (with_ledger g st) = d_journals st"
  by (simp_all add: with_ledger_def)

lemma record_changes_ledger:
  "fst (record_event_result env e st) =
     with_ledger (map_option (\<lambda>l. fst (de_append env l e)) (d_ledger st)) st"
  by (cases "d_ledger st") (auto simp: record_event_result_def with_ledger_def Let_def case_prod_unfold)

section \<open>Waiters are answered\<close>

lemma frame_dispatch_accepted:
  assumes "frame a st" and "event_id_of e = Some i" and "d_acceptance a i = Some ns"
  shows "d_acceptance (dispatch_accepted env now e st) i = None \<and>
    (\<exists>b. list_all (\<lambda>n. Answer n b \<in> set (d_log (dispatch_accepted env now e st))) ns)"
proof -
  have answered: "d_acceptance (resolve_alert_acceptance e b st') i = None \<and>
      list_all (\<lambda>n. Answer n b \<in> set (d_log (resolve_alert_acceptance e b st'))) ns" if "frame a st'" for b st'
    using that assms(2,3)
    by (auto simp: resolve_alert_acceptance_def resolve_alert_acceptance_id_def frame_def list_all_iff)
  have clear: "frame a st' \<Longrightarrow> frame a (clear_alert_delivery_journal i st')" for st'
    by (simp add: frame_def clear_alert_delivery_journal_def)
  let ?st = "flush_due_batches env now st"
  have f: "frame a ?st" using assms(1) by (rule frame_flush)
  show ?thesis
  proof (cases "is_ci_event e")
    case True
    have "frame a (deliver_events env (snd (ci_observe (de_enc env) e now (d_ci ?st)))
        (?st\<lparr>d_ci := fst (ci_observe (de_enc env) e now (d_ci ?st))\<rparr>))"
      by (intro frame_deliver_events frames f)
    from answered[OF this] True show ?thesis
      by (auto simp: dispatch_accepted_def Let_def case_prod_unfold)
  next
    case False
    let ?r = "resolve_and_dispatch env e now ?st"
    from answered[OF clear[OF frame_resolve_and_dispatch[OF f]], of "snd ?r"] False show ?thesis
      by (auto simp: dispatch_accepted_def Let_def case_prod_unfold assms(2))
  qed
qed

text \<open>
  C6. No waiter is left waiting: whatever the ledger says, whatever the routes, sinks, journals and
  batches do, after the dispatcher has handled an event every waiter registered for its identifier has
  been answered, all with the same verdict, and none remains registered.
\<close>

theorem acceptance_always_answered:
  assumes "event_id_of (normalize_event timestamp uuid received) = Some i"
    and "d_acceptance st i = Some ns"
  shows "let st' = dispatch_event env timestamp uuid now received st
         in d_acceptance st' i = None \<and> (\<exists>b. list_all (\<lambda>n. Answer n b \<in> set (d_log st')) ns)"
proof -
  let ?e = "normalize_event timestamp uuid received"
  let ?r = "record_event_result env ?e st"
  have acc: "d_acceptance (fst ?r) i = Some ns" using assms(2) by (simp add: record_changes_ledger)
  have direct: "d_acceptance (resolve_alert_acceptance ?e b (fst ?r)) i = None \<and>
      list_all (\<lambda>n. Answer n b \<in> set (d_log (resolve_alert_acceptance ?e b (fst ?r)))) ns" for b
    using acc assms(1)
    by (auto simp: resolve_alert_acceptance_def resolve_alert_acceptance_id_def list_all_iff)
  note full = frame_dispatch_accepted[OF frame_refl assms(1) acc, of env now]
  show ?thesis
    using direct full by (cases "snd ?r") (auto simp: dispatch_event_def Let_def case_prod_unfold)
qed

section \<open>At most once\<close>

text \<open>The answers of the sink calls in a part of the log.\<close>

fun sink_answers :: "effect list \<Rightarrow> bool list" where
  "sink_answers [] = []"
| "sink_answers (SinkSend _ _ _ res # es) = (res = None) # sink_answers es"
| "sink_answers (_ # es) = sink_answers es"

lemma sink_answers_append [simp]: "sink_answers (a @ b) = sink_answers a @ sink_answers b"
  by (induction a rule: sink_answers.induct) auto

definition new_answers :: "'l dispatcher \<Rightarrow> 'l dispatcher \<Rightarrow> bool list" where
  "new_answers st st' = sink_answers (drop (length (d_log st)) (d_log st'))"

lemma new_answers_store [simp]:
  "new_answers (st\<lparr>d_store := s\<rparr>) st' = new_answers st st'"
  "new_answers st (st'\<lparr>d_store := s\<rparr>) = new_answers st st'"
  by (simp_all add: new_answers_def)

lemma new_answers_failure [simp]: "new_answers st (emit_dispatch_failure env e r x err st) = []"
  by (simp add: new_answers_def emit_dispatch_failure_def Let_def emit_def)

lemma attempt_answers:
  "new_answers st (fst (attempt_delivery env e d st)) = [snd (attempt_delivery env e d st)] \<or>
   (new_answers st (fst (attempt_delivery env e d st)) = [] \<and> \<not> snd (attempt_delivery env e d st))"
  by (auto simp: attempt_delivery_def send_sink_message_def new_answers_def Let_def emit_def
      emit_dispatch_failure_def split: option.split sum.split)

lemma attempt_store [simp]:
  "d_store (fst (attempt_delivery env e d st)) = d_store st"
  "d_journals (fst (attempt_delivery env e d st)) = d_journals st"
  by (auto simp: attempt_delivery_def send_sink_message_def Let_def emit_def emit_dispatch_failure_def
      split: option.split sum.split)

text \<open>
  A history of one alert: deliveries of its event (\<open>Some\<close>) and restarts of the daemon (\<open>None\<close>), which
  reload the store from disk. The result lists the sink calls as destination and answer.
\<close>

fun alert_history ::
    "'l dispatch_env \<Rightarrow> incoming_event \<Rightarrow> 'l dispatcher \<Rightarrow> resolved_delivery option list \<Rightarrow> (string \<times> bool) list" where
  "alert_history env e st [] = []"
| "alert_history env e st (None # ops) = alert_history env e (st\<lparr>d_store := lane_reload (d_store st)\<rparr>) ops"
| "alert_history env e st (Some d # ops) =
     (let st' = fst (send_delivery env e d st)
      in map (Pair (alert_destination_key env d)) (new_answers st st') @ alert_history env e st' ops)"

text \<open>One delivery is one attempt of the journal's contract, up to failed sink calls.\<close>

lemma send_simulates:
  assumes "alert_delivery_journal e st = Some h" and "k = alert_destination_key env d"
    and "st' = fst (send_delivery env e d st)"
  shows "\<exists>b. d_store st' = fst (gjc.attempt (de_disk_ok env) (de_rfc3339 env) h (d_store st) (k, b)) \<and>
      filter snd (map (Pair k) (new_answers st st')) =
        filter snd (snd (gjc.attempt (de_disk_ok env) (de_rfc3339 env) h (d_store st) (k, b))) \<and>
      d_journals st' = d_journals st"
proof -
  let ?c = "journal_claim (de_disk_ok env) (de_rfc3339 env) (d_store st) h k"
  let ?a = "attempt_delivery env e d (st\<lparr>d_store := fst ?c\<rparr>)"
  have none: "new_answers st st = []" by (simp add: new_answers_def)
  have journals: "d_journals (emit_dispatch_failure env e r x err st1) = d_journals st1"
    "d_store (emit_dispatch_failure env e r x err st1) = d_store st1" for r x err and st1 :: "'a dispatcher"
    by (simp_all add: emit_dispatch_failure_def Let_def emit_def)
  consider (own) "owned (journal_state (d_store st) h k)"
    | (no) "\<not> owned (journal_state (d_store st) h k)" "\<not> snd ?c"
    | (yes) "\<not> owned (journal_state (d_store st) h k)" "snd ?c" by blast
  then show ?thesis
  proof cases
    case own
    then show ?thesis using assms none
      by (simp add: send_delivery_def gjc.attempt_def)
  next
    case no
    then have "st' = emit_dispatch_failure env e ''sink_send_failed'' (Some d)
        ''durable alert delivery ownership unavailable'' (st\<lparr>d_store := fst ?c\<rparr>)"
      using assms by (simp add: send_delivery_def Let_def case_prod_unfold)
    moreover have "new_answers st (emit_dispatch_failure env e r x err (st\<lparr>d_store := fst ?c\<rparr>)) = []" for r x err
      by (simp add: new_answers_def emit_dispatch_failure_def Let_def emit_def)
    ultimately show ?thesis using no by (simp add: gjc.attempt_def Let_def journals)
  next
    case yes
    then have st': "st' = (fst ?a)\<lparr>d_store := fst (journal_record (de_disk_ok env) (de_rfc3339 env)
        (d_store (fst ?a)) h k (snd ?a))\<rparr>"
      using assms by (simp add: send_delivery_def Let_def case_prod_unfold)
    have "new_answers st (fst ?a) = [snd ?a] \<or> new_answers st (fst ?a) = [] \<and> \<not> snd ?a"
      using attempt_answers[of "st\<lparr>d_store := fst ?c\<rparr>" env e d] by simp
    then show ?thesis using yes
      by (intro exI[of _ "snd ?a"]) (auto simp: st' gjc.attempt_def Let_def)
  qed
qed

lemma history_simulates:
  "alert_delivery_journal e st = Some h \<Longrightarrow>
     \<exists>ops'. filter snd (alert_history env e st ops) =
       filter snd (gjc.attempts (de_disk_ok env) (de_rfc3339 env) h (d_store st) ops')"
proof (induction env e st ops rule: alert_history.induct)
  case (1 env e st)
  have "filter snd (alert_history env e st []) =
      filter snd (gjc.attempts (de_disk_ok env) (de_rfc3339 env) h (d_store st) [])" by simp
  then show ?case by blast
next
  case (2 env e st ops)
  then have "alert_delivery_journal e (st\<lparr>d_store := lane_reload (d_store st)\<rparr>) = Some h"
    by (simp add: alert_delivery_journal_def)
  from 2(1)[OF this] obtain ops' where "filter snd (alert_history env e (st\<lparr>d_store := lane_reload (d_store st)\<rparr>) ops) =
      filter snd (gjc.attempts (de_disk_ok env) (de_rfc3339 env) h (lane_reload (d_store st)) ops')" by auto
  then show ?case by (intro exI[of _ "None # ops'"]) simp
next
  case (3 env e st d ops)
  let ?k = "alert_destination_key env d" and ?st' = "fst (send_delivery env e d st)"
  from send_simulates[OF 3(2) refl refl] obtain b where b:
    "d_store ?st' = fst (gjc.attempt (de_disk_ok env) (de_rfc3339 env) h (d_store st) (?k, b))"
    "filter snd (map (Pair ?k) (new_answers st ?st')) =
       filter snd (snd (gjc.attempt (de_disk_ok env) (de_rfc3339 env) h (d_store st) (?k, b)))"
    "d_journals ?st' = d_journals st" by blast
  then have "alert_delivery_journal e ?st' = Some h" using 3(2) by (simp add: alert_delivery_journal_def)
  from 3(1)[OF refl this] obtain ops' where "filter snd (alert_history env e ?st' ops) =
      filter snd (gjc.attempts (de_disk_ok env) (de_rfc3339 env) h (d_store ?st') ops')" by blast
  with b show ?case by (intro exI[of _ "Some (?k, b) # ops'"]) (simp add: Let_def)
qed

text \<open>
  C2. At most once: however often an alert is delivered, to whatever destinations, however sinks answer,
  whenever the disk fails and whenever the daemon restarts from its state file, each destination
  accepts the alert at most once.
\<close>

theorem alert_at_most_once:
  assumes "alert_delivery_journal e st = Some h"
  shows "length (filter (\<lambda>a. a = (k, True)) (alert_history env e st ops)) \<le> 1"
proof -
  obtain ops' where sim: "filter snd (alert_history env e st ops) =
      filter snd (gjc.attempts (de_disk_ok env) (de_rfc3339 env) h (d_store st) ops')"
    using history_simulates[OF assms] by blast
  have "filter (\<lambda>a. a = (k, True)) xs = filter (\<lambda>a. a = (k, True)) (filter snd xs)" for xs :: "(string \<times> bool) list"
    by (induction xs) auto
  then have "filter (\<lambda>a. a = (k, True)) (alert_history env e st ops) =
      filter (\<lambda>a. a = (k, True)) (gjc.attempts (de_disk_ok env) (de_rfc3339 env) h (d_store st) ops')"
    using sim by metis
  then show ?thesis using gjc.at_most_once by metis
qed

definition sample_alert :: incoming_event where
  "sample_alert = workspace_event ''session.failed'' (jobject [(''event_id'', JStr ''evt'')]) None"

definition sample_store :: lane_store where
  "sample_store =
     (let alert = \<lparr>pa_event_id = ''evt'', pa_kind = ''session.failed'', pa_payload = ev_payload sample_alert,
                    pa_queued_at = [], pa_attempts = 0, pa_turn_failure = None, pa_deliveries = []\<rparr>;
          lane = lane_record_new ''lane'' ''s1'' None None 0 ownership_default None [];
          s = lane_state_new\<lparr>lf_lanes := [(''lane'', lane\<lparr>lr_pending_alerts := [alert]\<rparr>)]\<rparr>
      in \<lparr>ls_state = s, ls_disk = Parsed s, ls_status = StoreLoaded 1\<rparr>)"

text \<open>An environment with a Discord sink that accepts everything and a disk given by \<open>disk_ok\<close>.\<close>

definition sample_dispatch_env :: "(nat \<Rightarrow> bool) \<Rightarrow> unit dispatch_env" where
  "sample_dispatch_env disk_ok =
     \<lparr>de_cfg = sample_config [], de_show_array = (\<lambda>_. []), de_parse_url = (\<lambda>_. None), de_tokens = sample_env,
      de_renderer = (\<lambda>_ _. Ok ''text''), de_sip_hash = (\<lambda>_ _. 0), de_to_json = (\<lambda>_. None),
      de_enc = unary_enc, de_dec = unary_dec,
      de_sinks = (\<lambda>name. if name = ''discord'' then Some (\<lambda>_ _ _. None) else None),
      de_disk_ok = disk_ok, de_rfc3339 = ''t'', de_append = (\<lambda>l _. (l, Ok Appended)), de_compact = (\<lambda>_ l. l)\<rparr>"

definition sample_dispatcher :: "unit dispatcher" where
  "sample_dispatcher =
     register_alert_delivery_journal ''evt'' \<lparr>ah_lane_id = ''lane'', ah_event_id = ''evt''\<rparr>
       (dispatcher_new 0 5000 (Some 5000) None sample_store)"

theorem alert_at_most_once_witness:
  "length (filter (\<lambda>a. a = (''route:fallback:discord:channel:ops'', True))
     (alert_history (sample_dispatch_env (\<lambda>_. True)) sample_alert sample_dispatcher
        [Some sample_delivery, None, Some sample_delivery])) \<le> 1 \<and>
   alert_history (sample_dispatch_env (\<lambda>_. True)) sample_alert sample_dispatcher
        [Some sample_delivery, None, Some sample_delivery] = [(''route:fallback:discord:channel:ops'', True)]"
proof -
  have j: "alert_delivery_journal sample_alert sample_dispatcher = Some \<lparr>ah_lane_id = ''lane'', ah_event_id = ''evt''\<rparr>"
    by code_simp
  have "alert_history (sample_dispatch_env (\<lambda>_. True)) sample_alert sample_dispatcher
      [Some sample_delivery, None, Some sample_delivery] = [(''route:fallback:discord:channel:ops'', True)]"
    by code_simp
  with alert_at_most_once[OF j] show ?thesis by blast
qed

theorem acceptance_always_answered_witness:
  "let env = sample_dispatch_env (\<lambda>_. True);
       st = register_alert_acceptance ''evt'' 7 sample_dispatcher;
       st' = dispatch_event env ''t'' ''u'' 10 sample_alert st
   in d_acceptance st ''evt'' = Some [7] \<and> d_acceptance st' ''evt'' = None \<and>
      (\<exists>b. Answer 7 b \<in> set (d_log st'))"
proof -
  have "ev_payload sample_alert = JObj [(''event_id'', JStr ''evt'')]" by code_simp
  from normalize_event_id[OF this, of "''t''" "''u''"]
  have i: "event_id_of (normalize_event ''t'' ''u'' sample_alert) = Some ''evt''"
    by (simp add: event_id_of_def get_str_def)
  have a: "d_acceptance (register_alert_acceptance ''evt'' 7 sample_dispatcher) ''evt'' = Some [7]"
    by (simp add: register_alert_acceptance_def sample_dispatcher_def dispatcher_new_def
        register_alert_delivery_journal_def)
  from acceptance_always_answered[OF i a, of "sample_dispatch_env (\<lambda>_. True)" 10] a
  show ?thesis by (simp add: Let_def)
qed

text \<open>
  An alert can be lost silently. The store keeps a claim in memory even when writing it to disk
  fails. Here the first write fails: the first delivery is refused without a sink call, and the
  second, with the disk working again, finds the destination claimed, reports success, and makes no
  sink call either, so the alert would be acknowledged without having been sent.
\<close>

theorem failed_claim_silences_alert:
  "let env = sample_dispatch_env (\<lambda>generation. generation \<noteq> 1);
       first = send_delivery env sample_alert sample_delivery sample_dispatcher;
       second = send_delivery env sample_alert sample_delivery (fst first)
   in \<not> snd first \<and> snd second \<and> sink_answers (d_log (fst second)) = []"
  by code_simp

section \<open>What is sent\<close>

fun sent_messages :: "effect list \<Rightarrow> sink_message list" where
  "sent_messages [] = []"
| "sent_messages (SinkSend _ _ m _ # es) = m # sent_messages es"
| "sent_messages (_ # es) = sent_messages es"

lemma sent_messages_append [simp]: "sent_messages (a @ b) = sent_messages a @ sent_messages b"
  by (induction a rule: sent_messages.induct) auto

lemma sent_emit [simp]:
  "sent_messages (d_log (emit_dispatch_failure env e r x err st)) = sent_messages (d_log st)"
  "sent_messages (d_log (emit_routine_flushed env f n st)) = sent_messages (d_log st)"
  by (simp_all add: emit_defs Let_def emit_def)

lemma sent_send_messages:
  "sent_messages (d_log (send_messages env name sink target ms st)) = sent_messages (d_log st) @ ms"
proof (induction ms arbitrary: st)
  case (Cons m ms)
  have "sent_messages (d_log (fst (send_sink_message env name sink target m st))) = sent_messages (d_log st) @ [m]"
    by (auto simp: send_sink_message_def Let_def emit_def split: option.split)
  with Cons show ?case by simp
qed simp

lemma sent_render_items:
  "sent_messages (d_log (fst (render_items env idx items st))) = sent_messages (d_log st)"
  by (induction env idx items st rule: render_items.induct)
    (auto simp: Let_def case_prod_unfold split: sum.split)

definition item_body :: "'l dispatch_env \<Rightarrow> queued_routine_delivery \<Rightarrow> string option" where
  "item_body env item = res_ok (render_delivery_body (de_show_array env) (de_tokens env) (de_renderer env)
     (qr_event item) (qr_delivery item))"

lemma rendered_bodies:
  "map (\<lambda>x. fst (snd x)) (snd (render_items env idx items st)) = List.map_filter (item_body env) items"
  by (induction env idx items st rule: render_items.induct)
    (auto simp: Let_def case_prod_unfold item_body_def map_filter_simps split: sum.split)

definition message_count :: "sink_message \<Rightarrow> nat" where
  "message_count m = unwrap_or (Option.bind (sm_telemetry m) st_batch_count) 0"

lemma chunk_message_sel [simp]:
  "sm_content (chunk_message env first n c) = ch_content c"
  "message_count (chunk_message env first n c) = ch_event_count c"
  by (simp_all add: chunk_message_def message_count_def sink_telemetry_for_def)

lemma chunk_counts: "sum_list (map ch_event_count (split_discord_routine_chunks rendered)) = length rendered"
proof -
  from chunks_partition_raw[of rendered] obtain groups where
    "concat groups = [0 ..< length rendered]" "map ch_event_count (split_discord_routine_chunks rendered) = map length groups"
    by blast
  then show ?thesis by (metis diff_zero length_concat length_upt)
qed

lemma split_Nil [simp]: "split_discord_routine_chunks [] = []"
  by (simp add: split_discord_routine_chunks_def batch_chunks_def)

text \<open>
  C5. A flushed batch of two or more Discord deliveries is sent completely: the messages handed to the
  sink are the chunks of the bodies that rendered, in order; their batch counts add up to the number
  of those bodies, and none exceeds 2,000 scalar values. Items whose rendering fails are the only
  ones left out.
\<close>

theorem routine_batch_sent_completely:
  assumes "items = first # second # rest" and "is_discord_target (rd_target (qr_delivery first))"
    and "de_sinks env (rd_sink (qr_delivery first)) = Some sink"
  shows "let st' = send_routine_batch env items st;
             bodies = List.map_filter (item_body env) items;
             rendered = snd (render_items env 0 items st);
             sent = drop (length (sent_messages (d_log st))) (sent_messages (d_log st'))
         in map (\<lambda>x. fst (snd x)) rendered = bodies \<and>
            map sm_content sent = map ch_content (split_discord_routine_chunks rendered) \<and>
            sum_list (map message_count sent) = length bodies \<and>
            list_all (\<lambda>m. char_count (sm_content m) \<le> 2000) sent"
proof -
  let ?rs = "render_items env 0 items st" and ?d = "qr_delivery first"
  let ?st1 = "emit_routine_flushed env first (length (snd ?rs)) (fst ?rs)"
  let ?ms = "map (chunk_message env first (length (snd ?rs))) (split_discord_routine_chunks (snd ?rs))"
  have "send_routine_batch env items st =
      (if snd ?rs = [] then fst ?rs else send_messages env (rd_sink ?d) sink (rd_target ?d) ?ms ?st1)"
    using assms by (simp add: send_routine_batch_def Let_def case_prod_unfold del: render_items.simps)
  then have "sent_messages (d_log (send_routine_batch env items st)) = sent_messages (d_log st) @ ?ms"
    by (simp add: sent_send_messages sent_render_items)
  moreover have "length (List.map_filter (item_body env) items) = length (snd ?rs)"
    by (metis rendered_bodies length_map)
  moreover have "list_all (\<lambda>text. char_count text \<le> 2000) (map ch_content (split_discord_routine_chunks (snd ?rs)))"
    using chunks_partition_raw[of "snd ?rs"] by blast
  ultimately show ?thesis
    by (simp add: Let_def rendered_bodies chunk_counts comp_def list.pred_map)
qed

definition sample_batch :: "queued_routine_delivery list" where
  "sample_batch = [sample_item, sample_item]"

theorem routine_batch_sent_completely_witness:
  "let st' = send_routine_batch (sample_dispatch_env (\<lambda>_. True)) sample_batch sample_dispatcher;
       sent = drop (length (sent_messages (d_log sample_dispatcher))) (sent_messages (d_log st'))
   in sum_list (map message_count sent) = 2 \<and> list_all (\<lambda>m. char_count (sm_content m) \<le> 2000) sent"
proof -
  have sink: "de_sinks (sample_dispatch_env (\<lambda>_. True)) (rd_sink (qr_delivery sample_item)) = Some (\<lambda>_ _ _. None)"
    by (simp add: sample_dispatch_env_def sample_item_def sample_delivery_def)
  have target: "is_discord_target (rd_target (qr_delivery sample_item))"
    by (simp add: sample_item_def sample_delivery_def)
  have bodies: "length (List.map_filter (item_body (sample_dispatch_env (\<lambda>_. True))) sample_batch) = 2" by code_simp
  from routine_batch_sent_completely[OF sample_batch_def target sink, of sample_dispatcher] bodies
  show ?thesis by (simp add: Let_def)
qed

end
