(* ===== verification/Cron.thy ===== *)
theory Cron imports Events Targets begin

text \<open>
  The cron source, \<open>src/cron.rs\<close>: schedules (\<open>CronField\<close>, \<open>CronSchedule\<close>), the evaluation of a job's state file
  (\<open>StateEvaluation\<close> and the receipt predicates), validation, and the scheduler with its catch-up loop,
  its zero-backlog leases and its persisted state.

  A value of type \<open>u8\<close> is a natural number with the checks of \<open>checked_add\<close> and \<open>parse\<close> written out. The
  loop over a range is a \<^theory_text>\<open>partial_function\<close>: \<^term>\<open>None\<close> means that it does not return, and that
  parsing always returns is a theorem. The calendar of the \<open>time\<close> crate, the JSON text functions, the
  file contents, the clock and the receiving channel are parameters.
\<close>

section \<open>Schedules\<close>

record cron_field =
  cf_any :: bool
  cf_allowed :: "nat set"

record cron_schedule =
  cs_minute :: cron_field
  cs_hour :: cron_field
  cs_day_of_month :: cron_field
  cs_month :: cron_field
  cs_day_of_week :: cron_field

datatype weekday = Monday | Tuesday | Wednesday | Thursday | Friday | Saturday | Sunday

text \<open>What the scheduler reads of an \<open>OffsetDateTime\<close>.\<close>

record civil_time =
  ct_minute :: nat
  ct_hour :: nat
  ct_day :: nat
  ct_month :: nat
  ct_weekday :: weekday

definition normalize_field_value :: "nat \<Rightarrow> bool \<Rightarrow> nat" where
  "normalize_field_value v wrap_sunday = (if wrap_sunday \<and> v = 7 then 0 else v)"

definition parse_field_value :: "string \<Rightarrow> nat \<Rightarrow> nat \<Rightarrow> string + nat" where
  "parse_field_value raw lo hi =
     (case parse_uint u8_max (trim raw) of
        None \<Rightarrow> Err (''invalid cron value '' @ raw)
      | Some v \<Rightarrow> if lo \<le> v \<and> v \<le> hi then Ok v else Err (''cron value outside range: '' @ raw))"

text \<open>The inner loop: insert the value, advance by the step while the sum fits \<open>u8\<close> and the range.\<close>

partial_function (option) field_range :: "bool \<Rightarrow> nat \<Rightarrow> nat \<Rightarrow> nat \<Rightarrow> nat set \<Rightarrow> nat set option" where
  "field_range wrap_sunday step stop v allowed =
     (let allowed' = insert (normalize_field_value v wrap_sunday) allowed
      in if v + step \<le> 255 \<and> v + step \<le> stop
         then field_range wrap_sunday step stop (v + step) allowed'
         else Some allowed')"

declare field_range.simps [code]

text \<open>A part of a field: its first and last value and its step.\<close>

definition part_step :: "string \<Rightarrow> string + string \<times> nat" where
  "part_step part =
     (case split_once ''/'' part of
        Some (base, step) \<Rightarrow>
          (case parse_uint u8_max step of
             None \<Rightarrow> Err (''invalid cron step '' @ step)
           | Some n \<Rightarrow> if n = 0 then Err (''cron step must be at least 1 in '' @ part) else Ok (base, n))
      | None \<Rightarrow> Ok (part, 1))"

definition part_bounds :: "nat \<Rightarrow> nat \<Rightarrow> string \<Rightarrow> string + nat \<times> nat" where
  "part_bounds lo hi base =
     (if base = ''*'' then Ok (lo, hi)
      else case split_once ''-'' base of
        Some (start, stop) \<Rightarrow>
          res_bind (parse_field_value start lo hi) (\<lambda>a.
          res_bind (parse_field_value stop lo hi) (\<lambda>b. Ok (a, b)))
      | None \<Rightarrow> res_bind (parse_field_value base lo hi) (\<lambda>v. Ok (v, v)))"

definition part_range :: "nat \<Rightarrow> nat \<Rightarrow> string \<Rightarrow> string + nat \<times> nat \<times> nat" where
  "part_range lo hi part =
     (if part = [] then Err ''invalid cron field''
      else res_bind (part_step part) (\<lambda>(base, step).
           res_bind (part_bounds lo hi base) (\<lambda>(start, stop).
             if stop < start then Err (''invalid descending cron range '' @ part) else Ok (start, stop, step))))"

fun parse_parts :: "nat \<Rightarrow> nat \<Rightarrow> bool \<Rightarrow> string list \<Rightarrow> nat set \<Rightarrow> (string + nat set) option" where
  "parse_parts lo hi wrap_sunday [] allowed = Some (Ok allowed)"
| "parse_parts lo hi wrap_sunday (raw # parts) allowed =
     (case part_range lo hi (trim raw) of
        Inl e \<Rightarrow> Some (Err e)
      | Inr (start, stop, step) \<Rightarrow>
          Option.bind (field_range wrap_sunday step stop start allowed)
            (\<lambda>allowed'. parse_parts lo hi wrap_sunday parts allowed'))"

definition cron_field_parse :: "string \<Rightarrow> nat \<Rightarrow> nat \<Rightarrow> bool \<Rightarrow> (string + cron_field) option" where
  "cron_field_parse raw lo hi wrap_sunday =
     (let spec = trim raw
      in if spec = [] then Some (Err ''empty cron field'')
         else if spec = ''*'' then Some (Ok \<lparr>cf_any = True, cf_allowed = {}\<rparr>)
         else map_option
           (\<lambda>r. res_bind r (\<lambda>allowed.
              if allowed = {} then Err (''cron field resolved to no values: '' @ spec)
              else Ok \<lparr>cf_any = False, cf_allowed = allowed\<rparr>))
           (parse_parts lo hi wrap_sunday (split_on CHR '','' spec) {}))"

definition field_contains :: "cron_field \<Rightarrow> nat \<Rightarrow> bool" where
  "field_contains f v = (cf_any f \<or> v \<in> cf_allowed f)"

text \<open>The fields are parsed in order; the first error ends the parse.\<close>

fun parse_fields :: "(string \<times> nat \<times> nat \<times> bool) list \<Rightarrow> (string + cron_field list) option" where
  "parse_fields [] = Some (Ok [])"
| "parse_fields ((raw, lo, hi, wrap) # rest) =
     Option.bind (cron_field_parse raw lo hi wrap) (\<lambda>r.
       case r of
         Inl e \<Rightarrow> Some (Err e)
       | Inr f \<Rightarrow> map_option (\<lambda>r. res_bind r (\<lambda>fs. Ok (f # fs))) (parse_fields rest))"

definition cron_schedule_parse :: "string \<Rightarrow> (string + cron_schedule) option" where
  "cron_schedule_parse spec =
     (case split_whitespace spec of
        [mi, ho, dm, mo, dw] \<Rightarrow>
          map_option (\<lambda>r. res_bind r (\<lambda>fs.
            case fs of
              [fm, fh, fdom, fmon, fdow] \<Rightarrow>
                Ok \<lparr>cs_minute = fm, cs_hour = fh, cs_day_of_month = fdom, cs_month = fmon, cs_day_of_week = fdow\<rparr>
            | _ \<Rightarrow> Err []))
            (parse_fields [(mi, 0, 59, False), (ho, 0, 23, False), (dm, 1, 31, False), (mo, 1, 12, False),
               (dw, 0, 7, True)])
      | _ \<Rightarrow> Some (Err (''cron schedule must have exactly 5 fields: '' @ spec)))"

fun weekday_to_cron :: "weekday \<Rightarrow> nat" where
  "weekday_to_cron Sunday = 0"
| "weekday_to_cron Monday = 1"
| "weekday_to_cron Tuesday = 2"
| "weekday_to_cron Wednesday = 3"
| "weekday_to_cron Thursday = 4"
| "weekday_to_cron Friday = 5"
| "weekday_to_cron Saturday = 6"

definition schedule_matches :: "cron_schedule \<Rightarrow> civil_time \<Rightarrow> bool" where
  "schedule_matches s t =
     (let by_month = field_contains (cs_day_of_month s) (ct_day t);
          by_week = field_contains (cs_day_of_week s) (weekday_to_cron (ct_weekday t));
          day_matches = (if cf_any (cs_day_of_month s) \<or> cf_any (cs_day_of_week s) then by_month \<and> by_week
             else by_month \<or> by_week)
      in field_contains (cs_minute s) (ct_minute t) \<and> field_contains (cs_hour s) (ct_hour t) \<and>
         field_contains (cs_month s) (ct_month t) \<and> day_matches)"

section \<open>Jobs\<close>

datatype cron_job_kind = CustomMessage string

record cron_job =
  cj_id :: string
  cj_schedule :: string
  cj_timezone :: string
  cj_enabled :: bool
  cj_channel :: "string option"
  cj_mention :: "string option"
  cj_format :: "message_format option"
  cj_state_file :: "string option"
  cj_ttl_secs :: nat
  cj_kind :: cron_job_kind

definition timezone_is_supported :: "string \<Rightarrow> bool" where
  "timezone_is_supported tz = (trim tz = ''UTC'' \<or> trim tz = ''Etc/UTC'')"

definition validate_timezone :: "cron_job \<Rightarrow> string + unit" where
  "validate_timezone job =
     (if timezone_is_supported (cj_timezone job) then Ok ()
      else Err (''cron job uses unsupported timezone: '' @ cj_id job))"

definition validate_job :: "cron_job \<Rightarrow> (string + unit) option" where
  "validate_job job =
     (if blank (cj_id job) then Some (Err ''cron jobs must set id'')
      else if blank (cj_schedule job) then Some (Err (''cron job must set schedule: '' @ cj_id job))
      else if (case cj_kind job of CustomMessage message \<Rightarrow> blank message)
      then Some (Err (''cron job must set message: '' @ cj_id job))
      else case validate_timezone job of
        Inl e \<Rightarrow> Some (Err e)
      | Inr _ \<Rightarrow> map_option (\<lambda>r. res_bind r (\<lambda>_. Ok ())) (cron_schedule_parse (cj_schedule job)))"

text \<open>The cron section of \<open>AppConfig::validate\<close>: every job is valid and no identifier occurs twice.\<close>

fun validate_cron_jobs :: "cron_job list \<Rightarrow> string set \<Rightarrow> (string + unit) option" where
  "validate_cron_jobs [] seen = Some (Ok ())"
| "validate_cron_jobs (job # jobs) seen =
     Option.bind (validate_job job) (\<lambda>r.
       case r of
         Inl e \<Rightarrow> Some (Err e)
       | Inr _ \<Rightarrow>
           if cj_id job \<in> seen then Some (Err (''duplicate cron job id '' @ cj_id job))
           else validate_cron_jobs jobs (insert (cj_id job) seen))"

section \<open>State files\<close>

record state_evaluation =
  se_fingerprint :: string
  se_suppression_key :: string
  se_zero_backlog :: bool
  se_observation_source :: string
  se_observation_confidence :: string
  se_github_api_fallback :: bool

definition token_char :: "string \<Rightarrow> bool" where
  "token_char ch =
     (case ch of [c] \<Rightarrow> is_ascii_alphanumeric c \<or> c \<in> {CHR ''-'', CHR ''_'', CHR ''.'', CHR '':'', CHR ''/''}
      | _ \<Rightarrow> False)"

definition bounded_public_token :: "string \<Rightarrow> string" where
  "bounded_public_token v = concat (take 96 (filter token_char (chars v)))"

fun public_value :: "json \<Rightarrow> json" where
  "public_value (JStr s) = JStr (bounded_public_token s)"
| "public_value (JArr xs) = jnat (length xs)"
| "public_value (JObj _) = JStr ''object''"
| "public_value v = v"

definition insert_public_value :: "json \<Rightarrow> (string, json) btree \<Rightarrow> string \<Rightarrow> (string, json) btree" where
  "insert_public_value value state key =
     (case json_get value key of None \<Rightarrow> state | Some v \<Rightarrow> bt_insert key (public_value v) state)"

definition public_state_keys :: "string list" where
  "public_state_keys =
     [''family'', ''status'', ''receipt_id'', ''subject'', ''open_issues'', ''open_prs'', ''latest_dev_ci'',
      ''dev_ci'', ''dev_head'', ''branch_head'', ''head_sha'', ''dev_check_summary'', ''check_summary'',
      ''active_sessions_needing_action'', ''sessions_needing_action'', ''session_stale_events'',
      ''approval_hold'', ''release_hold'', ''action_needed_sessions'', ''action_required'',
      ''observation_source'', ''stop_decision'', ''new_event_id'', ''github_api_status'', ''github_api'',
      ''observation_source'', ''fallback_evidence'']"

definition public_suppression_state :: "json \<Rightarrow> (string, json) btree" where
  "public_suppression_state value = foldl (insert_public_value value) [] public_state_keys"

definition numeric_field :: "json \<Rightarrow> string \<Rightarrow> nat option" where
  "numeric_field value key = get_u64 value key"

definition bool_field :: "json \<Rightarrow> string \<Rightarrow> bool" where
  "bool_field value key = unwrap_or (get_bool value key) False"

definition validated_zero_backlog_family :: "json \<Rightarrow> bool" where
  "validated_zero_backlog_family value =
     (get_str value ''family'' \<in> Some ` {''runtime-followup-receipt'', ''zero-backlog-checkpoint'',
        ''backlog-suppression-snapshot'', ''zero-backlog-post-merge-event-coalescing''})"

definition receipt_status_validated :: "json \<Rightarrow> bool" where
  "receipt_status_validated value = (get_str value ''status'' \<in> {Some ''validated'', Some ''valid''})"

definition ci_is_green :: "json \<Rightarrow> bool" where
  "ci_is_green value =
     (Option.bind (opt_or (json_get value ''latest_dev_ci'') (json_get value ''dev_ci'')) as_str
        \<in> {Some ''green'', Some ''passed'', Some ''success''})"

definition github_api_failed :: "json \<Rightarrow> bool" where
  "github_api_failed value =
     (case Option.bind (opt_or (json_get value ''github_api_status'') (json_get value ''github_api'')) as_str of
        None \<Rightarrow> False
      | Some s \<Rightarrow> to_ascii_lowercase (trim s) \<in>
          {''rate_limited'', ''rate-limited'', ''ratelimited'', ''throttled'', ''error'', ''errored'',
           ''failed'', ''failure'', ''unavailable'', ''degraded''})"

definition fallback_has_authority :: "json \<Rightarrow> bool" where
  "fallback_has_authority value = (\<not> github_api_failed value \<or> bool_field value ''fallback_evidence'')"

definition is_full_zero_backlog_receipt :: "json \<Rightarrow> bool" where
  "is_full_zero_backlog_receipt value =
     (validated_zero_backlog_family value \<and> receipt_status_validated value \<and>
      numeric_field value ''open_issues'' = Some 0 \<and> numeric_field value ''open_prs'' = Some 0 \<and>
      ci_is_green value \<and>
      unwrap_or (numeric_field value ''active_sessions_needing_action'') 0 = 0 \<and>
      unwrap_or (numeric_field value ''sessions_needing_action'') 0 = 0 \<and>
      unwrap_or (numeric_field value ''session_stale_events'') 0 = 0 \<and>
      \<not> bool_field value ''approval_hold'' \<and> \<not> bool_field value ''release_hold'' \<and>
      fallback_has_authority value)"

definition zero_backlog_followup_checkpoint_family :: string where
  "zero_backlog_followup_checkpoint_family = ''zero-backlog-followup-checkpoint''"

definition is_lightweight_zero_backlog_checkpoint :: "json \<Rightarrow> bool" where
  "is_lightweight_zero_backlog_checkpoint value =
     (get_str value ''family'' = Some zero_backlog_followup_checkpoint_family \<and>
      receipt_status_validated value \<and>
      numeric_field value ''open_issues'' = Some 0 \<and> numeric_field value ''open_prs'' = Some 0 \<and>
      unwrap_or (numeric_field value ''action_needed_sessions'') 0 = 0 \<and>
      \<not> bool_field value ''approval_hold'' \<and> \<not> bool_field value ''release_hold'' \<and>
      \<not> bool_field value ''action_required'' \<and>
      get_str value ''stop_decision'' = Some ''suppress-followup'' \<and>
      bool_field value ''stop_decision_deterministic'')"

definition is_validated_zero_backlog_receipt :: "json \<Rightarrow> bool" where
  "is_validated_zero_backlog_receipt value =
     (is_full_zero_backlog_receipt value \<or> is_lightweight_zero_backlog_checkpoint value)"

definition observation_source :: "json \<Rightarrow> bool \<Rightarrow> string" where
  "observation_source value fallback =
     (case opt_filter (\<lambda>t. t \<noteq> []) (map_option bounded_public_token (get_str value ''observation_source'')) of
        Some token \<Rightarrow> token
      | None \<Rightarrow> if fallback then ''github-api-fallback'' else ''github-api'')"

definition observation_confidence :: "json \<Rightarrow> bool \<Rightarrow> bool \<Rightarrow> string" where
  "observation_confidence value zero_backlog fallback =
     (if zero_backlog then ''validated''
      else if fallback \<and> \<not> fallback_has_authority value then ''fallback-unverified''
      else ''reported'')"

definition stable_hash_hex :: "string \<Rightarrow> string" where
  "stable_hash_hex bytes = hex16 (fingerprint bytes)"

text \<open>\<open>serde_json::from_str\<close> and \<open>to_string\<close> are \<open>parse\<close> and \<open>to_json\<close>; the content is \<^term>\<open>None\<close> when the file
  cannot be read.\<close>

definition evaluate_state_file ::
    "(string \<Rightarrow> json option) \<Rightarrow> (json \<Rightarrow> string option) \<Rightarrow> string option \<Rightarrow> state_evaluation option" where
  "evaluate_state_file parse to_json content =
     Option.bind content (\<lambda>text.
       if trim text = [] then None
       else Option.bind (parse (trim text)) (\<lambda>value.
         Option.bind (to_json (JObj (public_suppression_state value))) (\<lambda>canonical.
           let fp = stable_hash_hex canonical;
               fallback = github_api_failed value;
               zero_backlog = is_validated_zero_backlog_receipt value
           in Some \<lparr>se_fingerprint = fp, se_suppression_key = ''gajae-zero-backlog:'' @ fp,
                se_zero_backlog = zero_backlog,
                se_observation_source = observation_source value fallback,
                se_observation_confidence = observation_confidence value zero_backlog fallback,
                se_github_api_fallback = fallback\<rparr>)))"

section \<open>The scheduler\<close>

record zero_backlog_suppression =
  zs_key :: string
  zs_expires_at :: secs

record scheduled_cron_job =
  sj_config :: cron_job
  sj_schedule :: cron_schedule

record cron_scheduler_state =
  ss_last_processed_minute :: "int option"
  ss_job_fingerprints :: "string \<Rightarrow> string option"
  ss_zero_backlog_suppressions :: "string \<Rightarrow> zero_backlog_suppression option"

text \<open>
  The scheduler, with what it has done to the outside: the events sent (with the minute they were due
  and the job they belong to) and the last state written to its state file.
\<close>

record cron_scheduler =
  sc_jobs :: "scheduled_cron_job list"
  sc_last_processed_minute :: "int option"
  sc_job_fingerprints :: "string \<Rightarrow> string option"
  sc_zero_backlog_suppressions :: "string \<Rightarrow> zero_backlog_suppression option"
  sc_state_path :: "string option"
  sc_sent :: "(int \<times> cron_job \<times> incoming_event) list"
  sc_saved :: "cron_scheduler_state option"

text \<open>
  \<open>ce_content m p\<close> is the content of the file \<open>p\<close> while minute \<open>m\<close> is processed; \<open>ce_calendar\<close> is
  \<open>OffsetDateTime::from_unix_timestamp\<close>; \<open>ce_emit n e\<close> is the answer of the receiving channel to the
  \<open>n\<close>th event; \<open>ce_save\<close> the outcome of writing the state file.
\<close>

record cron_env =
  ce_parse :: "string \<Rightarrow> json option"
  ce_to_json :: "json \<Rightarrow> string option"
  ce_content :: "int \<Rightarrow> string \<Rightarrow> string option"
  ce_calendar :: "int \<Rightarrow> string + civil_time"
  ce_uuid :: "int \<Rightarrow> string \<Rightarrow> string"
  ce_emit :: "nat \<Rightarrow> incoming_event \<Rightarrow> string option"
  ce_save :: "string \<Rightarrow> cron_scheduler_state \<Rightarrow> string option"

fun schedule_jobs :: "cron_job list \<Rightarrow> (string + scheduled_cron_job list) option" where
  "schedule_jobs [] = Some (Ok [])"
| "schedule_jobs (job # jobs) =
     (if \<not> cj_enabled job then schedule_jobs jobs
      else Option.bind (cron_schedule_parse (cj_schedule job)) (\<lambda>r.
        case r of
          Inl e \<Rightarrow> Some (Err e)
        | Inr s \<Rightarrow> map_option (\<lambda>r. res_bind r (\<lambda>sj. Ok (\<lparr>sj_config = job, sj_schedule = s\<rparr> # sj)))
                      (schedule_jobs jobs)))"

definition default_scheduler_state :: cron_scheduler_state where
  "default_scheduler_state =
     \<lparr>ss_last_processed_minute = None, ss_job_fingerprints = (\<lambda>_. None),
      ss_zero_backlog_suppressions = (\<lambda>_. None)\<rparr>"

text \<open>The state file: absent (\<^term>\<open>None\<close>), unreadable, or text that parses or not.\<close>

definition load_scheduler_state ::
    "(string \<Rightarrow> cron_scheduler_state option) \<Rightarrow> (string + string) option \<Rightarrow> string + cron_scheduler_state" where
  "load_scheduler_state parse_state file =
     (case file of
        None \<Rightarrow> Ok default_scheduler_state
      | Some (Inl e) \<Rightarrow> Err e
      | Some (Inr raw) \<Rightarrow>
          if trim raw = [] then Ok default_scheduler_state
          else Ok (unwrap_or (parse_state (trim raw)) default_scheduler_state))"

definition cron_scheduler_new ::
    "cron_job list \<Rightarrow> string option \<Rightarrow> string + cron_scheduler_state \<Rightarrow> (string + cron_scheduler) option" where
  "cron_scheduler_new jobs path loaded =
     map_option (\<lambda>r. res_bind r (\<lambda>sj.
       res_bind (if path = None then Ok default_scheduler_state else loaded) (\<lambda>state.
         Ok \<lparr>sc_jobs = sj, sc_last_processed_minute = ss_last_processed_minute state,
             sc_job_fingerprints = ss_job_fingerprints state,
             sc_zero_backlog_suppressions = ss_zero_backlog_suppressions state,
             sc_state_path = path, sc_sent = [], sc_saved = None\<rparr>)))
       (schedule_jobs jobs)"

definition build_job_event :: "string \<Rightarrow> cron_job \<Rightarrow> state_evaluation option \<Rightarrow> incoming_event" where
  "build_job_event uuid job state =
     (let event = with_format (cj_format job) (with_mention (cj_mention job)
                    (case cj_kind job of CustomMessage message \<Rightarrow> custom_event uuid (cj_channel job) message));
          p = json_insert ''cron_timezone'' (JStr (cj_timezone job))
                (json_insert ''cron_schedule'' (JStr (cj_schedule job))
                  (json_insert ''cron_job_id'' (JStr (cj_id job)) (ev_payload event)));
          p = (case state of
                 None \<Rightarrow> p
               | Some s \<Rightarrow>
                   json_insert ''repo_state_github_api_fallback'' (JBool (se_github_api_fallback s))
                     (json_insert ''repo_state_observation_confidence'' (JStr (se_observation_confidence s))
                       (json_insert ''repo_state_observation_source'' (JStr (se_observation_source s))
                         (json_insert ''repo_state_zero_backlog'' (JBool (se_zero_backlog s))
                           (json_insert ''repo_state_fingerprint'' (JStr (se_fingerprint s)) p)))))
      in event\<lparr>ev_payload := p\<rparr>)"

definition job_local_time :: "cron_job \<Rightarrow> civil_time \<Rightarrow> string + civil_time" where
  "job_local_time job t =
     (if timezone_is_supported (cj_timezone job) then Ok t
      else Err (''cron job uses unsupported timezone: '' @ cj_id job))"

definition job_matches :: "scheduled_cron_job \<Rightarrow> civil_time \<Rightarrow> string + bool" where
  "job_matches sj t = res_bind (job_local_time (sj_config sj) t) (\<lambda>local. Ok (schedule_matches (sj_schedule sj) local))"

definition should_suppress ::
    "cron_job \<Rightarrow> state_evaluation \<Rightarrow> string option \<Rightarrow> zero_backlog_suppression option \<Rightarrow> secs \<Rightarrow> bool" where
  "should_suppress job eval previous suppression now =
     (if cj_ttl_secs job = 0 \<or> \<not> se_zero_backlog eval then False
      else previous = Some (se_fingerprint eval) \<and>
        (case suppression of
           None \<Rightarrow> False
         | Some s \<Rightarrow> zs_key s = se_suppression_key eval \<and> now < zs_expires_at s))"

text \<open>The cast \<open>u64 as i64\<close> and the addition of two \<open>i64\<close>: two's complement.\<close>

definition i64_wrap :: "int \<Rightarrow> int" where
  "i64_wrap x = (x + 2 ^ 63) mod 2 ^ 64 - 2 ^ 63"

definition lease_until :: "secs \<Rightarrow> cron_job \<Rightarrow> secs" where
  "lease_until scheduled_for job = i64_wrap (scheduled_for + i64_wrap (int (cj_ttl_secs job)))"

text \<open>After an emission: the fingerprint is recorded, and a zero-backlog lease is taken or dropped.\<close>

definition record_emission ::
    "cron_job \<Rightarrow> state_evaluation option \<Rightarrow> secs \<Rightarrow> cron_scheduler \<Rightarrow> cron_scheduler" where
  "record_emission job state scheduled_for sc =
     (case state of
        None \<Rightarrow> sc\<lparr>sc_zero_backlog_suppressions := (sc_zero_backlog_suppressions sc)(cj_id job := None)\<rparr>
      | Some eval \<Rightarrow>
          let sc = sc\<lparr>sc_job_fingerprints := (sc_job_fingerprints sc)(cj_id job \<mapsto> se_fingerprint eval)\<rparr>
          in if se_zero_backlog eval \<and> 0 < cj_ttl_secs job
             then sc\<lparr>sc_zero_backlog_suppressions := (sc_zero_backlog_suppressions sc)
                     (cj_id job \<mapsto> \<lparr>zs_key = se_suppression_key eval, zs_expires_at = lease_until scheduled_for job\<rparr>)\<rparr>
             else sc\<lparr>sc_zero_backlog_suppressions := (sc_zero_backlog_suppressions sc)(cj_id job := None)\<rparr>)"

definition job_state :: "cron_env \<Rightarrow> int \<Rightarrow> cron_job \<Rightarrow> state_evaluation option" where
  "job_state env minute job =
     Option.bind (cj_state_file job) (\<lambda>p. evaluate_state_file (ce_parse env) (ce_to_json env) (ce_content env minute p))"

text \<open>One job in one minute: the flag of the result tells whether the job was executed.\<close>

definition process_job ::
    "cron_env \<Rightarrow> int \<Rightarrow> civil_time \<Rightarrow> scheduled_cron_job \<Rightarrow> cron_scheduler \<Rightarrow> cron_scheduler \<times> (string + bool)" where
  "process_job env minute t sj sc =
     (case job_matches sj t of
        Inl e \<Rightarrow> (sc, Err e)
      | Inr False \<Rightarrow> (sc, Ok False)
      | Inr True \<Rightarrow>
          let job = sj_config sj; state = job_state env minute job
          in if (case state of
                   None \<Rightarrow> False
                 | Some eval \<Rightarrow> should_suppress job eval (sc_job_fingerprints sc (cj_id job))
                     (sc_zero_backlog_suppressions sc (cj_id job)) (minute * 60))
             then (sc, Ok False)
             else let event = build_job_event (ce_uuid env minute (cj_id job)) job state
                  in case ce_emit env (length (sc_sent sc)) event of
                       Some e \<Rightarrow> (sc, Err e)
                     | None \<Rightarrow> (record_emission job state (minute * 60)
                                  (sc\<lparr>sc_sent := sc_sent sc @ [(minute, job, event)]\<rparr>), Ok True))"

fun process_jobs ::
    "cron_env \<Rightarrow> int \<Rightarrow> civil_time \<Rightarrow> scheduled_cron_job list \<Rightarrow> string list \<Rightarrow> cron_scheduler \<Rightarrow>
     cron_scheduler \<times> (string + string list)" where
  "process_jobs env minute t [] executed sc = (sc, Ok executed)"
| "process_jobs env minute t (sj # sjs) executed sc =
     (case process_job env minute t sj sc of
        (sc', Inl e) \<Rightarrow> (sc', Err e)
      | (sc', Inr b) \<Rightarrow>
          process_jobs env minute t sjs (if b then executed @ [cj_id (sj_config sj)] else executed) sc')"

fun process_minutes ::
    "cron_env \<Rightarrow> int list \<Rightarrow> string list \<Rightarrow> cron_scheduler \<Rightarrow> cron_scheduler \<times> (string + string list)" where
  "process_minutes env [] executed sc = (sc, Ok executed)"
| "process_minutes env (minute # ms) executed sc =
     (case ce_calendar env (minute * 60) of
        Inl e \<Rightarrow> (sc, Err e)
      | Inr t \<Rightarrow>
          (case process_jobs env minute t (sc_jobs sc) executed sc of
             (sc', Inl e) \<Rightarrow> (sc', Err e)
           | (sc', Inr executed') \<Rightarrow> process_minutes env ms executed' sc'))"

definition persist_state :: "cron_env \<Rightarrow> cron_scheduler \<Rightarrow> cron_scheduler \<times> (string + unit)" where
  "persist_state env sc =
     (case sc_state_path sc of
        None \<Rightarrow> (sc, Ok ())
      | Some path \<Rightarrow>
          let state = \<lparr>ss_last_processed_minute = sc_last_processed_minute sc,
                ss_job_fingerprints = sc_job_fingerprints sc,
                ss_zero_backlog_suppressions = sc_zero_backlog_suppressions sc\<rparr>
          in case ce_save env path state of
               Some e \<Rightarrow> (sc, Err e)
             | None \<Rightarrow> (sc\<lparr>sc_saved := Some state\<rparr>, Ok ()))"

definition emit_due :: "cron_env \<Rightarrow> secs \<Rightarrow> cron_scheduler \<Rightarrow> cron_scheduler \<times> (string + string list)" where
  "emit_due env now sc =
     (let current_minute = now div 60
      in if sc_jobs sc = []
         then (case persist_state env (sc\<lparr>sc_last_processed_minute := Some current_minute\<rparr>) of
                 (sc', Inl e) \<Rightarrow> (sc', Err e) | (sc', Inr _) \<Rightarrow> (sc', Ok []))
         else let start_minute = (case sc_last_processed_minute sc of None \<Rightarrow> current_minute | Some m \<Rightarrow> m + 1)
              in case process_minutes env [start_minute..current_minute] [] sc of
                   (sc', Inl e) \<Rightarrow> (sc', Err e)
                 | (sc', Inr executed) \<Rightarrow>
                     (case persist_state env (sc'\<lparr>sc_last_processed_minute := Some current_minute\<rparr>) of
                        (sc'', Inl e) \<Rightarrow> (sc'', Err e) | (sc'', Inr _) \<Rightarrow> (sc'', Ok executed)))"

text \<open>\<open>clawhip cron run\<close>: a manual run of one job ignores leases.\<close>

definition run_configured_job ::
    "(string + unit) \<Rightarrow> cron_env \<Rightarrow> int \<Rightarrow> cron_job list \<Rightarrow> string \<Rightarrow> string + incoming_event" where
  "run_configured_job validated env minute jobs i =
     res_bind validated (\<lambda>_.
     res_bind (ok_or (List.find (\<lambda>job. cj_id job = i) jobs) (''cron job was not found: '' @ i)) (\<lambda>job.
       if \<not> cj_enabled job then Err (''cron job is disabled: '' @ i)
       else let event = build_job_event (ce_uuid env minute i) job (job_state env minute job)
            in case ce_emit env 0 event of Some e \<Rightarrow> Err e | None \<Rightarrow> Ok event))"

end
