(* ===== verification/CronCorrect.thy ===== *)
theory CronCorrect imports Cron "HOL-Library.Sublist" begin

text \<open>
  The theorems about the cron source: what a parsed field means and that parsing returns, that each
  due minute is executed once, when a nudge may be withheld, and what a clock set back does.
\<close>

section \<open>Fields\<close>

text \<open>The values a range with a step stands for.\<close>

definition step_values :: "bool \<Rightarrow> nat \<Rightarrow> nat \<Rightarrow> nat \<Rightarrow> nat set" where
  "step_values wrap_sunday step stop v =
     (\<lambda>u. normalize_field_value u wrap_sunday) ` insert v {u. v \<le> u \<and> u \<le> stop \<and> step dvd u - v}"

lemma step_values_stop:
  "0 < step \<Longrightarrow> \<not> v + step \<le> stop \<Longrightarrow>
   step_values w step stop v = {normalize_field_value v w}"
proof -
  assume s: "0 < step" "\<not> v + step \<le> stop"
  have "u = v" if "v \<le> u" "u \<le> stop" "step dvd u - v" for u
    using that s dvd_imp_le[of step "u - v"] by (cases "u = v") auto
  then show ?thesis by (auto simp: step_values_def)
qed

lemma step_values_step:
  assumes "0 < step" and "v + step \<le> stop"
  shows "step_values w step stop v =
    insert (normalize_field_value v w) (step_values w step stop (v + step))"
proof -
  have "insert v {u. v \<le> u \<and> u \<le> stop \<and> step dvd u - v} =
        insert v (insert (v + step) {u. v + step \<le> u \<and> u \<le> stop \<and> step dvd u - (v + step)})" (is "?A = ?B")
  proof (intro set_eqI)
    fix u
    have up: "v + step \<le> u \<and> step dvd u - (v + step)" if "v < u" "step dvd u - v"
    proof -
      have "step \<le> u - v" using that by (intro dvd_imp_le) auto
      then have "v + step \<le> u" "u - v = step + (u - (v + step))" using that by auto
      then show ?thesis using that(2) by (metis dvd_add_right_iff dvd_refl)
    qed
    have down: "step dvd u - v" if "v + step \<le> u" "step dvd u - (v + step)"
    proof -
      have "u - v = step + (u - (v + step))" using that by simp
      then show ?thesis using that by (metis dvd_add dvd_refl)
    qed
    show "u \<in> ?A \<longleftrightarrow> u \<in> ?B"
    proof (cases "v + step \<le> u")
      case True
      then show ?thesis using up down assms by (cases "u = v") auto
    next
      case False
      then show ?thesis using up by (cases "u = v") fastforce+
    qed
  qed
  then show ?thesis by (simp add: step_values_def)
qed

lemma field_range_exact:
  assumes "0 < step" and "stop \<le> 255"
  shows "field_range w step stop v allowed = Some (allowed \<union> step_values w step stop v)"
  using assms
proof (induction "stop - v" arbitrary: v allowed rule: less_induct)
  case less
  show ?case
  proof (cases "v + step \<le> stop")
    case True
    then have "field_range w step stop (v + step) (insert (normalize_field_value v w) allowed) =
        Some (insert (normalize_field_value v w) allowed \<union> step_values w step stop (v + step))"
      using less.prems by (intro less.hyps) auto
    with True less.prems show ?thesis
      by (subst field_range.simps) (simp add: Let_def step_values_step)
  next
    case False
    with less.prems show ?thesis
      by (subst field_range.simps) (simp add: Let_def step_values_stop)
  qed
qed

definition part_values :: "nat \<Rightarrow> nat \<Rightarrow> bool \<Rightarrow> string \<Rightarrow> nat set" where
  "part_values lo hi wrap_sunday raw =
     (case part_range lo hi (trim raw) of
        Inl _ \<Rightarrow> {}
      | Inr (start, stop, step) \<Rightarrow>
          (\<lambda>u. normalize_field_value u wrap_sunday) ` {u. start \<le> u \<and> u \<le> stop \<and> step dvd u - start})"

lemma parse_field_value_Ok: "parse_field_value raw lo hi = Inr v \<Longrightarrow> lo \<le> v \<and> v \<le> hi"
  by (auto simp: parse_field_value_def split: option.splits if_splits)

lemma part_range_Ok:
  assumes "part_range lo hi part = Inr (start, stop, step)" and "lo \<le> hi"
  shows "lo \<le> start \<and> start \<le> stop \<and> stop \<le> hi \<and> 0 < step"
proof -
  from assms obtain base where b: "part_step part = Inr (base, step)"
    "part_bounds lo hi base = Inr (start, stop)" "start \<le> stop"
    by (auto simp: part_range_def res_bind_Inr split: if_splits)
  have "0 < step" using b(1) by (auto simp: part_step_def split: option.splits if_splits)
  moreover have "lo \<le> start \<and> stop \<le> hi" using b(2) assms(2)
    by (auto simp: part_bounds_def res_bind_Inr split: option.splits if_splits dest!: parse_field_value_Ok)
  ultimately show ?thesis using b(3) by simp
qed

lemma part_values_step:
  "part_range lo hi (trim raw) = Inr (start, stop, step) \<Longrightarrow> lo \<le> hi \<Longrightarrow>
   part_values lo hi w raw = step_values w step stop start"
  by (frule (1) part_range_Ok) (auto simp: part_values_def step_values_def)

lemma parse_parts_exact:
  assumes "lo \<le> hi" and "hi \<le> 255"
  shows "\<exists>r. parse_parts lo hi w parts allowed = Some r \<and>
     (\<forall>a. r = Inr a \<longrightarrow> a = allowed \<union> (\<Union>raw \<in> set parts. part_values lo hi w raw))"
proof (induction parts arbitrary: allowed)
  case (Cons raw parts)
  show ?case
  proof (cases "part_range lo hi (trim raw)")
    case (Inr b)
    obtain start stop step where b: "b = (start, stop, step)" by (cases b) auto
    note ok = part_range_Ok[OF Inr[unfolded b] assms(1)]
    have "field_range w step stop start allowed = Some (allowed \<union> part_values lo hi w raw)"
      using ok assms by (simp add: field_range_exact part_values_step[OF Inr[unfolded b] assms(1)])
    then show ?thesis using Cons.IH[of "allowed \<union> part_values lo hi w raw"] Inr b
      by (auto simp: Un_assoc)
  qed simp
qed simp

text \<open>What a field denotes: the star, or the union of its parts.\<close>

definition field_denotes :: "string \<Rightarrow> nat \<Rightarrow> nat \<Rightarrow> bool \<Rightarrow> nat \<Rightarrow> bool" where
  "field_denotes raw lo hi wrap_sunday v \<longleftrightarrow>
     trim raw = ''*'' \<or> (\<exists>part \<in> set (split_on CHR '','' (trim raw)). v \<in> part_values lo hi wrap_sunday part)"

text \<open>The parsed field \<open>f\<close> means what the text denotes.\<close>

fun field_spec :: "string \<times> nat \<times> nat \<times> bool \<Rightarrow> cron_field \<Rightarrow> bool" where
  "field_spec (raw, lo, hi, w) f =
     (cf_any f = (trim raw = ''*'') \<and> (\<forall>v. field_contains f v = field_denotes raw lo hi w v))"

fun field_limits :: "string \<times> nat \<times> nat \<times> bool \<Rightarrow> bool" where
  "field_limits (raw, lo, hi, w) = (lo \<le> hi \<and> hi \<le> 255)"

lemma cron_field_exact:
  assumes "lo \<le> hi" and "hi \<le> 255"
  shows "\<exists>r. cron_field_parse raw lo hi w = Some r \<and> (\<forall>f. r = Inr f \<longrightarrow> field_spec (raw, lo, hi, w) f)"
proof -
  obtain r where r: "parse_parts lo hi w (split_on CHR '','' (trim raw)) {} = Some r"
    "\<And>a. r = Inr a \<Longrightarrow> a = (\<Union>raw \<in> set (split_on CHR '','' (trim raw)). part_values lo hi w raw)"
    using parse_parts_exact[OF assms, of w "split_on CHR '','' (trim raw)" "{}"] by auto
  show ?thesis
    using r by (cases r)
      (auto simp: cron_field_parse_def field_contains_def field_denotes_def Let_def)
qed

lemma part_values_bounded: "lo \<le> hi \<Longrightarrow> v \<in> part_values lo hi w part \<Longrightarrow> v \<le> hi"
  by (auto simp: part_values_def normalize_field_value_def split: sum.splits dest!: part_range_Ok)

lemma parse_fields_exact:
  "list_all field_limits specs \<Longrightarrow>
   \<exists>r. parse_fields specs = Some r \<and> (\<forall>fs. r = Inr fs \<longrightarrow> list_all2 field_spec specs fs)"
proof (induction specs)
  case (Cons x specs)
  obtain raw lo hi w where x: "x = (raw, lo, hi, w)" by (cases x) auto
  from Cons.prems x have "lo \<le> hi" "hi \<le> 255" by auto
  from cron_field_exact[OF this, of raw w] obtain r where
    r: "cron_field_parse raw lo hi w = Some r" "\<And>f. r = Inr f \<Longrightarrow> field_spec (raw, lo, hi, w) f"
    by blast
  from Cons obtain r' where
    r': "parse_fields specs = Some r'" "\<And>fs. r' = Inr fs \<Longrightarrow> list_all2 field_spec specs fs"
    by auto
  show ?case using r r' by (cases r; cases r') (simp_all add: x del: field_spec.simps)
qed simp

definition schedule_fields :: "string \<Rightarrow> string \<Rightarrow> string \<Rightarrow> string \<Rightarrow> string \<Rightarrow> (string \<times> nat \<times> nat \<times> bool) list" where
  "schedule_fields mi ho dm mo dw =
     [(mi, 0, 59, False), (ho, 0, 23, False), (dm, 1, 31, False), (mo, 1, 12, False), (dw, 0, 7, True)]"

lemma cron_schedule_exact:
  "\<exists>r. cron_schedule_parse spec = Some r \<and>
     (\<forall>s. r = Inr s \<longrightarrow> (\<exists>mi ho dm mo dw. split_whitespace spec = [mi, ho, dm, mo, dw] \<and>
        list_all2 field_spec (schedule_fields mi ho dm mo dw)
          [cs_minute s, cs_hour s, cs_day_of_month s, cs_month s, cs_day_of_week s]))"
proof (cases "\<exists>mi ho dm mo dw. split_whitespace spec = [mi, ho, dm, mo, dw]")
  case True
  then obtain mi ho dm mo dw where f: "split_whitespace spec = [mi, ho, dm, mo, dw]" by blast
  have "list_all field_limits (schedule_fields mi ho dm mo dw)" by (simp add: schedule_fields_def)
  from parse_fields_exact[OF this] obtain r where
    r: "parse_fields (schedule_fields mi ho dm mo dw) = Some r"
      "\<And>fs. r = Inr fs \<Longrightarrow> list_all2 field_spec (schedule_fields mi ho dm mo dw) fs"
    by blast
  show ?thesis
  proof (cases r)
    case (Inl e)
    then show ?thesis using r f by (simp add: cron_schedule_parse_def schedule_fields_def)
  next
    case (Inr fs)
    from r(2)[OF this] obtain a b c d e where "fs = [a, b, c, d, e]"
      by (auto simp: list_all2_Cons1 schedule_fields_def)
    with r(2)[OF Inr] r(1) Inr f show ?thesis by (simp add: cron_schedule_parse_def schedule_fields_def)
  qed
next
  case False
  then show ?thesis by (auto simp: cron_schedule_parse_def split: list.splits)
qed

text \<open>
  Parsing a schedule always returns: whatever the text, the loop over a range ends, because a step
  of zero is refused before the loop is entered and the addition is checked.
\<close>

theorem cron_parse_returns: "cron_schedule_parse spec \<noteq> None"
  using cron_schedule_exact[of spec] by auto


definition sample_schedule :: cron_schedule where
  "sample_schedule =
     \<lparr>cs_minute = \<lparr>cf_any = False, cf_allowed = {0, 30}\<rparr>, cs_hour = \<lparr>cf_any = False, cf_allowed = {9, 10, 11}\<rparr>,
      cs_day_of_month = \<lparr>cf_any = True, cf_allowed = {}\<rparr>, cs_month = \<lparr>cf_any = True, cf_allowed = {}\<rparr>,
      cs_day_of_week = \<lparr>cf_any = False, cf_allowed = {0, 6}\<rparr>\<rparr>"


section \<open>Catching up\<close>

text \<open>Processing touches neither the jobs nor the minute bookkeeping.\<close>

definition same_plan :: "cron_scheduler \<Rightarrow> cron_scheduler \<Rightarrow> bool" where
  "same_plan a b \<longleftrightarrow> sc_jobs b = sc_jobs a \<and> sc_last_processed_minute b = sc_last_processed_minute a"

lemma same_plan_refl [simp]: "same_plan a a"
  by (simp add: same_plan_def)

lemma same_plan_trans: "same_plan a b \<Longrightarrow> same_plan b c \<Longrightarrow> same_plan a c"
  by (simp add: same_plan_def)

lemma record_emission_plan [simp]:
  "sc_jobs (record_emission job state n sc) = sc_jobs sc"
  "sc_last_processed_minute (record_emission job state n sc) = sc_last_processed_minute sc"
  "sc_sent (record_emission job state n sc) = sc_sent sc"
  by (auto simp: record_emission_def Let_def split: option.split)

lemma process_job_plan: "same_plan sc (fst (process_job env m t sj sc))"
  by (auto simp: process_job_def same_plan_def Let_def split: sum.split bool.split option.split)

lemma process_jobs_plan: "same_plan sc (fst (process_jobs env m t sjs ex sc))"
proof (induction sjs arbitrary: sc ex)
  case (Cons sj sjs)
  then show ?case using process_job_plan[of sc env m t sj]
    by (auto split: prod.split sum.split intro: same_plan_trans)
qed simp

lemma process_minutes_plan: "same_plan sc (fst (process_minutes env ms ex sc))"
proof (induction ms arbitrary: sc ex)
  case (Cons m ms)
  show ?case
  proof (cases "ce_calendar env (m * 60)")
    case (Inr t)
    then show ?thesis using Cons process_jobs_plan[of sc env m t "sc_jobs sc" ex]
      by (auto split: prod.split sum.split intro: same_plan_trans)
  qed simp
qed simp

text \<open>The jobs due in a list of minutes, in the order they are to be executed.\<close>

definition due_in_minute :: "cron_env \<Rightarrow> scheduled_cron_job list \<Rightarrow> int \<Rightarrow> (int \<times> cron_job) list" where
  "due_in_minute env sjs m =
     (case ce_calendar env (m * 60) of
        Inl _ \<Rightarrow> []
      | Inr t \<Rightarrow> map (\<lambda>sj. (m, sj_config sj)) (filter (\<lambda>sj. job_matches sj t = Inr True) sjs))"

definition due_jobs :: "cron_env \<Rightarrow> scheduled_cron_job list \<Rightarrow> int list \<Rightarrow> (int \<times> cron_job) list" where
  "due_jobs env sjs ms = concat (map (due_in_minute env sjs) ms)"

definition sent_jobs :: "cron_scheduler \<Rightarrow> (int \<times> cron_job) list" where
  "sent_jobs sc = map (\<lambda>(m, job, _). (m, job)) (sc_sent sc)"

definition no_state_file :: "scheduled_cron_job \<Rightarrow> bool" where
  "no_state_file sj = (cj_state_file (sj_config sj) = None)"

text \<open>What a run of executed jobs adds: some of those due, in order, all of them when no job has a state
  file; and the identifiers returned are those of the jobs sent.\<close>

definition adds :: "bool \<Rightarrow> cron_scheduler \<Rightarrow> cron_scheduler \<Rightarrow> (int \<times> cron_job) list \<Rightarrow>
    string list \<Rightarrow> string list \<Rightarrow> bool" where
  "adds all a b due ex ex' \<longleftrightarrow> (\<exists>new. sent_jobs b = sent_jobs a @ new \<and> subseq new due \<and>
     (all \<longrightarrow> new = due) \<and> ex' = ex @ map (cj_id \<circ> snd) new)"

lemma adds_refl: "adds all a a [] ex ex"
  by (simp add: adds_def)

lemma adds_trans: "adds all a b d1 x y \<Longrightarrow> adds all b c d2 y z \<Longrightarrow> adds all a c (d1 @ d2) x z"
  by (auto simp: adds_def intro: list_emb_append_mono)

lemma process_job_adds:
  assumes "process_job env m t sj sc = (sc', Inr b)"
  shows "adds (no_state_file sj) sc sc' (if job_matches sj t = Inr True then [(m, sj_config sj)] else [])
     ex (if b then ex @ [cj_id (sj_config sj)] else ex)"
proof (cases "job_matches sj t")
  case (Inr c)
  then show ?thesis using assms
    by (cases c)
       (auto simp: process_job_def adds_def sent_jobs_def no_state_file_def job_state_def Let_def
            bind_eq_Some_conv split: if_splits option.splits)
qed (use assms in \<open>simp add: process_job_def\<close>)

lemma process_jobs_adds:
  assumes "process_jobs env m t sjs ex sc = (sc', Inr ex')"
  shows "adds (list_all no_state_file sjs) sc sc'
     (map (\<lambda>sj. (m, sj_config sj)) (filter (\<lambda>sj. job_matches sj t = Inr True) sjs)) ex ex'"
  using assms
proof (induction sjs arbitrary: sc ex)
  case (Cons sj sjs)
  from Cons.prems obtain sc1 b where one: "process_job env m t sj sc = (sc1, Inr b)"
    and more: "process_jobs env m t sjs (if b then ex @ [cj_id (sj_config sj)] else ex) sc1 = (sc', Inr ex')"
    by (auto split: prod.splits sum.splits)
  have weaken: "adds p a c d x y \<Longrightarrow> (q \<Longrightarrow> p) \<Longrightarrow> adds q a c d x y" for p q a c d x y
    by (auto simp: adds_def)
  from adds_trans[OF weaken[OF process_job_adds[OF one]] weaken[OF Cons.IH[OF more]],
      of "list_all no_state_file (sj # sjs)"]
  show ?case by auto
qed (simp add: adds_refl)

lemma process_minutes_adds:
  assumes "process_minutes env ms ex sc = (sc', Inr ex')"
  shows "adds (list_all no_state_file (sc_jobs sc)) sc sc' (due_jobs env (sc_jobs sc) ms) ex ex'"
  using assms
proof (induction ms arbitrary: sc ex)
  case (Cons m ms)
  from Cons.prems obtain t sc1 ex1 where t: "ce_calendar env (m * 60) = Inr t"
    and one: "process_jobs env m t (sc_jobs sc) ex sc = (sc1, Inr ex1)"
    and more: "process_minutes env ms ex1 sc1 = (sc', Inr ex')"
    by (auto split: prod.splits sum.splits)
  have "sc_jobs sc1 = sc_jobs sc" using process_jobs_plan[of sc env m t "sc_jobs sc" ex] one
    by (simp add: same_plan_def)
  with adds_trans[OF process_jobs_adds[OF one] _] Cons.IH[OF more] t show ?case
    by (fastforce simp: due_jobs_def due_in_minute_def)
qed (simp add: adds_refl due_jobs_def)

lemma persist_state_sel [simp]:
  "sc_sent (fst (persist_state env sc)) = sc_sent sc"
  "sc_jobs (fst (persist_state env sc)) = sc_jobs sc"
  "sc_last_processed_minute (fst (persist_state env sc)) = sc_last_processed_minute sc"
  "sc_job_fingerprints (fst (persist_state env sc)) = sc_job_fingerprints sc"
  "sc_zero_backlog_suppressions (fst (persist_state env sc)) = sc_zero_backlog_suppressions sc"
  by (auto simp: persist_state_def Let_def split: option.split)

lemma sent_jobs_persist [simp]: "sent_jobs (fst (persist_state env sc)) = sent_jobs sc"
  by (simp add: sent_jobs_def)

lemma emit_due_split:
  assumes "emit_due env now sc = (sc', Inr executed)" and "sc_jobs sc \<noteq> []"
    and "sc_last_processed_minute sc = Some l"
  obtains sc1 where "process_minutes env [l + 1..now div 60] [] sc = (sc1, Inr executed)"
    and "sc' = fst (persist_state env (sc1\<lparr>sc_last_processed_minute := Some (now div 60)\<rparr>))"
  using assms that by (fastforce simp: emit_due_def Let_def split: prod.splits sum.splits)


definition star_field :: cron_field where "star_field = \<lparr>cf_any = True, cf_allowed = {}\<rparr>"

definition sample_job :: "string option \<Rightarrow> scheduled_cron_job" where
  "sample_job state_file =
     \<lparr>sj_config = \<lparr>cj_id = ''nudge'', cj_schedule = ''* * * * *'', cj_timezone = ''UTC'', cj_enabled = True,
        cj_channel = None, cj_mention = None, cj_format = None, cj_state_file = state_file, cj_ttl_secs = 300,
        cj_kind = CustomMessage ''follow up''\<rparr>,
      sj_schedule = \<lparr>cs_minute = star_field, cs_hour = star_field, cs_day_of_month = star_field,
        cs_month = star_field, cs_day_of_week = star_field\<rparr>\<rparr>"

definition sample_scheduler :: "string option \<Rightarrow> int \<Rightarrow> cron_scheduler" where
  "sample_scheduler state_file minute =
     \<lparr>sc_jobs = [sample_job state_file], sc_last_processed_minute = Some minute,
      sc_job_fingerprints = (\<lambda>_. None), sc_zero_backlog_suppressions = (\<lambda>_. None), sc_state_path = None,
      sc_sent = [], sc_saved = None\<rparr>"

definition sample_time :: civil_time where
  "sample_time = \<lparr>ct_minute = 0, ct_hour = 0, ct_day = 1, ct_month = 1, ct_weekday = Monday\<rparr>"

text \<open>A checkpoint that says itself that it comes from a degraded observation, without evidence.\<close>

definition degraded_checkpoint :: json where
  "degraded_checkpoint =
     jobject [(''family'', JStr ''zero-backlog-followup-checkpoint''), (''status'', JStr ''validated''),
       (''open_issues'', jnat 0), (''open_prs'', jnat 0), (''stop_decision'', JStr ''suppress-followup''),
       (''stop_decision_deterministic'', JBool True), (''github_api_status'', JStr ''rate_limited'')]"

definition sample_cron_env :: cron_env where
  "sample_cron_env =
     \<lparr>ce_parse = (\<lambda>_. Some degraded_checkpoint), ce_to_json = (\<lambda>_. Some ''canonical''),
      ce_content = (\<lambda>_ _. Some ''text''),
      ce_calendar = (\<lambda>_. Ok sample_time),
      ce_uuid = (\<lambda>_ _. ''u''), ce_emit = (\<lambda>_ _. None), ce_save = (\<lambda>_ _. None)\<rparr>"


section \<open>A clock set back\<close>

text \<open>
  A clock that is set back makes jobs run twice. When the current minute lies before the last
  processed one, \<open>emit_due\<close> executes nothing but still moves its mark back to the current minute, so the
  minutes between the two are due again: here minute 3 is executed at 180 seconds, and a second time
  after one call at 120 seconds.
\<close>

theorem cron_clock_back_repeats:
  "let a = fst (emit_due sample_cron_env 180 (sample_scheduler None 2));
       b = fst (emit_due sample_cron_env 120 a);
       c = fst (emit_due sample_cron_env 180 b)
   in map fst (sent_jobs a) = [3] \<and> map fst (sent_jobs b) = [3] \<and>
      sc_last_processed_minute b = Some 2 \<and> map fst (sent_jobs c) = [3, 3]"
  by code_simp

section \<open>Withheld nudges\<close>

text \<open>The runs of a scheduler that starts without leases, job by job.\<close>

inductive cron_run :: "cron_env \<Rightarrow> cron_scheduler \<Rightarrow> bool" for env where
  cron_start: "(\<And>i. sc_zero_backlog_suppressions sc i = None) \<Longrightarrow> cron_run env sc"
| cron_job_step: "cron_run env sc \<Longrightarrow> 0 \<le> m \<Longrightarrow> process_job env m t sj sc = (sc', r) \<Longrightarrow> cron_run env sc'"
| cron_mark: "cron_run env sc \<Longrightarrow> cron_run env (sc\<lparr>sc_last_processed_minute := l\<rparr>)"
| cron_persist: "cron_run env sc \<Longrightarrow> cron_run env (fst (persist_state env sc))"

lemma cron_run_jobs:
  "cron_run env sc \<Longrightarrow> 0 \<le> m \<Longrightarrow> cron_run env (fst (process_jobs env m t sjs ex sc))"
proof (induction sjs arbitrary: sc ex)
  case (Cons sj sjs)
  obtain sc1 r where one: "process_job env m t sj sc = (sc1, r)" by (cases "process_job env m t sj sc") auto
  from cron_job_step[OF Cons.prems one] Cons.IH Cons.prems(2) show ?case
    by (cases r) (auto simp: one)
qed simp

lemma cron_run_minutes:
  "cron_run env sc \<Longrightarrow> \<forall>m \<in> set ms. 0 \<le> m \<Longrightarrow> cron_run env (fst (process_minutes env ms ex sc))"
proof (induction ms arbitrary: sc ex)
  case (Cons m ms)
  show ?case
  proof (cases "ce_calendar env (m * 60)")
    case (Inr t)
    obtain sc1 r where one: "process_jobs env m t (sc_jobs sc) ex sc = (sc1, r)"
      by (cases "process_jobs env m t (sc_jobs sc) ex sc") auto
    have "cron_run env sc1" using cron_run_jobs[of env sc m t "sc_jobs sc" ex] Cons.prems one by simp
    then show ?thesis using Cons one Inr by (cases r) auto
  qed (use Cons in simp)
qed simp

text \<open>\<open>emit_due\<close> is such a run.\<close>

lemma cron_run_emit_due:
  assumes "cron_run env sc" and "sc_last_processed_minute sc = Some l" and "0 \<le> l"
  shows "cron_run env (fst (emit_due env now sc))"
proof (cases "sc_jobs sc = []")
  case True
  then show ?thesis using cron_persist[OF cron_mark[OF assms(1)]]
    by (auto simp: emit_due_def Let_def split: prod.split sum.split) (metis fst_conv)+
next
  case False
  have "cron_run env (fst (process_minutes env [l + 1..now div 60] [] sc))"
    using assms by (intro cron_run_minutes) auto
  then show ?thesis using False assms(2) cron_persist[OF cron_mark]
    by (auto simp: emit_due_def Let_def split: prod.split sum.split) (metis fst_conv)+
qed

text \<open>Every lease belongs to an event that was sent with the fingerprint of the lease.\<close>

definition lease_ok :: "cron_scheduler \<Rightarrow> bool" where
  "lease_ok sc \<longleftrightarrow> (\<forall>i s. sc_zero_backlog_suppressions sc i = Some s \<longrightarrow>
     (\<exists>m job e fp. (m, job, e) \<in> set (sc_sent sc) \<and> cj_id job = i \<and> 0 \<le> m \<and>
        get_str (ev_payload e) ''repo_state_fingerprint'' = Some fp \<and>
        zs_key s = ''gajae-zero-backlog:'' @ fp \<and> zs_expires_at s = lease_until (m * 60) job))"

lemma built_fingerprint:
  "get_str (ev_payload (build_job_event u job (Some eval))) ''repo_state_fingerprint'' = Some (se_fingerprint eval)"
  by (simp add: build_job_event_def Let_def get_str_def json_get_insert custom_event_def workspace_event_def
      with_format_def with_mention_def split: cron_job_kind.split)

lemma evaluated_key:
  "evaluate_state_file p t c = Some eval \<Longrightarrow> se_suppression_key eval = ''gajae-zero-backlog:'' @ se_fingerprint eval"
  by (auto simp: evaluate_state_file_def bind_eq_Some_conv Let_def split: if_splits)

lemma job_state_key:
  "job_state env m job = Some eval \<Longrightarrow> se_suppression_key eval = ''gajae-zero-backlog:'' @ se_fingerprint eval"
  by (auto simp: job_state_def bind_eq_Some_conv evaluated_key)

lemma lease_ok_more:
  "lease_ok sc \<Longrightarrow> lease_ok (sc\<lparr>sc_sent := sc_sent sc @ new\<rparr>)"
  by (fastforce simp: lease_ok_def)

lemma lease_ok_record:
  assumes "lease_ok sc" and "(m, job, build_job_event u job st) \<in> set (sc_sent sc)" and "0 \<le> m"
    and "job_state env k job = st"
  shows "lease_ok (record_emission job st (m * 60) sc)"
proof (cases st)
  case None
  then show ?thesis using assms(1) by (auto simp: record_emission_def lease_ok_def)
next
  case (Some eval)
  have "\<exists>m' job' e fp. (m', job', e) \<in> set (sc_sent sc) \<and> cj_id job' = cj_id job \<and> 0 \<le> m' \<and>
      get_str (ev_payload e) ''repo_state_fingerprint'' = Some fp \<and>
      se_suppression_key eval = ''gajae-zero-backlog:'' @ fp \<and> lease_until (m * 60) job = lease_until (m' * 60) job'"
    by (rule exI[of _ m], rule exI[of _ job], rule exI[of _ "build_job_event u job st"],
        rule exI[of _ "se_fingerprint eval"])
       (use assms Some built_fingerprint[of u job eval] job_state_key[of env k job eval] in simp)
  with assms(1) Some show ?thesis by (auto simp: record_emission_def lease_ok_def Let_def)
qed

lemma lease_ok_process:
  assumes "lease_ok sc" and "0 \<le> m" and "process_job env m t sj sc = (sc', r)"
  shows "lease_ok sc'"
proof -
  let ?job = "sj_config sj" and ?st = "job_state env m (sj_config sj)"
  let ?e = "build_job_event (ce_uuid env m (cj_id ?job)) ?job ?st"
  let ?sent = "sc\<lparr>sc_sent := sc_sent sc @ [(m, ?job, ?e)]\<rparr>"
  have "lease_ok (record_emission ?job ?st (m * 60) ?sent)"
    by (rule lease_ok_record[of _ _ _ "ce_uuid env m (cj_id ?job)" _ env m])
       (use assms lease_ok_more[OF assms(1)] in simp_all)
  then show ?thesis using assms(1,3)
    by (auto simp: process_job_def Let_def split: sum.splits bool.splits option.splits if_splits)
qed

lemma cron_run_leases: "cron_run env sc \<Longrightarrow> lease_ok sc"
proof (induction rule: cron_run.induct)
  case (cron_job_step sc m t sj sc' r)
  then show ?case by (metis lease_ok_process)
qed (simp_all add: lease_ok_def)

lemma i64_wrap_le: "- (2 ^ 63) \<le> x \<Longrightarrow> i64_wrap x \<le> x"
proof -
  assume "- (2 ^ 63) \<le> x"
  then have "(x + 2 ^ 63) mod 2 ^ 64 \<le> x + 2 ^ 63" by (intro zmod_le_nonneg_dividend) simp
  then show ?thesis by (simp add: i64_wrap_def)
qed

lemma lease_until_le: "0 \<le> n \<Longrightarrow> lease_until n job \<le> n + int (cj_ttl_secs job)"
proof -
  assume n: "0 \<le> n"
  have "- (2 ^ 63) \<le> i64_wrap (int (cj_ttl_secs job))" by (simp add: i64_wrap_def)
  with n have "i64_wrap (n + i64_wrap (int (cj_ttl_secs job))) \<le> n + i64_wrap (int (cj_ttl_secs job))"
    by (intro i64_wrap_le) simp
  also have "\<dots> \<le> n + int (cj_ttl_secs job)" using i64_wrap_le[of "int (cj_ttl_secs job)"] by simp
  finally show ?thesis by (simp add: lease_until_def)
qed

text \<open>
  A nudge is withheld only as a repetition. Whenever a job that is due is skipped, in any run of the
  scheduler from a start without leases, its state file was read and is a validated zero-backlog receipt,
  and an event of the same job with the same fingerprint was sent less than the time to live of the
  lease before. So a change of the public state, or the end of the lease, always lets the job fire.
\<close>

theorem cron_skips_only_repetitions:
  assumes "cron_run env sc" and "process_job env m t sj sc = (sc', Inr False)"
    and "job_matches sj t = Inr True"
  shows "\<exists>eval m' job e. job_state env m (sj_config sj) = Some eval \<and> se_zero_backlog eval \<and>
     (m', job, e) \<in> set (sc_sent sc) \<and> cj_id job = cj_id (sj_config sj) \<and>
     get_str (ev_payload e) ''repo_state_fingerprint'' = Some (se_fingerprint eval) \<and>
     m * 60 < m' * 60 + int (cj_ttl_secs job)"
proof -
  let ?id = "cj_id (sj_config sj)"
  obtain eval where st: "job_state env m (sj_config sj) = Some eval"
    and s: "should_suppress (sj_config sj) eval (sc_job_fingerprints sc ?id)
      (sc_zero_backlog_suppressions sc ?id) (m * 60)"
    using assms(2,3) by (auto simp: process_job_def Let_def split: option.splits if_splits)
  then obtain l where l: "sc_zero_backlog_suppressions sc ?id = Some l" "zs_key l = se_suppression_key eval"
    "m * 60 < zs_expires_at l" "se_zero_backlog eval"
    by (auto simp: should_suppress_def split: if_splits option.splits)
  from cron_run_leases[OF assms(1)] l(1) obtain m' job e fp where
    e: "(m', job, e) \<in> set (sc_sent sc)" "cj_id job = ?id" "0 \<le> m'"
      "get_str (ev_payload e) ''repo_state_fingerprint'' = Some fp"
      "zs_key l = ''gajae-zero-backlog:'' @ fp" "zs_expires_at l = lease_until (m' * 60) job"
    unfolding lease_ok_def by blast
  have "fp = se_fingerprint eval" using e(5) l(2) job_state_key[OF st] by simp
  moreover have "m * 60 < m' * 60 + int (cj_ttl_secs job)"
    using lease_until_le[of "m' * 60" job] e(3,6) l(3) by simp
  ultimately show ?thesis using st l(4) e(1,2,4) by blast
qed

theorem cron_skips_only_repetitions_witness:
  "let sc = fst (emit_due sample_cron_env 180 (sample_scheduler (Some ''state.json'') 2))
   in snd (process_job sample_cron_env 4 sample_time (sample_job (Some ''state.json'')) sc) = Inr False \<and>
      (\<exists>m' job e. (m', job, e) \<in> set (sc_sent sc) \<and> 4 * 60 < m' * 60 + int (cj_ttl_secs job))"
proof -
  let ?s = "sample_scheduler (Some ''state.json'') 2" and ?j = "sample_job (Some ''state.json'')"
  let ?sc = "fst (emit_due sample_cron_env 180 ?s)"
  have run: "cron_run sample_cron_env ?sc"
    by (rule cron_run_emit_due[of _ _ 2]) (auto intro: cron_start simp: sample_scheduler_def)
  have m: "job_matches ?j sample_time = Inr True" by code_simp
  have r: "snd (process_job sample_cron_env 4 sample_time ?j ?sc) = Inr False" by code_simp
  then have p: "process_job sample_cron_env 4 sample_time ?j ?sc = (fst (process_job sample_cron_env 4 sample_time ?j ?sc), Inr False)"
    by (metis prod.collapse)
  from cron_skips_only_repetitions[OF run p m] r show ?thesis by (auto simp: Let_def)
qed

text \<open>
  A degraded observation can silence a job. The configuration promises that a receipt taken while the
  GitHub API failed never counts as zero backlog unless it carries fallback evidence. The full
  receipt honours it; the lightweight checkpoint does not look at the API status at all: one that
  reports \<open>rate_limited\<close> and no evidence counts, is labelled \<open>validated\<close>, and withholds the next nudge.
\<close>

theorem degraded_checkpoint_silences:
  "github_api_failed degraded_checkpoint \<and> \<not> fallback_has_authority degraded_checkpoint \<and>
   is_validated_zero_backlog_receipt degraded_checkpoint \<and>
   observation_confidence degraded_checkpoint (is_validated_zero_backlog_receipt degraded_checkpoint) True = ''validated'' \<and>
   snd (emit_due sample_cron_env 180 (sample_scheduler (Some ''state.json'') 2)) = Inr [''nudge''] \<and>
   snd (emit_due sample_cron_env 240
     (fst (emit_due sample_cron_env 180 (sample_scheduler (Some ''state.json'') 2)))) = Inr []"
  by (intro conjI; code_simp)

end
