(* ===== verification/LedgerCorrect.thy ===== *)
theory LedgerCorrect imports Ledger "HOL-Library.Multiset" begin

text \<open>
  The theorems about the event ledger. The indexes are exact in every reachable state, so a query
  through them is a filter over the records; no key is recorded twice; and loading after a restart gives
  the ledger back.
\<close>

section \<open>Exact indexes\<close>

definition index_ok :: "(ledger_record \<Rightarrow> string set) \<Rightarrow> ledger_record list \<Rightarrow> index \<Rightarrow> bool" where
  "index_ok f rs ix \<longleftrightarrow> (\<forall>v. ix v = {i. i < length rs \<and> v \<in> f (rs ! i)})"

definition opt_set :: "'a option \<Rightarrow> 'a set" where
  "opt_set v = (case v of None \<Rightarrow> {} | Some a \<Rightarrow> {a})"

lemma opt_set_simps [simp]: "opt_set None = {}" "opt_set (Some a) = {a}"
  by (simp_all add: opt_set_def)

lemma in_opt_set [simp]: "a \<in> opt_set v \<longleftrightarrow> v = Some a"
  by (cases v) auto

definition indexes_ok :: "event_ledger \<Rightarrow> bool" where
  "indexes_ok l \<longleftrightarrow>
     index_ok (\<lambda>r. opt_set (lr_repo r)) (el_records l) (ix_repo (el_indexes l)) \<and>
     index_ok (\<lambda>r. opt_set (lr_worktree r)) (el_records l) (ix_worktree (el_indexes l)) \<and>
     index_ok (\<lambda>r. opt_set (lr_session_id r)) (el_records l) (ix_session (el_indexes l)) \<and>
     index_ok (\<lambda>r. {lr_event_type r}) (el_records l) (ix_event_type (el_indexes l)) \<and>
     index_ok (\<lambda>r. set (lr_keywords r)) (el_records l) (ix_keyword (el_indexes l))"

lemma index_ok_empty: "index_ok f [] (\<lambda>_. {})"
  by (simp add: index_ok_def)

lemma index_ok_snoc:
  assumes "index_ok f rs ix" and "\<And>v. ix' v = (if v \<in> f r then insert (length rs) (ix v) else ix v)"
  shows "index_ok f (rs @ [r]) ix'"
  using assms by (auto simp: index_ok_def nth_append less_Suc_eq)

lemma index_value_apply:
  "index_value v i ix w = (if w \<in> opt_set v then insert i (ix w) else ix w)"
  by (cases v) (auto simp: index_value_def)

lemma index_values_apply:
  "foldl (\<lambda>ix k. index_value (Some k) i ix) ix ks w = (if w \<in> set ks then insert i (ix w) else ix w)"
  by (induction ks arbitrary: ix) (auto simp: index_value_apply)

lemma indexes_ok_insert [wf_intros]: "indexes_ok l \<Longrightarrow> indexes_ok (insert_indexed r l)"
  unfolding indexes_ok_def insert_indexed_def Let_def
  by (auto intro!: index_ok_snoc simp: index_value_apply index_values_apply)

lemma indexes_ok_frame:
  "el_records l' = el_records l \<Longrightarrow> el_indexes l' = el_indexes l \<Longrightarrow> indexes_ok l' = indexes_ok l"
  by (simp add: indexes_ok_def)

text \<open>No key twice, and every key of a record is known.\<close>

definition keys_ok :: "event_ledger \<Rightarrow> bool" where
  "keys_ok l \<longleftrightarrow> distinct (map lr_dedupe_key (el_records l)) \<and> lr_dedupe_key ` set (el_records l) \<subseteq> el_dedupe l"

definition ledger_ok :: "event_ledger \<Rightarrow> bool" where
  "ledger_ok l \<longleftrightarrow> indexes_ok l \<and> keys_ok l"

lemma ledger_insert_sel [simp]:
  "el_records (ledger_insert r l) = el_records l @ [r]"
  "el_dedupe (ledger_insert r l) = insert (lr_dedupe_key r) (el_dedupe l)"
  "el_fs (ledger_insert r l) = el_fs l"
  "el_status (ledger_insert r l) = el_status l"
  "el_last_compaction_unix (ledger_insert r l) = el_last_compaction_unix l"
  by (simp_all add: ledger_insert_def insert_indexed_def Let_def)

lemma ledger_ok_insert [wf_intros]:
  assumes "ledger_ok l" and "lr_dedupe_key r \<notin> el_dedupe l"
  shows "ledger_ok (ledger_insert r l)"
proof -
  have "indexes_ok (ledger_insert r l)"
    using assms(1) unfolding ledger_insert_def ledger_ok_def
    by (intro indexes_ok_insert) (simp add: indexes_ok_def)
  then show ?thesis using assms by (auto simp: ledger_ok_def keys_ok_def)
qed

lemma ledger_ok_frame:
  "el_records l' = el_records l \<Longrightarrow> el_indexes l' = el_indexes l \<Longrightarrow> el_dedupe l \<subseteq> el_dedupe l' \<Longrightarrow>
   ledger_ok l \<Longrightarrow> ledger_ok l'"
  by (auto simp: ledger_ok_def keys_ok_def indexes_ok_def)

lemma ledger_ok_empty:
  "el_records l = [] \<Longrightarrow> el_indexes l = empty_indexes \<Longrightarrow> ledger_ok l"
  by (simp add: ledger_ok_def keys_ok_def indexes_ok_def empty_indexes_def index_ok_empty)

lemma ledger_ok_updates [simp]:
  "ledger_ok (l\<lparr>el_fs := fs\<rparr>) = ledger_ok l" "ledger_ok (l\<lparr>el_status := s\<rparr>) = ledger_ok l"
  "ledger_ok (l\<lparr>el_last_compaction_unix := t\<rparr>) = ledger_ok l"
  by (simp_all add: ledger_ok_def keys_ok_def indexes_ok_def)

lemma ledger_ok_append: "ledger_ok l \<Longrightarrow> ledger_ok (fst (ledger_append env e l))"
  by (auto simp: ledger_append_def Let_def count_rejected_def append_text_def
      intro: ledger_ok_insert split: sum.split option.split)

lemma ledger_ok_loaded: "ledger_ok l \<Longrightarrow> ledger_ok (foldl insert_loaded l rs)"
  by (induction rs arbitrary: l) (auto simp: insert_loaded_def intro: ledger_ok_insert)

lemma add_keys_mono: "keys \<subseteq> fst (add_keys cap ks keys)"
  by (induction cap ks keys rule: add_keys.induct) auto

lemma add_history_mono: "keys \<subseteq> fst (add_history cap ss keys)"
proof (induction cap ss keys rule: add_history.induct)
  case (2 cap s ss keys)
  obtain keys' c where k: "add_keys cap (ls_source_dedupe_keys s) keys = (keys', c)" by fastforce
  then have "keys \<subseteq> keys'" using add_keys_mono[of keys cap "ls_source_dedupe_keys s"] by simp
  then show ?case using 2 k by (cases c) auto
qed simp

lemma set_degraded_sel [simp]:
  "el_records (set_degraded w l) = el_records l" "el_indexes (set_degraded w l) = el_indexes l"
  "el_dedupe (set_degraded w l) = el_dedupe l" "el_fs (set_degraded w l) = el_fs l"
  by (simp_all add: set_degraded_def)

lemma ledger_ok_degraded [simp]: "ledger_ok (set_degraded w l) = ledger_ok l"
  by (simp add: ledger_ok_def keys_ok_def indexes_ok_def)

lemma ledger_ok_load: "ledger_ok (fst (ledger_load env l))"
proof -
  let ?l = "l\<lparr>el_records := [], el_dedupe := {}, el_indexes := empty_indexes\<rparr>"
  have e: "ledger_ok ?l" by (rule ledger_ok_empty) simp_all
  have keys: "ledger_ok m \<Longrightarrow> ledger_ok (m\<lparr>el_dedupe := fst (add_history cap ss (el_dedupe m))\<rparr>)" for m cap ss
    using add_history_mono[of "el_dedupe m" cap ss] by (elim ledger_ok_frame[rotated 3]) simp_all
  show ?thesis
    unfolding ledger_load_def Let_def
    by (simp add: e keys ledger_ok_loaded case_prod_unfold split: sum.split)
qed

lemma ledger_ok_reload: "ledger_ok m \<Longrightarrow> ledger_ok (fst (prune_and_reload env now n m))"
proof -
  assume m: "ledger_ok m"
  have "ledger_ok l" if "ledger_load env k = (l, r)" for k l r
    using ledger_ok_load[of env k] that by simp
  with m show ?thesis
    by (auto simp: prune_and_reload_def prune_summary_before_def split: prod.splits sum.splits)
qed

lemma ledger_ok_compact: "ledger_ok l \<Longrightarrow> ledger_ok (fst (compact_if_due env now l))"
  by (auto simp: compact_if_due_def remove_compacted_records_def Let_def
      intro!: ledger_ok_reload split: prod.splits sum.splits option.splits)

text \<open>The states a ledger goes through after it was opened.\<close>

inductive ledger_run :: "'t ledger_env \<Rightarrow> event_ledger \<Rightarrow> bool" for env where
  run_open: "ledger_open env fs = Inr l \<Longrightarrow> ledger_run env l"
| run_append: "ledger_run env l \<Longrightarrow> ledger_run env (fst (ledger_append (env\<lparr>le_now := t\<rparr>) e l))"
| run_query: "ledger_run env l \<Longrightarrow> ledger_run env (fst (ledger_query_run env q l))"
| run_compact: "ledger_run env l \<Longrightarrow> ledger_run env (fst (compact_if_due env now l))"

lemma ledger_ok_open: "ledger_open env fs = Inr l \<Longrightarrow> ledger_ok l"
  using ledger_ok_load[of env]
  by (auto simp: ledger_open_def Let_def ledger_ok_empty split: if_splits prod.splits sum.splits)
     (metis fst_conv)

lemma ledger_run_ok: "ledger_run env l \<Longrightarrow> ledger_ok l"
proof (induction rule: ledger_run.induct)
  case (run_query l q)
  then show ?case by (elim ledger_ok_frame[rotated 3]) (simp_all add: ledger_query_run_def Let_def)
qed (auto simp: ledger_ok_open ledger_ok_append ledger_ok_compact)

section \<open>Queries\<close>

definition query_matches :: "ledger_query \<Rightarrow> ledger_record \<Rightarrow> bool" where
  "query_matches q r \<longleftrightarrow>
     (lq_repo q = None \<or> lr_repo r = lq_repo q) \<and> (lq_worktree q = None \<or> lr_worktree r = lq_worktree q) \<and>
     (lq_session_id q = None \<or> lr_session_id r = lq_session_id q) \<and>
     (lq_event_type q = None \<or> Some (lr_event_type r) = lq_event_type q) \<and>
     list_all (\<lambda>k. normalize_keyword k \<in> set (lr_keywords r)) (lq_keywords q)"

text \<open>A set of candidates stands for a predicate on the records.\<close>

definition selects :: "ledger_record list \<Rightarrow> nat set option \<Rightarrow> (ledger_record \<Rightarrow> bool) \<Rightarrow> bool" where
  "selects rs c P \<longleftrightarrow>
     (case c of None \<Rightarrow> (\<forall>r. P r) | Some s \<Rightarrow> s = {i. i < length rs \<and> P (rs ! i)})"

lemma selects_None: "selects rs None (\<lambda>_. True)"
  by (simp add: selects_def)

lemma selects_intersect:
  "selects rs c P \<Longrightarrow> index_ok f rs ix \<Longrightarrow> selects rs (intersect (ix v) c) (\<lambda>r. P r \<and> v \<in> f r)"
  by (cases c) (auto simp: selects_def intersect_def index_ok_def)

lemma selects_restrict:
  "selects rs c P \<Longrightarrow> index_ok f rs ix \<Longrightarrow>
   selects rs (restrict_by ix v c) (\<lambda>r. P r \<and> (case v of None \<Rightarrow> True | Some w \<Rightarrow> w \<in> f r))"
  by (cases v) (auto simp: restrict_by_def selects_intersect)

lemma selects_keywords:
  "selects rs c P \<Longrightarrow> index_ok f rs ix \<Longrightarrow>
   selects rs (foldl (\<lambda>c k. intersect (ix (g k)) c) c ks) (\<lambda>r. P r \<and> list_all (\<lambda>k. g k \<in> f r) ks)"
proof (induction ks arbitrary: c P)
  case (Cons k ks)
  from Cons.IH[OF selects_intersect[OF Cons.prems] Cons.prems(2)] show ?case by (simp add: conj_assoc)
qed simp

lemma selects_cong: "(\<And>r. P r = Q r) \<Longrightarrow> selects rs c P = selects rs c Q"
proof -
  assume "\<And>r. P r = Q r"
  then have "P = Q" by (rule ext)
  then show ?thesis by simp
qed

lemma query_candidates_select:
  assumes "indexes_ok l"
  shows "selects (el_records l) (query_candidates (el_indexes l) q) (query_matches q)"
proof -
  note ok = assms[unfolded indexes_ok_def]
  have "selects (el_records l) (query_candidates (el_indexes l) q)
      (\<lambda>r. (((((True \<and> (case lq_repo q of None \<Rightarrow> True | Some w \<Rightarrow> w \<in> opt_set (lr_repo r))) \<and>
         (case lq_worktree q of None \<Rightarrow> True | Some w \<Rightarrow> w \<in> opt_set (lr_worktree r))) \<and>
         (case lq_session_id q of None \<Rightarrow> True | Some w \<Rightarrow> w \<in> opt_set (lr_session_id r))) \<and>
         (case lq_event_type q of None \<Rightarrow> True | Some w \<Rightarrow> w \<in> {lr_event_type r})) \<and>
         list_all (\<lambda>k. normalize_keyword k \<in> set (lr_keywords r)) (lq_keywords q)))"
    unfolding query_candidates_def using ok
    by (intro selects_keywords selects_restrict selects_None) auto
  then show ?thesis
    by (rule selects_cong[THEN iffD1, rotated]) (auto simp: query_matches_def split: option.split)
qed

lemma records_at_positions:
  "List.map_filter (record_at rs) (filter (\<lambda>i. P (rs ! i)) [0..<length rs]) = filter P rs"
proof -
  have "List.map_filter (record_at rs) (filter (\<lambda>i. P (rs ! i)) [0..<n]) = filter P (take n rs)"
    if "n \<le> length rs" for n
    using that by (induction n) (auto simp: map_filter_def record_at_def take_Suc_conv_app_nth)
  then show ?thesis by simp
qed

lemma sorted_positions: "sorted_list_of_set {i. i < n \<and> P i} = filter P [0..<n]"
proof -
  have "{i. i < n \<and> P i} = set (filter P [0..<n])" by auto
  moreover have "sorted (filter P [0..<n])" "distinct (filter P [0..<n])"
    by (simp_all add: sorted_wrt_filter)
  ultimately show ?thesis by (metis sorted_list_of_set.idem_if_sorted_distinct)
qed

text \<open>
  C16. A query through the five indexes is the filter it stands for: in every state a ledger can reach
  by appends, queries and compactions after it was opened on any directory, the answer is the records
  that satisfy every condition of the query, in record order, cut at the limit.
\<close>

theorem query_is_filter:
  assumes "ledger_run env l"
  shows "snd (ledger_query_run env q l) =
     take (query_limit (le_config env) q) (filter (\<lambda>r. query_matches q r \<and> in_period q r) (el_records l))"
proof -
  have sel: "selects (el_records l) (query_candidates (el_indexes l) q) (query_matches q)"
    using ledger_run_ok[OF assms] by (intro query_candidates_select) (simp add: ledger_ok_def)
  have swap: "filter (in_period q) (filter (query_matches q) rs) =
      filter (\<lambda>r. query_matches q r \<and> in_period q r) rs" for rs
    by (simp add: conj_commute)
  show ?thesis
  proof (cases "query_candidates (el_indexes l) q")
    case None
    with sel have "\<And>r. query_matches q r" by (simp add: selects_def)
    then show ?thesis using None records_at_positions[of "el_records l" "\<lambda>_. True"]
      by (simp add: ledger_query_run_def)
  next
    case (Some c)
    with sel have "sorted_list_of_set c = filter (\<lambda>i. query_matches q (el_records l ! i)) [0..<length (el_records l)]"
      by (simp add: selects_def sorted_positions)
    then show ?thesis using Some
      by (simp add: ledger_query_run_def records_at_positions swap)
  qed
qed

section \<open>Duplicates\<close>

text \<open>What an append that succeeds leaves behind: the key of its record.\<close>

lemma append_knows_key:
  assumes "ledger_append env e l = (l', Inr out)" and "lc_enabled (le_config env)"
    and "record_from_event env e = Inr r"
  shows "lr_dedupe_key r \<in> el_dedupe l'"
  using assms by (auto simp: ledger_append_def Let_def split: if_splits option.splits prod.splits)

lemma append_known_key:
  assumes "lr_dedupe_key r \<in> el_dedupe l" and "lc_enabled (le_config env)" and "record_from_event env e = Inr r"
  shows "snd (ledger_append env e l) = Inr DuplicateEvent \<and>
     el_records (fst (ledger_append env e l)) = el_records l \<and> el_fs (fst (ledger_append env e l)) = el_fs l \<and>
     el_dedupe (fst (ledger_append env e l)) = el_dedupe l"
  using assms by (simp add: ledger_append_def)

lemma append_mono: "el_dedupe l \<subseteq> el_dedupe (fst (ledger_append env e l))"
  by (auto simp: ledger_append_def Let_def count_rejected_def append_text_def split: sum.split option.split)

text \<open>The key of an event does not depend on the clock.\<close>

lemma record_from_eventE:
  assumes "record_from_event env e = Inr r"
  obtains object links where "as_object (ev_payload e) = Some object"
    and "collect_links env object [''source_url'', ''html_url'', ''url''] [] = Inr links"
    and "lr_dedupe_key r = dedupe_key_of env e object links" and "record_valid env r = Inr ()"
  using assms by (auto simp: record_from_event_def Let_def res_bind_Inr split: option.splits)

lemma link_clock_free [simp]:
  "is_credential_bearing_url (env\<lparr>le_now := t\<rparr>) v = is_credential_bearing_url env v"
  "is_public_link (env\<lparr>le_now := t\<rparr>) v = is_public_link env v"
  by (simp_all add: is_credential_bearing_url_def is_public_link_def)

lemma links_clock_free [simp]: "collect_links (env\<lparr>le_now := t\<rparr>) object keys ls = collect_links env object keys ls"
  by (induction keys arbitrary: ls) (simp_all split: option.split)

lemma dedupe_key_clock_free [simp]:
  "dedupe_key_of (env\<lparr>le_now := t\<rparr>) e object links = dedupe_key_of env e object links"
  by (simp add: dedupe_key_of_def supplied_identity_def hash_bytes_def split: option.split)

lemma key_clock_free:
  assumes "record_from_event env e = Inr r" and "record_from_event (env\<lparr>le_now := t\<rparr>) e = Inr r'"
  shows "lr_dedupe_key r' = lr_dedupe_key r"
  using assms by (elim record_from_eventE) (simp del: collect_links.simps)

section \<open>Restart\<close>

lemma show_int_parse: "- (2 ^ 63) \<le> d \<Longrightarrow> d < 2 ^ 63 \<Longrightarrow> parse_i64 (show_int d) = Some d"
proof -
  assume d: "- (2 ^ 63) \<le> d" "d < 2 ^ 63"
  show ?thesis
  proof (cases "d < 0")
    case True
    then have "nat (- d) \<le> 2 ^ 63" using d by simp
    with True show ?thesis using show_nat_digits[of "nat (- d)"]
      by (simp add: show_int_def parse_i64_def digits_value_show)
  next
    case False
    obtain c cs where c: "show_nat (nat d) = c # cs" using show_nat_digits[of "nat d"] by (cases "show_nat (nat d)") auto
    then have "is_ascii_digit c" using show_nat_digits[of "nat d"] by simp
    then have "c \<noteq> CHR ''-''" by (auto simp: is_ascii_digit_def byte_def)
    moreover have "nat d \<le> 2 ^ 63 - 1" using d False by simp
    ultimately show ?thesis using False c parse_show_nat[of "nat d" "2 ^ 63 - 1"]
      by (simp add: show_int_def parse_i64_def)
  qed
qed

lemma segment_day: "- (2 ^ 63) \<le> d \<Longrightarrow> d < 2 ^ 63 \<Longrightarrow> raw_segment_day (segment_name d) = Inr d"
proof -
  assume d: "- (2 ^ 63) \<le> d" "d < 2 ^ 63"
  have "strip_prefix ''events-'' (segment_name d) = Some (show_int d @ ''.jsonl'')"
    by (simp add: segment_name_def)
  moreover have "strip_suffix ''.jsonl'' (show_int d @ ''.jsonl'') = Some (show_int d)"
    by (simp add: strip_suffix_Some del: append_eq_append_conv)
  ultimately show ?thesis using show_int_parse[OF d] by (simp add: raw_segment_day_def)
qed

lemma segment_extension: "has_extension ''jsonl'' (segment_name d)"
proof -
  have "segment_name d = (''events-'' @ show_int d) @ ''.jsonl''" by (simp add: segment_name_def)
  then have "ends_with ''.jsonl'' (segment_name d)" unfolding ends_with_iff by blast
  then show ?thesis by (simp add: has_extension_def segment_name_def)
qed

lemma split_on_append: "c \<notin> set a \<Longrightarrow> split_on c (a @ c # b) = a # split_on c b"
  by (induction a) auto

lemma split_on_lines:
  "list_all (\<lambda>s. newline \<notin> set s) ss \<Longrightarrow>
   split_on newline (concat (map (\<lambda>s. s @ [newline]) ss)) = ss @ [[]]"
  by (induction ss) (simp_all add: split_on_append)

definition plain_line :: "string \<Rightarrow> bool" where
  "plain_line s \<longleftrightarrow> newline \<notin> set s \<and> strip_suffix [CHR 0x0D] s = None \<and> trim s \<noteq> []"

lemma file_lines_plain:
  "list_all plain_line ss \<Longrightarrow> file_lines (concat (map (\<lambda>s. s @ [newline]) ss)) = ss"
proof -
  assume p: "list_all plain_line ss"
  then have "list_all (\<lambda>s. newline \<notin> set s) ss" by (auto simp: list_all_iff plain_line_def)
  moreover have "map (\<lambda>l. unwrap_or (strip_suffix [CHR 0x0D] l) l) ss = ss"
    using p by (auto simp: list_all_iff plain_line_def intro: map_idI)
  ultimately show ?thesis by (simp add: file_lines_def split_on_lines butlast_append)
qed

text \<open>
  What the ledger relies on of \<open>serde_json\<close> and \<open>time\<close>: the text of a record is one line that parses back
  to the record, and Unix times are far from the limits of \<open>i64\<close>.
\<close>

definition codec_ok :: "'t ledger_env \<Rightarrow> bool" where
  "codec_ok env \<longleftrightarrow>
     (\<forall>r s. le_enc_record env r = Some s \<longrightarrow> plain_line s \<and> le_dec_record env s = Inr r) \<and>
     (\<forall>t. \<bar>le_time_unix env t\<bar> < 2 ^ 62)"

definition no_io_errors :: "'t ledger_env \<Rightarrow> bool" where
  "no_io_errors env \<longleftrightarrow> (\<forall>n. le_fail env n = None) \<and> (\<forall>name. le_read env name = None)"

lemma valid_clock_free [simp]: "record_valid (env\<lparr>le_now := t\<rparr>) r = record_valid env r"
proof -
  have "is_public_link (env\<lparr>le_now := t\<rparr>) = is_public_link env" by (rule ext) simp
  then have "valid_source_links (env\<lparr>le_now := t\<rparr>) = valid_source_links env"
    by (intro ext) (simp add: valid_source_links_def)
  then show ?thesis by (simp add: record_valid_def split: option.split)
qed

definition good_record :: "'t ledger_env \<Rightarrow> ledger_record \<Rightarrow> bool" where
  "good_record env r \<longleftrightarrow> record_valid env r = Inr () \<and> le_enc_record env r \<noteq> None \<and> \<bar>lr_timestamp_unix r\<bar> < 2 ^ 62"

definition segment_of :: "ledger_record \<Rightarrow> string" where
  "segment_of r = segment_name (day_of (lr_timestamp_unix r))"

definition record_line :: "'t ledger_env \<Rightarrow> ledger_record \<Rightarrow> string" where
  "record_line env r = the (le_enc_record env r)"

text \<open>The raw directory holds exactly the records, each day in its own segment in record order.\<close>

definition files_ok :: "'t ledger_env \<Rightarrow> ledger_record list \<Rightarrow> (string, string) btree \<Rightarrow> bool" where
  "files_ok env rs raw \<longleftrightarrow> bt_ok raw \<and> list_all (good_record env) rs \<and>
     fst ` set raw = segment_of ` set rs \<and>
     (\<forall>name body. bt_get raw name = Some body \<longrightarrow>
        body = concat (map (\<lambda>s. s @ [newline]) (map (record_line env) (filter (\<lambda>r. segment_of r = name) rs))))"

lemma files_ok_append:
  assumes "files_ok env rs raw" and "good_record env r"
  shows "files_ok env (rs @ [r])
    (bt_insert (segment_of r) (unwrap_or (bt_get raw (segment_of r)) [] @ record_line env r @ [newline]) raw)"
proof -
  have none: "filter (\<lambda>x. segment_of x = segment_of r) rs = []" if "bt_get raw (segment_of r) = None"
  proof -
    have "segment_of r \<notin> segment_of ` set rs"
      using that assms(1) by (simp add: files_ok_def bt_get_None)
    then show ?thesis unfolding filter_empty_conv by (metis imageI)
  qed
  show ?thesis
    using assms none
    by (cases "bt_get raw (segment_of r)")
       (auto simp: files_ok_def bt_ok_insert keys_bt_insert bt_get_insert split: if_splits)
qed

lemma load_lines_good:
  assumes "codec_ok env" and "list_all (\<lambda>r. good_record env r \<and> day_of (lr_timestamp_unix r) = day) rs"
  shows "load_lines env day (map (record_line env) rs) loaded = Inr (loaded @ rs)"
  using assms(2)
proof (induction rs arbitrary: loaded)
  case (Cons r rs)
  then obtain s where "le_enc_record env r = Some s" by (auto simp: good_record_def)
  with Cons assms(1) show ?case
    by (auto simp: codec_ok_def plain_line_def record_line_def good_record_def)
qed simp

lemma good_day_range: "good_record env r \<Longrightarrow>
    - (2 ^ 63) \<le> day_of (lr_timestamp_unix r) \<and> day_of (lr_timestamp_unix r) < 2 ^ 63"
proof -
  assume "good_record env r"
  then have "- (2 ^ 62) \<le> lr_timestamp_unix r" "lr_timestamp_unix r \<le> 2 ^ 62" by (auto simp: good_record_def)
  from zdiv_mono1[OF this(1), of 86400] zdiv_mono1[OF this(2), of 86400]
  show ?thesis by (simp add: day_of_def)
qed

lemma load_segments_good:
  assumes "codec_ok env" and "no_io_errors env" and "list_all (good_record env) rs"
    and "\<forall>(name, body) \<in> set segs. (\<exists>r \<in> set rs. segment_of r = name) \<and>
      body = concat (map (\<lambda>s. s @ [newline]) (map (record_line env) (filter (\<lambda>r. segment_of r = name) rs)))"
  shows "load_segments env segs loaded =
    Inr (loaded @ concat (map (\<lambda>(name, _). filter (\<lambda>r. segment_of r = name) rs) segs))"
  using assms(4)
proof (induction segs arbitrary: loaded)
  case (Cons f segs)
  obtain name body where f: "f = (name, body)" by (cases f) auto
  let ?rs = "filter (\<lambda>r. segment_of r = name) rs"
  from Cons.prems f obtain r where r: "r \<in> set rs" "segment_of r = name"
    and t: "body = concat (map (\<lambda>s. s @ [newline]) (map (record_line env) ?rs))" by auto
  let ?day = "day_of (lr_timestamp_unix r)"
  have good: "good_record env x" if "x \<in> set rs" for x using assms(3) that by (simp add: list_all_iff)
  have day: "raw_segment_day name = Inr ?day"
    using r good_day_range[OF good[OF r(1)]] segment_day by (auto simp: segment_of_def)
  have same: "day_of (lr_timestamp_unix x) = ?day" if "x \<in> set ?rs" for x
  proof -
    from that have "raw_segment_day (segment_name (day_of (lr_timestamp_unix x))) = Inr ?day"
      using day by (auto simp: segment_of_def)
    then show ?thesis using segment_day good_day_range[OF good] that by auto
  qed
  have "plain_line (record_line env x)" if "x \<in> set rs" for x
    using assms(1) good[OF that] by (auto simp: codec_ok_def good_record_def record_line_def)
  then have "file_lines body = map (record_line env) ?rs"
    unfolding t by (intro file_lines_plain) (auto simp: list_all_iff)
  moreover have "load_lines env ?day (map (record_line env) ?rs) loaded = Inr (loaded @ ?rs)"
    using same good by (intro load_lines_good assms(1)) (auto simp: list_all_iff)
  ultimately show ?case using Cons day f assms(2) by (simp add: no_io_errors_def)
qed simp

lemma mset_by_name:
  "distinct ns \<Longrightarrow> mset (concat (map (\<lambda>n. filter (\<lambda>r. f r = n) rs) ns)) = mset (filter (\<lambda>r. f r \<in> set ns) rs)"
proof (induction ns)
  case (Cons n ns)
  have "mset (filter (\<lambda>r. f r \<in> set (n # ns)) rs) =
      mset (filter (\<lambda>r. f r = n) rs) + mset (filter (\<lambda>r. f r \<in> set ns) rs)"
    using Cons.prems by (induction rs) auto
  then show ?case using Cons by simp
qed simp

lemma insert_all_loaded:
  assumes "distinct (map lr_dedupe_key rs)" and "lr_dedupe_key ` set rs \<inter> el_dedupe l = {}"
  shows "el_records (foldl insert_loaded l rs) = el_records l @ rs \<and>
    el_dedupe (foldl insert_loaded l rs) = el_dedupe l \<union> lr_dedupe_key ` set rs \<and>
    el_fs (foldl insert_loaded l rs) = el_fs l"
  using assms by (induction rs arbitrary: l) (auto simp: insert_loaded_def)

lemma open_files_ok:
  assumes "codec_ok env" and "no_io_errors env" and "lc_enabled (le_config env)"
    and "files_ok env rs (fs_raw fs)" and "fs_summaries fs = []"
    and "distinct (map lr_dedupe_key rs)" and "length rs \<le> lc_max_records (le_config env)"
  shows "\<exists>l. ledger_open env fs = Inr l \<and> mset (el_records l) = mset rs \<and> el_dedupe l = lr_dedupe_key ` set rs"
proof -
  let ?loaded = "concat (map (\<lambda>(name, _). filter (\<lambda>r. segment_of r = name) rs) (fs_raw fs))"
  note ok = assms(4)[unfolded files_ok_def]
  have name: "name \<in> segment_of ` set rs" if "(name, body) \<in> set (fs_raw fs)" for name body
    using ok that by (metis fst_conv imageI)
  have segs: "jsonl_files fs = fs_raw fs"
    using name segment_extension by (auto simp: jsonl_files_def filter_id_conv segment_of_def)
  have "(\<exists>r \<in> set rs. segment_of r = name) \<and>
      body = concat (map (\<lambda>s. s @ [newline]) (map (record_line env) (filter (\<lambda>r. segment_of r = name) rs)))"
    if "(name, body) \<in> set (fs_raw fs)" for name body
  proof -
    have "bt_get (fs_raw fs) name = Some body" using ok that by (intro bt_get_in) simp
    with ok name[OF that] show ?thesis by blast
  qed
  then have "load_segments env (fs_raw fs) [] = Inr ([] @ ?loaded)"
    using ok by (intro load_segments_good assms) auto
  then have load: "load_segments env (fs_raw fs) [] = Inr ?loaded" by simp
  have "?loaded = concat (map (\<lambda>n. filter (\<lambda>r. segment_of r = n) rs) (map fst (fs_raw fs)))"
    by (simp add: comp_def case_prod_unfold)
  then have m: "mset ?loaded = mset rs"
    using mset_by_name[of "map fst (fs_raw fs)" segment_of rs] ok bt_ok_distinct[of "fs_raw fs"] by simp
  define loaded where "loaded = ?loaded"
  define sorted where "sorted = sort_key (\<lambda>r. (lr_timestamp_unix r, lr_id r)) loaded"
  have ms: "mset sorted = mset rs" using m by (simp add: sorted_def loaded_def)
  then have len: "length sorted = length rs" by (rule mset_eq_length)
  have "mset (map lr_dedupe_key sorted) = mset (map lr_dedupe_key rs)" using ms by simp
  then have dist: "distinct (map lr_dedupe_key sorted)"
    using assms(6) mset_eq_imp_distinct_iff by blast
  let ?l = "\<lparr>el_records = [], el_dedupe = {}, el_indexes = empty_indexes, el_status = zero_counters,
       el_last_compaction_unix = 0, el_fs = fs\<rparr>"
  have all: "el_records (foldl insert_loaded ?l sorted) = sorted"
    "el_dedupe (foldl insert_loaded ?l sorted) = lr_dedupe_key ` set sorted"
    "el_fs (foldl insert_loaded ?l sorted) = fs"
    using insert_all_loaded[OF dist, of ?l] by simp_all
  have "ledger_open env fs = Inr ((foldl insert_loaded ?l sorted)\<lparr>el_dedupe := lr_dedupe_key ` set sorted\<rparr>)"
    using assms(3,5,7) load[folded loaded_def] len segs all
    by (simp add: ledger_open_def ledger_load_def json_files_def Let_def sorted_def [symmetric])
  then show ?thesis
    using all mset_eq_setD[OF ms] ms by simp
qed

text \<open>A history of appended events, each with the clock at its arrival.\<close>

definition append_all :: "'t ledger_env \<Rightarrow> ('t \<times> incoming_event) list \<Rightarrow> event_ledger \<Rightarrow> event_ledger" where
  "append_all env history l = foldl (\<lambda>l (t, e). fst (ledger_append (env\<lparr>le_now := t\<rparr>) e l)) l history"

definition empty_dirs :: ledger_fs where
  "empty_dirs = \<lparr>fs_raw = [], fs_summaries = [], fs_ops = 0\<rparr>"

definition on_disk :: "'t ledger_env \<Rightarrow> event_ledger \<Rightarrow> bool" where
  "on_disk env l \<longleftrightarrow> files_ok env (el_records l) (fs_raw (el_fs l)) \<and> fs_summaries (el_fs l) = [] \<and>
     length (el_records l) \<le> lc_max_records (le_config env) \<and>
     el_dedupe l = lr_dedupe_key ` set (el_records l) \<and> keys_ok l"

lemma valid_encoded: "record_valid env r = Inr () \<Longrightarrow> le_enc_record env r \<noteq> None"
  by (auto simp: record_valid_def split: option.splits if_splits)

lemma on_disk_append:
  assumes "on_disk env l" and "codec_ok env" and "no_io_errors env"
  shows "on_disk env (fst (ledger_append (env\<lparr>le_now := t\<rparr>) e l))"
proof (cases "record_from_event (env\<lparr>le_now := t\<rparr>) e")
  case (Inl err)
  then show ?thesis using assms(1)
    by (simp add: ledger_append_def count_rejected_def on_disk_def keys_ok_def)
next
  case (Inr r)
  then have valid: "record_valid env r = Inr ()" by (elim record_from_eventE) simp
  have "\<exists>u. lr_timestamp_unix r = le_time_unix env u"
    using Inr by (auto simp: record_from_event_def Let_def res_bind_Inr split: option.splits)
  then have good: "good_record env r"
    using assms(2) valid valid_encoded[OF valid] by (auto simp: good_record_def codec_ok_def)
  then obtain s where s: "le_enc_record env r = Some s" "record_line env r = s"
    by (auto simp: good_record_def record_line_def)
  have "files_ok env (el_records l @ [r]) (bt_insert (segment_of r)
      (unwrap_or (bt_get (fs_raw (el_fs l)) (segment_of r)) [] @ s @ [newline]) (fs_raw (el_fs l)))"
    if "on_disk env l" using files_ok_append[OF _ good] that s(2) by (simp add: on_disk_def)
  then show ?thesis
    using Inr assms s(1)
    by (auto simp: ledger_append_def count_rejected_def append_text_def Let_def no_io_errors_def
        on_disk_def keys_ok_def segment_of_def)
qed

text \<open>
  C15. A restart loses nothing: after any history of appended events, accepted, refused or repeated, on
  an empty directory without I/O errors, opening the directory again gives a ledger with the same
  records and the same known keys, so that duplicates are still recognised. The text of a record is
  assumed to parse back to it.
\<close>

theorem ledger_restart:
  assumes "codec_ok env" and "no_io_errors env" and "lc_enabled (le_config env)"
    and "ledger_open env empty_dirs = Inr l"
  shows "\<exists>l'. ledger_open env (el_fs (append_all env history l)) = Inr l' \<and>
     mset (el_records l') = mset (el_records (append_all env history l)) \<and>
     el_dedupe l' = el_dedupe (append_all env history l)"
proof -
  have "on_disk env l" using assms(3,4)
    by (auto simp: ledger_open_def ledger_load_def empty_dirs_def jsonl_files_def json_files_def Let_def
        on_disk_def files_ok_def keys_ok_def)
  then have "on_disk env (append_all env history l)"
    unfolding append_all_def
  proof (induction history arbitrary: l)
    case (Cons x history)
    then show ?case using on_disk_append[OF Cons.prems assms(1,2)] by (cases x) simp
  qed simp
  then show ?thesis
    using open_files_ok[OF assms(1-3)] by (fastforce simp: on_disk_def keys_ok_def)
qed

section \<open>Samples\<close>

definition sample_record :: "string \<Rightarrow> secs \<Rightarrow> ledger_record" where
  "sample_record key time =
     \<lparr>lr_schema_version = 1, lr_id = replicate 64 CHR ''a'', lr_dedupe_key = key, lr_timestamp = ''t'',
      lr_timestamp_unix = time, lr_event_type = ''custom'', lr_source = ''clawhip'', lr_repo = Some ''r'',
      lr_worktree = None, lr_session_id = None, lr_source_links = [], lr_keywords = [''custom'']\<rparr>"

definition hex_key :: "char \<Rightarrow> string" where
  "hex_key c = replicate 64 c"

definition sample_ledger_env :: "nat \<Rightarrow> (nat \<Rightarrow> string option) \<Rightarrow> (ledger_record \<times> string) list \<Rightarrow> secs ledger_env" where
  "sample_ledger_env cap fail codec =
     \<lparr>le_config = \<lparr>lc_enabled = True, lc_raw_retention_days = 1, lc_summary_retention_days = 1,
        lc_compaction_interval_secs = 1, lc_max_records = cap, lc_max_record_bytes = 512, lc_max_keywords = 4,
        lc_max_keyword_bytes = 16, lc_max_query_results = 10, lc_max_records_per_compaction = 10\<rparr>,
      le_sha256 = (\<lambda>_. hex_key CHR ''a''), le_to_json = (\<lambda>_. Some ''json''), le_url = (\<lambda>_. None),
      le_time_parse = (\<lambda>s. if s = ''t'' then Some 1000 else if s = ''u'' then Some 2000 else None),
      le_time_unix = (\<lambda>t. if t = 2000 then 2000 else 1000), le_time_format = (\<lambda>t. Some (if t = 2000 then ''u'' else ''t'')),
      le_now = 1000, le_enc_record = map_of codec,
      le_dec_record = (\<lambda>s. case map_of (map (\<lambda>(r, s). (s, r)) codec) s of Some r \<Rightarrow> Ok r | None \<Rightarrow> Err ''json''),
      le_enc_summary = (\<lambda>_. None), le_dec_summary = (\<lambda>_. Err ''json''),
      le_fail = fail, le_torn = (\<lambda>_. 1), le_read = (\<lambda>_. None)\<rparr>"

definition sample_repo_event :: incoming_event where
  "sample_repo_event = workspace_event ''custom'' (jobject [(''event_id'', JStr ''e1''), (''repo'', JStr ''r'')]) None"

definition one_record :: "(ledger_record \<times> string) list" where
  "one_record = [(sample_record (hex_key CHR ''a'') 1000, ''xy'')]"

definition sample_ledger :: event_ledger where
  "sample_ledger =
     \<lparr>el_records = [], el_dedupe = {}, el_indexes = empty_indexes, el_status = zero_counters,
      el_last_compaction_unix = 0, el_fs = empty_dirs\<rparr>"

lemma sample_open: "ledger_open (sample_ledger_env 2 fail codec) empty_dirs = Inr sample_ledger"
  by (simp add: ledger_open_def ledger_load_def empty_dirs_def jsonl_files_def json_files_def Let_def
      sample_ledger_def sample_ledger_env_def)

lemma sample_event_record:
  "record_from_event (sample_ledger_env 2 fail one_record) sample_repo_event = Inr (sample_record (hex_key CHR ''a'') 1000)"
  by code_simp

lemma sample_ledger_clock: "sample_ledger_env c f codec\<lparr>le_now := 1000\<rparr> = sample_ledger_env c f codec"
  by (simp add: sample_ledger_env_def)

definition sample_appended :: "(nat \<Rightarrow> string option) \<Rightarrow> event_ledger" where
  "sample_appended fail = fst (ledger_append (sample_ledger_env 2 fail one_record) sample_repo_event sample_ledger)"

lemma sample_appended_records: "el_records (sample_appended (\<lambda>_. None)) = [sample_record (hex_key CHR ''a'') 1000]"
  by code_simp

theorem ledger_restart_witness:
  "\<exists>l'. ledger_open (sample_ledger_env 2 (\<lambda>_. None) one_record) (el_fs (sample_appended (\<lambda>_. None))) = Inr l' \<and>
     el_records l' = [sample_record (hex_key CHR ''a'') 1000]"
proof -
  let ?env = "sample_ledger_env 2 (\<lambda>_. None) one_record"
  have "plain_line ''xy''" by code_simp
  then have c: "codec_ok ?env" "no_io_errors ?env" "lc_enabled (le_config ?env)"
    by (auto simp: codec_ok_def no_io_errors_def sample_ledger_env_def one_record_def)
  have h: "append_all ?env [(1000, sample_repo_event)] sample_ledger = sample_appended (\<lambda>_. None)"
    by (simp add: append_all_def sample_appended_def sample_ledger_clock)
  from ledger_restart[OF c sample_open, of "[(1000, sample_repo_event)]"] show ?thesis
    by (auto simp: h sample_appended_records)
qed

theorem query_is_filter_witness:
  "snd (ledger_query_run (sample_ledger_env 2 (\<lambda>_. None) one_record)
     \<lparr>lq_repo = Some ''r'', lq_worktree = None, lq_session_id = None, lq_event_type = None, lq_since_unix = Some 500,
      lq_until_unix = None, lq_keywords = [''CUSTOM''], lq_limit = None\<rparr> (sample_appended (\<lambda>_. None)))
   = [sample_record (hex_key CHR ''a'') 1000]"
proof -
  let ?env = "sample_ledger_env 2 (\<lambda>_. None) one_record"
  let ?q = "\<lparr>lq_repo = Some ''r'', lq_worktree = None, lq_session_id = None, lq_event_type = None, lq_since_unix = Some 500,
      lq_until_unix = None, lq_keywords = [''CUSTOM''], lq_limit = None\<rparr>"
  have "ledger_run ?env (sample_appended (\<lambda>_. None))"
    using run_append[OF run_open[OF sample_open, of "\<lambda>_. None" one_record], of 1000 sample_repo_event]
    by (simp add: sample_ledger_clock sample_appended_def)
  note q = query_is_filter[OF this, of ?q]
  have "query_limit (le_config ?env) ?q = 10" by code_simp
  moreover have "query_matches ?q (sample_record (hex_key CHR ''a'') 1000) \<and> in_period ?q (sample_record (hex_key CHR ''a'') 1000)"
    by code_simp
  ultimately show ?thesis using q by (simp add: sample_appended_records)
qed

section \<open>Behaviour under faults\<close>

text \<open>
  An append that fails after part of the line was written leaves the part in the segment. The
  segment is then unreadable: opening the ledger again fails, so the daemon does not start, and a later
  append that succeeds is glued to the broken part and lost as well.
\<close>

theorem torn_append_blocks_restart:
  "let env = sample_ledger_env 2 (\<lambda>n. if n = 0 then Some ''disk full'' else None) one_record;
       torn = ledger_append env sample_repo_event sample_ledger;
       later = ledger_append env sample_repo_event (fst torn)
   in snd torn = Inl ''disk full'' \<and> \<not> is_ok (ledger_open env (el_fs (fst torn))) \<and>
      snd later = Inr Appended \<and> \<not> is_ok (ledger_open env (el_fs (fst later)))"
  unfolding Let_def by (intro conjI; code_simp)

text \<open>
  Compaction can drop records. A ledger opened on more records than it may hold keeps the newest; when
  compaction later rewrites the segment it writes back only what it holds, so the older record of the
  same day disappears from disk although no summary mentions it.
\<close>

definition two_records :: "(ledger_record \<times> string) list" where
  "two_records =
     [(sample_record (hex_key CHR ''a'') 1000, ''old''),
      (sample_record (hex_key CHR ''b'') 2000\<lparr>lr_timestamp := ''u'', lr_id := hex_key CHR ''b''\<rparr>, ''new'')]"

definition two_record_dirs :: ledger_fs where
  "two_record_dirs =
     \<lparr>fs_raw = [(segment_name 0, ''old'' @ [newline] @ ''new'' @ [newline])], fs_summaries = [], fs_ops = 0\<rparr>"

definition summary_env :: "secs ledger_env" where
  "summary_env = (sample_ledger_env 1 (\<lambda>_. None) two_records)
     \<lparr>le_enc_summary := (\<lambda>s. Some (join_with '','' (ls_source_dedupe_keys s)))\<rparr>"

theorem compaction_drops_capped_records:
  "case ledger_open summary_env two_record_dirs of
     Inl _ \<Rightarrow> False
   | Inr l \<Rightarrow>
       let l' = fst (compact_if_due summary_env 1000000 l)
       in map lr_dedupe_key (el_records l) = [hex_key CHR ''b''] \<and> fs_raw (el_fs l') = [] \<and>
          map (fst \<circ> snd) (fs_summaries (el_fs l')) = [hex_key CHR ''b'' @ [newline]]"
  by code_simp

text \<open>
  A source name is cut to 128 characters but checked against 128 bytes: an event whose source has 65
  two-byte characters is refused, and with it the event.
\<close>

definition accented_event :: incoming_event where
  "accented_event = workspace_event ''custom''
     (jobject [(''event_id'', JStr ''e1''), (''source'', JStr (concat (replicate 65 [CHR 0xC3, CHR 0xA9])))]) None"

definition payload_object :: "incoming_event \<Rightarrow> (string, json) btree" where
  "payload_object e = unwrap_or (as_object (ev_payload e)) []"

theorem multibyte_source_refused:
  "record_from_event (sample_ledger_env 2 (\<lambda>_. None) one_record) accented_event = Inl ''invalid_ledger_record'' \<and>
   char_count (source_of (payload_object accented_event)) = 65"
  by code_simp

end
