(* ===== verification/DispatchLedger.thy ===== *)
theory DispatchLedger imports DispatchCorrect LedgerCorrect begin

text \<open>
  The dispatcher with the event ledger behind it. \<open>event_log\<close> is what the dispatcher relies on when it
  asks the ledger about an event: a key that was accepted stays known, and an event with a known key is
  not accepted again. The ledger of \<open>Ledger\<close>, read with a clock that advances at every append, provides it.
\<close>

text \<open>The log after a list of events.\<close>

definition feed :: "('l \<Rightarrow> incoming_event \<Rightarrow> 'l \<times> 'r) \<Rightarrow> incoming_event list \<Rightarrow> 'l \<Rightarrow> 'l" where
  "feed step es l = foldl (\<lambda>l e. fst (step l e)) l es"

locale event_log =
  fixes append :: "'l \<Rightarrow> incoming_event \<Rightarrow> 'l \<times> (string + append_outcome)"
    and key :: "incoming_event \<Rightarrow> string option"
    and keys :: "'l \<Rightarrow> string set"
  assumes accepted_known: "append l e = (l', Inr out) \<Longrightarrow> \<exists>k. key e = Some k \<and> k \<in> keys l'"
    and keys_grow: "keys l \<subseteq> keys (fst (append l e))"
    and known_refused: "key e = Some k \<Longrightarrow> k \<in> keys l \<Longrightarrow> snd (append l e) \<noteq> Inr Appended"
begin

lemma keys_feed: "keys l \<subseteq> keys (feed append es l)"
proof (induction es arbitrary: l)
  case (Cons e es)
  then show ?case using keys_grow[of l e] by (fastforce simp: feed_def)
qed (simp add: feed_def)

lemma never_accepted_again:
  assumes "append l e = (l', Inr out)" and "key e' = key e"
  shows "snd (append (feed append es l') e') \<noteq> Inr Appended"
proof -
  from accepted_known[OF assms(1)] obtain k where k: "key e = Some k" "k \<in> keys l'" by blast
  then have "k \<in> keys (feed append es l')" using keys_feed by blast
  then show ?thesis using k(1) assms(2) by (intro known_refused[of e' k]) simp_all
qed

end

section \<open>The ledger as an event log\<close>

text \<open>The key of an event: it does not depend on the clock.\<close>

definition ledger_key :: "'t ledger_env \<Rightarrow> incoming_event \<Rightarrow> string option" where
  "ledger_key env e = Option.bind (as_object (ev_payload e)) (\<lambda>object.
     case collect_links env object [''source_url'', ''html_url'', ''url''] [] of
       Inl _ \<Rightarrow> None | Inr links \<Rightarrow> Some (dedupe_key_of env e object links))"

lemma record_has_key: "record_from_event env e = Inr r \<Longrightarrow> ledger_key env e = Some (lr_dedupe_key r)"
  by (elim record_from_eventE) (simp add: ledger_key_def del: collect_links.simps)

lemma ledger_key_clock_free [simp]: "ledger_key (env\<lparr>le_now := t\<rparr>) e = ledger_key env e"
  by (cases "as_object (ev_payload e)") (simp_all add: ledger_key_def del: collect_links.simps split: sum.split)

definition enabled_env :: "'t ledger_env \<Rightarrow> 't ledger_env" where
  "enabled_env env = env\<lparr>le_config := (le_config env)\<lparr>lc_enabled := True\<rparr>\<rparr>"

lemma enabled_env_id: "lc_enabled (le_config env) \<Longrightarrow> enabled_env env = env"
  by (simp add: enabled_env_def)

text \<open>The shared ledger with the number of appends so far: the \<open>n\<close>th append happens at \<open>clock n\<close>.\<close>

definition clocked_append ::
    "'t ledger_env \<Rightarrow> (nat \<Rightarrow> 't) \<Rightarrow> nat \<times> event_ledger \<Rightarrow> incoming_event \<Rightarrow> (nat \<times> event_ledger) \<times> (string + append_outcome)" where
  "clocked_append env clock l e =
     (case ledger_append (env\<lparr>le_now := clock (fst l)\<rparr>) e (snd l) of (l', res) \<Rightarrow> ((Suc (fst l), l'), res))"

lemma append_refuses_known:
  assumes "ledger_key env e = Some k" and "k \<in> el_dedupe l" and "lc_enabled (le_config env)"
  shows "snd (ledger_append env e l) \<noteq> Inr Appended"
proof (cases "record_from_event env e")
  case (Inl err)
  then show ?thesis using assms(3) by (simp add: ledger_append_def)
next
  case (Inr r)
  then show ?thesis using assms record_has_key[OF Inr] append_known_key[of r l env e] by simp
qed

lemma append_ok_has_key:
  assumes "ledger_append env e l = (l', Inr out)" and "lc_enabled (le_config env)"
  shows "\<exists>k. ledger_key env e = Some k \<and> k \<in> el_dedupe l'"
proof (cases "record_from_event env e")
  case (Inl err)
  then show ?thesis using assms by (simp add: ledger_append_def)
next
  case (Inr r)
  then show ?thesis using append_knows_key[OF assms Inr] record_has_key[OF Inr] by blast
qed

interpretation el: event_log "clocked_append (enabled_env env) clock" "ledger_key (enabled_env env)" "\<lambda>l. el_dedupe (snd l)"
  for env :: "'t ledger_env" and clock :: "nat \<Rightarrow> 't"
proof unfold_locales
  let ?env = "\<lambda>l. enabled_env env\<lparr>le_now := clock (fst l)\<rparr>"
  have on: "lc_enabled (le_config (?env l))" for l by (simp add: enabled_env_def)
  fix l :: "nat \<times> event_ledger" and e l' out
  assume "clocked_append (enabled_env env) clock l e = (l', Inr out)"
  then show "\<exists>k. ledger_key (enabled_env env) e = Some k \<and> k \<in> el_dedupe (snd l')"
    using append_ok_has_key[OF _ on, of l e "snd l" "snd l'" out] by (auto simp: clocked_append_def split: prod.splits)
next
  fix l :: "nat \<times> event_ledger" and e
  show "el_dedupe (snd l) \<subseteq> el_dedupe (snd (fst (clocked_append (enabled_env env) clock l e)))"
    using append_mono by (simp add: clocked_append_def case_prod_unfold)
next
  fix l :: "nat \<times> event_ledger" and e k
  assume "ledger_key (enabled_env env) e = Some k" and "k \<in> el_dedupe (snd l)"
  then have "snd (ledger_append (enabled_env env\<lparr>le_now := clock (fst l)\<rparr>) e (snd l)) \<noteq> Inr Appended"
    by (intro append_refuses_known[of _ _ k]) (simp_all add: enabled_env_def [of env])
  then show "snd (clocked_append (enabled_env env) clock l e) \<noteq> Inr Appended"
    by (simp add: clocked_append_def case_prod_unfold)
qed

section \<open>What the dispatcher does to its ledger\<close>

lemma ledger_resolve [simp]: "d_ledger (resolve_alert_acceptance e b st) = d_ledger st"
  by (auto simp: resolve_alert_acceptance_def resolve_alert_acceptance_id_def split: option.split)

lemma ledger_dispatch_accepted: "d_ledger (dispatch_accepted env now e st) = d_ledger st"
proof -
  let ?st = "flush_due_batches env now st"
  have f: "frame st ?st" by (rule frame_flush[OF frame_refl])
  have "frame st (deliver_events env es (?st\<lparr>d_ci := q\<rparr>))" for es q
    by (intro frame_deliver_events frames f)
  moreover have "frame st (fst (resolve_and_dispatch env e now ?st))"
    by (rule frame_resolve_and_dispatch[OF f])
  ultimately show ?thesis
    by (auto simp: dispatch_accepted_def Let_def case_prod_unfold frame_def clear_alert_delivery_journal_def
        split: option.split)
qed

lemma ledger_dispatch_event:
  "d_ledger (dispatch_event env t u now x st) =
     map_option (\<lambda>l. fst (de_append env l (normalize_event t u x))) (d_ledger st)"
proof -
  let ?r = "record_event_result env (normalize_event t u x) st"
  have "d_ledger (fst ?r) = map_option (\<lambda>l. fst (de_append env l (normalize_event t u x))) (d_ledger st)"
    by (simp add: record_changes_ledger)
  then show ?thesis
    by (cases "snd ?r") (auto simp: dispatch_event_def Let_def case_prod_unfold ledger_dispatch_accepted)
qed

text \<open>A history of dispatched events.\<close>

definition dispatch_all ::
    "'l dispatch_env \<Rightarrow> (string \<times> string \<times> ms \<times> incoming_event) list \<Rightarrow> 'l dispatcher \<Rightarrow> 'l dispatcher" where
  "dispatch_all env history st = foldl (\<lambda>st (t, u, now, x). dispatch_event env t u now x st) st history"

definition normalized_history :: "(string \<times> string \<times> ms \<times> incoming_event) list \<Rightarrow> incoming_event list" where
  "normalized_history history = map (\<lambda>(t, u, now, x). normalize_event t u x) history"

lemma ledger_dispatch_all:
  "d_ledger (dispatch_all env history st) =
     map_option (\<lambda>l. foldl (\<lambda>l e. fst (de_append env l e)) l (normalized_history history)) (d_ledger st)"
proof (induction history arbitrary: st)
  case (Cons h history)
  obtain t u now x where "h = (t, u, now, x)" by (cases h) auto
  with Cons show ?case
    by (simp add: dispatch_all_def normalized_history_def ledger_dispatch_event option.map_comp comp_def)
qed (simp add: dispatch_all_def normalized_history_def option.map_ident)

fun is_answer :: "effect \<Rightarrow> bool" where
  "is_answer (Answer _ _) = True"
| "is_answer _ = False"

lemma resolve_only_answers:
  "\<exists>answers. d_log (resolve_alert_acceptance e b st) = d_log st @ answers \<and> list_all is_answer answers"
  by (auto simp: resolve_alert_acceptance_def resolve_alert_acceptance_id_def list_all_iff split: option.split)

lemma resolve_keeps [simp]:
  "d_ci (resolve_alert_acceptance e b st) = d_ci st" "d_routine (resolve_alert_acceptance e b st) = d_routine st"
  "d_store (resolve_alert_acceptance e b st) = d_store st"
  by (auto simp: resolve_alert_acceptance_def resolve_alert_acceptance_id_def split: option.split)

text \<open>No handler opens a delivery journal.\<close>

lemma journals_resolve [simp]: "d_journals (resolve_alert_acceptance e b st) = d_journals st"
  by (auto simp: resolve_alert_acceptance_def resolve_alert_acceptance_id_def split: option.split)

lemma journals_dispatch_accepted:
  assumes "d_journals st i = None"
  shows "d_journals (dispatch_accepted env now e st) i = None"
proof -
  let ?st = "flush_due_batches env now st"
  have f: "frame st ?st" by (rule frame_flush[OF frame_refl])
  have "frame st (deliver_events env es (?st\<lparr>d_ci := q\<rparr>))" for es q
    by (intro frame_deliver_events frames f)
  moreover have "frame st (fst (resolve_and_dispatch env e now ?st))"
    by (rule frame_resolve_and_dispatch[OF f])
  ultimately show ?thesis using assms
    by (auto simp: dispatch_accepted_def Let_def case_prod_unfold frame_def clear_alert_delivery_journal_def
        split: option.split)
qed

lemma journals_dispatch_event:
  "d_journals st i = None \<Longrightarrow> d_journals (dispatch_event env t u now x st) i = None"
  by (cases "snd (record_event_result env (normalize_event t u x) st)")
     (auto simp: dispatch_event_def Let_def case_prod_unfold record_changes_ledger journals_dispatch_accepted)

lemma journal_ignores_ledger [simp]: "alert_delivery_journal e (with_ledger g st) = alert_delivery_journal e st"
  by (simp add: alert_delivery_journal_def)

lemma with_ledger_keeps [simp]:
  "d_ci (with_ledger g st) = d_ci st" "d_routine (with_ledger g st) = d_routine st"
  "d_store (with_ledger g st) = d_store st"
  by (simp_all add: with_ledger_def)


definition ledger_dispatch_env :: "(nat \<times> event_ledger) dispatch_env" where
  "ledger_dispatch_env =
     \<lparr>de_cfg = sample_config [], de_show_array = (\<lambda>_. []), de_parse_url = (\<lambda>_. None), de_tokens = sample_env,
      de_renderer = (\<lambda>_ _. Ok ''text''), de_sip_hash = (\<lambda>_ _. 0), de_to_json = (\<lambda>_. None),
      de_enc = unary_enc, de_dec = unary_dec,
      de_sinks = (\<lambda>name. if name = ''discord'' then Some (\<lambda>_ _ _. None) else None),
      de_disk_ok = (\<lambda>_. True), de_rfc3339 = ''t'',
      de_append = clocked_append (sample_ledger_env 2 (\<lambda>_. None) one_record\<lparr>le_enc_record := (\<lambda>_. Some ''xy'')\<rparr>) (\<lambda>_. 1000),
      de_compact = (\<lambda>_ l. l)\<rparr>"

definition ledger_dispatcher :: "(nat \<times> event_ledger) dispatcher" where
  "ledger_dispatcher = dispatcher_new 0 5000 None (Some (0, sample_ledger)) sample_store"


end
