(* ===== verification/DiscordSend.thy ===== *)
theory DiscordSend imports CircuitBreaker RateLimit Targets begin

text \<open>
  Delivery to Discord: \<open>DiscordClient::send\<close> of \<open>src/discord.rs\<close> with its retries, its circuit breaker
  and rate limiter per target and its dead letters (\<open>src/core/dlq.rs\<close>). The locks are not modelled: each operation is atomic in the code, too.

  HTTP belongs to \<open>reqwest\<close>: \<open>dc_http\<close> answers a POST request, given everything done before, with a
  transport error (flagged when it is a timeout) or a status and a body. \<open>dc_retry_after\<close> reads the field
  of a JSON body. The \<open>n\<close>th operation that may read the clock reads \<open>dc_clock n\<close> milliseconds. What the
  client does to the outside is appended to \<open>dd_log\<close>: requests with their answers, telemetry records,
  sleeps.
\<close>

section \<open>Data\<close>

record dlq_entry =
  dl_original_topic :: string
  dl_retry_count :: nat
  dl_last_error :: string
  dl_target :: string
  dl_event_kind :: string
  dl_format :: string
  dl_content :: string
  dl_payload :: json
  dl_correlation_id :: "string option"
  dl_content_bytes :: "nat option"
  dl_payload_bytes :: "nat option"

datatype http_reply = TransportError bool | Reply nat string

datatype discord_effect =
    Post string string http_reply
  | Get string http_reply
  | Record "(string, json) btree"
  | Sleep rat

record discord_send_error =
  de_message :: string
  de_retry_after :: "rat option"
  de_status :: "nat option"

datatype http_outcome = Sent | Failed discord_send_error | Panicked

record discord_env =
  dc_has_bot :: bool
  dc_api_base :: string
  dc_http :: "discord_effect list \<Rightarrow> string \<Rightarrow> string \<Rightarrow> http_reply"
  dc_clock :: "nat \<Rightarrow> nat"
  dc_status_text :: "nat \<Rightarrow> string"
  dc_retry_after :: "string \<Rightarrow> rat option"
  dc_parse_url :: url_parser
  dc_sip_hash :: hasher
  dc_to_json :: "json \<Rightarrow> string option"

record discord_client =
  dd_limiter :: rate_limiter
  dd_circuits :: "string \<Rightarrow> circuit_breaker option"
  dd_dlq :: "dlq_entry list"
  dd_reads :: nat
  dd_log :: "discord_effect list"

definition max_attempts :: nat where "max_attempts = 3"
definition jitter_ms :: nat where "jitter_ms = 50"
definition circuit_failure_threshold :: nat where "circuit_failure_threshold = 3"
definition circuit_cooldown_ms :: nat where "circuit_cooldown_ms = 5000"
definition rate_limit_capacity :: nat where "rate_limit_capacity = 5"
definition rate_limit_refill_per_sec :: rat where "rate_limit_refill_per_sec = 5"

definition discord_client_new :: discord_client where
  "discord_client_new =
     \<lparr>dd_limiter = limiter_new rate_limit_capacity rate_limit_refill_per_sec, dd_circuits = (\<lambda>_. None),
      dd_dlq = [], dd_reads = 0, dd_log = []\<rparr>"

section \<open>Breaker, limiter and records\<close>

text \<open>\<open>entry(key).or_insert_with(..)\<close> followed by an operation of the breaker.\<close>

definition circuit_for :: "string \<Rightarrow> discord_client \<Rightarrow> circuit_breaker" where
  "circuit_for key c = unwrap_or (dd_circuits c key) (breaker_new circuit_failure_threshold circuit_cooldown_ms)"

definition client_allow_request :: "discord_env \<Rightarrow> string \<Rightarrow> discord_client \<Rightarrow> discord_client \<times> bool \<times> circuit_transition option" where
  "client_allow_request env key c =
     (case allow_request (dc_clock env (dd_reads c)) (circuit_for key c) of
        (b, r) \<Rightarrow> (c\<lparr>dd_circuits := (dd_circuits c)(key \<mapsto> b), dd_reads := Suc (dd_reads c)\<rparr>, r))"

definition client_record_success :: "string \<Rightarrow> discord_client \<Rightarrow> discord_client \<times> circuit_transition option" where
  "client_record_success key c =
     (case record_success (circuit_for key c) of (b, r) \<Rightarrow> (c\<lparr>dd_circuits := (dd_circuits c)(key \<mapsto> b)\<rparr>, r))"

definition client_record_failure :: "discord_env \<Rightarrow> string \<Rightarrow> discord_client \<Rightarrow> discord_client \<times> circuit_transition option" where
  "client_record_failure env key c =
     (case record_failure (dc_clock env (dd_reads c)) (circuit_for key c) of
        (b, r) \<Rightarrow> (c\<lparr>dd_circuits := (dd_circuits c)(key \<mapsto> b), dd_reads := Suc (dd_reads c)\<rparr>, r))"

definition rate_limit_delay :: "discord_env \<Rightarrow> string \<Rightarrow> discord_client \<Rightarrow> discord_client \<times> rat" where
  "rate_limit_delay env key c =
     (case delay_for (of_nat (dc_clock env (dd_reads c)) / 1000) key (dd_limiter c) of
        (l, d) \<Rightarrow> (c\<lparr>dd_limiter := l, dd_reads := Suc (dd_reads c)\<rparr>, d))"

definition log_effect :: "discord_effect \<Rightarrow> discord_client \<Rightarrow> discord_client" where
  "log_effect x c = c\<lparr>dd_log := dd_log c @ [x]\<rparr>"

definition sleep_for :: "rat \<Rightarrow> discord_client \<Rightarrow> discord_client" where
  "sleep_for d c = (if d = 0 then c else log_effect (Sleep d) c)"

fun emit_circuit_transition :: "string \<Rightarrow> string \<Rightarrow> circuit_transition option \<Rightarrow> discord_client \<Rightarrow> discord_client" where
  "emit_circuit_transition correlation safe_target None c = c"
| "emit_circuit_transition correlation safe_target (Some t) c =
     log_effect (Record (bt_insert ''to'' (JStr (tr_to t)) (bt_insert ''from'' (JStr (tr_from t))
       (bt_insert ''target'' (JStr safe_target)
         (telemetry_record ''circuit_transition'' ''circuit_transition'' correlation))))) c"

definition target_rate_limit_key :: "sink_target \<Rightarrow> string" where
  "target_rate_limit_key target =
     (case target of
        DiscordChannel i \<Rightarrow> ''discord:channel:'' @ i
      | DiscordThread i \<Rightarrow> ''discord:thread:'' @ i
      | DiscordWebhook url \<Rightarrow> ''discord:webhook:'' @ url
      | SlackWebhook url \<Rightarrow> ''slack:webhook:'' @ url
      | HttpEndpoint endpoint \<Rightarrow> ''http:endpoint:'' @ endpoint
      | LocalFile path \<Rightarrow> ''localfile:'' @ path)"

definition payload_bytes :: "discord_env \<Rightarrow> json \<Rightarrow> nat option" where
  "payload_bytes env p = map_option length (dc_to_json env p)"

definition discord_record ::
    "discord_env \<Rightarrow> string \<Rightarrow> string \<Rightarrow> string \<Rightarrow> string \<Rightarrow> sink_message \<Rightarrow> nat option \<Rightarrow> string option \<Rightarrow> nat option \<Rightarrow>
     (string, json) btree" where
  "discord_record env event reason correlation safe_target m attempt error status =
     (let r = bt_extend [(''target'', JStr safe_target), (''event_kind'', JStr (sm_event_kind m)),
                (''format'', JStr (format_as_str (sm_format m))), (''content_bytes'', jnat (length (sm_content m))),
                (''payload_bytes'', jopt jnat (payload_bytes env (sm_payload m)))] (telemetry_record event reason correlation);
          r = opt_field ''attempt'' jnat attempt r;
          r = opt_field ''error'' JStr error r;
          r = opt_field ''status'' jnat status r
      in case sm_telemetry m of
           None \<Rightarrow> r
         | Some extra \<Rightarrow> bt_extend [(''route_result'', jopt JStr (st_route_result extra)),
             (''route_index'', jopt jnat (st_route_index extra)), (''batch_count'', jopt jnat (st_batch_count extra))] r)"

definition message_correlation :: "discord_env \<Rightarrow> sink_message \<Rightarrow> string" where
  "message_correlation env m = correlation_id_for_message (dc_sip_hash env) (dc_to_json env) (sm_event_kind m) (sm_payload m)"

text \<open>One telemetry record about a message.\<close>

definition emit_send ::
    "discord_env \<Rightarrow> string \<Rightarrow> string \<Rightarrow> sink_target \<Rightarrow> sink_message \<Rightarrow> nat \<Rightarrow> string option \<Rightarrow> nat option \<Rightarrow>
     discord_client \<Rightarrow> discord_client" where
  "emit_send env event reason target m attempt error status c =
     log_effect (Record (discord_record env event reason (message_correlation env m)
       (safe_target_id (dc_parse_url env) target) m (Some attempt) error status)) c"

definition record_dlq :: "discord_env \<Rightarrow> sink_target \<Rightarrow> sink_message \<Rightarrow> nat \<Rightarrow> string \<Rightarrow> discord_client \<Rightarrow> discord_client" where
  "record_dlq env target m attempts error c =
     (let entry = \<lparr>dl_original_topic = sm_event_kind m, dl_retry_count = attempts, dl_last_error = error,
            dl_target = safe_target_id (dc_parse_url env) target, dl_event_kind = sm_event_kind m,
            dl_format = format_as_str (sm_format m), dl_content = sm_content m, dl_payload = sm_payload m,
            dl_correlation_id = Some (message_correlation env m), dl_content_bytes = Some (length (sm_content m)),
            dl_payload_bytes = payload_bytes env (sm_payload m)\<rparr>;
          c = emit_send env ''dlq_bury'' ''dlq_write'' target m attempts (Some error) None c
      in c\<lparr>dd_dlq := dd_dlq c @ [entry]\<rparr>)"

section \<open>Requests\<close>

definition is_success :: "nat \<Rightarrow> bool" where
  "is_success status = (200 \<le> status \<and> status < 300)"

text \<open>\<open>Duration::from_secs_f64\<close> panics on a negative number and on one of \<open>2 ^ 64\<close> or more seconds; the
  outer option is \<^term>\<open>None\<close> for the panic.\<close>

definition parse_retry_after :: "discord_env \<Rightarrow> nat \<Rightarrow> string \<Rightarrow> rat option option" where
  "parse_retry_after env status body =
     (if status \<noteq> 429 then Some None
      else case dc_retry_after env body of
        None \<Rightarrow> Some None
      | Some d \<Rightarrow> if d < 0 \<or> 2 ^ 64 \<le> d then None else Some (Some d))"

definition discord_thread_error_message :: "discord_env \<Rightarrow> nat \<Rightarrow> string" where
  "discord_thread_error_message env status =
     ''Discord thread delivery failed with '' @ dc_status_text env status @ '': '' @
     (if status = 400 then ''thread may be archived or not writable by the bot''
      else if status = 403 then ''thread is unreachable by the bot''
      else if status = 404 then ''thread is missing or unreachable by the bot''
      else if status = 401 then ''Discord bot token is invalid for thread delivery''
      else if status = 429 then ''Discord rate limited thread delivery''
      else ''thread delivery failed'')"

definition execute_request :: "discord_env \<Rightarrow> string \<Rightarrow> string \<Rightarrow> string \<Rightarrow> discord_client \<Rightarrow> discord_client \<times> http_outcome" where
  "execute_request env label url content c =
     (let reply = dc_http env (dd_log c) url content; c = log_effect (Post url content reply) c
      in case reply of
           TransportError _ \<Rightarrow>
             (c, Failed \<lparr>de_message = label @ '' failed: transport error'', de_retry_after = None, de_status = None\<rparr>)
         | Reply status body \<Rightarrow>
             if is_success status then (c, Sent)
             else case parse_retry_after env status body of
               None \<Rightarrow> (c, Panicked)
             | Some retry_after \<Rightarrow>
                 (c, Failed \<lparr>de_message =
                    (if label = ''Discord thread request'' then discord_thread_error_message env status
                     else label @ '' failed with '' @ dc_status_text env status @ '': '' @ body),
                    de_retry_after = retry_after, de_status = Some status\<rparr>))"

definition webhook_url_with_wait :: "string \<Rightarrow> string" where
  "webhook_url_with_wait url =
     (if str_contains ''wait='' url then url
      else if str_contains ''?'' url then url @ ''&wait=true'' else url @ ''?wait=true'')"

definition channel_url :: "discord_env \<Rightarrow> string \<Rightarrow> string" where
  "channel_url env i =
     trim_end_matches (\<lambda>ch. ch = ''/'') (dc_api_base env) @ ''/channels/'' @ i @ ''/messages''"

definition bot_request :: "discord_env \<Rightarrow> string \<Rightarrow> string \<Rightarrow> string \<Rightarrow> string \<Rightarrow> discord_client \<Rightarrow> discord_client \<times> http_outcome" where
  "bot_request env missing label i content c =
     (if \<not> dc_has_bot env
      then (c, Failed \<lparr>de_message = missing, de_retry_after = None, de_status = None\<rparr>)
      else execute_request env label (channel_url env i) content c)"

definition send_message where
  "send_message env = bot_request env (''missing Discord bot token for channel delivery; configure [providers.discord].token '' @
     ''(or legacy [discord].token) or use a route webhook'') ''Discord API request''"

definition send_thread_message where
  "send_thread_message env = bot_request env (''missing Discord bot token for thread delivery; configure [providers.discord].token '' @
     ''(or legacy [discord].token) or use a channel/webhook route'') ''Discord thread request''"

definition send_webhook :: "discord_env \<Rightarrow> string \<Rightarrow> string \<Rightarrow> discord_client \<Rightarrow> discord_client \<times> http_outcome" where
  "send_webhook env url content c =
     execute_request env ''Discord webhook request'' (webhook_url_with_wait url) content c"

section \<open>Sending with retries\<close>

text \<open>The request a target calls for; the other sinks' targets are refused.\<close>

definition target_request ::
    "discord_env \<Rightarrow> sink_target \<Rightarrow> string \<Rightarrow> string + (discord_client \<Rightarrow> discord_client \<times> http_outcome)" where
  "target_request env target content =
     (case target of
        DiscordChannel i \<Rightarrow> Ok (send_message env i content)
      | DiscordThread i \<Rightarrow> Ok (send_thread_message env i content)
      | DiscordWebhook url \<Rightarrow> Ok (send_webhook env url content)
      | SlackWebhook _ \<Rightarrow> Err ''cannot send Slack webhook via Discord client''
      | HttpEndpoint _ \<Rightarrow> Err ''cannot send HTTP target via Discord client''
      | LocalFile _ \<Rightarrow> Err ''cannot send localfile target via Discord client'')"

definition jitter_for_attempt :: "nat \<Rightarrow> rat" where
  "jitter_for_attempt attempt = of_nat (jitter_ms * attempt) / 1000"

datatype send_result = SendOk | SendErr string | SendPanic

text \<open>The loop over the attempts \<open>1..=MAX_ATTEMPTS\<close>.\<close>

fun send_attempts ::
    "discord_env \<Rightarrow> sink_target \<Rightarrow> sink_message \<Rightarrow> nat list \<Rightarrow> discord_client \<Rightarrow> discord_client \<times> send_result" where
  "send_attempts env target m [] c =
     (let error = ''Discord delivery exhausted retries for '' @ safe_target_id (dc_parse_url env) target
      in (record_dlq env target m max_attempts error c, SendErr error))"
| "send_attempts env target m (attempt # attempts) c =
     (let key = target_rate_limit_key target; correlation = message_correlation env m;
          safe_target = safe_target_id (dc_parse_url env) target;
          (c, delay) = rate_limit_delay env key c;
          c = sleep_for delay c;
          c = emit_send env ''discord_send_attempt'' ''discord_pre_send'' target m attempt None None c
      in case target_request env target (sm_content m) of
           Inl e \<Rightarrow> (c, SendErr e)
         | Inr request \<Rightarrow>
             case request c of
               (c, Panicked) \<Rightarrow> (c, SendPanic)
             | (c, Sent) \<Rightarrow>
                 (let (c, transition) = client_record_success key c;
                      c = emit_circuit_transition correlation safe_target transition c
                  in (emit_send env ''discord_send_success'' ''discord_success'' target m attempt None None c, SendOk))
             | (c, Failed e) \<Rightarrow>
                 (let (c, transition) = client_record_failure env key c;
                      c = emit_circuit_transition correlation safe_target transition c
                  in case de_retry_after e of
                       Some retry_after \<Rightarrow>
                         if attempt < max_attempts then
                           send_attempts env target m attempts
                             (log_effect (Sleep (retry_after + jitter_for_attempt attempt))
                               (emit_send env ''discord_send_failure'' ''discord_retry'' target m attempt
                                 (Some (de_message e)) (de_status e) c))
                         else
                           (record_dlq env target m attempt (de_message e)
                              (emit_send env ''discord_send_failure'' ''discord_exhausted'' target m attempt
                                (Some (de_message e)) (de_status e) c), SendErr (de_message e))
                     | None \<Rightarrow>
                         (record_dlq env target m attempt (de_message e)
                            (emit_send env ''discord_send_failure'' ''discord_exhausted'' target m attempt
                              (Some (de_message e)) (de_status e) c), SendErr (de_message e))))"

definition discord_send :: "discord_env \<Rightarrow> sink_target \<Rightarrow> sink_message \<Rightarrow> discord_client \<Rightarrow> discord_client \<times> send_result" where
  "discord_send env target m c =
     (let key = target_rate_limit_key target; correlation = message_correlation env m;
          safe_target = safe_target_id (dc_parse_url env) target;
          (c, allowed, transition) = client_allow_request env key c;
          c = emit_circuit_transition correlation safe_target transition c
      in if \<not> allowed then
           (let c = emit_send env ''discord_send_failure'' ''circuit_open'' target m max_attempts (Some ''circuit-open'') None c;
                error = ''Discord circuit open for '' @ safe_target
            in (record_dlq env target m max_attempts error c, SendErr error))
         else send_attempts env target m [1..<Suc max_attempts] c)"

end
