(* ===== verification/DiscordSendCorrect.thy ===== *)
theory DiscordSendCorrect imports DiscordSend begin

text \<open>
  What \<open>DiscordClient::send\<close> guarantees: each call makes a bounded number of requests, ends with one
  accepted request or with one dead letter, retries only when Discord asks for it, and touches the
  breaker and the bucket of its own target only.
\<close>

section \<open>Requests of a log\<close>

fun posts :: "discord_effect list \<Rightarrow> http_reply list" where
  "posts [] = []"
| "posts (Post _ _ reply # es) = reply # posts es"
| "posts (_ # es) = posts es"

fun accepted :: "http_reply \<Rightarrow> bool" where
  "accepted (Reply status _) = is_success status"
| "accepted (TransportError _) = False"

text \<open>Discord answers 429 and says how long to wait.\<close>

fun asks_to_wait :: "discord_env \<Rightarrow> http_reply \<Rightarrow> bool" where
  "asks_to_wait env (Reply status body) = (status = 429 \<and> dc_retry_after env body \<noteq> None)"
| "asks_to_wait env (TransportError _) = False"

fun discord_target :: "sink_target \<Rightarrow> bool" where
  "discord_target (DiscordChannel _) = True"
| "discord_target (DiscordThread _) = True"
| "discord_target (DiscordWebhook _) = True"
| "discord_target _ = False"

lemma posts_append [simp]: "posts (xs @ ys) = posts xs @ posts ys"
  by (induction xs rule: posts.induct) simp_all

text \<open>\<open>grows c c' ps\<close>: the log of \<open>c'\<close> extends that of \<open>c\<close> by effects whose POST requests are \<open>ps\<close>.\<close>

definition grows :: "discord_client \<Rightarrow> discord_client \<Rightarrow> http_reply list \<Rightarrow> bool" where
  "grows c c' ps = (\<exists>fx. dd_log c' = dd_log c @ fx \<and> posts fx = ps)"

lemma grows_refl [simp, intro]: "grows c c []"
  by (simp add: grows_def)

lemma grows_trans: "grows a b ps \<Longrightarrow> grows b c qs \<Longrightarrow> grows a c (ps @ qs)"
  by (fastforce simp: grows_def)

lemma grows_silent: "grows a b [] \<Longrightarrow> grows b c qs \<Longrightarrow> grows a c qs"
  using grows_trans[of a b "[]"] by simp

lemma grows_silent_after: "grows a b ps \<Longrightarrow> grows b c [] \<Longrightarrow> grows a c ps"
  using grows_trans[of a b ps c "[]"] by simp

section \<open>Frames of the steps\<close>

text \<open>Steps that make no request and write no dead letter; \<open>touches key\<close>: only the breaker and the
  bucket of \<open>key\<close> change.\<close>

definition touches :: "string \<Rightarrow> discord_client \<Rightarrow> discord_client \<Rightarrow> bool" where
  "touches key c c' = (\<forall>k. k \<noteq> key \<longrightarrow> dd_circuits c' k = dd_circuits c k \<and>
     buckets (dd_limiter c') k = buckets (dd_limiter c) k)"

definition quiet :: "string \<Rightarrow> discord_client \<Rightarrow> discord_client \<Rightarrow> bool" where
  "quiet key c c' = (grows c c' [] \<and> dd_dlq c' = dd_dlq c \<and> touches key c c')"

lemma touches_refl [simp, intro]: "touches key c c"
  by (simp add: touches_def)

lemma touches_trans: "touches key a b \<Longrightarrow> touches key b c \<Longrightarrow> touches key a c"
  by (simp add: touches_def)

lemma quiet_refl [simp, intro]: "quiet key c c"
  by (simp add: quiet_def)

lemma quiet_trans: "quiet key a b \<Longrightarrow> quiet key b c \<Longrightarrow> quiet key a c"
  by (auto simp: quiet_def intro: grows_silent touches_trans)

lemma quiet_log: "(\<And>u v w. x \<noteq> Post u v w) \<Longrightarrow> quiet key c (log_effect x c)"
  by (cases x) (auto simp: quiet_def grows_def log_effect_def touches_def)

lemma quiet_sleep: "quiet key c (sleep_for d c)"
  by (simp add: sleep_for_def quiet_log)

lemma quiet_emit: "quiet key c (emit_send env event reason target m attempt error status c)"
  by (simp add: emit_send_def quiet_log)

lemma quiet_transition: "quiet key c (emit_circuit_transition correlation safe_target t c)"
  by (cases t) (simp_all add: quiet_log)

lemma quiet_allow: "quiet key c (fst (client_allow_request env key c))"
  by (auto simp: client_allow_request_def quiet_def grows_def touches_def split: prod.split)

lemma quiet_success: "quiet key c (fst (client_record_success key c))"
  by (auto simp: client_record_success_def quiet_def grows_def touches_def split: prod.split)

lemma quiet_failure: "quiet key c (fst (client_record_failure env key c))"
  by (auto simp: client_record_failure_def quiet_def grows_def touches_def split: prod.split)

lemma quiet_delay: "quiet key c (fst (rate_limit_delay env key c))"
  by (auto simp: rate_limit_delay_def delay_for_def Let_def quiet_def grows_def touches_def split: prod.split)

lemmas quiet_steps = quiet_sleep quiet_emit quiet_transition quiet_allow quiet_success quiet_failure quiet_delay

text \<open>The dead letter of a message.\<close>

definition dead_letter :: "discord_env \<Rightarrow> sink_target \<Rightarrow> sink_message \<Rightarrow> string \<Rightarrow> dlq_entry \<Rightarrow> bool" where
  "dead_letter env target m error entry =
     (dl_last_error entry = error \<and> dl_content entry = sm_content m \<and> dl_payload entry = sm_payload m \<and>
      dl_event_kind entry = sm_event_kind m \<and> dl_target entry = safe_target_id (dc_parse_url env) target \<and>
      1 \<le> dl_retry_count entry \<and> dl_retry_count entry \<le> max_attempts)"

lemma record_dlq_frame:
  "grows c (record_dlq env target m n error c) []" "touches key c (record_dlq env target m n error c)"
  using quiet_emit[of key c env "''dlq_bury''" "''dlq_write''" target m n "Some error" None]
  by (simp_all add: record_dlq_def Let_def quiet_def grows_def touches_def)

lemma record_dlq_entry:
  "1 \<le> n \<Longrightarrow> n \<le> max_attempts \<Longrightarrow>
   \<exists>entry. dd_dlq (record_dlq env target m n error c) = dd_dlq c @ [entry] \<and> dead_letter env target m error entry"
  by (simp add: record_dlq_def Let_def emit_send_def log_effect_def dead_letter_def)

section \<open>One request\<close>

definition request_spec :: "discord_env \<Rightarrow> discord_client \<Rightarrow> discord_client \<times> http_outcome \<Rightarrow> bool" where
  "request_spec env c r =
     (\<exists>ps. grows c (fst r) ps \<and> dd_dlq (fst r) = dd_dlq c \<and> (\<forall>key. touches key c (fst r)) \<and> length ps \<le> 1 \<and>
        (case snd r of
           Sent \<Rightarrow> (\<exists>p. ps = [p] \<and> accepted p)
         | Failed e \<Rightarrow> (\<forall>p \<in> set ps. \<not> accepted p) \<and>
             (de_retry_after e \<noteq> None \<longrightarrow> (\<exists>p. ps = [p] \<and> asks_to_wait env p))
         | Panicked \<Rightarrow> (\<forall>p \<in> set ps. \<not> accepted p)))"

lemma parse_retry_after_asked:
  "parse_retry_after env status body = Some (Some d) \<Longrightarrow> status = 429 \<and> dc_retry_after env body = Some d"
  by (auto simp: parse_retry_after_def split: if_splits option.splits)

lemma execute_request_spec: "request_spec env c (execute_request env label url content c)"
proof -
  define reply where "reply = dc_http env (dd_log c) url content"
  have g: "grows c (log_effect (Post url content reply) c) [reply]"
    "dd_dlq (log_effect (Post url content reply) c) = dd_dlq c"
    "touches key c (log_effect (Post url content reply) c)" for key
    by (auto simp: grows_def log_effect_def touches_def)
  show ?thesis
  proof (cases reply)
    case (TransportError b)
    with g show ?thesis
      unfolding request_spec_def
      by (intro exI[of _ "[reply]"]) (simp add: execute_request_def reply_def[symmetric])
  next
    case (Reply status body)
    show ?thesis
    proof (cases "is_success status")
      case True
      with g Reply show ?thesis
        unfolding request_spec_def
        by (intro exI[of _ "[reply]"]) (simp add: execute_request_def reply_def[symmetric])
    next
      case False
      with g Reply show ?thesis
        unfolding request_spec_def
        by (intro exI[of _ "[reply]"])
          (auto simp: execute_request_def reply_def[symmetric] Let_def split: option.split dest!: parse_retry_after_asked)
    qed
  qed
qed

lemma bot_request_spec: "request_spec env c (bot_request env missing label i content c)"
proof (cases "dc_has_bot env")
  case True
  then show ?thesis by (simp add: bot_request_def execute_request_spec)
next
  case False
  then show ?thesis unfolding request_spec_def bot_request_def by (intro exI[of _ "[]"]) simp
qed

lemma target_request_spec:
  "target_request env target content = Inr request \<Longrightarrow> request_spec env c (request c)"
  by (cases target) (auto simp: target_request_def send_message_def send_thread_message_def send_webhook_def
      bot_request_spec execute_request_spec)

lemma target_request_Err: "target_request env target content = Inl e \<longleftrightarrow>
    \<not> discord_target target \<and> target_request env target content = Inl e"
  by (cases target) (auto simp: target_request_def)

section \<open>The whole call\<close>

text \<open>\<open>outcome_spec\<close>: what the answers \<open>ps\<close> and the dead letters have to do with the result.\<close>

fun outcome_spec ::
    "discord_env \<Rightarrow> sink_target \<Rightarrow> sink_message \<Rightarrow> http_reply list \<Rightarrow> dlq_entry list \<Rightarrow> dlq_entry list \<Rightarrow>
     send_result \<Rightarrow> bool" where
  "outcome_spec env target m ps dlq dlq' SendOk = (dlq' = dlq \<and> (\<exists>qs p. ps = qs @ [p] \<and> accepted p))"
| "outcome_spec env target m ps dlq dlq' (SendErr e) =
     ((\<forall>p \<in> set ps. \<not> accepted p) \<and> (\<exists>entry. dlq' = dlq @ [entry] \<and> dead_letter env target m e entry))"
| "outcome_spec env target m ps dlq dlq' SendPanic = (dlq' = dlq \<and> (\<forall>p \<in> set ps. \<not> accepted p))"

definition send_spec ::
    "discord_env \<Rightarrow> sink_target \<Rightarrow> sink_message \<Rightarrow> nat \<Rightarrow> discord_client \<Rightarrow> discord_client \<times> send_result \<Rightarrow> bool" where
  "send_spec env target m n c r =
     (\<exists>ps. grows c (fst r) ps \<and> touches (target_rate_limit_key target) c (fst r) \<and> length ps \<le> n \<and>
        (\<forall>p \<in> set (butlast ps). asks_to_wait env p) \<and>
        outcome_spec env target m ps (dd_dlq c) (dd_dlq (fst r)) (snd r))"

lemma asks_not_accepted: "asks_to_wait env p \<Longrightarrow> \<not> accepted p"
  by (cases p) (auto simp: is_success_def)

lemma outcome_spec_before:
  "\<forall>p \<in> set qs. \<not> accepted p \<Longrightarrow> outcome_spec env target m ps dlq dlq' res \<Longrightarrow>
   outcome_spec env target m (qs @ ps) dlq dlq' res"
proof (cases res)
  case SendOk
  assume "outcome_spec env target m ps dlq dlq' res"
  with SendOk obtain rs p where "dlq' = dlq" "ps = rs @ [p]" "accepted p" by auto
  then show ?thesis using SendOk by (auto intro!: exI[of _ "qs @ rs"])
qed auto

lemma butlast_asks:
  "\<forall>p \<in> set ps. asks_to_wait env p \<Longrightarrow> \<forall>p \<in> set (butlast qs). asks_to_wait env p \<Longrightarrow>
   \<forall>p \<in> set (butlast (ps @ qs)). asks_to_wait env p"
  by (auto simp: butlast_append dest: in_set_butlastD)

lemma send_spec_after:
  assumes c1: "grows c c1 ps1" "touches (target_rate_limit_key target) c c1" "dd_dlq c1 = dd_dlq c"
    and ps1: "length ps1 \<le> 1" "\<forall>p \<in> set ps1. asks_to_wait env p" and r: "send_spec env target m n c1 r"
  shows "send_spec env target m (Suc n) c r"
proof -
  from r c1(3) obtain ps where ps: "grows c1 (fst r) ps" "touches (target_rate_limit_key target) c1 (fst r)"
    "length ps \<le> n" "\<forall>p \<in> set (butlast ps). asks_to_wait env p"
    and res: "outcome_spec env target m ps (dd_dlq c) (dd_dlq (fst r)) (snd r)"
    unfolding send_spec_def by auto
  from ps1(2) asks_not_accepted have n: "\<forall>p \<in> set ps1. \<not> accepted p" by blast
  have "length (ps1 @ ps) \<le> Suc n" using ps1(1) ps(3) by simp
  with grows_trans[OF c1(1) ps(1)] touches_trans[OF c1(2) ps(2)] butlast_asks[OF ps1(2) ps(4)]
    outcome_spec_before[OF n res] show ?thesis unfolding send_spec_def by blast
qed

lemma send_spec_quiet:
  assumes "quiet (target_rate_limit_key target) c c1" and "send_spec env target m n c1 r"
  shows "send_spec env target m n c r"
proof -
  from assms(1) have q: "grows c c1 []" "touches (target_rate_limit_key target) c c1" "dd_dlq c1 = dd_dlq c"
    by (simp_all add: quiet_def)
  from assms(2) q(3) show ?thesis
    unfolding send_spec_def using grows_silent[OF q(1)] touches_trans[OF q(2)] by metis
qed

lemma send_spec_dead:
  assumes c1: "grows c c1 ps" "touches (target_rate_limit_key target) c c1" "dd_dlq c1 = dd_dlq c"
    and ps: "length ps \<le> 1" "\<forall>p \<in> set ps. \<not> accepted p" "length ps \<le> n" and k: "1 \<le> k" "k \<le> max_attempts"
  shows "send_spec env target m n c (record_dlq env target m k e c1, SendErr e)"
proof -
  have "butlast ps = []" using ps(1) by (cases ps) auto
  moreover obtain entry where "dd_dlq (record_dlq env target m k e c1) = dd_dlq c @ [entry]"
    "dead_letter env target m e entry"
    using record_dlq_entry[OF k, of env target m e c1] c1(3) by auto
  moreover have "grows c (record_dlq env target m k e c1) ps"
    using grows_silent_after c1(1) record_dlq_frame(1) by blast
  moreover have "touches (target_rate_limit_key target) c (record_dlq env target m k e c1)"
    using touches_trans c1(2) record_dlq_frame(2) by blast
  ultimately show ?thesis using ps unfolding send_spec_def by (intro exI[of _ ps]) simp
qed

lemma send_spec_done:
  assumes "grows c c1 ps" "touches (target_rate_limit_key target) c c1" "dd_dlq c1 = dd_dlq c"
    and "length ps \<le> 1" "length ps \<le> n"
    and "(res = SendOk \<and> (\<exists>p. ps = [p] \<and> accepted p)) \<or> (res = SendPanic \<and> (\<forall>p \<in> set ps. \<not> accepted p))"
  shows "send_spec env target m n c (c1, res)"
proof -
  have "butlast ps = []" using assms(4) by (cases ps) auto
  with assms show ?thesis unfolding send_spec_def by (intro exI[of _ ps]) auto
qed

text \<open>The steps after an answer keep the requests and the dead letters.\<close>

lemma quiet_after:
  assumes "quiet key c1 c2" and "grows c c1 ps" "touches key c c1" "dd_dlq c1 = dd_dlq c"
  shows "grows c c2 ps" "touches key c c2" "dd_dlq c2 = dd_dlq c"
  using assms by (auto simp: quiet_def intro: grows_silent_after touches_trans)

lemma send_attempts_spec:
  assumes "discord_target target" and "attempts \<noteq> [] \<Longrightarrow> \<forall>a \<in> set attempts. 1 \<le> a \<and> a \<le> max_attempts"
  shows "send_spec env target m (length attempts) c (send_attempts env target m attempts c)"
  using assms(2)
proof (induction attempts arbitrary: c)
  case Nil
  let ?e = "''Discord delivery exhausted retries for '' @ safe_target_id (dc_parse_url env) target"
  have "send_spec env target m 0 c (record_dlq env target m max_attempts ?e c, SendErr ?e)"
    by (rule send_spec_dead[of _ _ "[]"]) (simp_all add: max_attempts_def)
  then show ?case by (simp only: send_attempts.simps Let_def list.size)
next
  case (Cons a as)
  let ?key = "target_rate_limit_key target"
  obtain request where rq: "target_request env target (sm_content m) = Inr request"
    using assms(1) by (cases target) (auto simp: target_request_def)
  define c1 where "c1 = emit_send env ''discord_send_attempt'' ''discord_pre_send'' target m a None None
    (sleep_for (snd (rate_limit_delay env ?key c)) (fst (rate_limit_delay env ?key c)))"
  have q1: "quiet ?key c c1"
    unfolding c1_def by (intro quiet_trans[OF quiet_trans[OF quiet_delay quiet_sleep] quiet_emit])
  define c2 where "c2 = fst (request c1)"
  define out where "out = snd (request c1)"
  have rqc: "request c1 = (c2, out)" by (simp add: c2_def out_def)
  have "request_spec env c1 (c2, out)" using target_request_spec[OF rq, of c1] by (simp add: rqc)
  then obtain ps where ps: "grows c1 c2 ps" "dd_dlq c2 = dd_dlq c1" "touches ?key c1 c2" "length ps \<le> 1"
    and o: "case out of Sent \<Rightarrow> (\<exists>p. ps = [p] \<and> accepted p)
         | Failed e \<Rightarrow> (\<forall>p \<in> set ps. \<not> accepted p) \<and>
             (de_retry_after e \<noteq> None \<longrightarrow> (\<exists>p. ps = [p] \<and> asks_to_wait env p))
         | Panicked \<Rightarrow> (\<forall>p \<in> set ps. \<not> accepted p)"
    unfolding request_spec_def by auto
  note after = quiet_after[OF _ ps(1) ps(3) ps(2)]
  have a: "1 \<le> a" "a \<le> max_attempts" using Cons.prems by auto
  have step: "send_attempts env target m (a # as) c = (case out of
        Panicked \<Rightarrow> (c2, SendPanic)
      | Sent \<Rightarrow> (emit_send env ''discord_send_success'' ''discord_success'' target m a None None
          (emit_circuit_transition (message_correlation env m) (safe_target_id (dc_parse_url env) target)
             (snd (client_record_success ?key c2)) (fst (client_record_success ?key c2))), SendOk)
      | Failed e \<Rightarrow>
          (let c3 = emit_circuit_transition (message_correlation env m) (safe_target_id (dc_parse_url env) target)
             (snd (client_record_failure env ?key c2)) (fst (client_record_failure env ?key c2))
           in if de_retry_after e \<noteq> None \<and> a < max_attempts then
                send_attempts env target m as (log_effect (Sleep (the (de_retry_after e) + jitter_for_attempt a))
                  (emit_send env ''discord_send_failure'' ''discord_retry'' target m a (Some (de_message e)) (de_status e) c3))
              else (record_dlq env target m a (de_message e)
                (emit_send env ''discord_send_failure'' ''discord_exhausted'' target m a (Some (de_message e)) (de_status e) c3),
                SendErr (de_message e))))"
    by (simp add: rq rqc c1_def[symmetric] case_prod_unfold Let_def split: http_outcome.split option.split)
  show ?case
  proof (cases out)
    case Sent
    let ?c3 = "emit_send env ''discord_send_success'' ''discord_success'' target m a None None
          (emit_circuit_transition (message_correlation env m) (safe_target_id (dc_parse_url env) target)
             (snd (client_record_success ?key c2)) (fst (client_record_success ?key c2)))"
    have "quiet ?key c2 ?c3"
      by (intro quiet_trans[OF quiet_trans[OF quiet_success quiet_transition] quiet_emit])
    from after[OF this] ps(4) o Sent have "send_spec env target m (length (a # as)) c1 (?c3, SendOk)"
      by (intro send_spec_done[of _ _ ps]) auto
    with q1 Sent show ?thesis by (simp only: step http_outcome.case) (rule send_spec_quiet)
  next
    case Panicked
    with ps o have "send_spec env target m (length (a # as)) c1 (c2, SendPanic)"
      by (intro send_spec_done[of _ _ ps]) auto
    with q1 Panicked show ?thesis by (simp only: step http_outcome.case) (rule send_spec_quiet)
  next
    case (Failed e)
    define c3 where "c3 = emit_circuit_transition (message_correlation env m) (safe_target_id (dc_parse_url env) target)
             (snd (client_record_failure env ?key c2)) (fst (client_record_failure env ?key c2))"
    have q3: "quiet ?key c2 c3"
      unfolding c3_def by (intro quiet_trans[OF quiet_failure quiet_transition])
    show ?thesis
    proof (cases "de_retry_after e \<noteq> None \<and> a < max_attempts")
      case True
      let ?c4 = "log_effect (Sleep (the (de_retry_after e) + jitter_for_attempt a))
          (emit_send env ''discord_send_failure'' ''discord_retry'' target m a (Some (de_message e)) (de_status e) c3)"
      have "quiet ?key c2 ?c4"
        by (intro quiet_trans[OF quiet_trans[OF q3 quiet_emit] quiet_log]) simp
      note f = after[OF this]
      have "\<forall>p \<in> set ps. asks_to_wait env p" using o Failed True by auto
      moreover have "send_spec env target m (length as) ?c4 (send_attempts env target m as ?c4)"
        using Cons.IH Cons.prems by simp
      ultimately have "send_spec env target m (Suc (length as)) c1 (send_attempts env target m as ?c4)"
        using send_spec_after[OF f ps(4)] by blast
      with q1 Failed True show ?thesis
        by (simp only: step http_outcome.case Let_def c3_def[symmetric] simp_thms if_True length_Cons) (rule send_spec_quiet)
    next
      case False
      let ?c4 = "emit_send env ''discord_send_failure'' ''discord_exhausted'' target m a (Some (de_message e)) (de_status e) c3"
      have "quiet ?key c2 ?c4" by (rule quiet_trans[OF q3 quiet_emit])
      note f = after[OF this]
      have "send_spec env target m (length (a # as)) c1 (record_dlq env target m a (de_message e) ?c4, SendErr (de_message e))"
        using ps(4) o Failed a by (intro send_spec_dead[OF f]) auto
      with q1 Failed False show ?thesis
        by (simp only: step http_outcome.case Let_def c3_def[symmetric] if_False) (rule send_spec_quiet)
    qed
  qed
qed

lemma discord_send_spec:
  assumes "discord_target target"
  shows "send_spec env target m max_attempts c (discord_send env target m c)"
proof -
  let ?key = "target_rate_limit_key target"
  define safe_target where "safe_target = safe_target_id (dc_parse_url env) target"
  define r where "r = client_allow_request env ?key c"
  define c1 where "c1 = emit_circuit_transition (message_correlation env m) safe_target (snd (snd r)) (fst r)"
  define c2 where "c2 = emit_send env ''discord_send_failure'' ''circuit_open'' target m max_attempts (Some ''circuit-open'') None c1"
  define e where "e = ''Discord circuit open for '' @ safe_target"
  have eq: "discord_send env target m c =
     (if \<not> fst (snd r) then (record_dlq env target m max_attempts e c2, SendErr e)
      else send_attempts env target m [1..<Suc max_attempts] c1)"
    unfolding discord_send_def Let_def case_prod_unfold r_def[symmetric] safe_target_def[symmetric] c1_def[symmetric]
      c2_def[symmetric] e_def[symmetric] by (rule refl)
  have q: "quiet ?key c c1" unfolding c1_def r_def by (rule quiet_trans[OF quiet_allow quiet_transition])
  have q2: "quiet ?key c1 c2" unfolding c2_def by (rule quiet_emit)
  show ?thesis
  proof (cases "fst (snd r)")
    case True
    have "length [1..<Suc max_attempts] = max_attempts" by simp
    with send_attempts_spec[OF assms, of "[1..<Suc max_attempts]" env m c1]
    have "send_spec env target m max_attempts c1 (send_attempts env target m [1..<Suc max_attempts] c1)"
      by (simp del: upt_Suc)
    from send_spec_quiet[OF q this] True show ?thesis unfolding eq by simp
  next
    case False
    have "send_spec env target m max_attempts c1 (record_dlq env target m max_attempts e c2, SendErr e)"
      using q2 by (intro send_spec_dead[of _ _ "[]"]) (simp_all add: max_attempts_def quiet_def)
    from send_spec_quiet[OF q this] False show ?thesis unfolding eq by simp
  qed
qed

text \<open>The POST requests a call makes, in order, with their answers.\<close>

definition posts_of_send :: "discord_env \<Rightarrow> sink_target \<Rightarrow> sink_message \<Rightarrow> discord_client \<Rightarrow> http_reply list" where
  "posts_of_send env target m c =
     posts (drop (length (dd_log c)) (dd_log (fst (discord_send env target m c))))"

lemma send_spec_posts:
  assumes "send_spec env target m n c (discord_send env target m c)"
  shows "length (posts_of_send env target m c) \<le> n"
    "\<forall>p \<in> set (butlast (posts_of_send env target m c)). asks_to_wait env p"
    "outcome_spec env target m (posts_of_send env target m c) (dd_dlq c)
       (dd_dlq (fst (discord_send env target m c))) (snd (discord_send env target m c))"
  using assms by (auto simp: send_spec_def grows_def posts_of_send_def)

section \<open>The breaker\<close>

text \<open>Every request is answered 429 with a time to wait.\<close>

definition always_limited :: "discord_env \<Rightarrow> string \<Rightarrow> rat \<Rightarrow> bool" where
  "always_limited env body d =
     ((\<forall>log url content. dc_http env log url content = Reply 429 body) \<and> dc_retry_after env body = Some d \<and>
      0 \<le> d \<and> d < 2 ^ 64 \<and> dc_has_bot env)"

lemma limited_request:
  assumes "always_limited env body d" and "target_request env target content = Inr request"
  shows "\<exists>c' e. request c = (c', Failed e) \<and> de_retry_after e = Some d \<and> dd_circuits c' = dd_circuits c"
  using assms by (cases target)
    (auto simp: target_request_def send_message_def send_thread_message_def send_webhook_def bot_request_def
      execute_request_def always_limited_def is_success_def parse_retry_after_def Let_def log_effect_def not_le)

text \<open>The breaker after one more failure.\<close>

definition failed_times :: "nat \<Rightarrow> circuit_breaker \<Rightarrow> bool" where
  "failed_times n b =
     (failure_threshold b = circuit_failure_threshold \<and> cooldown b = circuit_cooldown_ms \<and>
      (if n < circuit_failure_threshold then cb_state b = Closed \<and> consecutive_failures b = n
       else \<exists>t. cb_state b = Open t))"

lemma failed_times_Suc:
  "failed_times n b \<Longrightarrow> n < circuit_failure_threshold \<Longrightarrow> failed_times (Suc n) (fst (record_failure now b))"
  by (auto simp: failed_times_def record_failure_def Let_def circuit_failure_threshold_def)

lemma circuits_frame [simp]:
  "dd_circuits (log_effect x c) = dd_circuits c" "dd_circuits (sleep_for d c) = dd_circuits c"
  "dd_circuits (emit_send env event reason target m attempt error status c) = dd_circuits c"
  "dd_circuits (emit_circuit_transition correlation safe_target tr c) = dd_circuits c"
  "dd_circuits (record_dlq env target m n e c) = dd_circuits c"
  "dd_circuits (fst (rate_limit_delay env key c)) = dd_circuits c"
  by (cases tr; simp add: log_effect_def sleep_for_def emit_send_def record_dlq_def rate_limit_delay_def Let_def
      case_prod_unfold)+

lemma circuit_for_cong: "dd_circuits c = dd_circuits c' \<Longrightarrow> circuit_for key c = circuit_for key c'"
  by (simp add: circuit_for_def)

lemma circuit_after_failure:
  "circuit_for key (fst (client_record_failure env key c)) = fst (record_failure (dc_clock env (dd_reads c)) (circuit_for key c))"
  by (simp add: client_record_failure_def case_prod_unfold circuit_for_def)

lemma limited_attempts:
  assumes "always_limited env body d" and "discord_target target"
    and "failed_times n (circuit_for (target_rate_limit_key target) c)" and "n < max_attempts"
  shows "\<exists>e. snd (send_attempts env target m [Suc n..<Suc max_attempts] c) = SendErr e \<and>
     failed_times max_attempts (circuit_for (target_rate_limit_key target)
       (fst (send_attempts env target m [Suc n..<Suc max_attempts] c)))"
  using assms(3,4)
proof (induction "max_attempts - n" arbitrary: n c)
  case (Suc k)
  let ?key = "target_rate_limit_key target"
  obtain request where rq: "target_request env target (sm_content m) = Inr request"
    using assms(2) by (cases target) (auto simp: target_request_def)
  define c1 where "c1 = emit_send env ''discord_send_attempt'' ''discord_pre_send'' target m (Suc n) None None
    (sleep_for (snd (rate_limit_delay env ?key c)) (fst (rate_limit_delay env ?key c)))"
  obtain c2 e where r: "request c1 = (c2, Failed e)" "de_retry_after e = Some d" "dd_circuits c2 = dd_circuits c1"
    using limited_request[OF assms(1) rq] by blast
  define c3 where "c3 = emit_circuit_transition (message_correlation env m) (safe_target_id (dc_parse_url env) target)
             (snd (client_record_failure env ?key c2)) (fst (client_record_failure env ?key c2))"
  have "circuit_for ?key c2 = circuit_for ?key c"
    by (rule circuit_for_cong) (simp add: r(3) c1_def)
  then have f3: "failed_times (Suc n) (circuit_for ?key c3)"
    using failed_times_Suc[OF Suc.prems(1)] Suc.prems(2) circuit_after_failure[of ?key env c2]
    by (simp add: c3_def circuit_for_def max_attempts_def circuit_failure_threshold_def)
  have l: "[Suc n..<Suc max_attempts] = Suc n # [Suc (Suc n)..<Suc max_attempts]"
    using Suc.prems(2) by (simp add: upt_conv_Cons del: upt_Suc)
  define c4 where "c4 = log_effect (Sleep (d + jitter_for_attempt (Suc n)))
          (emit_send env ''discord_send_failure'' ''discord_retry'' target m (Suc n) (Some (de_message e)) (de_status e) c3)"
  define c5 where "c5 = record_dlq env target m (Suc n) (de_message e)
          (emit_send env ''discord_send_failure'' ''discord_exhausted'' target m (Suc n) (Some (de_message e)) (de_status e) c3)"
  have eq: "send_attempts env target m [Suc n..<Suc max_attempts] c =
      (if Suc n < max_attempts then send_attempts env target m [Suc (Suc n)..<Suc max_attempts] c4
       else (c5, SendErr (de_message e)))"
    unfolding l send_attempts.simps Let_def case_prod_unfold c1_def[symmetric] rq sum.case r(1) fst_conv snd_conv
      http_outcome.case c3_def[symmetric] r(2) option.case c4_def[symmetric] c5_def[symmetric] by (rule refl)
  have f4: "failed_times (Suc n) (circuit_for ?key c4)" "failed_times (Suc n) (circuit_for ?key c5)"
    using f3 by (simp_all add: c4_def c5_def circuit_for_def)
  show ?case
  proof (cases "Suc n < max_attempts")
    case True
    with Suc.hyps(1)[of "Suc n" c4] Suc.hyps(2) f4 show ?thesis unfolding eq by simp
  next
    case False
    with Suc.prems(2) have "Suc n = max_attempts" by simp
    with f4 show ?thesis unfolding eq by simp
  qed
qed simp

section \<open>Properties\<close>


lemma target_key_inj: "target_rate_limit_key t = target_rate_limit_key t' \<longleftrightarrow> t = t'"
  by (cases t; cases t') (simp_all add: target_rate_limit_key_def)

text \<open>
  Targets do not interfere: delivering a message to one target changes neither the breaker nor the
  bucket of any other target.
\<close>

theorem discord_targets_isolated:
  assumes "discord_target target" and "target' \<noteq> target"
  shows "dd_circuits (fst (discord_send env target m c)) (target_rate_limit_key target') =
           dd_circuits c (target_rate_limit_key target') \<and>
         buckets (dd_limiter (fst (discord_send env target m c))) (target_rate_limit_key target') =
           buckets (dd_limiter c) (target_rate_limit_key target')"
proof -
  have "target_rate_limit_key target' \<noteq> target_rate_limit_key target" using assms(2) target_key_inj by metis
  with discord_send_spec[OF assms(1), of env m c] show ?thesis unfolding send_spec_def touches_def by metis
qed

text \<open>
  A refused target costs no request: while the breaker of a target is open and its cooldown has not
  passed, a message is buried at once, without a request.
\<close>

theorem discord_open_circuit_buries:
  assumes "discord_target target" and "cb_state (circuit_for (target_rate_limit_key target) c) = Open t"
    and "dc_clock env (dd_reads c) - t < cooldown (circuit_for (target_rate_limit_key target) c)"
  shows "posts_of_send env target m c = [] \<and>
    (\<exists>e entry. snd (discord_send env target m c) = SendErr e \<and>
       dd_dlq (fst (discord_send env target m c)) = dd_dlq c @ [entry] \<and> dead_letter env target m e entry)"
proof -
  let ?key = "target_rate_limit_key target"
  have r: "client_allow_request env ?key c =
      (c\<lparr>dd_circuits := (dd_circuits c)(?key \<mapsto> circuit_for ?key c), dd_reads := Suc (dd_reads c)\<rparr>, False, None)"
    using assms(2,3) by (simp add: client_allow_request_def allow_request_def)
  define c1 where "c1 = fst (client_allow_request env ?key c)"
  define c2 where "c2 = emit_send env ''discord_send_failure'' ''circuit_open'' target m max_attempts (Some ''circuit-open'') None c1"
  define e where "e = ''Discord circuit open for '' @ safe_target_id (dc_parse_url env) target"
  have eq: "discord_send env target m c = (record_dlq env target m max_attempts e c2, SendErr e)"
    unfolding discord_send_def Let_def case_prod_unfold c1_def[symmetric] unfolding r fst_conv snd_conv
      emit_circuit_transition.simps simp_thms if_True c2_def e_def ..
  have "quiet ?key c c2" unfolding c1_def c2_def by (rule quiet_trans[OF quiet_allow quiet_emit])
  then have g: "grows c c2 []" "dd_dlq c2 = dd_dlq c" by (simp_all add: quiet_def)
  from grows_silent[OF g(1) record_dlq_frame(1)[of c2 env target m max_attempts e]]
  have "posts_of_send env target m c = []" by (auto simp: posts_of_send_def eq grows_def)
  with record_dlq_entry[of max_attempts env target m e c2] g(2) show ?thesis
    by (simp add: eq max_attempts_def)
qed

text \<open>
  One rate-limited message blocks its channel: a message whose three requests are all answered 429
  opens the breaker of a target that had not failed before, because the breaker counts attempts, not
  messages, and its threshold is the number of attempts. Every message for the target in the next five
  seconds is then buried without a request.
\<close>

theorem discord_rate_limit_opens_circuit:
  assumes "always_limited env body d" and "discord_target target" and "dd_circuits c (target_rate_limit_key target) = None"
    and "discord_send env target m c = (c', res)"
  shows "\<exists>e t. res = SendErr e \<and> cb_state (circuit_for (target_rate_limit_key target) c') = Open t \<and>
    (dc_clock env (dd_reads c') - t < 5000 \<longrightarrow> posts_of_send env target m' c' = [] \<and> snd (discord_send env target m' c') \<noteq> SendOk)"
proof -
  let ?key = "target_rate_limit_key target"
  define safe_target where "safe_target = safe_target_id (dc_parse_url env) target"
  have new: "circuit_for ?key c = breaker_new circuit_failure_threshold circuit_cooldown_ms"
    by (simp add: circuit_for_def assms(3))
  define c1 where "c1 = c\<lparr>dd_circuits := (dd_circuits c)
      (?key \<mapsto> breaker_new circuit_failure_threshold circuit_cooldown_ms), dd_reads := Suc (dd_reads c)\<rparr>"
  have r: "client_allow_request env ?key c = (c1, True, None)"
    by (simp add: c1_def client_allow_request_def allow_request_def new breaker_new_def)
  have eq: "discord_send env target m c = send_attempts env target m [Suc 0..<Suc max_attempts] c1"
    unfolding discord_send_def Let_def r case_prod_conv emit_circuit_transition.simps simp_thms if_False One_nat_def ..
  have "failed_times 0 (circuit_for ?key c1)"
    by (simp add: c1_def breaker_new_def circuit_for_def failed_times_def circuit_failure_threshold_def)
  from limited_attempts[OF assms(1,2) this, of m] assms(4) eq
  obtain e where e: "res = SendErr e" "failed_times max_attempts (circuit_for ?key c')"
    by (auto simp: max_attempts_def)
  then obtain t where t: "cb_state (circuit_for ?key c') = Open t" "cooldown (circuit_for ?key c') = 5000"
    by (auto simp: failed_times_def max_attempts_def circuit_failure_threshold_def circuit_cooldown_ms_def)
  with discord_open_circuit_buries[OF assms(2) t(1), of env m'] e(1) show ?thesis by auto
qed

section \<open>A sample server\<close>

definition sample_discord_env :: "(discord_effect list \<Rightarrow> http_reply) \<Rightarrow> discord_env" where
  "sample_discord_env answer =
     \<lparr>dc_has_bot = True, dc_api_base = ''https://discord'', dc_http = (\<lambda>fx _ _. answer fx), dc_clock = (\<lambda>n. n),
      dc_status_text = show_nat, dc_retry_after = (\<lambda>body. if body = ''slow'' then Some 2 else if body = ''neg'' then Some (- 1) else None),
      dc_parse_url = (\<lambda>_. None), dc_sip_hash = (\<lambda>_ _. 0), dc_to_json = (\<lambda>_. None)\<rparr>"

definition sample_message :: sink_message where
  "sample_message = \<lparr>sm_event_kind = ''custom'', sm_format = Compact, sm_content = ''hi'', sm_payload = JNull, sm_telemetry = None\<rparr>"

text \<open>The first request is answered 429, the next one is accepted.\<close>

definition limited_once :: "discord_effect list \<Rightarrow> http_reply" where
  "limited_once fx = (if posts fx = [] then Reply 429 ''slow'' else Reply 204 [])"

lemma sample_run:
  "posts_of_send (sample_discord_env limited_once) (DiscordChannel ''1'') sample_message discord_client_new =
     [Reply 429 ''slow'', Reply 204 []]"
  by code_simp


theorem discord_targets_isolated_witness:
  "dd_circuits (fst (discord_send (sample_discord_env limited_once) (DiscordChannel ''1'') sample_message discord_client_new))
     (target_rate_limit_key (DiscordThread ''1'')) = None"
  using discord_targets_isolated[of "DiscordChannel ''1''" "DiscordThread ''1''" "sample_discord_env limited_once"
      sample_message discord_client_new]
  by (simp add: discord_client_new_def)

definition sample_open_client :: discord_client where
  "sample_open_client = discord_client_new\<lparr>dd_circuits := [''discord:channel:1'' \<mapsto>
     \<lparr>cb_state = Open 0, consecutive_failures = 3, failure_threshold = 3, cooldown = 5000\<rparr>]\<rparr>"

theorem discord_open_circuit_buries_witness:
  "posts_of_send (sample_discord_env limited_once) (DiscordChannel ''1'') sample_message sample_open_client = []"
proof -
  have c: "circuit_for (target_rate_limit_key (DiscordChannel ''1'')) sample_open_client =
     \<lparr>cb_state = Open 0, consecutive_failures = 3, failure_threshold = 3, cooldown = 5000\<rparr>"
    by (simp add: circuit_for_def sample_open_client_def target_rate_limit_key_def)
  have "dc_clock (sample_discord_env limited_once) (dd_reads sample_open_client) = 0"
    by (simp add: sample_discord_env_def sample_open_client_def discord_client_new_def)
  with c discord_open_circuit_buries[of "DiscordChannel ''1''" sample_open_client 0 "sample_discord_env limited_once"
      sample_message] show ?thesis by simp
qed

theorem discord_rate_limit_opens_circuit_witness:
  "\<exists>e. snd (discord_send (sample_discord_env (\<lambda>_. Reply 429 ''slow'')) (DiscordChannel ''1'') sample_message
     discord_client_new) = SendErr e"
proof -
  let ?env = "sample_discord_env (\<lambda>_. Reply 429 ''slow'')"
  have l: "always_limited ?env ''slow'' 2" by (simp add: always_limited_def sample_discord_env_def)
  have n: "dd_circuits discord_client_new (target_rate_limit_key (DiscordChannel ''1'')) = None"
    by (simp add: discord_client_new_def)
  obtain c' res where r: "discord_send ?env (DiscordChannel ''1'') sample_message discord_client_new = (c', res)"
    by fastforce
  from discord_rate_limit_opens_circuit[OF l _ n r] r show ?thesis by auto
qed

text \<open>A negative time to wait, which JSON allows, panics in \<open>Duration::from_secs_f64\<close>.\<close>

theorem negative_retry_after_panics:
  "snd (discord_send (sample_discord_env (\<lambda>_. Reply 429 ''neg'')) (DiscordThread ''1'') sample_message discord_client_new)
     = SendPanic"
  by code_simp

end
