(* ===== verification/DiscordLane.thy ===== *)
theory DiscordLane imports DiscordSend begin

text \<open>
  The rest of \<open>DiscordClient\<close> (\<open>src/discord.rs\<close>): the lane path that sends a message to a thread with one
  POST and classifies its outcome, and the read-only probes of threads, messages, channels and the
  bot's own identity (\<open>ChannelLookup\<close> is declared in \<open>src/binding_verify.rs\<close>).

  JSON bodies, the URL crate and RFC 3339 timestamps are parameters: the fields of \<open>lane_env\<close>.
\<close>

section \<open>Data\<close>

datatype lane_timestamp_source = FromDiscord | Local

record lane_receipt =
  rc_message_id :: string
  rc_timestamp :: secs
  rc_timestamp_source :: lane_timestamp_source

datatype lane_error_category =
    ContentTooLong | BadRequest | Unauthorized | Forbidden | NotFound | RateLimited | ArchivedOrNotWritable
  | Timeout | Transport | MalformedSuccess | EmptyMessageId | MissingMessageId

datatype lane_retry = Never | After rat | Bounded

datatype lane_disposition = DefinitiveFailure | AmbiguousAcceptance

record lane_error =
  le_category :: lane_error_category
  le_status :: "nat option"
  le_retry :: lane_retry
  le_disposition :: lane_disposition

datatype thread_reachability =
  Reachable | Unreachable lane_error_category | Unknown lane_error_category

record message_probe =
  mp_message_id :: string
  mp_timestamp :: "secs option"

datatype message_fetch = FetchFound message_probe | FetchNotFound | FetchUnavailable lane_error_category

datatype message_list = ListEmpty | ListOne message_probe | ListUnavailable lane_error_category

datatype channel_lookup =
    ChannelFound string "string option" | ChannelNotFound | ChannelForbidden | ChannelUnauthorized
  | ChannelNoToken | ChannelTransport string

datatype self_lookup =
  SelfBot string | SelfNoToken | SelfUnauthorized | SelfForbidden | SelfRateLimited | SelfMalformed | SelfTransport

record message_body =
  mb_id :: "string option"
  mb_timestamp :: "string option"

record lane_env =
  ln_base :: discord_env
  ln_get :: "discord_effect list \<Rightarrow> string \<Rightarrow> http_reply"
  ln_error_code :: "string \<Rightarrow> nat option"
  ln_message :: "string \<Rightarrow> message_body option"
  ln_messages :: "string \<Rightarrow> message_body list option"
  ln_channel :: "string \<Rightarrow> string option option"
  ln_self :: "string \<Rightarrow> string option option"
  ln_url :: "string \<Rightarrow> string list \<Rightarrow> string option"
  ln_limit_one :: "string \<Rightarrow> string"
  ln_parse_time :: "string \<Rightarrow> secs option"
  ln_now :: secs

definition lane_max_content_scalars :: nat where "lane_max_content_scalars = 2000"

section \<open>Classification\<close>

definition lane_error_of :: "lane_error_category \<Rightarrow> nat option \<Rightarrow> lane_retry \<Rightarrow> lane_disposition \<Rightarrow> lane_error" where
  "lane_error_of category status retry disposition =
     \<lparr>le_category = category, le_status = status, le_retry = retry, le_disposition = disposition\<rparr>"

definition lane_http_error :: "nat \<Rightarrow> rat option \<Rightarrow> lane_error" where
  "lane_http_error status retry_after =
     (let category =
            (if status = 400 then BadRequest
             else if status = 401 then Unauthorized
             else if status = 403 then Forbidden
             else if status = 404 then NotFound
             else if status = 429 then RateLimited
             else Transport);
          retry =
            (if status = 429 then (case retry_after of None \<Rightarrow> Bounded | Some d \<Rightarrow> After d)
             else if 500 \<le> status \<and> status < 600 then Bounded
             else Never)
      in lane_error_of category (Some status) retry DefinitiveFailure)"

text \<open>\<^term>\<open>None\<close> when \<open>parse_retry_after\<close> panics.\<close>

definition lane_http_error_from_body :: "lane_env \<Rightarrow> nat \<Rightarrow> string \<Rightarrow> lane_error option" where
  "lane_http_error_from_body env status body =
     (case parse_retry_after (ln_base env) status body of
        None \<Rightarrow> None
      | Some retry_after \<Rightarrow>
          (let error = lane_http_error status retry_after
           in Some (if (status = 400 \<or> status = 403) \<and> ln_error_code env body = Some 50083
                    then error\<lparr>le_category := ArchivedOrNotWritable\<rparr> else error)))"

definition request_error_category :: "bool \<Rightarrow> lane_error_category" where
  "request_error_category is_timeout = (if is_timeout then Timeout else Transport)"

definition is_discord_snowflake :: "string \<Rightarrow> bool" where
  "is_discord_snowflake value = (1 \<le> length value \<and> length value \<le> 20 \<and> list_all is_ascii_digit value)"

definition receipt_from_message_body :: "lane_env \<Rightarrow> message_body \<Rightarrow> lane_error + lane_receipt" where
  "receipt_from_message_body env body =
     (case mb_id body of
        None \<Rightarrow> Err (lane_error_of MissingMessageId None Never AmbiguousAcceptance)
      | Some message_id \<Rightarrow>
          if blank message_id then Err (lane_error_of EmptyMessageId None Never AmbiguousAcceptance)
          else if \<not> is_discord_snowflake message_id
          then Err (lane_error_of MalformedSuccess None Never AmbiguousAcceptance)
          else case mb_timestamp body of
            None \<Rightarrow> Ok \<lparr>rc_message_id = message_id, rc_timestamp = ln_now env, rc_timestamp_source = Local\<rparr>
          | Some value \<Rightarrow>
              (case ln_parse_time env value of
                 None \<Rightarrow> Err (lane_error_of MalformedSuccess None Never AmbiguousAcceptance)
               | Some t \<Rightarrow>
                   Ok \<lparr>rc_message_id = message_id, rc_timestamp = t, rc_timestamp_source = FromDiscord\<rparr>))"

definition probe_from_message_body :: "lane_env \<Rightarrow> message_body \<Rightarrow> message_probe option" where
  "probe_from_message_body env body =
     (case mb_id body of
        None \<Rightarrow> None
      | Some message_id \<Rightarrow>
          if is_discord_snowflake message_id
          then Some \<lparr>mp_message_id = message_id,
                     mp_timestamp = (case mb_timestamp body of None \<Rightarrow> None | Some v \<Rightarrow> ln_parse_time env v)\<rparr>
          else None)"

section \<open>The lane path\<close>

text \<open>The refusals before anything is sent, in the order of the code.\<close>

definition lane_refusal :: "lane_env \<Rightarrow> string \<Rightarrow> string \<Rightarrow> lane_error_category option" where
  "lane_refusal env thread_id content =
     (if \<not> is_discord_snowflake thread_id then Some BadRequest
      else if lane_max_content_scalars < char_count content then Some ContentTooLong
      else if \<not> dc_has_bot (ln_base env) then Some Unauthorized
      else None)"

datatype lane_result = Receipt lane_receipt | LaneFailed lane_error | LanePanicked

text \<open>What the answer to the POST means: the outcome, and whether the breaker records a success, a
  failure or, when reading the answer panics, nothing.\<close>

definition lane_outcome :: "lane_env \<Rightarrow> http_reply \<Rightarrow> lane_result \<times> bool option" where
  "lane_outcome env reply =
     (case reply of
        TransportError is_timeout \<Rightarrow>
          (LaneFailed (lane_error_of (request_error_category is_timeout) None Bounded AmbiguousAcceptance), Some False)
      | Reply status body \<Rightarrow>
          if \<not> is_success status then
            (case lane_http_error_from_body env status body of
               None \<Rightarrow> (LanePanicked, None)
             | Some e \<Rightarrow> (LaneFailed e, Some False))
          else case ln_message env body of
            None \<Rightarrow> (LaneFailed (lane_error_of MalformedSuccess (Some status) Bounded AmbiguousAcceptance), Some False)
          | Some b \<Rightarrow>
              (case receipt_from_message_body env b of
                 Inr receipt \<Rightarrow> (Receipt receipt, Some True)
               | Inl e \<Rightarrow> (LaneFailed (e\<lparr>le_status := Some status\<rparr>), Some False)))"

definition send_thread_with_receipt ::
    "lane_env \<Rightarrow> string \<Rightarrow> string \<Rightarrow> discord_client \<Rightarrow> discord_client \<times> lane_result" where
  "send_thread_with_receipt env thread_id content c =
     (case lane_refusal env thread_id content of
        Some category \<Rightarrow> (c, LaneFailed (lane_error_of category None Never DefinitiveFailure))
      | None \<Rightarrow>
          (let base = ln_base env;
               key = ''discord:lane-thread:'' @ thread_id;
               (c, allowed, _) = client_allow_request base key c
           in if \<not> allowed
              then (c, LaneFailed (lane_error_of Transport None Bounded DefinitiveFailure))
              else
                let (c, delay) = rate_limit_delay base key c;
                    c = sleep_for delay c
                in case ln_url env (dc_api_base (ln_base env)) [''channels'', thread_id, ''messages''] of
                     None \<Rightarrow> (c, LaneFailed (lane_error_of Transport None Never DefinitiveFailure))
                   | Some url \<Rightarrow>
                       (let reply = dc_http (ln_base env) (dd_log c) url content;
                            c = log_effect (Post url content reply) c;
                            (result, recorded) = lane_outcome env reply
                        in (case recorded of
                              None \<Rightarrow> c
                            | Some True \<Rightarrow> fst (client_record_success key c)
                            | Some False \<Rightarrow> fst (client_record_failure base key c), result))))"

section \<open>Probes\<close>

text \<open>One GET request: its answer is logged.\<close>

definition http_get :: "lane_env \<Rightarrow> string \<Rightarrow> discord_client \<Rightarrow> discord_client \<times> http_reply" where
  "http_get env url c =
     (let reply = ln_get env (dd_log c) url in (log_effect (Get url reply) c, reply))"

definition probe_thread_reachability ::
    "lane_env \<Rightarrow> string \<Rightarrow> discord_client \<Rightarrow> discord_client \<times> thread_reachability" where
  "probe_thread_reachability env thread_id c =
     (if \<not> is_discord_snowflake thread_id then (c, Unknown BadRequest)
      else if \<not> dc_has_bot (ln_base env) then (c, Unreachable Unauthorized)
      else case ln_url env (dc_api_base (ln_base env)) [''channels'', thread_id] of
        None \<Rightarrow> (c, Unknown Transport)
      | Some url \<Rightarrow>
          (case http_get env url c of
             (c, TransportError is_timeout) \<Rightarrow> (c, Unknown (request_error_category is_timeout))
           | (c, Reply status body) \<Rightarrow>
               (c, if is_success status then Reachable
                   else let category = le_category (lane_http_error status None)
                        in if category = Unauthorized \<or> category = Forbidden \<or> category = NotFound
                           then Unreachable category else Unknown category)))"

definition fetch_thread_message ::
    "lane_env \<Rightarrow> string \<Rightarrow> string \<Rightarrow> discord_client \<Rightarrow> discord_client \<times> message_fetch" where
  "fetch_thread_message env thread_id message_id c =
     (if \<not> is_discord_snowflake thread_id \<or> \<not> is_discord_snowflake message_id
      then (c, FetchUnavailable BadRequest)
      else if \<not> dc_has_bot (ln_base env) then (c, FetchUnavailable Unauthorized)
      else case ln_url env (dc_api_base (ln_base env)) [''channels'', thread_id, ''messages'', message_id] of
        None \<Rightarrow> (c, FetchUnavailable Transport)
      | Some url \<Rightarrow>
          (case http_get env url c of
             (c, TransportError is_timeout) \<Rightarrow> (c, FetchUnavailable (request_error_category is_timeout))
           | (c, Reply status body) \<Rightarrow>
               (c, if is_success status
                   then unwrap_or (map_option FetchFound (Option.bind (ln_message env body) (probe_from_message_body env)))
                          (FetchUnavailable MalformedSuccess)
                   else if status = 404 then FetchNotFound
                   else FetchUnavailable (le_category (lane_http_error status None)))))"

definition list_from_bodies :: "lane_env \<Rightarrow> message_body list \<Rightarrow> message_list option" where
  "list_from_bodies env messages =
     (case messages of
        [] \<Rightarrow> Some ListEmpty
      | [m] \<Rightarrow> map_option ListOne (probe_from_message_body env m)
      | _ \<Rightarrow> None)"

definition list_thread_messages ::
    "lane_env \<Rightarrow> string \<Rightarrow> discord_client \<Rightarrow> discord_client \<times> message_list" where
  "list_thread_messages env thread_id c =
     (if \<not> is_discord_snowflake thread_id then (c, ListUnavailable BadRequest)
      else if \<not> dc_has_bot (ln_base env) then (c, ListUnavailable Unauthorized)
      else case ln_url env (dc_api_base (ln_base env)) [''channels'', thread_id, ''messages''] of
        None \<Rightarrow> (c, ListUnavailable Transport)
      | Some url \<Rightarrow>
          (case http_get env (ln_limit_one env url) c of
             (c, TransportError is_timeout) \<Rightarrow> (c, ListUnavailable (request_error_category is_timeout))
           | (c, Reply status body) \<Rightarrow>
               (c, if is_success status
                   then unwrap_or (Option.bind (ln_messages env body) (list_from_bodies env))
                          (ListUnavailable MalformedSuccess)
                   else ListUnavailable (le_category (lane_http_error status None)))))"

definition lookup_channel ::
    "lane_env \<Rightarrow> string \<Rightarrow> discord_client \<Rightarrow> discord_client \<times> channel_lookup" where
  "lookup_channel env channel_id c =
     (if \<not> dc_has_bot (ln_base env) then (c, ChannelNoToken)
      else
        let url = trim_end_matches (\<lambda>ch. ch = ''/'') (dc_api_base (ln_base env)) @ ''/channels/'' @ channel_id
        in case http_get env url c of
             (c, TransportError _) \<Rightarrow> (c, ChannelTransport ''Discord channel lookup request failed'')
           | (c, Reply status body) \<Rightarrow>
               (c, if is_success status then
                     (case ln_channel env body of
                        None \<Rightarrow> ChannelTransport ''Discord channel lookup body parse failed''
                      | Some name \<Rightarrow> ChannelFound channel_id name)
                   else if status = 404 then ChannelNotFound
                   else if status = 403 then ChannelForbidden
                   else if status = 401 then ChannelUnauthorized
                   else ChannelTransport (''Discord channel lookup failed with '' @ dc_status_text (ln_base env) status @
                          '': '' @ body)))"

definition lookup_self :: "lane_env \<Rightarrow> discord_client \<Rightarrow> discord_client \<times> self_lookup" where
  "lookup_self env c =
     (if \<not> dc_has_bot (ln_base env) then (c, SelfNoToken)
      else case ln_url env (dc_api_base (ln_base env)) [''users'', ''@me''] of
        None \<Rightarrow> (c, SelfTransport)
      | Some url \<Rightarrow>
          (case http_get env url c of
             (c, TransportError _) \<Rightarrow> (c, SelfTransport)
           | (c, Reply status body) \<Rightarrow>
               (c, if is_success status then
                     (case ln_self env body of
                        Some (Some i) \<Rightarrow> (if is_discord_snowflake i then SelfBot i else SelfMalformed)
                      | _ \<Rightarrow> SelfMalformed)
                   else case le_category (lane_http_error status None) of
                     Unauthorized \<Rightarrow> SelfUnauthorized
                   | Forbidden \<Rightarrow> SelfForbidden
                   | RateLimited \<Rightarrow> SelfRateLimited
                   | _ \<Rightarrow> SelfTransport)))"

end
