(* ===== verification/DiscordLaneCorrect.thy ===== *)
theory DiscordLaneCorrect imports DiscordLane DiscordSendCorrect begin

text \<open>
  What the lane path promises its caller: at most one POST, a disposition that says whether the message
  may have been accepted, no dead letter, and a breaker and bucket apart from those of \<open>send\<close>; and that
  the probes change nothing.
\<close>

section \<open>The outcome of the POST\<close>

fun maybe_accepted :: "http_reply \<Rightarrow> bool" where
  "maybe_accepted (TransportError _) = True"
| "maybe_accepted (Reply status _) = is_success status"

lemma receipt_id: "receipt_from_message_body env b = Inr r \<Longrightarrow> is_discord_snowflake (rc_message_id r)"
  by (auto simp: receipt_from_message_body_def split: option.splits if_splits)

lemma receipt_error: "receipt_from_message_body env b = Inl e \<Longrightarrow> le_disposition e = AmbiguousAcceptance"
  by (auto simp: receipt_from_message_body_def lane_error_of_def split: option.splits if_splits)

lemma lane_http_error_disposition: "le_disposition (lane_http_error status d) = DefinitiveFailure"
  by (simp add: lane_http_error_def lane_error_of_def Let_def)

lemma lane_body_disposition:
  "lane_http_error_from_body env status body = Some e \<Longrightarrow> le_disposition e = DefinitiveFailure"
  by (auto simp: lane_http_error_from_body_def Let_def lane_http_error_disposition split: option.splits if_splits)

definition lane_result_fits :: "http_reply \<Rightarrow> lane_result \<Rightarrow> bool" where
  "lane_result_fits reply res =
     (case res of
        Receipt r \<Rightarrow> accepted reply \<and> is_discord_snowflake (rc_message_id r)
      | LaneFailed e \<Rightarrow> (le_disposition e = AmbiguousAcceptance \<longleftrightarrow> maybe_accepted reply)
      | LanePanicked \<Rightarrow> \<not> maybe_accepted reply)"

lemma lane_outcome_fits: "lane_result_fits reply (fst (lane_outcome env reply))"
  using receipt_id receipt_error lane_body_disposition
  by (cases reply) (auto simp: lane_outcome_def lane_result_fits_def lane_error_of_def split: option.split sum.split)

section \<open>The whole call\<close>

definition posts_of_lane :: "lane_env \<Rightarrow> string \<Rightarrow> string \<Rightarrow> discord_client \<Rightarrow> http_reply list" where
  "posts_of_lane env thread_id content c =
     posts (drop (length (dd_log c)) (dd_log (fst (send_thread_with_receipt env thread_id content c))))"

definition lane_spec :: "string \<Rightarrow> discord_client \<Rightarrow> discord_client \<times> lane_result \<Rightarrow> bool" where
  "lane_spec key c r =
     (dd_dlq (fst r) = dd_dlq c \<and> touches key c (fst r) \<and>
      ((grows c (fst r) [] \<and> (\<exists>e. snd r = LaneFailed e \<and> le_disposition e = DefinitiveFailure)) \<or>
       (\<exists>reply. grows c (fst r) [reply] \<and> lane_result_fits reply (snd r))))"

lemma lane_spec_unsent:
  "quiet key c c1 \<Longrightarrow> lane_spec key c (c1, LaneFailed (lane_error_of category status retry DefinitiveFailure))"
  by (simp add: lane_spec_def quiet_def lane_error_of_def)

lemma lane_spec_sent:
  assumes "quiet key c c1" and "quiet key (log_effect (Post url content reply) c1) c2" and "lane_result_fits reply res"
  shows "lane_spec key c (c2, res)"
proof -
  have "grows c1 (log_effect (Post url content reply) c1) [reply]" "touches key c1 (log_effect (Post url content reply) c1)"
    "dd_dlq (log_effect (Post url content reply) c1) = dd_dlq c1"
    by (auto simp: grows_def log_effect_def touches_def)
  with assms(1,2) have "grows c c2 [reply]" "touches key c c2" "dd_dlq c2 = dd_dlq c"
    unfolding quiet_def by (blast intro: grows_silent grows_silent_after, blast intro: touches_trans, simp)
  with assms(3) show ?thesis unfolding lane_spec_def by auto
qed

lemma send_thread_spec:
  "lane_spec (''discord:lane-thread:'' @ thread_id) c (send_thread_with_receipt env thread_id content c)"
proof (cases "lane_refusal env thread_id content")
  case (Some category)
  then show ?thesis by (simp add: send_thread_with_receipt_def lane_spec_unsent)
next
  case None
  define key where "key = ''discord:lane-thread:'' @ thread_id"
  define r where "r = client_allow_request (ln_base env) key c"
  define c1 where "c1 = sleep_for (snd (rate_limit_delay (ln_base env) key (fst r))) (fst (rate_limit_delay (ln_base env) key (fst r)))"
  have q0: "quiet key c (fst r)" unfolding r_def by (rule quiet_allow)
  have q1: "quiet key c c1" unfolding c1_def by (intro quiet_trans[OF q0] quiet_trans[OF quiet_delay quiet_sleep])
  show ?thesis
  proof (cases "fst (snd r) \<and> ln_url env (dc_api_base (ln_base env)) [''channels'', thread_id, ''messages''] \<noteq> None")
    case False
    have "send_thread_with_receipt env thread_id content c =
        (if \<not> fst (snd r) then (fst r, LaneFailed (lane_error_of Transport None Bounded DefinitiveFailure))
         else (c1, LaneFailed (lane_error_of Transport None Never DefinitiveFailure)))"
      using False unfolding send_thread_with_receipt_def None option.case Let_def case_prod_unfold
        key_def[symmetric] r_def[symmetric] c1_def[symmetric] by auto
    then show ?thesis using lane_spec_unsent[OF q0] lane_spec_unsent[OF q1] by (simp add: key_def)
  next
    case True
    then obtain url where url: "ln_url env (dc_api_base (ln_base env)) [''channels'', thread_id, ''messages''] = Some url"
      and allowed: "fst (snd r)" by auto
    define reply where "reply = dc_http (ln_base env) (dd_log c1) url content"
    define c2 where "c2 = log_effect (Post url content reply) c1"
    define c3 where "c3 = (case snd (lane_outcome env reply) of None \<Rightarrow> c2
        | Some True \<Rightarrow> fst (client_record_success key c2) | Some False \<Rightarrow> fst (client_record_failure (ln_base env) key c2))"
    have eq: "send_thread_with_receipt env thread_id content c = (c3, fst (lane_outcome env reply))"
      unfolding send_thread_with_receipt_def None option.case Let_def case_prod_unfold
        key_def[symmetric] r_def[symmetric] c1_def[symmetric] url reply_def[symmetric]
        c2_def[symmetric] c3_def[symmetric] using allowed by simp
    have "quiet key c2 c3"
      unfolding c3_def by (auto split: option.split bool.split intro: quiet_success quiet_failure)
    then show ?thesis unfolding eq key_def[symmetric] c2_def by (rule lane_spec_sent[OF q1 _ lane_outcome_fits])
  qed
qed

section \<open>Properties\<close>

text \<open>
  The lane path sends at most once and says truthfully what may have happened. It makes at most one
  POST and never writes a dead letter. A receipt carries a valid message identifier and follows an
  accepted POST; an error is \<open>AmbiguousAcceptance\<close> exactly when a POST was made that was accepted or
  whose answer was lost, so a caller that sends again after a \<open>DefinitiveFailure\<close> cannot duplicate the
  message.
\<close>

theorem lane_send_disposition:
  "let (c', res) = send_thread_with_receipt env thread_id content c; ps = posts_of_lane env thread_id content c
   in length ps \<le> 1 \<and> dd_dlq c' = dd_dlq c \<and>
     (case res of
        Receipt r \<Rightarrow> list_ex accepted ps \<and> is_discord_snowflake (rc_message_id r)
      | LaneFailed e \<Rightarrow> (le_disposition e = AmbiguousAcceptance \<longleftrightarrow> list_ex maybe_accepted ps)
      | LanePanicked \<Rightarrow> \<not> list_ex maybe_accepted ps)"
proof -
  obtain c' res where r: "send_thread_with_receipt env thread_id content c = (c', res)" by fastforce
  from send_thread_spec[of thread_id c env content] r show ?thesis
    by (cases res) (auto simp: lane_spec_def posts_of_lane_def grows_def lane_result_fits_def)
qed

text \<open>
  The lane path is isolated: it changes neither the breaker nor the bucket \<open>send\<close> uses for any
  target, the same thread included.
\<close>

theorem lane_send_isolated:
  "dd_circuits (fst (send_thread_with_receipt env thread_id content c)) (target_rate_limit_key target) =
     dd_circuits c (target_rate_limit_key target) \<and>
   buckets (dd_limiter (fst (send_thread_with_receipt env thread_id content c))) (target_rate_limit_key target) =
     buckets (dd_limiter c) (target_rate_limit_key target)"
proof -
  have "target_rate_limit_key target \<noteq> ''discord:lane-thread:'' @ thread_id"
    by (cases target) (simp_all add: target_rate_limit_key_def)
  then show ?thesis
    using send_thread_spec[of thread_id c env content] by (simp add: lane_spec_def touches_def)
qed

definition only_reads :: "discord_client \<Rightarrow> discord_client \<Rightarrow> bool" where
  "only_reads c c' = (\<exists>fx. c' = c\<lparr>dd_log := dd_log c @ fx\<rparr> \<and> posts fx = [] \<and> length fx \<le> 1)"

lemma only_reads_refl: "only_reads c c"
  unfolding only_reads_def by (intro exI[of _ "[]"]) simp

lemma only_reads_get: "http_get env url c = (c', reply) \<Longrightarrow> only_reads c c'"
  unfolding only_reads_def by (intro exI[of _ "[Get url reply]"]) (auto simp: http_get_def log_effect_def Let_def)

lemma only_reads_case:
  "only_reads c (fst (case http_get env url c of (c', TransportError b) \<Rightarrow> (c', f b) | (c', Reply status body) \<Rightarrow> (c', g status body)))"
  using only_reads_get[of env url c] by (cases "http_get env url c") (auto split: http_reply.split)

lemma probe_thread_reads: "only_reads c (fst (probe_thread_reachability env thread_id c))"
  unfolding probe_thread_reachability_def by (simp add: only_reads_case only_reads_refl split: option.split)

lemma fetch_thread_reads: "only_reads c (fst (fetch_thread_message env thread_id message_id c))"
  unfolding fetch_thread_message_def by (simp add: only_reads_case only_reads_refl split: option.split)

lemma list_thread_reads: "only_reads c (fst (list_thread_messages env thread_id c))"
  unfolding list_thread_messages_def by (simp add: only_reads_case only_reads_refl split: option.split)

lemma lookup_channel_reads: "only_reads c (fst (lookup_channel env channel_id c))"
  unfolding lookup_channel_def Let_def by (simp add: only_reads_case only_reads_refl)

lemma lookup_self_reads: "only_reads c (fst (lookup_self env c))"
  unfolding lookup_self_def by (simp add: only_reads_case only_reads_refl split: option.split)

text \<open>
  Probes only read: probing a thread, fetching or listing its messages, looking up a channel or the
  bot itself changes no breaker, bucket or dead letter and sends no message.
\<close>

theorem discord_probes_only_read:
  "only_reads c (fst (probe_thread_reachability env thread_id c)) \<and>
   only_reads c (fst (fetch_thread_message env thread_id message_id c)) \<and>
   only_reads c (fst (list_thread_messages env thread_id c)) \<and>
   only_reads c (fst (lookup_channel env channel_id c)) \<and> only_reads c (fst (lookup_self env c))"
  using probe_thread_reads fetch_thread_reads list_thread_reads lookup_channel_reads lookup_self_reads by blast

end
