(* ===== verification/GjcEvents.thy ===== *)
theory GjcEvents imports Targets begin

text \<open>
  The GJC event bridge (\<open>src/gjc_sdk_events.rs\<close>): a reducer from snapshots of an agent session to clawhip
  events, and the identifiers of \<open>src/gjc/model.rs\<close> it checks. \<open>observe\<close> is split into the steps of the
  code's body, each a function of the session's track that returns the new track and the events.

  The time crate is a parameter of \<open>bridge_env\<close>: \<open>be_canonical_time\<close> parses an RFC 3339 text and prints it
  again, \<open>be_now\<close> is the clock as text, \<open>be_time_nanos\<close> the Unix time of a text in nanoseconds.
\<close>

section \<open>Identifiers\<close>

text \<open>The error of a request: the field and the reason (\<open>GjcError::InvalidRequest\<close>).\<close>

definition opaque_id :: "string \<Rightarrow> nat \<Rightarrow> string \<Rightarrow> string \<Rightarrow> string \<times> string + string" where
  "opaque_id field low bounds value =
     (if length value < low \<or> 128 < length value then Err (field, ''must be '' @ bounds @ '' bytes'')
      else if list_ex (\<lambda>c. is_control c \<or> is_white_space c) (chars value)
      then Err (field, ''control characters and whitespace are not allowed'')
      else Ok value)"

definition session_id_new where "session_id_new = opaque_id ''session_id'' 1 ''1..=128''"
definition command_id_new where "command_id_new = opaque_id ''command_id'' 1 ''1..=128''"
definition turn_id_new where "turn_id_new = opaque_id ''turn_id'' 1 ''1..=128''"
definition idempotency_key_new where "idempotency_key_new = opaque_id ''idempotency_key'' 8 ''8..=128''"

definition max_id_chars :: nat where "max_id_chars = 128"
definition max_summary_chars :: nat where "max_summary_chars = 240"

definition valid_gate_id :: "string \<Rightarrow> bool" where
  "valid_gate_id v = (v \<noteq> [] \<and> length v \<le> max_id_chars \<and>
     list_all (\<lambda>c. \<not> is_control c \<and> \<not> is_white_space c) (chars v))"

section \<open>Snapshots\<close>

datatype turn_phase = TurnIdle | TurnActive | TurnWaitingInput | TurnComplete | TurnFailed | TurnAborted
datatype prompt_status = PromptAccepted | PromptProgressing
datatype gate_kind = GateAsk | GateWorkflow
datatype gate_status = GateOpen | GateResolved
datatype endpoint_health = EndpointOk | EndpointDegraded | EndpointFailed

record sdk_turn =
  tn_id :: string
  tn_state :: turn_phase
  tn_prompt_accepted :: bool
  tn_attempt :: nat
  tn_error_summary :: "string option"

record sdk_prompt =
  pm_command_id :: string
  pm_status :: prompt_status

record sdk_gate =
  gt_id :: string
  gt_kind :: gate_kind
  gt_revision :: nat
  gt_status :: gate_status
  gt_summary :: "string option"
  gt_workflow_id :: "string option"
  gt_title :: "string option"
  gt_options :: "string list"

record sdk_endpoint =
  ep_health :: endpoint_health
  ep_detail :: "string option"

record sdk_snapshot =
  ss_session_id :: string
  ss_revision :: nat
  ss_endpoint_episode :: nat
  ss_turn :: "sdk_turn option"
  ss_turn_present :: bool
  ss_prompt :: "sdk_prompt option"
  ss_gate :: "sdk_gate option"
  ss_gate_present :: bool
  ss_model :: "string option"
  ss_profile :: "string option"
  ss_endpoint :: "sdk_endpoint option"
  ss_repo_name :: "string option"
  ss_repo_path :: "string option"
  ss_worktree_path :: "string option"
  ss_branch :: "string option"
  ss_observed_at :: "string option"
  ss_summary :: "string option"
  ss_mapping_error :: "string option"

definition snapshot_default :: sdk_snapshot where
  "snapshot_default =
     \<lparr>ss_session_id = [], ss_revision = 0, ss_endpoint_episode = 0, ss_turn = None, ss_turn_present = False,
      ss_prompt = None, ss_gate = None, ss_gate_present = False, ss_model = None, ss_profile = None,
      ss_endpoint = None, ss_repo_name = None, ss_repo_path = None, ss_worktree_path = None, ss_branch = None,
      ss_observed_at = None, ss_summary = None, ss_mapping_error = None\<rparr>"

record bridge_outcome =
  bo_events :: "incoming_event list"
  bo_duplicate :: bool
  bo_stale :: bool

record bridge_stats =
  bs_snapshots :: nat
  bs_duplicates :: nat
  bs_stale :: nat
  bs_emitted :: nat

record session_track =
  tk_last_revision :: "nat option"
  tk_turn_id :: "string option"
  tk_attempts :: nat
  tk_terminal_emitted_turn :: "string option"
  tk_prompt_command :: "string option"
  tk_prompt_turn_id :: "string option"
  tk_last_prompt_command :: "string option"
  tk_gate_episode :: "(string \<times> nat) option"
  tk_model :: "string option"
  tk_profile :: "string option"
  tk_endpoint_health :: "endpoint_health option"
  tk_endpoint_alerted :: bool
  tk_endpoint_episode :: nat
  tk_session_started_emitted :: bool
  tk_in_flight_turn :: "string option"
  tk_unexpected_idle_emitted_turn :: "string option"

definition track_default :: session_track where
  "track_default =
     \<lparr>tk_last_revision = None, tk_turn_id = None, tk_attempts = 0, tk_terminal_emitted_turn = None,
      tk_prompt_command = None, tk_prompt_turn_id = None, tk_last_prompt_command = None, tk_gate_episode = None,
      tk_model = None, tk_profile = None, tk_endpoint_health = None, tk_endpoint_alerted = False,
      tk_endpoint_episode = 0, tk_session_started_emitted = False, tk_in_flight_turn = None,
      tk_unexpected_idle_emitted_turn = None\<rparr>"

record event_bridge =
  br_sessions :: "string \<Rightarrow> session_track option"
  br_stats :: bridge_stats

definition bridge_new :: event_bridge where
  "bridge_new = \<lparr>br_sessions = (\<lambda>_. None),
     br_stats = \<lparr>bs_snapshots = 0, bs_duplicates = 0, bs_stale = 0, bs_emitted = 0\<rparr>\<rparr>"

record bridge_env =
  be_canonical_time :: "string \<Rightarrow> string option"
  be_now :: string
  be_time_nanos :: "string \<Rightarrow> int option"

section \<open>Public text\<close>

text \<open>White space and control characters become single spaces.\<close>

fun collapse_space :: "bool \<Rightarrow> string list \<Rightarrow> string list" where
  "collapse_space previous_space [] = []"
| "collapse_space previous_space (ch # chs) =
     (let mapped = (if is_control ch \<or> is_white_space ch then '' '' else ch)
      in if mapped = '' '' \<and> previous_space then collapse_space previous_space chs
         else mapped # collapse_space (mapped = '' '') chs)"

definition sanitize :: "string \<Rightarrow> string" where
  "sanitize v = take_chars max_summary_chars (trim (concat (collapse_space False (chars v))))"

definition secret_markers :: "string list" where
  "secret_markers = [''token'', ''secret'', ''password'', ''api_key'', ''api-key'', ''authorization'', ''apikey'',
     ''credential'', ''passwd'', ''auth:'', ''auth='', ''bearer'', ''://'']"

definition looks_secret :: "string \<Rightarrow> bool" where
  "looks_secret text =
     (let lower = to_ascii_lowercase text; compact = filter is_ascii_alphanumeric lower
      in list_ex (\<lambda>marker. str_contains marker lower) secret_markers \<or> str_contains ''privatekey'' compact)"

definition public_text :: "string \<Rightarrow> string" where
  "public_text v = (let sanitized = sanitize v in if looks_secret sanitized then ''details redacted'' else sanitized)"

definition public_failure_summary :: "string \<Rightarrow> string" where
  "public_failure_summary v =
     (let normalized = to_ascii_lowercase (sanitize v); has = (\<lambda>p. str_contains p normalized)
      in if has ''401'' \<or> has ''unauthorized'' then ''provider authorization failed (401)''
         else if (has ''402'' \<and> \<not> has ''403'') \<or> ((has ''payment'' \<or> has ''billing'' \<or> has ''credit'') \<and> \<not> has ''403'')
         then ''provider credits or billing unavailable (402)''
         else if has ''403'' \<or> has ''forbidden'' then ''provider access denied (403)''
         else if has ''429'' \<or> has ''rate limit'' \<or> has ''quota'' then ''provider rate limit or quota exceeded (429)''
         else ''provider turn failed'')"

definition public_endpoint_detail :: "string \<Rightarrow> string" where
  "public_endpoint_detail v = ''sdk endpoint unavailable''"

definition fnv1a64 :: "string \<Rightarrow> 64 word" where
  "fnv1a64 bytes = foldl (\<lambda>hash b. (hash XOR of_nat (byte b)) * 0x00000100000001b3) 0xcbf29ce484222325 bytes"

section \<open>Events\<close>

record snapshot_context =
  cx_session_id :: string
  cx_snapshot :: sdk_snapshot
  cx_timestamp :: string

definition context_new :: "bridge_env \<Rightarrow> string \<Rightarrow> sdk_snapshot \<Rightarrow> snapshot_context" where
  "context_new env session_id snap =
     \<lparr>cx_session_id = session_id, cx_snapshot = snap,
      cx_timestamp = unwrap_or (Option.bind (ss_observed_at snap) (\<lambda>v. be_canonical_time env (trim v))) (be_now env)\<rparr>"

text \<open>A field that is left out when its text is missing or empty.\<close>

definition insert_text :: "string \<Rightarrow> string option \<Rightarrow> (string, json) btree \<Rightarrow> (string, json) btree" where
  "insert_text key v object =
     (case opt_filter (\<lambda>t. t \<noteq> []) v of None \<Rightarrow> object | Some t \<Rightarrow> bt_insert key (JStr t) object)"

definition turn_component :: "snapshot_context \<Rightarrow> string" where
  "turn_component cx = unwrap_or (map_option (\<lambda>t. sanitize (tn_id t)) (ss_turn (cx_snapshot cx))) []"

definition command_component :: "snapshot_context \<Rightarrow> string" where
  "command_component cx = unwrap_or (map_option (\<lambda>p. sanitize (pm_command_id p)) (ss_prompt (cx_snapshot cx))) []"

definition event_identity :: "snapshot_context \<Rightarrow> string \<Rightarrow> string list \<Rightarrow> string" where
  "event_identity cx kind parts =
     (let snap = cx_snapshot cx;
          gate_component = unwrap_or (map_option (\<lambda>g. sanitize (gt_id g) @ ''|'' @ show_nat (gt_revision g)) (ss_gate snap)) [];
          routing = join_with ''|'' (map (\<lambda>v. sanitize (unwrap_or v []))
            [ss_repo_name snap, ss_repo_path snap, ss_worktree_path snap, ss_branch snap])
      in join_with ''|'' [kind, cx_session_id cx, turn_component cx, gate_component, routing, join_with ''|'' parts])"

definition event_id_for :: "snapshot_context \<Rightarrow> string \<Rightarrow> string list \<Rightarrow> string" where
  "event_id_for cx kind parts =
     ''gjc-'' @ replace_str ''.'' ''-'' kind @ ''-'' @ hex16 (fnv1a64 (event_identity cx kind parts))"

definition base_object :: "snapshot_context \<Rightarrow> string \<Rightarrow> string \<Rightarrow> string list \<Rightarrow> (string, json) btree" where
  "base_object cx kind status parts =
     (let snap = cx_snapshot cx; event_id = event_id_for cx kind parts;
          o1 = bt_extend [(''tool'', JStr ''gjc''), (''provider'', JStr ''gjc''), (''source'', JStr ''gjc-sdk''),
                 (''agent_name'', JStr ''gjc'')] [];
          o2 = insert_text ''status'' (Some status) o1;
          o3 = bt_extend [(''session_id'', JStr (cx_session_id cx)), (''sdk_revision'', jnat (ss_revision snap))] o2;
          o4 = insert_text ''repo_name'' (map_option sanitize (ss_repo_name snap)) o3;
          o5 = insert_text ''repo_path'' (map_option sanitize (ss_repo_path snap)) o4;
          o6 = insert_text ''worktree_path'' (map_option sanitize (ss_worktree_path snap)) o5;
          o7 = insert_text ''branch'' (map_option sanitize (ss_branch snap)) o6;
          o8 = bt_insert ''event_timestamp'' (JStr (cx_timestamp cx)) o7;
          o9 = insert_text ''turn_id'' (Some (turn_component cx)) o8;
          o10 = insert_text ''command_id'' (Some (command_component cx)) o9;
          o11 = insert_text ''model'' (map_option public_text (ss_model snap)) o10;
          o12 = insert_text ''profile'' (map_option public_text (ss_profile snap)) o11
      in bt_extend [(''event_id'', JStr event_id), (''correlation_id'', JStr (''gjc-'' @ cx_session_id cx)),
           (''idempotency_key'', JStr event_id)] o12)"

definition finish_event :: "string \<Rightarrow> (string, json) btree \<Rightarrow> incoming_event" where
  "finish_event kind object =
     \<lparr>ev_kind = kind, ev_channel = None, ev_mention = None, ev_format = None, ev_template = None,
      ev_payload = JObj object\<rparr>"

definition lifecycle_event ::
    "snapshot_context \<Rightarrow> string \<Rightarrow> string \<Rightarrow> nat \<Rightarrow> string option \<Rightarrow> string option \<Rightarrow> string list \<Rightarrow>
     (string \<times> json) list \<Rightarrow> incoming_event" where
  "lifecycle_event cx kind status attempt summary error parts extra =
     (let o1 = base_object cx kind status ((if 0 < attempt then [show_nat attempt] else []) @ parts);
          o2 = (if 0 < attempt then bt_insert ''attempt'' (jnat attempt) o1 else o1);
          o3 = insert_text ''summary'' (map_option public_text summary) o2;
          o4 = (case error of None \<Rightarrow> o3 | Some e \<Rightarrow> bt_insert ''error_message'' (JStr e) o3)
      in finish_event kind (bt_extend extra o4))"

definition gate_event :: "snapshot_context \<Rightarrow> string \<Rightarrow> sdk_gate \<Rightarrow> incoming_event" where
  "gate_event cx kind gate =
     (let gate_id = sanitize (gt_id gate);
          kind_label = (case gt_kind gate of GateAsk \<Rightarrow> ''ask'' | GateWorkflow \<Rightarrow> ''workflow'');
          summary = unwrap_or (opt_filter (\<lambda>t. t \<noteq> []) (map_option public_text (gt_summary gate)))
            (case gt_kind gate of GateAsk \<Rightarrow> ''operator input requested''
             | GateWorkflow \<Rightarrow> ''workflow gate requires approval'');
          question = jobject [(''id'', JStr gate_id), (''kind'', JStr kind_label), (''revision'', jnat (gt_revision gate)),
            (''summary'', JStr summary), (''workflow_id'', jopt JStr (gt_workflow_id gate)),
            (''title'', jopt JStr (gt_title gate)), (''options'', JArr (map (\<lambda>x. JStr (public_text x)) (gt_options gate)))];
          o1 = bt_extend [(''question'', question), (''question_id'', JStr gate_id), (''question_summary'', JStr summary),
            (''gate_kind'', JStr kind_label), (''gate_revision'', jnat (gt_revision gate))] (base_object cx kind [] []);
          o2 = insert_text ''turn_id'' (Some (turn_component cx)) o1;
          o3 = insert_text ''command_id'' (Some (command_component cx)) o2
      in finish_event kind (bt_insert ''summary'' (JStr summary) o3))"

definition health_name :: "endpoint_health \<Rightarrow> string" where
  "health_name h = (case h of EndpointOk \<Rightarrow> ''ok'' | EndpointDegraded \<Rightarrow> ''degraded'' | EndpointFailed \<Rightarrow> ''failed'')"

definition endpoint_failed_event :: "snapshot_context \<Rightarrow> sdk_endpoint \<Rightarrow> nat \<Rightarrow> incoming_event" where
  "endpoint_failed_event cx endpoint episode =
     (let episode = max (max episode (ss_endpoint_episode (cx_snapshot cx))) 1;
          health = health_name (ep_health endpoint);
          detail = unwrap_or (map_option public_endpoint_detail (ep_detail endpoint)) ''sdk endpoint unavailable'';
          kind = ''session.endpoint-failed'';
          object = base_object cx kind ''endpoint-failed'' [health, ''episode-'' @ show_nat episode]
      in finish_event kind (bt_extend [(''endpoint_health'', JStr health), (''error_message'', JStr detail),
           (''summary'', JStr (''endpoint '' @ health @ '': '' @ detail))] object))"

text \<open>The new tracked model and profile, and the event when one of them changed.\<close>

definition model_change_event ::
    "snapshot_context \<Rightarrow> string option \<Rightarrow> string option \<Rightarrow> sdk_snapshot \<Rightarrow>
     (string option \<times> string option) \<times> incoming_event option" where
  "model_change_event cx tracked_model tracked_profile snap =
     (let model = opt_filter (\<lambda>t. t \<noteq> []) (map_option sanitize (ss_model snap));
          profile = opt_filter (\<lambda>t. t \<noteq> []) (map_option sanitize (ss_profile snap))
      in if tracked_model = None \<and> tracked_profile = None then ((model, profile), None)
         else if model = tracked_model \<and> profile = tracked_profile then ((tracked_model, tracked_profile), None)
         else
           (let old = (\<lambda>v. unwrap_or v ''unset'');
                parts = (if model \<noteq> tracked_model then [''model '' @ old tracked_model @ '' -> '' @ old model] else []) @
                  (if profile \<noteq> tracked_profile then [''profile '' @ old tracked_profile @ '' -> '' @ old profile] else []);
                o1 = base_object cx ''session.model-changed'' ''model-changed''
                  [old tracked_model, old model, old tracked_profile, old profile];
                o2 = (case model of None \<Rightarrow> o1 | Some v \<Rightarrow> bt_insert ''model'' (JStr v) o1);
                o3 = (case profile of None \<Rightarrow> o2 | Some v \<Rightarrow> bt_insert ''profile'' (JStr v) o2)
            in ((model, profile),
                Some (finish_event ''session.model-changed'' (bt_insert ''summary'' (JStr (join_with '', '' parts)) o3)))))"

section \<open>The reducer\<close>

text \<open>A new turn forgets what was known of the last one.\<close>

definition enter_turn :: "string \<Rightarrow> session_track \<Rightarrow> session_track" where
  "enter_turn turn_id t =
     (if tk_turn_id t \<noteq> Some turn_id
      then t\<lparr>tk_turn_id := Some turn_id, tk_attempts := 0, tk_terminal_emitted_turn := None, tk_prompt_command := None\<rparr>
      else t)"

definition prompt_accepted :: "sdk_turn \<Rightarrow> session_track \<Rightarrow> bool" where
  "prompt_accepted turn t = (tn_prompt_accepted turn \<or> tk_prompt_command t \<noteq> None)"

definition retry_step :: "snapshot_context \<Rightarrow> sdk_turn \<Rightarrow> session_track \<Rightarrow> session_track \<times> incoming_event list" where
  "retry_step cx turn t =
     (t\<lparr>tk_attempts := max (tk_attempts t) (tn_attempt turn)\<rparr>,
      if prompt_accepted turn t \<and> tk_attempts t < tn_attempt turn
      then [lifecycle_event cx ''session.retry-needed'' ''retry-needed'' (tn_attempt turn)
              (Some (''retry attempt '' @ show_nat (tn_attempt turn))) None [] [(''attempt'', jnat (tn_attempt turn))]]
      else [])"

definition active_step :: "snapshot_context \<Rightarrow> string \<Rightarrow> sdk_turn \<Rightarrow> session_track \<Rightarrow> session_track \<times> incoming_event list" where
  "active_step cx turn_id turn t =
     (let accepted = prompt_accepted turn t;
          t1 = t\<lparr>tk_in_flight_turn := (if accepted then Some turn_id else None), tk_unexpected_idle_emitted_turn := None\<rparr>
      in if accepted \<and> \<not> tk_session_started_emitted t1
         then (t1\<lparr>tk_session_started_emitted := True\<rparr>,
               [lifecycle_event cx ''session.started'' ''started'' 0 (ss_summary (cx_snapshot cx)) None [] []])
         else (t1, []))"

definition failure_text :: "sdk_turn \<Rightarrow> sdk_snapshot \<Rightarrow> string" where
  "failure_text turn snap =
     unwrap_or (opt_filter (\<lambda>t. t \<noteq> []) (map_option public_failure_summary (opt_or (tn_error_summary turn) (ss_summary snap))))
       ''provider turn failed''"

definition terminal_step :: "snapshot_context \<Rightarrow> string \<Rightarrow> sdk_turn \<Rightarrow> session_track \<Rightarrow> session_track \<times> incoming_event list" where
  "terminal_step cx turn_id turn t =
     (let failed = (tn_state turn = TurnFailed); snap = cx_snapshot cx;
          command_fields = (case tk_prompt_command t of None \<Rightarrow> [] | Some c \<Rightarrow> [(''command_id'', JStr c)])
      in if prompt_accepted turn t \<and> tk_terminal_emitted_turn t \<noteq> Some turn_id
         then (t\<lparr>tk_terminal_emitted_turn := Some turn_id, tk_in_flight_turn := None\<rparr>,
               [if failed
                then lifecycle_event cx ''session.failed'' ''failed'' 0 (Some (failure_text turn snap))
                       (Some (failure_text turn snap)) [''failed''] command_fields
                else lifecycle_event cx ''session.finished'' ''finished'' 0 (ss_summary snap) None [''complete'']
                       command_fields])
         else (t\<lparr>tk_in_flight_turn := None\<rparr>, []))"

definition stalled_event :: "snapshot_context \<Rightarrow> string \<Rightarrow> string list \<Rightarrow> incoming_event" where
  "stalled_event cx text parts =
     lifecycle_event cx ''session.stalled'' ''unexpected-idle'' 0 (Some text) (Some text) parts []"

definition idle_step :: "snapshot_context \<Rightarrow> string \<Rightarrow> sdk_turn \<Rightarrow> session_track \<Rightarrow> session_track \<times> incoming_event list" where
  "idle_step cx turn_id turn t =
     (let error = (if tn_state turn = TurnAborted
            then ''accepted turn was aborted without a successful terminal receipt''
            else unwrap_or (map_option public_failure_summary (tn_error_summary turn))
                   ''accepted turn became idle without a terminal receipt'')
      in if tk_in_flight_turn t = Some turn_id \<and> tk_unexpected_idle_emitted_turn t \<noteq> Some turn_id
         then (t\<lparr>tk_unexpected_idle_emitted_turn := Some turn_id, tk_in_flight_turn := None\<rparr>,
               [stalled_event cx error [''unexpected-idle'']])
         else (t\<lparr>tk_in_flight_turn := None\<rparr>, []))"

definition waiting_step :: "string \<Rightarrow> sdk_turn \<Rightarrow> session_track \<Rightarrow> session_track" where
  "waiting_step turn_id turn t =
     (if prompt_accepted turn t \<and> tk_in_flight_turn t = None then t\<lparr>tk_in_flight_turn := Some turn_id\<rparr> else t)"

definition phase_step :: "snapshot_context \<Rightarrow> string \<Rightarrow> sdk_turn \<Rightarrow> session_track \<Rightarrow> session_track \<times> incoming_event list" where
  "phase_step cx turn_id turn t =
     (case tn_state turn of
        TurnActive \<Rightarrow> active_step cx turn_id turn t
      | TurnComplete \<Rightarrow> terminal_step cx turn_id turn t
      | TurnFailed \<Rightarrow> terminal_step cx turn_id turn t
      | TurnIdle \<Rightarrow> idle_step cx turn_id turn t
      | TurnAborted \<Rightarrow> idle_step cx turn_id turn t
      | TurnWaitingInput \<Rightarrow> (waiting_step turn_id turn t, []))"

text \<open>Steps in sequence, their events one after the other.\<close>

definition and_then ::
    "session_track \<times> incoming_event list \<Rightarrow> (session_track \<Rightarrow> session_track \<times> incoming_event list) \<Rightarrow>
     session_track \<times> incoming_event list" where
  "and_then r f = (case r of (t, es) \<Rightarrow> case f t of (t', es') \<Rightarrow> (t', es @ es'))"

definition turn_step :: "snapshot_context \<Rightarrow> sdk_turn \<Rightarrow> session_track \<Rightarrow> session_track \<times> incoming_event list" where
  "turn_step cx turn t =
     (let turn_id = sanitize (tn_id turn)
      in and_then (retry_step cx turn (enter_turn turn_id t)) (phase_step cx turn_id turn))"

text \<open>A turn in flight that the session no longer reports.\<close>

definition vanished_step :: "snapshot_context \<Rightarrow> session_track \<Rightarrow> session_track \<times> incoming_event list" where
  "vanished_step cx t =
     (let snap = cx_snapshot cx
      in if ss_turn_present snap \<and> ss_turn snap = None then
           (case tk_in_flight_turn t of
              None \<Rightarrow> (t, [])
            | Some turn_id \<Rightarrow>
                if tk_unexpected_idle_emitted_turn t \<noteq> Some turn_id
                then (t\<lparr>tk_in_flight_turn := None, tk_unexpected_idle_emitted_turn := Some turn_id\<rparr>,
                      [stalled_event cx ''accepted turn disappeared without a terminal receipt'' [turn_id, ''unexpected-idle'']])
                else (t\<lparr>tk_in_flight_turn := None\<rparr>, []))
         else (t, []))"

definition prompt_step :: "snapshot_context \<Rightarrow> session_track \<Rightarrow> session_track \<times> incoming_event list" where
  "prompt_step cx t =
     (let snap = cx_snapshot cx
      in case ss_prompt snap of
           None \<Rightarrow> (t, [])
         | Some prompt \<Rightarrow>
             (let command_id = sanitize (pm_command_id prompt); current_turn_id = map_option tn_id (ss_turn snap)
              in if command_id \<noteq> [] \<and> pm_status prompt = PromptAccepted \<and>
                    (case ss_turn snap of None \<Rightarrow> False | Some turn \<Rightarrow> tn_state turn = TurnActive \<or> tn_state turn = TurnWaitingInput) \<and>
                    (tk_last_prompt_command t \<noteq> Some command_id \<or> tk_prompt_turn_id t = current_turn_id) \<and>
                    tk_prompt_command t \<noteq> Some command_id
                 then (t\<lparr>tk_prompt_command := Some command_id, tk_prompt_turn_id := current_turn_id,
                         tk_last_prompt_command := Some command_id\<rparr>,
                       [lifecycle_event cx ''session.prompt-submitted'' ''prompt-submitted'' 0 (ss_summary snap) None
                          [command_id] [(''command_id'', JStr command_id)]])
                 else (t, [])))"

definition gate_step :: "snapshot_context \<Rightarrow> session_track \<Rightarrow> session_track \<times> incoming_event list" where
  "gate_step cx t =
     (case ss_gate (cx_snapshot cx) of
        None \<Rightarrow> (t, [])
      | Some gate \<Rightarrow>
          (case gt_status gate of
             GateOpen \<Rightarrow>
               (if (case tk_gate_episode t of None \<Rightarrow> True | Some (i, r) \<Rightarrow> gt_id gate \<noteq> i \<or> r < gt_revision gate)
                then (t\<lparr>tk_gate_episode := Some (gt_id gate, gt_revision gate)\<rparr>,
                      [gate_event cx (case gt_kind gate of GateAsk \<Rightarrow> ''workflow.question'' | GateWorkflow \<Rightarrow> ''workflow.gate'') gate])
                else (t, []))
           | GateResolved \<Rightarrow>
               (if (case tk_gate_episode t of None \<Rightarrow> True | Some (i, r) \<Rightarrow> gt_id gate \<noteq> i \<or> r \<le> gt_revision gate)
                then (t\<lparr>tk_gate_episode := Some (gt_id gate, gt_revision gate)\<rparr>, [])
                else (t, []))))"

definition model_step :: "snapshot_context \<Rightarrow> session_track \<Rightarrow> session_track \<times> incoming_event list" where
  "model_step cx t =
     (case model_change_event cx (tk_model t) (tk_profile t) (cx_snapshot cx) of
        ((m, p), e) \<Rightarrow> (t\<lparr>tk_model := m, tk_profile := p\<rparr>, (case e of None \<Rightarrow> [] | Some event \<Rightarrow> [event])))"

definition endpoint_step :: "snapshot_context \<Rightarrow> session_track \<Rightarrow> session_track \<times> incoming_event list" where
  "endpoint_step cx t =
     (case ss_endpoint (cx_snapshot cx) of
        None \<Rightarrow> (t, [])
      | Some endpoint \<Rightarrow>
          (let t1 = t\<lparr>tk_endpoint_episode := max (tk_endpoint_episode t) (ss_endpoint_episode (cx_snapshot cx))\<rparr>;
               escalated = (tk_endpoint_health t1 = Some EndpointDegraded \<and> ep_health endpoint = EndpointFailed);
               done_track = (\<lambda>u. u\<lparr>tk_endpoint_health := Some (ep_health endpoint)\<rparr>)
           in if ep_health endpoint = EndpointOk then (done_track (t1\<lparr>tk_endpoint_alerted := False\<rparr>), [])
              else if \<not> tk_endpoint_alerted t1 \<or> escalated then
                (let t2 = (if \<not> tk_endpoint_alerted t1 \<and>
                              (tk_endpoint_health t1 = None \<or> tk_endpoint_health t1 = Some EndpointOk)
                           then t1\<lparr>tk_endpoint_episode := max (min u64_max (tk_endpoint_episode t1 + 1)) 1\<rparr> else t1)
                 in (done_track (t2\<lparr>tk_endpoint_alerted := True\<rparr>),
                     [endpoint_failed_event cx endpoint (tk_endpoint_episode t2)]))
              else (done_track t1, [])))"

text \<open>What happens to the track of the session once the snapshot is known to be newer.\<close>

definition reduce_track :: "snapshot_context \<Rightarrow> session_track \<Rightarrow> session_track \<times> incoming_event list" where
  "reduce_track cx t =
     (let snap = cx_snapshot cx;
          r1 = (case ss_turn snap of None \<Rightarrow> (t, []) | Some turn \<Rightarrow> turn_step cx turn t);
          r2 = and_then r1 (vanished_step cx);
          r3 = and_then r2 (prompt_step cx);
          r4 = and_then r3 (gate_step cx);
          r5 = and_then r4 (model_step cx);
          (t', es) = and_then r5 (endpoint_step cx)
      in (t'\<lparr>tk_last_revision := Some (ss_revision snap)\<rparr>, es))"

text \<open>An identifier that \<open>new\<close> refuses, or that is empty or too long once it is sanitised.\<close>

definition bad_id :: "(string \<Rightarrow> string \<times> string + string) \<Rightarrow> string \<Rightarrow> bool" where
  "bad_id new v = (\<not> is_ok (new v) \<or> sanitize v = [] \<or> max_id_chars < char_count (sanitize v))"

text \<open>The checks before the track is looked up.\<close>

definition check_snapshot :: "sdk_snapshot \<Rightarrow> string + string" where
  "check_snapshot snap =
     (case ss_mapping_error snap of
        Some e \<Rightarrow> Err e
      | None \<Rightarrow>
          if bad_id session_id_new (ss_session_id snap) then Err ''gjc_bridge_invalid_session_id''
          else if (case ss_gate snap of None \<Rightarrow> False | Some g \<Rightarrow> \<not> valid_gate_id (gt_id g))
          then Err ''gjc_bridge_invalid_gate_id''
          else if (case ss_gate snap of None \<Rightarrow> False | Some g \<Rightarrow> gt_revision g = 0)
          then Err ''gjc_bridge_invalid_gate_revision''
          else if (case ss_prompt snap of None \<Rightarrow> False | Some p \<Rightarrow> bad_id command_id_new (pm_command_id p))
          then Err ''gjc_bridge_invalid_prompt_id''
          else Ok (sanitize (ss_session_id snap)))"

definition bad_turn :: "sdk_snapshot \<Rightarrow> bool" where
  "bad_turn snap = (case ss_turn snap of None \<Rightarrow> False | Some turn \<Rightarrow> bad_id turn_id_new (tn_id turn))"

definition quiet_outcome :: "bool \<Rightarrow> bool \<Rightarrow> bridge_outcome" where
  "quiet_outcome duplicate stale = \<lparr>bo_events = [], bo_duplicate = duplicate, bo_stale = stale\<rparr>"

definition count_stats :: "(bridge_stats \<Rightarrow> bridge_stats) \<Rightarrow> event_bridge \<Rightarrow> event_bridge" where
  "count_stats f b = b\<lparr>br_stats := f (br_stats b)\<rparr>"

definition track_of :: "event_bridge \<Rightarrow> string \<Rightarrow> session_track" where
  "track_of b session_id = unwrap_or (br_sessions b session_id) track_default"

definition set_track :: "string \<Rightarrow> session_track \<Rightarrow> event_bridge \<Rightarrow> event_bridge" where
  "set_track session_id t b = b\<lparr>br_sessions := (br_sessions b)(session_id \<mapsto> t)\<rparr>"

definition observe :: "bridge_env \<Rightarrow> sdk_snapshot \<Rightarrow> event_bridge \<Rightarrow> event_bridge \<times> (string + bridge_outcome)" where
  "observe env snap b =
     (let b = count_stats (\<lambda>s. s\<lparr>bs_snapshots := bs_snapshots s + 1\<rparr>) b
      in case check_snapshot snap of
           Inl e \<Rightarrow> (b, Err e)
         | Inr session_id \<Rightarrow>
             (let t = track_of b session_id; b = set_track session_id t b;
                  previous = tk_last_revision t; revision = ss_revision snap
              in if (case previous of None \<Rightarrow> False | Some r \<Rightarrow> revision < r)
                 then (count_stats (\<lambda>s. s\<lparr>bs_stale := bs_stale s + 1\<rparr>) b, Ok (quiet_outcome False True))
                 else if previous = Some revision
                 then (count_stats (\<lambda>s. s\<lparr>bs_duplicates := bs_duplicates s + 1\<rparr>) b, Ok (quiet_outcome True False))
                 else if bad_turn snap then (b, Err ''gjc_bridge_invalid_turn_id'')
                 else
                   let (t', es) = reduce_track (context_new env session_id snap) t
                   in (count_stats (\<lambda>s. s\<lparr>bs_emitted := bs_emitted s + length es\<rparr>) (set_track session_id t' b),
                       Ok \<lparr>bo_events = es, bo_duplicate = False, bo_stale = False\<rparr>)))"

section \<open>Snapshots of session queries\<close>

datatype command_status = Queued | Running | Succeeded | CommandFailed | Aborted

datatype workflow_gate_state = GateReady | GateAnswered | GateCancelled

record workflow_gate =
  wg_gate_id :: string
  wg_kind :: "string option"
  wg_workflow_id :: "string option"
  wg_state :: workflow_gate_state
  wg_title :: "string option"
  wg_options :: "string list"
  wg_raised_at :: "string option"

text \<open>The parts of a query reply the bridge reads.\<close>

record session_turn =
  st_turn_id :: string
  st_status :: command_status
  st_prompt_accepted :: bool
  st_outcome_summary :: "string option"

record session_query =
  sq_turn :: "session_turn option"
  sq_turn_present :: bool
  sq_workflow_gates :: "workflow_gate list option"
  sq_workflow_gates_present :: bool
  sq_model_profile :: "(string \<times> string option) option"
  sq_title :: "string option"
  sq_last_active_at :: "string option"

record snapshot_identity =
  si_repo_name :: "string option"
  si_repo_path :: "string option"
  si_worktree_path :: "string option"
  si_branch :: "string option"

definition gate_revision :: "bridge_env \<Rightarrow> workflow_gate \<Rightarrow> nat" where
  "gate_revision env gate =
     (case Option.bind (wg_raised_at gate) (be_time_nanos env) of
        None \<Rightarrow> 0
      | Some n \<Rightarrow> if 0 < n \<and> n \<le> int u64_max then nat n else 0)"

definition rejected_snapshot :: "string \<Rightarrow> nat \<Rightarrow> snapshot_identity \<Rightarrow> string \<Rightarrow> sdk_snapshot" where
  "rejected_snapshot session_id revision ident error =
     snapshot_default\<lparr>ss_session_id := session_id, ss_revision := revision, ss_gate_present := True,
       ss_repo_name := si_repo_name ident, ss_repo_path := si_repo_path ident,
       ss_worktree_path := si_worktree_path ident, ss_branch := si_branch ident, ss_mapping_error := Some error\<rparr>"

definition phase_of_status :: "command_status \<Rightarrow> turn_phase" where
  "phase_of_status s =
     (case s of Queued \<Rightarrow> TurnActive | Running \<Rightarrow> TurnActive | Succeeded \<Rightarrow> TurnComplete
      | CommandFailed \<Rightarrow> TurnFailed | Aborted \<Rightarrow> TurnIdle)"

text \<open>\<open>max_by_key\<close> keeps the last of the greatest.\<close>

fun max_gate :: "bridge_env \<Rightarrow> workflow_gate list \<Rightarrow> workflow_gate option" where
  "max_gate env [] = None"
| "max_gate env (g # gs) =
     (case max_gate env gs of
        None \<Rightarrow> Some g
      | Some h \<Rightarrow> Some (if gate_revision env h < gate_revision env g then g else h))"

definition sdk_gate_of :: "bridge_env \<Rightarrow> gate_status \<Rightarrow> workflow_gate \<Rightarrow> sdk_gate" where
  "sdk_gate_of env status gate =
     \<lparr>gt_id = wg_gate_id gate, gt_kind = (if wg_kind gate = Some ''ask'' then GateAsk else GateWorkflow),
      gt_revision = gate_revision env gate, gt_status = status, gt_summary = wg_title gate,
      gt_workflow_id = wg_workflow_id gate, gt_title = wg_title gate, gt_options = wg_options gate\<rparr>"

definition current_gate :: "bridge_env \<Rightarrow> workflow_gate list \<Rightarrow> sdk_gate option" where
  "current_gate env gates =
     opt_or (map_option (sdk_gate_of env GateOpen) (List.find (\<lambda>g. wg_state g = GateReady) gates))
            (map_option (sdk_gate_of env GateResolved) (max_gate env gates))"

definition snapshot_from_session_query ::
    "bridge_env \<Rightarrow> string \<Rightarrow> nat \<Rightarrow> session_query \<Rightarrow> snapshot_identity \<Rightarrow> sdk_snapshot" where
  "snapshot_from_session_query env session_id revision query ident =
     (let gates = unwrap_or (sq_workflow_gates query) []
      in if 1 < length (filter (\<lambda>g. wg_state g = GateReady) gates)
         then rejected_snapshot session_id revision ident ''gjc_bridge_ambiguous_workflow_gates''
         else if list_ex (\<lambda>g. \<not> valid_gate_id (wg_gate_id g) \<or> gate_revision env g = 0) gates
         then rejected_snapshot session_id revision ident ''gjc_bridge_invalid_gate_identity''
         else
           \<lparr>ss_session_id = session_id, ss_revision = revision, ss_endpoint_episode = 0,
            ss_turn = map_option (\<lambda>t. \<lparr>tn_id = st_turn_id t, tn_state = phase_of_status (st_status t),
               tn_prompt_accepted = st_prompt_accepted t, tn_attempt = 0,
               tn_error_summary = (if st_status t = CommandFailed \<or> st_status t = Aborted then st_outcome_summary t
                                   else None)\<rparr>) (sq_turn query),
            ss_turn_present = sq_turn_present query, ss_prompt = None, ss_gate = current_gate env gates,
            ss_gate_present = sq_workflow_gates_present query,
            ss_model = map_option fst (sq_model_profile query),
            ss_profile = Option.bind (sq_model_profile query) snd, ss_endpoint = None,
            ss_repo_name = si_repo_name ident, ss_repo_path = si_repo_path ident,
            ss_worktree_path = si_worktree_path ident, ss_branch = si_branch ident,
            ss_observed_at = sq_last_active_at query, ss_summary = sq_title query, ss_mapping_error = None\<rparr>)"

text \<open>
  \<open>snapshot_from_response_payload\<close>: \<open>parse\<close> is the derived deserialiser, the presence flags come from
  the payload itself.
\<close>

definition snapshot_from_response_payload :: "(json \<Rightarrow> string + sdk_snapshot) \<Rightarrow> json \<Rightarrow> string + sdk_snapshot" where
  "snapshot_from_response_payload parse payload =
     (if \<not> is_object payload then Err ''gjc_bridge_snapshot_payload_not_object''
      else case parse payload of
        Inl e \<Rightarrow> Err (''gjc_bridge_snapshot_malformed: '' @ sanitize e)
      | Inr snap \<Rightarrow>
          if blank (ss_session_id snap) then Err ''gjc_bridge_snapshot_missing_session_id''
          else if \<not> is_ok (session_id_new (ss_session_id snap)) then Err ''gjc_bridge_invalid_session_id''
          else if (case ss_turn snap of None \<Rightarrow> False | Some t \<Rightarrow> tn_prompt_accepted t) \<and>
                  (case ss_prompt snap of None \<Rightarrow> False | Some p \<Rightarrow> pm_status p \<noteq> PromptAccepted)
          then Err ''gjc_bridge_contradictory_prompt_acceptance''
          else Ok (snap\<lparr>ss_turn_present := json_get payload ''turn'' \<noteq> None,
                        ss_gate_present := json_get payload ''gate'' \<noteq> None\<rparr>))"

end
