(* ===== verification/GjcEventsCorrect.thy ===== *)
theory GjcEventsCorrect imports GjcEvents begin

text \<open>
  What the event bridge promises: snapshots that are not newer are ignored, a session starts once, a turn
  ends once, a gate is announced once per revision, events of the same episode carry the same
  identifier whatever bridge emits them, and summaries are public.
\<close>

section \<open>Kinds of events\<close>

lemma ev_kind_simps [simp]:
  "ev_kind (finish_event kind object) = kind"
  "ev_kind (lifecycle_event cx kind status attempt summary error parts extra) = kind"
  "ev_kind (gate_event cx kind gate) = kind"
  "ev_kind (endpoint_failed_event cx endpoint episode) = ''session.endpoint-failed''"
  "ev_kind (stalled_event cx text parts) = ''session.stalled''"
  by (simp_all add: finish_event_def lifecycle_event_def gate_event_def endpoint_failed_event_def stalled_event_def Let_def)

lemma and_then_simps [simp]:
  "fst (and_then r f) = fst (f (fst r))" "snd (and_then r f) = snd r @ snd (f (fst r))"
  by (simp_all add: and_then_def case_prod_unfold)

definition of_kinds :: "string set \<Rightarrow> incoming_event list \<Rightarrow> bool" where
  "of_kinds K es = (\<forall>e \<in> set es. ev_kind e \<in> K)"

definition count_kinds :: "string set \<Rightarrow> incoming_event list \<Rightarrow> nat" where
  "count_kinds K es = length (filter (\<lambda>e. ev_kind e \<in> K) es)"

lemma count_kinds_simps [simp]:
  "count_kinds K [] = 0"
  "count_kinds K (e # es) = (if ev_kind e \<in> K then Suc (count_kinds K es) else count_kinds K es)"
  "count_kinds K (es @ es') = count_kinds K es + count_kinds K es'"
  by (simp_all add: count_kinds_def)

lemma of_kinds_Nil [simp]: "of_kinds K []"
  by (simp add: of_kinds_def)

lemma of_kinds_append [simp]: "of_kinds K (xs @ ys) \<longleftrightarrow> of_kinds K xs \<and> of_kinds K ys"
  by (auto simp: of_kinds_def)

lemma of_kinds_mono: "of_kinds K es \<Longrightarrow> K \<subseteq> L \<Longrightarrow> of_kinds L es"
  by (auto simp: of_kinds_def)

lemma count_other: "of_kinds K es \<Longrightarrow> K \<inter> L = {} \<Longrightarrow> count_kinds L es = 0"
  by (auto simp: of_kinds_def count_kinds_def filter_empty_conv)

definition "terminal_kinds = {''session.finished'', ''session.failed''}"
definition "gate_kinds = {''workflow.question'', ''workflow.gate''}"

lemma step_kinds:
  "of_kinds {''session.retry-needed''} (snd (retry_step cx turn t))"
  "of_kinds {''session.started''} (snd (active_step cx i turn t))"
  "of_kinds terminal_kinds (snd (terminal_step cx i turn t))"
  "of_kinds {''session.stalled''} (snd (idle_step cx i turn t))"
  "of_kinds {''session.stalled''} (snd (vanished_step cx t))"
  "of_kinds {''session.prompt-submitted''} (snd (prompt_step cx t))"
  "of_kinds gate_kinds (snd (gate_step cx t))"
  "of_kinds {''session.model-changed''} (snd (model_step cx t))"
  "of_kinds {''session.endpoint-failed''} (snd (endpoint_step cx t))"
  by (simp_all add: of_kinds_def retry_step_def active_step_def terminal_step_def idle_step_def vanished_step_def
      prompt_step_def gate_step_def model_step_def model_change_event_def endpoint_step_def terminal_kinds_def
      gate_kinds_def Let_def case_prod_unfold split: option.split gate_status.split gate_kind.split)

lemma phase_kinds:
  "of_kinds (insert ''session.started'' (insert ''session.stalled'' terminal_kinds)) (snd (phase_step cx i turn t))"
  using step_kinds(2,3,4)[of cx i turn t]
  by (cases "tn_state turn") (auto simp: phase_step_def elim: of_kinds_mono)

section \<open>One observation\<close>

text \<open>The track and the events after the steps of the turn, then those of the others.\<close>

definition turn_part :: "snapshot_context \<Rightarrow> session_track \<Rightarrow> session_track \<times> incoming_event list" where
  "turn_part cx t = (case ss_turn (cx_snapshot cx) of None \<Rightarrow> (t, []) | Some turn \<Rightarrow> turn_step cx turn t)"

definition rest_part :: "snapshot_context \<Rightarrow> session_track \<Rightarrow> session_track \<times> incoming_event list" where
  "rest_part cx t = and_then (and_then (and_then (and_then (vanished_step cx t) (prompt_step cx)) (gate_step cx))
     (model_step cx)) (endpoint_step cx)"

lemma reduce_track_parts:
  "reduce_track cx t = (fst (and_then (turn_part cx t) (rest_part cx))\<lparr>tk_last_revision := Some (ss_revision (cx_snapshot cx))\<rparr>,
     snd (and_then (turn_part cx t) (rest_part cx)))"
  by (simp add: reduce_track_def turn_part_def rest_part_def Let_def and_then_def case_prod_unfold)

text \<open>The fields each step leaves alone.\<close>

lemma step_frames [simp]:
  "tk_terminal_emitted_turn (fst (vanished_step cx t)) = tk_terminal_emitted_turn t"
  "tk_turn_id (fst (vanished_step cx t)) = tk_turn_id t"
  "tk_session_started_emitted (fst (vanished_step cx t)) = tk_session_started_emitted t"
  "tk_gate_episode (fst (vanished_step cx t)) = tk_gate_episode t"
  "tk_terminal_emitted_turn (fst (prompt_step cx t)) = tk_terminal_emitted_turn t"
  "tk_turn_id (fst (prompt_step cx t)) = tk_turn_id t"
  "tk_session_started_emitted (fst (prompt_step cx t)) = tk_session_started_emitted t"
  "tk_gate_episode (fst (prompt_step cx t)) = tk_gate_episode t"
  "tk_terminal_emitted_turn (fst (gate_step cx t)) = tk_terminal_emitted_turn t"
  "tk_turn_id (fst (gate_step cx t)) = tk_turn_id t"
  "tk_session_started_emitted (fst (gate_step cx t)) = tk_session_started_emitted t"
  "tk_terminal_emitted_turn (fst (model_step cx t)) = tk_terminal_emitted_turn t"
  "tk_turn_id (fst (model_step cx t)) = tk_turn_id t"
  "tk_session_started_emitted (fst (model_step cx t)) = tk_session_started_emitted t"
  "tk_gate_episode (fst (model_step cx t)) = tk_gate_episode t"
  "tk_terminal_emitted_turn (fst (endpoint_step cx t)) = tk_terminal_emitted_turn t"
  "tk_turn_id (fst (endpoint_step cx t)) = tk_turn_id t"
  "tk_session_started_emitted (fst (endpoint_step cx t)) = tk_session_started_emitted t"
  "tk_gate_episode (fst (endpoint_step cx t)) = tk_gate_episode t"
  by (simp_all add: vanished_step_def prompt_step_def gate_step_def model_step_def endpoint_step_def Let_def
      case_prod_unfold split: option.split gate_status.split)

lemma turn_part_gate [simp]: "tk_gate_episode (fst (turn_part cx t)) = tk_gate_episode t"
  by (simp add: turn_part_def turn_step_def retry_step_def enter_turn_def phase_step_def active_step_def
      terminal_step_def idle_step_def waiting_step_def Let_def split: option.split turn_phase.split)

lemma rest_part_frames [simp]:
  "tk_terminal_emitted_turn (fst (rest_part cx t)) = tk_terminal_emitted_turn t"
  "tk_turn_id (fst (rest_part cx t)) = tk_turn_id t"
  "tk_session_started_emitted (fst (rest_part cx t)) = tk_session_started_emitted t"
  "tk_gate_episode (fst (rest_part cx t)) = tk_gate_episode (fst (gate_step cx t))"
  by (simp_all add: rest_part_def) (simp add: gate_step_def split: option.split gate_status.split)

lemma rest_part_kinds:
  "of_kinds ({''session.stalled'', ''session.prompt-submitted'', ''session.model-changed'', ''session.endpoint-failed''}
     \<union> gate_kinds) (snd (rest_part cx t))"
  by (auto simp: rest_part_def intro: of_kinds_mono[OF step_kinds(5)] of_kinds_mono[OF step_kinds(6)]
      of_kinds_mono[OF step_kinds(7)] of_kinds_mono[OF step_kinds(8)] of_kinds_mono[OF step_kinds(9)])

lemma turn_part_kinds:
  "of_kinds ({''session.retry-needed'', ''session.started'', ''session.stalled''} \<union> terminal_kinds) (snd (turn_part cx t))"
  by (auto simp: turn_part_def turn_step_def Let_def split: option.split
      intro: of_kinds_mono[OF step_kinds(1)] of_kinds_mono[OF phase_kinds])

section \<open>Histories\<close>

definition outcome_events :: "string + bridge_outcome \<Rightarrow> incoming_event list" where
  "outcome_events r = (case r of Inl _ \<Rightarrow> [] | Inr out \<Rightarrow> bo_events out)"

text \<open>Each snapshot fed to the bridge with the events it produced.\<close>

fun bridge_history :: "bridge_env \<Rightarrow> sdk_snapshot list \<Rightarrow> event_bridge \<Rightarrow> (sdk_snapshot \<times> incoming_event list) list" where
  "bridge_history env [] b = []"
| "bridge_history env (snap # snaps) b =
     (case observe env snap b of (b', r) \<Rightarrow> (snap, outcome_events r) # bridge_history env snaps b')"

abbreviation session_of :: "sdk_snapshot \<Rightarrow> string" where
  "session_of snap \<equiv> sanitize (ss_session_id snap)"

lemma track_of_simps [simp]:
  "track_of (count_stats f b) sid = track_of b sid"
  "track_of (set_track sid' t b) sid = (if sid = sid' then t else track_of b sid)"
  by (simp_all add: track_of_def count_stats_def set_track_def)

lemma observe_cases:
  obtains (quiet) "outcome_events (snd (observe env snap b)) = []" "\<And>sid. track_of (fst (observe env snap b)) sid = track_of b sid"
  | (reduced) "outcome_events (snd (observe env snap b)) =
        snd (reduce_track (context_new env (session_of snap) snap) (track_of b (session_of snap)))"
      "\<And>sid. track_of (fst (observe env snap b)) sid =
        (if sid = session_of snap then fst (reduce_track (context_new env (session_of snap) snap) (track_of b (session_of snap)))
         else track_of b sid)"
      "check_snapshot snap = Inr (session_of snap)"
      "\<not> bad_turn snap"
      "\<And>r. tk_last_revision (track_of b (session_of snap)) = Some r \<Longrightarrow> r < ss_revision snap"
proof (cases "check_snapshot snap")
  case (Inl e)
  then show ?thesis by (intro quiet) (simp_all add: observe_def outcome_events_def Let_def)
next
  case (Inr sid)
  then have sid: "sid = session_of snap" by (auto simp: check_snapshot_def split: option.splits if_splits)
  let ?t = "track_of b sid"
  let ?old = "(case tk_last_revision ?t of None \<Rightarrow> False | Some r \<Rightarrow> ss_revision snap < r) \<or>
     tk_last_revision ?t = Some (ss_revision snap) \<or> bad_turn snap"
  show ?thesis
  proof (cases ?old)
    case True
    with Inr show ?thesis
      by (intro quiet) (auto simp: observe_def outcome_events_def quiet_outcome_def Let_def split: if_splits)
  next
    case False
    with Inr sid show ?thesis
      by (intro reduced) (auto simp: observe_def outcome_events_def Let_def case_prod_unfold)
  qed
qed

lemma context_new_simps [simp]: "cx_snapshot (context_new env sid snap) = snap" "cx_session_id (context_new env sid snap) = sid"
  by (simp_all add: context_new_def)

section \<open>Starts\<close>

definition starts :: "string \<Rightarrow> (sdk_snapshot \<times> incoming_event list) list \<Rightarrow> nat" where
  "starts sid h = sum_list (map (\<lambda>(s, es). if session_of s = sid then count_kinds {''session.started''} es else 0) h)"

lemma step_started [simp]:
  "tk_session_started_emitted (fst (retry_step cx turn t)) = tk_session_started_emitted t"
  "tk_session_started_emitted (enter_turn i t) = tk_session_started_emitted t"
  "tk_session_started_emitted (fst (terminal_step cx i turn t)) = tk_session_started_emitted t"
  "tk_session_started_emitted (fst (idle_step cx i turn t)) = tk_session_started_emitted t"
  "tk_session_started_emitted (waiting_step i turn t) = tk_session_started_emitted t"
  "count_kinds {''session.started''} (snd (retry_step cx turn t)) = 0"
  "count_kinds {''session.started''} (snd (terminal_step cx i turn t)) = 0"
  "count_kinds {''session.started''} (snd (idle_step cx i turn t)) = 0"
  by (simp_all add: count_other[OF step_kinds(1)] count_other[OF step_kinds(3)] count_other[OF step_kinds(4)]
      terminal_kinds_def) (simp_all add: retry_step_def enter_turn_def terminal_step_def idle_step_def waiting_step_def Let_def)

lemma active_step_started:
  "count_kinds {''session.started''} (snd (active_step cx i turn t)) + (if tk_session_started_emitted t then 1 else 0)
     = (if tk_session_started_emitted (fst (active_step cx i turn t)) then 1 else 0)"
  by (simp add: active_step_def Let_def)

text \<open>What the turn announces is what the flag gains.\<close>

lemma turn_part_started:
  "count_kinds {''session.started''} (snd (turn_part cx t)) + (if tk_session_started_emitted t then 1 else 0)
     = (if tk_session_started_emitted (fst (turn_part cx t)) then 1 else 0)"
proof (cases "ss_turn (cx_snapshot cx)")
  case (Some turn)
  let ?u = "fst (retry_step cx turn (enter_turn (sanitize (tn_id turn)) t))"
  show ?thesis
    using active_step_started[of cx "sanitize (tn_id turn)" turn ?u]
    by (cases "tn_state turn") (simp_all add: Some turn_part_def turn_step_def phase_step_def Let_def)
qed (simp add: turn_part_def)

lemma rest_part_started: "count_kinds {''session.started''} (snd (rest_part cx t)) = 0"
  by (rule count_other[OF rest_part_kinds]) (simp add: gate_kinds_def)

lemma reduce_track_started:
  "count_kinds {''session.started''} (snd (reduce_track cx t)) + (if tk_session_started_emitted t then 1 else 0)
     = (if tk_session_started_emitted (fst (reduce_track cx t)) then 1 else 0)"
  using turn_part_started[of cx t] rest_part_started[of cx "fst (turn_part cx t)"]
  by (simp add: reduce_track_parts)

lemma starts_simps [simp]:
  "starts sid [] = 0"
  "starts sid ((s, es) # h) = (if session_of s = sid then count_kinds {''session.started''} es else 0) + starts sid h"
  by (simp_all add: starts_def)

lemma history_Cons:
  "bridge_history env (snap # snaps) b =
     (snap, outcome_events (snd (observe env snap b))) # bridge_history env snaps (fst (observe env snap b))"
  by (simp add: case_prod_unfold)

lemma starts_bound:
  "starts sid (bridge_history env snaps b) + (if tk_session_started_emitted (track_of b sid) then 1 else 0) \<le> 1"
proof (induction snaps arbitrary: b)
  case (Cons snap snaps)
  note IH = Cons[of "fst (observe env snap b)"]
  show ?case
  proof (cases rule: observe_cases[of env snap b])
    case quiet
    from IH show ?thesis unfolding history_Cons starts_simps quiet(1) quiet(2) by (simp split: if_splits)
  next
    case reduced
    note r = reduce_track_started[where cx="context_new env (session_of snap) snap" and t="track_of b (session_of snap)"]
    show ?thesis
    proof (cases "session_of snap = sid")
      case True
      from IH r show ?thesis
        unfolding history_Cons starts_simps reduced(1) reduced(2) by (simp only: True simp_thms if_True)
    next
      case False
      with IH show ?thesis unfolding history_Cons starts_simps reduced(2) by simp
    qed
  qed
qed simp

section \<open>Ends of turns\<close>

definition endings :: "string \<Rightarrow> (sdk_snapshot \<times> incoming_event list) list \<Rightarrow> nat" where
  "endings sid h = sum_list (map (\<lambda>(s, es). if session_of s = sid then count_kinds terminal_kinds es else 0) h)"

text \<open>The turn a snapshot reports, if any, is \<open>turn\<close>.\<close>

definition only_turn :: "string \<Rightarrow> sdk_snapshot \<Rightarrow> bool" where
  "only_turn turn snap = (case ss_turn snap of None \<Rightarrow> True | Some t \<Rightarrow> sanitize (tn_id t) = turn)"

definition ended :: "string \<Rightarrow> session_track \<Rightarrow> bool" where
  "ended turn t = (tk_turn_id t = Some turn \<and> tk_terminal_emitted_turn t = Some turn)"

lemma other_terminal [simp]:
  "count_kinds terminal_kinds (snd (retry_step cx turn t)) = 0"
  "count_kinds terminal_kinds (snd (active_step cx i turn t)) = 0"
  "count_kinds terminal_kinds (snd (idle_step cx i turn t)) = 0"
  by (rule count_other[OF step_kinds(1)] count_other[OF step_kinds(2)] count_other[OF step_kinds(4)];
      simp add: terminal_kinds_def)+

lemma step_ended [simp]:
  "ended i (fst (retry_step cx turn t)) = ended i t"
  "ended i (fst (active_step cx j turn t)) = ended i t"
  "ended i (fst (idle_step cx j turn t)) = ended i t"
  "ended i (waiting_step j turn t) = ended i t"
  "ended i (enter_turn i t) = ended i t"
  by (simp_all add: ended_def retry_step_def active_step_def idle_step_def waiting_step_def enter_turn_def Let_def)

lemma step_turn_id [simp]:
  "tk_turn_id (fst (retry_step cx turn t)) = tk_turn_id t"
  "tk_turn_id (enter_turn i t) = Some i"
  by (simp_all add: retry_step_def enter_turn_def)

lemma terminal_step_ended:
  "tk_turn_id t = Some i \<Longrightarrow>
     count_kinds terminal_kinds (snd (terminal_step cx i turn t)) + (if ended i t then 1 else 0)
     = (if ended i (fst (terminal_step cx i turn t)) then 1 else 0)"
  by (simp add: ended_def terminal_step_def terminal_kinds_def Let_def)

lemma turn_part_terminal:
  assumes "only_turn i (cx_snapshot cx)"
  shows "count_kinds terminal_kinds (snd (turn_part cx t)) + (if ended i t then 1 else 0)
    = (if ended i (fst (turn_part cx t)) then 1 else 0)"
proof (cases "ss_turn (cx_snapshot cx)")
  case (Some turn)
  with assms have i: "sanitize (tn_id turn) = i" by (simp add: only_turn_def)
  let ?u = "fst (retry_step cx turn (enter_turn i t))"
  have "count_kinds terminal_kinds (snd (terminal_step cx i turn ?u)) + (if ended i t then 1 else 0)
    = (if ended i (fst (terminal_step cx i turn ?u)) then 1 else 0)"
    using terminal_step_ended[of ?u i cx turn] by simp
  then show ?thesis
    by (cases "tn_state turn") (simp_all add: Some i turn_part_def turn_step_def phase_step_def Let_def)
qed (simp add: turn_part_def)

lemma rest_part_terminal: "count_kinds terminal_kinds (snd (rest_part cx t)) = 0"
  by (rule count_other[OF rest_part_kinds]) (simp add: gate_kinds_def terminal_kinds_def)

lemma reduce_track_terminal:
  assumes "only_turn i (cx_snapshot cx)"
  shows "count_kinds terminal_kinds (snd (reduce_track cx t)) + (if ended i t then 1 else 0)
    = (if ended i (fst (reduce_track cx t)) then 1 else 0)"
  using turn_part_terminal[OF assms, of t] rest_part_terminal[of cx "fst (turn_part cx t)"]
  by (simp add: reduce_track_parts ended_def)

lemma endings_simps [simp]:
  "endings sid [] = 0"
  "endings sid ((s, es) # h) = (if session_of s = sid then count_kinds terminal_kinds es else 0) + endings sid h"
  by (simp_all add: endings_def)

lemma endings_bound:
  assumes "\<And>snap. snap \<in> set snaps \<Longrightarrow> session_of snap = sid \<Longrightarrow> only_turn i snap"
  shows "endings sid (bridge_history env snaps b) + (if ended i (track_of b sid) then 1 else 0) \<le> 1"
  using assms
proof (induction snaps arbitrary: b)
  case (Cons snap snaps)
  have IH: "endings sid (bridge_history env snaps (fst (observe env snap b))) +
      (if ended i (track_of (fst (observe env snap b)) sid) then 1 else 0) \<le> 1"
    using Cons by simp
  show ?case
  proof (cases rule: observe_cases[of env snap b])
    case quiet
    from IH show ?thesis unfolding history_Cons endings_simps quiet(1) quiet(2) by (simp split: if_splits)
  next
    case reduced
    show ?thesis
    proof (cases "session_of snap = sid")
      case True
      then have "only_turn i (cx_snapshot (context_new env (session_of snap) snap))" using Cons(2) by simp
      from IH reduce_track_terminal[OF this, where t="track_of b (session_of snap)"] show ?thesis
        unfolding history_Cons endings_simps reduced(1) reduced(2) by (simp only: True simp_thms if_True)
    next
      case False
      with IH show ?thesis unfolding history_Cons endings_simps reduced(2) by simp
    qed
  qed
qed simp

section \<open>Gates\<close>

text \<open>The revisions of the gate the session reported when an event announced it.\<close>

definition announced :: "string \<Rightarrow> (sdk_snapshot \<times> incoming_event list) list \<Rightarrow> nat list" where
  "announced sid h = concat (map (\<lambda>(s, es). if session_of s = sid \<and> 0 < count_kinds gate_kinds es
      then (case ss_gate s of None \<Rightarrow> [] | Some g \<Rightarrow> [gt_revision g]) else []) h)"

definition only_gate :: "string \<Rightarrow> sdk_snapshot \<Rightarrow> bool" where
  "only_gate gate snap = (case ss_gate snap of None \<Rightarrow> True | Some g \<Rightarrow> gt_id g = gate)"

definition past_episode :: "string \<Rightarrow> session_track \<Rightarrow> nat \<Rightarrow> bool" where
  "past_episode gate t r = (case tk_gate_episode t of None \<Rightarrow> True | Some (i, r') \<Rightarrow> i = gate \<longrightarrow> r' < r)"

lemma turn_part_no_gate: "count_kinds gate_kinds (snd (turn_part cx t)) = 0"
  by (rule count_other[OF turn_part_kinds]) (simp add: gate_kinds_def terminal_kinds_def)

lemma rest_part_gates:
  "count_kinds gate_kinds (snd (rest_part cx t)) = count_kinds gate_kinds (snd (gate_step cx (fst (and_then (vanished_step cx t) (prompt_step cx)))))"
  by (simp add: rest_part_def count_other[OF step_kinds(5)] count_other[OF step_kinds(6)] count_other[OF step_kinds(8)]
      count_other[OF step_kinds(9)] gate_kinds_def)

lemma gate_step_episode:
  assumes "only_gate gate (cx_snapshot cx)"
  shows "past_episode gate (fst (gate_step cx t)) r \<Longrightarrow> past_episode gate t r"
    and "0 < count_kinds gate_kinds (snd (gate_step cx t)) \<Longrightarrow>
      \<exists>g. ss_gate (cx_snapshot cx) = Some g \<and> past_episode gate t (gt_revision g) \<and>
        (\<forall>r. past_episode gate (fst (gate_step cx t)) r \<longrightarrow> gt_revision g < r)"
  using assms by (auto simp: gate_step_def only_gate_def past_episode_def gate_kinds_def
      split: option.splits gate_status.splits if_splits prod.splits)

lemma same_episode: "tk_gate_episode t = tk_gate_episode u \<Longrightarrow> past_episode gate t = past_episode gate u"
  by (simp add: past_episode_def fun_eq_iff)


lemma reduce_track_gate:
  assumes "only_gate gate (cx_snapshot cx)"
  shows "past_episode gate (fst (reduce_track cx t)) r \<Longrightarrow> past_episode gate t r"
    and "0 < count_kinds gate_kinds (snd (reduce_track cx t)) \<Longrightarrow>
      \<exists>g. ss_gate (cx_snapshot cx) = Some g \<and> past_episode gate t (gt_revision g) \<and>
        (\<forall>r. past_episode gate (fst (reduce_track cx t)) r \<longrightarrow> gt_revision g < r)"
proof -
  let ?u = "fst (and_then (vanished_step cx (fst (turn_part cx t))) (prompt_step cx))"
  have before: "past_episode gate ?u = past_episode gate t"
    by (rule same_episode) simp
  have after: "past_episode gate (fst (reduce_track cx t)) = past_episode gate (fst (gate_step cx ?u))"
    by (rule same_episode) (simp add: reduce_track_parts rest_part_def)
  have count: "count_kinds gate_kinds (snd (reduce_track cx t)) = count_kinds gate_kinds (snd (gate_step cx ?u))"
    by (simp add: reduce_track_parts turn_part_no_gate rest_part_gates)
  show "past_episode gate (fst (reduce_track cx t)) r \<Longrightarrow> past_episode gate t r"
    using gate_step_episode(1)[OF assms, of ?u r] unfolding before after .
  show "0 < count_kinds gate_kinds (snd (reduce_track cx t)) \<Longrightarrow>
      \<exists>g. ss_gate (cx_snapshot cx) = Some g \<and> past_episode gate t (gt_revision g) \<and>
        (\<forall>r. past_episode gate (fst (reduce_track cx t)) r \<longrightarrow> gt_revision g < r)"
    using gate_step_episode(2)[OF assms, of ?u] unfolding before after count .
qed

lemma announced_simps [simp]:
  "announced sid [] = []"
  "announced sid ((s, es) # h) = (if session_of s = sid \<and> 0 < count_kinds gate_kinds es
     then (case ss_gate s of None \<Rightarrow> [] | Some g \<Rightarrow> [gt_revision g]) else []) @ announced sid h"
  by (simp_all add: announced_def)

lemma announced_increase:
  assumes "\<And>snap. snap \<in> set snaps \<Longrightarrow> session_of snap = sid \<Longrightarrow> only_gate gate snap"
  shows "sorted_wrt (<) (announced sid (bridge_history env snaps b)) \<and>
    list_all (past_episode gate (track_of b sid)) (announced sid (bridge_history env snaps b))"
  using assms
proof (induction snaps arbitrary: b)
  case (Cons snap snaps)
  let ?later = "announced sid (bridge_history env snaps (fst (observe env snap b)))"
  have IH: "sorted_wrt (<) ?later" "list_all (past_episode gate (track_of (fst (observe env snap b)) sid)) ?later"
    using Cons by simp_all
  show ?case
  proof (cases rule: observe_cases[of env snap b])
    case quiet
    with IH show ?thesis unfolding history_Cons announced_simps by simp
  next
    case reduced
    show ?thesis
    proof (cases "session_of snap = sid")
      case True
      let ?cx = "context_new env sid snap" and ?t = "track_of b sid"
      have only: "only_gate gate (cx_snapshot ?cx)" using Cons(2) True by simp
      have track: "track_of (fst (observe env snap b)) sid = fst (reduce_track ?cx ?t)"
        and es: "outcome_events (snd (observe env snap b)) = snd (reduce_track ?cx ?t)"
        using reduced(1,2) True by simp_all
      note step = reduce_track_gate[OF only, where t="?t"]
      have later: "list_all (past_episode gate ?t) ?later"
        using IH(2) step(1) unfolding track by (auto simp: list_all_iff)
      show ?thesis
      proof (cases "0 < count_kinds gate_kinds (snd (reduce_track ?cx ?t))")
        case True
        from step(2)[OF this] obtain g where g: "ss_gate snap = Some g" "past_episode gate ?t (gt_revision g)"
          "\<And>r. past_episode gate (fst (reduce_track ?cx ?t)) r \<Longrightarrow> gt_revision g < r" by auto
        have "list_all (\<lambda>r. gt_revision g < r) ?later"
          using IH(2) g(3) unfolding track by (auto simp: list_all_iff)
        moreover have "announced sid (bridge_history env (snap # snaps) b) = gt_revision g # ?later"
          unfolding history_Cons announced_simps es using True g(1) \<open>session_of snap = sid\<close> by simp
        ultimately show ?thesis using IH(1) later g(2) by (simp add: list_all_iff)
      next
        case False
        with IH(1) later show ?thesis unfolding history_Cons announced_simps es by simp
      qed
    next
      case False
      with IH reduced(2)[of sid] show ?thesis unfolding history_Cons announced_simps by simp
    qed
  qed
qed simp

section \<open>Identifiers of events\<close>

text \<open>The distinguishing parts of the events whose identifier depends on the snapshot alone.\<close>

definition steady_parts :: "sdk_snapshot \<Rightarrow> string \<Rightarrow> string list option" where
  "steady_parts snap kind =
     (if kind = ''session.retry-needed''
      then (case ss_turn snap of None \<Rightarrow> None | Some t \<Rightarrow> Some (if 0 < tn_attempt t then [show_nat (tn_attempt t)] else []))
      else if kind = ''session.prompt-submitted''
      then (case ss_prompt snap of None \<Rightarrow> None | Some p \<Rightarrow> Some [sanitize (pm_command_id p)])
      else if kind = ''session.started'' \<or> kind \<in> gate_kinds then Some []
      else if kind = ''session.finished'' then Some [''complete'']
      else if kind = ''session.failed'' then Some [''failed'']
      else None)"

definition event_id_of :: "incoming_event \<Rightarrow> string option" where
  "event_id_of e = get_str (ev_payload e) ''event_id''"

definition steady_id :: "snapshot_context \<Rightarrow> incoming_event \<Rightarrow> bool" where
  "steady_id cx e = (case steady_parts (cx_snapshot cx) (ev_kind e) of
     None \<Rightarrow> ev_kind e \<in> {''session.stalled'', ''session.model-changed'', ''session.endpoint-failed''}
   | Some parts \<Rightarrow> event_id_of e = Some (event_id_for cx (ev_kind e) parts))"

lemma get_insert_text: "bt_get (insert_text k v m) k' =
    (if k' = k \<and> (case v of None \<Rightarrow> False | Some t \<Rightarrow> t \<noteq> []) then map_option JStr v else bt_get m k')"
  by (auto simp: insert_text_def opt_filter_def bt_get_insert split: option.split)

lemma get_extend_other: "k \<notin> fst ` set kvs \<Longrightarrow> bt_get (bt_extend kvs m) k = bt_get m k"
  by (induction kvs m rule: bt_extend.induct) (auto simp: bt_get_insert)

lemma base_object_id: "bt_get (base_object cx kind status parts) ''event_id'' = Some (JStr (event_id_for cx kind parts))"
  by (simp add: base_object_def Let_def bt_get_insert)

lemma lifecycle_event_id:
  assumes "''event_id'' \<notin> fst ` set extra"
  shows "event_id_of (lifecycle_event cx kind status attempt summary error parts extra) =
    Some (event_id_for cx kind ((if 0 < attempt then [show_nat attempt] else []) @ parts))"
  using assms by (simp add: lifecycle_event_def event_id_of_def get_str_def finish_event_def Let_def get_extend_other
      bt_get_insert get_insert_text base_object_id split: option.split)

lemma gate_event_id: "event_id_of (gate_event cx kind gate) = Some (event_id_for cx kind [])"
  by (simp add: gate_event_def event_id_of_def get_str_def finish_event_def Let_def get_extend_other
      bt_get_insert get_insert_text base_object_id)


lemma retry_steady: "ss_turn (cx_snapshot cx) = Some turn \<Longrightarrow> list_all (steady_id cx) (snd (retry_step cx turn t))"
  by (simp add: retry_step_def steady_id_def steady_parts_def lifecycle_event_id)

lemma active_steady: "list_all (steady_id cx) (snd (active_step cx i turn t))"
  by (simp add: active_step_def steady_id_def steady_parts_def lifecycle_event_id Let_def)

lemma terminal_steady: "list_all (steady_id cx) (snd (terminal_step cx i turn t))"
  by (simp add: terminal_step_def steady_id_def steady_parts_def lifecycle_event_id gate_kinds_def Let_def split: option.split)

lemma unsteady:
  "of_kinds {''session.stalled'', ''session.model-changed'', ''session.endpoint-failed''} es \<Longrightarrow> list_all (steady_id cx) es"
  by (auto simp: of_kinds_def list_all_iff steady_id_def steady_parts_def gate_kinds_def)

lemma prompt_steady: "list_all (steady_id cx) (snd (prompt_step cx t))"
  by (auto simp: prompt_step_def steady_id_def steady_parts_def lifecycle_event_id gate_kinds_def Let_def split: option.split)

lemma gate_steady: "list_all (steady_id cx) (snd (gate_step cx t))"
  by (auto simp: gate_step_def steady_id_def steady_parts_def gate_event_id gate_kinds_def
      split: option.split gate_status.split gate_kind.split)

lemma turn_part_steady: "list_all (steady_id cx) (snd (turn_part cx t))"
proof (cases "ss_turn (cx_snapshot cx)")
  case (Some turn)
  have idle: "list_all (steady_id cx) (snd (idle_step cx i turn u))" for i u
    by (rule unsteady) (rule of_kinds_mono[OF step_kinds(4)], simp)
  show ?thesis
    by (cases "tn_state turn") (simp_all add: Some turn_part_def turn_step_def phase_step_def Let_def retry_steady
        active_steady terminal_steady idle)
qed (simp add: turn_part_def)

lemma rest_part_steady: "list_all (steady_id cx) (snd (rest_part cx t))"
proof -
  have "list_all (steady_id cx) (snd (vanished_step cx u))" "list_all (steady_id cx) (snd (model_step cx u))"
    "list_all (steady_id cx) (snd (endpoint_step cx u))" for u
    by (rule unsteady, rule of_kinds_mono[OF step_kinds(5)] of_kinds_mono[OF step_kinds(8)] of_kinds_mono[OF step_kinds(9)], simp)+
  then show ?thesis by (simp add: rest_part_def prompt_steady gate_steady)
qed

lemma reduce_track_steady: "list_all (steady_id cx) (snd (reduce_track cx t))"
  by (simp add: reduce_track_parts turn_part_steady rest_part_steady)

lemma observe_steady:
  "e \<in> set (outcome_events (snd (observe env snap b))) \<Longrightarrow> steady_id (context_new env (session_of snap) snap) e"
  using reduce_track_steady[of "context_new env (session_of snap) snap"]
  by (cases rule: observe_cases[of env snap b]) (auto simp: list_all_iff)

text \<open>The clock and the time of the observation do not enter an identifier.\<close>

lemma context_ids:
  "event_id_for (context_new env sid snap) = event_id_for (context_new env' sid snap)"
  by (simp add: fun_eq_iff event_id_for_def event_identity_def turn_component_def context_new_def)

section \<open>Public text\<close>

lemma public_text_clean: "\<not> looks_secret (public_text v)"
proof -
  have "\<not> looks_secret ''details redacted''" by code_simp
  then show ?thesis by (simp add: public_text_def Let_def)
qed

definition summary_of :: "incoming_event \<Rightarrow> string option" where
  "summary_of e = get_str (ev_payload e) ''summary''"

definition public_summary :: "incoming_event \<Rightarrow> bool" where
  "public_summary e = (ev_kind e \<noteq> ''session.model-changed'' \<longrightarrow>
     (case summary_of e of None \<Rightarrow> True | Some s \<Rightarrow> \<not> looks_secret s))"

lemma base_object_summary: "bt_get (base_object cx kind status parts) ''summary'' = None"
  by (simp add: base_object_def Let_def bt_get_insert get_insert_text)

lemma lifecycle_public:
  assumes "''summary'' \<notin> fst ` set extra"
  shows "public_summary (lifecycle_event cx kind status attempt summary error parts extra)"
  using assms by (simp add: public_summary_def summary_of_def lifecycle_event_def get_str_def finish_event_def Let_def
      get_extend_other bt_get_insert get_insert_text base_object_summary public_text_clean split: option.split)

lemma gate_public: "public_summary (gate_event cx kind gate)"
proof -
  have "\<not> looks_secret ''operator input requested''" "\<not> looks_secret ''workflow gate requires approval''"
    by code_simp+
  then show ?thesis
    by (simp add: public_summary_def summary_of_def gate_event_def get_str_def finish_event_def Let_def bt_get_insert
        opt_filter_def public_text_clean split: option.split gate_kind.split)
qed

lemma endpoint_public: "public_summary (endpoint_failed_event cx endpoint episode)"
proof -
  have "\<not> looks_secret ''endpoint ok: sdk endpoint unavailable''" "\<not> looks_secret ''endpoint degraded: sdk endpoint unavailable''"
    "\<not> looks_secret ''endpoint failed: sdk endpoint unavailable''"
    by code_simp+
  then show ?thesis
    by (cases "ep_health endpoint"; cases "ep_detail endpoint") (simp_all add: public_summary_def summary_of_def endpoint_failed_event_def get_str_def
        finish_event_def Let_def bt_get_insert health_name_def public_endpoint_detail_def split: option.split)
qed

lemma step_public:
  "list_all public_summary (snd (retry_step cx turn t))"
  "list_all public_summary (snd (active_step cx i turn t))"
  "list_all public_summary (snd (terminal_step cx i turn t))"
  "list_all public_summary (snd (idle_step cx i turn t))"
  "list_all public_summary (snd (vanished_step cx t))"
  "list_all public_summary (snd (prompt_step cx t))"
  "list_all public_summary (snd (gate_step cx t))"
  "list_all public_summary (snd (model_step cx t))"
  "list_all public_summary (snd (endpoint_step cx t))"
  by (simp_all add: retry_step_def active_step_def terminal_step_def idle_step_def vanished_step_def stalled_event_def
      prompt_step_def gate_step_def endpoint_step_def Let_def lifecycle_public gate_public endpoint_public
      split: option.split gate_status.split)
   (simp add: model_step_def model_change_event_def public_summary_def Let_def split: prod.split option.split)

lemma reduce_track_public: "list_all public_summary (snd (reduce_track cx t))"
proof -
  have "list_all public_summary (snd (turn_part cx t))"
  proof (cases "ss_turn (cx_snapshot cx)")
    case (Some turn)
    show ?thesis
      by (cases "tn_state turn") (simp_all add: Some turn_part_def turn_step_def phase_step_def Let_def step_public)
  qed (simp add: turn_part_def)
  then show ?thesis by (simp add: reduce_track_parts rest_part_def step_public)
qed

section \<open>Samples\<close>

definition sample_bridge_env :: bridge_env where
  "sample_bridge_env = \<lparr>be_canonical_time = (\<lambda>_. None), be_now = ''2026-01-01T00:00:00Z'', be_time_nanos = (\<lambda>_. Some 1)\<rparr>"

definition sample_gate :: sdk_gate where
  "sample_gate = \<lparr>gt_id = ''g1'', gt_kind = GateAsk, gt_revision = 7, gt_status = GateOpen,
     gt_summary = Some ''deploy?'', gt_workflow_id = None, gt_title = Some ''token=hunter2'', gt_options = []\<rparr>"

definition sample_snapshot :: "nat \<Rightarrow> turn_phase \<Rightarrow> sdk_snapshot" where
  "sample_snapshot revision phase = snapshot_default\<lparr>ss_session_id := ''s1'', ss_revision := revision,
     ss_turn := Some \<lparr>tn_id = ''t1'', tn_state = phase, tn_prompt_accepted = True, tn_attempt = 0,
       tn_error_summary = Some ''password rejected''\<rparr>,
     ss_turn_present := True, ss_gate := Some sample_gate, ss_gate_present := True, ss_summary := Some ''work''\<rparr>"

lemma sample_ids:
  "sanitize ''s1'' = ''s1''" "sanitize ''t1'' = ''t1''" "\<not> bad_id session_id_new ''s1''" "\<not> bad_id turn_id_new ''t1''"
  "valid_gate_id ''g1''" "public_failure_summary ''password rejected'' = ''provider turn failed''"
  "public_text ''provider turn failed'' = ''provider turn failed''"
  by code_simp+

lemma sample_checks:
  "check_snapshot (sample_snapshot r phase) = Inr ''s1''" "bad_turn (sample_snapshot r phase) = False"
  by (simp_all add: check_snapshot_def bad_turn_def sample_snapshot_def snapshot_default_def sample_gate_def sample_ids)

definition first_observed :: "bridge_env \<Rightarrow> sdk_snapshot \<Rightarrow> incoming_event list" where
  "first_observed env snap = outcome_events (snd (observe env snap bridge_new))"

lemma sample_observed:
  "first_observed env (sample_snapshot r phase) =
     snd (reduce_track (context_new env ''s1'' (sample_snapshot r phase)) track_default)"
  by (simp add: first_observed_def observe_def outcome_events_def sample_checks Let_def track_of_def bridge_new_def
      count_stats_def track_default_def case_prod_unfold)

lemma sample_failed:
  "first_observed env (sample_snapshot r TurnFailed) =
    [lifecycle_event (context_new env ''s1'' (sample_snapshot r TurnFailed)) ''session.failed'' ''failed'' 0
       (Some ''provider turn failed'') (Some ''provider turn failed'') [''failed''] [],
     gate_event (context_new env ''s1'' (sample_snapshot r TurnFailed)) ''workflow.question'' sample_gate]"
  unfolding sample_observed
  by (simp add: reduce_track_parts turn_part_def turn_step_def phase_step_def terminal_step_def retry_step_def enter_turn_def
      rest_part_def vanished_step_def prompt_step_def gate_step_def model_step_def model_change_event_def endpoint_step_def
      track_default_def sample_snapshot_def snapshot_default_def sample_gate_def prompt_accepted_def failure_text_def
      opt_or_def opt_filter_def sample_ids Let_def)

lemma sample_history:
  "bridge_history env [sample_snapshot r phase] bridge_new =
     [(sample_snapshot r phase, first_observed env (sample_snapshot r phase))]"
  by (simp only: history_Cons first_observed_def bridge_history.simps)

text \<open>Ends and gates are announced at all.\<close>

lemma sample_announces:
  "endings ''s1'' (bridge_history env [sample_snapshot r TurnFailed] bridge_new) = 1"
  "announced ''s1'' (bridge_history env [sample_snapshot r TurnFailed] bridge_new) = [7]"
proof -
  have "session_of (sample_snapshot r TurnFailed) = ''s1''" "ss_gate (sample_snapshot r TurnFailed) = Some sample_gate"
    by (simp_all add: sample_snapshot_def sample_ids snapshot_default_def)
  then show "endings ''s1'' (bridge_history env [sample_snapshot r TurnFailed] bridge_new) = 1"
    "announced ''s1'' (bridge_history env [sample_snapshot r TurnFailed] bridge_new) = [7]"
    by (simp_all only: sample_history endings_simps announced_simps sample_failed)
       (simp_all add: terminal_kinds_def gate_kinds_def sample_gate_def)
qed

section \<open>Properties\<close>

text \<open>
  A bridge announces the start of a session at most once, and not again when it did before, whatever
  snapshots it is fed, in whatever
  order, with whatever turns.
\<close>

theorem bridge_session_started_once:
  "starts sid (bridge_history env snaps b) \<le> (if tk_session_started_emitted (track_of b sid) then 0 else 1)"
  using starts_bound[where sid=sid and env=env and snaps=snaps and b=b] by (simp split: if_splits)

text \<open>
  C18. While a session reports no other turn, the bridge announces its end at most once: never both
  a failure and a success, never the same end again when later snapshots repeat it.
\<close>

theorem bridge_turn_ends_once:
  assumes "list_all (\<lambda>snap. session_of snap = sid \<longrightarrow> only_turn turn snap) snaps"
  shows "endings sid (bridge_history env snaps b) \<le> 1"
  using assms endings_bound[of snaps sid turn env b] by (auto simp: list_all_iff split: if_splits)

lemma bridge_turn_ends_once_witness:
  "endings ''s1'' (bridge_history sample_bridge_env [sample_snapshot 1 TurnActive, sample_snapshot 2 TurnComplete,
     sample_snapshot 3 TurnComplete, sample_snapshot 4 TurnFailed] bridge_new) \<le> 1"
proof -
  have "list_all (\<lambda>snap. session_of snap = ''s1'' \<longrightarrow> only_turn ''t1'' snap) [sample_snapshot 1 TurnActive,
     sample_snapshot 2 TurnComplete, sample_snapshot 3 TurnComplete, sample_snapshot 4 TurnFailed]"
    by code_simp
  then show ?thesis by (rule bridge_turn_ends_once)
qed

text \<open>
  The revisions at which a gate of a session is announced increase strictly: no revision of a gate is
  announced twice, and none after the gate was seen resolved at that revision.
\<close>

theorem bridge_gate_once_per_revision:
  assumes "list_all (\<lambda>snap. session_of snap = sid \<longrightarrow> only_gate gate snap) snaps"
  shows "sorted_wrt (<) (announced sid (bridge_history env snaps b)) \<and>
    (\<forall>r. tk_gate_episode (track_of b sid) = Some (gate, r) \<longrightarrow>
       list_all (\<lambda>r'. r < r') (announced sid (bridge_history env snaps b)))"
  using assms announced_increase[of snaps sid gate env b] by (auto simp: past_episode_def list_all_iff)

lemma bridge_gate_once_per_revision_witness:
  "sorted_wrt (<) (announced ''s1'' (bridge_history sample_bridge_env [sample_snapshot 1 TurnActive,
     sample_snapshot 2 TurnComplete] bridge_new))"
proof -
  have "list_all (\<lambda>snap. session_of snap = ''s1'' \<longrightarrow> only_gate ''g1'' snap) [sample_snapshot 1 TurnActive,
     sample_snapshot 2 TurnComplete]"
    by code_simp
  from bridge_gate_once_per_revision[OF this] show ?thesis by blast
qed

text \<open>
  Two bridges that report the same thing of the same snapshot, with other histories behind them and
  other clocks (a daemon before and after a restart), give the event the same identifier: starts, ends,
  retries, prompts and gates are recognised as duplicates downstream.
\<close>

theorem bridge_ids_survive_restart:
  assumes "e \<in> set (outcome_events (snd (observe env snap b)))"
    and "e' \<in> set (outcome_events (snd (observe env' snap b')))"
    and "ev_kind e' = ev_kind e"
    and "ev_kind e \<notin> {''session.stalled'', ''session.model-changed'', ''session.endpoint-failed''}"
  shows "event_id_of e' = event_id_of e"
proof -
  let ?kind = "ev_kind e"
  have "steady_id (context_new env (session_of snap) snap) e" "steady_id (context_new env' (session_of snap) snap) e'"
    by (rule observe_steady[OF assms(1)] observe_steady[OF assms(2)])+
  then obtain parts where "event_id_of e = Some (event_id_for (context_new env (session_of snap) snap) ?kind parts)"
    "event_id_of e' = Some (event_id_for (context_new env' (session_of snap) snap) ?kind parts)"
    using assms(3,4) by (auto simp: steady_id_def split: option.splits)
  then show ?thesis by (simp only: context_ids[of env _ _ env'])
qed

lemma bridge_ids_survive_restart_witness:
  "event_id_of (hd (first_observed (sample_bridge_env\<lparr>be_now := ''later''\<rparr>) (sample_snapshot 1 TurnFailed)))
     = event_id_of (hd (first_observed sample_bridge_env (sample_snapshot 1 TurnFailed)))"
  unfolding first_observed_def
  by (rule bridge_ids_survive_restart[of _ sample_bridge_env "sample_snapshot 1 TurnFailed" bridge_new _
        "sample_bridge_env\<lparr>be_now := ''later''\<rparr>" bridge_new]; fold first_observed_def)
     (simp_all add: sample_failed)

text \<open>
  No summary the bridge publishes looks like it carries a secret, the summaries of model changes
  excepted.
\<close>

theorem bridge_summaries_public:
  assumes "e \<in> set (outcome_events (snd (observe env snap b)))" and "ev_kind e \<noteq> ''session.model-changed''"
    and "summary_of e = Some s"
  shows "\<not> looks_secret s"
proof -
  have "list_all public_summary (outcome_events (snd (observe env snap b)))"
    by (cases rule: observe_cases[of env snap b]) (simp_all add: reduce_track_public)
  with assms show ?thesis by (auto simp: list_all_iff public_summary_def)
qed


lemma bridge_summaries_public_witness: "\<not> looks_secret ''provider turn failed''"
proof -
  let ?e = "hd (first_observed sample_bridge_env (sample_snapshot 1 TurnFailed))"
  have e: "?e \<in> set (first_observed sample_bridge_env (sample_snapshot 1 TurnFailed))" "ev_kind ?e \<noteq> ''session.model-changed''"
    by (simp_all add: sample_failed)
  have s: "summary_of ?e = Some ''provider turn failed''"
    by (simp add: sample_failed summary_of_def lifecycle_event_def get_str_def finish_event_def Let_def bt_get_insert
        get_insert_text sample_ids)
  show ?thesis by (rule bridge_summaries_public[OF e(1)[unfolded first_observed_def] e(2)[unfolded first_observed_def]
        s[unfolded first_observed_def]])
qed

section \<open>Text that is not redacted\<close>

text \<open>The title of a gate reaches the event as it is, and so does a model's label when the model changes.\<close>

lemma gate_title_not_redacted:
  "pointer (ev_payload (gate_event (context_new sample_bridge_env ''s1'' (sample_snapshot 1 TurnIdle)) ''workflow.question''
      sample_gate)) ''/question/title'' = Some (JStr ''token=hunter2'')"
  "looks_secret ''token=hunter2''"
  by code_simp+

lemma model_label_not_redacted:
  "map_option summary_of (snd (model_change_event (context_new sample_bridge_env ''s1'' snapshot_default) (Some ''m'') None
      (snapshot_default\<lparr>ss_model := Some ''token=hunter2''\<rparr>))) = Some (Some ''model m -> token=hunter2'')"
  by code_simp

end
