(* ===== verification/GjcLane.thy ===== *)
theory GjcLane imports AlertStore GjcEvents begin

text \<open>
  The lane store of \<open>src/gjc_lane.rs\<close>: registration, observations, failures, retirement, and the
  optimistic-concurrency step \<open>mutate\<close> that all of them go through. Each operation is the closure the code
  hands to \<open>mutate\<close>, a function of the lane's record, and the operation itself.

  \<open>lane_env\<close> holds what the code calls outside of it: SHA-256 (\<open>le_sha256\<close>), the resolution of a path
  (\<open>le_canonicalize\<close>), the output of \<open>git branch\<close> in a worktree when it succeeds (\<open>le_git_branch\<close>), the length
  of the JSON text of a value (\<open>le_json_len\<close>), and the time of the bridge. The code of a release build is
  modelled: sums of 64-bit counters wrap.
\<close>

record lane_env =
  le_bridge :: bridge_env
  le_sha256 :: "string \<Rightarrow> string"
  le_canonicalize :: "string \<Rightarrow> string option"
  le_git_branch :: "string \<Rightarrow> string option"
  le_json_len :: "json \<Rightarrow> nat"

section \<open>Observations\<close>

record sdk_observation =
  ob_session_id :: string
  ob_worktree :: "string option"
  ob_branch :: "string option"
  ob_branch_observed :: bool
  ob_endpoint_generation :: nat
  ob_revision :: nat
  ob_turn_state :: lane_turn_state
  ob_turn_id :: "string option"
  ob_command_id :: "string option"
  ob_prompt_accepted :: bool
  ob_model :: "string option"
  ob_profile :: "string option"
  ob_gate_state :: "lane_gate_state option"
  ob_gate_section_present :: bool
  ob_gate_id :: "string option"
  ob_gate_revision :: nat
  ob_gate_kind :: "gate_kind option"
  ob_gate_workflow_id :: "string option"
  ob_gate_title :: "string option"
  ob_gate_options :: "string list"
  ob_disposition :: session_disposition
  ob_error_summary :: "string option"

record apply_outcome =
  ao_phase_changed :: "lane_phase option"
  ao_terminal_set :: "terminal_kind option"
  ao_evidence_invalidated :: bool

record pr_state =
  pr_number :: nat
  pr_head_sha :: string
  pr_base_branch :: string

record pr_reconcile_outcome =
  po_head_changed :: bool
  po_base_changed :: bool
  po_evidence_invalidated :: bool
  po_unresolved :: bool

record pr_binding_input =
  pi_repo :: string
  pi_number :: nat
  pi_head_sha :: string
  pi_base_branch :: string

record lane_registration =
  rq_sdk_session_id :: string
  rq_worktree :: "string option"
  rq_endpoint_generation :: "nat option"
  rq_owner_id :: "string option"
  rq_pr :: "pr_binding_input option"

section \<open>Identities and texts\<close>

definition hex_bytes :: "string \<Rightarrow> string" where
  "hex_bytes bytes = concat (map (\<lambda>b. hex_digits 2 (byte b)) bytes)"

definition gjc_lane_id :: "lane_env \<Rightarrow> string \<Rightarrow> string" where
  "gjc_lane_id env session_id = ''gjc-'' @ hex_bytes (take 16 (le_sha256 env session_id))"

definition lane_fingerprint :: "lane_env \<Rightarrow> string \<Rightarrow> string" where
  "lane_fingerprint env v = hex_bytes (take 8 (le_sha256 env v))"

definition valid_id :: "string \<Rightarrow> bool" where
  "valid_id v = (v \<noteq> [] \<and> length v \<le> max_owner_len \<and>
     list_all (\<lambda>b. is_ascii_alphanumeric b \<or> b = CHR ''-'' \<or> b = CHR ''_'') v)"

definition valid_session_id :: "string \<Rightarrow> bool" where
  "valid_session_id v = (length v \<le> max_session_len \<and> is_ok (session_id_new v))"

text \<open>Equality of paths is equality of their components, which \<open>.\<close> and doubled slashes do not enter.\<close>

definition path_components :: "string \<Rightarrow> string list" where
  "path_components v = filter (\<lambda>c. c \<noteq> [] \<and> c \<noteq> ''.'') (split_on CHR ''/'' v)"

definition valid_worktree :: "lane_env \<Rightarrow> string \<Rightarrow> bool" where
  "valid_worktree env v =
     (if v = [] \<or> max_worktree_len < length v \<or> list_ex is_control (chars v) then False
      else if \<not> starts_with ''/'' v \<or> list_ex (\<lambda>c. c = ''..'') (path_components v) then False
      else (case le_canonicalize env v of None \<Rightarrow> True | Some c \<Rightarrow> path_components c = path_components v))"

definition is_ascii_hexdigit :: "char \<Rightarrow> bool" where
  "is_ascii_hexdigit c = (is_ascii_digit c \<or> (97 \<le> byte (lower_byte c) \<and> byte (lower_byte c) \<le> 102))"

definition valid_hex_sha :: "string \<Rightarrow> bool" where
  "valid_hex_sha v = (7 \<le> length v \<and> length v \<le> 64 \<and> list_all is_ascii_hexdigit v)"

definition bounded_text :: "string \<Rightarrow> string" where
  "bounded_text v = take_chars max_evidence_len v"

definition current_git_branch :: "lane_env \<Rightarrow> string \<Rightarrow> string + string option" where
  "current_git_branch env worktree =
     (case le_git_branch env worktree of
        None \<Rightarrow> Err ''git branch probe failed''
      | Some out \<Rightarrow> (let branch = trim out
                  in Ok (if branch \<noteq> [] \<and> length branch \<le> 128 then Some branch else None)))"

definition sanitize_identity :: "string \<Rightarrow> string" where
  "sanitize_identity v =
     concat (take 128 (filter (\<lambda>c. \<not> is_control c \<and> \<not> is_white_space c) (chars v)))"

definition bounded_identity :: "string option \<Rightarrow> string" where
  "bounded_identity v = unwrap_or (opt_filter (\<lambda>t. t \<noteq> []) (map_option sanitize_identity v)) ''unknown''"

definition public_selection_label :: "string \<Rightarrow> string" where
  "public_selection_label v =
     (let bounded = trim (concat (take max_evidence_len (collapse_space False (chars v))))
      in if looks_secret bounded then ''details-redacted'' else bounded)"

definition sanitize_observation_selection :: "sdk_observation \<Rightarrow> sdk_observation" where
  "sanitize_observation_selection ob =
     ob\<lparr>ob_model := map_option public_selection_label (ob_model ob),
        ob_profile := map_option public_selection_label (ob_profile ob)\<rparr>"

definition validate_registration :: "lane_env \<Rightarrow> lane_registration \<Rightarrow> string + unit" where
  "validate_registration env rq =
     (if \<not> valid_session_id (rq_sdk_session_id rq) then Err ''invalid sdk session id''
      else if (case rq_worktree rq of None \<Rightarrow> False | Some w \<Rightarrow> \<not> valid_worktree env w)
      then Err ''invalid worktree path''
      else if (case rq_owner_id rq of None \<Rightarrow> False | Some w \<Rightarrow> \<not> valid_id w) then Err ''invalid owner id''
      else (case rq_pr rq of
              None \<Rightarrow> Ok ()
            | Some pr \<Rightarrow>
                if pi_repo pr = [] \<or> \<not> str_contains ''/'' (pi_repo pr) then Err ''invalid PR repo binding''
                else if pi_number pr = 0 then Err ''invalid PR number''
                else if \<not> valid_hex_sha (pi_head_sha pr) then Err ''invalid PR head sha''
                else if pi_base_branch pr = [] \<or> 128 < length (pi_base_branch pr) \<or>
                        list_ex is_control (chars (pi_base_branch pr))
                then Err ''invalid PR base branch'' else Ok ()))"

section \<open>Classification\<close>

definition terminal_kind_from_disposition :: "session_disposition \<Rightarrow> terminal_kind option" where
  "terminal_kind_from_disposition d =
     (case d of DispLive \<Rightarrow> None | DispComplete \<Rightarrow> Some TermComplete | DispFailed \<Rightarrow> Some TermFailed
      | DispRetired \<Rightarrow> Some TermRetired)"

definition phase_of_terminal :: "terminal_kind \<Rightarrow> lane_phase" where
  "phase_of_terminal k = (case k of TermComplete \<Rightarrow> PhComplete | TermFailed \<Rightarrow> PhFailed | TermRetired \<Rightarrow> PhRetired)"

definition classify_lane :: "lane_record \<Rightarrow> sdk_observation option \<Rightarrow> lane_phase" where
  "classify_lane r observation =
     (if lr_watch_removed_at r \<noteq> None then PhRetired
      else case lr_terminal r of
        Some d \<Rightarrow> phase_of_terminal (td_kind d)
      | None \<Rightarrow>
          (case observation of
             None \<Rightarrow> unwrap_or (lr_phase r) PhUnavailable
           | Some ob \<Rightarrow>
               if ob_session_id ob \<noteq> lr_sdk_session_id r then PhRuntimeGone
               else (case ob_disposition ob of
                       DispRetired \<Rightarrow> PhRetired
                     | DispFailed \<Rightarrow> PhFailed
                     | DispComplete \<Rightarrow> PhComplete
                     | DispLive \<Rightarrow>
                         if ob_gate_state ob = Some LgReady \<or> (ob_turn_state ob = LtAwaitingInput \<and> ob_prompt_accepted ob)
                         then PhBlocked
                         else if ob_turn_state ob = LtRunning \<and> ob_prompt_accepted ob then PhActive else PhIdle)))"

section \<open>Backoff\<close>

definition backoff_delay_ms :: "nat \<Rightarrow> nat \<Rightarrow> nat \<Rightarrow> nat" where
  "backoff_delay_ms initial_ms max_ms failures =
     (let initial = max initial_ms 1; exponent = min failures 16;
          scaled = min u64_max (initial * 2 ^ exponent)
      in min scaled (max max_ms initial))"

record polling_policy =
  pp_poll_interval_secs :: nat
  pp_initial_backoff_ms :: nat
  pp_max_backoff_ms :: nat
  pp_max_consecutive_attempts :: nat
  pp_ghost_grace_polls :: nat

definition polling_policy_default :: polling_policy where
  "polling_policy_default =
     \<lparr>pp_poll_interval_secs = 30, pp_initial_backoff_ms = 500, pp_max_backoff_ms = 30000,
      pp_max_consecutive_attempts = 8, pp_ghost_grace_polls = 3\<rparr>"

definition backoff_after :: "polling_policy \<Rightarrow> nat \<Rightarrow> nat" where
  "backoff_after p failures = backoff_delay_ms (pp_initial_backoff_ms p) (pp_max_backoff_ms p) failures"

definition policy_validate :: "polling_policy \<Rightarrow> string + unit" where
  "policy_validate p =
     (if pp_poll_interval_secs p = 0 then Err ''gjc lanes poll interval must be positive''
      else if pp_initial_backoff_ms p = 0 then Err ''gjc lanes initial backoff must be positive''
      else if pp_max_backoff_ms p < pp_initial_backoff_ms p
      then Err ''gjc lanes max backoff must not be smaller than initial backoff''
      else if pp_max_consecutive_attempts p = 0 then Err ''gjc lanes attempt budget must be positive''
      else if pp_ghost_grace_polls p = 0 then Err ''gjc lanes ghost grace must be positive'' else Ok ())"

record lanes_pr_config =
  lc_repo :: "string option"
  lc_token_env :: "string option"
  lc_api_base :: string

definition default_gjc_pr_api_base :: string where "default_gjc_pr_api_base = ''https://api.github.com''"

definition pr_config_is_empty :: "lanes_pr_config \<Rightarrow> bool" where
  "pr_config_is_empty c = (lc_repo c = None \<and> lc_token_env c = None \<and> lc_api_base c = default_gjc_pr_api_base)"

definition pr_config_validate :: "lanes_pr_config \<Rightarrow> string + unit" where
  "pr_config_validate c =
     (case lc_repo c of
        None \<Rightarrow> Ok ()
      | Some repo \<Rightarrow> if repo = [] \<or> \<not> str_contains ''/'' repo \<or> 200 < length repo
                    then Err ''gjc_lanes.pr.repo must be owner/repo'' else Ok ())"

record gjc_lanes_config =
  gl_enabled :: bool
  gl_poll_interval_secs :: nat
  gl_initial_backoff_ms :: nat
  gl_max_backoff_ms :: nat
  gl_max_consecutive_attempts :: nat
  gl_ghost_grace_polls :: nat
  gl_state_path :: "string option"
  gl_discovery_worktrees :: "string list"
  gl_pr :: lanes_pr_config

definition lanes_config_default :: gjc_lanes_config where
  "lanes_config_default =
     \<lparr>gl_enabled = False, gl_poll_interval_secs = 30, gl_initial_backoff_ms = 500, gl_max_backoff_ms = 30000,
      gl_max_consecutive_attempts = 8, gl_ghost_grace_polls = 3, gl_state_path = None, gl_discovery_worktrees = [],
      gl_pr = \<lparr>lc_repo = None, lc_token_env = None, lc_api_base = default_gjc_pr_api_base\<rparr>\<rparr>"

definition lanes_config_is_empty :: "gjc_lanes_config \<Rightarrow> bool" where
  "lanes_config_is_empty c =
     (\<not> gl_enabled c \<and> gl_state_path c = None \<and> gl_discovery_worktrees c = [] \<and> pr_config_is_empty (gl_pr c))"

definition lanes_polling_policy :: "gjc_lanes_config \<Rightarrow> polling_policy" where
  "lanes_polling_policy c =
     \<lparr>pp_poll_interval_secs = gl_poll_interval_secs c, pp_initial_backoff_ms = gl_initial_backoff_ms c,
      pp_max_backoff_ms = gl_max_backoff_ms c, pp_max_consecutive_attempts = gl_max_consecutive_attempts c,
      pp_ghost_grace_polls = gl_ghost_grace_polls c\<rparr>"

definition lanes_config_validate :: "gjc_lanes_config \<Rightarrow> string + unit" where
  "lanes_config_validate c = res_bind (policy_validate (lanes_polling_policy c)) (\<lambda>_. pr_config_validate (gl_pr c))"

section \<open>The audit trail and the optimistic step\<close>

definition u64_succ :: "nat \<Rightarrow> nat" where "u64_succ n = (n + 1) mod 2 ^ 64"
definition u64_saturating_succ :: "nat \<Rightarrow> nat" where "u64_saturating_succ n = min u64_max (n + 1)"
definition u32_saturating_succ :: "nat \<Rightarrow> nat" where "u32_saturating_succ n = min u32_max (n + 1)"

definition push_audit :: "audit_entry \<Rightarrow> lane_state_file \<Rightarrow> lane_state_file" where
  "push_audit entry s =
     (let s = (if max_audit_entries \<le> length (lf_audit s)
               then let overflow = length (lf_audit s) + 1 - max_audit_entries
                    in s\<lparr>lf_audit := drop overflow (lf_audit s), lf_dropped := (lf_dropped s + overflow) mod 2 ^ 64\<rparr>
               else s)
      in s\<lparr>lf_audit := lf_audit s @ [entry]\<rparr>)"

fun push_audits :: "string \<Rightarrow> string \<Rightarrow> (audit_kind \<times> string) list \<Rightarrow> lane_state_file \<Rightarrow> lane_state_file" where
  "push_audits now lane_id [] s = s"
| "push_audits now lane_id ((kind, detail) # audit) s =
     push_audits now lane_id audit (push_audit \<lparr>au_at = now, au_lane_id = lane_id, au_kind = kind, au_detail = detail\<rparr> s)"

text \<open>What a closure returns: the new record, the audit entries, and the outcome it filled in.\<close>

type_synonym 'o lane_change = "lane_record \<Rightarrow> string + lane_record \<times> (audit_kind \<times> string) list \<times> 'o"

definition revision_conflict :: "nat \<Rightarrow> nat \<Rightarrow> string" where
  "revision_conflict expected current =
     ''lane revision conflict: expected '' @ show_nat expected @ '', current '' @ show_nat current"

definition mutate ::
    "(nat \<Rightarrow> bool) \<Rightarrow> string \<Rightarrow> string \<Rightarrow> nat \<Rightarrow> 'o lane_change \<Rightarrow> lane_store
     \<Rightarrow> lane_store \<times> (string + lane_record \<times> 'o)" where
  "mutate disk_ok now lane_id expected_revision change st =
     (let s = ls_state st; canonical_id = canonical_lane_id s lane_id
      in case bt_get (lf_lanes s) canonical_id of
           None \<Rightarrow> (st, Err (''lane not found: '' @ lane_id))
         | Some r \<Rightarrow>
             if lr_revision r \<noteq> expected_revision
             then (st, Err (revision_conflict expected_revision (lr_revision r)))
             else (case change r of
                     Inl e \<Rightarrow> (st, Err e)
                   | Inr (updated, audit, outcome) \<Rightarrow>
                       if u64_max \<le> lr_revision updated then (st, Err ''revision overflow'')
                       else
                         let updated = updated\<lparr>lr_revision := lr_revision updated + 1, lr_updated_at := now\<rparr>;
                             s = push_audits now canonical_id audit s;
                             (st', res) = persist_locked disk_ok
                               (st\<lparr>ls_state := s\<lparr>lf_lanes := bt_insert canonical_id updated (lf_lanes s)\<rparr>\<rparr>)
                         in (st', res_bind res (\<lambda>_. Ok (updated, outcome)))))"

text \<open>A change without an outcome.\<close>

type_synonym plain_change = "lane_record \<Rightarrow> string + lane_record \<times> (audit_kind \<times> string) list"

definition mutate_plain ::
    "(nat \<Rightarrow> bool) \<Rightarrow> string \<Rightarrow> string \<Rightarrow> nat \<Rightarrow> plain_change \<Rightarrow> lane_store \<Rightarrow> lane_store \<times> (string + lane_record)" where
  "mutate_plain disk_ok now lane_id expected_revision change st =
     (case mutate disk_ok now lane_id expected_revision
             (\<lambda>r. res_bind (change r) (\<lambda>(r', audit). Ok (r', audit, ()))) st of
        (st', res) \<Rightarrow> (st', res_bind res (\<lambda>(r, _). Ok r)))"

section \<open>Alerts of an observation\<close>

definition turn_phase_of :: "sdk_observation \<Rightarrow> turn_phase" where
  "turn_phase_of ob =
     (case ob_turn_state ob of
        LtRunning \<Rightarrow> (if ob_prompt_accepted ob then TurnActive else TurnIdle)
      | LtAwaitingInput \<Rightarrow> TurnWaitingInput | LtComplete \<Rightarrow> TurnComplete | LtFailed \<Rightarrow> TurnFailed
      | LtIdle \<Rightarrow> TurnIdle | LtAborted \<Rightarrow> TurnAborted)"

definition last_turn_id :: "lane_record \<Rightarrow> string option" where
  "last_turn_id r = Option.bind (lr_last_turn r) ts_turn_id"

definition observation_snapshot ::
    "lane_record \<Rightarrow> lane_record option \<Rightarrow> sdk_observation \<Rightarrow> string \<Rightarrow> sdk_endpoint option \<Rightarrow> sdk_snapshot" where
  "observation_snapshot r previous ob now endpoint =
     snapshot_default\<lparr>
       ss_session_id := ob_session_id ob, ss_revision := ob_revision ob, ss_endpoint_episode := lr_endpoint_episode r,
       ss_turn := map_option (\<lambda>i. \<lparr>tn_id = i, tn_state = turn_phase_of ob, tn_prompt_accepted = ob_prompt_accepted ob,
           tn_attempt = 0, tn_error_summary = ob_error_summary ob\<rparr>)
         (opt_or (ob_turn_id ob) (Option.bind previous last_turn_id)),
       ss_prompt := map_option (\<lambda>c. \<lparr>pm_command_id = c,
           pm_status = (if ob_turn_state ob = LtRunning \<or> ob_turn_state ob = LtAwaitingInput then PromptProgressing
                        else PromptAccepted)\<rparr>) (ob_command_id ob),
       ss_gate := map_option (\<lambda>g. \<lparr>gt_id = g, gt_kind = unwrap_or (ob_gate_kind ob) GateWorkflow,
           gt_revision = ob_gate_revision ob,
           gt_status = (if ob_gate_state ob = Some LgReady then GateOpen else GateResolved),
           gt_summary = ob_gate_title ob, gt_workflow_id = ob_gate_workflow_id ob, gt_title = ob_gate_title ob,
           gt_options = ob_gate_options ob\<rparr>) (ob_gate_id ob),
       ss_model := ob_model ob, ss_profile := ob_profile ob, ss_endpoint := endpoint,
       ss_repo_name := map_option pb_repo (lr_pr r), ss_repo_path := lr_worktree r, ss_worktree_path := lr_worktree r,
       ss_branch := lr_branch r, ss_observed_at := Some now, ss_summary := ob_error_summary ob\<rparr>"

definition alert_kinds :: "string list" where
  "alert_kinds = [''session.failed'', ''session.stalled'', ''session.endpoint-failed'', ''workflow.gate'', ''workflow.question'']"

definition bridge_alerts :: "lane_env \<Rightarrow> sdk_snapshot option \<Rightarrow> sdk_snapshot \<Rightarrow> string + incoming_event list" where
  "bridge_alerts env previous snap =
     (let prior = (case previous of
            None \<Rightarrow> Ok bridge_new
          | Some p \<Rightarrow> (case observe (le_bridge env) p bridge_new of
                         (b, Inl e) \<Rightarrow> Err (''build prior sdk alert state: '' @ e)
                       | (b, Inr _) \<Rightarrow> Ok b))
      in res_bind prior (\<lambda>b.
           case snd (observe (le_bridge env) snap b) of
             Inl e \<Rightarrow> Err (''build sdk alert: '' @ e)
           | Inr out \<Rightarrow> Ok (filter (\<lambda>e. ev_kind e \<in> set alert_kinds) (bo_events out))))"

definition check :: "bool \<Rightarrow> string \<Rightarrow> string + unit" where
  "check b e = (if b then Ok () else Err e)"

definition turn_failure_causality_of :: "incoming_event \<Rightarrow> string + turn_failure_causality option" where
  "turn_failure_causality_of event =
     (if ev_kind event \<noteq> ''session.failed'' then Ok None
      else
        let p = ev_payload event; command_id = get_str p ''command_id''
        in res_bind (ok_or (get_str p ''session_id'') ''gjc turn failure missing session identity'') (\<lambda>session_id.
           res_bind (ok_or (get_str p ''turn_id'') ''gjc turn failure missing turn identity'') (\<lambda>turn_id.
           res_bind (check (is_ok (session_id_new session_id)) ''gjc turn failure session identity malformed'') (\<lambda>_.
           res_bind (check (is_ok (turn_id_new turn_id)) ''gjc turn failure turn identity malformed'') (\<lambda>_.
           res_bind (check (case command_id of None \<Rightarrow> True | Some c \<Rightarrow> is_ok (command_id_new c))
                      ''gjc turn failure command identity malformed'') (\<lambda>_.
           res_bind (ok_or (get_u64 p ''sdk_revision'') ''gjc turn failure missing sdk revision'') (\<lambda>sdk_revision.
           Ok (Some \<lparr>tf_session_id = session_id, tf_sdk_revision = sdk_revision, tf_turn_id = turn_id,
             tf_command_id = command_id, tf_model = map_option bounded_text (get_str p ''model''),
             tf_profile = map_option bounded_text (get_str p ''profile'')\<rparr>))))))))"

definition pending_from_event :: "incoming_event \<Rightarrow> string \<Rightarrow> string + pending_alert" where
  "pending_from_event event now =
     res_bind (ok_or (get_str (ev_payload event) ''event_id'') ''gjc alert missing deterministic event id'') (\<lambda>event_id.
     res_bind (turn_failure_causality_of event) (\<lambda>turn_failure.
     Ok \<lparr>pa_event_id = event_id, pa_kind = ev_kind event, pa_payload = ev_payload event, pa_queued_at = now,
         pa_attempts = 0, pa_turn_failure = turn_failure, pa_deliveries = []\<rparr>))"

text \<open>Staging the events one after the other; the first that fails stops the change.\<close>

fun queue_events :: "string \<Rightarrow> incoming_event list \<Rightarrow> lane_record \<Rightarrow> string + lane_record" where
  "queue_events now [] r = Ok r"
| "queue_events now (e # es) r =
     res_bind (pending_from_event e now) (\<lambda>alert. res_bind (queue_pending_alert alert r) (queue_events now es))"

definition incoming_event_of :: "pending_alert \<Rightarrow> incoming_event" where
  "incoming_event_of a = finish_event (pa_kind a) [] \<lparr>ev_payload := pa_payload a\<rparr>"

section \<open>Applying an observation\<close>

definition terminal_name :: "terminal_kind \<Rightarrow> string" where
  "terminal_name k = (case k of TermComplete \<Rightarrow> ''Complete'' | TermFailed \<Rightarrow> ''Failed'' | TermRetired \<Rightarrow> ''Retired'')"

definition disposition_name :: "session_disposition \<Rightarrow> string" where
  "disposition_name d =
     (case d of DispLive \<Rightarrow> ''Live'' | DispComplete \<Rightarrow> ''Complete'' | DispFailed \<Rightarrow> ''Failed'' | DispRetired \<Rightarrow> ''Retired'')"

definition turn_state_name :: "lane_turn_state \<Rightarrow> string" where
  "turn_state_name t =
     (case t of LtIdle \<Rightarrow> ''Idle'' | LtRunning \<Rightarrow> ''Running'' | LtAwaitingInput \<Rightarrow> ''AwaitingInput''
      | LtComplete \<Rightarrow> ''Complete'' | LtFailed \<Rightarrow> ''Failed'' | LtAborted \<Rightarrow> ''Aborted'')"

definition gate_state_name :: "lane_gate_state \<Rightarrow> string" where
  "gate_state_name g = (case g of LgClosed \<Rightarrow> ''Closed'' | LgReady \<Rightarrow> ''Ready'' | LgAnswered \<Rightarrow> ''Answered'')"

text \<open>The debug text of an option.\<close>

definition debug_option :: "('a \<Rightarrow> string) \<Rightarrow> 'a option \<Rightarrow> string" where
  "debug_option f v = (case v of None \<Rightarrow> ''None'' | Some x \<Rightarrow> ''Some('' @ f x @ '')'')"

definition check_observation :: "lane_record \<Rightarrow> sdk_observation \<Rightarrow> string + unit" where
  "check_observation r ob =
     (if ob_session_id ob \<noteq> lr_sdk_session_id r then Err ''sdk observation session identity mismatch''
      else if (case ob_turn_id ob of None \<Rightarrow> False | Some t \<Rightarrow> \<not> is_ok (turn_id_new t))
      then Err ''sdk observation turn identity malformed''
      else if (case ob_command_id ob of None \<Rightarrow> False | Some c \<Rightarrow> \<not> is_ok (command_id_new c))
      then Err ''sdk observation command identity malformed''
      else if (case (ob_worktree ob, lr_worktree r) of (Some observed, Some enrolled) \<Rightarrow> observed \<noteq> enrolled | _ \<Rightarrow> False)
      then Err ''sdk observation worktree identity mismatch''
      else if ob_revision ob < lr_sdk_revision r then Err ''stale sdk observation revision''
      else if (ob_disposition ob = DispComplete \<and> ob_turn_state ob \<noteq> LtComplete) \<or>
              (ob_disposition ob = DispFailed \<and> ob_turn_state ob \<noteq> LtFailed)
      then Err ''sdk observation disposition conflicts with turn state''
      else (case ob_gate_state ob of
              Some _ \<Rightarrow>
                if (case ob_gate_id ob of None \<Rightarrow> True | Some g \<Rightarrow> \<not> valid_gate_id g) \<or> ob_gate_revision ob = 0
                then Err ''gate observation lacks canonical identity or revision'' else Ok ()
            | None \<Rightarrow>
                if ob_gate_id ob \<noteq> None \<or> ob_gate_revision ob \<noteq> 0
                then Err ''gate observation has identity without state'' else Ok ()))"

definition generation_moved :: "lane_record \<Rightarrow> sdk_observation \<Rightarrow> bool" where
  "generation_moved r ob =
     (ob_endpoint_generation ob \<noteq> lr_endpoint_generation r \<and> (lr_review_valid r \<or> lr_owner_valid r))"

text \<open>The evidence of another endpoint generation, and what a successful query resets.\<close>

definition observe_endpoint :: "string \<Rightarrow> sdk_observation \<Rightarrow> lane_record \<Rightarrow> lane_record" where
  "observe_endpoint now ob r =
     (let r = (if generation_moved r ob
               then r\<lparr>lr_review_valid := False, lr_owner_valid := False,
                      lr_evidence_revision := u64_succ (lr_evidence_revision r)\<rparr> else r)
      in r\<lparr>lr_sdk_revision := ob_revision ob, lr_endpoint_generation := ob_endpoint_generation ob,
           lr_endpoint_alerted := False, lr_unavailable_polls := 0, lr_last_query_at := Some now,
           lr_branch := (if ob_branch_observed ob then ob_branch ob else lr_branch r), lr_polling_suspended := False,
           lr_last_turn := Some \<lparr>ts_state = ob_turn_state ob, ts_turn_id = ob_turn_id ob,
             ts_command_id = ob_command_id ob, ts_prompt_accepted = ob_prompt_accepted ob, ts_model = ob_model ob,
             ts_profile = ob_profile ob, ts_observed_at = now\<rparr>\<rparr>)"

definition observe_gate :: "string \<Rightarrow> sdk_observation \<Rightarrow> lane_record \<Rightarrow> string + lane_record" where
  "observe_gate now ob r =
     (case ob_gate_state ob of
        Some state \<Rightarrow>
          (let seen = r\<lparr>lr_last_gate := Some \<lparr>gs_state = state, gs_gate_id = ob_gate_id ob,
                 gs_revision = ob_gate_revision ob, gs_observed_at = now\<rparr>\<rparr>
           in case lr_last_gate r of
                None \<Rightarrow> Ok seen
              | Some previous \<Rightarrow>
                  if gs_gate_id previous \<noteq> ob_gate_id ob then Ok seen
                  else if ob_gate_revision ob < gs_revision previous then Ok r
                  else if ob_gate_revision ob = gs_revision previous
                  then (if gs_state previous \<noteq> state \<and> \<not> (gs_state previous = LgReady \<and> state = LgAnswered)
                        then Err ''conflicting equal gate revision''
                        else if gs_state previous \<noteq> state then Ok seen else Ok r)
                  else Ok seen)
      | None \<Rightarrow>
          (case lr_last_gate r of
             None \<Rightarrow> Ok r
           | Some gate \<Rightarrow>
               if ob_gate_section_present ob \<and> gs_state gate = LgReady \<and> (ob_gate_id ob = None \<or> gs_gate_id gate = ob_gate_id ob)
               then Ok (r\<lparr>lr_last_gate := Some (gate\<lparr>gs_state := LgAnswered, gs_observed_at := now\<rparr>)\<rparr>)
               else Ok r))"

definition relinquish :: "lane_ownership \<Rightarrow> lane_ownership" where
  "relinquish w = (if ow_state w = OwnClaimed then w\<lparr>ow_state := Relinquished\<rparr> else w)"

text \<open>A terminal disposition the lane does not have yet; ownership ends with it.\<close>

definition set_terminal :: "terminal_kind \<Rightarrow> string \<Rightarrow> string \<Rightarrow> lane_record \<Rightarrow> lane_record" where
  "set_terminal kind now evidence r =
     r\<lparr>lr_terminal := Some \<lparr>td_kind = kind, td_observed_at = now, td_evidence = evidence\<rparr>,
       lr_ownership := relinquish (lr_ownership r)\<rparr>"

definition observed_terminal :: "lane_record \<Rightarrow> sdk_observation \<Rightarrow> terminal_kind option" where
  "observed_terminal r ob =
     (if lr_terminal r = None then terminal_kind_from_disposition (ob_disposition ob) else None)"

definition observe_terminal :: "string \<Rightarrow> sdk_observation \<Rightarrow> lane_record \<Rightarrow> lane_record" where
  "observe_terminal now ob r =
     (case observed_terminal r ob of
        None \<Rightarrow> r
      | Some kind \<Rightarrow> set_terminal kind now (''sdk disposition '' @ disposition_name (ob_disposition ob)) r)"

definition observe_phase :: "sdk_observation \<Rightarrow> lane_record \<Rightarrow> lane_record" where
  "observe_phase ob r = r\<lparr>lr_phase := Some (classify_lane r (Some ob))\<rparr>"

definition phase_label :: "lane_phase option \<Rightarrow> string" where
  "phase_label p = (case p of None \<Rightarrow> ''unset'' | Some x \<Rightarrow> phase_as_str x)"

text \<open>The audit entries of an observation: \<open>r\<close> is the record before, \<open>r'\<close> the one after.\<close>

definition observation_audit :: "lane_record \<Rightarrow> sdk_observation \<Rightarrow> lane_record \<Rightarrow> (audit_kind \<times> string) list" where
  "observation_audit r ob r' =
     (if generation_moved r ob
      then [(EvidenceInvalidated, ''endpoint generation '' @ show_nat (lr_endpoint_generation r) @ '' -> '' @
               show_nat (ob_endpoint_generation ob) @ ''; stale review/owner evidence invalidated'')] else []) @
     (if lr_polling_suspended r then [(PollingResumed, ''authoritative observation received'')] else []) @
     (if lr_phase r \<noteq> lr_phase r'
      then [(PhaseChanged, phase_label (lr_phase r) @ '' -> '' @ phase_label (lr_phase r'))] else []) @
     (if observed_terminal r ob \<noteq> None
      then [(TerminalDispositionSet, debug_option terminal_name (observed_terminal r ob) @ '' from sdk evidence (revision '' @
               show_nat (ob_revision ob) @ '')'')] else [])"

definition applied_entry :: "sdk_observation \<Rightarrow> audit_kind \<times> string" where
  "applied_entry ob =
     (ObservationApplied, ''sdk revision '' @ show_nat (ob_revision ob) @ '' generation '' @
        show_nat (ob_endpoint_generation ob) @ '' turn '' @ turn_state_name (ob_turn_state ob) @ '' gate '' @
        debug_option gate_state_name (ob_gate_state ob) @ '' disposition '' @ disposition_name (ob_disposition ob))"

definition new_failed_turn :: "lane_record \<Rightarrow> sdk_observation \<Rightarrow> bool" where
  "new_failed_turn r ob =
     (ob_prompt_accepted ob \<and> ob_turn_state ob = LtFailed \<and>
      (case lr_last_turn r of None \<Rightarrow> True | Some t \<Rightarrow> ts_state t \<noteq> LtFailed \<or> ts_turn_id t \<noteq> ob_turn_id ob))"

definition scope_failure :: "incoming_event \<Rightarrow> incoming_event" where
  "scope_failure e =
     (if ev_kind e = ''session.failed''
      then e\<lparr>ev_payload := json_insert ''authority_scope'' (JStr ''current-session'') (ev_payload e)\<rparr> else e)"

text \<open>What the record says about the turn and the gate before, as an observation.\<close>

definition previous_observation :: "lane_record \<Rightarrow> sdk_observation" where
  "previous_observation r =
     \<lparr>ob_session_id = lr_sdk_session_id r, ob_worktree = lr_worktree r, ob_branch = lr_branch r,
      ob_branch_observed = False, ob_endpoint_generation = lr_endpoint_generation r, ob_revision = lr_sdk_revision r,
      ob_turn_state = unwrap_or (map_option ts_state (lr_last_turn r)) LtRunning,
      ob_turn_id = Option.bind (lr_last_turn r) ts_turn_id, ob_command_id = Option.bind (lr_last_turn r) ts_command_id,
      ob_prompt_accepted = True, ob_model = Option.bind (lr_last_turn r) ts_model,
      ob_profile = Option.bind (lr_last_turn r) ts_profile,
      ob_gate_state = map_option gs_state (lr_last_gate r), ob_gate_section_present = True,
      ob_gate_id = Option.bind (lr_last_gate r) gs_gate_id,
      ob_gate_revision = unwrap_or (map_option gs_revision (lr_last_gate r)) 0, ob_gate_kind = None,
      ob_gate_workflow_id = None, ob_gate_title = None, ob_gate_options = [], ob_disposition = DispLive,
      ob_error_summary = None\<rparr>"

definition turn_stalled :: "lane_record \<Rightarrow> sdk_observation \<Rightarrow> sdk_snapshot \<Rightarrow> bool" where
  "turn_stalled r ob current =
     ((case lr_last_turn r of
         None \<Rightarrow> False
       | Some t \<Rightarrow> ts_prompt_accepted t \<and> (ts_state t = LtRunning \<or> ts_state t = LtAwaitingInput)) \<and>
      (case (last_turn_id r, ob_turn_id ob) of
         (Some before, Some after) \<Rightarrow> before = after
       | _ \<Rightarrow> last_turn_id r = map_option tn_id (ss_turn current)) \<and>
      (ob_turn_state ob = LtIdle \<or> ob_turn_state ob = LtAborted))"

definition new_gate_episode :: "lane_record \<Rightarrow> sdk_observation \<Rightarrow> bool" where
  "new_gate_episode r ob =
     (ob_gate_state ob = Some LgReady \<and>
      (case lr_last_gate r of
         None \<Rightarrow> True
       | Some previous \<Rightarrow> gs_gate_id previous \<noteq> ob_gate_id ob \<or> gs_revision previous < ob_gate_revision ob))"

text \<open>The alerts of an observation, in the order they are staged.\<close>

definition stage_if :: "bool \<Rightarrow> string \<Rightarrow> string + incoming_event list \<Rightarrow> lane_record \<Rightarrow> string + lane_record" where
  "stage_if b now events r = (if b then res_bind events (\<lambda>es. queue_events now es r) else Ok r)"

definition stage_alerts :: "lane_env \<Rightarrow> string \<Rightarrow> sdk_observation \<Rightarrow> lane_record \<Rightarrow> lane_record \<Rightarrow> string + lane_record" where
  "stage_alerts env now ob r r' =
     (let current = observation_snapshot r' (Some r) ob now None;
          before = observation_snapshot r None (previous_observation r) now None;
          events = bridge_alerts env None current
      in res_bind (stage_if (observed_terminal r ob \<noteq> None \<or> new_failed_turn r ob) now
                     (res_bind events (\<lambda>es. Ok (map scope_failure es))) r') (\<lambda>r1.
         res_bind (stage_if (turn_stalled r ob current) now (bridge_alerts env (Some before) current) r1) (\<lambda>r2.
         stage_if (new_gate_episode r ob) now events r2)))"

definition observation_change :: "lane_env \<Rightarrow> string \<Rightarrow> sdk_observation \<Rightarrow> apply_outcome lane_change" where
  "observation_change env now observation r =
     (let ob = sanitize_observation_selection observation
      in res_bind (check_observation r ob) (\<lambda>_.
         res_bind (observe_gate now ob (observe_endpoint now ob r)) (\<lambda>r1.
         let r2 = observe_phase ob (observe_terminal now ob r1)
         in res_bind (stage_alerts env now ob r r2) (\<lambda>r3.
            Ok (r3, observation_audit r ob r2 @ [applied_entry ob],
                \<lparr>ao_phase_changed = (if lr_phase r2 \<noteq> lr_phase r then lr_phase r2 else None),
                 ao_terminal_set = observed_terminal r ob, ao_evidence_invalidated = generation_moved r ob\<rparr>)))))"

definition apply_observation where
  "apply_observation env disk_ok now lane_id expected_revision observation st =
     mutate disk_ok now lane_id expected_revision (observation_change env now observation) st"

section \<open>Failures of the endpoint\<close>

definition failure_snapshot :: "string \<Rightarrow> string \<Rightarrow> lane_record \<Rightarrow> sdk_snapshot" where
  "failure_snapshot now reason r =
     snapshot_default\<lparr>ss_session_id := lr_sdk_session_id r, ss_revision := lr_sdk_revision r,
       ss_endpoint_episode := lr_endpoint_episode r,
       ss_endpoint := Some \<lparr>ep_health = EndpointFailed, ep_detail = Some reason\<rparr>,
       ss_repo_name := map_option pb_repo (lr_pr r), ss_worktree_path := lr_worktree r, ss_branch := lr_branch r,
       ss_observed_at := Some now\<rparr>"

text \<open>One alert per episode: nothing is staged while the last one is still open.\<close>

definition stage_endpoint_alert :: "lane_env \<Rightarrow> string \<Rightarrow> string \<Rightarrow> lane_record \<Rightarrow> string + lane_record" where
  "stage_endpoint_alert env now reason r =
     (if lr_endpoint_alerted r then Ok r
      else
        let r = r\<lparr>lr_endpoint_episode := u64_saturating_succ (lr_endpoint_episode r)\<rparr>
        in res_bind (bridge_alerts env None (failure_snapshot now reason r)) (\<lambda>es.
           res_bind (queue_events now es r) (\<lambda>r. Ok (r\<lparr>lr_endpoint_alerted := True\<rparr>))))"

definition unavailable_change :: "lane_env \<Rightarrow> string \<Rightarrow> string \<Rightarrow> nat \<Rightarrow> bool lane_change" where
  "unavailable_change env now reason suspend_after r =
     (let r1 = r\<lparr>lr_phase := Some PhUnavailable, lr_last_query_at := Some now,
                 lr_unavailable_polls := u32_saturating_succ (lr_unavailable_polls r)\<rparr>
      in res_bind (stage_endpoint_alert env now reason r1) (\<lambda>r2.
         let suspend = (\<not> lr_polling_suspended r2 \<and> suspend_after \<le> lr_unavailable_polls r2);
             r3 = (if suspend then r2\<lparr>lr_polling_suspended := True\<rparr> else r2)
         in Ok (r3,
              (if lr_phase r \<noteq> Some PhUnavailable then [(PhaseChanged, ''-> unavailable'')] else []) @
              (if suspend then [(PollingSuspended, ''attempt budget exhausted after '' @
                 show_nat (lr_unavailable_polls r3) @ '' consecutive unavailable polls'')] else []) @
              [(ObservationApplied, ''unavailable (attempt '' @ show_nat (lr_unavailable_polls r3) @
                 ''): sdk endpoint unavailable'')],
              suspend)))"

definition mark_unavailable where
  "mark_unavailable env disk_ok now lane_id expected_revision reason suspend_after st =
     mutate disk_ok now lane_id expected_revision (unavailable_change env now reason suspend_after) st"

definition enqueue_endpoint_failure where
  "enqueue_endpoint_failure env disk_ok now lane_id expected_revision reason st =
     mutate_plain disk_ok now lane_id expected_revision
       (\<lambda>r. res_bind (stage_endpoint_alert env now reason r) (\<lambda>r'. Ok (r', []))) st"

definition rotation_change :: "nat \<Rightarrow> plain_change" where
  "rotation_change generation r =
     (if generation = lr_endpoint_generation r then Ok (r, [])
      else Ok (r\<lparr>lr_endpoint_generation := generation,
                 lr_endpoint_episode := u64_saturating_succ (lr_endpoint_episode r), lr_endpoint_alerted := False,
                 lr_review_valid := False, lr_owner_valid := False\<rparr>,
               [(EvidenceInvalidated, ''endpoint generation changed; awaiting authoritative query'')]))"

definition note_endpoint_rotation where
  "note_endpoint_rotation disk_ok now lane_id expected_revision generation st =
     mutate_plain disk_ok now lane_id expected_revision (rotation_change generation) st"

section \<open>The end of a lane\<close>

definition runtime_gone_change :: "string \<Rightarrow> string \<Rightarrow> plain_change" where
  "runtime_gone_change now evidence r =
     (if lr_terminal r \<noteq> None then Err ''lane already carries a terminal disposition''
      else Ok (set_terminal TermRetired now (''runtime gone: '' @ bounded_text evidence)
                 (r\<lparr>lr_phase := Some PhRuntimeGone, lr_review_valid := False, lr_owner_valid := False,
                    lr_evidence_revision := u64_succ (lr_evidence_revision r), lr_unavailable_polls := 0,
                    lr_last_query_at := Some now\<rparr>),
               [(PhaseChanged, ''runtime-gone''),
                (TerminalDispositionSet, ''retired after authoritative session-not-found''),
                (EvidenceInvalidated, ''review/owner evidence invalidated by runtime-gone'')]))"

definition mark_runtime_gone where
  "mark_runtime_gone disk_ok now lane_id expected_revision evidence st =
     mutate_plain disk_ok now lane_id expected_revision (runtime_gone_change now evidence) st"

definition ghost_change :: "string \<Rightarrow> string \<Rightarrow> plain_change" where
  "ghost_change now reason r =
     (if lr_watch_removed_at r \<noteq> None then Err ''ghost watch already removed''
      else case lr_terminal r of
        None \<Rightarrow> Err ''only terminal lanes qualify for ghost watch removal''
      | Some d \<Rightarrow>
          if lr_pending_alerts r \<noteq> [] then Err ''pending alerts must be acknowledged before ghost removal''
          else Ok (r\<lparr>lr_watch_removed_at := Some now, lr_phase := Some (phase_of_terminal (td_kind d))\<rparr>,
                   [(GhostWatchRemoved, bounded_text reason)]))"

definition remove_ghost_watch where
  "remove_ghost_watch disk_ok now lane_id expected_revision reason st =
     mutate_plain disk_ok now lane_id expected_revision (ghost_change now reason) st"

definition reclaim_change :: "nat \<Rightarrow> string option \<Rightarrow> plain_change" where
  "reclaim_change generation worktree r =
     (if lr_watch_removed_at r = None then Err ''lane is not a removed tombstone''
      else Ok (r\<lparr>lr_watch_removed_at := None, lr_terminal := None, lr_phase := None, lr_worktree := worktree,
                 lr_branch := None, lr_pr := None, lr_endpoint_generation := generation, lr_endpoint_episode := 0,
                 lr_sdk_revision := 0, lr_last_turn := None, lr_last_gate := None, lr_evidence_revision := 0,
                 lr_review_valid := True, lr_owner_valid := True, lr_ownership := ownership_default,
                 lr_unavailable_polls := 0, lr_endpoint_alerted := False\<rparr>,
               [(LaneRegistered, ''removed tombstone reclaimed for native session re-enrollment'')]))"

definition reclaim_tombstone where
  "reclaim_tombstone disk_ok now lane_id expected_revision generation worktree st =
     mutate_plain disk_ok now lane_id expected_revision (reclaim_change generation worktree) st"

definition retire_change :: "string \<Rightarrow> string \<Rightarrow> plain_change" where
  "retire_change now reason r =
     (let r1 = (if lr_terminal r = None
                then set_terminal TermRetired now (''manual retirement: '' @ bounded_text reason) r else r)
      in Ok (r1\<lparr>lr_phase := Some (classify_lane r1 None)\<rparr>,
             [(TerminalDispositionSet, ''manually retired ('' @ bounded_text reason @ '')''), (PhaseChanged, ''retired'')]))"

definition retire_lane where
  "retire_lane disk_ok now lane_id expected_revision reason st =
     mutate_plain disk_ok now lane_id expected_revision (retire_change now reason) st"

section \<open>Ownership, the pull request and the watermark\<close>

definition claim_change :: "string \<Rightarrow> string \<Rightarrow> plain_change" where
  "claim_change now owner_id r =
     (if lr_terminal r \<noteq> None then Err ''terminal lane cannot reclaim ownership''
      else if lr_watch_removed_at r \<noteq> None then Err ''tombstoned lane cannot claim ownership''
      else if \<not> valid_id owner_id then Err ''invalid owner id''
      else Ok (r\<lparr>lr_ownership := \<lparr>ow_state = OwnClaimed, ow_owner_id = Some owner_id, ow_claimed_at = Some now,
                   ow_generation = u64_succ (ow_generation (lr_ownership r))\<rparr>\<rparr>,
               [(OwnershipChanged, ''ownership claimed'')]))"

definition claim_ownership where
  "claim_ownership disk_ok now lane_id expected_revision owner_id st =
     mutate_plain disk_ok now lane_id expected_revision (claim_change now owner_id) st"

text \<open>Evidence that is still valid is invalidated; the second component tells whether there was any.\<close>

definition invalidate_evidence :: "lane_record \<Rightarrow> lane_record \<times> bool" where
  "invalidate_evidence r =
     (if lr_review_valid r \<or> lr_owner_valid r
      then (r\<lparr>lr_review_valid := False, lr_owner_valid := False,
              lr_evidence_revision := u64_succ (lr_evidence_revision r)\<rparr>, True)
      else (r, False))"

definition pr_change :: "string \<Rightarrow> pr_state option \<Rightarrow> pr_reconcile_outcome lane_change" where
  "pr_change now resolved r =
     (case lr_pr r of
        None \<Rightarrow> Err ''lane has no PR binding''
      | Some binding \<Rightarrow>
          (case resolved of
             None \<Rightarrow>
               (case invalidate_evidence r of (r', invalidated) \<Rightarrow>
                  Ok (r', if invalidated then [(EvidenceInvalidated, ''pr '' @ pb_repo binding @ ''/'' @
                            show_nat (pb_number binding) @ '' unresolved; stale evidence invalidated'')] else [],
                      \<lparr>po_head_changed = False, po_base_changed = False, po_evidence_invalidated = invalidated,
                       po_unresolved = True\<rparr>))
           | Some state \<Rightarrow>
               (let head = to_ascii_lowercase (pr_head_sha state);
                    head_changed = (head \<noteq> pb_head_sha binding);
                    base_changed = (pr_base_branch state \<noteq> pb_base_branch binding)
                in if \<not> head_changed \<and> \<not> base_changed
                   then Ok (r, [], \<lparr>po_head_changed = False, po_base_changed = False, po_evidence_invalidated = False,
                                   po_unresolved = False\<rparr>)
                   else
                     (case invalidate_evidence r of (r', invalidated) \<Rightarrow>
                        Ok (r'\<lparr>lr_pr := Some \<lparr>pb_repo = pb_repo binding, pb_number = pb_number binding,
                              pb_head_sha = head, pb_base_branch = pr_base_branch state, pb_bound_at = now\<rparr>\<rparr>,
                            (if head_changed then [(PrHeadChanged, pb_head_sha binding @ '' -> '' @ head)] else []) @
                            (if base_changed
                             then [(PrBaseChanged, pb_base_branch binding @ '' -> '' @ pr_base_branch state)] else []) @
                            (if invalidated
                             then [(EvidenceInvalidated, ''review/owner evidence invalidated by PR movement'')] else []),
                            \<lparr>po_head_changed = head_changed, po_base_changed = base_changed,
                             po_evidence_invalidated = invalidated, po_unresolved = False\<rparr>)))))"

definition reconcile_pr_binding where
  "reconcile_pr_binding disk_ok now lane_id expected_revision resolved st =
     mutate disk_ok now lane_id expected_revision (pr_change now resolved) st"

section \<open>Reading the store\<close>

definition lane_records :: "lane_store \<Rightarrow> lane_record list" where
  "lane_records st = map snd (lf_lanes (ls_state st))"

definition snapshot_watches :: "bool \<Rightarrow> lane_store \<Rightarrow> lane_record list" where
  "snapshot_watches include_removed st =
     filter (\<lambda>r. include_removed \<or> lr_watch_removed_at r = None) (lane_records st)"

definition lane_record_of :: "lane_store \<Rightarrow> string \<Rightarrow> lane_record option" where
  "lane_record_of st lane_id = bt_get (lf_lanes (ls_state st)) (canonical_lane_id (ls_state st) lane_id)"

definition record_for_session :: "lane_store \<Rightarrow> string \<Rightarrow> lane_record option" where
  "record_for_session st session_id = List.find (\<lambda>r. lr_sdk_session_id r = session_id) (lane_records st)"

section \<open>Staged failures, the watermark and suspension\<close>

definition set_sdk_revision_if where
  "set_sdk_revision_if disk_ok now lane_id expected_sdk_revision new_sdk_revision st =
     (case lane_record_of st lane_id of
        None \<Rightarrow> (st, Err ''lane not found'')
      | Some current \<Rightarrow>
          mutate_plain disk_ok now lane_id (lr_revision current)
            (\<lambda>r. if lr_sdk_revision r \<noteq> expected_sdk_revision \<or> new_sdk_revision \<le> lr_sdk_revision r
                 then Err ''sdk revision watermark conflict''
                 else Ok (r\<lparr>lr_sdk_revision := new_sdk_revision\<rparr>, [])) st)"

text \<open>The observation a \<open>session.failed\<close> event of the bridge stands for.\<close>

definition failure_observation :: "incoming_event \<Rightarrow> string \<Rightarrow> string \<Rightarrow> nat \<Rightarrow> lane_record \<Rightarrow> sdk_observation" where
  "failure_observation failure session_id turn_id revision r =
     (let text_of = get_str (ev_payload failure)
      in \<lparr>ob_session_id = session_id, ob_worktree = lr_worktree r, ob_branch = lr_branch r, ob_branch_observed = False,
          ob_endpoint_generation = lr_endpoint_generation r, ob_revision = revision, ob_turn_state = LtFailed,
          ob_turn_id = Some turn_id, ob_command_id = text_of ''command_id'', ob_prompt_accepted = True,
          ob_model = text_of ''model'', ob_profile = text_of ''profile'', ob_gate_state = None,
          ob_gate_section_present = False, ob_gate_id = None, ob_gate_revision = 0, ob_gate_kind = None,
          ob_gate_workflow_id = None, ob_gate_title = None, ob_gate_options = [], ob_disposition = DispLive,
          ob_error_summary = opt_or (text_of ''error_message'') (text_of ''summary'')\<rparr>)"

definition stage_bridge_failure ::
    "lane_env \<Rightarrow> (nat \<Rightarrow> bool) \<Rightarrow> string \<Rightarrow> string \<Rightarrow> nat \<Rightarrow> incoming_event \<Rightarrow> lane_store
     \<Rightarrow> lane_store \<times> (string + lane_record)" where
  "stage_bridge_failure env disk_ok now lane_id expected_revision failure st =
     (let p = ev_payload failure;
          found = res_bind (check (ev_kind failure = ''session.failed'') ''bridge failure event kind is not session.failed'') (\<lambda>_.
            res_bind (ok_or (get_str p ''session_id'') ''bridge failure lacks session identity'') (\<lambda>session_id.
            res_bind (ok_or (get_str p ''turn_id'') ''bridge failure lacks turn identity'') (\<lambda>turn_id.
            res_bind (ok_or (lane_record_of st lane_id) (''lane not found: '' @ lane_id)) (\<lambda>r.
            res_bind (ok_or (get_u64 p ''sdk_revision'') ''bridge failure lacks sdk revision'') (\<lambda>revision.
            Ok (failure_observation failure session_id turn_id revision r))))))
      in case found of
           Inl e \<Rightarrow> (st, Err e)
         | Inr ob \<Rightarrow>
             (case apply_observation env disk_ok now lane_id expected_revision ob st of
                (st', res) \<Rightarrow> (st', res_bind res (\<lambda>(r, _). Ok r))))"

definition resume_change :: plain_change where
  "resume_change r =
     Ok (r\<lparr>lr_polling_suspended := False, lr_unavailable_polls := 0\<rparr>, [(PollingResumed, ''manual force-resume'')])"

text \<open>Every suspended lane of the snapshot in turn; the number of those that were resumed.\<close>

fun resume_each :: "(nat \<Rightarrow> bool) \<Rightarrow> string \<Rightarrow> lane_record list \<Rightarrow> lane_store \<Rightarrow> lane_store \<times> nat" where
  "resume_each disk_ok now [] st = (st, 0)"
| "resume_each disk_ok now (r # rs) st =
     (case mutate_plain disk_ok now (lr_lane_id r) (lr_revision r) resume_change st of
        (st', res) \<Rightarrow> (case resume_each disk_ok now rs st' of
          (st'', n) \<Rightarrow> (st'', n + (if is_ok res then 1 else 0))))"

definition resume_suspended where
  "resume_suspended disk_ok now st = resume_each disk_ok now (filter lr_polling_suspended (snapshot_watches True st)) st"

definition note_audit :: "(nat \<Rightarrow> bool) \<Rightarrow> audit_entry \<Rightarrow> lane_store \<Rightarrow> lane_store \<times> (string + unit)" where
  "note_audit disk_ok entry st = persist_locked disk_ok (st\<lparr>ls_state := push_audit entry (ls_state st)\<rparr>)"

definition note_restart where
  "note_restart disk_ok now st =
     note_audit disk_ok \<lparr>au_at = now, au_lane_id = ''*'', au_kind = RestartReconciled,
       au_detail = ''durable lane state reloaded after daemon restart''\<rparr> st"

definition note_revision_conflict :: "(nat \<Rightarrow> bool) \<Rightarrow> string \<Rightarrow> string \<Rightarrow> nat \<Rightarrow> lane_store \<Rightarrow> lane_store" where
  "note_revision_conflict disk_ok now lane_id expected_revision st =
     fst (note_audit disk_ok \<lparr>au_at = now, au_lane_id = lane_id, au_kind = ReconcileSkippedRevisionConflict,
       au_detail = ''expected revision '' @ show_nat expected_revision @ '' moved during reconcile; retry next poll''\<rparr> st)"

section \<open>Registration\<close>

definition registered_ownership :: "string \<Rightarrow> string option \<Rightarrow> lane_ownership" where
  "registered_ownership now owner_id =
     (case owner_id of
        None \<Rightarrow> ownership_default
      | Some w \<Rightarrow> \<lparr>ow_state = OwnClaimed, ow_owner_id = Some w, ow_claimed_at = Some now, ow_generation = 1\<rparr>)"

definition registered_pr :: "string \<Rightarrow> pr_binding_input \<Rightarrow> pr_binding" where
  "registered_pr now pr =
     \<lparr>pb_repo = pi_repo pr, pb_number = pi_number pr, pb_head_sha = to_ascii_lowercase (pi_head_sha pr),
      pb_base_branch = pi_base_branch pr, pb_bound_at = now\<rparr>"

definition register_lane ::
    "lane_env \<Rightarrow> (nat \<Rightarrow> bool) \<Rightarrow> string \<Rightarrow> lane_registration \<Rightarrow> lane_store \<Rightarrow> lane_store \<times> (string + lane_record)" where
  "register_lane env disk_ok now rq st =
     (case ls_status st of
        IgnoredInvalid _ \<Rightarrow> (st, Err ''lane store is quarantined after invalid persisted state'')
      | _ \<Rightarrow>
          (let lane_id = gjc_lane_id env (rq_sdk_session_id rq)
           in case validate_registration env rq of
                Inl e \<Rightarrow> (st, Err e)
              | Inr _ \<Rightarrow>
                  (case bt_get (lf_lanes (ls_state st)) lane_id of
                     Some existing \<Rightarrow>
                       (st, Err (''lane registration conflict: '' @ lane_id @
                          (if lr_watch_removed_at existing \<noteq> None then ''; watch previously tombstoned'' else [])))
                   | None \<Rightarrow>
                       (let branch = Option.bind (rq_worktree rq)
                              (\<lambda>w. Option.bind (res_ok (current_git_branch env w)) (\<lambda>b. b));
                            r = lane_record_new lane_id (rq_sdk_session_id rq) (rq_worktree rq) branch
                              (unwrap_or (rq_endpoint_generation rq) 0) (registered_ownership now (rq_owner_id rq))
                              (map_option (registered_pr now) (rq_pr rq)) now;
                            s = push_audit \<lparr>au_at = now, au_lane_id = lane_id, au_kind = LaneRegistered,
                              au_detail = ''session '' @ rq_sdk_session_id rq @ '' registered'' @
                                unwrap_or (map_option (\<lambda>w. '' owned by '' @ w) (rq_owner_id rq)) []\<rparr> (ls_state st);
                            (st', res) = persist_locked disk_ok
                              (st\<lparr>ls_state := s\<lparr>lf_lanes := bt_insert lane_id r (lf_lanes s)\<rparr>\<rparr>)
                        in (st', res_bind res (\<lambda>_. Ok r))))))"

section \<open>Alerts of failed turns\<close>

datatype alert_authority = AuthCurrent | AuthSuperseded | AuthUnknown

definition turn_in_progress :: "sdk_observation \<Rightarrow> bool" where
  "turn_in_progress ob =
     (ob_prompt_accepted ob \<and> (ob_turn_state ob = LtRunning \<or> ob_turn_state ob = LtAwaitingInput))"

definition failure_alert_authority :: "pending_alert \<Rightarrow> sdk_observation \<Rightarrow> alert_authority" where
  "failure_alert_authority alert current =
     (case pa_turn_failure alert of
        None \<Rightarrow> (if turn_in_progress current then AuthSuperseded else AuthUnknown)
      | Some causality \<Rightarrow>
          (case ob_turn_id current of
             None \<Rightarrow> AuthUnknown
           | Some current_turn_id \<Rightarrow>
               (let turn_matches = (tf_turn_id causality = current_turn_id);
                    command_conflicts = (case (tf_command_id causality, ob_command_id current) of
                      (Some a, Some c) \<Rightarrow> a \<noteq> c | _ \<Rightarrow> False)
                in if ob_turn_state current = LtFailed \<and> tf_sdk_revision causality \<le> ob_revision current \<and>
                      turn_matches \<and> \<not> command_conflicts
                   then AuthCurrent
                   else if tf_sdk_revision causality < ob_revision current \<and>
                      ((turn_in_progress current \<and> (\<not> turn_matches \<or> command_conflicts)) \<or>
                       (ob_turn_state current = LtFailed \<and> (\<not> turn_matches \<or> command_conflicts)))
                   then AuthSuperseded else AuthUnknown)))"

definition suppression_detail :: "pending_alert \<Rightarrow> sdk_observation \<Rightarrow> string" where
  "suppression_detail alert current =
     (let c = pa_turn_failure alert
      in ''historical failure suppressed: command='' @ bounded_identity (Option.bind c tf_command_id) @
         '' turn='' @ bounded_identity (map_option tf_turn_id c) @
         '' model='' @ bounded_identity (Option.bind c tf_model) @
         '' profile='' @ bounded_identity (Option.bind c tf_profile) @
         '' current_command='' @ bounded_identity (ob_command_id current) @
         '' current_turn='' @ bounded_identity (ob_turn_id current) @
         '' current_model='' @ bounded_identity (ob_model current) @
         '' current_profile='' @ bounded_identity (ob_profile current) @
         '' current_state='' @ turn_state_name (ob_turn_state current))"

definition suppress_change :: "pending_alert \<Rightarrow> sdk_observation \<Rightarrow> plain_change" where
  "suppress_change alert current r =
     (let alerts = filter (\<lambda>p. pa_event_id p \<noteq> pa_event_id alert) (lr_pending_alerts r)
      in if length alerts = length (lr_pending_alerts r) then Ok (r, [])
         else Ok (r\<lparr>lr_pending_alerts := alerts\<rparr>, [(HistoricalFailureSuppressed, suppression_detail alert current)]))"

definition suppress_historical_failure_alert where
  "suppress_historical_failure_alert disk_ok now lane_id expected_revision alert current st =
     mutate_plain disk_ok now lane_id expected_revision (suppress_change alert current) st"

definition attempt_change :: "string \<Rightarrow> plain_change" where
  "attempt_change event_id r =
     (case find_alert event_id (lr_pending_alerts r) of
        None \<Rightarrow> Err (''pending alert not found: '' @ event_id)
      | Some a \<Rightarrow>
          Ok (r\<lparr>lr_pending_alerts := replace_alert event_id (a\<lparr>pa_attempts := u32_saturating_succ (pa_attempts a)\<rparr>)
                (lr_pending_alerts r)\<rparr>, []))"

definition note_pending_alert_attempt where
  "note_pending_alert_attempt disk_ok now lane_id expected_revision event_id st =
     mutate_plain disk_ok now lane_id expected_revision (attempt_change event_id) st"

section \<open>Opening the state file\<close>

text \<open>Ids of lanes are derived from the session; older ids live on as aliases.\<close>

definition check_aliases :: "lane_state_file \<Rightarrow> string + unit" where
  "check_aliases s =
     (case List.find (\<lambda>(alias, target). alias = target \<or> bt_has (lf_lanes s) alias \<or> bt_has (lf_aliases s) target \<or>
             \<not> bt_has (lf_lanes s) target) (lf_aliases s) of
        None \<Rightarrow> Ok ()
      | Some (alias, target) \<Rightarrow>
          Err (if alias = target \<or> bt_has (lf_lanes s) alias then ''lane id migration alias collides with canonical lane''
               else if bt_has (lf_aliases s) target then ''lane id migration alias chain is not supported''
               else ''lane id migration alias target is missing''))"

definition check_targets :: "lane_state_file \<Rightarrow> string + unit" where
  "check_targets s =
     (case List.find (\<lambda>(_, target). bt_has (lf_aliases s) target \<or> \<not> bt_has (lf_lanes s) target) (lf_aliases s) of
        None \<Rightarrow> Ok ()
      | Some (_, target) \<Rightarrow>
          Err (if bt_has (lf_aliases s) target then ''lane id migration alias chain is not supported''
               else ''lane id migration alias target is missing''))"

text \<open>The loop over the old lanes: the new lanes, the aliases, and whether anything changed.\<close>

fun migrate_lanes ::
    "lane_env \<Rightarrow> string list \<Rightarrow> (string \<times> lane_record) list \<Rightarrow> (string, lane_record) btree \<times> (string, string) btree \<times> bool
     \<Rightarrow> string + (string, lane_record) btree \<times> (string, string) btree \<times> bool" where
  "migrate_lanes env canonical [] acc = Ok acc"
| "migrate_lanes env canonical ((old_id, r) # rest) (lanes, aliases, migrated) =
     (let new_id = gjc_lane_id env (lr_sdk_session_id r);
          moved = (old_id \<noteq> new_id \<or> lr_lane_id r \<noteq> new_id);
          r = (if moved then r\<lparr>lr_lane_id := new_id\<rparr> else r)
      in if old_id \<noteq> new_id \<and> old_id \<in> set canonical then Err ''lane id migration alias collision for canonical lane''
         else if bt_has lanes new_id then Err ''lane id migration collision for session identity''
         else migrate_lanes env canonical rest
           (bt_insert new_id r lanes, if old_id \<noteq> new_id then bt_insert old_id new_id aliases else aliases,
            migrated \<or> moved))"

definition migrate_lane_ids :: "lane_env \<Rightarrow> lane_state_file \<Rightarrow> string + lane_state_file \<times> bool" where
  "migrate_lane_ids env s =
     res_bind (check_aliases s) (\<lambda>_.
     res_bind (migrate_lanes env (map (\<lambda>(_, r). gjc_lane_id env (lr_sdk_session_id r)) (lf_lanes s)) (lf_lanes s)
                 ([], lf_aliases s, False)) (\<lambda>(lanes, aliases, migrated).
     let s' = s\<lparr>lf_lanes := lanes, lf_aliases := aliases\<rparr>
     in res_bind (check_targets s') (\<lambda>_. Ok (s', migrated))))"

definition failed_turn :: "lane_record \<Rightarrow> turn_snapshot option" where
  "failed_turn r = opt_filter (\<lambda>t. ts_state t = LtFailed) (lr_last_turn r)"

definition failure_event_id :: "lane_env \<Rightarrow> sdk_snapshot \<Rightarrow> string option" where
  "failure_event_id env snap =
     Option.bind (res_ok (bridge_alerts env None snap)) (\<lambda>es.
     Option.bind (List.find (\<lambda>e. ev_kind e = ''session.failed'') es) (\<lambda>e. get_str (ev_payload e) ''event_id''))"

definition current_failure_event_ids :: "lane_env \<Rightarrow> lane_record \<Rightarrow> string list" where
  "current_failure_event_ids env r =
     (case failed_turn r of
        None \<Rightarrow> []
      | Some turn \<Rightarrow>
          (case ts_turn_id turn of
             None \<Rightarrow> []
           | Some turn_id \<Rightarrow>
               (let legacy = snapshot_default\<lparr>ss_session_id := lr_sdk_session_id r, ss_revision := lr_sdk_revision r,
                      ss_turn := Some \<lparr>tn_id = turn_id, tn_state = TurnFailed, tn_prompt_accepted = True, tn_attempt = 0,
                        tn_error_summary = None\<rparr>,
                      ss_prompt := map_option (\<lambda>c. \<lparr>pm_command_id = c, pm_status = PromptAccepted\<rparr>) (ts_command_id turn),
                      ss_model := ts_model turn, ss_profile := ts_profile turn,
                      ss_repo_name := map_option pb_repo (lr_pr r), ss_worktree_path := lr_worktree r,
                      ss_branch := lr_branch r\<rparr>;
                    current = legacy\<lparr>ss_repo_path := lr_worktree r\<rparr>
                in List.map_filter (failure_event_id env) [legacy, current])))"

definition current_causality :: "lane_record \<Rightarrow> turn_failure_causality option" where
  "current_causality r =
     Option.bind (failed_turn r) (\<lambda>turn. map_option (\<lambda>turn_id.
       \<lparr>tf_session_id = lr_sdk_session_id r, tf_sdk_revision = lr_sdk_revision r, tf_turn_id = turn_id,
        tf_command_id = ts_command_id turn, tf_model = ts_model turn, tf_profile = ts_profile turn\<rparr>) (ts_turn_id turn))"

definition is_legacy_failure :: "pending_alert \<Rightarrow> bool" where
  "is_legacy_failure a = (pa_kind a = ''session.failed'' \<and> pa_turn_failure a = None)"

text \<open>
  The alerts that are kept, the audit entries of those that are not, and whether anything changed. A legacy
  failure is kept only when it is the current one, so its causality is always that of the current turn.
\<close>

fun migrate_alerts ::
    "string list \<Rightarrow> lane_record \<Rightarrow> pending_alert list \<Rightarrow> pending_alert list \<times> audit_entry list \<times> bool" where
  "migrate_alerts current_ids r [] = ([], [], False)"
| "migrate_alerts current_ids r (a # as) =
     (case migrate_alerts current_ids r as of
        (kept, audit, migrated) \<Rightarrow>
          if \<not> is_legacy_failure a then (a # kept, audit, migrated)
          else if current_ids = [] \<or> pa_event_id a \<notin> set current_ids
          then (kept, \<lparr>au_at = lr_updated_at r, au_lane_id = lr_lane_id r, au_kind = HistoricalFailureSuppressed,
                 au_detail = ''legacy historical failure suppressed during causality migration: event='' @
                   bounded_identity (Some (pa_event_id a))\<rparr> # audit, True)
          else (case current_causality r of
                  None \<Rightarrow> (a # kept, audit, migrated)
                | Some c \<Rightarrow> (a\<lparr>pa_turn_failure := Some c\<rparr> # kept, audit, True)))"

fun migrate_records ::
    "lane_env \<Rightarrow> (string \<times> lane_record) list \<Rightarrow> (string \<times> lane_record) list \<times> audit_entry list \<times> bool" where
  "migrate_records env [] = ([], [], False)"
| "migrate_records env ((i, r) # rest) =
     (case migrate_alerts (current_failure_event_ids env r) r (lr_pending_alerts r) of
        (kept, audit, migrated) \<Rightarrow>
          (case migrate_records env rest of
             (rest', audit', migrated') \<Rightarrow>
               ((i, r\<lparr>lr_pending_alerts := kept\<rparr>) # rest', audit @ audit', migrated \<or> migrated')))"

definition migrate_failure_causality :: "lane_env \<Rightarrow> lane_state_file \<Rightarrow> lane_state_file \<times> bool" where
  "migrate_failure_causality env s =
     (case migrate_records env (lf_lanes s) of
        (lanes, audit, migrated) \<Rightarrow> (fold push_audit audit (s\<lparr>lf_lanes := lanes\<rparr>), migrated))"

text \<open>What a loaded state must satisfy, lane by lane and alert by alert; the first fault found is the error.\<close>

fun check_all :: "('a \<Rightarrow> string + unit) \<Rightarrow> 'a list \<Rightarrow> string + unit" where
  "check_all f [] = Ok ()"
| "check_all f (x # xs) = res_bind (f x) (\<lambda>_. check_all f xs)"

definition check_causality :: "turn_failure_causality \<Rightarrow> string + unit" where
  "check_causality c =
     res_bind (check (is_ok (session_id_new (tf_session_id c))) ''lane-state contains invalid failure session identity'') (\<lambda>_.
     res_bind (check (is_ok (turn_id_new (tf_turn_id c))) ''lane-state contains invalid failure turn identity'') (\<lambda>_.
     res_bind (check (case tf_command_id c of None \<Rightarrow> True | Some i \<Rightarrow> is_ok (command_id_new i))
                 ''lane-state contains invalid failure command identity'') (\<lambda>_.
     check ((case tf_model c of None \<Rightarrow> True | Some m \<Rightarrow> bounded_text m = m) \<and>
            (case tf_profile c of None \<Rightarrow> True | Some p \<Rightarrow> bounded_text p = p))
       ''lane-state contains invalid failure causality'')))"

definition check_alert :: "lane_env \<Rightarrow> pending_alert \<Rightarrow> string + unit" where
  "check_alert env a =
     res_bind (check (pa_event_id a \<noteq> [] \<and> length (pa_event_id a) \<le> 256 \<and> \<not> list_ex is_control (chars (pa_event_id a)) \<and>
                 le_json_len env (pa_payload a) \<le> 64 * 1024 \<and> length (pa_deliveries a) \<le> max_pending_alert_deliveries)
                 ''lane-state contains an invalid pending alert'') (\<lambda>_.
     res_bind (check (list_all (\<lambda>(destination, _). valid_destination destination) (pa_deliveries a))
                 ''lane-state contains an invalid pending alert destination'') (\<lambda>_.
     case pa_turn_failure a of None \<Rightarrow> Ok () | Some c \<Rightarrow> check_causality c))"

definition check_lane :: "lane_env \<Rightarrow> string \<Rightarrow> lane_record \<Rightarrow> string + unit" where
  "check_lane env lane_id r =
     res_bind (check (valid_session_id (lr_sdk_session_id r) \<and> lane_id \<noteq> [] \<and> length lane_id \<le> max_session_len \<and>
                 \<not> list_ex is_control (chars lane_id)) ''lane-state contains an invalid lane identity'') (\<lambda>_.
     res_bind (check (case lr_worktree r of None \<Rightarrow> True | Some w \<Rightarrow> valid_worktree env w)
                 ''lane-state contains an invalid worktree'') (\<lambda>_.
     res_bind (check (case lr_last_gate r of
                        None \<Rightarrow> True
                      | Some g \<Rightarrow> (case gs_gate_id g of None \<Rightarrow> False | Some i \<Rightarrow> valid_gate_id i) \<and> gs_revision g \<noteq> 0)
                 ''lane-state contains an invalid gate identity'') (\<lambda>_.
     res_bind (check (length (lr_pending_alerts r) \<le> max_pending_alerts) ''lane-state contains too many pending alerts'') (\<lambda>_.
     check_all (check_alert env) (lr_pending_alerts r)))))"

definition validate_loaded_state :: "lane_env \<Rightarrow> lane_state_file \<Rightarrow> string + unit" where
  "validate_loaded_state env s =
     (if max_lanes < length (lf_lanes s) then Err ''lane-state contains too many lanes''
      else check_all (\<lambda>(i, r). check_lane env i r) (lf_lanes s))"

text \<open>The same as predicates.\<close>

definition causality_ok :: "turn_failure_causality \<Rightarrow> bool" where
  "causality_ok c =
     (is_ok (session_id_new (tf_session_id c)) \<and> is_ok (turn_id_new (tf_turn_id c)) \<and>
      (case tf_command_id c of None \<Rightarrow> True | Some i \<Rightarrow> is_ok (command_id_new i)) \<and>
      (case tf_model c of None \<Rightarrow> True | Some m \<Rightarrow> bounded_text m = m) \<and>
      (case tf_profile c of None \<Rightarrow> True | Some p \<Rightarrow> bounded_text p = p))"

definition alert_ok :: "lane_env \<Rightarrow> pending_alert \<Rightarrow> bool" where
  "alert_ok env a =
     (pa_event_id a \<noteq> [] \<and> length (pa_event_id a) \<le> 256 \<and> \<not> list_ex is_control (chars (pa_event_id a)) \<and>
      le_json_len env (pa_payload a) \<le> 64 * 1024 \<and> length (pa_deliveries a) \<le> max_pending_alert_deliveries \<and>
      list_all (\<lambda>(destination, _). valid_destination destination) (pa_deliveries a) \<and>
      (case pa_turn_failure a of None \<Rightarrow> True | Some c \<Rightarrow> causality_ok c))"

definition lane_ok :: "lane_env \<Rightarrow> string \<Rightarrow> lane_record \<Rightarrow> bool" where
  "lane_ok env lane_id r =
     (valid_session_id (lr_sdk_session_id r) \<and> lane_id \<noteq> [] \<and> length lane_id \<le> max_session_len \<and>
      \<not> list_ex is_control (chars lane_id) \<and>
      (case lr_worktree r of None \<Rightarrow> True | Some w \<Rightarrow> valid_worktree env w) \<and>
      (case lr_last_gate r of
         None \<Rightarrow> True
       | Some g \<Rightarrow> (case gs_gate_id g of None \<Rightarrow> False | Some i \<Rightarrow> valid_gate_id i) \<and> gs_revision g \<noteq> 0) \<and>
      length (lr_pending_alerts r) \<le> max_pending_alerts \<and> list_all (alert_ok env) (lr_pending_alerts r))"

lemma check_Ok [simp]: "check b e = Ok u \<longleftrightarrow> b"
  by (simp add: check_def)

lemma check_all_Ok: "check_all f xs = Ok u \<longleftrightarrow> list_all (\<lambda>x. f x = Ok ()) xs"
  by (induction xs) (auto simp: res_bind_Inr)

lemma check_causality_Ok: "check_causality c = Ok u \<longleftrightarrow> causality_ok c"
  by (simp add: check_causality_def causality_ok_def res_bind_Inr)

lemma check_alert_Ok: "check_alert env a = Ok u \<longleftrightarrow> alert_ok env a"
  by (simp add: check_alert_def alert_ok_def res_bind_Inr check_causality_Ok split: option.split)

lemma check_lane_Ok: "check_lane env i r = Ok u \<longleftrightarrow> lane_ok env i r"
  by (simp add: check_lane_def lane_ok_def res_bind_Inr check_all_Ok check_alert_Ok)

lemma validate_loaded_state_Ok:
  "validate_loaded_state env s = Ok u \<longleftrightarrow> length (lf_lanes s) \<le> max_lanes \<and> list_all (\<lambda>(i, r). lane_ok env i r) (lf_lanes s)"
  by (auto simp: validate_loaded_state_def check_all_Ok check_lane_Ok case_prod_unfold)

text \<open>The debug text of a string: in quotes, with quotes, backslashes and control characters escaped.\<close>

definition debug_char :: "char \<Rightarrow> string" where
  "debug_char c =
     (if c = CHR 0x22 \<or> c = CHR 0x5C then [CHR 0x5C, c]
      else if c = CHR 0x0A then [CHR 0x5C] @ ''n'' else if c = CHR 0x0D then [CHR 0x5C] @ ''r''
      else if c = CHR 0x09 then [CHR 0x5C] @ ''t'' else if c = CHR 0x00 then [CHR 0x5C] @ ''0'' else [c])"

definition debug_str :: "string \<Rightarrow> string" where
  "debug_str s = [CHR 0x22] @ concat (map debug_char s) @ [CHR 0x22]"

definition load_state :: "lane_env \<Rightarrow> lane_file \<Rightarrow> string + lane_state_file \<times> lane_store_status" where
  "load_state env file =
     (case file of
        NoFile \<Rightarrow> Ok (lane_state_new, StoreMissing)
      | ReadError e \<Rightarrow> Err e
      | NotJson e \<Rightarrow> Ok (lane_state_new, IgnoredInvalid e)
      | Parsed s \<Rightarrow>
          if lf_schema s = lane_state_schema then
            (case validate_loaded_state env s of
               Inr _ \<Rightarrow> Ok (s, StoreLoaded (length (lf_lanes s)))
             | Inl e \<Rightarrow> Ok (lane_state_new, IgnoredInvalid e))
          else Ok (lane_state_new, IgnoredInvalid (''unsupported lane-state schema '' @ debug_str (lf_schema s))))"

definition lane_store_open :: "lane_env \<Rightarrow> (nat \<Rightarrow> bool) \<Rightarrow> lane_file \<Rightarrow> string + lane_store" where
  "lane_store_open env disk_ok file =
     res_bind (load_state env file) (\<lambda>(s, status).
     res_bind (migrate_lane_ids env s) (\<lambda>(s, ids_migrated).
     case migrate_failure_causality env s of
       (s, failures_migrated) \<Rightarrow>
         (let st = \<lparr>ls_state = s, ls_disk = file, ls_status = status\<rparr>
          in if ids_migrated \<or> failures_migrated
             then (case persist_locked disk_ok st of (st', res) \<Rightarrow> res_bind res (\<lambda>_. Ok st'))
             else Ok st)))"

section \<open>Health\<close>

definition is_active_watch :: "lane_record \<Rightarrow> bool" where
  "is_active_watch r = (lr_watch_removed_at r = None \<and> lr_terminal r = None)"

definition count_phase :: "(string, nat) btree \<Rightarrow> lane_record \<Rightarrow> (string, nat) btree" where
  "count_phase phases r =
     (if is_active_watch r
      then let key = unwrap_or (map_option phase_as_str (lr_phase r)) ''unknown''
           in bt_insert key (unwrap_or (bt_get phases key) 0 + 1) phases
      else phases)"

definition status_json :: "lane_store_status \<Rightarrow> json" where
  "status_json s =
     (case s of
        StoreMissing \<Rightarrow> jobject [(''status'', JStr ''missing'')]
      | StoreLoaded n \<Rightarrow> jobject [(''status'', JStr ''loaded''), (''lanes'', jnat n)]
      | IgnoredInvalid e \<Rightarrow> jobject [(''status'', JStr ''ignored-invalid''), (''error'', JStr e)])"

definition health_json :: "lane_store \<Rightarrow> bool \<Rightarrow> json" where
  "health_json st plane_registered =
     (let records = lane_records st; s = ls_state st
      in jobject [(''schema'', JStr ''clawhip.gjc-health.v1''),
        (''store'', jobject [(''status'', status_json (ls_status st)), (''generation'', jnat (lf_generation s)),
           (''active_watches'', jnat (length (filter is_active_watch records))),
           (''removed_watches'', jnat (length (filter (\<lambda>r. lr_watch_removed_at r \<noteq> None) records))),
           (''audit_entries'', jnat (length (lf_audit s))), (''audit_entries_dropped'', jnat (lf_dropped s))]),
        (''phases'', JObj (map (\<lambda>(k, n). (k, jnat n)) (foldl count_phase [] records))),
        (''control_plane_registered'', JBool plane_registered)])"

end
