(* ===== verification/GjcLaneSteps.thy ===== *)
theory GjcLaneSteps imports GjcLane begin

text \<open>
  The lane store as a transition system: \<open>lane_step\<close> has one rule per operation of the store, \<open>record_step\<close>
  one per change of a single record. A property of records that every change preserves holds of every lane
  the store can reach; a relation that every change respects holds along every run.
\<close>

section \<open>Writing one record\<close>

text \<open>What \<open>mutate\<close>, an acknowledgement and a delivery update have in common.\<close>

definition write_lane ::
    "(nat \<Rightarrow> bool) \<Rightarrow> string \<Rightarrow> string \<Rightarrow> (audit_kind \<times> string) list \<Rightarrow> lane_record \<Rightarrow> lane_store \<Rightarrow> lane_store \<times> (string + unit)" where
  "write_lane disk_ok now i audit u st =
     persist_locked disk_ok (st\<lparr>ls_state := (push_audits now i audit (ls_state st))
       \<lparr>lf_lanes := bt_insert i (u\<lparr>lr_revision := lr_revision u + 1, lr_updated_at := now\<rparr>) (lf_lanes (ls_state st))\<rparr>\<rparr>)"

lemma push_audit_simps [simp]:
  "lf_lanes (push_audit e s) = lf_lanes s" "lf_aliases (push_audit e s) = lf_aliases s"
  "lf_generation (push_audit e s) = lf_generation s" "lf_schema (push_audit e s) = lf_schema s"
  by (simp_all add: push_audit_def Let_def)

lemma push_audits_simps [simp]:
  "lf_lanes (push_audits now i es s) = lf_lanes s" "lf_aliases (push_audits now i es s) = lf_aliases s"
  "lf_generation (push_audits now i es s) = lf_generation s" "lf_schema (push_audits now i es s) = lf_schema s"
  by (induction es arbitrary: s) auto

lemma persist_locked_simps [simp]:
  "ls_state (fst (persist_locked disk_ok st)) = (ls_state st)\<lparr>lf_generation := (lf_generation (ls_state st) + 1) mod 2 ^ 64\<rparr>"
  "ls_status (fst (persist_locked disk_ok st)) = ls_status st"
  by (simp_all add: persist_locked_def Let_def)

lemma persist_locked_disk:
  "ls_disk (fst (persist_locked disk_ok st)) = Parsed (ls_state (fst (persist_locked disk_ok st))) \<or>
   ls_disk (fst (persist_locked disk_ok st)) = ls_disk st \<and> \<not> is_ok (snd (persist_locked disk_ok st))"
  by (simp add: persist_locked_def Let_def)

text \<open>\<open>mutate\<close> refuses and leaves the store alone, or writes the record the change made of the current one.\<close>

lemma mutate_cases:
  obtains (refused) e where "mutate disk_ok now lane_id expected change st = (st, Err e)"
  | (written) r u audit outcome where "bt_get (lf_lanes (ls_state st)) (canonical_lane_id (ls_state st) lane_id) = Some r"
      "lr_revision r = expected" "change r = Ok (u, audit, outcome)" "lr_revision u < u64_max"
      "mutate disk_ok now lane_id expected change st =
         (fst (write_lane disk_ok now (canonical_lane_id (ls_state st) lane_id) audit u st),
          res_bind (snd (write_lane disk_ok now (canonical_lane_id (ls_state st) lane_id) audit u st))
            (\<lambda>_. Ok (u\<lparr>lr_revision := lr_revision u + 1, lr_updated_at := now\<rparr>, outcome)))"
proof (cases "bt_get (lf_lanes (ls_state st)) (canonical_lane_id (ls_state st) lane_id)")
  case None
  then show ?thesis by (intro refused) (simp add: mutate_def Let_def)
next
  case (Some r)
  show ?thesis
  proof (cases "lr_revision r = expected")
    case False
    with Some show ?thesis by (intro refused) (simp add: mutate_def Let_def)
  next
    case True
    show ?thesis
    proof (cases "change r")
      case (Inl e)
      with Some True show ?thesis by (intro refused) (simp add: mutate_def Let_def)
    next
      case (Inr x)
      then obtain u audit outcome where x: "change r = Ok (u, audit, outcome)" by (cases x) auto
      show ?thesis
      proof (cases "u64_max \<le> lr_revision u")
        case True
        with Some \<open>lr_revision r = expected\<close> x show ?thesis by (intro refused) (simp add: mutate_def Let_def)
      next
        case False
        with Some True x show ?thesis
          by (intro written) (simp_all add: mutate_def write_lane_def Let_def case_prod_unfold)
      qed
    qed
  qed
qed

lemma mutate_plain_cases:
  obtains (refused) e where "mutate_plain disk_ok now lane_id expected change st = (st, Err e)"
  | (written) r u audit where "bt_get (lf_lanes (ls_state st)) (canonical_lane_id (ls_state st) lane_id) = Some r"
      "lr_revision r = expected" "change r = Ok (u, audit)" "lr_revision u < u64_max"
      "mutate_plain disk_ok now lane_id expected change st =
         (fst (write_lane disk_ok now (canonical_lane_id (ls_state st) lane_id) audit u st),
          res_bind (snd (write_lane disk_ok now (canonical_lane_id (ls_state st) lane_id) audit u st))
            (\<lambda>_. Ok (u\<lparr>lr_revision := lr_revision u + 1, lr_updated_at := now\<rparr>)))"
proof (cases rule: mutate_cases[of disk_ok now lane_id expected "\<lambda>r. res_bind (change r) (\<lambda>(r', audit). Ok (r', audit, ()))" st])
  case (refused e)
  then show ?thesis by (intro that(1)) (simp add: mutate_plain_def res_bind_def)
next
  case (written r u audit outcome)
  then have "change r = Ok (u, audit)" by (auto simp: res_bind_def split: sum.splits)
  with written show ?thesis
    by (intro that(2)) (auto simp: mutate_plain_def res_bind_def split: sum.splits)
qed

section \<open>Staging\<close>

text \<open>An event of the bridge that becomes an alert, or such a failure with its scope added.\<close>

definition bridge_event :: "lane_env \<Rightarrow> incoming_event \<Rightarrow> bool" where
  "bridge_event env e =
     (\<exists>snap b out. snd (observe (le_bridge env) snap b) = Ok out \<and> e \<in> set (bo_events out) \<and> ev_kind e \<in> set alert_kinds)"

definition alert_event :: "lane_env \<Rightarrow> incoming_event \<Rightarrow> bool" where
  "alert_event env e = (\<exists>e'. bridge_event env e' \<and> (e = e' \<or> e = scope_failure e'))"

lemma bridge_alerts_events: "bridge_alerts env previous snap = Ok es \<Longrightarrow> e \<in> set es \<Longrightarrow> bridge_event env e"
  by (auto simp: bridge_alerts_def bridge_event_def res_bind_def split: sum.splits option.splits prod.splits) blast+

lemma bridge_event_alert [intro]: "bridge_event env e \<Longrightarrow> alert_event env e" "bridge_event env e \<Longrightarrow> alert_event env (scope_failure e)"
  by (auto simp: alert_event_def)

definition staged :: "lane_env \<Rightarrow> lane_record \<Rightarrow> lane_record \<Rightarrow> bool" where
  "staged env r u =
     (\<exists>as. u = r\<lparr>lr_pending_alerts := lr_pending_alerts r @ as\<rparr> \<and>
       (\<forall>a \<in> set as. \<exists>e now. alert_event env e \<and> pending_from_event e now = Ok a) \<and>
       (length (lr_pending_alerts r) \<le> max_pending_alerts \<longrightarrow> length (lr_pending_alerts r @ as) \<le> max_pending_alerts) \<and>
       (distinct (map pa_event_id (lr_pending_alerts r)) \<longrightarrow> distinct (map pa_event_id (lr_pending_alerts r @ as))))"

lemma staged_refl: "staged env r r"
  unfolding staged_def by (rule exI[of _ "[]"]) simp

lemma staged_trans: "staged env r u \<Longrightarrow> staged env u v \<Longrightarrow> staged env r v"
  unfolding staged_def by (elim exE conjE, rule_tac x="as @ asa" in exI) auto

lemma staged_one:
  assumes "pending_from_event e now = Ok a" "alert_event env e" "queue_pending_alert a r = Ok u"
  shows "staged env r u"
proof (cases "u = r")
  case False
  with assms(3) have u: "u = r\<lparr>lr_pending_alerts := lr_pending_alerts r @ [a]\<rparr>"
    and fresh: "\<not> list_ex (\<lambda>x. pa_event_id x = pa_event_id a) (lr_pending_alerts r)"
    and room: "length (lr_pending_alerts r) < max_pending_alerts"
    by (auto simp: queue_pending_alert_def split: if_splits)
  show ?thesis unfolding staged_def
    using assms(1,2) fresh room by (intro exI[of _ "[a]"]) (auto simp: u list_ex_iff)
qed (simp add: staged_refl)

lemma queue_events_staged:
  "queue_events now es r = Ok u \<Longrightarrow> (\<And>e. e \<in> set es \<Longrightarrow> alert_event env e) \<Longrightarrow> staged env r u"
proof (induction now es r rule: queue_events.induct)
  case (2 now e es r)
  then obtain a v where a: "pending_from_event e now = Ok a" "queue_pending_alert a r = Ok v" "queue_events now es v = Ok u"
    by (auto simp: res_bind_def split: sum.splits)
  have "staged env r v" using staged_one[OF a(1) _ a(2)] 2(3) by simp
  moreover have "staged env v u" using 2(1)[OF a(3)] 2(3) by simp
  ultimately show ?case by (rule staged_trans)
qed (simp add: staged_refl)

lemma stage_if_staged:
  assumes "stage_if b now events r = Ok u" and "\<And>es e. events = Ok es \<Longrightarrow> e \<in> set es \<Longrightarrow> alert_event env e"
  shows "staged env r u"
  using assms queue_events_staged
  by (auto simp: stage_if_def res_bind_def staged_refl split: if_splits sum.splits)

lemma stage_alerts_staged:
  assumes "stage_alerts env now ob r r' = Ok u"
  shows "staged env r' u"
proof -
  let ?current = "observation_snapshot r' (Some r) ob now None"
  let ?before = "observation_snapshot r None (previous_observation r) now None"
  let ?events = "bridge_alerts env None ?current"
  from assms obtain r1 r2 where
    r1: "stage_if (observed_terminal r ob \<noteq> None \<or> new_failed_turn r ob) now
           (res_bind ?events (\<lambda>es. Ok (map scope_failure es))) r' = Ok r1" and
    r2: "stage_if (turn_stalled r ob ?current) now (bridge_alerts env (Some ?before) ?current) r1 = Ok r2" and
    u: "stage_if (new_gate_episode r ob) now ?events r2 = Ok u"
    unfolding stage_alerts_def Let_def res_bind_Inr by blast
  have "staged env r' r1"
    by (rule stage_if_staged[OF r1]) (use bridge_alerts_events in \<open>fastforce simp: res_bind_Inr\<close>)
  moreover have "staged env r1 r2"
    by (rule stage_if_staged[OF r2]) (auto dest!: bridge_alerts_events)
  moreover have "staged env r2 u"
    by (rule stage_if_staged[OF u]) (auto dest!: bridge_alerts_events)
  ultimately show ?thesis using staged_trans by blast
qed

lemma stage_endpoint_staged:
  assumes "stage_endpoint_alert env now reason r = Ok u"
  obtains "u = r" "lr_endpoint_alerted r"
  | v where "\<not> lr_endpoint_alerted r" "staged env (r\<lparr>lr_endpoint_episode := u64_saturating_succ (lr_endpoint_episode r)\<rparr>) v"
      "u = v\<lparr>lr_endpoint_alerted := True\<rparr>"
proof (cases "lr_endpoint_alerted r")
  case False
  let ?r = "r\<lparr>lr_endpoint_episode := u64_saturating_succ (lr_endpoint_episode r)\<rparr>"
  from assms False obtain es v where es: "bridge_alerts env None (failure_snapshot now reason ?r) = Ok es"
      "queue_events now es ?r = Ok v" "u = v\<lparr>lr_endpoint_alerted := True\<rparr>"
    by (auto simp: stage_endpoint_alert_def Let_def res_bind_def split: sum.splits)
  have "staged env ?r v"
    by (rule queue_events_staged[OF es(2)]) (auto dest: bridge_alerts_events[OF es(1)])
  with False es(3) that(2) show ?thesis by blast
qed (use assms that(1) in \<open>simp add: stage_endpoint_alert_def\<close>)

section \<open>Changes of one record\<close>

text \<open>The operations of the store, as labels of steps.\<close>

datatype lane_label =
    LRegister | LClaim | LObserve | LUnavailable | LEndpointFailure | LRotation | LRuntimeGone | LGhost | LReclaim
  | LRetire | LPr | LWatermark | LResume | LSuppress | LAttempt | LAcknowledge | LDelivery | LNote | LRestart

inductive record_step :: "lane_env \<Rightarrow> lane_label \<Rightarrow> lane_record \<Rightarrow> lane_record \<Rightarrow> bool" for env where
  claim: "claim_change now w r = Ok (u, audit) \<Longrightarrow> record_step env LClaim r u"
| observation: "observation_change env now ob r = Ok (u, audit, outcome) \<Longrightarrow> record_step env LObserve r u"
| unavailable: "unavailable_change env now reason n r = Ok (u, audit, suspended) \<Longrightarrow> record_step env LUnavailable r u"
| endpoint: "stage_endpoint_alert env now reason r = Ok u \<Longrightarrow> record_step env LEndpointFailure r u"
| rotation: "rotation_change g r = Ok (u, audit) \<Longrightarrow> record_step env LRotation r u"
| gone: "runtime_gone_change now evidence r = Ok (u, audit) \<Longrightarrow> record_step env LRuntimeGone r u"
| ghost: "ghost_change now reason r = Ok (u, audit) \<Longrightarrow> record_step env LGhost r u"
| reclaim: "reclaim_change g w r = Ok (u, audit) \<Longrightarrow> (case w of None \<Rightarrow> True | Some p \<Rightarrow> valid_worktree env p) \<Longrightarrow>
     record_step env LReclaim r u"
| retire: "retire_change now reason r = Ok (u, audit) \<Longrightarrow> record_step env LRetire r u"
| pr: "pr_change now resolved r = Ok (u, audit, outcome) \<Longrightarrow> record_step env LPr r u"
| watermark: "lr_sdk_revision r < n \<Longrightarrow> record_step env LWatermark r (r\<lparr>lr_sdk_revision := n\<rparr>)"
| resume: "resume_change r = Ok (u, audit) \<Longrightarrow> record_step env LResume r u"
| suppress: "suppress_change a ob r = Ok (u, audit) \<Longrightarrow> record_step env LSuppress r u"
| attempt: "attempt_change event_id r = Ok (u, audit) \<Longrightarrow> record_step env LAttempt r u"
| acknowledge: "record_step env LAcknowledge r
     (r\<lparr>lr_pending_alerts := filter (\<lambda>a. pa_event_id a \<noteq> event_id) (lr_pending_alerts r)\<rparr>)"
| delivery: "find_alert event_id (lr_pending_alerts r) = Some a \<Longrightarrow> valid_destination d \<Longrightarrow>
     update_delivery now d next a = Ok (Some a') \<Longrightarrow>
     record_step env LDelivery r (r\<lparr>lr_pending_alerts := replace_alert event_id a' (lr_pending_alerts r)\<rparr>)"

section \<open>Steps of the store\<close>

inductive lane_step :: "lane_env \<Rightarrow> (nat \<Rightarrow> bool) \<Rightarrow> lane_label \<Rightarrow> lane_store \<Rightarrow> lane_store \<Rightarrow> bool"
  for env disk_ok where
  register: "lane_step env disk_ok LRegister st (fst (register_lane env disk_ok now rq st))"
| claim: "lane_step env disk_ok LClaim st (fst (claim_ownership disk_ok now i n w st))"
| observation: "lane_step env disk_ok LObserve st (fst (apply_observation env disk_ok now i n ob st))"
| staged: "lane_step env disk_ok LObserve st (fst (stage_bridge_failure env disk_ok now i n failure st))"
| unavailable: "lane_step env disk_ok LUnavailable st (fst (mark_unavailable env disk_ok now i n reason limit st))"
| endpoint: "lane_step env disk_ok LEndpointFailure st (fst (enqueue_endpoint_failure env disk_ok now i n reason st))"
| rotation: "lane_step env disk_ok LRotation st (fst (note_endpoint_rotation disk_ok now i n g st))"
| gone: "lane_step env disk_ok LRuntimeGone st (fst (mark_runtime_gone disk_ok now i n evidence st))"
| ghost: "lane_step env disk_ok LGhost st (fst (remove_ghost_watch disk_ok now i n reason st))"
| reclaim: "(case w of None \<Rightarrow> True | Some p \<Rightarrow> valid_worktree env p) \<Longrightarrow>
     lane_step env disk_ok LReclaim st (fst (reclaim_tombstone disk_ok now i n g w st))"
| retire: "lane_step env disk_ok LRetire st (fst (retire_lane disk_ok now i n reason st))"
| pr: "lane_step env disk_ok LPr st (fst (reconcile_pr_binding disk_ok now i n resolved st))"
| watermark: "lane_step env disk_ok LWatermark st (fst (set_sdk_revision_if disk_ok now i old new st))"
| resume: "lane_step env disk_ok LResume st (fst (mutate_plain disk_ok now i n resume_change st))"
| suppress: "lane_step env disk_ok LSuppress st (fst (suppress_historical_failure_alert disk_ok now i n a ob st))"
| attempt: "lane_step env disk_ok LAttempt st (fst (note_pending_alert_attempt disk_ok now i n e st))"
| acknowledge: "lane_step env disk_ok LAcknowledge st (fst (acknowledge_pending_alert disk_ok now i n e st))"
| delivery: "lane_step env disk_ok LDelivery st (fst (update_pending_alert_delivery disk_ok now i e d next st))"
| restart_note: "lane_step env disk_ok LNote st (fst (note_restart disk_ok now st))"
| conflict_note: "lane_step env disk_ok LNote st (note_revision_conflict disk_ok now i n st)"
| restart: "lane_step env disk_ok LRestart st (lane_reload st)"

text \<open>What a step can do to the store.\<close>

inductive store_effect :: "lane_env \<Rightarrow> (nat \<Rightarrow> bool) \<Rightarrow> lane_label \<Rightarrow> lane_store \<Rightarrow> lane_store \<Rightarrow> bool"
  for env disk_ok where
  unchanged: "store_effect env disk_ok l st st"
| written: "bt_get (lf_lanes (ls_state st)) i = Some r \<Longrightarrow> record_step env l r u \<Longrightarrow> lr_revision r < u64_max \<Longrightarrow>
     store_effect env disk_ok l st (fst (write_lane disk_ok now i audit u st))"
| registered: "bt_get (lf_lanes (ls_state st)) (gjc_lane_id env (rq_sdk_session_id rq)) = None \<Longrightarrow>
     validate_registration env rq = Ok () \<Longrightarrow>
     r = lane_record_new (gjc_lane_id env (rq_sdk_session_id rq)) (rq_sdk_session_id rq) (rq_worktree rq) branch g
           (registered_ownership now (rq_owner_id rq)) pr now \<Longrightarrow>
     store_effect env disk_ok LRegister st (fst (persist_locked disk_ok (st\<lparr>ls_state := (push_audit e (ls_state st))
       \<lparr>lf_lanes := bt_insert (gjc_lane_id env (rq_sdk_session_id rq)) r (lf_lanes (ls_state st))\<rparr>\<rparr>)))"
| noted: "store_effect env disk_ok l st (fst (persist_locked disk_ok (st\<lparr>ls_state := push_audit e (ls_state st)\<rparr>)))"
| restarted: "store_effect env disk_ok LRestart st (lane_reload st)"

section \<open>What a change leaves alone\<close>

lemma staged_frame:
  assumes "staged env r u"
  shows "lr_revision u = lr_revision r" "lr_lane_id u = lr_lane_id r" "lr_sdk_session_id u = lr_sdk_session_id r"
    "lr_terminal u = lr_terminal r" "lr_watch_removed_at u = lr_watch_removed_at r" "lr_review_valid u = lr_review_valid r"
    "lr_owner_valid u = lr_owner_valid r" "lr_sdk_revision u = lr_sdk_revision r" "lr_ownership u = lr_ownership r"
    "lr_last_gate u = lr_last_gate r" "lr_worktree u = lr_worktree r" "lr_last_turn u = lr_last_turn r"
    "lr_unavailable_polls u = lr_unavailable_polls r" "lr_polling_suspended u = lr_polling_suspended r"
    "lr_endpoint_alerted u = lr_endpoint_alerted r" "lr_phase u = lr_phase r"
  using assms by (auto simp: staged_def)

lemma observe_gate_frame: "observe_gate now ob r = Ok u \<Longrightarrow> u = r\<lparr>lr_last_gate := lr_last_gate u\<rparr>"
  by (auto simp: observe_gate_def Let_def split: option.splits if_splits)

lemma observation_change_cases:
  assumes "observation_change env now observation r = Ok (u, audit, outcome)"
  obtains ob r1 where "ob = sanitize_observation_selection observation" "check_observation r ob = Ok ()"
    "observe_gate now ob (observe_endpoint now ob r) = Ok r1"
    "stage_alerts env now ob r (observe_phase ob (observe_terminal now ob r1)) = Ok u"
  using assms unfolding observation_change_def Let_def res_bind_Inr by (elim exE conjE) (auto intro: that)

lemma observe_endpoint_simps [simp]:
  "lr_revision (observe_endpoint now ob r) = lr_revision r"
  "lr_lane_id (observe_endpoint now ob r) = lr_lane_id r"
  "lr_sdk_session_id (observe_endpoint now ob r) = lr_sdk_session_id r"
  "lr_terminal (observe_endpoint now ob r) = lr_terminal r"
  "lr_watch_removed_at (observe_endpoint now ob r) = lr_watch_removed_at r"
  "lr_review_valid (observe_endpoint now ob r) = (lr_review_valid r \<and> \<not> generation_moved r ob)"
  "lr_owner_valid (observe_endpoint now ob r) = (lr_owner_valid r \<and> \<not> generation_moved r ob)"
  "lr_sdk_revision (observe_endpoint now ob r) = ob_revision ob"
  "lr_ownership (observe_endpoint now ob r) = lr_ownership r"
  "lr_worktree (observe_endpoint now ob r) = lr_worktree r"
  "lr_last_gate (observe_endpoint now ob r) = lr_last_gate r"
  "lr_pending_alerts (observe_endpoint now ob r) = lr_pending_alerts r"
  by (simp_all add: observe_endpoint_def Let_def)

lemma observe_terminal_simps [simp]:
  "lr_revision (observe_terminal now ob r) = lr_revision r"
  "lr_lane_id (observe_terminal now ob r) = lr_lane_id r"
  "lr_sdk_session_id (observe_terminal now ob r) = lr_sdk_session_id r"
  "lr_watch_removed_at (observe_terminal now ob r) = lr_watch_removed_at r"
  "lr_review_valid (observe_terminal now ob r) = lr_review_valid r"
  "lr_owner_valid (observe_terminal now ob r) = lr_owner_valid r"
  "lr_sdk_revision (observe_terminal now ob r) = lr_sdk_revision r"
  "lr_worktree (observe_terminal now ob r) = lr_worktree r"
  "lr_last_gate (observe_terminal now ob r) = lr_last_gate r"
  "lr_pending_alerts (observe_terminal now ob r) = lr_pending_alerts r"
  "lr_terminal r \<noteq> None \<Longrightarrow> lr_terminal (observe_terminal now ob r) = lr_terminal r"
  "lr_terminal r \<noteq> None \<Longrightarrow> lr_ownership (observe_terminal now ob r) = lr_ownership r"
  by (auto simp: observe_terminal_def observed_terminal_def set_terminal_def split: option.split)

lemma observe_phase_simps [simp]:
  "lr_revision (observe_phase ob r) = lr_revision r" "lr_lane_id (observe_phase ob r) = lr_lane_id r"
  "lr_sdk_session_id (observe_phase ob r) = lr_sdk_session_id r" "lr_terminal (observe_phase ob r) = lr_terminal r"
  "lr_watch_removed_at (observe_phase ob r) = lr_watch_removed_at r"
  "lr_review_valid (observe_phase ob r) = lr_review_valid r" "lr_owner_valid (observe_phase ob r) = lr_owner_valid r"
  "lr_sdk_revision (observe_phase ob r) = lr_sdk_revision r" "lr_ownership (observe_phase ob r) = lr_ownership r"
  "lr_worktree (observe_phase ob r) = lr_worktree r" "lr_last_gate (observe_phase ob r) = lr_last_gate r"
  "lr_pending_alerts (observe_phase ob r) = lr_pending_alerts r"
  by (simp_all add: observe_phase_def)

text \<open>The record before the alerts of an observation are staged.\<close>

lemma observation_record:
  assumes "observe_gate now ob (observe_endpoint now ob r) = Ok r1"
  shows "lr_revision r1 = lr_revision r" "lr_lane_id r1 = lr_lane_id r" "lr_sdk_session_id r1 = lr_sdk_session_id r"
    "lr_terminal r1 = lr_terminal r" "lr_watch_removed_at r1 = lr_watch_removed_at r"
    "lr_review_valid r1 = (lr_review_valid r \<and> \<not> generation_moved r ob)"
    "lr_owner_valid r1 = (lr_owner_valid r \<and> \<not> generation_moved r ob)" "lr_sdk_revision r1 = ob_revision ob"
    "lr_ownership r1 = lr_ownership r" "lr_worktree r1 = lr_worktree r" "lr_pending_alerts r1 = lr_pending_alerts r"
proof -
  obtain g where "r1 = (observe_endpoint now ob r)\<lparr>lr_last_gate := g\<rparr>" using observe_gate_frame[OF assms] by blast
  then show "lr_revision r1 = lr_revision r" "lr_lane_id r1 = lr_lane_id r" "lr_sdk_session_id r1 = lr_sdk_session_id r"
    "lr_terminal r1 = lr_terminal r" "lr_watch_removed_at r1 = lr_watch_removed_at r"
    "lr_review_valid r1 = (lr_review_valid r \<and> \<not> generation_moved r ob)"
    "lr_owner_valid r1 = (lr_owner_valid r \<and> \<not> generation_moved r ob)" "lr_sdk_revision r1 = ob_revision ob"
    "lr_ownership r1 = lr_ownership r" "lr_worktree r1 = lr_worktree r" "lr_pending_alerts r1 = lr_pending_alerts r"
    by simp_all
qed


lemma stage_endpoint_frame:
  assumes "stage_endpoint_alert env now reason r = Ok u"
  shows "lr_revision u = lr_revision r" "lr_lane_id u = lr_lane_id r" "lr_sdk_session_id u = lr_sdk_session_id r"
    "lr_terminal u = lr_terminal r" "lr_watch_removed_at u = lr_watch_removed_at r" "lr_review_valid u = lr_review_valid r"
    "lr_owner_valid u = lr_owner_valid r" "lr_sdk_revision u = lr_sdk_revision r" "lr_ownership u = lr_ownership r"
    "lr_last_gate u = lr_last_gate r" "lr_worktree u = lr_worktree r" "lr_endpoint_alerted u"
  using assms by (rule stage_endpoint_staged; simp add: staged_frame)+

lemma unavailable_change_cases:
  assumes "unavailable_change env now reason n r = Ok (u, audit, suspended)"
  obtains v where "stage_endpoint_alert env now reason (r\<lparr>lr_phase := Some PhUnavailable, lr_last_query_at := Some now,
      lr_unavailable_polls := u32_saturating_succ (lr_unavailable_polls r)\<rparr>) = Ok v"
    "u = v\<lparr>lr_polling_suspended := lr_polling_suspended u\<rparr>"
proof -
  from assms obtain v where v: "stage_endpoint_alert env now reason (r\<lparr>lr_phase := Some PhUnavailable, lr_last_query_at := Some now,
      lr_unavailable_polls := u32_saturating_succ (lr_unavailable_polls r)\<rparr>) = Ok v"
    and "u = (if \<not> lr_polling_suspended v \<and> n \<le> lr_unavailable_polls v then v\<lparr>lr_polling_suspended := True\<rparr> else v)"
    unfolding unavailable_change_def Let_def res_bind_Inr by (elim exE conjE) (simp only: sum.inject prod.inject, blast)
  then have "u = v\<lparr>lr_polling_suspended := lr_polling_suspended u\<rparr>" by simp
  with v that show ?thesis by blast
qed

section \<open>What only moves one way\<close>

text \<open>
  A terminal disposition and a tombstone stay, invalid evidence stays invalid, the watermark and the revision
  do not fall.
\<close>

definition advances :: "lane_record \<Rightarrow> lane_record \<Rightarrow> bool" where
  "advances r u =
     (lr_lane_id u = lr_lane_id r \<and> lr_sdk_session_id u = lr_sdk_session_id r \<and>
      (lr_terminal r \<noteq> None \<longrightarrow> lr_terminal u = lr_terminal r) \<and>
      (lr_watch_removed_at r \<noteq> None \<longrightarrow> lr_watch_removed_at u = lr_watch_removed_at r) \<and>
      (lr_review_valid u \<longrightarrow> lr_review_valid r) \<and> (lr_owner_valid u \<longrightarrow> lr_owner_valid r) \<and>
      lr_sdk_revision r \<le> lr_sdk_revision u \<and> lr_revision r \<le> lr_revision u)"

lemma advances_refl: "advances r r"
  by (simp add: advances_def)

lemma advances_trans: "advances r u \<Longrightarrow> advances u v \<Longrightarrow> advances r v"
  by (auto simp: advances_def)

lemma check_observation_revision: "check_observation r ob = Ok () \<Longrightarrow> lr_sdk_revision r \<le> ob_revision ob"
  by (auto simp: check_observation_def split: if_splits)

lemma observation_advances:
  assumes "observation_change env now observation r = Ok (u, audit, outcome)"
  shows "advances r u" "lr_revision u = lr_revision r"
proof -
  from assms obtain ob r1 where 1: "check_observation r ob = Ok ()" "observe_gate now ob (observe_endpoint now ob r) = Ok r1"
      "stage_alerts env now ob r (observe_phase ob (observe_terminal now ob r1)) = Ok u"
    by (rule observation_change_cases)
  from staged_frame[OF stage_alerts_staged[OF 1(3)]] observation_record[OF 1(2)] check_observation_revision[OF 1(1)]
  show "advances r u" "lr_revision u = lr_revision r" by (simp_all add: advances_def)
qed

lemma unavailable_advances:
  assumes "unavailable_change env now reason n r = Ok (u, audit, suspended)"
  shows "advances r u" "lr_revision u = lr_revision r"
proof -
  from assms obtain v x where v: "stage_endpoint_alert env now reason (r\<lparr>lr_phase := Some PhUnavailable,
      lr_last_query_at := Some now, lr_unavailable_polls := u32_saturating_succ (lr_unavailable_polls r)\<rparr>) = Ok v"
    and u: "u = v\<lparr>lr_polling_suspended := x\<rparr>" by (rule unavailable_change_cases) blast
  show "advances r u" "lr_revision u = lr_revision r"
    using stage_endpoint_frame[OF v] by (simp_all add: u advances_def)
qed

lemmas plain_change_defs = claim_change_def rotation_change_def runtime_gone_change_def set_terminal_def ghost_change_def
  reclaim_change_def retire_change_def resume_change_def suppress_change_def attempt_change_def Let_def

lemma pr_change_frame:
  assumes "pr_change now resolved r = Ok (u, audit, outcome)"
  shows "u = r\<lparr>lr_review_valid := lr_review_valid u, lr_owner_valid := lr_owner_valid u,
      lr_evidence_revision := lr_evidence_revision u, lr_pr := lr_pr u\<rparr>"
    and "(lr_review_valid u \<longrightarrow> lr_review_valid r) \<and> (lr_owner_valid u \<longrightarrow> lr_owner_valid r)"
  using assms by (auto simp: pr_change_def invalidate_evidence_def Let_def split: option.splits if_splits)

lemma claim_advances: "claim_change now w r = Ok (u, audit) \<Longrightarrow> advances r u \<and> lr_revision u = lr_revision r"
  by (auto simp: advances_def claim_change_def split: if_splits)
lemma rotation_advances: "rotation_change g r = Ok (u, audit) \<Longrightarrow> advances r u \<and> lr_revision u = lr_revision r"
  by (auto simp: advances_def rotation_change_def split: if_splits)
lemma gone_advances: "runtime_gone_change now evidence r = Ok (u, audit) \<Longrightarrow> advances r u \<and> lr_revision u = lr_revision r"
  by (auto simp: advances_def runtime_gone_change_def set_terminal_def split: if_splits)
lemma ghost_advances: "ghost_change now reason r = Ok (u, audit) \<Longrightarrow> advances r u \<and> lr_revision u = lr_revision r"
  by (auto simp: advances_def ghost_change_def split: if_splits option.splits)
lemma resume_advances: "resume_change r = Ok (u, audit) \<Longrightarrow> advances r u \<and> lr_revision u = lr_revision r"
  by (auto simp: advances_def resume_change_def)
lemma suppress_advances: "suppress_change a ob r = Ok (u, audit) \<Longrightarrow> advances r u \<and> lr_revision u = lr_revision r"
  by (auto simp: advances_def suppress_change_def Let_def split: if_splits)
lemma attempt_advances: "attempt_change event_id r = Ok (u, audit) \<Longrightarrow> advances r u \<and> lr_revision u = lr_revision r"
  by (auto simp: advances_def attempt_change_def split: option.splits)

lemmas plain_advances = claim_advances rotation_advances gone_advances ghost_advances resume_advances suppress_advances
  attempt_advances

lemma retire_advances: "retire_change now reason r = Ok (u, audit) \<Longrightarrow> advances r u \<and> lr_revision u = lr_revision r"
  by (auto simp: advances_def retire_change_def set_terminal_def Let_def split: if_splits)

text \<open>No change touches the revision of the record: it moves when the record is written.\<close>

lemma record_step_advances: "record_step env l r u \<Longrightarrow> lr_revision u = lr_revision r \<and> (l \<noteq> LReclaim \<longrightarrow> advances r u)"
proof (induction rule: record_step.induct)
  case (endpoint now reason r u)
  from stage_endpoint_frame[OF this] show ?case by (simp add: advances_def)
next
  case (pr now resolved r u audit outcome)
  obtain a b c d where u: "u = r\<lparr>lr_review_valid := a, lr_owner_valid := b, lr_evidence_revision := c, lr_pr := d\<rparr>"
    using pr_change_frame(1)[OF pr] by blast
  from pr_change_frame(2)[OF pr] show ?case by (simp add: u advances_def)
next
  case (reclaim g w r u audit)
  then show ?case by (auto simp: reclaim_change_def split: if_splits)
next
  case (observation now ob r u audit outcome)
  from observation_advances[OF this] show ?case by simp
next
  case (unavailable now reason n r u audit suspended)
  from unavailable_advances[OF this] show ?case by simp
qed (simp_all add: plain_advances retire_advances, simp_all add: advances_def)

lemma record_step_ids:
  assumes "record_step env l r u"
  shows "lr_lane_id u = lr_lane_id r" "lr_sdk_session_id u = lr_sdk_session_id r"
proof -
  have "lr_lane_id u = lr_lane_id r \<and> lr_sdk_session_id u = lr_sdk_session_id r"
  proof (cases "l = LReclaim")
    case True
    with assms show ?thesis by cases (auto simp: reclaim_change_def split: if_splits)
  next
    case False
    with record_step_advances[OF assms] show ?thesis by (simp add: advances_def)
  qed
  then show "lr_lane_id u = lr_lane_id r" "lr_sdk_session_id u = lr_sdk_session_id r" by simp_all
qed

section \<open>Every operation is a step\<close>

lemma mutate_effect:
  assumes "\<And>r u audit outcome. change r = Ok (u, audit, outcome) \<Longrightarrow> record_step env l r u"
  shows "store_effect env disk_ok l st (fst (mutate disk_ok now i n change st))"
proof (cases rule: mutate_cases[of disk_ok now i n change st])
  case (refused e)
  then show ?thesis by (simp add: unchanged)
next
  case (written r u audit outcome)
  have step: "record_step env l r u" using assms written(3) by blast
  then have "lr_revision r < u64_max" using record_step_advances[OF step] written(4) by simp
  with step written(1,5) show ?thesis by (simp add: store_effect.written)
qed

lemma mutate_plain_effect:
  assumes "\<And>r u audit. change r = Ok (u, audit) \<Longrightarrow> record_step env l r u"
  shows "store_effect env disk_ok l st (fst (mutate_plain disk_ok now i n change st))"
proof (cases rule: mutate_plain_cases[of disk_ok now i n change st])
  case (refused e)
  then show ?thesis by (simp add: unchanged)
next
  case (written r u audit)
  have step: "record_step env l r u" using assms written(3) by blast
  then have "lr_revision r < u64_max" using record_step_advances[OF step] written(4) by simp
  with step written(1,5) show ?thesis by (simp add: store_effect.written)
qed

lemma register_effect: "store_effect env disk_ok LRegister st (fst (register_lane env disk_ok now rq st))"
proof (cases "\<exists>e. ls_status st = IgnoredInvalid e \<or> validate_registration env rq = Err e \<or>
    bt_get (lf_lanes (ls_state st)) (gjc_lane_id env (rq_sdk_session_id rq)) \<noteq> None")
  case True
  then show ?thesis
    by (auto simp: register_lane_def Let_def unchanged split: lane_store_status.splits sum.splits option.splits)
next
  case False
  then have "validate_registration env rq = Ok ()" by (cases "validate_registration env rq") auto
  moreover from False have "bt_get (lf_lanes (ls_state st)) (gjc_lane_id env (rq_sdk_session_id rq)) = None" by blast
  ultimately show ?thesis using False registered[OF _ _ refl, of st env rq disk_ok]
    by (simp add: register_lane_def Let_def case_prod_unfold split: lane_store_status.splits)
qed

lemma acknowledge_effect: "store_effect env disk_ok LAcknowledge st (fst (acknowledge_pending_alert disk_ok now i n e st))"
proof (cases "bt_get (lf_lanes (ls_state st)) (canonical_lane_id (ls_state st) i)")
  case None
  then show ?thesis by (simp add: acknowledge_pending_alert_def Let_def unchanged)
next
  case (Some r)
  let ?r = "r\<lparr>lr_pending_alerts := filter (\<lambda>a. pa_event_id a \<noteq> e) (lr_pending_alerts r)\<rparr>"
  show ?thesis
  proof (cases "lr_revision r \<noteq> n \<or> u64_max \<le> lr_revision r \<or>
      length (lr_pending_alerts ?r) = length (lr_pending_alerts r)")
    case True
    with Some show ?thesis by (auto simp: acknowledge_pending_alert_def Let_def unchanged)
  next
    case False
    with Some have "fst (acknowledge_pending_alert disk_ok now i n e st) =
        fst (write_lane disk_ok now (canonical_lane_id (ls_state st) i) [] ?r st)"
      by (auto simp: acknowledge_pending_alert_def write_lane_def Let_def case_prod_unfold)
    then show ?thesis using False store_effect.written[OF Some record_step.acknowledge] by simp
  qed
qed

lemma delivery_effect: "store_effect env disk_ok LDelivery st (fst (update_pending_alert_delivery disk_ok now i e d next st))"
proof (cases "fst (update_pending_alert_delivery disk_ok now i e d next st) = st")
  case False
  let ?c = "canonical_lane_id (ls_state st) i"
  from False obtain r a a' where r: "bt_get (lf_lanes (ls_state st)) ?c = Some r" and
      a: "find_alert e (lr_pending_alerts r) = Some a" "update_delivery now d next a = Ok (Some a')"
      "valid_destination d" "lr_revision r < u64_max"
    by (auto simp: update_pending_alert_delivery_def Let_def not_le split: if_splits option.splits sum.splits)
  then have "fst (update_pending_alert_delivery disk_ok now i e d next st) =
      fst (write_lane disk_ok now ?c [] (r\<lparr>lr_pending_alerts := replace_alert e a' (lr_pending_alerts r)\<rparr>) st)"
    by (auto simp: update_pending_alert_delivery_def write_lane_def Let_def case_prod_unfold)
  with store_effect.written[OF r record_step.delivery[OF a(1,3,2)] a(4)] show ?thesis by simp
qed (simp add: unchanged)

lemma lane_step_effect: "lane_step env disk_ok l st st' \<Longrightarrow> store_effect env disk_ok l st st'"
proof (induction rule: lane_step.induct)
  case (staged st now i n failure)
  show ?case
    by (auto simp: stage_bridge_failure_def Let_def case_prod_unfold unchanged apply_observation_def
        intro!: mutate_effect record_step.observation split: sum.split)
next
  case (watermark st now i old new)
  show ?case
    by (auto simp: set_sdk_revision_if_def unchanged intro!: mutate_plain_effect record_step.watermark
        split: option.split if_splits)
qed (auto simp: register_effect acknowledge_effect delivery_effect claim_ownership_def apply_observation_def
      mark_unavailable_def enqueue_endpoint_failure_def note_endpoint_rotation_def mark_runtime_gone_def
      remove_ghost_watch_def reclaim_tombstone_def retire_lane_def reconcile_pr_binding_def res_bind_Inr
      suppress_historical_failure_alert_def note_pending_alert_attempt_def note_restart_def note_revision_conflict_def
      note_audit_def intro!: mutate_effect mutate_plain_effect record_step.intros noted restarted)

section \<open>Runs\<close>

definition lane_run :: "lane_env \<Rightarrow> (nat \<Rightarrow> bool) \<Rightarrow> lane_label set \<Rightarrow> lane_store \<Rightarrow> lane_store \<Rightarrow> bool" where
  "lane_run env disk_ok L = (\<lambda>st st'. \<exists>l \<in> L. lane_step env disk_ok l st st')\<^sup>*\<^sup>*"

lemma lane_run_refl [simp]: "lane_run env disk_ok L st st"
  by (simp add: lane_run_def)

lemma lane_run_step: "lane_run env disk_ok L st st' \<Longrightarrow> l \<in> L \<Longrightarrow> lane_step env disk_ok l st' st'' \<Longrightarrow> lane_run env disk_ok L st st''"
  unfolding lane_run_def by (rule rtranclp.rtrancl_into_rtrancl) auto

lemma lane_run_trans: "lane_run env disk_ok L st st' \<Longrightarrow> lane_run env disk_ok L st' st'' \<Longrightarrow> lane_run env disk_ok L st st''"
  unfolding lane_run_def by (rule rtranclp_trans)

lemma lane_run_induct [consumes 1, case_names start step]:
  assumes "lane_run env disk_ok L st st'"
    and "P st" and "\<And>a b l. P a \<Longrightarrow> l \<in> L \<Longrightarrow> store_effect env disk_ok l a b \<Longrightarrow> P b"
  shows "P st'"
  using assms(1) unfolding lane_run_def
  by (induction rule: rtranclp_induct) (use assms(2,3) lane_step_effect in blast)+

lemma resume_run: "LResume \<in> L \<Longrightarrow> lane_run env disk_ok L st (fst (resume_each disk_ok now rs st))"
proof (induction rs arbitrary: st)
  case (Cons r rs)
  have "lane_run env disk_ok L st (fst (mutate_plain disk_ok now (lr_lane_id r) (lr_revision r) resume_change st))"
    by (rule lane_run_step[OF lane_run_refl Cons(2) lane_step.resume])
  from lane_run_trans[OF this Cons(1)[OF Cons(2)]] show ?case by (simp add: case_prod_unfold)
qed simp

definition stamped :: "string \<Rightarrow> lane_record \<Rightarrow> lane_record" where
  "stamped now u = u\<lparr>lr_revision := lr_revision u + 1, lr_updated_at := now\<rparr>"

lemma write_lane_state:
  "lf_lanes (ls_state (fst (write_lane disk_ok now i audit u st))) = bt_insert i (stamped now u) (lf_lanes (ls_state st))"
  "lf_aliases (ls_state (fst (write_lane disk_ok now i audit u st))) = lf_aliases (ls_state st)"
  by (simp_all add: write_lane_def stamped_def)

lemma stamped_simps [simp]:
  "lr_revision (stamped now u) = lr_revision u + 1" "lr_lane_id (stamped now u) = lr_lane_id u"
  "lr_sdk_session_id (stamped now u) = lr_sdk_session_id u" "lr_terminal (stamped now u) = lr_terminal u"
  "lr_watch_removed_at (stamped now u) = lr_watch_removed_at u" "lr_review_valid (stamped now u) = lr_review_valid u"
  "lr_owner_valid (stamped now u) = lr_owner_valid u" "lr_sdk_revision (stamped now u) = lr_sdk_revision u"
  "lr_ownership (stamped now u) = lr_ownership u" "lr_worktree (stamped now u) = lr_worktree u"
  "lr_last_gate (stamped now u) = lr_last_gate u" "lr_pending_alerts (stamped now u) = lr_pending_alerts u"
  "lr_endpoint_alerted (stamped now u) = lr_endpoint_alerted u"
  by (simp_all add: stamped_def)

text \<open>A write ends with the state on disk, or leaves the disk alone.\<close>

lemma persist_disk_state:
  "disk_state (fst (persist_locked disk_ok st)) = ls_state (fst (persist_locked disk_ok st)) \<or>
   disk_state (fst (persist_locked disk_ok st)) = disk_state st"
  by (simp add: persist_locked_def Let_def)

text \<open>A predicate on states that every change of the state in memory keeps holds in memory and on disk.\<close>

lemma run_state_invariant:
  assumes "lane_run env disk_ok L st st'" and "P (ls_state st)" and "P (disk_state st)"
    and writes: "\<And>l st i r u now audit. P (ls_state st) \<Longrightarrow> bt_get (lf_lanes (ls_state st)) i = Some r \<Longrightarrow> l \<in> L \<Longrightarrow>
      record_step env l r u \<Longrightarrow> P (ls_state (fst (write_lane disk_ok now i audit u st)))"
    and registers: "\<And>st rq branch g pr now e. P (ls_state st) \<Longrightarrow> validate_registration env rq = Ok () \<Longrightarrow>
      bt_get (lf_lanes (ls_state st)) (gjc_lane_id env (rq_sdk_session_id rq)) = None \<Longrightarrow>
      P (ls_state (fst (persist_locked disk_ok (st\<lparr>ls_state := (push_audit e (ls_state st))
       \<lparr>lf_lanes := bt_insert (gjc_lane_id env (rq_sdk_session_id rq))
          (lane_record_new (gjc_lane_id env (rq_sdk_session_id rq)) (rq_sdk_session_id rq) (rq_worktree rq) branch g
           (registered_ownership now (rq_owner_id rq)) pr now) (lf_lanes (ls_state st))\<rparr>\<rparr>))))"
    and audits: "\<And>st e. P (ls_state st) \<Longrightarrow> P (ls_state (fst (persist_locked disk_ok (st\<lparr>ls_state := push_audit e (ls_state st)\<rparr>))))"
  shows "P (ls_state st') \<and> P (disk_state st')"
  using assms(1)
proof (induction rule: lane_run_induct)
  case (step a b l)
  from step(3,1,2) show ?case
  proof (induction rule: store_effect.induct)
    case (written st i r l u now audit)
    from writes[OF conjunct1[OF written(4)] written(1) written(5) written(2)] written(4)
    show ?case using persist_disk_state unfolding write_lane_def by (metis disk_state_upd)
  next
    case (registered st rq r branch g now pr e)
    from registers[OF conjunct1[OF registered(4)] registered(2) registered(1)] registered(4)
    show ?case using persist_disk_state unfolding registered(3) by (metis disk_state_upd)
  next
    case (noted l st e)
    from audits[OF conjunct1[OF noted(1)]] noted(1) show ?case using persist_disk_state by (metis disk_state_upd)
  next
    case (restarted st)
    then show ?case by (simp add: lane_reload_def)
  qed simp_all
qed (use assms in simp)

section \<open>Invariants of records\<close>

locale record_invariant =
  fixes env :: lane_env and P :: "string \<Rightarrow> lane_record \<Rightarrow> bool"
  assumes new: "validate_registration env rq = Ok () \<Longrightarrow>
      P (gjc_lane_id env (rq_sdk_session_id rq)) (lane_record_new (gjc_lane_id env (rq_sdk_session_id rq))
        (rq_sdk_session_id rq) (rq_worktree rq) branch g (registered_ownership now (rq_owner_id rq)) pr now)"
    and step: "P i r \<Longrightarrow> record_step env l r u \<Longrightarrow> P i (stamped now u)"
begin

definition every_lane :: "lane_state_file \<Rightarrow> bool" where
  "every_lane s = (\<forall>i r. bt_get (lf_lanes s) i = Some r \<longrightarrow> P i r)"

lemma run_keeps:
  assumes "lane_run env disk_ok L st st'" and "every_lane (ls_state st)" and "every_lane (disk_state st)"
  shows "every_lane (ls_state st') \<and> every_lane (disk_state st')"
  using assms
  by (rule run_state_invariant)
     (auto simp: every_lane_def write_lane_state bt_get_insert new dest: step)

end

section \<open>Orders on records\<close>

locale record_order =
  fixes env :: lane_env and L :: "lane_label set" and R :: "lane_record \<Rightarrow> lane_record \<Rightarrow> bool"
  assumes refl: "R r r" and trans: "R r u \<Longrightarrow> R u v \<Longrightarrow> R r v"
    and step: "record_step env l r u \<Longrightarrow> l \<in> L \<Longrightarrow> R r (stamped now u)"
    and no_restart: "LRestart \<notin> L"
begin

lemma effect_ordered:
  assumes "store_effect env disk_ok l st st'" and "l \<in> L" and "bt_get (lf_lanes (ls_state st)) i = Some r"
  shows "\<exists>r'. bt_get (lf_lanes (ls_state st')) i = Some r' \<and> R r r'"
  using assms
proof (induction rule: store_effect.induct)
  case (written st j r' l u now audit)
  then show ?case using step[OF written(2) written(4)] by (auto simp: write_lane_state bt_get_insert refl)
qed (use no_restart in \<open>auto simp: bt_get_insert refl\<close>)

lemma run_ordered:
  assumes "lane_run env disk_ok L st st'" and "bt_get (lf_lanes (ls_state st)) i = Some r"
  shows "\<exists>r'. bt_get (lf_lanes (ls_state st')) i = Some r' \<and> R r r'"
  using assms(1)
proof (induction rule: lane_run_induct)
  case (step a b l)
  then obtain r1 where r1: "bt_get (lf_lanes (ls_state a)) i = Some r1" "R r r1" by blast
  from effect_ordered[OF step(3,2) r1(1)] r1(2) trans show ?case by blast
qed (use assms refl in blast)

end

text \<open>Everything but the re-enrolment of a tombstone and a restart.\<close>

definition forward_labels :: "lane_label set" where "forward_labels = - {LReclaim, LRestart}"

lemma advances_stamped: "advances r u \<Longrightarrow> advances r (stamped now u)"
  by (auto simp: advances_def)

interpretation lane_forward: record_order env forward_labels advances for env
  by unfold_locales (auto simp: advances_refl forward_labels_def dest: record_step_advances intro: advances_trans advances_stamped)

text \<open>The revision alone also survives a re-enrolment.\<close>

interpretation lane_revision: record_order env "- {LRestart}" "\<lambda>r u. lr_revision r \<le> lr_revision u" for env
  by unfold_locales (auto dest: record_step_advances)

end
