(* ===== verification/GjcLaneCorrect.thy ===== *)
theory GjcLaneCorrect imports GjcLaneSteps GjcEventsCorrect begin

text \<open>
  What the lane store promises: what it writes loads again, a lane only moves forward, a stale writer is
  refused, the audit trail is bounded, staged alerts stay until they are answered for, and an unreachable
  endpoint is reported once per episode.
\<close>

section \<open>Plain identifiers\<close>

text \<open>Printable ASCII: no control characters, one byte per scalar value.\<close>

definition plain :: "char \<Rightarrow> bool" where
  "plain c = (32 < byte c \<and> byte c < 127)"

lemma plain_not_cont: "plain c \<Longrightarrow> \<not> is_cont c"
  by (cases c) (auto simp: plain_def byte_def of_char_def)

lemma chars_plain: "list_all plain s \<Longrightarrow> chars s = map (\<lambda>c. [c]) s"
proof (induction s)
  case (Cons c s)
  then have "takeWhile is_cont s = [] \<and> dropWhile is_cont s = s"
    by (cases s) (auto simp: plain_not_cont)
  with Cons show ?case by simp
qed simp

lemma plain_no_control: "list_all plain s \<Longrightarrow> \<not> list_ex is_control (chars s)"
  by (auto simp: chars_plain list_ex_iff list_all_iff is_control_def plain_def)

lemma hex_plain: "is_hex c \<Longrightarrow> plain c"
  by (auto simp: is_hex_def plain_def)

lemma hex_digits_plain: "list_all plain (hex_digits k n)"
  by (induction k arbitrary: n) (simp_all add: hex_plain hex_digit_hex)

lemma hex16_plain: "list_all plain (hex16 w)"
  by (simp add: hex16_def hex_digits_plain)

lemma hex_bytes_plain: "list_all plain (hex_bytes bs)" "length (hex_bytes bs) = 2 * length bs"
  by (induction bs) (simp_all add: hex_bytes_def hex_digits_plain)

lemma gjc_lane_id_ok:
  "gjc_lane_id env s \<noteq> [] \<and> length (gjc_lane_id env s) \<le> max_session_len \<and>
   \<not> list_ex is_control (chars (gjc_lane_id env s))"
proof -
  have "list_all plain (gjc_lane_id env s)"
    by (simp add: gjc_lane_id_def hex_bytes_plain) (simp add: plain_def byte_def)
  moreover have "gjc_lane_id env s \<noteq> []" "length (gjc_lane_id env s) \<le> max_session_len"
    by (simp_all add: gjc_lane_id_def hex_bytes_plain max_session_len_def)
  ultimately show ?thesis using plain_no_control by blast
qed

section \<open>Identifiers of alerts\<close>

definition has_id :: "incoming_event \<Rightarrow> bool" where
  "has_id e = (ev_kind e \<in> set alert_kinds \<longrightarrow> (\<exists>cx parts. event_id_of e = Some (event_id_for cx (ev_kind e) parts)))"

lemma lifecycle_has_id: "''event_id'' \<notin> fst ` set extra \<Longrightarrow> has_id (lifecycle_event cx kind status attempt summary error parts extra)"
  by (auto simp: has_id_def lifecycle_event_id)

lemma gate_has_id: "has_id (gate_event cx kind gate)"
  by (auto simp: has_id_def gate_event_id)

lemma endpoint_has_id: "has_id (endpoint_failed_event cx endpoint episode)"
  unfolding has_id_def
  by (auto simp: endpoint_failed_event_def event_id_of_def get_str_def finish_event_def Let_def bt_get_insert base_object_id)

lemma step_has_id:
  "list_all has_id (snd (retry_step cx turn t))" "list_all has_id (snd (active_step cx i turn t))"
  "list_all has_id (snd (terminal_step cx i turn t))" "list_all has_id (snd (idle_step cx i turn t))"
  "list_all has_id (snd (vanished_step cx t))" "list_all has_id (snd (prompt_step cx t))"
  "list_all has_id (snd (gate_step cx t))" "list_all has_id (snd (endpoint_step cx t))"
  by (simp_all add: retry_step_def active_step_def terminal_step_def idle_step_def vanished_step_def stalled_event_def
      prompt_step_def gate_step_def endpoint_step_def Let_def lifecycle_has_id gate_has_id endpoint_has_id
      split: option.split gate_status.split)

lemma model_step_has_id: "list_all has_id (snd (model_step cx t))"
  using step_kinds(8)[of cx t] by (auto simp: of_kinds_def list_all_iff has_id_def alert_kinds_def)

lemma reduce_track_has_id: "list_all has_id (snd (reduce_track cx t))"
proof -
  have "list_all has_id (snd (turn_part cx t))"
  proof (cases "ss_turn (cx_snapshot cx)")
    case (Some turn)
    show ?thesis
      by (cases "tn_state turn") (simp_all add: Some turn_part_def turn_step_def phase_step_def Let_def step_has_id)
  qed (simp add: turn_part_def)
  then show ?thesis by (simp add: reduce_track_parts rest_part_def step_has_id model_step_has_id)
qed

lemma observe_has_id: "snd (observe env snap b) = Ok out \<Longrightarrow> e \<in> set (bo_events out) \<Longrightarrow> has_id e"
  using reduce_track_has_id[of "context_new env (session_of snap) snap" "track_of b (session_of snap)"]
  by (cases rule: observe_cases[of env snap b]) (auto simp: outcome_events_def list_all_iff)

lemma dotted_kinds:
  "list_all (\<lambda>k. list_all plain (replace_str ''.'' ''-'' k) \<and> length (replace_str ''.'' ''-'' k) \<le> 30) alert_kinds"
  by code_simp

lemma event_id_ok:
  assumes "k \<in> set alert_kinds"
  shows "event_id_for cx k parts \<noteq> []" "length (event_id_for cx k parts) \<le> 256"
    "\<not> list_ex is_control (chars (event_id_for cx k parts))"
proof -
  have k: "list_all plain (replace_str ''.'' ''-'' k)" "length (replace_str ''.'' ''-'' k) \<le> 30"
    using dotted_kinds assms by (auto simp: list_all_iff)
  show "event_id_for cx k parts \<noteq> []" by (simp add: event_id_for_def)
  show "length (event_id_for cx k parts) \<le> 256" using k(2) hex16_hex by (simp add: event_id_for_def)
  have "list_all plain (event_id_for cx k parts)"
    using k(1) hex16_plain by (simp add: event_id_for_def) (simp add: plain_def byte_def)
  then show "\<not> list_ex is_control (chars (event_id_for cx k parts))" by (rule plain_no_control)
qed

lemma scope_failure_simps [simp]: "ev_kind (scope_failure e) = ev_kind e"
  by (simp add: scope_failure_def)

lemma scope_failure_get: "k \<noteq> ''authority_scope'' \<Longrightarrow> get_str (ev_payload (scope_failure e)) k = get_str (ev_payload e) k"
  by (cases "ev_payload e") (simp_all add: scope_failure_def get_str_def bt_get_insert)

lemma alert_event_facts:
  assumes "alert_event env e"
  shows "ev_kind e \<in> set alert_kinds" "\<exists>cx parts. event_id_of e = Some (event_id_for cx (ev_kind e) parts)"
proof -
  from assms obtain e' where e': "bridge_event env e'" "e = e' \<or> e = scope_failure e'" by (auto simp: alert_event_def)
  then have kind: "ev_kind e' \<in> set alert_kinds" and "has_id e'"
    by (auto simp: bridge_event_def dest: observe_has_id)
  then obtain cx parts where "event_id_of e' = Some (event_id_for cx (ev_kind e') parts)" by (auto simp: has_id_def)
  with e'(2) have "event_id_of e = Some (event_id_for cx (ev_kind e) parts)"
    by (auto simp: event_id_of_def scope_failure_get)
  then show "\<exists>cx parts. event_id_of e = Some (event_id_for cx (ev_kind e) parts)" by blast
  show "ev_kind e \<in> set alert_kinds" using kind e'(2) by auto
qed

section \<open>Alerts that load\<close>

text \<open>What loading asks of an alert, the size of its payload apart; a failure knows its turn.\<close>

definition alert_wf :: "pending_alert \<Rightarrow> bool" where
  "alert_wf a =
     (pa_event_id a \<noteq> [] \<and> length (pa_event_id a) \<le> 256 \<and> \<not> list_ex is_control (chars (pa_event_id a)) \<and>
      bt_ok (pa_deliveries a) \<and> length (pa_deliveries a) \<le> max_pending_alert_deliveries \<and>
      list_all (\<lambda>(destination, _). valid_destination destination) (pa_deliveries a) \<and>
      (case pa_turn_failure a of None \<Rightarrow> pa_kind a \<noteq> ''session.failed'' | Some c \<Rightarrow> causality_ok c))"

lemma alert_ok_iff: "alert_wf a \<Longrightarrow> alert_ok env a \<longleftrightarrow> le_json_len env (pa_payload a) \<le> 64 * 1024"
  by (auto simp: alert_wf_def alert_ok_def split: option.splits)

lemma alert_wf_not_legacy: "alert_wf a \<Longrightarrow> \<not> is_legacy_failure a"
  by (auto simp: alert_wf_def is_legacy_failure_def split: option.splits)

lemma bounded_text_twice [simp]: "bounded_text (bounded_text v) = bounded_text v"
  unfolding bounded_text_def by (subst (1 3) take_chars_def) (simp add: chars_take_chars)

lemma causality_of_ok:
  assumes "turn_failure_causality_of e = Ok (Some c)"
  shows "causality_ok c"
proof -
  let ?get = "get_str (ev_payload e)"
  from assms obtain sid tid n where ids: "is_ok (session_id_new sid)" "is_ok (turn_id_new tid)"
      "case ?get ''command_id'' of None \<Rightarrow> True | Some i \<Rightarrow> is_ok (command_id_new i)"
    and c: "c = \<lparr>tf_session_id = sid, tf_sdk_revision = n, tf_turn_id = tid, tf_command_id = ?get ''command_id'',
      tf_model = map_option bounded_text (?get ''model''), tf_profile = map_option bounded_text (?get ''profile'')\<rparr>"
    by (auto simp: turn_failure_causality_of_def Let_def res_bind_Inr check_Ok split: if_split_asm)
  from ids show ?thesis
    by (cases "?get ''model''"; cases "?get ''profile''") (simp_all add: c causality_ok_def)
qed

lemma causality_of_None: "turn_failure_causality_of e = Ok None \<Longrightarrow> ev_kind e \<noteq> ''session.failed''"
  by (auto simp: turn_failure_causality_of_def Let_def res_bind_Inr split: if_splits)

lemma pending_alert_wf:
  assumes "alert_event env e" and "pending_from_event e now = Ok a"
  shows "alert_wf a"
proof -
  from assms(2) obtain i c where i: "event_id_of e = Some i" and c: "turn_failure_causality_of e = Ok c"
    and a: "a = \<lparr>pa_event_id = i, pa_kind = ev_kind e, pa_payload = ev_payload e, pa_queued_at = now, pa_attempts = 0,
      pa_turn_failure = c, pa_deliveries = []\<rparr>"
    by (auto simp: pending_from_event_def res_bind_Inr event_id_of_def ok_or_def split: option.splits)
  from alert_event_facts[OF assms(1)] i obtain cx parts where "i = event_id_for cx (ev_kind e) parts" by auto
  with event_id_ok[OF alert_event_facts(1)[OF assms(1)]]
  have "i \<noteq> []" "length i \<le> 256" "\<not> list_ex is_control (chars i)" by auto
  with c show ?thesis
    by (auto simp: alert_wf_def a max_pending_alert_deliveries_def dest: causality_of_ok causality_of_None
        split: option.split)
qed

section \<open>Lanes that load\<close>

definition gate_wf :: "gate_snapshot option \<Rightarrow> bool" where
  "gate_wf g = (case g of None \<Rightarrow> True
     | Some g \<Rightarrow> (case gs_gate_id g of None \<Rightarrow> False | Some i \<Rightarrow> valid_gate_id i) \<and> gs_revision g \<noteq> 0)"

definition lane_wf :: "lane_env \<Rightarrow> string \<Rightarrow> lane_record \<Rightarrow> bool" where
  "lane_wf env i r =
     (i = gjc_lane_id env (lr_sdk_session_id r) \<and> lr_lane_id r = i \<and> valid_session_id (lr_sdk_session_id r) \<and>
      (case lr_worktree r of None \<Rightarrow> True | Some w \<Rightarrow> valid_worktree env w) \<and> gate_wf (lr_last_gate r) \<and>
      length (lr_pending_alerts r) \<le> max_pending_alerts \<and> list_all alert_wf (lr_pending_alerts r) \<and>
      distinct (map pa_event_id (lr_pending_alerts r)))"

lemma lane_wf_stamped [simp]: "lane_wf env i (stamped now u) = lane_wf env i u"
  by (simp add: lane_wf_def)

lemma staged_wf: "staged env r u \<Longrightarrow> lane_wf env i r \<Longrightarrow> lane_wf env i u"
  by (auto simp: lane_wf_def staged_def list_all_iff dest: pending_alert_wf)

lemma check_observation_gate:
  "check_observation r ob = Ok () \<Longrightarrow> ob_gate_state ob = Some x \<Longrightarrow>
     gate_wf (Some \<lparr>gs_state = state, gs_gate_id = ob_gate_id ob, gs_revision = ob_gate_revision ob, gs_observed_at = now\<rparr>)"
  by (simp add: check_observation_def gate_wf_def split: if_splits option.splits)

lemma observe_gate_cases:
  assumes "observe_gate now ob r = Ok u"
  obtains "lr_last_gate u = lr_last_gate r"
  | state where "ob_gate_state ob = Some state" "lr_last_gate u = Some \<lparr>gs_state = state, gs_gate_id = ob_gate_id ob,
      gs_revision = ob_gate_revision ob, gs_observed_at = now\<rparr>"
  | g where "lr_last_gate r = Some g" "lr_last_gate u = Some (g\<lparr>gs_state := LgAnswered, gs_observed_at := now\<rparr>)"
  using assms by (simp add: observe_gate_def Let_def split: option.splits if_splits) (auto intro: that)

lemma observe_gate_wf:
  assumes "observe_gate now ob r = Ok u" "check_observation r0 ob = Ok ()" "gate_wf (lr_last_gate r)"
  shows "gate_wf (lr_last_gate u)"
  using assms(1)
proof (cases rule: observe_gate_cases)
  case (2 state)
  with check_observation_gate[OF assms(2) 2(1)] show ?thesis by simp
next
  case (3 g)
  with assms(3) show ?thesis by (simp add: gate_wf_def)
qed (use assms(3) in simp)

lemma observation_wf:
  assumes "observation_change env now observation r = Ok (u, audit, outcome)" and "lane_wf env i r"
  shows "lane_wf env i u"
proof -
  from assms(1) obtain ob r1 where 1: "check_observation r ob = Ok ()" "observe_gate now ob (observe_endpoint now ob r) = Ok r1"
      "stage_alerts env now ob r (observe_phase ob (observe_terminal now ob r1)) = Ok u"
    by (rule observation_change_cases)
  have "lane_wf env i r1"
    using observation_record[OF 1(2)] observe_gate_wf[OF 1(2,1)] assms(2) by (simp add: lane_wf_def)
  then have "lane_wf env i (observe_phase ob (observe_terminal now ob r1))" by (simp add: lane_wf_def)
  then show ?thesis by (rule staged_wf[OF stage_alerts_staged[OF 1(3)]])
qed

lemma stage_endpoint_wf:
  assumes "stage_endpoint_alert env now reason r = Ok u" and "lane_wf env i r"
  shows "lane_wf env i u"
  using assms(1)
proof (cases rule: stage_endpoint_staged)
  case (2 v)
  have "lane_wf env i v" by (rule staged_wf[OF 2(2)]) (use assms(2) in \<open>simp add: lane_wf_def\<close>)
  then show ?thesis by (simp add: 2(3) lane_wf_def)
qed (use assms(2) in simp)

lemma pending_subset_wf:
  "lane_wf env i r \<Longrightarrow> lane_wf env i (r\<lparr>lr_pending_alerts := filter P (lr_pending_alerts r)\<rparr>)"
  by (auto simp: lane_wf_def list_all_iff distinct_map_filter intro: le_trans[OF length_filter_le])

lemma replace_alert_simps:
  "length (replace_alert e a' as) = length as"
  "pa_event_id a' = e \<Longrightarrow> map pa_event_id (replace_alert e a' as) = map pa_event_id as"
  "list_all P as \<Longrightarrow> P a' \<Longrightarrow> list_all P (replace_alert e a' as)"
  by (induction as) auto

lemma replace_alert_wf:
  "lane_wf env i r \<Longrightarrow> pa_event_id a' = e \<Longrightarrow> alert_wf a' \<Longrightarrow>
     lane_wf env i (r\<lparr>lr_pending_alerts := replace_alert e a' (lr_pending_alerts r)\<rparr>)"
  by (simp add: lane_wf_def replace_alert_simps)

lemma find_alert_in: "find_alert e as = Some a \<Longrightarrow> a \<in> set as \<and> pa_event_id a = e"
  by (auto simp: find_alert_def find_Some_iff)

lemma length_bt_insert: "k \<in> fst ` set m \<Longrightarrow> bt_ok m \<Longrightarrow> length (bt_insert k v m) = length m"
  by (induction k v m rule: bt_insert.induct) (auto simp: bt_insert.simps bt_ok_Cons)

lemma length_bt_insert_le: "length (bt_insert k v m) \<le> Suc (length m)"
  by (induction k v m rule: bt_insert.induct) (auto simp: bt_insert.simps)


lemma update_delivery_wf:
  assumes "update_delivery now d next a = Ok (Some a')" "alert_wf a" "valid_destination d"
  shows "alert_wf a'" "pa_event_id a' = pa_event_id a"
proof -
  from assms(1) obtain x where a': "a' = a\<lparr>pa_deliveries := bt_insert d x (pa_deliveries a)\<rparr>"
    and room: "bt_get (pa_deliveries a) d = None \<longrightarrow> length (pa_deliveries a) < max_pending_alert_deliveries"
    by (auto simp: update_delivery_def Let_def split: option.splits if_splits)
  show "pa_event_id a' = pa_event_id a" by (simp add: a')
  have ok: "bt_ok (pa_deliveries a)" "length (pa_deliveries a) \<le> max_pending_alert_deliveries"
    using assms(2) by (simp_all add: alert_wf_def)
  have "length (bt_insert d x (pa_deliveries a)) \<le> max_pending_alert_deliveries"
  proof (cases "bt_get (pa_deliveries a) d")
    case None
    with room length_bt_insert_le[of d x "pa_deliveries a"] show ?thesis by simp
  next
    case (Some y)
    then have "d \<in> fst ` set (pa_deliveries a)" using bt_get_None[of "pa_deliveries a" d] by simp
    with length_bt_insert ok show ?thesis by metis
  qed
  moreover have "list_all (\<lambda>(destination, _). valid_destination destination) (bt_insert d x (pa_deliveries a))"
    using set_bt_insert[of d x "pa_deliveries a"] assms(2,3) by (auto simp: alert_wf_def list_all_iff)
  ultimately show "alert_wf a'" using assms(2) bt_ok_insert[OF ok(1)] by (cases "pa_turn_failure a") (simp_all add: a' alert_wf_def)
qed

lemma update_delivery_scope: "alert_wf (a\<lparr>pa_attempts := n\<rparr>) = alert_wf a"
  by (cases "pa_turn_failure a") (simp_all add: alert_wf_def)

lemma retire_wf: "retire_change now reason r = Ok (u, audit) \<Longrightarrow> lane_wf env i r \<Longrightarrow> lane_wf env i u"
  by (auto simp: retire_change_def set_terminal_def Let_def lane_wf_def split: if_splits)

lemma step_wf: "record_step env l r u \<Longrightarrow> lane_wf env i r \<Longrightarrow> lane_wf env i u"
proof (induction rule: record_step.induct)
  case (observation now ob r u audit outcome)
  then show ?case by (rule observation_wf)
next
  case (unavailable now reason n r u audit suspended)
  from unavailable(1) obtain v x where v: "stage_endpoint_alert env now reason (r\<lparr>lr_phase := Some PhUnavailable,
      lr_last_query_at := Some now, lr_unavailable_polls := u32_saturating_succ (lr_unavailable_polls r)\<rparr>) = Ok v"
    and u: "u = v\<lparr>lr_polling_suspended := x\<rparr>" by (rule unavailable_change_cases) blast
  have "lane_wf env i v" by (rule stage_endpoint_wf[OF v]) (use unavailable(2) in \<open>simp add: lane_wf_def\<close>)
  then show ?case by (simp add: u lane_wf_def)
next
  case (endpoint now reason r u)
  then show ?case by (rule stage_endpoint_wf)
next
  case (pr now resolved r u audit outcome)
  obtain a b c d where "u = r\<lparr>lr_review_valid := a, lr_owner_valid := b, lr_evidence_revision := c, lr_pr := d\<rparr>"
    using pr_change_frame(1)[OF pr(1)] by blast
  with pr(2) show ?case by (simp add: lane_wf_def)
next
  case (attempt event_id r u audit)
  then obtain a where a: "find_alert event_id (lr_pending_alerts r) = Some a"
    and u: "u = r\<lparr>lr_pending_alerts := replace_alert event_id (a\<lparr>pa_attempts := u32_saturating_succ (pa_attempts a)\<rparr>)
      (lr_pending_alerts r)\<rparr>"
    by (auto simp: attempt_change_def split: option.splits)
  show ?case unfolding u
    by (rule replace_alert_wf[OF attempt(2)])
       (use find_alert_in[OF a] attempt(2) in \<open>auto simp: update_delivery_scope lane_wf_def list_all_iff\<close>)
next
  case (delivery event_id r a d now nx a')
  have "alert_wf a" "pa_event_id a = event_id"
    using find_alert_in[OF delivery(1)] delivery(4) by (auto simp: lane_wf_def list_all_iff)
  with update_delivery_wf[OF delivery(3) _ delivery(2)] show ?case by (intro replace_alert_wf[OF delivery(4)]) simp_all
next
  case (suppress a ob r u audit)
  then show ?case by (auto simp: suppress_change_def Let_def pending_subset_wf split: if_splits)
next
  case (retire now reason r u audit)
  then show ?case by (rule retire_wf)
next
  case (claim now w r u audit)
  then show ?case by (auto simp: claim_change_def lane_wf_def split: if_splits)
next
  case (rotation g r u audit)
  then show ?case by (auto simp: rotation_change_def lane_wf_def split: if_splits)
next
  case (gone now evidence r u audit)
  then show ?case by (auto simp: runtime_gone_change_def set_terminal_def lane_wf_def split: if_splits)
next
  case (ghost now reason r u audit)
  then show ?case by (auto simp: ghost_change_def lane_wf_def split: if_splits option.splits)
next
  case (reclaim g w r u audit)
  then show ?case by (auto simp: reclaim_change_def lane_wf_def gate_wf_def split: if_splits)
next
  case (resume r u audit)
  then show ?case by (auto simp: resume_change_def lane_wf_def)
next
  case (acknowledge r event_id)
  then show ?case by (rule pending_subset_wf)
qed (simp add: lane_wf_def)

lemma new_wf:
  assumes "validate_registration env rq = Ok ()"
  shows "lane_wf env (gjc_lane_id env (rq_sdk_session_id rq)) (lane_record_new (gjc_lane_id env (rq_sdk_session_id rq))
    (rq_sdk_session_id rq) (rq_worktree rq) branch g w pr now)"
  using assms
  by (auto simp: lane_wf_def lane_record_new_def gate_wf_def validate_registration_def split: if_splits option.splits)

interpretation loads: record_invariant env "lane_wf env" for env
  by unfold_locales (simp_all add: new_wf step_wf)


section \<open>States that load\<close>

definition state_wf :: "lane_state_file \<Rightarrow> bool" where
  "state_wf s = (bt_ok (lf_lanes s) \<and> lf_aliases s = [] \<and> lf_schema s = lane_state_schema)"

lemma state_wf_new: "state_wf lane_state_new"
  by (simp add: state_wf_def lane_state_new_def)

lemma run_state_wf:
  assumes "lane_run env disk_ok L st st'" and "state_wf (ls_state st)" and "state_wf (disk_state st)"
  shows "state_wf (ls_state st') \<and> state_wf (disk_state st')"
  using assms by (rule run_state_invariant) (auto simp: state_wf_def write_lane_def bt_ok_insert)

lemma every_lane_list:
  assumes "loads.every_lane env s" and "bt_ok (lf_lanes s)"
  shows "list_all (\<lambda>(i, r). lane_wf env i r) (lf_lanes s)"
  using assms by (auto simp: loads.every_lane_def list_all_iff dest: bt_get_in)

text \<open>The lanes are small enough for the loader: not too many, no payload above the limit.\<close>

definition state_small :: "lane_env \<Rightarrow> lane_state_file \<Rightarrow> bool" where
  "state_small env s =
     (length (lf_lanes s) \<le> max_lanes \<and>
      list_all (\<lambda>(i, r). list_all (\<lambda>a. le_json_len env (pa_payload a) \<le> 64 * 1024) (lr_pending_alerts r)) (lf_lanes s))"

lemma lane_wf_ok:
  assumes "lane_wf env i r" and "list_all (\<lambda>a. le_json_len env (pa_payload a) \<le> 64 * 1024) (lr_pending_alerts r)"
  shows "lane_ok env i r"
proof -
  have "list_all (alert_ok env) (lr_pending_alerts r)"
    using assms by (auto simp: lane_wf_def list_all_iff alert_ok_iff)
  with assms(1) gjc_lane_id_ok[of env "lr_sdk_session_id r"] show ?thesis
    by (auto simp: lane_wf_def lane_ok_def gate_wf_def)
qed

lemma validates:
  assumes "list_all (\<lambda>(i, r). lane_wf env i r) (lf_lanes s)" and "state_small env s"
  shows "validate_loaded_state env s = Ok ()"
  using assms by (auto simp: validate_loaded_state_Ok state_small_def list_all_iff intro!: lane_wf_ok)

lemma bt_insert_last: "\<forall>k' \<in> fst ` set m. k' < k \<Longrightarrow> bt_insert k v m = m @ [(k, v)]"
  by (induction k v m rule: bt_insert.induct) (auto simp: bt_insert.simps)

lemma bt_ok_append: "bt_ok (m @ m') \<longleftrightarrow> bt_ok m \<and> bt_ok m' \<and> (\<forall>k \<in> fst ` set m. \<forall>k' \<in> fst ` set m'. k < k')"
  by (auto simp: bt_ok_def sorted_wrt_append)

lemma migrate_lanes_same:
  assumes "list_all (\<lambda>(i, r). lane_wf env i r) rest" and "bt_ok (lanes @ rest)"
  shows "migrate_lanes env canonical rest (lanes, aliases, False) = Ok (lanes @ rest, aliases, False)"
  using assms
proof (induction rest arbitrary: lanes)
  case (Cons x rest)
  obtain i r where x: "x = (i, r)" by force
  from Cons(2) x have i: "i = gjc_lane_id env (lr_sdk_session_id r)" "lr_lane_id r = i" by (auto simp: lane_wf_def)
  from Cons(3) x have below: "\<forall>k \<in> fst ` set lanes. k < i" by (auto simp: bt_ok_append)
  then have fresh: "\<not> bt_has lanes i" by (auto simp: bt_has_def bt_get_None)
  have "migrate_lanes env canonical (x # rest) (lanes, aliases, False) =
      migrate_lanes env canonical rest (lanes @ [x], aliases, False)"
    using i fresh bt_insert_last[OF below] by (simp add: x Let_def)
  with Cons(1)[of "lanes @ [x]"] Cons(2,3) show ?case by simp
qed simp

lemma migrate_alerts_same: "list_all alert_wf as \<Longrightarrow> migrate_alerts ids r as = (as, [], False)"
  by (induction as) (simp_all add: alert_wf_not_legacy)

lemma migrate_records_same:
  "list_all (\<lambda>(i, r). lane_wf env i r) rs \<Longrightarrow> migrate_records env rs = (rs, [], False)"
  by (induction rs) (auto simp: lane_wf_def migrate_alerts_same)

lemma open_same:
  assumes "state_wf s" and "list_all (\<lambda>(i, r). lane_wf env i r) (lf_lanes s)" and "state_small env s"
  shows "lane_store_open env disk_ok (Parsed s) =
    Ok \<lparr>ls_state = s, ls_disk = Parsed s, ls_status = StoreLoaded (length (lf_lanes s))\<rparr>"
proof -
  have "load_state env (Parsed s) = Ok (s, StoreLoaded (length (lf_lanes s)))"
    using assms(1) validates[OF assms(2,3)] by (simp add: load_state_def state_wf_def)
  moreover have "migrate_lane_ids env s = Ok (s, False)"
    using migrate_lanes_same[OF assms(2), of "[]"] assms(1)
    by (simp add: migrate_lane_ids_def check_aliases_def check_targets_def state_wf_def Let_def)
  moreover have "migrate_failure_causality env s = (s, False)"
    by (simp add: migrate_failure_causality_def migrate_records_same[OF assms(2)])
  ultimately show ?thesis by (simp add: lane_store_open_def Let_def)
qed

section \<open>Ownership and the end of a lane\<close>

text \<open>A lane that ended has no claimed owner, a removed watch has ended.\<close>

definition lane_sane :: "string \<Rightarrow> lane_record \<Rightarrow> bool" where
  "lane_sane i r = ((lr_terminal r \<noteq> None \<longrightarrow> ow_state (lr_ownership r) \<noteq> OwnClaimed) \<and>
     (lr_watch_removed_at r \<noteq> None \<longrightarrow> lr_terminal r \<noteq> None))"

lemma relinquish_state [simp]: "ow_state (relinquish w) \<noteq> OwnClaimed"
  by (simp add: relinquish_def)

lemma observe_terminal_sane: "lane_sane i r \<Longrightarrow> lane_sane i (observe_terminal now ob r)"
  by (auto simp: lane_sane_def observe_terminal_def observed_terminal_def set_terminal_def split: option.split)

lemma observation_sane:
  assumes "observation_change env now observation r = Ok (u, audit, outcome)" and "lane_sane i r"
  shows "lane_sane i u"
proof -
  from assms(1) obtain ob r1 where 1: "observe_gate now ob (observe_endpoint now ob r) = Ok r1"
      "stage_alerts env now ob r (observe_phase ob (observe_terminal now ob r1)) = Ok u"
    by (rule observation_change_cases)
  have "lane_sane i r1" using observation_record[OF 1(1)] assms(2) by (simp add: lane_sane_def)
  from observe_terminal_sane[OF this] show ?thesis
    using staged_frame[OF stage_alerts_staged[OF 1(2)]] by (simp add: lane_sane_def)
qed

lemma step_sane: "record_step env l r u \<Longrightarrow> lane_sane i r \<Longrightarrow> lane_sane i u"
proof (induction rule: record_step.induct)
  case (observation now ob r u audit outcome)
  then show ?case by (rule observation_sane)
next
  case (unavailable now reason n r u audit suspended)
  from unavailable(1) obtain v x where v: "stage_endpoint_alert env now reason (r\<lparr>lr_phase := Some PhUnavailable,
      lr_last_query_at := Some now, lr_unavailable_polls := u32_saturating_succ (lr_unavailable_polls r)\<rparr>) = Ok v"
    and u: "u = v\<lparr>lr_polling_suspended := x\<rparr>" by (rule unavailable_change_cases) blast
  from stage_endpoint_frame[OF v] unavailable(2) show ?case by (simp add: u lane_sane_def)
next
  case (endpoint now reason r u)
  from stage_endpoint_frame[OF endpoint(1)] endpoint(2) show ?case by (simp add: lane_sane_def)
next
  case (pr now resolved r u audit outcome)
  obtain a b c d where "u = r\<lparr>lr_review_valid := a, lr_owner_valid := b, lr_evidence_revision := c, lr_pr := d\<rparr>"
    using pr_change_frame(1)[OF pr(1)] by blast
  with pr(2) show ?case by (simp add: lane_sane_def)
next
  case (attempt event_id r u audit)
  then show ?case by (auto simp: attempt_change_def lane_sane_def split: option.splits)
next
  case (suppress a ob r u audit)
  then show ?case by (auto simp: suppress_change_def Let_def lane_sane_def split: if_splits)
next
  case (retire now reason r u audit)
  then show ?case by (auto simp: retire_change_def set_terminal_def Let_def lane_sane_def split: if_splits)
next
  case (claim now w r u audit)
  then show ?case by (auto simp: claim_change_def lane_sane_def split: if_splits)
next
  case (rotation g r u audit)
  then show ?case by (auto simp: rotation_change_def lane_sane_def split: if_splits)
next
  case (gone now evidence r u audit)
  then show ?case by (auto simp: runtime_gone_change_def set_terminal_def lane_sane_def split: if_splits)
next
  case (ghost now reason r u audit)
  then show ?case by (auto simp: ghost_change_def lane_sane_def split: if_splits option.splits)
next
  case (reclaim g w r u audit)
  then show ?case by (auto simp: reclaim_change_def lane_sane_def ownership_default_def split: if_splits)
next
  case (resume r u audit)
  then show ?case by (auto simp: resume_change_def lane_sane_def)
qed (simp_all add: lane_sane_def)

interpretation sane: record_invariant env lane_sane for env
  by unfold_locales (simp_all add: lane_sane_def lane_record_new_def step_sane[unfolded lane_sane_def])

section \<open>The audit trail\<close>

definition audit_wf :: "lane_state_file \<Rightarrow> bool" where
  "audit_wf s = (length (lf_audit s) \<le> max_audit_entries \<and> (lf_dropped s \<noteq> 0 \<longrightarrow> length (lf_audit s) = max_audit_entries))"

lemma push_audit_wf: "audit_wf s \<Longrightarrow> audit_wf (push_audit e s)"
  by (auto simp: audit_wf_def push_audit_def max_audit_entries_def Let_def)

lemma push_audits_wf: "audit_wf s \<Longrightarrow> audit_wf (push_audits now i es s)"
  by (induction now i es s rule: push_audits.induct) (simp_all add: push_audit_wf)

lemma run_audit_wf:
  assumes "lane_run env disk_ok L st st'" and "audit_wf (ls_state st)" and "audit_wf (disk_state st)"
  shows "audit_wf (ls_state st') \<and> audit_wf (disk_state st')"
proof -
  have frame: "audit_wf (s\<lparr>lf_lanes := ls\<rparr>) = audit_wf s" "audit_wf (s\<lparr>lf_generation := n\<rparr>) = audit_wf s" for s ls n
    by (simp_all add: audit_wf_def)
  from assms show ?thesis
    by (rule run_state_invariant) (simp_all add: write_lane_def frame push_audit_wf push_audits_wf)
qed

section \<open>Staged alerts\<close>

definition pending_ids :: "lane_record \<Rightarrow> string set" where
  "pending_ids r = pa_event_id ` set (lr_pending_alerts r)"

definition keeps_alerts :: "lane_record \<Rightarrow> lane_record \<Rightarrow> bool" where
  "keeps_alerts r u = (pending_ids r \<subseteq> pending_ids u)"

lemma staged_keeps: "staged env r u \<Longrightarrow> keeps_alerts r u"
  by (auto simp: staged_def keeps_alerts_def pending_ids_def)

lemma keeps_same: "lr_pending_alerts u = lr_pending_alerts r \<Longrightarrow> keeps_alerts r u"
  by (simp add: keeps_alerts_def pending_ids_def)

lemma pending_ids_replace: "pa_event_id a' = e \<Longrightarrow> pa_event_id ` set (replace_alert e a' as) = pa_event_id ` set as"
  using replace_alert_simps(2)[of a' e as] by (metis set_map)

text \<open>The changes that do not concern alerts.\<close>

definition quiet_labels :: "lane_label set" where
  "quiet_labels = {LClaim, LRotation, LRuntimeGone, LGhost, LReclaim, LRetire, LPr, LWatermark, LResume}"

lemma quiet_step:
  "record_step env l r u \<Longrightarrow> l \<in> quiet_labels \<Longrightarrow>
     lr_pending_alerts u = lr_pending_alerts r \<and> (l \<notin> {LRotation, LReclaim} \<longrightarrow> lr_endpoint_alerted u = lr_endpoint_alerted r)"
proof (induction rule: record_step.induct)
  case (pr now resolved r u audit outcome)
  obtain a b c d where "u = r\<lparr>lr_review_valid := a, lr_owner_valid := b, lr_evidence_revision := c, lr_pr := d\<rparr>"
    using pr_change_frame(1)[OF pr(1)] by blast
  then show ?case by simp
next
  case (retire now reason r u audit)
  then show ?case by (auto simp: retire_change_def set_terminal_def Let_def split: if_splits)
next
  case (claim now w r u audit)
  then show ?case by (auto simp: claim_change_def split: if_splits)
next
  case (rotation g r u audit)
  then show ?case by (auto simp: rotation_change_def split: if_splits)
next
  case (gone now evidence r u audit)
  then show ?case by (auto simp: runtime_gone_change_def set_terminal_def split: if_splits)
next
  case (ghost now reason r u audit)
  then show ?case by (auto simp: ghost_change_def split: if_splits option.splits)
next
  case (reclaim g w r u audit)
  then show ?case by (auto simp: reclaim_change_def split: if_splits)
next
  case (resume r u audit)
  then show ?case by (auto simp: resume_change_def)
qed (simp_all add: quiet_labels_def)

lemma suppress_record:
  "suppress_change a ob r = Ok (u, audit) \<Longrightarrow>
     u = r \<or> u = r\<lparr>lr_pending_alerts := filter (\<lambda>p. pa_event_id p \<noteq> pa_event_id a) (lr_pending_alerts r)\<rparr>"
  unfolding suppress_change_def Let_def by (metis Inr_inject prod.inject)

text \<open>What an observation, a failure of the endpoint and the handling of an alert do to the staged alerts.\<close>

lemma loud_step:
  assumes "record_step env l r u" and "l \<notin> quiet_labels"
  obtains (observed) as where "l = LObserve" "lr_pending_alerts u = lr_pending_alerts r @ as"
  | (failed) as where "l = LUnavailable \<or> l = LEndpointFailure" "lr_pending_alerts u = lr_pending_alerts r @ as"
      "lr_endpoint_alerted u" "lr_endpoint_alerted r \<longrightarrow> as = []"
  | (replaced) a a' where "l = LAttempt \<or> l = LDelivery" "find_alert (pa_event_id a) (lr_pending_alerts r) = Some a"
      "pa_event_id a' = pa_event_id a" "pa_kind a' = pa_kind a"
      "u = r\<lparr>lr_pending_alerts := replace_alert (pa_event_id a) a' (lr_pending_alerts r)\<rparr>"
  | (answered) P where "l = LSuppress \<or> l = LAcknowledge" "u = r\<lparr>lr_pending_alerts := filter P (lr_pending_alerts r)\<rparr>"
  using assms
proof cases
  case (observation now ob audit outcome)
  from observation(2) obtain ob' r1 where 1: "observe_gate now ob' (observe_endpoint now ob' r) = Ok r1"
      "stage_alerts env now ob' r (observe_phase ob' (observe_terminal now ob' r1)) = Ok u"
    by (rule observation_change_cases)
  from stage_alerts_staged[OF 1(2)] observation_record(11)[OF 1(1)]
  obtain as where "lr_pending_alerts u = lr_pending_alerts r @ as" by (auto simp: staged_def)
  with observation(1) show ?thesis by (rule observed)
next
  case (unavailable now reason n audit suspended)
  from unavailable(2) obtain v x where v: "stage_endpoint_alert env now reason (r\<lparr>lr_phase := Some PhUnavailable,
      lr_last_query_at := Some now, lr_unavailable_polls := u32_saturating_succ (lr_unavailable_polls r)\<rparr>) = Ok v"
    and u: "u = v\<lparr>lr_polling_suspended := x\<rparr>" by (rule unavailable_change_cases) blast
  from v show ?thesis
    by (rule stage_endpoint_staged) (use unavailable(1) u in \<open>auto simp: staged_def intro: failed[of "[]"] failed\<close>)
next
  case (endpoint now reason)
  from endpoint(2) show ?thesis
    by (rule stage_endpoint_staged) (use endpoint(1) in \<open>auto simp: staged_def intro: failed[of "[]"] failed\<close>)
next
  case (attempt event_id audit)
  then obtain a where a: "find_alert event_id (lr_pending_alerts r) = Some a"
    and u: "u = r\<lparr>lr_pending_alerts := replace_alert event_id (a\<lparr>pa_attempts := u32_saturating_succ (pa_attempts a)\<rparr>)
      (lr_pending_alerts r)\<rparr>"
    by (auto simp: attempt_change_def split: option.splits)
  show ?thesis
    by (rule replaced[of a "a\<lparr>pa_attempts := u32_saturating_succ (pa_attempts a)\<rparr>"])
       (use find_alert_in[OF a] a u attempt(1) in simp_all)
next
  case (delivery event_id a d now nx a')
  have a: "pa_event_id a = event_id" using find_alert_in[OF delivery(3)] by simp
  have a': "pa_event_id a' = pa_event_id a" "pa_kind a' = pa_kind a"
    using delivery(5) by (auto simp: update_delivery_def Let_def split: option.splits if_splits)
  show ?thesis
  proof (rule replaced[OF _ _ a'])
    show "l = LAttempt \<or> l = LDelivery" by (simp only: delivery(1) simp_thms)
    show "find_alert (pa_event_id a) (lr_pending_alerts r) = Some a" by (simp only: a delivery(3))
    show "u = r\<lparr>lr_pending_alerts := replace_alert (pa_event_id a) a' (lr_pending_alerts r)\<rparr>"
      unfolding a by (rule delivery(2))
  qed
next
  case (suppress a ob audit)
  from suppress_record[OF suppress(2)]
  consider "u = r" | "u = r\<lparr>lr_pending_alerts := filter (\<lambda>p. pa_event_id p \<noteq> pa_event_id a) (lr_pending_alerts r)\<rparr>"
    by blast
  then show ?thesis
  proof cases
    case 1
    then have "u = r\<lparr>lr_pending_alerts := filter (\<lambda>_. True) (lr_pending_alerts r)\<rparr>" by simp
    with suppress(1) answered show ?thesis by blast
  next
    case 2
    with suppress(1) answered show ?thesis by blast
  qed
next
  case (acknowledge event_id)
  then show ?thesis using answered by blast
qed (use assms(2) in \<open>simp_all only: quiet_labels_def insert_iff simp_thms\<close>)

lemma step_keeps_alerts:
  assumes "record_step env l r u" and "l \<notin> {LSuppress, LAcknowledge}"
  shows "keeps_alerts r u"
proof (cases "l \<in> quiet_labels")
  case True
  with quiet_step[OF assms(1)] show ?thesis by (simp add: keeps_same)
next
  case False
  with assms(1) show ?thesis
    by (rule loud_step) (use assms(2) in \<open>auto simp: keeps_alerts_def pending_ids_def pending_ids_replace\<close>)
qed

text \<open>Everything but an answer to an alert and a restart.\<close>

definition unanswered_labels :: "lane_label set" where "unanswered_labels = - {LSuppress, LAcknowledge, LRestart}"

interpretation keeping: record_order env unanswered_labels keeps_alerts for env
proof unfold_locales
  fix l r u now
  assume "record_step env l r u" "l \<in> unanswered_labels"
  then have "keeps_alerts r u" by (auto simp: unanswered_labels_def dest: step_keeps_alerts)
  then show "keeps_alerts r (stamped now u)" by (simp add: keeps_alerts_def pending_ids_def)
qed (auto simp: keeps_alerts_def unanswered_labels_def)

section \<open>Alerts of an unreachable endpoint\<close>

definition endpoint_alerts :: "lane_record \<Rightarrow> nat" where
  "endpoint_alerts r = length (filter (\<lambda>a. pa_kind a = ''session.endpoint-failed'') (lr_pending_alerts r))"

definition no_second_alert :: "lane_record \<Rightarrow> lane_record \<Rightarrow> bool" where
  "no_second_alert r u =
     (lr_endpoint_alerted r \<longrightarrow> lr_endpoint_alerted u \<and> endpoint_alerts u \<le> endpoint_alerts r)"

text \<open>Everything but an answer of the session, a new endpoint, a re-enrolment and a restart.\<close>

definition outage_labels :: "lane_label set" where "outage_labels = - {LObserve, LRotation, LReclaim, LRestart}"

lemma replace_same_kind:
  "find_alert e as = Some a \<Longrightarrow> pa_kind a' = pa_kind a \<Longrightarrow>
     map pa_kind (replace_alert e a' as) = map pa_kind as"
  by (induction as) (auto simp: find_alert_def)

lemma count_kinds_map: "length (filter (\<lambda>a. pa_kind a = k) as) = length (filter (\<lambda>x. x = k) (map pa_kind as))"
  by (induction as) auto

lemma length_filter_filter: "length (filter Q (filter P as)) \<le> length (filter Q as)"
  by (induction as) auto

lemma step_no_second_alert:
  assumes "record_step env l r u" and "l \<in> outage_labels"
  shows "no_second_alert r u"
proof (cases "l \<in> quiet_labels")
  case True
  with quiet_step[OF assms(1)] assms(2) show ?thesis by (auto simp: no_second_alert_def endpoint_alerts_def outage_labels_def)
next
  case False
  with assms(1) show ?thesis
  proof (cases rule: loud_step)
    case (replaced a a')
    then show ?thesis
      by (simp add: no_second_alert_def endpoint_alerts_def count_kinds_map replace_same_kind[OF replaced(2,4)])
  next
    case (answered P)
    then show ?thesis by (simp add: no_second_alert_def endpoint_alerts_def length_filter_filter del: filter_filter)
  qed (use assms(2) in \<open>auto simp: no_second_alert_def endpoint_alerts_def outage_labels_def\<close>)
qed

interpretation outage: record_order env outage_labels no_second_alert for env
proof unfold_locales
  fix l r u now
  assume "record_step env l r u" "l \<in> outage_labels"
  then have "no_second_alert r u" by (rule step_no_second_alert)
  then show "no_second_alert r (stamped now u)" by (simp add: no_second_alert_def endpoint_alerts_def)
qed (auto simp: no_second_alert_def outage_labels_def)

section \<open>A failed turn is staged\<close>

lemma opaque_id_ok: "is_ok (opaque_id f low b v) \<longleftrightarrow> low \<le> length v \<and> length v \<le> 128 \<and>
    list_all (\<lambda>c. \<not> is_control c \<and> \<not> is_white_space c) (chars v)"
  by (auto simp: opaque_id_def list_all_iff list_ex_iff)

lemma collapse_plain:
  "list_all (\<lambda>c. \<not> is_control c \<and> \<not> is_white_space c) chs \<Longrightarrow> collapse_space b chs = chs"
proof (induction chs arbitrary: b)
  case (Cons c chs)
  have "is_white_space '' ''" by code_simp
  with Cons show ?case by (auto simp: Let_def)
qed simp

lemma trim_plain: "list_all (\<lambda>c. \<not> is_white_space c) (chars v) \<Longrightarrow> trim v = v"
proof -
  assume a: "list_all (\<lambda>c. \<not> is_white_space c) (chars v)"
  have keep: "list_all (\<lambda>c. \<not> is_white_space c) chs \<Longrightarrow> dropWhile is_white_space chs = chs" for chs
    by (cases chs) auto
  show ?thesis using keep[OF a] keep[of "rev (chars v)"] a by (simp add: trim_def list_all_iff)
qed

text \<open>Identifiers the bridge accepts pass through \<open>sanitize\<close> unchanged.\<close>

lemma sanitize_opaque:
  assumes "is_ok (opaque_id f low b v)"
  shows "sanitize v = v"
proof -
  have v: "list_all (\<lambda>c. \<not> is_control c \<and> \<not> is_white_space c) (chars v)" "length v \<le> 128"
    using assms by (simp_all add: opaque_id_ok)
  then have "list_all (\<lambda>c. \<not> is_white_space c) (chars v)" by (auto simp: list_all_iff)
  moreover have "length (chars v) \<le> 240" using length_chars_le[of v] v(2) by (simp add: char_count_def)
  ultimately show ?thesis using v
    by (simp add: sanitize_def collapse_plain trim_plain take_chars_def max_summary_chars_def)
qed

lemma good_id: "is_ok (opaque_id f (Suc 0) b v) \<Longrightarrow> \<not> bad_id (opaque_id f (Suc 0) b) v"
  using length_chars_le[of v] by (auto simp: bad_id_def sanitize_opaque opaque_id_ok max_id_chars_def)


lemma queue_keeps:
  assumes "queue_pending_alert a r = Ok u"
  shows "pending_ids r \<subseteq> pending_ids u \<and> pa_event_id a \<in> pending_ids u"
proof (cases "\<exists>x \<in> set (lr_pending_alerts r). pa_event_id a = pa_event_id x")
  case True
  with assms show ?thesis by (auto simp: queue_pending_alert_def pending_ids_def list_ex_iff split: if_splits)
next
  case False
  with assms show ?thesis by (auto simp: queue_pending_alert_def pending_ids_def list_ex_iff split: if_splits)
qed

text \<open>Every event handed to the queue has its alert there afterwards.\<close>

lemma queue_events_ids:
  "queue_events now es r = Ok u \<Longrightarrow> pending_ids r \<subseteq> pending_ids u \<and>
     (\<forall>e \<in> set es. \<exists>i \<in> pending_ids u. event_id_of e = Some i)"
proof (induction now es r rule: queue_events.induct)
  case (2 now e es r)
  then obtain a v where a: "pending_from_event e now = Ok a" "queue_pending_alert a r = Ok v" "queue_events now es v = Ok u"
    by (auto simp: res_bind_Inr)
  have "event_id_of e = Some (pa_event_id a)"
    using a(1) by (auto simp: pending_from_event_def res_bind_Inr event_id_of_def ok_or_def split: option.splits)
  with 2(1)[OF a(3)] queue_keeps[OF a(2)] show ?case by auto
qed simp

lemma failed_turn_event:
  assumes "ss_turn snap = Some turn" "tn_state turn = TurnFailed" "tn_prompt_accepted turn"
    and "check_snapshot snap = Ok (session_of snap)" "\<not> bad_turn snap"
  shows "\<exists>out e cx. snd (observe env snap bridge_new) = Ok out \<and> e \<in> set (bo_events out) \<and> ev_kind e = ''session.failed'' \<and>
    event_id_of e = Some (event_id_for cx ''session.failed'' [''failed'']) \<and>
    cx_session_id cx = session_of snap \<and> turn_component cx = sanitize (tn_id turn)"
proof -
  let ?cx = "context_new env (session_of snap) snap" and ?i = "sanitize (tn_id turn)"
  let ?t = "fst (retry_step ?cx turn (enter_turn ?i track_default))"
  have obs: "snd (observe env snap bridge_new) =
      Ok \<lparr>bo_events = snd (reduce_track ?cx track_default), bo_duplicate = False, bo_stale = False\<rparr>"
    using assms(4,5) by (simp add: observe_def Let_def track_of_def bridge_new_def count_stats_def case_prod_unfold)
      (simp add: track_default_def)
  let ?e = "lifecycle_event ?cx ''session.failed'' ''failed'' 0 (Some (failure_text turn snap))
      (Some (failure_text turn snap)) [''failed''] []"
  have "snd (terminal_step ?cx ?i turn ?t) = [?e]"
    using assms(2,3) by (simp add: terminal_step_def retry_step_def enter_turn_def track_default_def prompt_accepted_def Let_def)
  then have "?e \<in> set (snd (turn_part ?cx track_default))"
    using assms(1,2) by (simp add: turn_part_def turn_step_def phase_step_def Let_def)
  then have "?e \<in> set (snd (reduce_track ?cx track_default))" by (simp add: reduce_track_parts)
  moreover have "turn_component ?cx = ?i" using assms(1) by (simp add: turn_component_def)
  moreover have "event_id_of ?e = Some (event_id_for ?cx ''session.failed'' [''failed''])"
    by (simp add: lifecycle_event_id)
  ultimately show ?thesis using obs
    by (intro exI[of _ "\<lparr>bo_events = snd (reduce_track ?cx track_default), bo_duplicate = False, bo_stale = False\<rparr>"]
        exI[of _ ?e] exI[of _ ?cx]) simp
qed


lemma id_new_good:
  "is_ok (session_id_new v) \<Longrightarrow> \<not> bad_id session_id_new v" "is_ok (turn_id_new v) \<Longrightarrow> \<not> bad_id turn_id_new v"
  "is_ok (command_id_new v) \<Longrightarrow> \<not> bad_id command_id_new v"
  by (simp_all add: session_id_new_def turn_id_new_def command_id_new_def good_id)

lemma id_new_sanitize:
  "is_ok (session_id_new v) \<Longrightarrow> sanitize v = v" "is_ok (turn_id_new v) \<Longrightarrow> sanitize v = v"
  by (simp_all add: session_id_new_def turn_id_new_def sanitize_opaque)

text \<open>What \<open>check_observation\<close> accepts, the bridge accepts.\<close>

lemma observation_snapshot_ok:
  assumes "check_observation r ob = Ok ()" and "is_ok (session_id_new (lr_sdk_session_id r))"
  shows "check_snapshot (observation_snapshot r' p ob now None) = Ok (lr_sdk_session_id r)"
    and "session_of (observation_snapshot r' p ob now None) = lr_sdk_session_id r"
proof -
  let ?snap = "observation_snapshot r' p ob now None"
  have sid: "ss_session_id ?snap = lr_sdk_session_id r"
    using assms(1) by (simp add: observation_snapshot_def check_observation_def split: if_splits)
  then show sess: "session_of ?snap = lr_sdk_session_id r" using assms(2) by (simp add: id_new_sanitize)
  have gate: "ob_gate_id ob = Some g \<Longrightarrow> valid_gate_id g \<and> ob_gate_revision ob \<noteq> 0" for g
    using assms(1) by (auto simp: check_observation_def split: if_splits option.splits)
  have command: "ob_command_id ob = Some c \<Longrightarrow> is_ok (command_id_new c)" for c
    using assms(1) by (simp add: check_observation_def split: if_splits)
  show "check_snapshot ?snap = Ok (lr_sdk_session_id r)"
    using assms(2) gate command sid sess
    by (cases "ob_gate_id ob"; cases "ob_command_id ob")
       (simp_all add: check_snapshot_def id_new_good observation_snapshot_def snapshot_default_def)
qed

lemma observation_failed_staged:
  assumes change: "observation_change env now observation r = Ok (u, audit, outcome)"
    and new: "new_failed_turn r observation" and t: "ob_turn_id observation = Some t"
    and sid: "is_ok (session_id_new (lr_sdk_session_id r))"
  shows "\<exists>cx. event_id_for cx ''session.failed'' [''failed''] \<in> pending_ids u \<and>
    cx_session_id cx = lr_sdk_session_id r \<and> turn_component cx = t"
proof -
  from change obtain ob r1 where ob: "ob = sanitize_observation_selection observation"
      and 1: "check_observation r ob = Ok ()" "observe_gate now ob (observe_endpoint now ob r) = Ok r1"
      "stage_alerts env now ob r (observe_phase ob (observe_terminal now ob r1)) = Ok u"
    by (rule observation_change_cases)
  let ?r2 = "observe_phase ob (observe_terminal now ob r1)"
  let ?snap = "observation_snapshot ?r2 (Some r) ob now None"
  have new': "new_failed_turn r ob" "ob_turn_id ob = Some t" "ob_turn_state ob = LtFailed" "ob_prompt_accepted ob"
    using new t by (simp_all add: ob sanitize_observation_selection_def new_failed_turn_def split: option.splits)
  have tid: "is_ok (turn_id_new t)" using 1(1) new'(2) by (simp add: check_observation_def split: if_splits)
  let ?turn = "\<lparr>tn_id = t, tn_state = TurnFailed, tn_prompt_accepted = True, tn_attempt = 0,
      tn_error_summary = ob_error_summary ob\<rparr>"
  have turn: "ss_turn ?snap = Some ?turn"
    using new' by (simp add: observation_snapshot_def turn_phase_of_def opt_or_def)
  have "\<not> bad_turn ?snap" using tid by (simp add: bad_turn_def turn id_new_good)
  with failed_turn_event[OF turn, of "le_bridge env"] observation_snapshot_ok[OF 1(1) sid]
  obtain out e cx where e: "snd (observe (le_bridge env) ?snap bridge_new) = Ok out" "e \<in> set (bo_events out)"
      "ev_kind e = ''session.failed''" "event_id_of e = Some (event_id_for cx ''session.failed'' [''failed''])"
      "cx_session_id cx = lr_sdk_session_id r" "turn_component cx = sanitize t"
    by auto
  have "''session.failed'' \<in> set alert_kinds" by (simp add: alert_kinds_def)
  with e(1,2,3) obtain es where es: "bridge_alerts env None ?snap = Ok es" "e \<in> set es"
    by (simp add: bridge_alerts_def)
  from 1(3) es(1) new'(1) obtain v where v: "queue_events now (map scope_failure es) ?r2 = Ok v"
      and rest: "\<exists>r2. stage_if (turn_stalled r ob ?snap) now
          (bridge_alerts env (Some (observation_snapshot r None (previous_observation r) now None)) ?snap) v = Ok r2 \<and>
        stage_if (new_gate_episode r ob) now (bridge_alerts env None ?snap) r2 = Ok u"
    unfolding stage_alerts_def Let_def by (auto simp: stage_if_def res_bind_Inr)
  have keep: "stage_if b now events w = Ok w' \<Longrightarrow> pending_ids w \<subseteq> pending_ids w'" for b events w w'
    by (auto simp: stage_if_def res_bind_Inr dest!: queue_events_ids split: if_splits)
  have "event_id_of (scope_failure e) = event_id_of e" by (simp add: event_id_of_def scope_failure_get)
  with queue_events_ids[OF v] es(2) e(4) have "event_id_for cx ''session.failed'' [''failed''] \<in> pending_ids v" by auto
  with rest keep have "event_id_for cx ''session.failed'' [''failed''] \<in> pending_ids u" by blast
  with e(5,6) tid show ?thesis by (auto simp: id_new_sanitize)
qed

end
