(* ===== verification/GjcLaneProperties.thy ===== *)
theory GjcLaneProperties imports GjcLaneCorrect begin

text \<open>
  The properties of the lane store, with lanes on which they apply, and what the model shows of its limits.
\<close>

section \<open>Samples\<close>

definition sample_lane_env :: lane_env where
  "sample_lane_env = \<lparr>le_bridge = sample_bridge_env, le_sha256 = (\<lambda>s. s), le_canonicalize = (\<lambda>_. None),
     le_git_branch = (\<lambda>_. None), le_json_len = (\<lambda>_. 100)\<rparr>"

definition empty_store :: lane_store where
  "empty_store = \<lparr>ls_state = lane_state_new, ls_disk = NoFile, ls_status = StoreMissing\<rparr>"

definition sample_registration :: "string \<Rightarrow> lane_registration" where
  "sample_registration session = \<lparr>rq_sdk_session_id = session, rq_worktree = None, rq_endpoint_generation = None,
     rq_owner_id = Some ''me'', rq_pr = None\<rparr>"

definition sample_lane_store :: lane_store where
  "sample_lane_store = fst (register_lane sample_lane_env (\<lambda>_. True) ''t0'' (sample_registration ''s1'') empty_store)"

definition sample_lane :: lane_record where
  "sample_lane = lane_record_new ''gjc-7331'' ''s1'' None None 0
     \<lparr>ow_state = OwnClaimed, ow_owner_id = Some ''me'', ow_claimed_at = Some ''t0'', ow_generation = 1\<rparr> None ''t0''"

lemma open_empty: "lane_store_open env disk_ok NoFile = Ok empty_store"
  by (simp add: lane_store_open_def load_state_def migrate_lane_ids_def check_aliases_def check_targets_def lane_state_new_def
      migrate_failure_causality_def empty_store_def)

lemma sample_lane_state:
  "lf_lanes (ls_state sample_lane_store) = [(''gjc-7331'', sample_lane)]"
  "ls_disk sample_lane_store = Parsed (ls_state sample_lane_store)"
  by code_simp+

section \<open>The alert of an unreachable endpoint\<close>

text \<open>The number the alert carries: the bridge counts one past the episode of the lane.\<close>

definition failure_episode :: "lane_record \<Rightarrow> nat" where
  "failure_episode r = min u64_max (u64_saturating_succ (lr_endpoint_episode r) + 1)"

lemma failure_alerts:
  assumes "is_ok (session_id_new (lr_sdk_session_id r))"
  shows "bridge_alerts env None (failure_snapshot now reason r) =
    Ok [endpoint_failed_event (context_new (le_bridge env) (lr_sdk_session_id r) (failure_snapshot now reason r))
          \<lparr>ep_health = EndpointFailed, ep_detail = Some reason\<rparr> (min u64_max (lr_endpoint_episode r + 1))]"
proof -
  let ?snap = "failure_snapshot now reason r"
  let ?cx = "context_new (le_bridge env) (lr_sdk_session_id r) ?snap"
  have sid: "check_snapshot ?snap = Ok (lr_sdk_session_id r)"
    using assms by (simp add: check_snapshot_def failure_snapshot_def snapshot_default_def id_new_good id_new_sanitize)
  have "\<not> bad_turn ?snap" by (simp add: bad_turn_def failure_snapshot_def snapshot_default_def)
  with sid have "snd (observe (le_bridge env) ?snap bridge_new) =
      Ok \<lparr>bo_events = snd (reduce_track ?cx track_default), bo_duplicate = False, bo_stale = False\<rparr>"
    by (simp add: observe_def Let_def track_of_def bridge_new_def count_stats_def case_prod_unfold)
       (simp add: track_default_def)
  moreover have "snd (reduce_track ?cx track_default) = [endpoint_failed_event ?cx
      \<lparr>ep_health = EndpointFailed, ep_detail = Some reason\<rparr> (min u64_max (lr_endpoint_episode r + 1))]"
    by (simp add: reduce_track_parts turn_part_def rest_part_def vanished_step_def prompt_step_def gate_step_def
        model_step_def model_change_event_def endpoint_step_def failure_snapshot_def snapshot_default_def track_default_def
        opt_filter_def u64_max_def Let_def)
  ultimately show ?thesis
    by (simp add: bridge_alerts_def alert_kinds_def)
qed

lemma endpoint_event_id:
  "event_id_of (endpoint_failed_event cx endpoint episode) = Some (event_id_for cx ''session.endpoint-failed''
     [health_name (ep_health endpoint), ''episode-'' @ show_nat (max (max episode (ss_endpoint_episode (cx_snapshot cx))) 1)])"
  by (simp add: endpoint_failed_event_def event_id_of_def get_str_def finish_event_def Let_def bt_get_insert base_object_id)

lemma queue_one:
  assumes "queue_events now [e] r = Ok u"
  shows "endpoint_alerts u \<le> endpoint_alerts r + 1"
proof -
  from assms obtain a where "queue_pending_alert a r = Ok u" by (auto simp: res_bind_Inr)
  then show ?thesis by (auto simp: queue_pending_alert_def endpoint_alerts_def split: if_splits)
qed

lemma mutate_Ok:
  assumes "mutate disk_ok now lane_id n change st = (st1, Ok (u, x))"
    and "bt_get (lf_lanes (ls_state st)) (canonical_lane_id (ls_state st) lane_id) = Some r"
  shows "\<exists>v audit. change r = Ok (v, audit, x) \<and> u = stamped now v \<and>
    bt_get (lf_lanes (ls_state st1)) (canonical_lane_id (ls_state st) lane_id) = Some u"
proof (cases rule: mutate_cases[of disk_ok now lane_id n change st])
  case (refused e)
  with assms(1) show ?thesis by simp
next
  case (written r' v audit y)
  from written(1) assms(2) have "r' = r" by simp
  moreover from assms(1) written(5) have "u = stamped now v" "x = y"
    by (auto simp: res_bind_Inr stamped_def)
  moreover from assms(1) written(5) have
    "st1 = fst (write_lane disk_ok now (canonical_lane_id (ls_state st) lane_id) audit v st)" by simp
  ultimately show ?thesis using written(3) by (simp add: write_lane_state bt_get_insert)
qed

lemma unavailable_staged:
  assumes "unavailable_change env now reason limit r = Ok (v, audit, suspended)"
    and "\<not> lr_endpoint_alerted r" and "is_ok (session_id_new (lr_sdk_session_id r))"
  shows "lr_endpoint_alerted v" "endpoint_alerts v \<le> endpoint_alerts r + 1"
    "\<exists>cx. event_id_for cx ''session.endpoint-failed'' [''failed'', ''episode-'' @ show_nat (failure_episode r)] \<in> pending_ids v"
proof -
  let ?r = "r\<lparr>lr_phase := Some PhUnavailable, lr_last_query_at := Some now,
      lr_unavailable_polls := u32_saturating_succ (lr_unavailable_polls r)\<rparr>"
  let ?r1 = "?r\<lparr>lr_endpoint_episode := u64_saturating_succ (lr_endpoint_episode r)\<rparr>"
  let ?snap = "failure_snapshot now reason ?r1"
  let ?cx = "context_new (le_bridge env) (lr_sdk_session_id r) ?snap"
  let ?e = "endpoint_failed_event ?cx \<lparr>ep_health = EndpointFailed, ep_detail = Some reason\<rparr>
      (min u64_max (u64_saturating_succ (lr_endpoint_episode r) + 1))"
  from assms(1) obtain w x where w: "stage_endpoint_alert env now reason ?r = Ok w"
    and v: "v = w\<lparr>lr_polling_suspended := x\<rparr>" by (rule unavailable_change_cases) blast
  have alerts: "bridge_alerts env None ?snap = Ok [?e]"
    using failure_alerts[of ?r1 env now reason] assms(3) by simp
  from w assms(2) alerts obtain w' where w': "queue_events now [?e] ?r1 = Ok w'" "w = w'\<lparr>lr_endpoint_alerted := True\<rparr>"
    by (auto simp: stage_endpoint_alert_def Let_def res_bind_Inr)
  show "lr_endpoint_alerted v" by (simp add: v w'(2))
  have "endpoint_alerts w' \<le> endpoint_alerts r + 1"
    using queue_one[OF w'(1)] by (simp add: endpoint_alerts_def)
  then show "endpoint_alerts v \<le> endpoint_alerts r + 1" by (simp add: v w'(2) endpoint_alerts_def)
  have "max (max (min u64_max (u64_saturating_succ (lr_endpoint_episode r) + 1)) (u64_saturating_succ (lr_endpoint_episode r))) 1
      = failure_episode r"
    by (simp add: failure_episode_def u64_saturating_succ_def u64_max_def)
  then have "event_id_of ?e = Some (event_id_for ?cx ''session.endpoint-failed''
      [''failed'', ''episode-'' @ show_nat (failure_episode r)])"
    by (simp add: endpoint_event_id health_name_def) (simp add: failure_snapshot_def)
  with queue_events_ids[OF w'(1)]
  have "event_id_for ?cx ''session.endpoint-failed'' [''failed'', ''episode-'' @ show_nat (failure_episode r)] \<in> pending_ids w'"
    by auto
  then show "\<exists>cx. event_id_for cx ''session.endpoint-failed''
      [''failed'', ''episode-'' @ show_nat (failure_episode r)] \<in> pending_ids v"
    by (auto simp: v w'(2) pending_ids_def)
qed

text \<open>An event with an identifier is staged while the queue has room.\<close>

lemma queue_one_ok:
  assumes "pending_from_event e now = Ok a" "length (lr_pending_alerts r) < max_pending_alerts"
  shows "\<exists>u. queue_events now [e] r = Ok u"
  using assms by (simp add: queue_pending_alert_def)

lemma endpoint_pending: "\<exists>a. pending_from_event (endpoint_failed_event cx endpoint episode) now = Ok a"
proof -
  have "ev_kind (endpoint_failed_event cx endpoint episode) = ''session.endpoint-failed''"
    by (simp add: endpoint_failed_event_def finish_event_def Let_def)
  then show ?thesis
    using endpoint_event_id[of cx endpoint episode]
    by (simp add: pending_from_event_def event_id_of_def ok_or_def turn_failure_causality_of_def)
qed

lemma unavailable_ok:
  assumes "is_ok (session_id_new (lr_sdk_session_id r))" "length (lr_pending_alerts r) < max_pending_alerts"
  shows "\<exists>v. unavailable_change env now reason limit r = Ok v"
proof -
  let ?r = "r\<lparr>lr_phase := Some PhUnavailable, lr_last_query_at := Some now,
      lr_unavailable_polls := u32_saturating_succ (lr_unavailable_polls r)\<rparr>"
  let ?r1 = "?r\<lparr>lr_endpoint_episode := u64_saturating_succ (lr_endpoint_episode r)\<rparr>"
  obtain e where e: "bridge_alerts env None (failure_snapshot now reason ?r1) = Ok [e]" "\<exists>a. pending_from_event e now = Ok a"
    using failure_alerts[of ?r1 env now reason] assms(1) endpoint_pending by simp
  then obtain w where "queue_events now [e] ?r1 = Ok w" using queue_one_ok[of e now _ ?r1] assms(2) by auto
  with e(1) have "\<exists>w. stage_endpoint_alert env now reason ?r = Ok w"
    by (auto simp: stage_endpoint_alert_def Let_def)
  then show ?thesis by (auto simp: unavailable_change_def Let_def)
qed

text \<open>A change that succeeds on the lane is written, unless its revision is exhausted or the disk fails.\<close>

lemma mutate_succeeds:
  assumes "bt_get (lf_lanes (ls_state st)) (canonical_lane_id (ls_state st) lane_id) = Some r"
    and "change r = Ok (u, audit, x)" and "lr_revision u < u64_max"
    and "lr_revision r = n"
  shows "\<exists>st'. mutate (\<lambda>_. True) now lane_id n change st = (st', Ok (stamped now u, x))"
  using assms by (simp add: mutate_def Let_def persist_locked_def stamped_def split: prod.splits)

section \<open>The alert of a failed turn\<close>

definition sample_observation :: sdk_observation where
  "sample_observation = \<lparr>ob_session_id = ''s1'', ob_worktree = None, ob_branch = None, ob_branch_observed = False,
     ob_endpoint_generation = 0, ob_revision = 1, ob_turn_state = LtFailed, ob_turn_id = Some ''t1'', ob_command_id = None,
     ob_prompt_accepted = True, ob_model = None, ob_profile = None, ob_gate_state = None, ob_gate_section_present = False,
     ob_gate_id = None, ob_gate_revision = 0, ob_gate_kind = None, ob_gate_workflow_id = None, ob_gate_title = None,
     ob_gate_options = [], ob_disposition = DispLive, ob_error_summary = None\<rparr>"

text \<open>A failure of the bridge names its session, its turn and its revision.\<close>

lemma base_object_identity:
  "bt_get (base_object cx kind status parts) ''session_id'' = Some (JStr (cx_session_id cx))"
  "bt_get (base_object cx kind status parts) ''sdk_revision'' = Some (jnat (ss_revision (cx_snapshot cx)))"
  "turn_component cx \<noteq> [] \<Longrightarrow> bt_get (base_object cx kind status parts) ''turn_id'' = Some (JStr (turn_component cx))"
  "command_component cx = [] \<Longrightarrow> bt_get (base_object cx kind status parts) ''command_id'' = None"
  by (simp_all add: base_object_def Let_def bt_get_insert get_insert_text)

lemma failure_pending:
  assumes "is_ok (session_id_new (cx_session_id cx))" "is_ok (turn_id_new (turn_component cx))"
    and "turn_component cx \<noteq> []" "ss_revision (cx_snapshot cx) \<le> u64_max" "command_component cx = []"
  shows "\<exists>a. pending_from_event (scope_failure (lifecycle_event cx ''session.failed'' status 0 summary error parts [])) now = Ok a"
proof -
  let ?e = "lifecycle_event cx ''session.failed'' status 0 summary error parts []"
  have kind: "ev_kind ?e = ''session.failed''" by (simp add: lifecycle_event_def finish_event_def Let_def)
  have "get_str (ev_payload ?e) ''session_id'' = Some (cx_session_id cx)"
    "get_str (ev_payload ?e) ''turn_id'' = Some (turn_component cx)" "get_str (ev_payload ?e) ''command_id'' = None"
    using assms by (simp_all add: lifecycle_event_def get_str_def finish_event_def Let_def
        bt_get_insert get_insert_text base_object_identity split: option.split)
  then have ids: "get_str (ev_payload (scope_failure ?e)) ''session_id'' = Some (cx_session_id cx)"
    "get_str (ev_payload (scope_failure ?e)) ''turn_id'' = Some (turn_component cx)"
    "get_str (ev_payload (scope_failure ?e)) ''command_id'' = None"
    by (simp_all add: scope_failure_get)
  have revision: "get_u64 (ev_payload (scope_failure ?e)) ''sdk_revision'' = Some (ss_revision (cx_snapshot cx))"
    using kind assms by (simp add: scope_failure_def lifecycle_event_def get_u64_def finish_event_def Let_def
        bt_get_insert get_insert_text base_object_identity u64_max_def split: option.split)
  have "\<exists>c. turn_failure_causality_of (scope_failure ?e) = Ok c"
    using kind assms(1,2) by (simp add: turn_failure_causality_of_def Let_def ids revision ok_or_def check_def)
  moreover have "get_str (ev_payload (scope_failure ?e)) ''event_id'' = event_id_of ?e"
    by (simp add: scope_failure_get event_id_of_def)
  ultimately show ?thesis using lifecycle_event_id[of "[]" cx "''session.failed''" status 0 summary error parts]
    by (auto simp: pending_from_event_def ok_or_def)
qed

lemma sample_turn_alerts:
  "\<exists>e. bridge_alerts sample_lane_env None (observation_snapshot r (Some sample_lane) sample_observation now None) = Ok [e] \<and>
     (\<exists>a. pending_from_event (scope_failure e) now = Ok a)"
proof -
  let ?snap = "observation_snapshot r (Some sample_lane) sample_observation now None"
  let ?cx = "context_new sample_bridge_env ''s1'' ?snap"
  let ?turn = "\<lparr>tn_id = ''t1'', tn_state = TurnFailed, tn_prompt_accepted = True, tn_attempt = 0, tn_error_summary = None\<rparr>"
  let ?e = "lifecycle_event ?cx ''session.failed'' ''failed'' 0 (Some (failure_text ?turn ?snap))
      (Some (failure_text ?turn ?snap)) [''failed''] []"
  have ids: "is_ok (session_id_new ''s1'')" "is_ok (turn_id_new ''t1'')" "sanitize ''s1'' = ''s1''" "sanitize ''t1'' = ''t1''"
    by code_simp+
  have turn: "ss_turn ?snap = Some ?turn"
    by (simp add: observation_snapshot_def turn_phase_of_def opt_or_def sample_observation_def)
  have rest: "ss_session_id ?snap = ''s1''" "ss_prompt ?snap = None" "ss_gate ?snap = None" "ss_model ?snap = None"
    "ss_profile ?snap = None" "ss_endpoint ?snap = None" "ss_revision ?snap = 1" "ss_summary ?snap = None"
    "ss_mapping_error ?snap = None"
    by (simp_all add: observation_snapshot_def sample_observation_def snapshot_default_def)
  have "check_snapshot ?snap = Ok ''s1''" "\<not> bad_turn ?snap"
    using ids by (simp_all add: check_snapshot_def bad_turn_def rest turn id_new_good)
  then have "snd (observe sample_bridge_env ?snap bridge_new) =
      Ok \<lparr>bo_events = snd (reduce_track ?cx track_default), bo_duplicate = False, bo_stale = False\<rparr>"
    by (simp add: observe_def Let_def track_of_def bridge_new_def count_stats_def case_prod_unfold)
       (simp add: track_default_def)
  moreover have "snd (reduce_track ?cx track_default) = [?e]"
    by (simp add: reduce_track_def turn rest Let_def ids turn_step_def retry_step_def enter_turn_def track_default_def
        prompt_accepted_def phase_step_def terminal_step_def vanished_step_def prompt_step_def gate_step_def model_step_def
        model_change_event_def endpoint_step_def and_then_def opt_filter_def)
  moreover have "ev_kind ?e = ''session.failed''" by (simp add: lifecycle_event_def finish_event_def Let_def)
  ultimately have "bridge_alerts sample_lane_env None ?snap = Ok [?e]"
    by (simp add: bridge_alerts_def alert_kinds_def sample_lane_env_def)
  moreover have "\<exists>a. pending_from_event (scope_failure ?e) now = Ok a"
    by (rule failure_pending) (simp_all add: ids turn rest u64_max_def turn_component_def command_component_def)
  ultimately show ?thesis by blast
qed

lemma sample_turn_change: "\<exists>v. observation_change sample_lane_env ''t1'' sample_observation sample_lane = Ok v"
proof -
  have ob: "sanitize_observation_selection sample_observation = sample_observation"
    by (simp add: sanitize_observation_selection_def sample_observation_def)
  have ok: "check_observation sample_lane sample_observation = Ok ()" by code_simp
  have gate: "observe_gate ''t1'' sample_observation (observe_endpoint ''t1'' sample_observation sample_lane) =
      Ok (observe_endpoint ''t1'' sample_observation sample_lane)"
    by (simp add: observe_gate_def observe_endpoint_def Let_def sample_observation_def sample_lane_def lane_record_new_def)
  let ?r2 = "observe_phase sample_observation (observe_terminal ''t1'' sample_observation
      (observe_endpoint ''t1'' sample_observation sample_lane))"
  obtain e a where e: "bridge_alerts sample_lane_env None (observation_snapshot ?r2 (Some sample_lane) sample_observation ''t1'' None) = Ok [e]"
    "pending_from_event (scope_failure e) ''t1'' = Ok a" using sample_turn_alerts by blast
  have new: "new_failed_turn sample_lane sample_observation" "\<not> turn_stalled sample_lane sample_observation snap"
    "\<not> new_gate_episode sample_lane sample_observation" for snap
    by (simp_all add: new_failed_turn_def turn_stalled_def new_gate_episode_def sample_observation_def sample_lane_def
        lane_record_new_def)
  have "lr_pending_alerts ?r2 = []"
    by (simp add: observe_phase_def observe_terminal_def observed_terminal_def observe_endpoint_def Let_def
        sample_observation_def sample_lane_def lane_record_new_def terminal_kind_from_disposition_def)
  then obtain u where "queue_events ''t1'' [scope_failure e] ?r2 = Ok u"
    using queue_one_ok[OF e(2), of ?r2] by (auto simp: max_pending_alerts_def)
  then have "stage_alerts sample_lane_env ''t1'' sample_observation sample_lane ?r2 = Ok u"
    using new e(1) by (simp add: stage_alerts_def Let_def stage_if_def)
  then show ?thesis by (simp add: observation_change_def ob ok gate Let_def)
qed

section \<open>Properties\<close>

text \<open>
  C19. Whatever a store that started without a state file wrote last, through any operations, restarts and
  failed writes, opens again as exactly that state, as long as it holds at most 1,024 lanes and no staged
  payload above 64 KiB.
\<close>

theorem lane_store_reopens:
  assumes "lane_store_open env disk_ok NoFile = Ok st0" and "lane_run env disk_ok UNIV st0 st"
    and "ls_disk st = Parsed s" and "state_small env s"
  shows "lane_store_open env disk_ok (Parsed s) =
    Ok \<lparr>ls_state = s, ls_disk = Parsed s, ls_status = StoreLoaded (length (lf_lanes s))\<rparr>"
proof -
  have st0: "st0 = empty_store" using assms(1) by (simp add: open_empty)
  have "state_wf (ls_state st0)" "state_wf (disk_state st0)" "loads.every_lane env (ls_state st0)"
    "loads.every_lane env (disk_state st0)"
    by (simp_all add: st0 empty_store_def disk_state_def state_wf_new loads.every_lane_def) (simp_all add: lane_state_new_def)
  with run_state_wf[OF assms(2)] loads.run_keeps[OF assms(2)]
  have "state_wf (disk_state st)" "loads.every_lane env (disk_state st)" by auto
  then have "state_wf s" "list_all (\<lambda>(i, r). lane_wf env i r) (lf_lanes s)"
    using assms(3) by (auto simp: disk_state_def state_wf_def intro: every_lane_list)
  then show ?thesis using assms(4) by (rule open_same)
qed

lemma lane_store_reopens_witness:
  "lane_store_open sample_lane_env (\<lambda>_. True) (Parsed (ls_state sample_lane_store)) =
     Ok \<lparr>ls_state = ls_state sample_lane_store, ls_disk = Parsed (ls_state sample_lane_store),
         ls_status = StoreLoaded (length (lf_lanes (ls_state sample_lane_store)))\<rparr>"
proof (rule lane_store_reopens[OF open_empty])
  show "lane_run sample_lane_env (\<lambda>_. True) UNIV empty_store sample_lane_store"
    unfolding sample_lane_store_def by (rule lane_run_step[OF lane_run_refl UNIV_I lane_step.register])
  show "ls_disk sample_lane_store = Parsed (ls_state sample_lane_store)" by (rule sample_lane_state)
  show "state_small sample_lane_env (ls_state sample_lane_store)"
    by (simp add: state_small_def sample_lane_state sample_lane_def lane_record_new_def max_lanes_def)
qed

text \<open>
  C20. A lane only moves forward: under every operation but the re-enrolment of a removed tombstone it keeps its
  session, a terminal disposition stays the one that was set first, a removed watch stays removed,
  evidence that was invalidated never becomes valid again, and neither the watermark nor the revision falls.
\<close>

theorem lane_moves_forward:
  assumes "lane_run env disk_ok forward_labels st st'" and "bt_get (lf_lanes (ls_state st)) i = Some r"
  shows "\<exists>r'. bt_get (lf_lanes (ls_state st')) i = Some r' \<and> advances r r'"
  using assms by (rule lane_forward.run_ordered)

definition gone_lane_store :: lane_store where
  "gone_lane_store = fst (mark_runtime_gone (\<lambda>_. True) ''t1'' ''gjc-7331'' 1 ''not found'' sample_lane_store)"

lemma lane_moves_forward_witness:
  "\<exists>r'. bt_get (lf_lanes (ls_state gone_lane_store)) ''gjc-7331'' = Some r' \<and> advances sample_lane r'"
proof (rule lane_moves_forward)
  show "lane_run sample_lane_env (\<lambda>_. True) forward_labels sample_lane_store gone_lane_store"
    unfolding gone_lane_store_def
    by (rule lane_run_step[OF lane_run_refl _ lane_step.gone]) (simp add: forward_labels_def)
  show "bt_get (lf_lanes (ls_state sample_lane_store)) ''gjc-7331'' = Some sample_lane"
    by (simp add: sample_lane_state)
qed

lemma gone_lane: "map (\<lambda>(i, r). (i, lr_revision r, map_option td_kind (lr_terminal r), lr_review_valid r,
    ow_state (lr_ownership r))) (lf_lanes (ls_state gone_lane_store)) = [(''gjc-7331'', 2, Some TermRetired, False, Relinquished)]"
  by code_simp

text \<open>
  A lane that ended has no owner left, and only a lane that ended is removed from the watches; in every
  state a store reaches, in memory and on disk.
\<close>

theorem lane_end_releases_owner:
  assumes "lane_store_open env disk_ok NoFile = Ok st0" and "lane_run env disk_ok UNIV st0 st"
    and "bt_get (lf_lanes (ls_state st)) i = Some r \<or> bt_get (lf_lanes (disk_state st)) i = Some r"
  shows "(lr_terminal r \<noteq> None \<longrightarrow> ow_state (lr_ownership r) \<noteq> OwnClaimed) \<and>
     (lr_watch_removed_at r \<noteq> None \<longrightarrow> lr_terminal r \<noteq> None)"
proof -
  have st0: "st0 = empty_store" using assms(1) by (simp add: open_empty)
  have "sane.every_lane (ls_state st0)" "sane.every_lane (disk_state st0)"
    by (simp_all add: st0 empty_store_def disk_state_def sane.every_lane_def lane_state_new_def)
  with sane.run_keeps[OF assms(2)] have "sane.every_lane (ls_state st)" "sane.every_lane (disk_state st)" by auto
  with assms(3) have "lane_sane i r" by (auto simp: sane.every_lane_def)
  then show ?thesis by (simp add: lane_sane_def)
qed

lemma lane_end_releases_owner_witness:
  "\<exists>r. bt_get (lf_lanes (ls_state gone_lane_store)) ''gjc-7331'' = Some r \<and> lr_terminal r \<noteq> None \<and>
     ow_state (lr_ownership r) \<noteq> OwnClaimed"
proof -
  obtain r where r: "bt_get (lf_lanes (ls_state gone_lane_store)) ''gjc-7331'' = Some r" "lr_terminal r \<noteq> None"
    using gone_lane by auto
  have "lane_run sample_lane_env (\<lambda>_. True) UNIV empty_store gone_lane_store"
    unfolding gone_lane_store_def sample_lane_store_def
    by (rule lane_run_step[OF lane_run_step[OF lane_run_refl UNIV_I lane_step.register] UNIV_I lane_step.gone])
  from lane_end_releases_owner[OF open_empty this, of "''gjc-7331''" r] r show ?thesis by blast
qed

text \<open>
  C21. Optimistic concurrency: once a mutation with an expected revision changed the store, a second mutation of
  the same lane with the same expected revision is refused as a conflict and changes nothing, whatever
  happened in between short of a restart.
\<close>

theorem stale_writer_refused:
  assumes "mutate disk_ok now lane_id n change st = (st1, res)" and "st1 \<noteq> st"
    and "\<And>r u audit x. change r = Ok (u, audit, x) \<Longrightarrow> lr_revision u = lr_revision r"
    and "lane_run env disk_ok (- {LRestart}) st1 st2"
    and "canonical_lane_id (ls_state st2) lane_id = canonical_lane_id (ls_state st) lane_id"
  shows "\<exists>m > n. mutate disk_ok' now' lane_id n change' st2 = (st2, Err (revision_conflict n m))"
proof -
  let ?i = "canonical_lane_id (ls_state st) lane_id"
  show ?thesis
  proof (cases rule: mutate_cases[of disk_ok now lane_id n change st])
    case (refused e)
    with assms(1,2) show ?thesis by simp
  next
    case (written r u audit x)
    from assms(1) written(5) have "st1 = fst (write_lane disk_ok now ?i audit u st)" by simp
    then have "bt_get (lf_lanes (ls_state st1)) ?i = Some (stamped now u)"
      by (simp add: write_lane_state bt_get_insert)
    with lane_revision.run_ordered[OF assms(4)] obtain r2 where
      "bt_get (lf_lanes (ls_state st2)) ?i = Some r2" "lr_revision (stamped now u) \<le> lr_revision r2" by blast
    moreover have "lr_revision u = n" using written(2,3) assms(3) by metis
    ultimately show ?thesis using assms(5)
      by (intro exI[of _ "lr_revision r2"]) (simp add: mutate_def Let_def)
  qed
qed

lemma stale_writer_refused_witness:
  "\<exists>m > 1. mutate (\<lambda>_. True) ''t2'' ''gjc-7331'' 1 (\<lambda>r. Ok (r, [], True)) (fst (mutate (\<lambda>_. True) ''t1'' ''gjc-7331'' 1
     (\<lambda>r. Ok (r, [], ())) sample_lane_store)) = (fst (mutate (\<lambda>_. True) ''t1'' ''gjc-7331'' 1
     (\<lambda>r. Ok (r, [], ())) sample_lane_store), Err (revision_conflict 1 m))"
proof (rule stale_writer_refused[OF surjective_pairing])
  show "fst (mutate (\<lambda>_. True) ''t1'' ''gjc-7331'' 1 (\<lambda>r. Ok (r, [], ())) sample_lane_store) \<noteq> sample_lane_store"
  proof
    assume "fst (mutate (\<lambda>_. True) ''t1'' ''gjc-7331'' 1 (\<lambda>r. Ok (r, [], ())) sample_lane_store) = sample_lane_store"
    then have "lf_generation (ls_state (fst (mutate (\<lambda>_. True) ''t1'' ''gjc-7331'' 1 (\<lambda>r. Ok (r, [], ())) sample_lane_store)))
        = lf_generation (ls_state sample_lane_store)" by simp
    moreover have "lf_generation (ls_state (fst (mutate (\<lambda>_. True) ''t1'' ''gjc-7331'' 1 (\<lambda>r. Ok (r, [], ())) sample_lane_store))) = 2"
      "lf_generation (ls_state sample_lane_store) = 1" by code_simp+
    ultimately show False by simp
  qed
  show "canonical_lane_id (ls_state (fst (mutate (\<lambda>_. True) ''t1'' ''gjc-7331'' 1 (\<lambda>r. Ok (r, [], ())) sample_lane_store))) ''gjc-7331''
      = canonical_lane_id (ls_state sample_lane_store) ''gjc-7331''" by code_simp
qed auto

text \<open>
  The audit trail never holds more than 512 entries, and entries are counted as dropped only when it is
  full; in every state a store reaches, in memory and on disk.
\<close>

theorem lane_audit_bounded:
  assumes "lane_store_open env disk_ok NoFile = Ok st0" and "lane_run env disk_ok UNIV st0 st"
    and "s = ls_state st \<or> s = disk_state st"
  shows "length (lf_audit s) \<le> 512 \<and> (lf_dropped s \<noteq> 0 \<longrightarrow> length (lf_audit s) = 512)"
proof -
  have st0: "st0 = empty_store" using assms(1) by (simp add: open_empty)
  have "audit_wf (ls_state st0)" "audit_wf (disk_state st0)"
    by (simp_all add: st0 empty_store_def disk_state_def audit_wf_def lane_state_new_def)
  with run_audit_wf[OF assms(2)] assms(3) have "audit_wf s" by auto
  then show ?thesis by (simp add: audit_wf_def max_audit_entries_def)
qed

lemma lane_audit_bounded_witness: "length (lf_audit (ls_state gone_lane_store)) \<le> 512"
proof -
  have "lane_run sample_lane_env (\<lambda>_. True) UNIV empty_store gone_lane_store"
    unfolding gone_lane_store_def sample_lane_store_def
    by (rule lane_run_step[OF lane_run_step[OF lane_run_refl UNIV_I lane_step.register] UNIV_I lane_step.gone])
  from lane_audit_bounded[OF open_empty this] show ?thesis by blast
qed


definition sample_pending :: pending_alert where
  "sample_pending = \<lparr>pa_event_id = ''evt'', pa_kind = ''workflow.gate'', pa_payload = JNull, pa_queued_at = [],
     pa_attempts = 0, pa_turn_failure = None, pa_deliveries = []\<rparr>"

definition alerted_lane_store :: lane_store where
  "alerted_lane_store = sample_lane_store\<lparr>ls_state := (ls_state sample_lane_store)
     \<lparr>lf_lanes := [(''gjc-7331'', sample_lane\<lparr>lr_pending_alerts := [sample_pending]\<rparr>)]\<rparr>\<rparr>"






text \<open>
  The pause before the next query after failures never exceeds the configured maximum (or the initial
  delay, where that is larger), never falls below the initial delay, grows with the number of failures and stays
  what it is after sixteen of them.
\<close>

theorem backoff_bounds:
  "backoff_delay_ms initial limit failures \<le> max limit (max initial 1) \<and>
   min u64_max (max initial 1) \<le> backoff_delay_ms initial limit failures \<and>
   backoff_delay_ms initial limit failures \<le> backoff_delay_ms initial limit (Suc failures) \<and>
   backoff_delay_ms initial limit (16 + failures) = backoff_delay_ms initial limit 16"
proof -
  have "max initial 1 * 2 ^ min failures 16 \<le> max initial 1 * 2 ^ min (Suc failures) 16"
    by (intro mult_le_mono2 power_increasing) auto
  then have "backoff_delay_ms initial limit failures \<le> backoff_delay_ms initial limit (Suc failures)"
    unfolding backoff_delay_ms_def Let_def by (intro min.mono order_refl)
  moreover have "max initial 1 * 1 \<le> max initial 1 * 2 ^ min failures 16" by (intro mult_le_mono2) simp
  then have "min u64_max (max initial 1) \<le> backoff_delay_ms initial limit failures"
    unfolding backoff_delay_ms_def Let_def by (simp add: min_le_iff_disj)
  moreover have "backoff_delay_ms initial limit failures \<le> max limit (max initial 1)"
    unfolding backoff_delay_ms_def Let_def by (rule min.cobounded2)
  moreover have "min (16 + failures) 16 = min 16 (16::nat)" by simp
  then have "backoff_delay_ms initial limit (16 + failures) = backoff_delay_ms initial limit 16"
    unfolding backoff_delay_ms_def by (simp only:)
  ultimately show ?thesis by blast
qed

end
