(* ===== verification/GjcReconcile.thy ===== *)
theory GjcReconcile imports GjcLaneProperties begin

text \<open>
  The polling loop over the lanes: \<open>GjcReconciler\<close> of \<open>gjc_lane.rs\<close> and the adapter that turns a session
  query into an observation.  What the loop awaits (room in the event channel, a query of the control plane,
  the dispatcher's answer, the pull request lookup) is numbered through a pass: the world says what each
  await returns and what other tasks did to the store meanwhile.
\<close>

section \<open>Queries\<close>

datatype query_error =
  EndpointUnavailable string | QueryTimeout string | SessionNotFound string | StaleEndpointGeneration nat
  | AmbiguousReply string | InvalidState string

record lane_query =
  qy_sdk_session_id :: string
  qy_worktree :: "string option"
  qy_known_generation :: nat

datatype gjc_error =
  TransportUnavailable | GjcTimeout string | AmbiguousAck string | InvalidPeerReply string string
  | MissingCapability string | StaleEndpoint string | SessionMismatch string | GjcSessionNotFound string
  | InvalidRequest string string

definition map_control_error :: "gjc_error \<Rightarrow> query_error" where
  "map_control_error e =
     (case e of
        GjcSessionNotFound _ \<Rightarrow> SessionNotFound ''session not found''
      | GjcTimeout _ \<Rightarrow> QueryTimeout ''control-plane timeout''
      | TransportUnavailable \<Rightarrow> EndpointUnavailable ''sdk endpoint unavailable''
      | StaleEndpoint _ \<Rightarrow> EndpointUnavailable ''sdk endpoint unavailable''
      | _ \<Rightarrow> AmbiguousReply ''control-plane response was not authoritative'')"

record command_receipt =
  cr_command_id :: string
  cr_session_id :: string
  cr_turn_id :: "string option"
  cr_created_at :: string

record lane_session_query = session_query +
  lq_revision :: "nat option"

text \<open>
  What the adapter asks: the endpoint metadata of the worktree before and after the query, the query itself, the
  receipts of the commands sent by this daemon, and git for the branch.
\<close>

record plane_env =
  pl_discover :: "nat \<Rightarrow> string \<Rightarrow> string \<Rightarrow> gjc_error + nat"
  pl_query :: "string \<Rightarrow> string \<Rightarrow> gjc_error + lane_session_query"
  pl_receipts :: "command_receipt list"

text \<open>The latest receipt of a turn: \<open>max_by\<close> on the time and the command, the last of equal ones.\<close>

definition receipt_le :: "command_receipt \<Rightarrow> command_receipt \<Rightarrow> bool" where
  "receipt_le a b = (cr_created_at a < cr_created_at b \<or> (cr_created_at a = cr_created_at b \<and> cr_command_id a \<le> cr_command_id b))"

fun latest_receipt :: "command_receipt list \<Rightarrow> command_receipt option" where
  "latest_receipt [] = None"
| "latest_receipt (r # rs) =
     (case latest_receipt rs of None \<Rightarrow> Some r | Some b \<Rightarrow> Some (if receipt_le r b then b else r))"

definition command_of_turn :: "command_receipt list \<Rightarrow> string \<Rightarrow> string option \<Rightarrow> string option" where
  "command_of_turn receipts session_id turn_id =
     (case turn_id of
        None \<Rightarrow> None
      | Some t \<Rightarrow> map_option cr_command_id
          (latest_receipt (filter (\<lambda>r. cr_session_id r = session_id \<and> cr_turn_id r = Some t) receipts)))"

definition lane_turn_of :: "command_status \<Rightarrow> lane_turn_state" where
  "lane_turn_of status =
     (case status of Queued \<Rightarrow> LtRunning | Running \<Rightarrow> LtRunning | Succeeded \<Rightarrow> LtComplete
      | CommandFailed \<Rightarrow> LtFailed | Aborted \<Rightarrow> LtAborted)"

definition is_ready :: "workflow_gate \<Rightarrow> bool" where
  "is_ready g = (wg_state g = GateReady)"

definition lane_gate_of :: "bridge_env \<Rightarrow> workflow_gate list \<Rightarrow> workflow_gate option" where
  "lane_gate_of env gates = opt_or (List.find is_ready gates) (max_gate env gates)"

definition lane_gate_kind :: "workflow_gate \<Rightarrow> gate_kind option" where
  "lane_gate_kind g =
     (if wg_kind g = Some ''ask'' then Some GateAsk else if wg_kind g = Some ''workflow'' then Some GateWorkflow else None)"

text \<open>The observation an authoritative query amounts to.\<close>

definition observation_of_query ::
    "lane_env \<Rightarrow> lane_query \<Rightarrow> nat \<Rightarrow> lane_session_query \<Rightarrow> command_receipt list \<Rightarrow> query_error + sdk_observation" where
  "observation_of_query env q generation sq receipts =
     (let gates = unwrap_or (sq_workflow_gates sq) []; br = le_bridge env; gate = lane_gate_of br gates;
          turn = sq_turn sq; turn_id = map_option st_turn_id turn;
          ready = (case gate of None \<Rightarrow> False | Some g \<Rightarrow> is_ready g);
          branch = (case qy_worktree q of None \<Rightarrow> None | Some w \<Rightarrow> res_ok (current_git_branch env w))
      in if \<not> sq_turn_present sq then Err (InvalidState ''authoritative session query omitted turn'')
         else if 1 < length (filter is_ready gates) then Err (InvalidState ''multiple ready workflow gates'')
         else if list_ex (\<lambda>g. \<not> valid_gate_id (wg_gate_id g) \<or> gate_revision br g = 0) gates
         then Err (InvalidState ''workflow gate identity or revision is malformed'')
         else case lq_revision sq of
           None \<Rightarrow> Err (InvalidState ''authoritative session query omitted revision'')
         | Some revision \<Rightarrow> Ok
             \<lparr>ob_session_id = qy_sdk_session_id q, ob_worktree = qy_worktree q, ob_branch = Option.bind branch id,
              ob_branch_observed = branch \<noteq> None, ob_endpoint_generation = generation, ob_revision = revision,
              ob_turn_state = (if ready then LtAwaitingInput
                else case turn of None \<Rightarrow> LtIdle | Some t \<Rightarrow> lane_turn_of (st_status t)),
              ob_turn_id = turn_id, ob_command_id = command_of_turn receipts (qy_sdk_session_id q) turn_id,
              ob_prompt_accepted = (case turn of None \<Rightarrow> False | Some t \<Rightarrow> st_prompt_accepted t),
              ob_model = map_option fst (sq_model_profile sq), ob_profile = Option.bind (sq_model_profile sq) snd,
              ob_gate_state = map_option (\<lambda>g. if is_ready g then LgReady else LgAnswered) gate,
              ob_gate_section_present = sq_workflow_gates_present sq, ob_gate_id = map_option wg_gate_id gate,
              ob_gate_revision = (case gate of None \<Rightarrow> 0 | Some g \<Rightarrow> gate_revision br g),
              ob_gate_kind = Option.bind gate lane_gate_kind, ob_gate_workflow_id = Option.bind gate wg_workflow_id,
              ob_gate_title = Option.bind gate wg_title, ob_gate_options = (case gate of None \<Rightarrow> [] | Some g \<Rightarrow> wg_options g),
              ob_disposition = DispLive,
              ob_error_summary = (case turn of
                  None \<Rightarrow> None
                | Some t \<Rightarrow> if st_status t = Queued \<or> st_status t = Running then None else st_outcome_summary t)\<rparr>)"

definition query_lane :: "lane_env \<Rightarrow> plane_env \<Rightarrow> lane_query \<Rightarrow> query_error + sdk_observation" where
  "query_lane env pl q =
     (if \<not> is_ok (session_id_new (qy_sdk_session_id q)) then Err (SessionNotFound ''invalid session identity'')
      else case qy_worktree q of
        None \<Rightarrow> Err (EndpointUnavailable ''worktree unavailable'')
      | Some worktree \<Rightarrow>
          (case pl_discover pl 0 worktree (qy_sdk_session_id q) of
             Inl e \<Rightarrow> Err (map_control_error e)
           | Inr generation \<Rightarrow>
               if qy_known_generation q \<noteq> 0 \<and> qy_known_generation q \<noteq> generation
               then Err (StaleEndpointGeneration generation)
               else case pl_query pl worktree (qy_sdk_session_id q) of
                 Inl e \<Rightarrow> Err (map_control_error e)
               | Inr sq \<Rightarrow>
                   (case pl_discover pl 1 worktree (qy_sdk_session_id q) of
                      Inl e \<Rightarrow> Err (map_control_error e)
                    | Inr confirmed \<Rightarrow>
                        if confirmed \<noteq> generation then Err (StaleEndpointGeneration confirmed)
                        else observation_of_query env q generation sq (pl_receipts pl))))"

section \<open>The world of a pass\<close>

record poll_world =
  pw_lane :: lane_env
  pw_disk :: "nat \<Rightarrow> bool"
  pw_policy :: polling_policy
  pw_auto_enrollment :: bool
  pw_worktrees :: "string list"
  pw_discover_all :: "string \<Rightarrow> string + (string \<times> nat) list"
  pw_permit :: "nat \<Rightarrow> bool"
  pw_query :: "nat \<Rightarrow> lane_query \<Rightarrow> query_error + sdk_observation"
  pw_accept :: "nat \<Rightarrow> incoming_event \<Rightarrow> bool"
  pw_resolve :: "(nat \<Rightarrow> string \<Rightarrow> nat \<Rightarrow> string + pr_state option) option"
  pw_others :: "nat \<Rightarrow> lane_store \<Rightarrow> lane_store"
  pw_dispatch :: "nat \<Rightarrow> pending_alert \<Rightarrow> lane_store \<Rightarrow> lane_store"

record reconcile_outcome =
  ro_examined :: nat
  ro_retained :: nat
  ro_ghosts :: nat
  ro_terminal_set :: nat
  ro_runtime_gone :: nat
  ro_invalidations :: nat
  ro_suspended :: nat
  ro_conflicts :: nat

definition outcome_default :: reconcile_outcome where
  "outcome_default = \<lparr>ro_examined = 0, ro_retained = 0, ro_ghosts = 0, ro_terminal_set = 0, ro_runtime_gone = 0,
     ro_invalidations = 0, ro_suspended = 0, ro_conflicts = 0\<rparr>"

text \<open>What the loop did, newest entry first: queries with their replies, alerts sent, status events offered.\<close>

datatype poll_entry =
  Asked lane_query "query_error + sdk_observation" | Sent pending_alert bool | Status incoming_event

record poll_state =
  ps_store :: lane_store
  ps_awaits :: nat
  ps_trace :: "poll_entry list"
  ps_outcome :: reconcile_outcome

definition poll_start :: "lane_store \<Rightarrow> poll_state" where
  "poll_start st = \<lparr>ps_store = st, ps_awaits = 0, ps_trace = [], ps_outcome = outcome_default\<rparr>"

text \<open>One await: the other tasks run.\<close>

definition await_others :: "poll_world \<Rightarrow> poll_state \<Rightarrow> poll_state" where
  "await_others w s = s\<lparr>ps_store := pw_others w (ps_awaits s) (ps_store s), ps_awaits := ps_awaits s + 1\<rparr>"

text \<open>The wait for the dispatcher, which works on the alert and its journal meanwhile.\<close>

definition await_dispatch :: "poll_world \<Rightarrow> pending_alert \<Rightarrow> poll_state \<Rightarrow> poll_state" where
  "await_dispatch w alert s = s\<lparr>ps_store := pw_dispatch w (ps_awaits s) alert (ps_store s), ps_awaits := ps_awaits s + 1\<rparr>"

definition ask :: "poll_world \<Rightarrow> lane_query \<Rightarrow> poll_state \<Rightarrow> (query_error + sdk_observation) \<times> poll_state" where
  "ask w q s =
     (let reply = pw_query w (ps_awaits s) q
      in (reply, (await_others w s)\<lparr>ps_trace := Asked q reply # ps_trace s\<rparr>))"

definition query_of :: "lane_record \<Rightarrow> lane_query" where
  "query_of r = \<lparr>qy_sdk_session_id = lr_sdk_session_id r, qy_worktree = lr_worktree r,
     qy_known_generation = lr_endpoint_generation r\<rparr>"

definition is_conflict :: "string \<Rightarrow> bool" where
  "is_conflict e = str_contains ''revision conflict'' e"

text \<open>A store operation within the loop.\<close>

definition with_store :: "poll_state \<Rightarrow> lane_store \<times> (string + 'a) \<Rightarrow> poll_state \<times> (string + 'a)" where
  "with_store s r = (case r of (st, res) \<Rightarrow> (s\<lparr>ps_store := st\<rparr>, res))"

section \<open>Replaying the staged alerts\<close>

text \<open>One round of the loop either ends it or goes on with what is left of the queue.\<close>

datatype round_end =
  Stop poll_state lane_record "sdk_observation option" | Again poll_state lane_record "sdk_observation option"

definition latest_of :: "poll_state \<Rightarrow> lane_record \<Rightarrow> lane_record" where
  "latest_of s current = unwrap_or (lane_record_of (ps_store s) (lr_lane_id current)) current"

definition acknowledge_round where
  "acknowledge_round w now alert current seen s =
     (let acknowledge = (\<lambda>r s. with_store s (acknowledge_pending_alert (pw_disk w) now (lr_lane_id r) (lr_revision r)
            (pa_event_id alert) (ps_store s)))
      in case acknowledge current s of
           (s, Inr updated) \<Rightarrow> Again s updated seen
         | (s, Inl e) \<Rightarrow>
             if is_conflict e then
               (let latest = latest_of s current
                in case acknowledge latest s of
                     (s, Inr updated) \<Rightarrow> Again s updated seen
                   | (s, Inl _) \<Rightarrow> Again s latest seen)
             else Stop s current seen)"

definition deliver_round where
  "deliver_round w now alert current seen s =
     (let accepted = pw_accept w (ps_awaits s) (incoming_event_of alert);
          s = (await_dispatch w alert s)\<lparr>ps_trace := Sent alert accepted # ps_trace s\<rparr>
      in if \<not> accepted then Stop s (latest_of s current) seen
         else acknowledge_round w now alert current seen s)"

definition judge_round where
  "judge_round w now alert ob current seen s =
     (case failure_alert_authority alert ob of
        AuthCurrent \<Rightarrow> deliver_round w now alert current seen s
      | AuthSuperseded \<Rightarrow>
          (case with_store s (suppress_historical_failure_alert (pw_disk w) now (lr_lane_id current) (lr_revision current)
                  alert ob (ps_store s)) of
             (s, Inr updated) \<Rightarrow> Again s updated seen
           | (s, Inl _) \<Rightarrow> Again s (latest_of s current) seen)
      | AuthUnknown \<Rightarrow> Stop s current seen)"

definition revalidate_round where
  "revalidate_round w now alert current seen s =
     (case ask w (query_of current) s of
        (Inl _, s) \<Rightarrow> Stop s current seen
      | (Inr reply, s) \<Rightarrow>
          (let ob = sanitize_observation_selection reply; seen = Some ob
           in if lr_sdk_revision current < ob_revision ob then
                (case with_store s (apply_observation (pw_lane w) (pw_disk w) now (lr_lane_id current) (lr_revision current)
                        ob (ps_store s)) of
                   (s, Inl _) \<Rightarrow> Stop s current seen
                 | (s, Inr (updated, _)) \<Rightarrow> judge_round w now alert ob updated seen s)
              else judge_round w now alert ob current seen s))"

definition replay_round where
  "replay_round w now alert current seen s =
     (let granted = pw_permit w (ps_awaits s); s = await_others w s
      in if \<not> granted then Stop s current seen
         else case with_store s (note_pending_alert_attempt (pw_disk w) now (lr_lane_id current) (lr_revision current)
                     (pa_event_id alert) (ps_store s)) of
           (s, Inl _) \<Rightarrow> Stop s current seen
         | (s, Inr updated) \<Rightarrow>
             if pa_kind alert = ''session.failed'' then revalidate_round w now alert updated seen s
             else deliver_round w now alert updated seen s)"

text \<open>The loop, with a bound on its rounds.\<close>

fun replay_pending_alerts ::
    "poll_world \<Rightarrow> string \<Rightarrow> nat \<Rightarrow> lane_record \<Rightarrow> sdk_observation option \<Rightarrow> poll_state
     \<Rightarrow> (poll_state \<times> lane_record \<times> sdk_observation option) option" where
  "replay_pending_alerts w now fuel current seen s =
     (case lr_pending_alerts current of
        [] \<Rightarrow> Some (s, current, seen)
      | alert # _ \<Rightarrow>
          (case fuel of
             0 \<Rightarrow> None
           | Suc k \<Rightarrow>
               (case replay_round w now alert current seen s of
                  Stop s r ob \<Rightarrow> Some (s, r, ob)
                | Again s r ob \<Rightarrow> replay_pending_alerts w now k r ob s)))"

declare replay_pending_alerts.simps [simp del]

section \<open>When a lane is polled\<close>

definition last_query_time :: "poll_world \<Rightarrow> lane_record \<Rightarrow> int option" where
  "last_query_time w r = Option.bind (lr_last_query_at r) (be_time_nanos (le_bridge (pw_lane w)))"

definition backoff_defers :: "poll_world \<Rightarrow> int \<Rightarrow> lane_record \<Rightarrow> bool" where
  "backoff_defers w now r =
     (case last_query_time w r of
        None \<Rightarrow> False
      | Some t \<Rightarrow> nat (max ((now - t) div 1000000) 0) mod 2 ^ 64 < backoff_after (pw_policy w) (lr_unavailable_polls r))"

definition as_i64 :: "nat \<Rightarrow> int" where
  "as_i64 n = (if n < 2 ^ 63 then int n else int n - 2 ^ 64)"

definition whole_seconds :: "int \<Rightarrow> int" where
  "whole_seconds d = (if 0 \<le> d then d div 1000000000 else - ((- d) div 1000000000))"

definition suspension_defers :: "poll_world \<Rightarrow> int \<Rightarrow> lane_record \<Rightarrow> bool" where
  "suspension_defers w now r =
     (case last_query_time w r of
        None \<Rightarrow> False
      | Some t \<Rightarrow> whole_seconds (now - t) < as_i64 (min u64_max (pp_poll_interval_secs (pw_policy w) * 60)))"

section \<open>One pass\<close>

text \<open>The serialised names of ownership and disposition.\<close>

definition ownership_text :: "ownership_state \<Rightarrow> string" where
  "ownership_text x = (case x of Unclaimed \<Rightarrow> ''unclaimed'' | OwnClaimed \<Rightarrow> ''claimed'' | Relinquished \<Rightarrow> ''relinquished'')"

definition terminal_text :: "terminal_kind \<Rightarrow> string" where
  "terminal_text x = (case x of TermComplete \<Rightarrow> ''complete'' | TermFailed \<Rightarrow> ''failed'' | TermRetired \<Rightarrow> ''retired'')"

definition status_event :: "lane_env \<Rightarrow> string \<Rightarrow> lane_record \<Rightarrow> incoming_event" where
  "status_event env now r =
     \<lparr>ev_kind = ''gjc.lane.status'', ev_channel = None, ev_mention = None, ev_format = None, ev_template = None,
      ev_payload = jobject
        [(''schema'', JStr ''clawhip.gjc-lane-status.v1''), (''lane_id'', JStr (lr_lane_id r)),
         (''sdk_session_id'', JStr (lr_sdk_session_id r)),
         (''worktree_fingerprint'', jopt (\<lambda>p. JStr (lane_fingerprint env p)) (lr_worktree r)),
         (''phase'', jopt (\<lambda>p. JStr (phase_as_str p)) (lr_phase r)),
         (''ownership'', JStr (ownership_text (ow_state (lr_ownership r)))),
         (''terminal'', jopt (\<lambda>d. JStr (terminal_text (td_kind d))) (lr_terminal r)),
         (''revision'', jnat (lr_revision r)), (''evidence_revision'', jnat (lr_evidence_revision r)),
         (''watch_removed'', JBool (lr_watch_removed_at r \<noteq> None)), (''observed_at'', JStr now)]\<rparr>"

definition emit_status :: "poll_world \<Rightarrow> string \<Rightarrow> lane_record \<Rightarrow> poll_state \<Rightarrow> poll_state" where
  "emit_status w now r s = s\<lparr>ps_trace := Status (status_event (pw_lane w) now r) # ps_trace s\<rparr>"

definition tally :: "(reconcile_outcome \<Rightarrow> reconcile_outcome) \<Rightarrow> poll_state \<Rightarrow> poll_state" where
  "tally f s = s\<lparr>ps_outcome := f (ps_outcome s)\<rparr>"

definition retained :: "poll_state \<Rightarrow> poll_state" where
  "retained = tally (\<lambda>c. c\<lparr>ro_retained := ro_retained c + 1\<rparr>)"

definition ghost_removed :: "poll_state \<Rightarrow> poll_state" where
  "ghost_removed = tally (\<lambda>c. c\<lparr>ro_ghosts := ro_ghosts c + 1\<rparr>)"

definition evidence_lost :: "poll_state \<Rightarrow> poll_state" where
  "evidence_lost = tally (\<lambda>c. c\<lparr>ro_invalidations := ro_invalidations c + 1\<rparr>)"

definition terminal_counted :: "poll_state \<Rightarrow> poll_state" where
  "terminal_counted = tally (\<lambda>c. c\<lparr>ro_terminal_set := ro_terminal_set c + 1\<rparr>)"

text \<open>A writer that came too late is counted and noted.\<close>

definition skip_conflict :: "poll_world \<Rightarrow> string \<Rightarrow> string \<Rightarrow> nat \<Rightarrow> poll_state \<Rightarrow> poll_state" where
  "skip_conflict w now lane_id expected s =
     tally (\<lambda>c. c\<lparr>ro_conflicts := ro_conflicts c + 1\<rparr>)
       (s\<lparr>ps_store := note_revision_conflict (pw_disk w) now lane_id expected (ps_store s)\<rparr>)"

text \<open>The common treatment of a failed operation: a conflict is skipped, another error ends the pass.\<close>

definition conflict_or_fail ::
    "poll_world \<Rightarrow> string \<Rightarrow> string \<Rightarrow> nat \<Rightarrow> string \<Rightarrow> poll_state \<Rightarrow> poll_state \<times> (string + unit)" where
  "conflict_or_fail w now lane_id expected e s =
     (if is_conflict e then (skip_conflict w now lane_id expected s, Ok ()) else (s, Err e))"

definition reconcile_pr :: "poll_world \<Rightarrow> string \<Rightarrow> lane_record \<Rightarrow> poll_state \<Rightarrow> poll_state" where
  "reconcile_pr w now r s =
     (case (pw_resolve w, lr_pr r) of
        (Some resolve, Some binding) \<Rightarrow>
          (let answer = resolve (ps_awaits s) (pb_repo binding) (pb_number binding); s = await_others w s
           in case answer of
                Inl _ \<Rightarrow> s
              | Inr resolved \<Rightarrow>
                  (case with_store s (reconcile_pr_binding (pw_disk w) now (lr_lane_id r) (lr_revision r) resolved (ps_store s)) of
                     (s, Inr (_, pr_outcome)) \<Rightarrow> if po_evidence_invalidated pr_outcome then evidence_lost s else s
                   | (s, Inl e) \<Rightarrow> if is_conflict e then skip_conflict w now (lr_lane_id r) (lr_revision r) s else s))
      | _ \<Rightarrow> s)"

type_synonym lane_result = "(poll_state \<times> (string + unit)) option"

text \<open>The lane answered.\<close>

definition poll_observed :: "poll_world \<Rightarrow> string \<Rightarrow> nat \<Rightarrow> lane_record \<Rightarrow> sdk_observation \<Rightarrow> poll_state \<Rightarrow> lane_result" where
  "poll_observed w now fuel snapshot ob s =
     (if ob_revision ob \<le> lr_sdk_revision snapshot then Some (retained s, Ok ())
      else case with_store s (apply_observation (pw_lane w) (pw_disk w) now (lr_lane_id snapshot) (lr_revision snapshot) ob
                  (ps_store s)) of
        (s, Inr (r, applied)) \<Rightarrow>
          Option.bind (replay_pending_alerts w now fuel r None (retained s)) (\<lambda>(s, r, _).
          if ao_terminal_set applied \<noteq> None then Some (emit_status w now r (terminal_counted s), Ok ())
          else let s = (if ao_evidence_invalidated applied then evidence_lost s else s)
               in Some (reconcile_pr w now r (emit_status w now r s), Ok ()))
      | (s, Inl e) \<Rightarrow>
          Some (if is_conflict e then skip_conflict w now (lr_lane_id snapshot) (lr_revision snapshot) s else retained s, Ok ()))"

definition poll_session_gone :: "poll_world \<Rightarrow> string \<Rightarrow> nat \<Rightarrow> lane_record \<Rightarrow> string \<Rightarrow> poll_state \<Rightarrow> lane_result" where
  "poll_session_gone w now fuel snapshot detail s =
     (if lr_terminal snapshot \<noteq> None then
        (case with_store s (remove_ghost_watch (pw_disk w) now (lr_lane_id snapshot) (lr_revision snapshot)
                (''terminal session absent from control plane: '' @ detail) (ps_store s)) of
           (s, Inr r) \<Rightarrow> Some (emit_status w now r (ghost_removed s), Ok ())
         | (s, Inl e) \<Rightarrow>
             Some (if is_conflict e then (skip_conflict w now (lr_lane_id snapshot) (lr_revision snapshot) s, Ok ())
                   else if lr_pending_alerts snapshot \<noteq> [] then (retained s, Ok ()) else (s, Err e)))
      else
        (case with_store s (mark_runtime_gone (pw_disk w) now (lr_lane_id snapshot) (lr_revision snapshot) detail (ps_store s)) of
           (s, Inr r) \<Rightarrow>
             map_option (\<lambda>(s, _, _). (emit_status w now r s, Ok ()))
               (replay_pending_alerts w now fuel r None
                 (evidence_lost (terminal_counted (tally (\<lambda>c. c\<lparr>ro_runtime_gone := ro_runtime_gone c + 1\<rparr>) s))))
         | (s, Inl e) \<Rightarrow> Some (conflict_or_fail w now (lr_lane_id snapshot) (lr_revision snapshot) e s)))"

definition poll_rotated :: "poll_world \<Rightarrow> string \<Rightarrow> lane_record \<Rightarrow> nat \<Rightarrow> poll_state \<Rightarrow> lane_result" where
  "poll_rotated w now snapshot observed s =
     (case with_store s (note_endpoint_rotation (pw_disk w) now (lr_lane_id snapshot) (lr_revision snapshot) observed (ps_store s)) of
        (s, Inr r) \<Rightarrow> Some (emit_status w now r (evidence_lost s), Ok ())
      | (s, Inl e) \<Rightarrow> Some (conflict_or_fail w now (lr_lane_id snapshot) (lr_revision snapshot) e s))"

text \<open>The endpoint of a lane that ended: the watch is dropped after some misses, when no alert is left.\<close>

definition poll_terminal_unavailable ::
    "poll_world \<Rightarrow> string \<Rightarrow> nat \<Rightarrow> lane_record \<Rightarrow> string \<Rightarrow> poll_state \<Rightarrow> lane_result" where
  "poll_terminal_unavailable w now fuel snapshot detail s =
     (let misses = (lr_unavailable_polls snapshot + 1) mod 2 ^ 32
      in case with_store s (mark_unavailable (pw_lane w) (pw_disk w) now (lr_lane_id snapshot) (lr_revision snapshot) detail u32_max
                  (ps_store s)) of
        (s, Inl e) \<Rightarrow> Some (conflict_or_fail w now (lr_lane_id snapshot) (lr_revision snapshot) e s)
      | (s, Inr (r, _)) \<Rightarrow>
          Option.bind (replay_pending_alerts w now fuel r None s) (\<lambda>(s, r, _).
          if pp_ghost_grace_polls (pw_policy w) \<le> misses then
            (if lr_pending_alerts r \<noteq> [] then Some (retained s, Ok ())
             else case with_store s (remove_ghost_watch (pw_disk w) now (lr_lane_id snapshot) (lr_revision r)
                        (''terminal watch exceeded ghost grace after '' @ show_nat misses @ '' unavailable polls: '' @ detail)
                        (ps_store s)) of
               (s, Inr r) \<Rightarrow> Some (emit_status w now r (ghost_removed s), Ok ())
             | (s, Inl e) \<Rightarrow> Some (conflict_or_fail w now (lr_lane_id snapshot) (lr_revision r) e s))
          else Some (retained s, Ok ())))"

definition poll_unavailable :: "poll_world \<Rightarrow> string \<Rightarrow> nat \<Rightarrow> lane_record \<Rightarrow> string \<Rightarrow> poll_state \<Rightarrow> lane_result" where
  "poll_unavailable w now fuel snapshot detail s =
     (if lr_terminal snapshot \<noteq> None then poll_terminal_unavailable w now fuel snapshot detail s
      else case with_store s (mark_unavailable (pw_lane w) (pw_disk w) now (lr_lane_id snapshot) (lr_revision snapshot) detail
                  (pp_max_consecutive_attempts (pw_policy w)) (ps_store s)) of
        (s, Inr (r, suspended)) \<Rightarrow>
          map_option (\<lambda>(s, _, _). (retained (if suspended then tally (\<lambda>c. c\<lparr>ro_suspended := ro_suspended c + 1\<rparr>) s else s), Ok ()))
            (replay_pending_alerts w now fuel r None s)
      | (s, Inl e) \<Rightarrow> Some (conflict_or_fail w now (lr_lane_id snapshot) (lr_revision snapshot) e s))"

definition poll_ambiguous :: "poll_world \<Rightarrow> string \<Rightarrow> nat \<Rightarrow> lane_record \<Rightarrow> string \<Rightarrow> poll_state \<Rightarrow> lane_result" where
  "poll_ambiguous w now fuel snapshot detail s =
     (if detail = ''multiple ready workflow gates'' then Some (retained s, Ok ())
      else case with_store s (enqueue_endpoint_failure (pw_lane w) (pw_disk w) now (lr_lane_id snapshot) (lr_revision snapshot) detail
                  (ps_store s)) of
        (s, Inr r) \<Rightarrow> map_option (\<lambda>(s, _, _). (retained s, Ok ())) (replay_pending_alerts w now fuel r None s)
      | (s, Inl e) \<Rightarrow>
          Some (if is_conflict e then (retained (skip_conflict w now (lr_lane_id snapshot) (lr_revision snapshot) s), Ok ())
                else (s, Err e)))"

definition poll_reply ::
    "poll_world \<Rightarrow> string \<Rightarrow> nat \<Rightarrow> lane_record \<Rightarrow> query_error + sdk_observation \<Rightarrow> poll_state \<Rightarrow> lane_result" where
  "poll_reply w now fuel snapshot reply s =
     (case reply of
        Inr ob \<Rightarrow> poll_observed w now fuel snapshot ob s
      | Inl (SessionNotFound d) \<Rightarrow> poll_session_gone w now fuel snapshot d s
      | Inl (StaleEndpointGeneration g) \<Rightarrow> poll_rotated w now snapshot g s
      | Inl (EndpointUnavailable d) \<Rightarrow> poll_unavailable w now fuel snapshot d s
      | Inl (QueryTimeout d) \<Rightarrow> poll_unavailable w now fuel snapshot d s
      | Inl (InvalidState _) \<Rightarrow> Some (retained s, Ok ())
      | Inl (AmbiguousReply d) \<Rightarrow> poll_ambiguous w now fuel snapshot d s)"

definition poll_lane :: "poll_world \<Rightarrow> int \<Rightarrow> string \<Rightarrow> nat \<Rightarrow> lane_record \<Rightarrow> poll_state \<Rightarrow> lane_result" where
  "poll_lane w time now fuel record s =
     Option.bind (replay_pending_alerts w now fuel record None s) (\<lambda>(s, snapshot, seen).
     if map_option td_kind (lr_terminal snapshot) = Some TermRetired \<and> lr_pending_alerts snapshot = [] then
       (case with_store s (remove_ghost_watch (pw_disk w) now (lr_lane_id snapshot) (lr_revision snapshot)
               ''retired watch cleanup'' (ps_store s)) of
          (s, Inr updated) \<Rightarrow> Some (emit_status w now updated (ghost_removed s), Ok ())
        | (s, Inl _) \<Rightarrow> Some (s, Ok ()))
     else if lr_polling_suspended snapshot \<and> suspension_defers w time snapshot then Some (s, Ok ())
     else if backoff_defers w time snapshot then Some (retained s, Ok ())
     else
       let s = tally (\<lambda>c. c\<lparr>ro_examined := ro_examined c + 1\<rparr>) s
       in case seen of
            Some ob \<Rightarrow> poll_reply w now fuel snapshot (Inr ob) s
          | None \<Rightarrow> (case ask w (query_of snapshot) s of (reply, s) \<Rightarrow> poll_reply w now fuel snapshot reply s))"

fun poll_lanes :: "poll_world \<Rightarrow> int \<Rightarrow> string \<Rightarrow> nat \<Rightarrow> lane_record list \<Rightarrow> poll_state \<Rightarrow> lane_result" where
  "poll_lanes w time now fuel [] s = Some (s, Ok ())"
| "poll_lanes w time now fuel (r # rs) s =
     Option.bind (poll_lane w time now fuel r s) (\<lambda>(s, res).
       case res of Inl e \<Rightarrow> Some (s, Err e) | Inr _ \<Rightarrow> poll_lanes w time now fuel rs s)"

section \<open>Enrolment of sessions found in the worktrees\<close>

definition gone_tombstone :: "string \<Rightarrow> lane_record \<Rightarrow> bool" where
  "gone_tombstone session_id r =
     (lr_watch_removed_at r \<noteq> None \<and> lr_sdk_session_id r = session_id \<and>
      (case lr_terminal r of None \<Rightarrow> False | Some d \<Rightarrow> td_kind d = TermRetired \<and> starts_with ''runtime gone:'' (td_evidence d)))"

definition enroll_endpoint ::
    "poll_world \<Rightarrow> string \<Rightarrow> lane_record list \<Rightarrow> string \<Rightarrow> string \<times> nat \<Rightarrow> lane_store \<Rightarrow> lane_store" where
  "enroll_endpoint w now known worktree endpoint st =
     (case endpoint of
        (session_id, generation) \<Rightarrow>
          (let st = (case List.find (gone_tombstone session_id) known of
                       None \<Rightarrow> st
                     | Some r \<Rightarrow> fst (reclaim_tombstone (pw_disk w) now (lr_lane_id r) (lr_revision r) generation (Some worktree) st))
           in if list_ex (\<lambda>r. lr_watch_removed_at r = None \<and> lr_sdk_session_id r = session_id) known then st
              else fst (register_lane (pw_lane w) (pw_disk w) now
                     \<lparr>rq_sdk_session_id = session_id, rq_worktree = Some worktree, rq_endpoint_generation = Some generation,
                      rq_owner_id = None, rq_pr = None\<rparr> st)))"

definition auto_enroll_native_sessions :: "poll_world \<Rightarrow> string \<Rightarrow> lane_store \<Rightarrow> lane_store" where
  "auto_enroll_native_sessions w now st =
     (let known = snapshot_watches True st
      in foldl (\<lambda>st worktree.
           case pw_discover_all w worktree of
             Inl _ \<Rightarrow> st
           | Inr endpoints \<Rightarrow> foldl (\<lambda>st endpoint. enroll_endpoint w now known worktree endpoint st) st endpoints)
         st (pw_worktrees w))"

text \<open>One pass at a time and its text.\<close>

definition poll_once :: "poll_world \<Rightarrow> int \<Rightarrow> string \<Rightarrow> nat \<Rightarrow> lane_store \<Rightarrow> lane_result" where
  "poll_once w time now fuel st =
     (case policy_validate (pw_policy w) of
        Inl e \<Rightarrow> Some (poll_start st, Err e)
      | Inr _ \<Rightarrow>
          (let st = (if pw_auto_enrollment w then auto_enroll_native_sessions w now st else st)
           in poll_lanes w time now fuel (filter (\<lambda>r. lr_watch_removed_at r = None) (snapshot_watches True st)) (poll_start st)))"

end
