(* ===== verification/GjcReconcileCorrect.thy ===== *)
theory GjcReconcileCorrect imports GjcReconcile begin

text \<open>
  The polling loop: which failures it announces, what becomes of a staged alert, when the replay ends, and
  what the loop leaves as it is.
\<close>

section \<open>The trace of a pass\<close>

text \<open>A failure is announced only directly after a query whose answer says that it is the current state.\<close>

fun vetted :: "poll_entry list \<Rightarrow> bool" where
  "vetted [] = True"
| "vetted (Sent a accepted # t) =
     ((pa_kind a = ''session.failed'' \<longrightarrow>
         (case t of Asked q (Inr ob) # _ \<Rightarrow> failure_alert_authority a (sanitize_observation_selection ob) = AuthCurrent
          | _ \<Rightarrow> False)) \<and> vetted t)"
| "vetted (_ # t) = vetted t"

lemma vetted_suffix: "vetted (later @ t) \<Longrightarrow> vetted t"
proof (induction later)
  case (Cons e later)
  then show ?case by (cases e) auto
qed simp

fun round_state :: "round_end \<Rightarrow> poll_state" where
  "round_state (Stop s r ob) = s"
| "round_state (Again s r ob) = s"

lemma with_store_eq: "with_store s r = (s\<lparr>ps_store := fst r\<rparr>, snd r)"
  by (simp add: with_store_def case_prod_unfold)

lemma trace_simps [simp]:
  "ps_trace (await_others w s) = ps_trace s" "ps_trace (await_dispatch w a s) = ps_trace s" "ps_trace (tally f s) = ps_trace s" "ps_trace (retained s) = ps_trace s"
  "ps_trace (ghost_removed s) = ps_trace s" "ps_trace (evidence_lost s) = ps_trace s" "ps_trace (terminal_counted s) = ps_trace s"
  "ps_trace (skip_conflict w now i n s) = ps_trace s"
  "ps_trace (fst (conflict_or_fail w now i n e s)) = ps_trace s"
  "ps_trace (emit_status w now r s) = Status (status_event (pw_lane w) now r) # ps_trace s"
  by (simp_all add: await_others_def await_dispatch_def tally_def retained_def ghost_removed_def evidence_lost_def terminal_counted_def
      skip_conflict_def conflict_or_fail_def emit_status_def)

lemma reconcile_pr_trace [simp]: "ps_trace (reconcile_pr w now r s) = ps_trace s"
  by (simp add: reconcile_pr_def with_store_eq Let_def split: option.split sum.split prod.split)

lemma acknowledge_round_trace [simp]: "ps_trace (round_state (acknowledge_round w now a r ob s)) = ps_trace s"
  by (simp add: acknowledge_round_def with_store_eq Let_def split: sum.split)

lemma deliver_round_trace:
  "\<exists>accepted. ps_trace (round_state (deliver_round w now a r ob s)) = Sent a accepted # ps_trace s"
  by (auto simp: deliver_round_def Let_def)

lemma judge_round_vetted:
  assumes "pa_kind a = ''session.failed''" "ps_trace s = Asked q (Inr reply) # t" "ob = sanitize_observation_selection reply"
    and "vetted t"
  shows "vetted (ps_trace (round_state (judge_round w now a ob r seen s)))"
proof (cases "failure_alert_authority a ob")
  case AuthCurrent
  obtain accepted where "ps_trace (round_state (deliver_round w now a r seen s)) = Sent a accepted # ps_trace s"
    using deliver_round_trace by blast
  with assms AuthCurrent show ?thesis by (simp add: judge_round_def)
qed (use assms in \<open>simp_all add: judge_round_def with_store_eq split: sum.split\<close>)

lemma revalidate_round_vetted:
  assumes "pa_kind a = ''session.failed''" "vetted (ps_trace s)"
  shows "vetted (ps_trace (round_state (revalidate_round w now a r seen s)))"
  using assms
  by (auto simp: revalidate_round_def ask_def Let_def with_store_eq split: sum.split prod.split intro!: judge_round_vetted)

lemma replay_round_vetted:
  assumes "vetted (ps_trace s)"
  shows "vetted (ps_trace (round_state (replay_round w now a r seen s)))"
proof -
  have "vetted (ps_trace (round_state (deliver_round w now a u seen s')))"
    if "pa_kind a \<noteq> ''session.failed''" "ps_trace s' = ps_trace s" for u s'
    using deliver_round_trace[of w now a u seen s'] that assms by auto
  then show ?thesis using assms
    by (auto simp: replay_round_def Let_def with_store_eq split: sum.split intro!: revalidate_round_vetted)
qed

lemma replay_Nil: "lr_pending_alerts r = [] \<Longrightarrow> replay_pending_alerts w now fuel r ob s = Some (s, r, ob)"
  by (simp add: replay_pending_alerts.simps)

lemma replay_Cons:
  "lr_pending_alerts r = a # as \<Longrightarrow> replay_pending_alerts w now 0 r ob s = None"
  "lr_pending_alerts r = a # as \<Longrightarrow> replay_pending_alerts w now (Suc k) r ob s =
     (case replay_round w now a r ob s of
        Stop s r ob \<Rightarrow> Some (s, r, ob) | Again s r ob \<Rightarrow> replay_pending_alerts w now k r ob s)"
  by (simp_all add: replay_pending_alerts.simps[of w now 0] replay_pending_alerts.simps[of w now "Suc k"])

text \<open>What every round keeps, the replay keeps.\<close>

lemma replay_keeps:
  assumes round: "\<And>a as r ob s. lr_pending_alerts r = a # as \<Longrightarrow> P s \<Longrightarrow> P (round_state (replay_round w now a r ob s))"
  shows "replay_pending_alerts w now fuel r ob s = Some (s', r', ob') \<Longrightarrow> P s \<Longrightarrow> P s'"
proof (induction fuel arbitrary: r ob s)
  case 0
  then show ?case by (cases "lr_pending_alerts r") (simp_all add: replay_Nil replay_Cons)
next
  case (Suc k)
  show ?case
  proof (cases "lr_pending_alerts r")
    case Nil
    with Suc(2,3) show ?thesis by (simp add: replay_Nil)
  next
    case (Cons a as)
    with round[OF Cons Suc(3), of ob] Suc(1,2) show ?thesis
      by (cases "replay_round w now a r ob s") (auto simp: replay_Cons)
  qed
qed

lemma replay_vetted:
  "replay_pending_alerts w now fuel r ob s = Some (s', r', ob') \<Longrightarrow> vetted (ps_trace s) \<Longrightarrow> vetted (ps_trace s')"
  by (rule replay_keeps[where P="\<lambda>s. vetted (ps_trace s)"]) (simp_all add: replay_round_vetted)

lemma ask_vetted: "vetted (ps_trace (snd (ask w q s))) = vetted (ps_trace s)"
  by (simp add: ask_def Let_def)

lemmas poll_reply_defs = poll_observed_def poll_session_gone_def poll_rotated_def poll_unavailable_def
  poll_terminal_unavailable_def poll_ambiguous_def

lemma poll_reply_vetted:
  assumes "poll_reply w now fuel r reply s = Some (s', res)" "vetted (ps_trace s)"
  shows "vetted (ps_trace s')"
  using assms unfolding poll_reply_def poll_reply_defs Let_def with_store_eq
  by (auto split: sum.splits query_error.splits if_splits option.splits bind_splits prod.splits
      simp: conflict_or_fail_def dest!: replay_vetted)

lemma poll_lane_vetted:
  assumes "poll_lane w time now fuel r s = Some (s', res)" "vetted (ps_trace s)"
  shows "vetted (ps_trace s')"
  using assms unfolding poll_lane_def Let_def with_store_eq
  by (auto split: sum.splits if_splits option.splits bind_splits prod.splits
      dest!: replay_vetted dest: poll_reply_vetted simp: ask_def Let_def)

lemma poll_lanes_vetted:
  "poll_lanes w time now fuel rs s = Some (s', res) \<Longrightarrow> vetted (ps_trace s) \<Longrightarrow> vetted (ps_trace s')"
  by (induction rs arbitrary: s) (auto split: bind_splits sum.splits dest: poll_lane_vetted)

section \<open>What a pass does to the store\<close>

text \<open>
  A contract for properties of a whole pass: kept by what other tasks do, by the store operations that answer no
  alert, by an acknowledgement once the alert was accepted, and by a suppression once an answer superseded it.
\<close>

locale poll_invariant =
  fixes w :: poll_world and P :: "poll_state \<Rightarrow> bool"
  assumes others: "P s \<Longrightarrow> P (await_others w s)" and dispatch: "P s \<Longrightarrow> P (await_dispatch w a s)"
    and step: "P s \<Longrightarrow> lane_step (pw_lane w) (pw_disk w) l (ps_store s) st \<Longrightarrow> l \<in> unanswered_labels \<Longrightarrow> P (s\<lparr>ps_store := st\<rparr>)"
    and acked: "P s \<Longrightarrow> Sent a True \<in> set (ps_trace s) \<Longrightarrow>
      P (s\<lparr>ps_store := fst (acknowledge_pending_alert (pw_disk w) now i n (pa_event_id a) (ps_store s))\<rparr>)"
    and suppressed: "P s \<Longrightarrow> Asked q (Inr reply) \<in> set (ps_trace s) \<Longrightarrow> ob = sanitize_observation_selection reply \<Longrightarrow>
      failure_alert_authority a ob = AuthSuperseded \<Longrightarrow>
      P (s\<lparr>ps_store := fst (suppress_historical_failure_alert (pw_disk w) now i n a ob (ps_store s))\<rparr>)"
    and logged: "P s \<Longrightarrow> P (s\<lparr>ps_trace := e # ps_trace s\<rparr>)"
    and counted: "P s \<Longrightarrow> P (s\<lparr>ps_outcome := c\<rparr>)"
    and reclaimed: "P s \<Longrightarrow> p \<in> set (pw_worktrees w) \<Longrightarrow>
      P (s\<lparr>ps_store := fst (reclaim_tombstone (pw_disk w) now i n g (Some p) (ps_store s))\<rparr>)"
begin

lemma ops:
  assumes "P s"
  shows "P (s\<lparr>ps_store := fst (note_pending_alert_attempt (pw_disk w) now i n e (ps_store s))\<rparr>)"
    "P (s\<lparr>ps_store := fst (apply_observation (pw_lane w) (pw_disk w) now i n ob (ps_store s))\<rparr>)"
    "P (s\<lparr>ps_store := fst (remove_ghost_watch (pw_disk w) now i n reason (ps_store s))\<rparr>)"
    "P (s\<lparr>ps_store := fst (mark_runtime_gone (pw_disk w) now i n detail (ps_store s))\<rparr>)"
    "P (s\<lparr>ps_store := fst (note_endpoint_rotation (pw_disk w) now i n g (ps_store s))\<rparr>)"
    "P (s\<lparr>ps_store := fst (mark_unavailable (pw_lane w) (pw_disk w) now i n reason limit (ps_store s))\<rparr>)"
    "P (s\<lparr>ps_store := fst (enqueue_endpoint_failure (pw_lane w) (pw_disk w) now i n reason (ps_store s))\<rparr>)"
    "P (s\<lparr>ps_store := fst (reconcile_pr_binding (pw_disk w) now i n resolved (ps_store s))\<rparr>)"
    "P (s\<lparr>ps_store := note_revision_conflict (pw_disk w) now i n (ps_store s)\<rparr>)"
  by (rule step[OF assms lane_step.attempt] step[OF assms lane_step.observation] step[OF assms lane_step.ghost]
      step[OF assms lane_step.gone] step[OF assms lane_step.rotation] step[OF assms lane_step.unavailable]
      step[OF assms lane_step.endpoint] step[OF assms lane_step.pr] step[OF assms lane_step.conflict_note];
      simp add: unanswered_labels_def)+

lemma tallied: "P s \<Longrightarrow> P (tally f s)"
  by (simp add: tally_def counted)

lemma marks:
  assumes "P s"
  shows "P (retained s)" "P (ghost_removed s)" "P (evidence_lost s)" "P (terminal_counted s)" "P (emit_status w now r s)"
    "P (skip_conflict w now i n s)" "P (fst (conflict_or_fail w now i n e s))"
  using assms by (simp_all add: retained_def ghost_removed_def evidence_lost_def terminal_counted_def emit_status_def
      skip_conflict_def conflict_or_fail_def tallied logged ops)

lemma asked: "P s \<Longrightarrow> P (snd (ask w q s))"
  using logged[OF others, of s] by (simp add: ask_def Let_def await_others_def)

lemma pr_kept: "P s \<Longrightarrow> P (reconcile_pr w now r s)"
  by (auto simp: reconcile_pr_def with_store_eq Let_def intro!: marks ops others split: option.split sum.split prod.split)

lemma acknowledge_kept:
  assumes "P s" "Sent a True \<in> set (ps_trace s)"
  shows "P (round_state (acknowledge_round w now a r seen s))"
proof -
  have "P (s\<lparr>ps_store := fst (acknowledge_pending_alert (pw_disk w) now i n (pa_event_id a) (ps_store s))\<rparr>)" for i n
    using acked[OF assms] .
  note once = this
  have "P (s\<lparr>ps_store := fst (acknowledge_pending_alert (pw_disk w) now j m (pa_event_id a)
      (fst (acknowledge_pending_alert (pw_disk w) now i n (pa_event_id a) (ps_store s))))\<rparr>)" for i n j m
    using acked[OF once[of i n], of a now j m] assms(2) by simp
  with once show ?thesis by (simp add: acknowledge_round_def with_store_eq Let_def split: sum.split)
qed

lemma deliver_kept: "P s \<Longrightarrow> P (round_state (deliver_round w now a r seen s))"
  using logged[OF dispatch, of s] by (auto simp: deliver_round_def Let_def await_dispatch_def intro!: acknowledge_kept)

lemma judge_kept:
  assumes "P s" "Asked q (Inr reply) \<in> set (ps_trace s)" "ob = sanitize_observation_selection reply"
  shows "P (round_state (judge_round w now a ob r seen s))"
  using assms by (cases "failure_alert_authority a ob")
    (auto simp: judge_round_def with_store_eq deliver_kept intro!: suppressed[OF assms(1,2)] split: sum.split)

lemma revalidate_kept:
  assumes "P s"
  shows "P (round_state (revalidate_round w now a r seen s))"
proof -
  obtain reply s' where ask: "ask w (query_of r) s = (reply, s')" by fastforce
  with asked[OF assms, of "query_of r"] have s': "P s'" "Asked (query_of r) reply \<in> set (ps_trace s')"
    by (auto simp: ask_def Let_def)
  show ?thesis
  proof (cases reply)
    case (Inr ob)
    with s' show ?thesis
      by (auto simp: revalidate_round_def ask with_store_eq Let_def intro!: judge_kept[OF ops(2)] judge_kept[OF s'(1)] ops
          split: sum.split)
  qed (use s' in \<open>simp add: revalidate_round_def ask\<close>)
qed

lemma round_kept: "P s \<Longrightarrow> P (round_state (replay_round w now a r seen s))"
  using ops(1)[OF others] by (auto simp: replay_round_def with_store_eq Let_def
      intro!: others revalidate_kept deliver_kept split: sum.split)

lemma replay_kept: "replay_pending_alerts w now fuel r ob s = Some (s', r', ob') \<Longrightarrow> P s \<Longrightarrow> P s'"
  by (rule replay_keeps[where P=P]) (simp_all add: round_kept)

lemma observed_kept: "poll_observed w now fuel r ob s = Some (s', res) \<Longrightarrow> P s \<Longrightarrow> P s'"
  unfolding poll_observed_def Let_def with_store_eq
  by (auto split: if_splits sum.splits bind_splits intro!: marks pr_kept dest!: replay_kept intro: ops)

lemma gone_kept: "poll_session_gone w now fuel r d s = Some (s', res) \<Longrightarrow> P s \<Longrightarrow> P s'"
  using marks(7)[OF ops(4), of s]
  unfolding poll_session_gone_def with_store_eq
  by (auto split: if_splits sum.splits option.splits intro!: marks tallied dest!: replay_kept intro: ops) (metis fst_conv)+

lemma rotated_kept: "poll_rotated w now r g s = Some (s', res) \<Longrightarrow> P s \<Longrightarrow> P s'"
  using marks(7)[OF ops(5), of s]
  unfolding poll_rotated_def with_store_eq
  by (auto split: sum.splits intro!: marks intro: ops) (metis fst_conv)+

lemma terminal_unavailable_kept:
  assumes "poll_terminal_unavailable w now fuel r d s = Some (s', res)" "P s"
  shows "P s'"
proof -
  let ?mark = "mark_unavailable (pw_lane w) (pw_disk w) now (lr_lane_id r) (lr_revision r) d u32_max (ps_store s)"
  have marked: "P (s\<lparr>ps_store := fst ?mark\<rparr>)" using assms(2) by (rule ops)
  show ?thesis
  proof (cases "snd ?mark")
    case (Inl e)
    with assms(1) marked show ?thesis
      by (auto simp: poll_terminal_unavailable_def with_store_eq conflict_or_fail_def intro: marks split: if_splits)
  next
    case (Inr u)
    from assms(1) Inr obtain s2 r2 seen where
      replay: "replay_pending_alerts w now fuel (fst u) None (s\<lparr>ps_store := fst ?mark\<rparr>) = Some (s2, r2, seen)"
      by (cases u) (auto simp: poll_terminal_unavailable_def with_store_eq Let_def split: bind_splits)
    with marked have s2: "P s2" by (blast dest: replay_kept)
    with assms(1) Inr replay marks(1)[OF s2] marks(2,5,6)[OF ops(3)[OF s2]] ops(3)[OF s2] show ?thesis
      by (cases u) (auto simp: poll_terminal_unavailable_def with_store_eq conflict_or_fail_def Let_def
          intro!: marks intro: ops split: if_splits sum.splits)
  qed
qed

lemma unavailable_kept: "poll_unavailable w now fuel r d s = Some (s', res) \<Longrightarrow> P s \<Longrightarrow> P s'"
  unfolding poll_unavailable_def with_store_eq conflict_or_fail_def
  by (auto split: if_splits sum.splits option.splits intro!: marks tallied dest!: replay_kept terminal_unavailable_kept intro: ops)

lemma ambiguous_kept: "poll_ambiguous w now fuel r d s = Some (s', res) \<Longrightarrow> P s \<Longrightarrow> P s'"
  unfolding poll_ambiguous_def with_store_eq
  by (auto split: if_splits sum.splits option.splits intro!: marks tallied dest!: replay_kept intro: ops)

lemma reply_kept: "poll_reply w now fuel r reply s = Some (s', res) \<Longrightarrow> P s \<Longrightarrow> P s'"
  unfolding poll_reply_def
  by (auto split: sum.splits query_error.splits intro: marks
      dest: observed_kept gone_kept rotated_kept unavailable_kept ambiguous_kept)

lemma lane_kept:
  assumes "poll_lane w time now fuel r s = Some (s', res)" "P s"
  shows "P s'"
proof -
  from assms(1) obtain s1 r1 seen where replay: "replay_pending_alerts w now fuel r None s = Some (s1, r1, seen)"
    by (auto simp: poll_lane_def split: bind_splits)
  with assms(2) have s1: "P s1" by (blast dest: replay_kept)
  let ?s = "tally (\<lambda>c. c\<lparr>ro_examined := ro_examined c + 1\<rparr>) s1"
  have "P (snd (ask w (query_of r1) ?s))" "P ?s" using asked[OF tallied[OF s1]] tallied[OF s1] by auto
  with assms(1) replay s1 show ?thesis
    unfolding poll_lane_def Let_def with_store_eq
    by (auto split: if_splits sum.splits option.splits prod.splits intro!: marks intro: ops dest: reply_kept)
qed

lemma lanes_kept: "poll_lanes w time now fuel rs s = Some (s', res) \<Longrightarrow> P s \<Longrightarrow> P s'"
  by (induction rs arbitrary: s) (auto split: bind_splits sum.splits dest: lane_kept)

lemma enroll_kept:
  assumes "P (s\<lparr>ps_store := st\<rparr>)" "p \<in> set (pw_worktrees w)"
  shows "P (s\<lparr>ps_store := enroll_endpoint w now known p endpoint st\<rparr>)"
proof -
  have store: "P (s\<lparr>ps_store := fst (register_lane (pw_lane w) (pw_disk w) now rq st)\<rparr>)" if "P (s\<lparr>ps_store := st\<rparr>)" for rq st
    using step[OF that, of LRegister] lane_step.register by (simp add: unanswered_labels_def)
  have reclaim: "P (s\<lparr>ps_store := fst (reclaim_tombstone (pw_disk w) now i n g (Some p) st)\<rparr>)" for i n g
    using reclaimed[OF assms] by simp
  show ?thesis using assms(1)
    by (cases endpoint; cases "List.find (gone_tombstone (fst endpoint)) known")
       (auto simp: enroll_endpoint_def Let_def intro: store reclaim store[OF reclaim])
qed

lemma enrolled_kept:
  assumes "P (s\<lparr>ps_store := st\<rparr>)"
  shows "P (s\<lparr>ps_store := auto_enroll_native_sessions w now st\<rparr>)"
proof -
  have inner: "P (s\<lparr>ps_store := foldl (\<lambda>st e. enroll_endpoint w now known p e st) st es\<rparr>)"
    if "p \<in> set (pw_worktrees w)" "P (s\<lparr>ps_store := st\<rparr>)" for known p es st
    using that(2) by (induction es arbitrary: st) (auto intro: enroll_kept[OF _ that(1)])
  have "P (s\<lparr>ps_store := foldl (\<lambda>st p. case pw_discover_all w p of Inl _ \<Rightarrow> st
      | Inr es \<Rightarrow> foldl (\<lambda>st e. enroll_endpoint w now known p e st) st es) st ps\<rparr>)"
    if "set ps \<subseteq> set (pw_worktrees w)" for known ps
    using that assms by (induction ps arbitrary: st) (auto intro: inner split: sum.split)
  then show ?thesis unfolding auto_enroll_native_sessions_def Let_def by blast
qed

lemma pass_kept:
  assumes "poll_once w time now fuel st = Some (s', res)" "P (poll_start st)"
  shows "P s'"
proof (cases "policy_validate (pw_policy w)")
  case (Inl e)
  with assms show ?thesis by (simp add: poll_once_def)
next
  case (Inr u)
  have "P ((poll_start st)\<lparr>ps_store := auto_enroll_native_sessions w now st\<rparr>)"
    by (rule enrolled_kept) (use assms(2) in \<open>simp add: poll_start_def\<close>)
  moreover have "(poll_start st)\<lparr>ps_store := st'\<rparr> = poll_start st'" for st' by (simp add: poll_start_def)
  ultimately show ?thesis using assms Inr
    by (auto simp: poll_once_def Let_def split: if_splits dest!: lanes_kept)
qed

end

section \<open>A pass is a run of the store\<close>

text \<open>What is asked of the other tasks and of the worktrees that are searched.\<close>

definition others_run :: "poll_world \<Rightarrow> lane_label set \<Rightarrow> bool" where
  "others_run w L =
     ((\<forall>n st. lane_run (pw_lane w) (pw_disk w) L st (pw_others w n st)) \<and>
      (\<forall>n a st. lane_run (pw_lane w) (pw_disk w) L st (pw_dispatch w n a st)) \<and>
      list_all (valid_worktree (pw_lane w)) (pw_worktrees w))"

lemma reclaim_run:
  assumes "lane_run (pw_lane w) (pw_disk w) L st st'" "others_run w L'" "p \<in> set (pw_worktrees w)" "LReclaim \<in> L"
  shows "lane_run (pw_lane w) (pw_disk w) L st (fst (reclaim_tombstone (pw_disk w) now i n g (Some p) st'))"
  using lane_run_step[OF assms(1,4) lane_step.reclaim[where w="Some p"]] assms(2,3)
  by (simp add: others_run_def list_all_iff)

interpretation pass_run: poll_invariant w
  "\<lambda>s. others_run w (- {LRestart}) \<longrightarrow> lane_run (pw_lane w) (pw_disk w) (- {LRestart}) st (ps_store s)" for w st
proof unfold_locales
  fix s :: poll_state and n :: nat and a :: pending_alert and i now ob q reply
  let ?run = "lane_run (pw_lane w) (pw_disk w) (- {LRestart}) st"
  assume run: "others_run w (- {LRestart}) \<longrightarrow> ?run (ps_store s)"
  show "others_run w (- {LRestart}) \<longrightarrow> ?run (ps_store (await_others w s))"
    using run lane_run_trans by (auto simp: await_others_def others_run_def)
  show "others_run w (- {LRestart}) \<longrightarrow> ?run (ps_store (await_dispatch w a s))"
    using run lane_run_trans by (auto simp: await_dispatch_def others_run_def)
  show "others_run w (- {LRestart}) \<longrightarrow>
      ?run (ps_store (s\<lparr>ps_store := fst (acknowledge_pending_alert (pw_disk w) now i n (pa_event_id a) (ps_store s))\<rparr>))"
    using run lane_run_step[OF _ _ lane_step.acknowledge] by simp
  show "others_run w (- {LRestart}) \<longrightarrow>
      ?run (ps_store (s\<lparr>ps_store := fst (suppress_historical_failure_alert (pw_disk w) now i n a ob (ps_store s))\<rparr>))"
    using run lane_run_step[OF _ _ lane_step.suppress] by simp
next
  fix s :: poll_state and l st'
  assume "others_run w (- {LRestart}) \<longrightarrow> lane_run (pw_lane w) (pw_disk w) (- {LRestart}) st (ps_store s)"
    "lane_step (pw_lane w) (pw_disk w) l (ps_store s) st'" "l \<in> unanswered_labels"
  then show "others_run w (- {LRestart}) \<longrightarrow>
      lane_run (pw_lane w) (pw_disk w) (- {LRestart}) st (ps_store (s\<lparr>ps_store := st'\<rparr>))"
    using lane_run_step by (auto simp: unanswered_labels_def)
qed (simp_all add: reclaim_run)

section \<open>What becomes of a staged alert\<close>

text \<open>It is still there, or it was accepted, or an answer of the session superseded it.\<close>

definition answered :: "poll_entry list \<Rightarrow> string \<Rightarrow> bool" where
  "answered trace e =
     (\<exists>a. pa_event_id a = e \<and>
        (Sent a True \<in> set trace \<or>
         (\<exists>q ob. Asked q (Inr ob) \<in> set trace \<and>
            failure_alert_authority a (sanitize_observation_selection ob) = AuthSuperseded)))"

definition accounted :: "string \<Rightarrow> string \<Rightarrow> poll_state \<Rightarrow> bool" where
  "accounted i e s =
     ((\<exists>r. bt_get (lf_lanes (ls_state (ps_store s))) i = Some r \<and> e \<in> pending_ids r) \<or> answered (ps_trace s) e)"

lemma accounted_run:
  assumes "accounted i e s" "lane_run env disk_ok unanswered_labels (ps_store s) st"
  shows "accounted i e (s\<lparr>ps_store := st\<rparr>)"
proof (cases "answered (ps_trace s) e")
  case False
  with assms(1) obtain r where r: "bt_get (lf_lanes (ls_state (ps_store s))) i = Some r" "e \<in> pending_ids r"
    by (auto simp: accounted_def)
  from keeping.run_ordered[OF assms(2) r(1)] r(2) show ?thesis by (auto simp: accounted_def keeps_alerts_def)
qed (simp add: accounted_def)

lemma acknowledge_others:
  assumes "bt_get (lf_lanes (ls_state st)) j = Some r" "e \<in> pending_ids r" "e \<noteq> e0"
  shows "\<exists>r'. bt_get (lf_lanes (ls_state (fst (acknowledge_pending_alert disk_ok now i n e0 st)))) j = Some r' \<and> e \<in> pending_ids r'"
  using assms by (auto simp: acknowledge_pending_alert_def Let_def bt_get_insert pending_ids_def case_prod_unfold
      split: option.splits)

lemma suppress_others:
  assumes "bt_get (lf_lanes (ls_state st)) j = Some r" "e \<in> pending_ids r" "e \<noteq> pa_event_id a"
  shows "\<exists>r'. bt_get (lf_lanes (ls_state (fst (suppress_historical_failure_alert disk_ok now i n a ob st)))) j = Some r' \<and>
    e \<in> pending_ids r'"
proof (cases rule: mutate_plain_cases[of disk_ok now i n "suppress_change a ob" st])
  case (refused f)
  with assms show ?thesis by (simp add: suppress_historical_failure_alert_def)
next
  case (written r' u audit)
  then have "e \<in> pending_ids r' \<Longrightarrow> e \<in> pending_ids u"
    using assms(3) by (auto simp: suppress_change_def Let_def pending_ids_def split: if_splits)
  with written assms(1,2) show ?thesis
    by (auto simp: suppress_historical_failure_alert_def write_lane_state bt_get_insert pending_ids_def)
qed

lemma accounted_removal:
  assumes "accounted i e s" "e = e0 \<Longrightarrow> answered (ps_trace s) e"
    and "\<And>r. bt_get (lf_lanes (ls_state (ps_store s))) i = Some r \<Longrightarrow> e \<in> pending_ids r \<Longrightarrow> e \<noteq> e0 \<Longrightarrow>
      \<exists>r'. bt_get (lf_lanes (ls_state st)) i = Some r' \<and> e \<in> pending_ids r'"
  shows "accounted i e (s\<lparr>ps_store := st\<rparr>)"
  using assms by (cases "e = e0") (auto simp: accounted_def)

interpretation alerts: poll_invariant w "\<lambda>s. others_run w unanswered_labels \<longrightarrow> accounted i e s" for w i e
proof unfold_locales
  fix s :: poll_state and n :: nat and a :: pending_alert and j now ob q reply
  assume acc: "others_run w unanswered_labels \<longrightarrow> accounted i e s"
  show "others_run w unanswered_labels \<longrightarrow> accounted i e (await_others w s)"
  proof
    assume others: "others_run w unanswered_labels"
    then have "lane_run (pw_lane w) (pw_disk w) unanswered_labels (ps_store s) (pw_others w (ps_awaits s) (ps_store s))"
      by (simp add: others_run_def)
    with acc others have "accounted i e (s\<lparr>ps_store := pw_others w (ps_awaits s) (ps_store s)\<rparr>)" by (blast intro: accounted_run)
    then show "accounted i e (await_others w s)" by (simp add: await_others_def accounted_def)
  qed
  show "others_run w unanswered_labels \<longrightarrow> accounted i e (await_dispatch w a s)"
  proof
    assume others: "others_run w unanswered_labels"
    then have "lane_run (pw_lane w) (pw_disk w) unanswered_labels (ps_store s) (pw_dispatch w (ps_awaits s) a (ps_store s))"
      by (simp add: others_run_def)
    with acc others have "accounted i e (s\<lparr>ps_store := pw_dispatch w (ps_awaits s) a (ps_store s)\<rparr>)" by (blast intro: accounted_run)
    then show "accounted i e (await_dispatch w a s)" by (simp add: await_dispatch_def accounted_def)
  qed
  show "others_run w unanswered_labels \<longrightarrow>
      accounted i e (s\<lparr>ps_store := fst (acknowledge_pending_alert (pw_disk w) now j n (pa_event_id a) (ps_store s))\<rparr>)"
    if "Sent a True \<in> set (ps_trace s)"
  proof
    assume "others_run w unanswered_labels"
    with acc have "accounted i e s" ..
    then show "accounted i e (s\<lparr>ps_store := fst (acknowledge_pending_alert (pw_disk w) now j n (pa_event_id a) (ps_store s))\<rparr>)"
      by (rule accounted_removal[where ?e0.0="pa_event_id a"]) (use that acknowledge_others in \<open>auto simp: answered_def\<close>)
  qed
  show "others_run w unanswered_labels \<longrightarrow>
      accounted i e (s\<lparr>ps_store := fst (suppress_historical_failure_alert (pw_disk w) now j n a ob (ps_store s))\<rparr>)"
    if "Asked q (Inr reply) \<in> set (ps_trace s)" "ob = sanitize_observation_selection reply"
      "failure_alert_authority a ob = AuthSuperseded"
  proof
    assume "others_run w unanswered_labels"
    with acc have "accounted i e s" ..
    then show "accounted i e (s\<lparr>ps_store := fst (suppress_historical_failure_alert (pw_disk w) now j n a ob (ps_store s))\<rparr>)"
      by (rule accounted_removal[where ?e0.0="pa_event_id a"]) (use that suppress_others in \<open>auto simp: answered_def\<close>)
  qed
next
  fix s :: poll_state and l st'
  assume "others_run w unanswered_labels \<longrightarrow> accounted i e s" "lane_step (pw_lane w) (pw_disk w) l (ps_store s) st'"
    "l \<in> unanswered_labels"
  then show "others_run w unanswered_labels \<longrightarrow> accounted i e (s\<lparr>ps_store := st'\<rparr>)"
    using accounted_run lane_run_step[OF lane_run_refl] by blast
next
  fix s :: poll_state and p n g j now
  assume "others_run w unanswered_labels \<longrightarrow> accounted i e s" "p \<in> set (pw_worktrees w)"
  then show "others_run w unanswered_labels \<longrightarrow>
      accounted i e (s\<lparr>ps_store := fst (reclaim_tombstone (pw_disk w) now j n g (Some p) (ps_store s))\<rparr>)"
    using accounted_run[OF _ reclaim_run[OF lane_run_refl]] by (simp add: unanswered_labels_def)
qed (auto simp: accounted_def answered_def)

section \<open>The rounds come to an end\<close>

text \<open>
  The other tasks leave the store alone while the loop waits for the channel or for a query; while the dispatcher
  handles an alert they may write, but neither the queue of a lane nor its watermark.
\<close>

definition same_queue :: "lane_record \<Rightarrow> lane_record \<Rightarrow> bool" where
  "same_queue r u =
     (lr_lane_id u = lr_lane_id r \<and> lr_sdk_revision u = lr_sdk_revision r \<and>
      map pa_event_id (lr_pending_alerts u) = map pa_event_id (lr_pending_alerts r))"

definition quiet :: "poll_world \<Rightarrow> bool" where
  "quiet w =
     ((\<forall>n st. pw_others w n st = st) \<and>
      (\<forall>n a st i r. lane_record_of st i = Some r \<longrightarrow>
         (\<exists>u. lane_record_of (pw_dispatch w n a st) i = Some u \<and> same_queue r u)))"

definition stored :: "poll_state \<Rightarrow> lane_record \<Rightarrow> lane_record option" where
  "stored s r = lane_record_of (ps_store s) (lr_lane_id r)"

text \<open>The record at hand is the stored one up to its revision; or the next write with it is refused.\<close>

definition tracked :: "poll_state \<Rightarrow> lane_record \<Rightarrow> bool" where
  "tracked s r = (\<exists>u. stored s r = Some u \<and> same_queue r u)"

definition stale :: "poll_state \<Rightarrow> lane_record \<Rightarrow> bool" where
  "stale s r = (\<exists>u. stored s r = Some u \<and> (lr_revision u \<noteq> lr_revision r \<or> u64_max \<le> lr_revision u))"

lemma same_queue_refl [simp]: "same_queue r r"
  by (simp add: same_queue_def)

lemma same_queue_length: "same_queue r u \<Longrightarrow> length (lr_pending_alerts u) = length (lr_pending_alerts r)"
  unfolding same_queue_def by (metis length_map)

lemma written_record:
  "lane_record_of (fst (write_lane disk_ok now (canonical_lane_id (ls_state st) i) audit u st)) i = Some (stamped now u)"
  by (simp add: lane_record_of_def canonical_lane_id_def write_lane_state bt_get_insert)

lemma mutate_record:
  assumes "mutate disk_ok now i n change st = (st', Inr (u, x))"
  shows "\<exists>r v audit. lane_record_of st i = Some r \<and> lr_revision r = n \<and> change r = Ok (v, audit, x) \<and> u = stamped now v \<and>
    lane_record_of st' i = Some u \<and> lr_revision v < u64_max"
proof (cases rule: mutate_cases[of disk_ok now i n change st])
  case (written r v audit y)
  from assms written(5) have "st' = fst (write_lane disk_ok now (canonical_lane_id (ls_state st) i) audit v st)"
    "u = stamped now v" "x = y"
    by (auto simp: res_bind_Inr stamped_def)
  with written(1-4) written_record show ?thesis by (auto simp: lane_record_of_def)
qed (use assms in simp)

lemma mutate_plain_record:
  assumes "mutate_plain disk_ok now i n change st = (st', Inr u)"
  shows "\<exists>r v audit. lane_record_of st i = Some r \<and> lr_revision r = n \<and> change r = Ok (v, audit) \<and> u = stamped now v \<and>
    lane_record_of st' i = Some u \<and> lr_revision v < u64_max"
  using mutate_record[of disk_ok now i n "\<lambda>r. res_bind (change r) (\<lambda>(r', audit). Ok (r', audit, ()))" st st' u "()"] assms
  by (auto simp: mutate_plain_def res_bind_Inr split: prod.splits)

lemma mutate_plain_refused:
  assumes "mutate_plain disk_ok now i (lr_revision r) change st = (st', Inl e)" "lane_record_of st i = Some r"
    "change r = Ok (v, audit)"
  shows "(st' = st \<and> u64_max \<le> lr_revision v) \<or> lane_record_of st' i = Some (stamped now v)"
proof (cases "u64_max \<le> lr_revision v")
  case True
  with assms show ?thesis by (simp add: mutate_plain_def mutate_def lane_record_of_def Let_def)
next
  case False
  with assms have "st' = fst (write_lane disk_ok now (canonical_lane_id (ls_state st) i) audit v st)"
    by (simp add: mutate_plain_def mutate_def lane_record_of_def Let_def write_lane_def case_prod_unfold)
  with written_record show ?thesis by blast
qed

text \<open>What each operation of a round does to the record at hand.\<close>

lemma attempt_record:
  assumes "with_store s (note_pending_alert_attempt disk_ok now (lr_lane_id r) (lr_revision r) e (ps_store s)) = (s', Inr u)"
    and "tracked s r"
  shows "stored s' u = Some u" "same_queue r u" "\<not> stale s r"
proof -
  from assms(1) obtain st where m: "mutate_plain disk_ok now (lr_lane_id r) (lr_revision r) (attempt_change e) (ps_store s) = (st, Inr u)"
    and s': "s' = s\<lparr>ps_store := st\<rparr>"
    by (auto simp: with_store_def note_pending_alert_attempt_def split: prod.splits)
  from mutate_plain_record[OF m] obtain r0 v audit where r0: "stored s r = Some r0" "lr_revision r0 = lr_revision r"
    "attempt_change e r0 = Ok (v, audit)" "u = stamped now v" "lane_record_of st (lr_lane_id r) = Some u" "lr_revision v < u64_max"
    by (auto simp: stored_def)
  have same: "same_queue r r0" using assms(2) r0(1) by (auto simp: tracked_def)
  have v: "same_queue r0 v"
    using r0(3) by (auto simp: attempt_change_def same_queue_def find_alert_def find_Some_iff replace_alert_simps
        split: option.splits)
  with same r0(4) show "same_queue r u" by (simp add: same_queue_def)
  then show "stored s' u = Some u" using r0(5) s' by (simp add: stored_def same_queue_def)
  have "lr_revision v = lr_revision r0" using r0(3) by (auto simp: attempt_change_def split: option.splits)
  with r0(1,2,6) show "\<not> stale s r" by (simp add: stale_def)
qed

lemma observation_record_at:
  assumes "with_store s (apply_observation env disk_ok now (lr_lane_id r) (lr_revision r) ob (ps_store s)) = (s', Inr (u, applied))"
    and "stored s r = Some r" "length (lr_pending_alerts r) \<le> max_pending_alerts"
  shows "stored s' u = Some u" "lr_sdk_revision u = ob_revision ob" "length (lr_pending_alerts u) \<le> max_pending_alerts"
    "pa_event_id ` set (lr_pending_alerts r) \<subseteq> pa_event_id ` set (lr_pending_alerts u)"
proof -
  from assms(1) obtain st where m: "mutate disk_ok now (lr_lane_id r) (lr_revision r) (observation_change env now ob) (ps_store s)
      = (st, Inr (u, applied))" and s': "s' = s\<lparr>ps_store := st\<rparr>"
    by (auto simp: with_store_def apply_observation_def split: prod.splits)
  from mutate_record[OF m] assms(2) obtain v audit where v: "observation_change env now ob r = Ok (v, audit, applied)"
    "u = stamped now v" "lane_record_of st (lr_lane_id r) = Some u"
    by (auto simp: stored_def)
  from v(1) obtain ob' r1 where 1: "ob' = sanitize_observation_selection ob" "check_observation r ob' = Ok ()"
      "observe_gate now ob' (observe_endpoint now ob' r) = Ok r1"
      "stage_alerts env now ob' r (observe_phase ob' (observe_terminal now ob' r1)) = Ok v"
    by (rule observation_change_cases)
  from stage_alerts_staged[OF 1(4)] obtain as where as: "v = (observe_phase ob' (observe_terminal now ob' r1))
      \<lparr>lr_pending_alerts := lr_pending_alerts (observe_phase ob' (observe_terminal now ob' r1)) @ as\<rparr>"
    "length (lr_pending_alerts (observe_phase ob' (observe_terminal now ob' r1))) \<le> max_pending_alerts \<longrightarrow>
     length (lr_pending_alerts (observe_phase ob' (observe_terminal now ob' r1)) @ as) \<le> max_pending_alerts"
    unfolding staged_def by blast
  have queue: "lr_pending_alerts (observe_phase ob' (observe_terminal now ob' r1)) = lr_pending_alerts r"
    "lr_sdk_revision (observe_phase ob' (observe_terminal now ob' r1)) = ob_revision ob"
    "lr_lane_id (observe_phase ob' (observe_terminal now ob' r1)) = lr_lane_id r"
    using observation_record[OF 1(3)] 1(1) by (simp_all add: sanitize_observation_selection_def)
  show "lr_sdk_revision u = ob_revision ob" "length (lr_pending_alerts u) \<le> max_pending_alerts"
    "pa_event_id ` set (lr_pending_alerts r) \<subseteq> pa_event_id ` set (lr_pending_alerts u)"
    using as queue assms(3) by (auto simp: v(2))
  have "lr_lane_id u = lr_lane_id r" using as(1) queue(3) by (simp add: v(2))
  then show "stored s' u = Some u" using v(3) s' by (simp add: stored_def)
qed

lemma shorter_queue:
  assumes "e \<in> pa_event_id ` set as"
  shows "length (filter (\<lambda>a. pa_event_id a \<noteq> e) as) < length as"
proof -
  from assms obtain a where "a \<in> set as" "\<not> pa_event_id a \<noteq> e" by blast
  then show ?thesis by (rule length_filter_less)
qed

lemma suppress_round_record:
  assumes "stored s r = Some r" "pa_event_id a \<in> pa_event_id ` set (lr_pending_alerts r)"
    and op: "with_store s (suppress_historical_failure_alert disk_ok now (lr_lane_id r) (lr_revision r) a ob (ps_store s)) = (s', res)"
    and u: "u = (case res of Inr u \<Rightarrow> u | Inl _ \<Rightarrow> latest_of s' r)"
  shows "stale s' u \<or> (stored s' u = Some u \<and> lr_sdk_revision u = lr_sdk_revision r \<and>
    length (lr_pending_alerts u) < length (lr_pending_alerts r))"
proof -
  let ?v = "r\<lparr>lr_pending_alerts := filter (\<lambda>p. pa_event_id p \<noteq> pa_event_id a) (lr_pending_alerts r)\<rparr>"
  have less: "length (lr_pending_alerts ?v) < length (lr_pending_alerts r)" using shorter_queue[OF assms(2)] by simp
  then have change: "suppress_change a ob r = Ok (?v, [(HistoricalFailureSuppressed, suppression_detail a ob)])"
    by (simp add: suppress_change_def Let_def)
  obtain st where m: "mutate_plain disk_ok now (lr_lane_id r) (lr_revision r) (suppress_change a ob) (ps_store s) = (st, res)"
      and s': "s' = s\<lparr>ps_store := st\<rparr>"
    using op by (auto simp: with_store_def suppress_historical_failure_alert_def split: prod.splits)
  have at: "lane_record_of (ps_store s) (lr_lane_id r) = Some r" using assms(1) by (simp add: stored_def)
  show ?thesis
  proof (cases res)
    case (Inr w)
    with mutate_plain_record[of disk_ok now "lr_lane_id r" "lr_revision r" "suppress_change a ob" "ps_store s" st w] m at change
    have "w = stamped now ?v" "lane_record_of st (lr_lane_id r) = Some w" by auto
    with Inr u less s' show ?thesis by (simp add: stored_def)
  next
    case (Inl e)
    with mutate_plain_refused[where change="suppress_change a ob", OF _ at change] m
    consider "st = ps_store s" "u64_max \<le> lr_revision r" | "lane_record_of st (lr_lane_id r) = Some (stamped now ?v)" by auto
    then show ?thesis
    proof cases
      case 1
      with Inl u s' at show ?thesis by (simp add: latest_of_def stale_def stored_def)
    next
      case 2
      with Inl u s' less show ?thesis by (simp add: latest_of_def stored_def)
    qed
  qed
qed

lemma acknowledge_outcomes [consumes 2, case_names conflict overflow written]:
  assumes "lane_record_of st i = Some r" "e \<in> pa_event_id ` set (lr_pending_alerts r)"
  obtains (conflict) "lr_revision r \<noteq> n" "acknowledge_pending_alert disk_ok now i n e st = (st, Err (revision_conflict n (lr_revision r)))"
  | (overflow) "u64_max \<le> lr_revision r" "acknowledge_pending_alert disk_ok now i n e st = (st, Err ''revision overflow'')"
  | (written) st' u where "lane_record_of st' i = Some u" "lr_lane_id u = lr_lane_id r" "lr_sdk_revision u = lr_sdk_revision r"
      "length (lr_pending_alerts u) < length (lr_pending_alerts r)" "lr_revision u \<noteq> n"
      "acknowledge_pending_alert disk_ok now i n e st = (st', Ok u) \<or>
       acknowledge_pending_alert disk_ok now i n e st = (st', Err ''failed to persist'')"
proof (cases "lr_revision r = n")
  case False
  with assms(1) conflict show ?thesis
    by (simp add: acknowledge_pending_alert_def lane_record_of_def Let_def revision_conflict_def)
next
  case True
  note less = shorter_queue[OF assms(2)]
  show ?thesis
  proof (cases "u64_max \<le> lr_revision r")
    case big: True
    with True assms(1) less overflow show ?thesis
      by (simp add: acknowledge_pending_alert_def lane_record_of_def Let_def)
  next
    case False
    let ?u = "r\<lparr>lr_pending_alerts := filter (\<lambda>a. pa_event_id a \<noteq> e) (lr_pending_alerts r),
        lr_revision := lr_revision r + 1, lr_updated_at := now\<rparr>"
    let ?st = "fst (acknowledge_pending_alert disk_ok now i n e st)"
    have "lane_record_of ?st i = Some ?u"
      using False True assms(1) less
      by (simp add: acknowledge_pending_alert_def lane_record_of_def Let_def canonical_lane_id_def case_prod_unfold bt_get_insert)
    moreover have "acknowledge_pending_alert disk_ok now i n e st = (?st, Ok ?u) \<or>
        acknowledge_pending_alert disk_ok now i n e st = (?st, Err ''failed to persist'')"
      using False True assms(1) less
      by (simp add: acknowledge_pending_alert_def lane_record_of_def Let_def persist_locked_def)
    ultimately show ?thesis using less True by (intro written[of ?st ?u]) auto
  qed
qed

text \<open>A round that goes on has a shorter queue, a newer watermark, or a record no write accepts.\<close>

definition answers_bounded :: "poll_world \<Rightarrow> nat \<Rightarrow> bool" where
  "answers_bounded w limit = (\<forall>n q ob. pw_query w n q = Inr ob \<longrightarrow> ob_revision ob \<le> limit)"

definition goes_on :: "nat \<Rightarrow> lane_record \<Rightarrow> poll_state \<Rightarrow> lane_record \<Rightarrow> bool" where
  "goes_on limit r s' r' =
     (stale s' r' \<or>
      (tracked s' r' \<and> length (lr_pending_alerts r') \<le> max_pending_alerts \<and>
       ((lr_sdk_revision r < lr_sdk_revision r' \<and> lr_sdk_revision r' \<le> limit) \<or>
        (lr_sdk_revision r' = lr_sdk_revision r \<and> length (lr_pending_alerts r') < length (lr_pending_alerts r)))))"

lemma acknowledge_goes_on:
  assumes "acknowledge_round w now a r seen s = Again s' r' seen'" and "tracked s r"
    and "length (lr_pending_alerts r) \<le> max_pending_alerts" and "pa_event_id a \<in> pa_event_id ` set (lr_pending_alerts r)"
  shows "goes_on limit r s' r'"
proof -
  let ?ack = "\<lambda>n st. acknowledge_pending_alert (pw_disk w) now (lr_lane_id r) n (pa_event_id a) st"
  from assms(2) obtain r0 where r0: "lane_record_of (ps_store s) (lr_lane_id r) = Some r0" "same_queue r r0"
    by (auto simp: tracked_def stored_def)
  have lane: "lr_lane_id r0 = lr_lane_id r" "lr_sdk_revision r0 = lr_sdk_revision r"
    "length (lr_pending_alerts r0) = length (lr_pending_alerts r)"
    using r0(2) same_queue_length[OF r0(2)] by (auto simp: same_queue_def)
  have ids: "pa_event_id a \<in> pa_event_id ` set (lr_pending_alerts r0)"
    using assms(4) r0(2) unfolding same_queue_def by (metis list.set_map)
  have not_conflict: "\<not> is_conflict ''revision overflow''" "\<not> is_conflict ''failed to persist''"
    by (code_simp)+
  have write_ok: "goes_on limit r (s\<lparr>ps_store := st\<rparr>) u"
    if "lane_record_of st (lr_lane_id r) = Some u" "lr_lane_id u = lr_lane_id r0" "lr_sdk_revision u = lr_sdk_revision r0"
      "length (lr_pending_alerts u) < length (lr_pending_alerts r0)" for st u
    using that lane assms(3) by (auto simp: goes_on_def tracked_def stored_def)
  show ?thesis
    using r0(1) ids
  proof (cases rule: acknowledge_outcomes[where n="lr_revision r" and disk_ok="pw_disk w" and now=now])
    case conflict
    have c: "is_conflict (revision_conflict (lr_revision r) (lr_revision r0))"
      unfolding is_conflict_def revision_conflict_def str_contains_iff
      by (rule exI[of _ "''lane ''"], rule exI[of _ "'': expected '' @ show_nat (lr_revision r) @ '', current '' @
          show_nat (lr_revision r0)"]) simp
    have latest: "latest_of s r = r0" using r0(1) by (simp add: latest_of_def)
    have again: "Again s' r' seen' = (case with_store s (acknowledge_pending_alert (pw_disk w) now (lr_lane_id r0)
        (lr_revision r0) (pa_event_id a) (ps_store s)) of
          (s, Inr updated) \<Rightarrow> Again s updated seen | (s, Inl _) \<Rightarrow> Again s r0 seen)"
      using assms(1) conflict(2) c by (simp add: acknowledge_round_def with_store_def Let_def latest)
    show ?thesis
      using r0(1) ids
    proof (cases rule: acknowledge_outcomes[where n="lr_revision r0" and disk_ok="pw_disk w" and now=now])
      case overflow
      then have "stale s r0" using r0(1) lane(1) by (simp add: stale_def stored_def)
      with again overflow(2) lane(1) show ?thesis by (auto simp: with_store_def goes_on_def)
    next
      case (written st' u)
      then have "stale (s\<lparr>ps_store := st'\<rparr>) r0" using lane(1) by (auto simp: stale_def stored_def)
      with again written(6) lane(1) write_ok[OF written(1-4)] show ?thesis by (auto simp: with_store_def goes_on_def)
    qed simp
  next
    case overflow
    with assms(1) not_conflict show ?thesis by (simp add: acknowledge_round_def with_store_def Let_def)
  next
    case (written st' u)
    with assms(1) not_conflict write_ok[OF written(1-4)] show ?thesis
      by (auto simp: acknowledge_round_def with_store_def Let_def)
  qed
qed

lemma goes_on_same: "same_queue r u \<Longrightarrow> goes_on limit u s' r' \<Longrightarrow> goes_on limit r s' r'"
  using same_queue_length[of r u] by (auto simp: goes_on_def same_queue_def)

lemma goes_on_newer:
  assumes "goes_on limit u s' r'" "lr_sdk_revision r < lr_sdk_revision u" "lr_sdk_revision u \<le> limit"
  shows "goes_on limit r s' r'"
  using assms by (auto simp: goes_on_def)

lemma deliver_goes_on:
  assumes "deliver_round w now a r seen s = Again s' r' seen'" and "quiet w" and "stored s r = Some r"
    and "length (lr_pending_alerts r) \<le> max_pending_alerts" and "pa_event_id a \<in> pa_event_id ` set (lr_pending_alerts r)"
  shows "goes_on limit r s' r'"
proof -
  let ?s = "(await_dispatch w a s)\<lparr>ps_trace := Sent a (pw_accept w (ps_awaits s) (incoming_event_of a)) # ps_trace s\<rparr>"
  from assms(2,3) have "tracked ?s r"
    by (auto simp: quiet_def tracked_def stored_def await_dispatch_def)
  moreover have "acknowledge_round w now a r seen ?s = Again s' r' seen'"
    using assms(1) by (simp add: deliver_round_def Let_def split: if_splits)
  ultimately show ?thesis using assms(4,5) acknowledge_goes_on by blast
qed

lemma judge_goes_on:
  assumes "judge_round w now a ob r seen s = Again s' r' seen'" and "quiet w" and "stored s r = Some r"
    and "length (lr_pending_alerts r) \<le> max_pending_alerts" and "pa_event_id a \<in> pa_event_id ` set (lr_pending_alerts r)"
  shows "goes_on limit r s' r'"
proof (cases "failure_alert_authority a ob")
  case AuthCurrent
  with assms show ?thesis by (simp add: judge_round_def deliver_goes_on)
next
  case AuthSuperseded
  obtain s1 res where op: "with_store s (suppress_historical_failure_alert (pw_disk w) now (lr_lane_id r) (lr_revision r) a ob
      (ps_store s)) = (s1, res)" by fastforce
  with assms(1) AuthSuperseded have "s' = s1" "r' = (case res of Inr u \<Rightarrow> u | Inl _ \<Rightarrow> latest_of s1 r)"
    by (auto simp: judge_round_def split: sum.splits)
  with suppress_round_record[OF assms(3,5) op] assms(4) show ?thesis by (auto simp: goes_on_def tracked_def)
next
  case AuthUnknown
  with assms(1) show ?thesis by (simp add: judge_round_def)
qed

lemma revalidate_goes_on:
  assumes "revalidate_round w now a r seen s = Again s' r' seen'" and "quiet w" and "stored s r = Some r"
    and "length (lr_pending_alerts r) \<le> max_pending_alerts" and "pa_event_id a \<in> pa_event_id ` set (lr_pending_alerts r)"
    and "answers_bounded w limit"
  shows "goes_on limit r s' r'"
proof -
  obtain reply s1 where ask: "ask w (query_of r) s = (reply, s1)" by fastforce
  have s1: "stored s1 r = Some r"
    using ask assms(2,3) by (auto simp: ask_def Let_def quiet_def stored_def await_others_def)
  from assms(1) ask obtain raw where raw: "reply = Inr raw" by (cases reply) (simp_all add: revalidate_round_def)
  let ?ob = "sanitize_observation_selection raw"
  show ?thesis
  proof (cases "lr_sdk_revision r < ob_revision ?ob")
    case False
    with assms(1) ask raw have "judge_round w now a ?ob r (Some ?ob) s1 = Again s' r' seen'"
      by (simp add: revalidate_round_def Let_def)
    then show ?thesis using assms(2) s1 assms(4,5) by (rule judge_goes_on)
  next
    case True
    obtain s2 res where op: "with_store s1 (apply_observation (pw_lane w) (pw_disk w) now (lr_lane_id r) (lr_revision r) ?ob
        (ps_store s1)) = (s2, res)" by fastforce
    with assms(1) ask raw True obtain u applied where u: "res = Inr (u, applied)"
      "judge_round w now a ?ob u (Some ?ob) s2 = Again s' r' seen'"
      by (cases res) (auto simp: revalidate_round_def Let_def)
    note at = observation_record_at[OF op[unfolded u(1)] s1 assms(4)]
    have "pa_event_id a \<in> pa_event_id ` set (lr_pending_alerts u)" using at(4) assms(5) by blast
    moreover have "lr_sdk_revision u \<le> limit"
      using assms(6) ask raw at(2) by (auto simp: answers_bounded_def ask_def Let_def sanitize_observation_selection_def)
    ultimately show ?thesis using judge_goes_on[OF u(2) assms(2) at(1,3), where limit=limit] at(2) True
      by (simp add: goes_on_newer[where u=u])
  qed
qed

lemma round_goes_on:
  assumes "replay_round w now a r seen s = Again s' r' seen'" and "quiet w" and "tracked s r"
    and "length (lr_pending_alerts r) \<le> max_pending_alerts" and "a \<in> set (lr_pending_alerts r)"
    and "answers_bounded w limit"
  shows "goes_on limit r s' r'" "\<not> stale s r"
proof -
  have quiet: "ps_store (await_others w s) = ps_store s" using assms(2) by (simp add: quiet_def await_others_def)
  then have tracked: "tracked (await_others w s) r" using assms(3) by (simp add: tracked_def stored_def)
  obtain s1 res where op: "with_store (await_others w s) (note_pending_alert_attempt (pw_disk w) now (lr_lane_id r) (lr_revision r)
      (pa_event_id a) (ps_store (await_others w s))) = (s1, res)" by fastforce
  with assms(1) obtain u where u: "res = Inr u" and
    rest: "(if pa_kind a = ''session.failed'' then revalidate_round w now a u seen s1 else deliver_round w now a u seen s1)
      = Again s' r' seen'"
    by (cases res) (auto simp: replay_round_def Let_def split: if_splits)
  note at = attempt_record[OF op[unfolded u] tracked]
  have ids: "pa_event_id a \<in> pa_event_id ` set (lr_pending_alerts u)"
    using at(2) assms(5) unfolding same_queue_def by (metis image_eqI list.set_map)
  have "length (lr_pending_alerts u) \<le> max_pending_alerts" using same_queue_length[OF at(2)] assms(4) by simp
  with rest ids at(1) assms(2,6) have "goes_on limit u s' r'"
    by (auto split: if_splits intro: revalidate_goes_on deliver_goes_on)
  with at(2) show "goes_on limit r s' r'" by (rule goes_on_same)
  show "\<not> stale s r" using at(3) quiet by (simp add: stale_def stored_def)
qed

text \<open>Rounds enough: every new watermark up to the limit can fill the queue once more.\<close>

definition replay_budget :: "nat \<Rightarrow> lane_record \<Rightarrow> nat" where
  "replay_budget limit r = (limit - lr_sdk_revision r) * (max_pending_alerts + 1) + length (lr_pending_alerts r)"

lemma replay_budget_decreases:
  assumes "(lr_sdk_revision r < lr_sdk_revision u \<and> lr_sdk_revision u \<le> limit) \<or>
      (lr_sdk_revision u = lr_sdk_revision r \<and> length (lr_pending_alerts u) < length (lr_pending_alerts r))"
    and "length (lr_pending_alerts u) \<le> max_pending_alerts"
  shows "replay_budget limit u < replay_budget limit r"
  using assms(1)
proof
  assume newer: "lr_sdk_revision r < lr_sdk_revision u \<and> lr_sdk_revision u \<le> limit"
  then have "limit - lr_sdk_revision u + 1 \<le> limit - lr_sdk_revision r" by linarith
  then have "(limit - lr_sdk_revision u + 1) * (max_pending_alerts + 1) \<le> (limit - lr_sdk_revision r) * (max_pending_alerts + 1)"
    by (rule mult_le_mono1)
  with assms(2) show ?thesis by (simp add: replay_budget_def)
qed (simp add: replay_budget_def)

lemma stale_stops:
  assumes "stale s r" "quiet w" "lr_pending_alerts r = a # as"
  shows "\<exists>s' r' seen'. replay_round w now a r seen s = Stop s' r' seen'"
proof -
  have st: "ps_store (await_others w s) = ps_store s" using assms(2) by (simp add: quiet_def await_others_def)
  from assms(1) obtain u where u: "lane_record_of (ps_store s) (lr_lane_id r) = Some u"
    "lr_revision u \<noteq> lr_revision r \<or> u64_max \<le> lr_revision u" by (auto simp: stale_def stored_def)
  have "\<exists>st e. note_pending_alert_attempt (pw_disk w) now (lr_lane_id r) (lr_revision r) (pa_event_id a) (ps_store s) = (st, Inl e)"
  proof (cases "note_pending_alert_attempt (pw_disk w) now (lr_lane_id r) (lr_revision r) (pa_event_id a) (ps_store s)")
    case (Pair st res)
    show ?thesis
    proof (cases res)
      case (Inr v)
      with Pair mutate_plain_record[of "pw_disk w" now "lr_lane_id r" "lr_revision r" "attempt_change (pa_event_id a)" "ps_store s" st v] u
      obtain x audit where "attempt_change (pa_event_id a) u = Ok (x, audit)" "lr_revision x < u64_max" "lr_revision u = lr_revision r"
        by (auto simp: note_pending_alert_attempt_def)
      moreover from this(1) have "lr_revision x = lr_revision u" by (auto simp: attempt_change_def split: option.splits)
      ultimately show ?thesis using u(2) by simp
    qed (use Pair in simp)
  qed
  then show ?thesis using st by (auto simp: replay_round_def Let_def with_store_def)
qed

lemma replay_returns:
  assumes "quiet w" "answers_bounded w limit"
  shows "tracked s r \<and> length (lr_pending_alerts r) \<le> max_pending_alerts \<and> replay_budget limit r < fuel \<or> stale s r \<and> 0 < fuel \<Longrightarrow>
    \<exists>y. replay_pending_alerts w now fuel r seen s = Some y"
proof (induction fuel arbitrary: r seen s)
  case (Suc k)
  show ?case
  proof (cases "lr_pending_alerts r")
    case Nil
    then show ?thesis by (simp add: replay_Nil)
  next
    case (Cons a as)
    show ?thesis
    proof (cases "replay_round w now a r seen s")
      case (Stop s' r' seen')
      with Cons show ?thesis by (simp add: replay_Cons)
    next
      case (Again s' r' seen')
      with stale_stops[OF _ assms(1) Cons, of s now seen] have "\<not> stale s r" by auto
      with Suc(2) have r: "tracked s r" "length (lr_pending_alerts r) \<le> max_pending_alerts" "replay_budget limit r < Suc k" by auto
      have on: "goes_on limit r s' r'"
        by (rule round_goes_on[OF Again assms(1) r(1,2) _ assms(2)]) (simp add: Cons)
      have "0 < replay_budget limit r" using Cons by (simp add: replay_budget_def)
      with on r(3) replay_budget_decreases[of r r' limit]
      have "tracked s' r' \<and> length (lr_pending_alerts r') \<le> max_pending_alerts \<and> replay_budget limit r' < k \<or> stale s' r' \<and> 0 < k"
        unfolding goes_on_def by linarith
      from Suc(1)[OF this] Again Cons show ?thesis by (simp add: replay_Cons)
    qed
  qed
qed simp

end
