(* ===== verification/GjcReconcileProperties.thy ===== *)
theory GjcReconcileProperties imports GjcReconcileCorrect begin

text \<open>
  The properties of the polling loop, with worlds in which they apply, and two of its limits.
\<close>

section \<open>Samples\<close>

definition sample_reply :: "lane_turn_state \<Rightarrow> string \<Rightarrow> sdk_observation" where
  "sample_reply state turn = sample_observation\<lparr>ob_revision := 0, ob_turn_state := state, ob_turn_id := Some turn\<rparr>"

definition sample_world :: "sdk_observation \<Rightarrow> poll_world" where
  "sample_world reply = \<lparr>pw_lane = sample_lane_env, pw_disk = (\<lambda>_. True), pw_policy = polling_policy_default,
     pw_auto_enrollment = False, pw_worktrees = [], pw_discover_all = (\<lambda>_. Inr []), pw_permit = (\<lambda>_. True),
     pw_query = (\<lambda>_ _. Inr reply), pw_accept = (\<lambda>_ _. True), pw_resolve = None, pw_others = (\<lambda>_ st. st),
     pw_dispatch = (\<lambda>_ _ st. st)\<rparr>"

definition sample_failure :: pending_alert where
  "sample_failure = \<lparr>pa_event_id = ''failure-1'', pa_kind = ''session.failed'', pa_payload = JNull, pa_queued_at = ''t0'',
     pa_attempts = 0, pa_turn_failure = Some \<lparr>tf_session_id = ''s1'', tf_sdk_revision = 0, tf_turn_id = ''t1'',
     tf_command_id = None, tf_model = None, tf_profile = None\<rparr>, pa_deliveries = []\<rparr>"

definition store_with :: "lane_record \<Rightarrow> lane_store" where
  "store_with r = sample_lane_store\<lparr>ls_state := (ls_state sample_lane_store)\<lparr>lf_lanes := [(''gjc-7331'', r)]\<rparr>\<rparr>"

definition failed_lane :: lane_record where
  "failed_lane = sample_lane\<lparr>lr_pending_alerts := [sample_failure, sample_pending]\<rparr>"

definition entry_text :: "poll_entry \<Rightarrow> string" where
  "entry_text e = (case e of Asked _ _ \<Rightarrow> ''asked'' | Sent a _ \<Rightarrow> pa_event_id a | Status _ \<Rightarrow> ''status'')"

lemma failed_lane_pass:
  "(case poll_once (sample_world (sample_reply LtFailed ''t1'')) 0 ''t1'' 2 (store_with failed_lane) of
      None \<Rightarrow> None | Some (s, _) \<Rightarrow> Some (map entry_text (ps_trace s), map (\<lambda>(i, r). (i, length (lr_pending_alerts r)))
        (lf_lanes (ls_state (ps_store s)))))
    = Some ([''evt'', ''failure-1'', ''asked''], [(''gjc-7331'', 0)])"
  by code_simp

section \<open>Limits\<close>

text \<open>A lane that was unreachable and answers again with the revision it had before stays as it was: unavailable,
  suspended, its endpoint marked as alerted.\<close>

definition lost_lane :: lane_record where
  "lost_lane = sample_lane\<lparr>lr_phase := Some PhUnavailable, lr_unavailable_polls := 8, lr_polling_suspended := True,
     lr_endpoint_alerted := True\<rparr>"

lemma returned_endpoint_stays_unavailable:
  "(case poll_once (sample_world (sample_reply LtIdle ''t1'')) 0 ''t1'' 0 (store_with lost_lane) of
      None \<Rightarrow> None | Some (s, _) \<Rightarrow> Some (map entry_text (ps_trace s), map (\<lambda>(i, r). (lr_phase r, lr_polling_suspended r,
        lr_endpoint_alerted r, lr_unavailable_polls r)) (lf_lanes (ls_state (ps_store s)))))
    = Some ([''asked''], [(Some PhUnavailable, True, True, 8)])"
  by code_simp

text \<open>A failure alert whose turn was followed by a turn that already ended is neither sent nor suppressed, and the alerts behind
  it wait for it.\<close>

lemma overtaken_failure_blocks_queue:
  "(case poll_once (sample_world (sample_reply LtComplete ''t2'')) 0 ''t1'' 2 (store_with failed_lane) of
      None \<Rightarrow> None | Some (s, _) \<Rightarrow> Some (map entry_text (ps_trace s), map (\<lambda>(i, r). (i, length (lr_pending_alerts r)))
        (lf_lanes (ls_state (ps_store s)))))
    = Some ([''asked''], [(''gjc-7331'', 2)])"
  by code_simp

lemma ended_turn_unknown:
  assumes "pa_turn_failure a \<noteq> None" "ob_turn_state ob \<in> {LtIdle, LtComplete, LtAborted}"
  shows "failure_alert_authority a ob = AuthUnknown"
  using assms by (auto simp: failure_alert_authority_def turn_in_progress_def Let_def split: option.split)

section \<open>The observation of a query\<close>

text \<open>An observation names the session and the worktree that were asked for and a generation that the endpoint had before and
  after the query and that the lane knew, if it knew one; it never reports an end of the session.\<close>

lemma query_lane_authoritative:
  assumes "query_lane env pl q = Ok ob"
  shows "ob_session_id ob = qy_sdk_session_id q" "ob_worktree ob = qy_worktree q" "ob_disposition ob = DispLive"
    "\<exists>w. qy_worktree q = Some w \<and> pl_discover pl 0 w (qy_sdk_session_id q) = Ok (ob_endpoint_generation ob) \<and>
       pl_discover pl 1 w (qy_sdk_session_id q) = Ok (ob_endpoint_generation ob)"
    "qy_known_generation q = 0 \<or> qy_known_generation q = ob_endpoint_generation ob"
proof -
  from assms obtain w g sq where q: "qy_worktree q = Some w" "pl_discover pl 0 w (qy_sdk_session_id q) = Ok g"
      "pl_discover pl 1 w (qy_sdk_session_id q) = Ok g" "qy_known_generation q = 0 \<or> qy_known_generation q = g"
      "observation_of_query env q g sq (pl_receipts pl) = Ok ob"
    by (auto simp: query_lane_def split: if_splits option.splits sum.splits)
  from q(5) have "ob_session_id ob = qy_sdk_session_id q" "ob_worktree ob = qy_worktree q" "ob_disposition ob = DispLive"
      "ob_endpoint_generation ob = g"
    unfolding observation_of_query_def Let_def by (cases "lq_revision sq"; auto split: if_split_asm)+
  with q(1-4) show "ob_session_id ob = qy_sdk_session_id q" "ob_worktree ob = qy_worktree q" "ob_disposition ob = DispLive"
    "\<exists>w. qy_worktree q = Some w \<and> pl_discover pl 0 w (qy_sdk_session_id q) = Ok (ob_endpoint_generation ob) \<and>
       pl_discover pl 1 w (qy_sdk_session_id q) = Ok (ob_endpoint_generation ob)"
    "qy_known_generation q = 0 \<or> qy_known_generation q = ob_endpoint_generation ob"
    by auto
qed

section \<open>Properties\<close>







text \<open>
  C28. The replay of the staged alerts ends: when no other task writes to the store but the dispatcher, which leaves the queue
  alone, and the session's revisions do not pass a limit, a bound on the rounds that depends on the queue and
  the limit alone is enough.
\<close>

theorem replay_ends:
  assumes "quiet w" and "answers_bounded w limit" and "lane_record_of (ps_store s) (lr_lane_id r) = Some r"
    and "length (lr_pending_alerts r) \<le> max_pending_alerts" and "replay_budget limit r < fuel"
  shows "\<exists>s' r' seen'. replay_pending_alerts w now fuel r seen s = Some (s', r', seen')"
proof -
  have "tracked s r" using assms(3) by (simp add: tracked_def stored_def)
  with replay_returns[OF assms(1,2)] assms(4,5) show ?thesis by (metis prod.exhaust)
qed

lemma replay_ends_witness:
  "\<exists>s' r' seen'. replay_pending_alerts (sample_world (sample_reply LtFailed ''t1'')) ''t1'' 3 failed_lane None
     (poll_start (store_with failed_lane)) = Some (s', r', seen')"
proof (rule replay_ends[where limit=0])
  show "quiet (sample_world (sample_reply LtFailed ''t1''))" by (simp add: quiet_def sample_world_def)
  show "answers_bounded (sample_world (sample_reply LtFailed ''t1'')) 0"
    by (simp add: answers_bounded_def sample_world_def sample_reply_def)
  have "lr_lane_id failed_lane = ''gjc-7331''" by (simp add: failed_lane_def sample_lane_def lane_record_new_def)
  moreover have "lf_aliases (ls_state sample_lane_store) = []" by code_simp
  ultimately show "lane_record_of (ps_store (poll_start (store_with failed_lane))) (lr_lane_id failed_lane) = Some failed_lane"
    by (simp add: poll_start_def store_with_def lane_record_of_def canonical_lane_id_def unwrap_or_def)
  show "length (lr_pending_alerts failed_lane) \<le> max_pending_alerts" "replay_budget 0 failed_lane < 3"
    by (simp_all add: failed_lane_def max_pending_alerts_def replay_budget_def)
qed

end
