(* ===== verification/GithubCi.thy ===== *)
theory GithubCi imports Events LaneState "HOL-Library.Option_ord" "HOL-Library.Product_Lexorder" begin

text \<open>
  The CI results of a monitored GitHub repository (\<open>src/source/github.rs\<close>): the snapshot of one workflow
  or check run, the identities under which the same run is recognised, the receipt of a terminal run,
  the queued delivery of a result and the record of an accepted one, the matching of these with each
  other, the windows of the last complete fetches, and the events a poll derives from two views.

  A \<open>HashMap\<close> that the code iterates is an association list with distinct keys (\<open>hm_get\<close>, \<open>hm_put\<close>,
  \<open>hm_remove\<close>): the order of the list stands for the iteration order, which the code leaves open, and
  no theorem assumes one. \<open>u32\<close> and \<open>u64\<close> values are natural numbers; the casts and the saturating
  additions of the code are written out.
\<close>

section \<open>Hash maps that are iterated\<close>

type_synonym ('k, 'v) hmap = "('k \<times> 'v) list"

definition hm_get :: "('k, 'v) hmap \<Rightarrow> 'k \<Rightarrow> 'v option" where
  "hm_get m k = map_of m k"

fun hm_put :: "'k \<Rightarrow> 'v \<Rightarrow> ('k, 'v) hmap \<Rightarrow> ('k, 'v) hmap" where
  "hm_put k v [] = [(k, v)]"
| "hm_put k v ((k', v') # m) = (if k = k' then (k, v) # m else (k', v') # hm_put k v m)"

definition hm_remove :: "'k \<Rightarrow> ('k, 'v) hmap \<Rightarrow> ('k, 'v) hmap" where
  "hm_remove k m = filter (\<lambda>(k', _). k' \<noteq> k) m"

definition hm_has :: "('k, 'v) hmap \<Rightarrow> 'k \<Rightarrow> bool" where
  "hm_has m k = (hm_get m k \<noteq> None)"

definition hm_ok :: "('k, 'v) hmap \<Rightarrow> bool" where
  "hm_ok m = distinct (map fst m)"

definition values_of :: "('k, 'v) hmap \<Rightarrow> 'v list" where
  "values_of m = map snd m"

definition map_values :: "('v \<Rightarrow> 'w) \<Rightarrow> ('k, 'v) hmap \<Rightarrow> ('k, 'w) hmap" where
  "map_values f m = map (\<lambda>(k, v). (k, f v)) m"

lemma hm_get_simps [simp]:
  "hm_get [] k = None" "hm_get ((k', v) # m) k = (if k' = k then Some v else hm_get m k)"
  by (simp_all add: hm_get_def)

lemma hm_get_put: "hm_get (hm_put k v m) k' = (if k' = k then Some v else hm_get m k')"
  by (induction k v m rule: hm_put.induct) auto

lemma keys_hm_put: "fst ` set (hm_put k v m) = insert k (fst ` set m)"
  by (induction k v m rule: hm_put.induct) auto

lemma hm_ok_put [wf_intros]: "hm_ok m \<Longrightarrow> hm_ok (hm_put k v m)"
proof (induction k v m rule: hm_put.induct)
  case (2 k v k' v' m)
  then show ?case using keys_hm_put[of k v m] by (auto simp: hm_ok_def)
qed (simp add: hm_ok_def)

lemma hm_ok_remove [wf_intros]: "hm_ok m \<Longrightarrow> hm_ok (hm_remove k m)"
  by (induction m) (auto simp: hm_ok_def hm_remove_def)

lemma hm_get_remove: "hm_get (hm_remove k m) k' = (if k' = k then None else hm_get m k')"
  by (induction m) (auto simp: hm_remove_def)

lemma hm_get_in: "hm_get m k = Some v \<Longrightarrow> (k, v) \<in> set m"
  by (simp add: hm_get_def map_of_SomeD)

lemma hm_get_iff: "hm_ok m \<Longrightarrow> (k, v) \<in> set m \<longleftrightarrow> hm_get m k = Some v"
  by (simp add: hm_ok_def hm_get_def)

lemma hm_get_None: "hm_get m k = None \<longleftrightarrow> k \<notin> fst ` set m"
  by (simp add: hm_get_def map_of_eq_None_iff)

lemma keys_map_values [simp]: "map fst (map_values f m) = map fst m"
  by (induction m) (auto simp: map_values_def)

lemma hm_ok_map_values [wf_intros]: "hm_ok m \<Longrightarrow> hm_ok (map_values f m)"
  by (simp add: hm_ok_def)

lemma hm_get_map_values: "hm_get (map_values f m) k = map_option f (hm_get m k)"
  by (induction m) (auto simp: map_values_def)

lemma set_map_values: "(k, v) \<in> set (map_values f m) \<longleftrightarrow> (\<exists>u. (k, u) \<in> set m \<and> v = f u)"
  by (auto simp: map_values_def)

lemma set_hm_put: "hm_ok m \<Longrightarrow> set (hm_put k v m) = insert (k, v) {x \<in> set m. fst x \<noteq> k}"
  by (induction k v m rule: hm_put.induct) (force simp: hm_ok_def)+

interpretation hm: keyed_store "hm_get :: ('k, 'v) hmap \<Rightarrow> 'k \<Rightarrow> 'v option" hm_put hm_ok
  by unfold_locales (auto simp: hm_get_put hm_ok_put)

section \<open>Data\<close>

text \<open>One workflow run or check run as a poll sees it (\<open>GitHubCISnapshot\<close>).\<close>

record ci_snapshot =
  cs_pr_number :: "nat option"
  cs_workflow :: string
  cs_status :: string
  cs_conclusion :: "string option"
  cs_sha :: string
  cs_url :: string
  cs_branch :: "string option"
  cs_run_id :: "string option"
  cs_run_attempt :: nat
  cs_check_run_id :: "string option"
  cs_created_at :: "string option"
  cs_run_job_count :: nat
  cs_run_all_terminal :: bool

text \<open>The receipt of a terminal run (\<open>TerminalRunRecord\<close>).\<close>

record terminal_run =
  tr_identities :: "string list"
  tr_run_id :: "string option"
  tr_run_attempt :: nat
  tr_workflow :: string
  tr_conclusion :: "string option"
  tr_created_at :: "string option"

text \<open>A queued delivery (\<open>PendingCiDelivery\<close>) and the record of an accepted one (\<open>AckedDelivery\<close>).\<close>

record pending_ci =
  pc_identities :: "string list"
  pc_kind :: string
  pc_repo_name :: string
  pc_pr_number :: "nat option"
  pc_workflow :: string
  pc_status :: string
  pc_conclusion :: "string option"
  pc_sha :: string
  pc_url :: string
  pc_branch :: "string option"
  pc_run_id :: "string option"
  pc_run_attempt :: nat
  pc_run_job_count :: nat
  pc_run_all_terminal :: bool
  pc_channel :: "string option"
  pc_mention :: "string option"
  pc_format :: "message_format option"
  pc_template :: "string option"
  pc_send_attempts :: nat
  pc_last_sent :: "nat option"
  pc_delivery_id :: string

record acked_ci =
  ak_identities :: "string list"
  ak_kind :: string
  ak_conclusion :: "string option"
  ak_run_id :: "string option"
  ak_run_attempt :: nat
  ak_workflow :: string
  ak_sha :: string
  ak_pr_number :: "nat option"
  ak_repo_name :: string
  ak_acked :: nat

text \<open>The persisted state of one repository (\<open>RepoCIBaseline\<close>).\<close>

record repo_ci =
  rb_terminal_runs :: "terminal_run list"
  rb_pending :: "pending_ci list"
  rb_acked :: "acked_ci list"
  rb_dead_letter :: "pending_ci list"
  rb_epoch :: nat
  rb_min_writer_epoch :: nat
  rb_ci_established :: bool
  rb_window_ids :: "string list"
  rb_windows :: "(string, string list) hmap"
  rb_generations :: "(string, nat) hmap"
  rb_window_generation :: nat

definition repo_ci_default :: repo_ci where
  "repo_ci_default =
     \<lparr>rb_terminal_runs = [], rb_pending = [], rb_acked = [], rb_dead_letter = [], rb_epoch = 0,
      rb_min_writer_epoch = 0, rb_ci_established = False, rb_window_ids = [], rb_windows = [],
      rb_generations = [], rb_window_generation = 0\<rparr>"

type_synonym ci_baseline = "(string, repo_ci) hmap"

text \<open>The monitor of a repository: the fields of \<open>GitRepoMonitor\<close> that the CI source reads.\<close>

record repo_monitor =
  gm_path :: string
  gm_github_repo :: "string option"
  gm_emit_pr_status :: bool
  gm_channel :: "string option"
  gm_mention :: "string option"
  gm_format :: "message_format option"

definition MAX_BASELINE_RUNS_PER_REPO :: nat where "MAX_BASELINE_RUNS_PER_REPO = 500"
definition MAX_CURRENT_WINDOW_IDS_PER_SCOPE :: nat where "MAX_CURRENT_WINDOW_IDS_PER_SCOPE = 500 * 501 * 2"
definition MAX_PENDING_SEND_ATTEMPTS :: nat where "MAX_PENDING_SEND_ATTEMPTS = 3"
definition PENDING_RETRY_BACKOFF_SECS :: nat where "PENDING_RETRY_BACKOFF_SECS = 3600"
definition ACK_RETENTION_SECS :: nat where "ACK_RETENTION_SECS = 7 * 24 * 3600"
definition MAX_DEAD_LETTER :: nat where "MAX_DEAD_LETTER = 64"

section \<open>Identities\<close>

definition canonicalize_github_repo :: "string \<Rightarrow> string option" where
  "canonicalize_github_repo raw =
     (case split_once ''/'' (trim raw) of
        None \<Rightarrow> None
      | Some (owner, name) \<Rightarrow>
          (let owner = trim owner; name = trim name
           in if owner = [] \<or> name = [] \<or> str_contains ''/'' name then None
              else Some (to_ascii_lowercase owner @ ''/'' @ to_ascii_lowercase name)))"

text \<open>The first argument is \<open>snapshot.github_repo\<close>, inferred from the remote of the checkout.\<close>

definition ci_baseline_repo_key :: "string option \<Rightarrow> repo_monitor \<Rightarrow> string" where
  "ci_baseline_repo_key inferred repo =
     (case Option.bind (opt_or inferred (gm_github_repo repo)) canonicalize_github_repo of
        Some remote \<Rightarrow> ''repo:'' @ remote
      | None \<Rightarrow> ''path:'' @ gm_path repo)"

definition pending_check_identities :: "string list \<Rightarrow> string list" where
  "pending_check_identities ids = filter (starts_with ''check:'') ids"

definition pending_run_identities :: "string list \<Rightarrow> string list" where
  "pending_run_identities ids = filter (starts_with ''run:'') ids"

definition run_attempt_or_one :: "nat \<Rightarrow> nat" where
  "run_attempt_or_one a = max a 1"

definition run_identity :: "string \<Rightarrow> nat \<Rightarrow> string" where
  "run_identity run_id a =
     (let a = run_attempt_or_one a
      in if a = 1 then ''run:'' @ run_id else ''run:'' @ run_id @ '':'' @ show_nat a)"

text \<open>\<open>xs.iter().any(|x| ys.iter().any(|y| x == y))\<close>\<close>

definition shares :: "'a list \<Rightarrow> 'a list \<Rightarrow> bool" where
  "shares xs ys = list_ex (\<lambda>x. x \<in> set ys) xs"

definition fallback_identity :: "ci_snapshot \<Rightarrow> string" where
  "fallback_identity ci =
     (case cs_pr_number ci of Some n \<Rightarrow> show_nat n | None \<Rightarrow> ''none'') @ '':'' @ cs_sha ci @ '':'' @ cs_workflow ci"

definition snapshot_attempt :: "ci_snapshot \<Rightarrow> nat" where
  "snapshot_attempt ci = run_attempt_or_one (cs_run_attempt ci)"

definition unique_identities :: "ci_snapshot \<Rightarrow> string list" where
  "unique_identities ci =
     (case cs_run_id ci of Some r \<Rightarrow> [run_identity r (snapshot_attempt ci)] | None \<Rightarrow> []) @
     (case cs_check_run_id ci of Some c \<Rightarrow> [''check:'' @ c] | None \<Rightarrow> [])"

definition snapshot_identities :: "ci_snapshot \<Rightarrow> string list" where
  "snapshot_identities ci = unique_identities ci @ [fallback_identity ci]"

definition dedupe_key :: "ci_snapshot \<Rightarrow> string" where
  "dedupe_key ci =
     (case cs_check_run_id ci of
        Some c \<Rightarrow> ''check:'' @ c
      | None \<Rightarrow> (case cs_run_id ci of
                  Some r \<Rightarrow> ''run:'' @ r @ '':'' @ show_nat (snapshot_attempt ci) @ '':'' @ cs_workflow ci
                | None \<Rightarrow> fallback_identity ci))"

definition classify_ci_event_kind :: "string \<Rightarrow> string option \<Rightarrow> string" where
  "classify_ci_event_kind status conclusion =
     (if status \<noteq> ''completed'' then ''github.ci-started''
      else if conclusion \<in> {Some ''success'', Some ''neutral'', Some ''skipped''} then ''github.ci-passed''
      else if conclusion = Some ''cancelled'' then ''github.ci-cancelled''
      else ''github.ci-failed'')"

definition is_terminal :: "ci_snapshot \<Rightarrow> bool" where
  "is_terminal ci = (cs_status ci = ''completed'' \<and> cs_run_all_terminal ci)"

section \<open>Which deliveries report the same result\<close>

definition ack_from_pending :: "pending_ci \<Rightarrow> nat \<Rightarrow> acked_ci" where
  "ack_from_pending p now =
     \<lparr>ak_identities = pc_identities p, ak_kind = pc_kind p, ak_conclusion = pc_conclusion p,
      ak_run_id = pc_run_id p, ak_run_attempt = run_attempt_or_one (pc_run_attempt p),
      ak_workflow = pc_workflow p, ak_sha = pc_sha p, ak_pr_number = pc_pr_number p,
      ak_repo_name = pc_repo_name p, ak_acked = now\<rparr>"

definition same_attempt :: "nat \<Rightarrow> nat \<Rightarrow> bool" where
  "same_attempt a b = (run_attempt_or_one a = run_attempt_or_one b)"

definition matches_pending :: "acked_ci \<Rightarrow> pending_ci \<Rightarrow> bool" where
  "matches_pending a p =
     (if ak_repo_name a \<noteq> pc_repo_name p then False
      else if ak_kind a \<noteq> pc_kind p \<or> ak_conclusion a \<noteq> pc_conclusion p then False
      else
        let self_checks = pending_check_identities (ak_identities a);
            pending_checks = pending_check_identities (pc_identities p);
            self_has_run = ak_run_id a \<noteq> None;
            pending_has_run = pc_run_id p \<noteq> None;
            attempts = same_attempt (ak_run_attempt a) (pc_run_attempt p)
        in if self_checks \<noteq> [] \<and> pending_checks \<noteq> [] then
             (if \<not> shares self_checks pending_checks then False
              else if self_has_run \<and> pending_has_run then ak_run_id a = pc_run_id p \<and> attempts
              else attempts \<and> (\<not> self_has_run \<or> \<not> pending_has_run \<or> ak_run_id a = pc_run_id p))
           else if self_has_run \<and> pending_has_run then
             ak_run_id a = pc_run_id p \<and> attempts \<and> ak_workflow a = pc_workflow p
           else
             let check_to_fallback =
                   (self_checks \<noteq> [] \<and> pending_checks = [] \<and> \<not> pending_has_run) \<or>
                   (pending_checks \<noteq> [] \<and> self_checks = [] \<and> \<not> self_has_run)
             in if \<not> check_to_fallback \<and>
                   (self_has_run \<or> pending_has_run \<or> self_checks \<noteq> [] \<or> pending_checks \<noteq> []) then False
                else ak_sha a = pc_sha p \<and> ak_workflow a = pc_workflow p \<and>
                     ak_pr_number a = pc_pr_number p \<and> attempts)"

text \<open>Identities the first list lacks are pushed, one after the other.\<close>

fun add_identities :: "string list \<Rightarrow> string list \<Rightarrow> string list" where
  "add_identities ids [] = ids"
| "add_identities ids (x # xs) = add_identities (if x \<in> set ids then ids else ids @ [x]) xs"

definition merge_aliases :: "pending_ci \<Rightarrow> acked_ci \<Rightarrow> acked_ci" where
  "merge_aliases p a =
     (let a = a\<lparr>ak_identities := add_identities (ak_identities a) (pc_identities p)\<rparr>;
          a = (if ak_run_id a = None
               then (let b = a\<lparr>ak_run_id := pc_run_id p\<rparr>
                     in if pc_run_id p \<noteq> None
                        then b\<lparr>ak_run_attempt := run_attempt_or_one (pc_run_attempt p)\<rparr> else b)
               else a)
      in if ak_sha a = [] then a\<lparr>ak_sha := pc_sha p\<rparr> else a)"

definition fallback_matches :: "pending_ci \<Rightarrow> pending_ci \<Rightarrow> bool" where
  "fallback_matches p q =
     (pc_sha p = pc_sha q \<and> pc_workflow p = pc_workflow q \<and> pc_pr_number p = pc_pr_number q \<and>
      same_attempt (pc_run_attempt p) (pc_run_attempt q))"

definition same_event :: "pending_ci \<Rightarrow> pending_ci \<Rightarrow> bool" where
  "same_event p q =
     (if pc_kind p \<noteq> pc_kind q \<or> pc_conclusion p \<noteq> pc_conclusion q then False
      else
        let self_checks = pending_check_identities (pc_identities p);
            other_checks = pending_check_identities (pc_identities q);
            attempts = same_attempt (pc_run_attempt p) (pc_run_attempt q)
        in if self_checks \<noteq> [] \<and> other_checks \<noteq> [] then
             (if \<not> shares self_checks other_checks then False
              else if pc_run_id p \<noteq> None \<and> pc_run_id q \<noteq> None then pc_run_id p = pc_run_id q \<and> attempts
              else attempts \<and> (pc_run_id p = None \<or> pc_run_id q = None \<or> pc_run_id p = pc_run_id q))
           else
             let self_runs = pending_run_identities (pc_identities p);
                 other_runs = pending_run_identities (pc_identities q)
             in if self_checks \<noteq> [] then other_runs = [] \<and> fallback_matches p q
                else if other_checks \<noteq> [] then self_runs = [] \<and> fallback_matches p q
                else if pc_run_id p \<noteq> None \<and> pc_run_id q \<noteq> None then
                  pc_run_id p = pc_run_id q \<and> attempts \<and> pc_workflow p = pc_workflow q
                else fallback_matches p q)"

definition same_output :: "pending_ci \<Rightarrow> pending_ci \<Rightarrow> bool" where
  "same_output p q =
     (pc_kind p = pc_kind q \<and> pc_conclusion p = pc_conclusion q \<and> pc_identities p = pc_identities q \<and>
      pc_repo_name p = pc_repo_name q \<and> pc_workflow p = pc_workflow q \<and> pc_sha p = pc_sha q \<and>
      pc_pr_number p = pc_pr_number q \<and> pc_run_id p = pc_run_id q \<and>
      same_attempt (pc_run_attempt p) (pc_run_attempt q) \<and> pc_channel p = pc_channel q \<and>
      pc_mention p = pc_mention q \<and> pc_format p = pc_format q \<and> pc_template p = pc_template q \<and>
      pc_url p = pc_url q \<and> pc_status p = pc_status q \<and> pc_branch p = pc_branch q \<and>
      pc_run_job_count p = pc_run_job_count q \<and> pc_run_all_terminal p = pc_run_all_terminal q)"

section \<open>Events and queued deliveries\<close>

definition pending_from_ci_event :: "incoming_event \<Rightarrow> string list \<Rightarrow> pending_ci" where
  "pending_from_ci_event e identities =
     (let p = ev_payload e;
          field = (\<lambda>name. unwrap_or (get_str p name) []);
          identities =
            (case get_str p ''check_run_id'' of
               None \<Rightarrow> identities
             | Some c \<Rightarrow> (let i = ''check:'' @ c in if i \<in> set identities then identities else identities @ [i]))
      in \<lparr>pc_identities = identities, pc_kind = ev_kind e, pc_repo_name = field ''repo'',
          pc_pr_number = get_u64 p ''number'', pc_workflow = field ''workflow'', pc_status = field ''status'',
          pc_conclusion = get_str p ''conclusion'', pc_sha = field ''sha'', pc_url = field ''url'',
          pc_branch = get_str p ''branch'', pc_run_id = get_str p ''run_id'',
          pc_run_attempt = unwrap_or (map_option (\<lambda>n. n mod 2 ^ 32) (get_u64 p ''run_attempt'')) 1,
          pc_run_job_count = unwrap_or (get_u64 p ''run_job_count'') 1,
          pc_run_all_terminal = unwrap_or (get_bool p ''run_all_terminal'') False,
          pc_channel = ev_channel e, pc_mention = ev_mention e, pc_format = ev_format e,
          pc_template = ev_template e, pc_send_attempts = 0, pc_last_sent = None, pc_delivery_id = []\<rparr>)"

text \<open>\<open>payload.insert(..)\<close> for the fields a CI event has beyond those of \<^const>\<open>github_ci\<close>.\<close>

definition add_ci_fields :: "(string \<times> nat) option \<Rightarrow> string option \<Rightarrow> nat \<Rightarrow> bool \<Rightarrow> json \<Rightarrow> json" where
  "add_ci_fields run check_run job_count all_terminal p =
     (let p = (case run of
                 None \<Rightarrow> p
               | Some (r, a) \<Rightarrow> json_insert ''run_attempt'' (jnat a) (json_insert ''run_id'' (JStr r) p));
          p = (case check_run of None \<Rightarrow> p | Some c \<Rightarrow> json_insert ''check_run_id'' (JStr c) p);
          p = json_insert ''run_job_count'' (jnat job_count) p
      in json_insert ''run_all_terminal'' (JBool all_terminal) p)"

definition into_event :: "pending_ci \<Rightarrow> incoming_event" where
  "into_event d =
     (let e = with_template (pc_template d) (with_format (pc_format d) (with_mention (pc_mention d)
                (github_ci (pc_kind d) (pc_repo_name d) (pc_pr_number d) (pc_workflow d) (pc_status d)
                   (pc_conclusion d) (pc_sha d) (pc_url d) (pc_branch d) (pc_channel d))));
          run = map_option (\<lambda>r. (r, run_attempt_or_one (pc_run_attempt d))) (pc_run_id d);
          check_run = (case pending_check_identities (pc_identities d) of
                         [] \<Rightarrow> None | i # _ \<Rightarrow> strip_prefix ''check:'' i)
      in e\<lparr>ev_payload := add_ci_fields run check_run (pc_run_job_count d) (pc_run_all_terminal d) (ev_payload e)\<rparr>)"

text \<open>The event a poll reports for a snapshot (the body of the loop of \<open>collect_ci_events\<close>).\<close>

definition ci_event :: "repo_monitor \<Rightarrow> string \<Rightarrow> ci_snapshot \<Rightarrow> incoming_event" where
  "ci_event repo repo_name ci =
     (let e = with_format (gm_format repo) (with_mention (gm_mention repo)
                (github_ci (classify_ci_event_kind (cs_status ci) (cs_conclusion ci)) repo_name (cs_pr_number ci)
                   (cs_workflow ci) (cs_status ci) (cs_conclusion ci) (cs_sha ci) (cs_url ci) (cs_branch ci)
                   (gm_channel repo)));
          run = map_option (\<lambda>r. (r, snapshot_attempt ci)) (cs_run_id ci)
      in e\<lparr>ev_payload := add_ci_fields run (cs_check_run_id ci) (cs_run_job_count ci) (cs_run_all_terminal ci)
                          (ev_payload e)\<rparr>)"

section \<open>Receipts of terminal runs\<close>

definition from_snapshot :: "ci_snapshot \<Rightarrow> terminal_run" where
  "from_snapshot ci =
     \<lparr>tr_identities = snapshot_identities ci, tr_run_id = cs_run_id ci, tr_run_attempt = snapshot_attempt ci,
      tr_workflow = cs_workflow ci, tr_conclusion = cs_conclusion ci, tr_created_at = cs_created_at ci\<rparr>"

datatype persisted_run = LegacyRun string | RecordedRun terminal_run

definition from_legacy :: "string \<Rightarrow> terminal_run" where
  "from_legacy identity =
     \<lparr>tr_identities = [identity],
      tr_run_id = opt_filter (\<lambda>i. i \<noteq> [] \<and> \<not> str_contains '':'' i) (strip_prefix ''run:'' identity),
      tr_run_attempt = 1, tr_workflow = [], tr_conclusion = None, tr_created_at = None\<rparr>"

fun run_of_persisted :: "persisted_run \<Rightarrow> terminal_run" where
  "run_of_persisted (LegacyRun i) = from_legacy i"
| "run_of_persisted (RecordedRun r) = r"

definition deserialize_terminal_runs :: "persisted_run list \<Rightarrow> terminal_run list" where
  "deserialize_terminal_runs raw = map run_of_persisted raw"

definition durable_identity :: "string \<Rightarrow> bool" where
  "durable_identity i = (starts_with ''run:'' i \<or> starts_with ''check:'' i)"

definition run_unique_identities :: "terminal_run \<Rightarrow> string list" where
  "run_unique_identities r = filter durable_identity (tr_identities r)"

definition matches_snapshot :: "terminal_run \<Rightarrow> ci_snapshot \<Rightarrow> bool" where
  "matches_snapshot r ci =
     (let snap_ids = unique_identities ci;
          rec_checks = pending_check_identities (tr_identities r);
          snap_checks = pending_check_identities snap_ids;
          same_result = same_attempt (tr_run_attempt r) (cs_run_attempt ci) \<and> tr_conclusion r = cs_conclusion ci
      in if rec_checks \<noteq> [] \<and> snap_checks \<noteq> [] then shares rec_checks snap_checks \<and> same_result
         else if snap_checks \<noteq> [] \<or> rec_checks \<noteq> [] then False
         else if shares snap_ids (tr_identities r) then same_result
         else False)"

definition merge_snapshot :: "ci_snapshot \<Rightarrow> terminal_run \<Rightarrow> terminal_run \<times> bool" where
  "merge_snapshot ci r =
     (let ids = add_identities (tr_identities r) (snapshot_identities ci);
          run_id = opt_or (tr_run_id r) (cs_run_id ci);
          created = opt_or (tr_created_at r) (cs_created_at ci)
      in (r\<lparr>tr_identities := ids, tr_run_id := run_id, tr_created_at := created\<rparr>,
          ids \<noteq> tr_identities r \<or> run_id \<noteq> tr_run_id r \<or> created \<noteq> tr_created_at r))"

definition eviction_key :: "terminal_run \<Rightarrow> nat \<times> string \<times> nat \<times> string" where
  "eviction_key r =
     ((if tr_created_at r = None then 0 else 1), unwrap_or (tr_created_at r) [],
      unwrap_or (Option.bind (tr_run_id r) (parse_uint u64_max)) u64_max,
      (case tr_identities r of [] \<Rightarrow> [] | i # _ \<Rightarrow> i))"

definition terminal_records_same_run :: "terminal_run \<Rightarrow> terminal_run \<Rightarrow> bool" where
  "terminal_records_same_run l r =
     (let l_checks = pending_check_identities (tr_identities l);
          r_checks = pending_check_identities (tr_identities r);
          same_result = same_attempt (tr_run_attempt l) (tr_run_attempt r) \<and> tr_conclusion l = tr_conclusion r
      in if l_checks \<noteq> [] \<and> r_checks \<noteq> [] then shares l_checks r_checks \<and> same_result
         else
           let l_unique = run_unique_identities l; r_unique = run_unique_identities r
           in if l_unique \<noteq> [] \<and> r_unique \<noteq> [] then shares l_unique r_unique \<and> same_result
              else shares (tr_identities l) (tr_identities r))"

definition is_suppressed :: "repo_ci option \<Rightarrow> ci_snapshot \<Rightarrow> bool" where
  "is_suppressed baseline ci =
     (case baseline of None \<Rightarrow> False | Some b \<Rightarrow> list_ex (\<lambda>r. matches_snapshot r ci) (rb_terminal_runs b))"

end
