(* ===== verification/GithubBaseline.thy ===== *)
theory GithubBaseline imports GithubCi begin

text \<open>
  The persisted CI state of \<open>src/source/github.rs\<close> as a value: windows of the last complete fetches,
  receipts of terminal runs with their bounded store, the outbox of queued deliveries with its
  acknowledgements and dead letters, and the merge of two writers' views of the same repository.
  Nothing here performs I/O; the file, the clock and the channel are in \<open>GithubOutbox\<close>.
\<close>

section \<open>Windows\<close>

definition canonical_window_identities :: "string list \<Rightarrow> string list" where
  "canonical_window_identities ids = add_identities [] ids"

text \<open>Identities are oldest first: trimming drops from the front.\<close>

definition cap_window_ids :: "string list \<Rightarrow> string list" where
  "cap_window_ids ids = drop (length ids - MAX_CURRENT_WINDOW_IDS_PER_SCOPE) ids"

definition window_ids_of_snapshots :: "ci_snapshot list \<Rightarrow> string list" where
  "window_ids_of_snapshots incoming =
     cap_window_ids (canonical_window_identities (concat (map unique_identities incoming)))"

definition canonical_window_ids :: "string list \<Rightarrow> string list" where
  "canonical_window_ids ids = cap_window_ids (canonical_window_identities ids)"

definition adopt_legacy_window :: "repo_ci \<Rightarrow> repo_ci" where
  "adopt_legacy_window b =
     (if rb_windows b = [] \<and> rb_window_ids b \<noteq> []
      then b\<lparr>rb_windows := hm_put ''legacy'' (rb_window_ids b) (rb_windows b),
             rb_generations := hm_put ''legacy'' (rb_window_generation b) (rb_generations b)\<rparr>
      else b)"

definition canonicalize_loaded_window :: "repo_ci \<Rightarrow> repo_ci" where
  "canonicalize_loaded_window b =
     (let b = adopt_legacy_window b;
          windows = sort_key fst (map_values canonical_window_ids (rb_windows b))
      in b\<lparr>rb_windows := windows,
           rb_window_ids := canonical_window_identities (concat (values_of windows)),
           rb_generations := filter (\<lambda>(scope, _). hm_has windows scope) (rb_generations b)\<rparr>)"

section \<open>The bounded store of receipts\<close>

text \<open>The loop over the receipts in eviction order: the oldest unprotected ones go until the excess is gone.\<close>

fun evict_runs :: "(terminal_run \<Rightarrow> bool) \<Rightarrow> nat \<Rightarrow> terminal_run list \<Rightarrow> terminal_run list" where
  "evict_runs protected excess [] = []"
| "evict_runs protected excess (r # rs) =
     (if \<not> protected r \<and> 0 < excess then evict_runs protected (excess - 1) rs
      else r # evict_runs protected excess rs)"

definition cap_repo_baseline_keeping_ids :: "string list \<Rightarrow> repo_ci \<Rightarrow> repo_ci \<times> bool" where
  "cap_repo_baseline_keeping_ids keep_ids b =
     (if length (rb_terminal_runs b) \<le> MAX_BASELINE_RUNS_PER_REPO then (b, False)
      else
        let records = sort_key eviction_key (rb_terminal_runs b);
            excess = length records - MAX_BASELINE_RUNS_PER_REPO;
            kept = evict_runs (\<lambda>r. shares (run_unique_identities r) keep_ids) excess records
        in (b\<lparr>rb_terminal_runs := kept\<rparr>, length kept < length records))"

text \<open>\<open>iter_mut().find(..)\<close>: the first receipt that satisfies the test is changed, or the new one is pushed.\<close>

fun update_first :: "('a \<Rightarrow> bool) \<Rightarrow> ('a \<Rightarrow> 'a) \<Rightarrow> 'a list \<Rightarrow> 'a list" where
  "update_first P f [] = []"
| "update_first P f (x # xs) = (if P x then f x # xs else x # update_first P f xs)"

definition update_or_push :: "('a \<Rightarrow> bool) \<Rightarrow> ('a \<Rightarrow> 'a) \<Rightarrow> 'a \<Rightarrow> 'a list \<Rightarrow> 'a list" where
  "update_or_push P f new xs = (if list_ex P xs then update_first P f xs else xs @ [new])"

definition record_snapshot :: "ci_snapshot \<Rightarrow> terminal_run list \<times> bool \<Rightarrow> terminal_run list \<times> bool" where
  "record_snapshot ci st =
     (case List.find (\<lambda>r. matches_snapshot r ci) (fst st) of
        Some r \<Rightarrow> (update_first (\<lambda>r. matches_snapshot r ci) (\<lambda>r. fst (merge_snapshot ci r)) (fst st),
                   snd st \<or> snd (merge_snapshot ci r))
      | None \<Rightarrow> (fst st @ [from_snapshot ci], True))"

section \<open>Acknowledgements and dead letters\<close>

definition pending_is_acked :: "repo_ci \<Rightarrow> pending_ci \<Rightarrow> bool" where
  "pending_is_acked b d = list_ex (\<lambda>a. matches_pending a d) (rb_acked b)"

definition record_acked :: "nat \<Rightarrow> pending_ci \<Rightarrow> repo_ci \<Rightarrow> repo_ci" where
  "record_acked now d b =
     b\<lparr>rb_acked := update_or_push (\<lambda>a. matches_pending a d) (merge_aliases d) (ack_from_pending d now) (rb_acked b)\<rparr>"

definition dead_matches :: "pending_ci \<Rightarrow> pending_ci \<Rightarrow> bool" where
  "dead_matches dead p = (same_event dead p \<and> pc_repo_name dead = pc_repo_name p)"

text \<open>\<open>while dead_letter.len() > MAX_DEAD_LETTER { pop_front() }\<close>\<close>

definition trim_dead_letter :: "repo_ci \<Rightarrow> repo_ci" where
  "trim_dead_letter b =
     b\<lparr>rb_dead_letter := drop (length (rb_dead_letter b) - MAX_DEAD_LETTER) (rb_dead_letter b)\<rparr>"

definition retain_open :: "repo_ci \<Rightarrow> repo_ci" where
  "retain_open b =
     b\<lparr>rb_pending := filter (\<lambda>p. \<not> list_ex (\<lambda>a. matches_pending a p) (rb_acked b) \<and>
                                  \<not> list_ex (\<lambda>d. dead_matches d p) (rb_dead_letter b)) (rb_pending b)\<rparr>"

definition normalize_repo_outbox :: "repo_ci \<Rightarrow> repo_ci" where
  "normalize_repo_outbox b = retain_open (trim_dead_letter b)"

definition compact_acked :: "nat \<Rightarrow> repo_ci \<Rightarrow> repo_ci" where
  "compact_acked now b =
     (let kept = filter (\<lambda>a. now - ak_acked a < ACK_RETENTION_SECS) (rb_acked b);
          c = b\<lparr>rb_acked := kept\<rparr>
      in if length kept < length (rb_acked b)
         then c\<lparr>rb_min_writer_epoch := max (rb_min_writer_epoch c) (rb_epoch c)\<rparr> else c)"

section \<open>Merging two views of a repository\<close>

definition source_stale :: "repo_ci \<Rightarrow> repo_ci \<Rightarrow> bool" where
  "source_stale dest source = (0 < rb_min_writer_epoch dest \<and> rb_epoch source \<le> rb_min_writer_epoch dest)"

definition source_windows :: "repo_ci \<Rightarrow> (string, string list) hmap" where
  "source_windows source =
     (if rb_windows source = [] \<and> rb_window_ids source \<noteq> []
      then hm_put ''legacy'' (rb_window_ids source) (rb_windows source) else rb_windows source)"

definition merge_window :: "bool \<Rightarrow> repo_ci \<Rightarrow> string \<times> string list \<Rightarrow> repo_ci \<Rightarrow> repo_ci" where
  "merge_window stale source w dest =
     (let scope = fst w;
          source_generation = unwrap_or (hm_get (rb_generations source) scope) (rb_window_generation source);
          dest_generation = unwrap_or (hm_get (rb_generations dest) scope) (rb_window_generation dest)
      in if stale \<or> source_generation \<le> dest_generation
         then (if hm_has (rb_windows dest) scope then dest
               else dest\<lparr>rb_windows := hm_put scope (snd w) (rb_windows dest)\<rparr>)
         else dest\<lparr>rb_windows := hm_put scope (snd w) (rb_windows dest),
                   rb_generations := hm_put scope source_generation (rb_generations dest)\<rparr>)"

definition merge_windows :: "bool \<Rightarrow> repo_ci \<Rightarrow> repo_ci \<Rightarrow> repo_ci" where
  "merge_windows stale source dest =
     (let d = canonicalize_loaded_window dest;
          d = fold (merge_window stale source) (source_windows source) d;
          d = d\<lparr>rb_window_generation := max (rb_window_generation d) (rb_window_generation source)\<rparr>
      in canonicalize_loaded_window d)"

definition merge_run :: "terminal_run \<Rightarrow> terminal_run \<Rightarrow> terminal_run" where
  "merge_run r existing =
     existing\<lparr>tr_identities := add_identities (tr_identities existing) (tr_identities r),
              tr_run_id := opt_or (tr_run_id existing) (tr_run_id r),
              tr_created_at := opt_or (tr_created_at existing) (tr_created_at r)\<rparr>"

definition merge_runs :: "terminal_run list \<Rightarrow> repo_ci \<Rightarrow> repo_ci" where
  "merge_runs runs dest =
     dest\<lparr>rb_terminal_runs :=
       fold (\<lambda>r. update_or_push (\<lambda>c. terminal_records_same_run c r) (merge_run r) r) runs (rb_terminal_runs dest)\<rparr>"

definition same_ack :: "acked_ci \<Rightarrow> acked_ci \<Rightarrow> bool" where
  "same_ack candidate a =
     (ak_repo_name candidate = ak_repo_name a \<and> ak_kind candidate = ak_kind a \<and>
      ak_conclusion candidate = ak_conclusion a \<and> same_attempt (ak_run_attempt candidate) (ak_run_attempt a) \<and>
      (shares (pending_check_identities (ak_identities candidate)) (pending_check_identities (ak_identities a)) \<or>
       (ak_run_id candidate \<noteq> None \<and> ak_run_id candidate = ak_run_id a \<and> ak_workflow candidate = ak_workflow a)))"

definition merge_acked :: "acked_ci list \<Rightarrow> repo_ci \<Rightarrow> repo_ci" where
  "merge_acked acks dest =
     dest\<lparr>rb_acked :=
       fold (\<lambda>a. update_or_push (\<lambda>c. same_ack c a)
                   (\<lambda>c. c\<lparr>ak_identities := add_identities (ak_identities c) (ak_identities a)\<rparr>) a)
         acks (rb_acked dest)\<rparr>"

definition merge_dead :: "pending_ci list \<Rightarrow> repo_ci \<Rightarrow> repo_ci" where
  "merge_dead dead dest =
     dest\<lparr>rb_dead_letter :=
       fold (\<lambda>d ds. if list_ex (\<lambda>e. same_event e d) ds then ds else ds @ [d]) dead (rb_dead_letter dest)\<rparr>"

definition merge_pending_retry_state :: "pending_ci \<Rightarrow> pending_ci \<Rightarrow> pending_ci" where
  "merge_pending_retry_state source dest =
     dest\<lparr>pc_send_attempts := max (pc_send_attempts dest) (pc_send_attempts source),
          pc_last_sent :=
            (case (pc_last_sent dest, pc_last_sent source) of
               (Some l, Some r) \<Rightarrow> Some (max l r)
             | (Some v, None) \<Rightarrow> Some v
             | (None, v) \<Rightarrow> v)\<rparr>"

definition merge_delivery :: "bool \<Rightarrow> repo_ci \<Rightarrow> pending_ci \<Rightarrow> pending_ci list \<Rightarrow> pending_ci list" where
  "merge_delivery stale dest d ps =
     (if stale \<or> pending_is_acked dest d \<or> list_ex (\<lambda>e. dead_matches e d) (rb_dead_letter dest) then ps
      else update_or_push (\<lambda>e. same_event e d) (merge_pending_retry_state d) d ps)"

definition merge_pending :: "bool \<Rightarrow> pending_ci list \<Rightarrow> repo_ci \<Rightarrow> repo_ci" where
  "merge_pending stale pending dest =
     dest\<lparr>rb_pending := fold (merge_delivery stale dest) pending (rb_pending dest)\<rparr>"

definition merge_repo_baseline :: "repo_ci \<Rightarrow> repo_ci \<Rightarrow> repo_ci" where
  "merge_repo_baseline dest source =
     (let stale = source_stale dest source;
          d = merge_windows stale source dest;
          keep_ids = rb_window_ids d;
          d = merge_runs (rb_terminal_runs source) d;
          d = fst (cap_repo_baseline_keeping_ids keep_ids d);
          d = d\<lparr>rb_epoch := max (rb_epoch d) (rb_epoch source),
                rb_min_writer_epoch := max (rb_min_writer_epoch d) (rb_min_writer_epoch source),
                rb_ci_established := rb_ci_established d \<or> rb_ci_established source\<rparr>;
          d = merge_acked (rb_acked source) d;
          d = trim_dead_letter (merge_dead (rb_dead_letter source) d);
          d = retain_open (merge_pending stale (rb_pending source) d)
      in trim_dead_letter d)"

definition merge_into_key :: "string \<times> repo_ci \<Rightarrow> ci_baseline \<Rightarrow> ci_baseline" where
  "merge_into_key kr dest =
     hm_put (fst kr) (merge_repo_baseline (unwrap_or (hm_get dest (fst kr)) repo_ci_default) (snd kr)) dest"

definition merge_ci_baseline :: "ci_baseline \<Rightarrow> ci_baseline \<Rightarrow> ci_baseline" where
  "merge_ci_baseline dest source = fold merge_into_key source dest"

section \<open>The entry of a repository\<close>

definition take_key :: "string \<Rightarrow> ci_baseline \<times> repo_ci list \<Rightarrow> ci_baseline \<times> repo_ci list" where
  "take_key key st =
     (case hm_get (fst st) key of
        None \<Rightarrow> st
      | Some r \<Rightarrow> (hm_remove key (fst st), snd st @ [r]))"

definition stale_keys :: "string \<Rightarrow> ci_baseline \<Rightarrow> string list" where
  "stale_keys repo_key b =
     (case strip_prefix ''repo:'' repo_key of
        None \<Rightarrow> []
      | Some canonical \<Rightarrow>
          filter (\<lambda>key. key \<noteq> repo_key \<and>
                    Option.bind (strip_prefix ''repo:'' key) canonicalize_github_repo = Some canonical)
            (map fst b))"

text \<open>
  \<open>repo_baseline_mut\<close>: the entries under earlier spellings of the repository are taken out and merged
  into the entry of the canonical key. The result is the map and the value of that entry; the callers
  change the value and put it back.
\<close>

definition repo_baseline_mut :: "string \<Rightarrow> string \<Rightarrow> ci_baseline \<Rightarrow> ci_baseline \<times> repo_ci" where
  "repo_baseline_mut repo_key repo_path b =
     (let st = take_key repo_path (b, []);
          st = (if ''path:'' @ repo_path \<noteq> repo_key then take_key (''path:'' @ repo_path) st else st);
          st = fold take_key (stale_keys repo_key (fst st)) st;
          dest = fold (\<lambda>legacy d. merge_repo_baseline d legacy) (snd st)
                   (unwrap_or (hm_get (fst st) repo_key) repo_ci_default)
      in (hm_put repo_key dest (fst st), dest))"

definition update_entry :: "string \<Rightarrow> string \<Rightarrow> (repo_ci \<Rightarrow> repo_ci) \<Rightarrow> ci_baseline \<Rightarrow> ci_baseline" where
  "update_entry repo_key repo_path f b =
     (case repo_baseline_mut repo_key repo_path b of (b', r) \<Rightarrow> hm_put repo_key (f r) b')"

section \<open>Views of one repository\<close>

definition snapshots_same_run :: "ci_snapshot \<Rightarrow> ci_snapshot \<Rightarrow> bool" where
  "snapshots_same_run l r =
     (let l_ids = unique_identities l; r_ids = unique_identities r;
          l_checks = pending_check_identities l_ids; r_checks = pending_check_identities r_ids;
          attempts = (snapshot_attempt l = snapshot_attempt r)
      in if l_checks \<noteq> [] \<and> r_checks \<noteq> [] then shares l_checks r_checks \<and> attempts
         else if l_checks \<noteq> [] \<or> r_checks \<noteq> [] then False
         else if l_ids \<noteq> [] \<and> shares l_ids r_ids then attempts
         else dedupe_key l = dedupe_key r)"

text \<open>A fetch that did not see every page keeps the previous results it did not cover.\<close>

definition keep_missing :: "ci_snapshot \<Rightarrow> (string, ci_snapshot) hmap \<Rightarrow> (string, ci_snapshot) hmap" where
  "keep_missing old current =
     (if hm_has current (dedupe_key old) then current
      else if list_ex (\<lambda>ci. snapshots_same_run ci old) (values_of current) then current
      else hm_put (dedupe_key old) old current)"

definition merge_incomplete_ci ::
    "(string, ci_snapshot) hmap \<Rightarrow> (string, ci_snapshot) hmap \<Rightarrow> (string, ci_snapshot) hmap" where
  "merge_incomplete_ci previous current = fold keep_missing (values_of previous) current"

definition previous_snapshot :: "(string, ci_snapshot) hmap \<Rightarrow> ci_snapshot \<Rightarrow> ci_snapshot option" where
  "previous_snapshot previous ci =
     (let by_key = opt_filter (\<lambda>old. snapshot_attempt old = snapshot_attempt ci \<and>
                       (cs_run_id old = None \<or> cs_run_id ci = None \<or> cs_run_id old = cs_run_id ci))
                     (hm_get previous (dedupe_key ci));
          unique = unique_identities ci;
          new_checks = pending_check_identities unique
      in case by_key of
           Some old \<Rightarrow> Some old
         | None \<Rightarrow>
             if unique = [] then None
             else List.find (\<lambda>old.
               let old_ids = unique_identities old
               in if pending_check_identities old_ids \<noteq> [] \<or> new_checks \<noteq> []
                  then cs_check_run_id old = cs_check_run_id ci \<and> cs_run_id old = cs_run_id ci \<and>
                       snapshot_attempt old = snapshot_attempt ci
                  else shares old_ids unique \<and> snapshot_attempt old = snapshot_attempt ci)
               (values_of previous))"

definition previous_snapshot_for_event :: "(string, ci_snapshot) hmap \<Rightarrow> incoming_event \<Rightarrow> ci_snapshot option" where
  "previous_snapshot_for_event previous e =
     (let p = ev_payload e
      in case (if is_object p then get_str p ''workflow'' else None) of
           None \<Rightarrow> None
         | Some workflow \<Rightarrow>
             (let check_run_id = get_str p ''check_run_id''; run_id = get_str p ''run_id'';
                  attempt = run_attempt_or_one (unwrap_or (map_option (\<lambda>n. n mod 2 ^ 32) (get_u64 p ''run_attempt'')) 1)
              in List.find (\<lambda>ci.
                   case check_run_id of
                     Some c \<Rightarrow>
                       cs_check_run_id ci = Some c \<and>
                       (case (run_id, cs_run_id ci) of
                          (Some event_run, Some ci_run) \<Rightarrow> ci_run = event_run \<and> snapshot_attempt ci = attempt
                        | _ \<Rightarrow> True)
                   | None \<Rightarrow>
                       if cs_check_run_id ci \<noteq> None then False
                       else (case run_id of
                               Some r \<Rightarrow> cs_run_id ci = Some r \<and> snapshot_attempt ci = attempt
                             | None \<Rightarrow> cs_workflow ci = workflow \<and>
                                       cs_sha ci = unwrap_or (get_str p ''sha'') [] \<and>
                                       snapshot_attempt ci = attempt))
                 (values_of previous)))"

definition ci_changed :: "bool \<Rightarrow> (string, ci_snapshot) hmap \<Rightarrow> repo_ci option \<Rightarrow> ci_snapshot \<Rightarrow> bool" where
  "ci_changed established previous baseline ci =
     (case previous_snapshot previous ci of
        Some old \<Rightarrow>
          if is_terminal ci then \<not> is_terminal old \<or> cs_conclusion old \<noteq> cs_conclusion ci
          else if cs_status ci \<noteq> ''completed''
               then cs_status old \<noteq> cs_status ci \<or> cs_conclusion old \<noteq> cs_conclusion ci
          else False
      | None \<Rightarrow>
          if cs_status ci \<noteq> ''completed'' then True
          else if is_terminal ci then established \<and> \<not> is_suppressed baseline ci
          else False)"

definition collect_ci_events ::
    "repo_monitor \<Rightarrow> string \<Rightarrow> bool \<Rightarrow> (string, ci_snapshot) hmap \<Rightarrow> (string, ci_snapshot) hmap \<Rightarrow> repo_ci option \<Rightarrow>
     incoming_event list" where
  "collect_ci_events repo repo_name established previous current baseline =
     sort_key (\<lambda>e. (as_str (json_index (ev_payload e) ''workflow''), as_u64 (json_index (ev_payload e) ''number'')))
       (map (ci_event repo repo_name) (filter (ci_changed established previous baseline) (values_of current)))"

end
