(* ===== verification/GithubCiCorrect.thy ===== *)
theory GithubCiCorrect imports GithubBaseline begin

text \<open>
  Facts about the relations between CI results: when two queued deliveries are the same, when an
  acknowledgement covers a delivery and when a receipt suppresses a snapshot; the invariants of the
  operations of \<open>GithubBaseline\<close> on one repository.
\<close>

section \<open>Lists of identities\<close>

lemma shares_iff: "shares xs ys \<longleftrightarrow> (\<exists>x \<in> set xs. x \<in> set ys)"
  by (auto simp: shares_def list_ex_iff)

lemma shares_sym: "shares xs ys = shares ys xs"
  by (auto simp: shares_iff)

lemma shares_self [simp]: "shares xs xs \<longleftrightarrow> xs \<noteq> []"
  by (cases xs) (auto simp: shares_iff)

lemma shares_mono: "shares xs ys \<Longrightarrow> set xs \<subseteq> set xs' \<Longrightarrow> set ys \<subseteq> set ys' \<Longrightarrow> shares xs' ys'"
  by (auto simp: shares_iff)

lemma set_add_identities [simp]: "set (add_identities ids xs) = set ids \<union> set xs"
  by (induction ids xs rule: add_identities.induct) auto

lemma add_identities_distinct: "distinct ids \<Longrightarrow> distinct (add_identities ids xs)"
  by (induction ids xs rule: add_identities.induct) auto

lemma add_identities_prefix: "\<exists>ys. add_identities ids xs = ids @ ys"
proof (induction ids xs rule: add_identities.induct)
  case (2 ids x xs)
  then show ?case by (metis (full_types) add_identities.simps(2) append_assoc)
qed simp

lemma add_identities_new:
  "distinct xs \<Longrightarrow> set ids \<inter> set xs = {} \<Longrightarrow> add_identities ids xs = ids @ xs"
  by (induction ids xs rule: add_identities.induct) auto

lemma canonical_window_distinct: "distinct ids \<Longrightarrow> canonical_window_identities ids = ids"
  by (simp add: canonical_window_identities_def add_identities_new)

lemma distinct_canonical [simp]: "distinct (canonical_window_identities ids)"
  by (simp add: canonical_window_identities_def add_identities_distinct)

lemma set_canonical [simp]: "set (canonical_window_identities ids) = set ids"
  by (simp add: canonical_window_identities_def)

lemma set_checks: "set (pending_check_identities ids) = {i \<in> set ids. starts_with ''check:'' i}"
  by (simp add: pending_check_identities_def)

lemma checks_empty: "pending_check_identities ids = [] \<longleftrightarrow> (\<forall>i \<in> set ids. \<not> starts_with ''check:'' i)"
  by (auto simp: pending_check_identities_def filter_empty_conv)

lemma same_attempt_refl [simp]: "same_attempt a a"
  by (simp add: same_attempt_def)

lemma same_attempt_or_one [simp]:
  "same_attempt (run_attempt_or_one a) b = same_attempt a b"
  "same_attempt a (run_attempt_or_one b) = same_attempt a b"
  by (auto simp: same_attempt_def run_attempt_or_one_def)

lemma same_attempt_sym: "same_attempt a b = same_attempt b a"
  by (auto simp: same_attempt_def)

section \<open>Deliveries of the same result\<close>

lemma same_event_refl [simp]: "same_event p p"
  by (auto simp: same_event_def Let_def fallback_matches_def)

lemma fallback_matches_sym: "fallback_matches p q = fallback_matches q p"
  by (auto simp: fallback_matches_def same_attempt_sym)

lemma same_event_sym: "same_event p q = same_event q p"
  unfolding same_event_def Let_def
  by (auto simp: shares_sym same_attempt_sym fallback_matches_sym)

text \<open>The relation reads the identity of a delivery, not the state of its retries.\<close>

definition report_of :: "pending_ci \<Rightarrow> pending_ci" where
  "report_of p = p\<lparr>pc_send_attempts := 0, pc_last_sent := None, pc_delivery_id := []\<rparr>"

definition same_report :: "pending_ci \<Rightarrow> pending_ci \<Rightarrow> bool" where
  "same_report p q = (report_of p = report_of q)"

lemma same_report_refl [simp]: "same_report p p"
  by (simp add: same_report_def)

lemma same_report_trans: "same_report p q \<Longrightarrow> same_report q r \<Longrightarrow> same_report p r"
  by (simp add: same_report_def)

lemma same_report_sym: "same_report p q \<Longrightarrow> same_report q p"
  by (simp add: same_report_def)

lemma same_report_update [simp]:
  "same_report p (p\<lparr>pc_send_attempts := a, pc_last_sent := l\<rparr>)"
  "same_report p (p\<lparr>pc_delivery_id := i\<rparr>)"
  by (simp_all add: same_report_def report_of_def)

lemma update_keeps_report:
  fixes p :: pending_ci and a l i
  defines "q \<equiv> p\<lparr>pc_send_attempts := a, pc_last_sent := l, pc_delivery_id := i\<rparr>"
  shows "matches_pending ack q = matches_pending ack p"
    and "same_event q d = same_event p d"
    and "same_event d q = same_event d p"
    and "dead_matches d q = dead_matches d p"
    and "same_output q d = same_output p d"
    and "into_event q = into_event p"
proof -
  have f: "pc_identities q = pc_identities p"
    "pc_kind q = pc_kind p"
    "pc_repo_name q = pc_repo_name p"
    "pc_pr_number q = pc_pr_number p"
    "pc_workflow q = pc_workflow p"
    "pc_status q = pc_status p"
    "pc_conclusion q = pc_conclusion p"
    "pc_sha q = pc_sha p"
    "pc_url q = pc_url p"
    "pc_branch q = pc_branch p"
    "pc_run_id q = pc_run_id p"
    "pc_run_attempt q = pc_run_attempt p"
    "pc_run_job_count q = pc_run_job_count p"
    "pc_run_all_terminal q = pc_run_all_terminal p"
    "pc_channel q = pc_channel p"
    "pc_mention q = pc_mention p"
    "pc_format q = pc_format p"
    "pc_template q = pc_template p"
    unfolding q_def by simp_all
  show "matches_pending ack q = matches_pending ack p" by (simp only: matches_pending_def f)
  show "same_event q d = same_event p d" "same_event d q = same_event d p"
    by (simp_all only: same_event_def fallback_matches_def f)
  show "dead_matches d q = dead_matches d p" by (simp only: dead_matches_def same_event_def fallback_matches_def f)
  show "same_output q d = same_output p d" by (simp only: same_output_def f)
  show "into_event q = into_event p" by (simp only: into_event_def f)
qed

lemma same_report_matches:
  assumes "same_report p q"
  shows "matches_pending a q = matches_pending a p"
    and "same_event q d = same_event p d"
    and "same_event d q = same_event d p"
    and "dead_matches d q = dead_matches d p"
    and "same_output q d = same_output p d"
    and "into_event q = into_event p"
  using assms unfolding same_report_def report_of_def by (metis update_keeps_report)+

lemma same_report_merge [simp]: "same_report p (merge_pending_retry_state d p)"
  by (simp add: merge_pending_retry_state_def)

lemma merge_retry_grows:
  "pc_send_attempts p \<le> pc_send_attempts (merge_pending_retry_state d p)"
  "pc_send_attempts d \<le> pc_send_attempts (merge_pending_retry_state d p)"
  by (simp_all add: merge_pending_retry_state_def)

section \<open>Acknowledgements\<close>

lemma ack_covers_own [simp]: "matches_pending (ack_from_pending d now) d"
  by (auto simp: matches_pending_def ack_from_pending_def Let_def)

lemma merge_aliases_fields:
  "ak_repo_name (merge_aliases d a) = ak_repo_name a" "ak_kind (merge_aliases d a) = ak_kind a"
  "ak_conclusion (merge_aliases d a) = ak_conclusion a" "ak_workflow (merge_aliases d a) = ak_workflow a"
  "ak_pr_number (merge_aliases d a) = ak_pr_number a"
  "ak_identities (merge_aliases d a) = add_identities (ak_identities a) (pc_identities d)"
  "ak_run_id (merge_aliases d a) = opt_or (ak_run_id a) (pc_run_id d)"
  "ak_run_attempt (merge_aliases d a) =
     (if ak_run_id a = None \<and> pc_run_id d \<noteq> None then run_attempt_or_one (pc_run_attempt d) else ak_run_attempt a)"
  "ak_sha (merge_aliases d a) = (if ak_sha a = [] then pc_sha d else ak_sha a)"
  by (auto simp: merge_aliases_def Let_def opt_or_def split: option.splits)

lemma checks_add_empty:
  "pending_check_identities (add_identities xs ys) = [] \<longleftrightarrow>
     pending_check_identities xs = [] \<and> pending_check_identities ys = []"
  by (auto simp: checks_empty)

lemma shares_checks_add:
  "pending_check_identities ys \<noteq> [] \<Longrightarrow> shares (pending_check_identities (add_identities xs ys)) (pending_check_identities ys)"
  by (auto simp: shares_iff set_checks checks_empty)

lemma merged_aliases_cover:
  assumes "matches_pending a d"
  shows "matches_pending (merge_aliases d a) d"
proof (cases "pending_check_identities (pc_identities d) = []")
  case True
  with assms show ?thesis
    by (cases "ak_run_id a"; cases "pc_run_id d")
      (auto simp: matches_pending_def merge_aliases_fields checks_add_empty Let_def split: if_splits)
next
  case False
  with assms show ?thesis
    by (cases "ak_run_id a"; cases "pc_run_id d")
      (auto simp: matches_pending_def merge_aliases_fields checks_add_empty shares_checks_add Let_def split: if_splits)
qed

lemma update_or_push_has: "(\<And>x. P x \<Longrightarrow> Q (f x)) \<Longrightarrow> Q new \<Longrightarrow> list_ex Q (update_or_push P f new xs)"
proof -
  assume f: "\<And>x. P x \<Longrightarrow> Q (f x)" and new: "Q new"
  have "list_ex P xs \<Longrightarrow> list_ex Q (update_first P f xs)"
    by (induction xs) (auto simp: f)
  then show ?thesis using new by (auto simp: update_or_push_def)
qed

lemma update_or_push_mono:
  assumes "\<And>x. P x \<Longrightarrow> Q x \<Longrightarrow> Q (f x)" and "list_ex Q xs"
  shows "list_ex Q (update_or_push P f new xs)"
proof -
  have "list_ex Q xs \<Longrightarrow> list_ex Q (update_first P f xs)"
    by (induction xs) (auto simp: assms(1))
  then show ?thesis using assms(2) by (auto simp: update_or_push_def)
qed

lemma set_update_or_push: "x \<in> set (update_or_push P f new xs) \<Longrightarrow> x = new \<or> x \<in> set xs \<or> (\<exists>y \<in> set xs. P y \<and> x = f y)"
proof -
  have "x \<in> set (update_first P f xs) \<Longrightarrow> x \<in> set xs \<or> (\<exists>y \<in> set xs. P y \<and> x = f y)"
    by (induction xs) (auto split: if_splits)
  then show "x \<in> set (update_or_push P f new xs) \<Longrightarrow> ?thesis"
    by (auto simp: update_or_push_def split: if_splits)
qed

lemma record_acked_acks [simp]: "pending_is_acked (record_acked now d b) d"
  by (simp add: pending_is_acked_def record_acked_def update_or_push_has merged_aliases_cover)

section \<open>Receipts\<close>

lemma run_identity_durable [simp]: "starts_with ''run:'' (run_identity r a)" "\<not> starts_with ''check:'' (run_identity r a)"
  by (simp_all add: run_identity_def Let_def starts_with_def)

lemma starts_with_Cons: "starts_with (p # ps) (c # cs) \<longleftrightarrow> p = c \<and> starts_with ps cs"
  by (simp add: starts_with_def)

lemma starts_check [simp]: "starts_with ''check:'' (''check:'' @ c)"
  by (simp add: starts_with_Cons)

lemma digit_first: "\<exists>c cs. show_nat n @ t = c # cs \<and> is_ascii_digit c"
  using show_nat_digits[of n] by (cases "show_nat n") auto

lemma fallback_not_durable [simp]:
  "\<not> starts_with ''check:'' (fallback_identity ci)" "\<not> starts_with ''run:'' (fallback_identity ci)"
proof -
  have "\<not> starts_with ''check:'' (fallback_identity ci) \<and> \<not> starts_with ''run:'' (fallback_identity ci)"
  proof (cases "cs_pr_number ci")
    case (Some n)
    obtain c cs where "show_nat n @ '':'' @ cs_sha ci @ '':'' @ cs_workflow ci = c # cs" "is_ascii_digit c"
      using digit_first by metis
    with Some show ?thesis
      by (auto simp: fallback_identity_def starts_with_def is_ascii_digit_def byte_def)
  qed (simp add: fallback_identity_def starts_with_def)
  then show "\<not> starts_with ''check:'' (fallback_identity ci)" "\<not> starts_with ''run:'' (fallback_identity ci)"
    by auto
qed

lemma unique_durable: "i \<in> set (unique_identities ci) \<Longrightarrow> durable_identity i"
  by (auto simp: unique_identities_def durable_identity_def starts_with_Cons split: option.splits)

lemma snapshot_checks:
  "pending_check_identities (snapshot_identities ci) = pending_check_identities (unique_identities ci)"
  by (simp add: pending_check_identities_def snapshot_identities_def)

lemma checks_unique:
  "pending_check_identities (unique_identities ci) =
     (case cs_check_run_id ci of None \<Rightarrow> [] | Some c \<Rightarrow> [''check:'' @ c])"
  by (auto simp: pending_check_identities_def unique_identities_def starts_with_Cons split: option.splits)

lemma receipt_matches_own:
  assumes "unique_identities ci \<noteq> []"
  shows "matches_snapshot (from_snapshot ci) ci"
proof -
  have "shares (unique_identities ci) (snapshot_identities ci)"
    using assms by (cases "unique_identities ci") (auto simp: shares_iff snapshot_identities_def)
  then show ?thesis
    by (simp add: matches_snapshot_def from_snapshot_def snapshot_checks snapshot_attempt_def Let_def)
qed

lemma matches_snapshot_iff:
  "matches_snapshot r ci \<longleftrightarrow>
     same_attempt (tr_run_attempt r) (cs_run_attempt ci) \<and> tr_conclusion r = cs_conclusion ci \<and>
     (if pending_check_identities (tr_identities r) = []
      then pending_check_identities (unique_identities ci) = [] \<and> shares (unique_identities ci) (tr_identities r)
      else shares (pending_check_identities (tr_identities r)) (pending_check_identities (unique_identities ci)))"
proof -
  have "\<not> shares xs []" for xs :: "string list" by (simp add: shares_iff)
  then show ?thesis unfolding matches_snapshot_def Let_def by (simp split: if_split) blast
qed

lemma merge_snapshot_fields:
  "tr_identities (fst (merge_snapshot ci r)) = add_identities (tr_identities r) (snapshot_identities ci)"
  "tr_run_attempt (fst (merge_snapshot ci r)) = tr_run_attempt r"
  "tr_conclusion (fst (merge_snapshot ci r)) = tr_conclusion r"
  by (simp_all add: merge_snapshot_def Let_def)

lemma merged_receipt_still_matches:
  assumes "matches_snapshot r ci" and "matches_snapshot r ci'"
  shows "matches_snapshot (fst (merge_snapshot ci r)) ci'"
proof (cases "pending_check_identities (tr_identities r) = []")
  case True
  moreover from this have "pending_check_identities (unique_identities ci) = []"
    using assms(1) by (simp add: matches_snapshot_iff)
  moreover have "shares (unique_identities ci') (add_identities (tr_identities r) (snapshot_identities ci))"
    using True assms(2) by (auto simp: matches_snapshot_iff shares_iff)
  ultimately show ?thesis
    using assms(2) by (simp add: matches_snapshot_iff merge_snapshot_fields checks_add_empty snapshot_checks)
next
  case False
  moreover have "shares (pending_check_identities (add_identities (tr_identities r) (snapshot_identities ci)))
      (pending_check_identities (unique_identities ci'))"
    using False assms(2) by (auto simp: matches_snapshot_iff shares_iff set_checks)
  ultimately show ?thesis
    using assms(2) by (simp add: matches_snapshot_iff merge_snapshot_fields checks_add_empty)
qed

text \<open>\<open>has_receipt\<close>: a receipt in the list suppresses the snapshot.\<close>

definition has_receipt :: "terminal_run list \<Rightarrow> ci_snapshot \<Rightarrow> bool" where
  "has_receipt runs ci = list_ex (\<lambda>r. matches_snapshot r ci) runs"

lemma has_receipt_iff: "has_receipt runs ci \<longleftrightarrow> (\<exists>r \<in> set runs. matches_snapshot r ci)"
  by (simp add: has_receipt_def list_ex_iff)

lemma record_keeps_receipts:
  assumes "has_receipt (fst st) c"
  shows "has_receipt (fst (record_snapshot ci st)) c"
proof (cases "List.find (\<lambda>r. matches_snapshot r ci) (fst st)")
  case None
  then show ?thesis using assms by (simp add: record_snapshot_def has_receipt_def)
next
  case (Some r)
  have "list_ex (\<lambda>r. matches_snapshot r c) rs \<Longrightarrow>
    list_ex (\<lambda>r. matches_snapshot r c)
      (update_first (\<lambda>r. matches_snapshot r ci) (\<lambda>r. fst (merge_snapshot ci r)) rs)" for rs
    by (induction rs) (auto simp: merged_receipt_still_matches)
  then show ?thesis using Some assms by (simp add: record_snapshot_def has_receipt_def)
qed

lemma record_makes_receipt:
  assumes "unique_identities ci \<noteq> []"
  shows "has_receipt (fst (record_snapshot ci st)) ci"
proof (cases "List.find (\<lambda>r. matches_snapshot r ci) (fst st)")
  case None
  then show ?thesis using assms by (simp add: record_snapshot_def has_receipt_def receipt_matches_own)
next
  case (Some r)
  then have "list_ex (\<lambda>r. matches_snapshot r ci) (fst st)"
    by (auto simp: find_Some_iff list_ex_iff)
  then have "has_receipt (fst st) ci" by (simp add: has_receipt_def)
  then show ?thesis by (rule record_keeps_receipts)
qed

lemma fold_record_keeps: "has_receipt (fst st) c \<Longrightarrow> has_receipt (fst (fold record_snapshot cis st)) c"
  by (induction cis arbitrary: st) (auto simp: record_keeps_receipts)

lemma fold_record_receipts:
  "ci \<in> set cis \<Longrightarrow> unique_identities ci \<noteq> [] \<Longrightarrow> has_receipt (fst (fold record_snapshot cis st)) ci"
proof (induction cis arbitrary: st)
  case (Cons c cis)
  show ?case
  proof (cases "ci = c")
    case True
    then show ?thesis using Cons.prems by (simp add: fold_record_keeps record_makes_receipt)
  qed (use Cons in simp)
qed simp

lemma receipt_shares_identity:
  assumes "matches_snapshot r ci"
  shows "shares (run_unique_identities r) (unique_identities ci)"
proof -
  have "shares (tr_identities r) (unique_identities ci)"
    using assms by (auto simp: matches_snapshot_def Let_def shares_iff set_checks split: if_splits)
  then show ?thesis
    using unique_durable by (auto simp: shares_iff run_unique_identities_def)
qed

section \<open>Eviction\<close>

lemma evict_protected: "filter P (evict_runs P e rs) = filter P rs"
  by (induction P e rs rule: evict_runs.induct) auto

lemma evict_oldest: "filter (\<lambda>r. \<not> P r) (evict_runs P e rs) = drop e (filter (\<lambda>r. \<not> P r) rs)"
proof (induction P e rs rule: evict_runs.induct)
  case (2 P e r rs)
  then show ?case by (cases e) auto
qed simp

lemma evict_keeps: "r \<in> set rs \<Longrightarrow> P r \<Longrightarrow> r \<in> set (evict_runs P e rs)"
  using evict_protected[of P e rs] by (metis (mono_tags, lifting) filter_set mem_Collect_eq set_filter)

lemma cap_keeps_receipt:
  assumes "has_receipt (rb_terminal_runs b) ci" and "set (unique_identities ci) \<subseteq> set keep"
  shows "has_receipt (rb_terminal_runs (fst (cap_repo_baseline_keeping_ids keep b))) ci"
proof -
  obtain r where r: "r \<in> set (rb_terminal_runs b)" "matches_snapshot r ci"
    using assms(1) by (auto simp: has_receipt_iff)
  then have "shares (run_unique_identities r) keep"
    using receipt_shares_identity[OF r(2)] assms(2) by (auto simp: shares_iff)
  then show ?thesis
    using r by (auto simp: cap_repo_baseline_keeping_ids_def Let_def has_receipt_iff intro!: bexI[of _ r] evict_keeps)
qed

lemma cap_fields [simp]:
  "rb_pending (fst (cap_repo_baseline_keeping_ids k b)) = rb_pending b"
  "rb_acked (fst (cap_repo_baseline_keeping_ids k b)) = rb_acked b"
  "rb_dead_letter (fst (cap_repo_baseline_keeping_ids k b)) = rb_dead_letter b"
  "rb_windows (fst (cap_repo_baseline_keeping_ids k b)) = rb_windows b"
  "rb_window_ids (fst (cap_repo_baseline_keeping_ids k b)) = rb_window_ids b"
  "rb_generations (fst (cap_repo_baseline_keeping_ids k b)) = rb_generations b"
  "rb_epoch (fst (cap_repo_baseline_keeping_ids k b)) = rb_epoch b"
  "rb_min_writer_epoch (fst (cap_repo_baseline_keeping_ids k b)) = rb_min_writer_epoch b"
  by (simp_all add: cap_repo_baseline_keeping_ids_def Let_def)

section \<open>Windows in canonical form\<close>

definition windows_ok :: "repo_ci \<Rightarrow> bool" where
  "windows_ok b \<longleftrightarrow>
     sorted (map fst (rb_windows b)) \<and>
     (\<forall>w \<in> set (rb_windows b). canonical_window_ids (snd w) = snd w) \<and>
     rb_window_ids b = canonical_window_identities (concat (values_of (rb_windows b))) \<and>
     (\<forall>g \<in> set (rb_generations b). hm_has (rb_windows b) (fst g))"

lemma canonical_window_ids_idem [simp]: "canonical_window_ids (canonical_window_ids ids) = canonical_window_ids ids"
proof -
  have "distinct (canonical_window_ids ids)"
    by (simp add: canonical_window_ids_def cap_window_ids_def)
  then show ?thesis
    by (simp add: canonical_window_ids_def canonical_window_distinct) (simp add: cap_window_ids_def)
qed

lemma canonicalized_ok: "windows_ok (canonicalize_loaded_window b)"
proof -
  let ?ws = "sort_key fst (map_values canonical_window_ids (rb_windows (adopt_legacy_window b)))"
  have "\<forall>w \<in> set ?ws. canonical_window_ids (snd w) = snd w"
    by (auto simp: map_values_def)
  then show ?thesis
    by (simp add: windows_ok_def canonicalize_loaded_window_def Let_def)
qed

lemma windows_ok_fixed:
  assumes "windows_ok b"
  shows "canonicalize_loaded_window b = b"
proof -
  have ids: "rb_window_ids b = canonical_window_identities (concat (values_of (rb_windows b)))"
    using assms unfolding windows_ok_def by blast
  have "rb_windows b \<noteq> [] \<or> rb_window_ids b = []"
    unfolding ids by (cases "rb_windows b") (simp_all add: values_of_def canonical_window_identities_def)
  then have legacy: "adopt_legacy_window b = b"
    unfolding adopt_legacy_window_def by argo
  have windows: "map_values canonical_window_ids (rb_windows b) = rb_windows b"
    using assms unfolding windows_ok_def map_values_def by (intro map_idI) (auto split: prod.split)
  have sorted: "sort_key fst (rb_windows b) = rb_windows b"
    using assms unfolding windows_ok_def by (intro sort_key_id_if_sorted) blast
  have gens: "filter (\<lambda>(scope, _). hm_has (rb_windows b) scope) (rb_generations b) = rb_generations b"
    using assms unfolding windows_ok_def filter_id_conv by (auto split: prod.split)
  have "canonicalize_loaded_window b =
      b\<lparr>rb_windows := rb_windows b, rb_window_ids := rb_window_ids b, rb_generations := rb_generations b\<rparr>"
    unfolding canonicalize_loaded_window_def legacy Let_def windows sorted gens ids[symmetric] ..
  then show ?thesis by simp
qed

end
