(* ===== verification/GithubBaselineCorrect.thy ===== *)
theory GithubBaselineCorrect imports GithubCiCorrect begin

text \<open>
  Merging two writers' views of a repository: the result is in canonical form with a settled outbox,
  a queued delivery of a current writer is kept, acknowledged or buried, and a fenced writer changes
  neither the outbox nor the windows. Lifted to the map of repositories through lookups.
\<close>

section \<open>The settled outbox\<close>

definition closed_by :: "repo_ci \<Rightarrow> pending_ci \<Rightarrow> bool" where
  "closed_by b p \<longleftrightarrow> pending_is_acked b p \<or> list_ex (\<lambda>d. dead_matches d p) (rb_dead_letter b)"

definition settled :: "repo_ci \<Rightarrow> bool" where
  "settled b \<longleftrightarrow> length (rb_dead_letter b) \<le> MAX_DEAD_LETTER \<and> (\<forall>p \<in> set (rb_pending b). \<not> closed_by b p)"

lemma retain_open_pending: "rb_pending (retain_open b) = filter (\<lambda>p. \<not> closed_by b p) (rb_pending b)"
  by (auto simp: retain_open_def closed_by_def pending_is_acked_def intro!: filter_cong)

lemma retain_fields [simp]:
  "rb_acked (retain_open b) = rb_acked b" "rb_dead_letter (retain_open b) = rb_dead_letter b"
  "rb_windows (retain_open b) = rb_windows b" "rb_window_ids (retain_open b) = rb_window_ids b"
  "rb_generations (retain_open b) = rb_generations b" "rb_terminal_runs (retain_open b) = rb_terminal_runs b"
  "rb_epoch (retain_open b) = rb_epoch b" "rb_min_writer_epoch (retain_open b) = rb_min_writer_epoch b"
  by (simp_all add: retain_open_def)

lemma trim_fields [simp]:
  "rb_acked (trim_dead_letter b) = rb_acked b" "rb_pending (trim_dead_letter b) = rb_pending b"
  "rb_windows (trim_dead_letter b) = rb_windows b" "rb_window_ids (trim_dead_letter b) = rb_window_ids b"
  "rb_generations (trim_dead_letter b) = rb_generations b" "rb_terminal_runs (trim_dead_letter b) = rb_terminal_runs b"
  "rb_epoch (trim_dead_letter b) = rb_epoch b" "rb_min_writer_epoch (trim_dead_letter b) = rb_min_writer_epoch b"
  by (simp_all add: trim_dead_letter_def)

lemma trim_length [simp]: "length (rb_dead_letter (trim_dead_letter b)) \<le> MAX_DEAD_LETTER"
  by (simp add: trim_dead_letter_def)

lemma trim_short: "length (rb_dead_letter b) \<le> MAX_DEAD_LETTER \<Longrightarrow> trim_dead_letter b = b"
  by (simp add: trim_dead_letter_def)

lemma closed_by_retain [simp]: "closed_by (retain_open b) p = closed_by b p"
  by (simp add: closed_by_def pending_is_acked_def)

lemma settled_retain: "length (rb_dead_letter b) \<le> MAX_DEAD_LETTER \<Longrightarrow> settled (retain_open b)"
  by (simp add: settled_def retain_open_pending)

lemma normalized_settled: "settled (normalize_repo_outbox b)"
  by (simp add: normalize_repo_outbox_def settled_retain)

lemma settled_fixed:
  assumes "settled b"
  shows "normalize_repo_outbox b = b"
proof -
  have "rb_pending (retain_open b) = rb_pending b"
    using assms by (simp add: retain_open_pending settled_def)
  then have "retain_open b = b" by (simp add: retain_open_def)
  then show ?thesis using assms by (simp add: normalize_repo_outbox_def trim_short settled_def)
qed

text \<open>Fewer acknowledgements keep a settled outbox settled.\<close>

lemma settled_fewer_acks:
  assumes "settled b" and "set (rb_acked c) \<subseteq> set (rb_acked b)" and "rb_dead_letter c = rb_dead_letter b"
    and "rb_pending c = rb_pending b"
  shows "settled c"
  using assms by (fastforce simp: settled_def closed_by_def pending_is_acked_def list_ex_iff)

section \<open>Which parts an operation touches\<close>

lemma canonicalize_fields [simp]:
  "rb_terminal_runs (canonicalize_loaded_window b) = rb_terminal_runs b"
  "rb_pending (canonicalize_loaded_window b) = rb_pending b"
  "rb_acked (canonicalize_loaded_window b) = rb_acked b"
  "rb_dead_letter (canonicalize_loaded_window b) = rb_dead_letter b"
  "rb_epoch (canonicalize_loaded_window b) = rb_epoch b"
  "rb_min_writer_epoch (canonicalize_loaded_window b) = rb_min_writer_epoch b"
  by (simp_all add: canonicalize_loaded_window_def adopt_legacy_window_def Let_def)

lemma merge_window_fields [simp]:
  "rb_terminal_runs (merge_window st src w b) = rb_terminal_runs b"
  "rb_pending (merge_window st src w b) = rb_pending b"
  "rb_acked (merge_window st src w b) = rb_acked b"
  "rb_dead_letter (merge_window st src w b) = rb_dead_letter b"
  "rb_epoch (merge_window st src w b) = rb_epoch b"
  "rb_min_writer_epoch (merge_window st src w b) = rb_min_writer_epoch b"
  by (simp_all add: merge_window_def Let_def)

lemma fold_keeps: "(\<And>x s. f (g x s) = f s) \<Longrightarrow> f (fold g xs s) = f s"
  by (induction xs arbitrary: s) auto

lemma merge_windows_fields [simp]:
  "rb_terminal_runs (merge_windows st src b) = rb_terminal_runs b"
  "rb_pending (merge_windows st src b) = rb_pending b"
  "rb_acked (merge_windows st src b) = rb_acked b"
  "rb_dead_letter (merge_windows st src b) = rb_dead_letter b"
  "rb_epoch (merge_windows st src b) = rb_epoch b"
  "rb_min_writer_epoch (merge_windows st src b) = rb_min_writer_epoch b"
  by (simp_all add: merge_windows_def Let_def fold_keeps)

lemma merge_windows_ok: "windows_ok (merge_windows st src b)"
  by (simp add: merge_windows_def canonicalized_ok Let_def)

text \<open>The windows depend on their three fields only.\<close>

lemma windows_ok_cong:
  "rb_windows c = rb_windows b \<Longrightarrow> rb_window_ids c = rb_window_ids b \<Longrightarrow> rb_generations c = rb_generations b \<Longrightarrow>
   windows_ok b \<Longrightarrow> windows_ok c"
  by (simp add: windows_ok_def)

section \<open>The merge in stages\<close>

definition merge_stage :: "repo_ci \<Rightarrow> repo_ci \<Rightarrow> repo_ci" where
  "merge_stage dest source =
     (let d = merge_windows (source_stale dest source) source dest;
          keep_ids = rb_window_ids d;
          d = fst (cap_repo_baseline_keeping_ids keep_ids (merge_runs (rb_terminal_runs source) d));
          d = d\<lparr>rb_epoch := max (rb_epoch d) (rb_epoch source),
                rb_min_writer_epoch := max (rb_min_writer_epoch d) (rb_min_writer_epoch source),
                rb_ci_established := rb_ci_established d \<or> rb_ci_established source\<rparr>
      in trim_dead_letter (merge_dead (rb_dead_letter source) (merge_acked (rb_acked source) d)))"

lemma merge_fields [simp]:
  "rb_windows (merge_acked as b) = rb_windows b" "rb_window_ids (merge_acked as b) = rb_window_ids b"
  "rb_generations (merge_acked as b) = rb_generations b" "rb_pending (merge_acked as b) = rb_pending b"
  "rb_dead_letter (merge_acked as b) = rb_dead_letter b" "rb_terminal_runs (merge_acked as b) = rb_terminal_runs b"
  "rb_epoch (merge_acked as b) = rb_epoch b" "rb_min_writer_epoch (merge_acked as b) = rb_min_writer_epoch b"
  "rb_windows (merge_dead ds b) = rb_windows b" "rb_window_ids (merge_dead ds b) = rb_window_ids b"
  "rb_generations (merge_dead ds b) = rb_generations b" "rb_pending (merge_dead ds b) = rb_pending b"
  "rb_acked (merge_dead ds b) = rb_acked b" "rb_terminal_runs (merge_dead ds b) = rb_terminal_runs b"
  "rb_epoch (merge_dead ds b) = rb_epoch b" "rb_min_writer_epoch (merge_dead ds b) = rb_min_writer_epoch b"
  "rb_windows (merge_pending st ps b) = rb_windows b" "rb_window_ids (merge_pending st ps b) = rb_window_ids b"
  "rb_generations (merge_pending st ps b) = rb_generations b" "rb_acked (merge_pending st ps b) = rb_acked b"
  "rb_dead_letter (merge_pending st ps b) = rb_dead_letter b"
  "rb_terminal_runs (merge_pending st ps b) = rb_terminal_runs b"
  "rb_epoch (merge_pending st ps b) = rb_epoch b" "rb_min_writer_epoch (merge_pending st ps b) = rb_min_writer_epoch b"
  "rb_windows (merge_runs rs b) = rb_windows b" "rb_window_ids (merge_runs rs b) = rb_window_ids b"
  "rb_generations (merge_runs rs b) = rb_generations b" "rb_pending (merge_runs rs b) = rb_pending b"
  "rb_acked (merge_runs rs b) = rb_acked b" "rb_dead_letter (merge_runs rs b) = rb_dead_letter b"
  "rb_epoch (merge_runs rs b) = rb_epoch b" "rb_min_writer_epoch (merge_runs rs b) = rb_min_writer_epoch b"
  by (simp_all add: merge_acked_def merge_dead_def merge_pending_def merge_runs_def)

lemma merge_stage_pending [simp]: "rb_pending (merge_stage dest source) = rb_pending dest"
  by (simp add: merge_stage_def Let_def)

lemma merge_stage_dead: "length (rb_dead_letter (merge_stage dest source)) \<le> MAX_DEAD_LETTER"
  by (simp add: merge_stage_def Let_def)

lemma merge_stage_windows:
  "rb_windows (merge_stage dest source) = rb_windows (merge_windows (source_stale dest source) source dest)"
  "rb_window_ids (merge_stage dest source) = rb_window_ids (merge_windows (source_stale dest source) source dest)"
  "rb_generations (merge_stage dest source) = rb_generations (merge_windows (source_stale dest source) source dest)"
  by (simp_all add: merge_stage_def Let_def)

lemma merge_in_stages:
  "merge_repo_baseline dest source =
     retain_open (merge_pending (source_stale dest source) (rb_pending source) (merge_stage dest source))"
proof -
  let ?m = "retain_open (merge_pending (source_stale dest source) (rb_pending source) (merge_stage dest source))"
  have "merge_repo_baseline dest source = trim_dead_letter ?m"
    by (simp add: merge_repo_baseline_def merge_stage_def Let_def)
  also have "\<dots> = ?m"
    using merge_stage_dead[of dest source] by (simp add: trim_short)
  finally show ?thesis .
qed

lemma merged_settled: "settled (merge_repo_baseline dest source)"
  using merge_stage_dead[of dest source] by (simp add: merge_in_stages settled_retain)

lemma merged_windows_ok: "windows_ok (merge_repo_baseline dest source)"
  by (rule windows_ok_cong[OF _ _ _ merge_windows_ok]) (simp_all add: merge_in_stages merge_stage_windows)

section \<open>What becomes of a queued delivery\<close>

text \<open>A list of entries carries a delivery when one of them reports the same result with at least its attempts.\<close>

definition carries :: "pending_ci list \<Rightarrow> pending_ci \<Rightarrow> bool" where
  "carries ps p \<longleftrightarrow> (\<exists>q \<in> set ps. same_event q p \<and> pc_send_attempts p \<le> pc_send_attempts q)"

lemma carries_update:
  assumes "carries ps p"
  shows "carries (update_or_push P (merge_pending_retry_state d) d ps) p"
proof -
  have "list_ex (\<lambda>q. same_event q p \<and> pc_send_attempts p \<le> pc_send_attempts q)
          (update_or_push P (merge_pending_retry_state d) d ps)"
  proof (rule update_or_push_mono)
    fix q assume "same_event q p \<and> pc_send_attempts p \<le> pc_send_attempts q"
    then show "same_event (merge_pending_retry_state d q) p \<and>
        pc_send_attempts p \<le> pc_send_attempts (merge_pending_retry_state d q)"
      using same_report_matches(2)[OF same_report_merge] merge_retry_grows(1)[of q d] by (meson le_trans)
  qed (use assms in \<open>auto simp: carries_def list_ex_iff\<close>)
  then show ?thesis by (auto simp: carries_def list_ex_iff)
qed

lemma carries_own: "carries (update_or_push (\<lambda>e. same_event e d) (merge_pending_retry_state d) d ps) d"
proof -
  have "list_ex (\<lambda>q. same_event q d \<and> pc_send_attempts d \<le> pc_send_attempts q)
          (update_or_push (\<lambda>e. same_event e d) (merge_pending_retry_state d) d ps)"
    by (rule update_or_push_has)
      (simp_all add: same_report_matches(2)[OF same_report_merge] merge_retry_grows(2))
  then show ?thesis by (auto simp: carries_def list_ex_iff)
qed

lemma merge_delivery_carries: "carries qs p \<Longrightarrow> carries (merge_delivery st dest d qs) p"
  by (simp add: merge_delivery_def carries_update)

lemma fold_delivery_carries: "carries qs p \<Longrightarrow> carries (fold (merge_delivery st dest) ps qs) p"
  by (induction ps arbitrary: qs) (simp_all add: merge_delivery_carries)

lemma merge_pending_carries:
  assumes "p \<in> set ps"
  shows "closed_by dest p \<or> carries (rb_pending (merge_pending False ps dest)) p"
proof -
  have "closed_by dest p \<or> carries (fold (merge_delivery False dest) ps qs) p" for qs
    using assms
  proof (induction ps arbitrary: qs)
    case (Cons d ps)
    show ?case
    proof (cases "p = d \<and> \<not> closed_by dest p")
      case True
      then have "carries (merge_delivery False dest d qs) p"
        by (auto simp: closed_by_def merge_delivery_def carries_own)
      then show ?thesis by (simp add: fold_delivery_carries)
    qed (use Cons in auto)
  qed simp
  then show ?thesis by (simp add: merge_pending_def)
qed

text \<open>A delivery, or one of the same result, is closed in the repository.\<close>

definition accounted :: "repo_ci \<Rightarrow> pending_ci \<Rightarrow> bool" where
  "accounted b p \<longleftrightarrow> carries (rb_pending b) p \<or> (\<exists>q. same_event q p \<and> closed_by b q)"

lemma accounted_retain:
  assumes "carries (rb_pending b) p \<or> closed_by b p"
  shows "accounted (retain_open b) p"
  using assms by (auto simp: accounted_def carries_def retain_open_pending intro: same_event_refl)

lemma merge_accounts_for:
  assumes "\<not> source_stale dest source" and "p \<in> set (rb_pending source)"
  shows "accounted (merge_repo_baseline dest source) p"
proof -
  let ?d = "merge_pending False (rb_pending source) (merge_stage dest source)"
  have "closed_by (merge_stage dest source) p \<or> carries (rb_pending ?d) p"
    using merge_pending_carries[OF assms(2)] by blast
  then have "carries (rb_pending ?d) p \<or> closed_by ?d p"
    by (auto simp: closed_by_def pending_is_acked_def)
  then show ?thesis using assms(1) accounted_retain by (simp add: merge_in_stages)
qed

section \<open>A fenced writer\<close>

lemma merge_pending_stale: "rb_pending (merge_pending True ps dest) = rb_pending dest"
proof -
  have "fold (merge_delivery True dest) ps qs = qs" for qs
    by (induction ps) (simp_all add: merge_delivery_def)
  then show ?thesis by (simp add: merge_pending_def)
qed

lemma fenced_pending:
  assumes "source_stale dest source"
  shows "set (rb_pending (merge_repo_baseline dest source)) \<subseteq> set (rb_pending dest)"
  using assms by (simp add: merge_in_stages retain_open_pending merge_pending_stale)

lemma sort_key_get: "hm_ok m \<Longrightarrow> hm_get (sort_key fst m) k = hm_get m k"
proof -
  assume "hm_ok m"
  moreover have "mset (map fst (sort_key fst m)) = mset (map fst m)" by (simp add: mset_map)
  ultimately have "hm_ok (sort_key fst m)"
    unfolding hm_ok_def by (metis mset_eq_imp_distinct_iff)
  with \<open>hm_ok m\<close> show ?thesis
    by (metis hm_get_iff not_None_eq option.exhaust set_sort)
qed

lemma sort_key_ok [wf_intros]: "hm_ok m \<Longrightarrow> hm_ok (sort_key fst m)"
proof -
  assume "hm_ok m"
  moreover have "mset (map fst (sort_key fst m)) = mset (map fst m)" by (simp add: mset_map)
  ultimately show ?thesis unfolding hm_ok_def by (metis mset_eq_imp_distinct_iff)
qed

lemma canonical_window:
  assumes "hm_ok (rb_windows b)" and "rb_windows b \<noteq> []"
  shows "hm_get (rb_windows (canonicalize_loaded_window b)) k = map_option canonical_window_ids (hm_get (rb_windows b) k)"
  using assms
  by (simp add: canonicalize_loaded_window_def adopt_legacy_window_def Let_def sort_key_get hm_ok_map_values hm_get_map_values)

lemma canonicalize_windows_ok [wf_intros]: "hm_ok (rb_windows b) \<Longrightarrow> hm_ok (rb_windows (canonicalize_loaded_window b))"
  by (auto simp: canonicalize_loaded_window_def adopt_legacy_window_def Let_def intro!: sort_key_ok hm_ok_map_values)
    (simp add: hm_ok_def)

lemma stale_merge_window:
  "hm_get (rb_windows d) k = Some ids \<Longrightarrow> hm_get (rb_windows (fold (merge_window True src) ws d)) k = Some ids"
proof (induction ws arbitrary: d)
  case (Cons w ws)
  have "hm_get (rb_windows (merge_window True src w d)) k = Some ids"
    using Cons.prems by (auto simp: merge_window_def Let_def hm_has_def hm_get_put)
  then show ?case using Cons.IH by simp
qed simp

lemma merge_window_ok [wf_intros]: "hm_ok (rb_windows d) \<Longrightarrow> hm_ok (rb_windows (merge_window st src w d))"
  by (simp add: merge_window_def Let_def hm_ok_put)

lemma fold_merge_window_ok: "hm_ok (rb_windows d) \<Longrightarrow> hm_ok (rb_windows (fold (merge_window st src) ws d))"
  by (induction ws arbitrary: d) (auto intro: wf_intros)

lemma fenced_window:
  assumes "source_stale dest source" and "hm_ok (rb_windows dest)"
    and "hm_get (rb_windows (canonicalize_loaded_window dest)) scope = Some ids"
  shows "hm_get (rb_windows (merge_repo_baseline dest source)) scope = Some ids"
proof -
  let ?c = "canonicalize_loaded_window dest"
  let ?f = "fold (merge_window True source) (source_windows source) ?c"
  let ?g = "?f\<lparr>rb_window_generation := max (rb_window_generation ?f) (rb_window_generation source)\<rparr>"
  have ok: "hm_ok (rb_windows ?f)"
    using assms(2) by (intro fold_merge_window_ok canonicalize_windows_ok)
  have f: "hm_get (rb_windows ?f) scope = Some ids"
    using assms(3) by (rule stale_merge_window)
  have canon: "canonical_window_ids ids = ids"
    using canonicalized_ok[of dest] hm_get_in[OF assms(3)] by (auto simp: windows_ok_def)
  have "hm_get (rb_windows (canonicalize_loaded_window ?g)) scope = Some ids"
    using f ok canon by (subst canonical_window) (auto simp: hm_get_def)
  then show ?thesis
    using assms(1) by (simp add: merge_in_stages merge_stage_windows merge_windows_def Let_def)
qed

section \<open>The map of repositories\<close>

lemma merge_ci_get:
  assumes "hm_ok source"
  shows "hm_get (merge_ci_baseline dest source) k =
    (case hm_get source k of
       None \<Rightarrow> hm_get dest k
     | Some r \<Rightarrow> Some (merge_repo_baseline (unwrap_or (hm_get dest k) repo_ci_default) r))"
  using assms unfolding merge_ci_baseline_def
proof (induction source arbitrary: dest)
  case Nil
  then show ?case by simp
next
  case (Cons kr source)
  obtain k' r' where kr: "kr = (k', r')" by (cases kr)
  have ok: "hm_ok source" and new: "hm_get source k' = None"
    using Cons.prems by (auto simp: kr hm_ok_def hm_get_None)
  show ?case
    using Cons.IH[OF ok] new
    by (auto simp: kr merge_into_key_def hm_get_put split: option.splits)
qed

lemma merge_ci_ok [wf_intros]: "hm_ok dest \<Longrightarrow> hm_ok (merge_ci_baseline dest source)"
  unfolding merge_ci_baseline_def
  by (induction source arbitrary: dest) (auto simp: merge_into_key_def hm_ok_put)

lemma merge_ci_all:
  assumes "\<And>d s. P (merge_repo_baseline d s)" and "\<forall>kr \<in> set dest. P (snd kr)"
  shows "\<forall>kr \<in> set (merge_ci_baseline dest source). P (snd kr)"
proof -
  have put: "kr \<in> set (hm_put k v m) \<Longrightarrow> kr = (k, v) \<or> kr \<in> set m" for kr k and v :: repo_ci and m
    by (induction k v m rule: hm_put.induct) (auto split: if_splits)
  show ?thesis
    using assms(2) unfolding merge_ci_baseline_def
  proof (induction source arbitrary: dest)
    case (Cons kr source)
    have "\<forall>x \<in> set (merge_into_key kr dest). P (snd x)"
      using Cons.prems assms(1) by (auto simp: merge_into_key_def dest!: put)
    then show ?case using Cons.IH by simp
  qed simp
qed

end
