(* ===== verification/GithubOutbox.thy ===== *)
theory GithubOutbox imports GithubBaseline begin

text \<open>
  The durable outbox of CI deliveries (\<open>src/source/github.rs\<close>): enqueueing, recording terminal runs,
  committing the baseline to its file under the lock, sending, acknowledging, and the CI part of one
  poll of a repository. State is threaded explicitly: \<open>ci_world\<close> holds what the code reads from and
  writes to its surroundings. Each effect takes the next number of \<open>cw_step\<close>, and the functions of the
  world answer the effect of that number, so no answer is assumed to repeat or to agree with another.
\<close>

section \<open>The surroundings\<close>

text \<open>
  The baseline file: absent, unreadable, not a baseline, or the map it encodes. \<open>write_outcome\<close> is the
  outcome of \<open>write_ci_baseline_atomic\<close>: written, failed before the rename (the file is unchanged), or
  failed while syncing after the rename (the file is replaced although the call reports an error).
\<close>

datatype ci_file = NoFile | UnreadableFile | InvalidFile | StoredBaseline ci_baseline

datatype write_outcome = Written | WriteFailed string | WriteUnsynced string

datatype ci_effect = FileReplaced ci_baseline | Published incoming_event

record ci_world =
  cw_step :: nat
  cw_unix :: "nat \<Rightarrow> nat"
  cw_nanos :: "nat \<Rightarrow> nat option"
  cw_counter :: nat
  cw_uuid :: "nat \<Rightarrow> string"
  cw_lock :: "nat \<Rightarrow> string option"
  cw_others :: "nat \<Rightarrow> ci_file \<Rightarrow> ci_file"
  cw_write :: "nat \<Rightarrow> write_outcome"
  cw_accepts :: "nat \<Rightarrow> bool"
  cw_file :: ci_file
  cw_trace :: "ci_effect list"

definition step_on :: "ci_world \<Rightarrow> ci_world" where
  "step_on w = w\<lparr>cw_step := Suc (cw_step w)\<rparr>"

definition unix_now :: "ci_world \<Rightarrow> ci_world \<times> nat" where
  "unix_now w = (step_on w, cw_unix w (cw_step w))"

definition u64_add :: "nat \<Rightarrow> nat \<Rightarrow> nat" where "u64_add a b = min u64_max (a + b)"

text \<open>
  \<open>next_window_generation\<close>: the compare-and-exchange loop ends with the counter read and replaced in one
  step, which is the step modelled. A clock before the epoch reads as the previous generation.
\<close>

definition next_window_generation :: "nat \<Rightarrow> ci_world \<Rightarrow> ci_world \<times> nat" where
  "next_window_generation previous w =
     (let clock = (case cw_nanos w (cw_step w) of Some n \<Rightarrow> min n u64_max | None \<Rightarrow> previous);
          floor = max (u64_add previous 1) clock;
          observed = cw_counter w;
          gen = u64_add (max observed floor) (if floor \<le> observed then 1 else 0)
      in (step_on w\<lparr>cw_counter := gen\<rparr>, gen))"

definition reserve_window_generation ::
    "string \<Rightarrow> string \<Rightarrow> string \<Rightarrow> ci_baseline \<Rightarrow> ci_world \<Rightarrow> ci_world \<times> ci_baseline \<times> nat" where
  "reserve_window_generation repo_key repo_path window_scope b w =
     (case repo_baseline_mut repo_key repo_path b of
        (b, repo) \<Rightarrow>
          (case next_window_generation (rb_window_generation repo) w of
             (w, gen) \<Rightarrow>
               (let repo = repo\<lparr>rb_window_generation := gen,
                      rb_generations := (if hm_has (rb_generations repo) window_scope then rb_generations repo
                                         else hm_put window_scope 0 (rb_generations repo))\<rparr>
                in (w, hm_put repo_key repo b, gen))))"

section \<open>Enqueueing and recording\<close>

definition delivery_of_event :: "(string, ci_snapshot) hmap \<Rightarrow> incoming_event \<Rightarrow> pending_ci" where
  "delivery_of_event current e =
     pending_from_ci_event e
       (unwrap_or (map_option snapshot_identities (previous_snapshot_for_event current e)) [])"

fun enqueue_deliveries :: "pending_ci list \<Rightarrow> repo_ci \<Rightarrow> ci_world \<Rightarrow> ci_world \<times> repo_ci" where
  "enqueue_deliveries [] repo w = (w, repo)"
| "enqueue_deliveries (d # ds) repo w =
     (if pending_is_acked repo d then enqueue_deliveries ds repo w
      else if list_ex (\<lambda>e. same_event e d) (rb_pending repo) then enqueue_deliveries ds repo w
      else
        let (w, d) = (if pc_delivery_id d = [] then (step_on w, d\<lparr>pc_delivery_id := cw_uuid w (cw_step w)\<rparr>) else (w, d))
        in enqueue_deliveries ds (repo\<lparr>rb_pending := rb_pending repo @ [d]\<rparr>) w)"

definition enqueue_pending ::
    "string \<Rightarrow> string \<Rightarrow> incoming_event list \<Rightarrow> (string, ci_snapshot) hmap \<Rightarrow> ci_baseline \<Rightarrow> ci_world \<Rightarrow>
     ci_world \<times> ci_baseline" where
  "enqueue_pending repo_key repo_path events current b w =
     (if events = [] then (w, b)
      else
        let deliveries = map (delivery_of_event current) events
        in case repo_baseline_mut repo_key repo_path b of
             (b, repo) \<Rightarrow>
               (case enqueue_deliveries deliveries repo w of (w, repo) \<Rightarrow> (w, hm_put repo_key repo b)))"

definition incoming_runs :: "(string, ci_snapshot) hmap \<Rightarrow> (ci_snapshot \<Rightarrow> bool) \<Rightarrow> ci_snapshot list" where
  "incoming_runs current incl =
     sort_key (\<lambda>ci. eviction_key (from_snapshot ci)) (filter (\<lambda>ci. is_terminal ci \<and> incl ci) (values_of current))"

definition accept_window :: "string \<Rightarrow> nat \<Rightarrow> ci_snapshot list \<Rightarrow> repo_ci \<Rightarrow> repo_ci" where
  "accept_window scope generation incoming repo =
     (if unwrap_or (hm_get (rb_generations repo) scope) 0 \<le> generation
      then repo\<lparr>rb_window_generation := max (rb_window_generation repo) generation,
                rb_windows := hm_put scope (window_ids_of_snapshots incoming) (rb_windows repo),
                rb_generations := hm_put scope generation (rb_generations repo)\<rparr>
      else repo)"

definition record_into_repo ::
    "string \<Rightarrow> nat \<times> bool \<Rightarrow> ci_snapshot list \<Rightarrow> repo_ci \<Rightarrow> ci_world \<Rightarrow> ci_world \<times> repo_ci \<times> bool" where
  "record_into_repo window_scope window incoming repo w =
     (let (runs, dirty) = fold record_snapshot incoming (rb_terminal_runs repo, False);
          repo = repo\<lparr>rb_terminal_runs := runs\<rparr>;
          (w, repo) =
            (if snd window
             then (let (w, gen) = (if fst window = 0 then next_window_generation (rb_window_generation repo) w
                                   else (w, fst window))
                   in (w, accept_window window_scope gen incoming repo))
             else (w, repo));
          repo = canonicalize_loaded_window repo;
          keep_ids = (if snd window then rb_window_ids repo
                      else rb_window_ids repo @ concat (map unique_identities incoming));
          (repo, capped) = cap_repo_baseline_keeping_ids keep_ids repo
      in (w, repo, dirty \<or> capped))"

definition record_terminal_runs_filtered ::
    "string \<Rightarrow> string \<Rightarrow> string \<Rightarrow> (string, ci_snapshot) hmap \<Rightarrow> nat \<times> bool \<Rightarrow> (ci_snapshot \<Rightarrow> bool) \<Rightarrow>
     ci_baseline \<Rightarrow> ci_world \<Rightarrow> ci_world \<times> ci_baseline \<times> bool" where
  "record_terminal_runs_filtered repo_key repo_path window_scope current window incl b w =
     (case repo_baseline_mut repo_key repo_path b of
        (b, repo) \<Rightarrow>
          (case record_into_repo window_scope window (incoming_runs current incl) repo w of
             (w, repo, dirty) \<Rightarrow> (w, hm_put repo_key repo b, dirty)))"

section \<open>The file\<close>

definition load_ci_baseline :: "bool \<Rightarrow> ci_file \<Rightarrow> ci_baseline" where
  "load_ci_baseline has_path file =
     (if \<not> has_path then []
      else case file of
             StoredBaseline repos \<Rightarrow> map_values (\<lambda>r. normalize_repo_outbox (canonicalize_loaded_window r)) repos
           | _ \<Rightarrow> [])"

text \<open>\<open>acquire_baseline_lock\<close>: when it succeeds, the file is what the other processes left there.\<close>

definition lock_baseline :: "ci_world \<Rightarrow> ci_world \<times> (string + unit)" where
  "lock_baseline w =
     (case cw_lock w (cw_step w) of
        Some e \<Rightarrow> (step_on w, Err e)
      | None \<Rightarrow> (step_on w\<lparr>cw_file := cw_others w (cw_step w) (cw_file w)\<rparr>, Ok ()))"

definition replace_file :: "ci_baseline \<Rightarrow> ci_world \<Rightarrow> ci_world" where
  "replace_file b w = w\<lparr>cw_file := StoredBaseline b, cw_trace := cw_trace w @ [FileReplaced b]\<rparr>"

definition write_ci_baseline :: "ci_baseline \<Rightarrow> ci_world \<Rightarrow> ci_world \<times> (string + unit)" where
  "write_ci_baseline b w =
     (case cw_write w (cw_step w) of
        Written \<Rightarrow> (replace_file b (step_on w), Ok ())
      | WriteFailed e \<Rightarrow> (step_on w, Err e)
      | WriteUnsynced e \<Rightarrow> (replace_file b (step_on w), Err e))"

definition age_repo :: "nat \<Rightarrow> repo_ci \<Rightarrow> repo_ci" where
  "age_repo now repo =
     normalize_repo_outbox (compact_acked now (repo\<lparr>rb_epoch := u64_add (rb_epoch repo) 1\<rparr>))"

definition commit_ci_baseline :: "bool \<Rightarrow> ci_baseline \<Rightarrow> ci_world \<Rightarrow> ci_world \<times> (string + ci_baseline)" where
  "commit_ci_baseline has_path local w =
     (if \<not> has_path then (w, Ok local)
      else case lock_baseline w of
             (w, Inl e) \<Rightarrow> (w, Err e)
           | (w, Inr _) \<Rightarrow>
               (let disk = merge_ci_baseline (load_ci_baseline True (cw_file w)) local
                in case unix_now w of
                     (w, now) \<Rightarrow>
                       (let disk = map_values (age_repo now) disk
                        in case write_ci_baseline disk w of
                             (w, Inl e) \<Rightarrow> (w, Err e)
                           | (w, Inr _) \<Rightarrow> (w, Ok disk))))"

section \<open>Sending\<close>

definition pending_due_for_send :: "nat \<Rightarrow> pending_ci \<Rightarrow> bool" where
  "pending_due_for_send now p =
     (if MAX_PENDING_SEND_ATTEMPTS \<le> pc_send_attempts p then False
      else case pc_last_sent p of
             None \<Rightarrow> True
           | Some t \<Rightarrow> PENDING_RETRY_BACKOFF_SECS \<le> now - t)"

definition same_entry :: "pending_ci \<Rightarrow> pending_ci \<Rightarrow> bool" where
  "same_entry d p = (if pc_delivery_id d \<noteq> [] then pc_delivery_id p = pc_delivery_id d else same_output p d)"

definition outbox_entry :: "ci_baseline \<Rightarrow> pending_ci \<Rightarrow> pending_ci option" where
  "outbox_entry b d = find_map (\<lambda>repo. List.find (same_entry d) (rb_pending repo)) (values_of b)"

definition bump_entry :: "nat \<Rightarrow> pending_ci list \<Rightarrow> pending_ci \<Rightarrow> pending_ci" where
  "bump_entry now sent p =
     (if list_ex (\<lambda>item. same_entry item p) sent
      then p\<lparr>pc_send_attempts := min u32_max (pc_send_attempts p + 1), pc_last_sent := Some now\<rparr> else p)"

definition bump_pending_send_attempts :: "nat \<Rightarrow> pending_ci list \<Rightarrow> ci_baseline \<Rightarrow> ci_baseline" where
  "bump_pending_send_attempts now sent b =
     map_values (\<lambda>repo. repo\<lparr>rb_pending := map (bump_entry now sent) (rb_pending repo)\<rparr>) b"

definition persist_pending_send_attempts ::
    "bool \<Rightarrow> pending_ci list \<Rightarrow> nat \<Rightarrow> ci_baseline \<Rightarrow> ci_world \<Rightarrow> ci_world \<times> (string + ci_baseline)" where
  "persist_pending_send_attempts has_path items now b w =
     commit_ci_baseline has_path (bump_pending_send_attempts now items b) w"

definition send_event :: "incoming_event \<Rightarrow> ci_world \<Rightarrow> ci_world \<times> bool" where
  "send_event e w =
     (if cw_accepts w (cw_step w) then ((step_on w)\<lparr>cw_trace := cw_trace w @ [Published e]\<rparr>, True)
      else (step_on w, False))"

section \<open>Acknowledging\<close>

definition has_delivery :: "pending_ci \<Rightarrow> repo_ci \<Rightarrow> bool" where
  "has_delivery d repo =
     list_ex (\<lambda>p. pc_repo_name p = pc_repo_name d \<and>
                  (same_event p d \<or> matches_pending (ack_from_pending d 0) p)) (rb_pending repo)"

text \<open>\<open>record_acked\<close> reads the clock only when it pushes a new record.\<close>

definition ack_into :: "pending_ci \<Rightarrow> repo_ci \<Rightarrow> ci_world \<Rightarrow> ci_world \<times> repo_ci" where
  "ack_into d repo w =
     (if pending_is_acked repo d then (w, record_acked 0 d repo)
      else case unix_now w of (w, now) \<Rightarrow> (w, record_acked now d repo))"

fun ack_deliveries :: "(pending_ci \<Rightarrow> repo_ci \<Rightarrow> bool) \<Rightarrow> pending_ci list \<Rightarrow> repo_ci \<Rightarrow> ci_world \<Rightarrow> ci_world \<times> repo_ci" where
  "ack_deliveries found [] repo w = (w, repo)"
| "ack_deliveries found (d # ds) repo w =
     (if found d repo then (case ack_into d repo w of (w, repo) \<Rightarrow> ack_deliveries found ds repo w)
      else ack_deliveries found ds repo w)"

definition drop_acked :: "repo_ci \<Rightarrow> repo_ci" where
  "drop_acked repo =
     repo\<lparr>rb_pending := filter (\<lambda>p. \<not> list_ex (\<lambda>a. matches_pending a p) (rb_acked repo)) (rb_pending repo)\<rparr>"

text \<open>One repository after the other, in the order of the map.\<close>

fun over_repos ::
    "(string \<Rightarrow> repo_ci \<Rightarrow> ci_world \<Rightarrow> ci_world \<times> repo_ci) \<Rightarrow> ci_baseline \<Rightarrow> ci_world \<Rightarrow> ci_world \<times> ci_baseline" where
  "over_repos f [] w = (w, [])"
| "over_repos f ((k, r) # b) w =
     (case f k r w of (w, r') \<Rightarrow> (case over_repos f b w of (w, b') \<Rightarrow> (w, (k, r') # b')))"

definition ack_repo ::
    "(pending_ci \<Rightarrow> repo_ci \<Rightarrow> bool) \<Rightarrow> pending_ci list \<Rightarrow> repo_ci \<Rightarrow> ci_world \<Rightarrow> ci_world \<times> repo_ci" where
  "ack_repo found delivered repo w =
     (case ack_deliveries found delivered repo w of (w, repo) \<Rightarrow> (w, drop_acked repo))"

text \<open>\<open>in_disk || in_local\<close>: the merged entry or the one in memory has the delivery queued.\<close>

definition delivered_here :: "ci_baseline \<Rightarrow> string \<Rightarrow> pending_ci \<Rightarrow> repo_ci \<Rightarrow> bool" where
  "delivered_here b key d repo =
     (has_delivery d repo \<or> (case hm_get b key of None \<Rightarrow> False | Some r \<Rightarrow> has_delivery d r))"

text \<open>The new in-memory baseline, or the error with the old one left in place.\<close>

definition ack_pending_deliveries ::
    "bool \<Rightarrow> pending_ci list \<Rightarrow> ci_baseline \<Rightarrow> ci_world \<Rightarrow> ci_world \<times> (string + ci_baseline)" where
  "ack_pending_deliveries has_path delivered b w =
     (if \<not> has_path
      then (case over_repos (\<lambda>_. ack_repo has_delivery delivered) b w of (w, b) \<Rightarrow> (w, Ok b))
      else case lock_baseline w of
             (w, Inl e) \<Rightarrow> (w, Err e)
           | (w, Inr _) \<Rightarrow>
               (case over_repos (\<lambda>key. ack_repo (delivered_here b key) delivered)
                       (merge_ci_baseline (load_ci_baseline True (cw_file w)) b) w of
                  (w, disk) \<Rightarrow>
                    (case write_ci_baseline disk w of
                       (w, Inl e) \<Rightarrow> (w, Err e)
                     | (w, Inr _) \<Rightarrow> (w, Ok disk))))"

text \<open>Entries that may not be tried again are acknowledged and moved to the dead letters.\<close>

definition exhausted :: "pending_ci list \<Rightarrow> pending_ci \<Rightarrow> bool" where
  "exhausted unsent p =
     (list_ex (\<lambda>item. same_event p item \<and> pc_repo_name p = pc_repo_name item) unsent \<and>
      MAX_PENDING_SEND_ATTEMPTS \<le> pc_send_attempts p)"

fun retire_all :: "pending_ci list \<Rightarrow> repo_ci \<Rightarrow> ci_world \<Rightarrow> ci_world \<times> repo_ci" where
  "retire_all [] repo w = (w, repo)"
| "retire_all (p # ps) repo w =
     (case ack_into p repo w of
        (w, repo) \<Rightarrow> retire_all ps (repo\<lparr>rb_dead_letter := rb_dead_letter repo @ [p]\<rparr>) w)"

definition retire_unsent :: "pending_ci list \<Rightarrow> repo_ci \<Rightarrow> ci_world \<Rightarrow> ci_world \<times> repo_ci" where
  "retire_unsent unsent repo w =
     (let retired = filter (exhausted unsent) (rb_pending repo);
          repo = repo\<lparr>rb_pending := filter (\<lambda>p. \<not> exhausted unsent p) (rb_pending repo)\<rparr>
      in case retire_all retired repo w of (w, repo) \<Rightarrow> (w, trim_dead_letter repo))"

definition dead_letter_unsent_final_attempts ::
    "pending_ci list \<Rightarrow> ci_baseline \<Rightarrow> ci_world \<Rightarrow> ci_world \<times> ci_baseline" where
  "dead_letter_unsent_final_attempts unsent b w = over_repos (\<lambda>_. retire_unsent unsent) b w"

section \<open>Sending what is due\<close>

text \<open>
  One delivery of either loop, from the persisted attempt on. The flag tells whether the loop goes on.
\<close>

definition send_one :: "bool \<Rightarrow> nat \<Rightarrow> pending_ci \<Rightarrow> ci_baseline \<Rightarrow> ci_world \<Rightarrow> ci_world \<times> ci_baseline \<times> bool" where
  "send_one has_path now queued b w =
     (case persist_pending_send_attempts has_path [queued] now b w of
        (w, Inl _) \<Rightarrow> (w, b, False)
      | (w, Inr b) \<Rightarrow>
          (case outbox_entry b queued of
             None \<Rightarrow> (w, b, True)
           | Some entry \<Rightarrow>
               (case send_event (into_event entry) w of
                  (w, True) \<Rightarrow>
                    (case ack_pending_deliveries has_path [entry] b w of
                       (w, Inl _) \<Rightarrow> (w, b, True)
                     | (w, Inr b) \<Rightarrow> (w, b, True))
                | (w, False) \<Rightarrow>
                    (case dead_letter_unsent_final_attempts [entry] b w of
                       (w, b) \<Rightarrow> (fst (commit_ci_baseline has_path b w), b, False)))))"

fun send_loop :: "bool \<Rightarrow> nat \<Rightarrow> pending_ci list \<Rightarrow> ci_baseline \<Rightarrow> ci_world \<Rightarrow> ci_world \<times> ci_baseline" where
  "send_loop has_path now [] b w = (w, b)"
| "send_loop has_path now (d # ds) b w =
     (case outbox_entry b d of
        None \<Rightarrow> send_loop has_path now ds b w
      | Some queued \<Rightarrow>
          if \<not> pending_due_for_send now queued then send_loop has_path now ds b w
          else case send_one has_path now queued b w of
                 (w, b, go_on) \<Rightarrow> if go_on then send_loop has_path now ds b w else (w, b))"

definition send_then_ack_prefix :: "bool \<Rightarrow> pending_ci list \<Rightarrow> ci_baseline \<Rightarrow> ci_world \<Rightarrow> ci_world \<times> ci_baseline" where
  "send_then_ack_prefix has_path delivered b w =
     (case unix_now w of (w, now) \<Rightarrow> send_loop has_path now delivered b w)"

fun drain_loop :: "bool \<Rightarrow> nat \<Rightarrow> pending_ci list \<Rightarrow> ci_baseline \<Rightarrow> ci_world \<Rightarrow> ci_world \<times> ci_baseline" where
  "drain_loop has_path now [] b w = (w, b)"
| "drain_loop has_path now (d # ds) b w =
     (case send_one has_path now d b w of
        (w, b, go_on) \<Rightarrow> if go_on then drain_loop has_path now ds b w else (w, b))"

definition due_deliveries :: "nat \<Rightarrow> ci_baseline \<Rightarrow> pending_ci list" where
  "due_deliveries now b = filter (pending_due_for_send now) (concat (map rb_pending (values_of b)))"

definition drain_pending_outbox :: "bool \<Rightarrow> ci_baseline \<Rightarrow> ci_world \<Rightarrow> ci_world \<times> ci_baseline" where
  "drain_pending_outbox has_path b w =
     (case unix_now w of (w, now) \<Rightarrow> drain_loop has_path now (due_deliveries now b) b w)"

section \<open>The CI part of a poll\<close>

text \<open>
  What the source remembers of a repository between polls (the fields \<open>ci\<close> and
  \<open>ci_baseline_established\<close> of \<open>GitHubRepoState\<close>), and what one fetch returned: nothing was asked (CI
  results off, or no client), a failure, or the results with the mark that every page was seen.
\<close>

record ci_view =
  cv_ci :: "(string, ci_snapshot) hmap"
  cv_established :: bool

datatype ci_fetch = FetchSkipped | FetchFailed | Fetched "(string, ci_snapshot) hmap" bool

definition poll_ci_statuses ::
    "ci_fetch \<Rightarrow> ci_view option \<Rightarrow> bool \<Rightarrow> (string, ci_snapshot) hmap \<times> bool \<times> bool" where
  "poll_ci_statuses fetch previous prs_window_complete =
     (let old = unwrap_or (map_option cv_ci previous) []
      in case fetch of
           FetchSkipped \<Rightarrow> (old, unwrap_or (map_option cv_established previous) False, True)
         | FetchFailed \<Rightarrow> (old, False, False)
         | Fetched fetched fetched_complete \<Rightarrow>
             (let complete = prs_window_complete \<and> fetched_complete
              in (if complete then fetched
                  else (case previous of None \<Rightarrow> fetched | Some p \<Rightarrow> merge_incomplete_ci (cv_ci p) fetched),
                  True, complete)))"

definition ci_events_of_poll ::
    "repo_monitor \<Rightarrow> string \<Rightarrow> ci_view option \<Rightarrow> (string, ci_snapshot) hmap \<Rightarrow> repo_ci option \<Rightarrow> incoming_event list" where
  "ci_events_of_poll repo repo_name previous ci baseline =
     (case previous of
        Some p \<Rightarrow> collect_ci_events repo repo_name (cv_established p) (cv_ci p) ci baseline
      | None \<Rightarrow>
          if (case baseline of None \<Rightarrow> False | Some b \<Rightarrow> rb_ci_established b)
          then collect_ci_events repo repo_name True [] ci baseline else [])"

text \<open>Which terminal runs of a poll are recorded: of an incomplete view only those reported before or now.\<close>

definition recorded_by_poll ::
    "ci_view option \<Rightarrow> bool \<Rightarrow> (string, ci_snapshot) hmap \<Rightarrow> incoming_event list \<Rightarrow> ci_snapshot \<Rightarrow> bool" where
  "recorded_by_poll previous window_complete ci events snapshot =
     (case previous of
        None \<Rightarrow> True
      | Some p \<Rightarrow>
          window_complete \<or>
          list_ex (\<lambda>old. snapshots_same_run old snapshot \<and> is_terminal old) (values_of (cv_ci p)) \<or>
          list_ex (\<lambda>e. case previous_snapshot_for_event ci e of
                         None \<Rightarrow> False | Some matched \<Rightarrow> snapshots_same_run matched snapshot) events)"

definition poll_ci_repo ::
    "bool \<Rightarrow> repo_monitor \<Rightarrow> string \<Rightarrow> string option \<Rightarrow> bool \<Rightarrow> ci_fetch \<Rightarrow> ci_view option \<Rightarrow> ci_baseline \<Rightarrow> ci_world \<Rightarrow>
     ci_world \<times> ci_baseline \<times> ci_view" where
  "poll_ci_repo has_path repo repo_name inferred prs_complete fetch previous b w =
     (let repo_key = ci_baseline_repo_key inferred repo; path = gm_path repo
      in case reserve_window_generation repo_key path path b w of
           (w, b, fetch_generation) \<Rightarrow>
             (let repo_baseline = hm_get b repo_key;
                  (ci, established, complete) = poll_ci_statuses fetch previous prs_complete;
                  current = (case hm_get b repo_key of
                               None \<Rightarrow> False | Some r \<Rightarrow> rb_window_generation r = fetch_generation);
                  events = (if current then ci_events_of_poll repo repo_name previous ci repo_baseline else [])
              in case record_terminal_runs_filtered repo_key path path ci (fetch_generation, complete)
                        (recorded_by_poll previous complete ci events) b w of
                   (w, next_b, _) \<Rightarrow>
                     (case enqueue_pending repo_key path events ci next_b w of
                        (w, next_b) \<Rightarrow>
                          (let next_b = (if established
                                         then update_entry repo_key path (\<lambda>r. r\<lparr>rb_ci_established := True\<rparr>) next_b
                                         else next_b)
                           in case commit_ci_baseline has_path next_b w of
                                (w, Inl _) \<Rightarrow>
                                  (w, b, \<lparr>cv_ci = unwrap_or (map_option cv_ci previous) [],
                                          cv_established = unwrap_or (map_option cv_established previous) False\<rparr>)
                              | (w, Inr b) \<Rightarrow>
                                  (case (if events = [] then (w, b)
                                         else send_then_ack_prefix has_path (map (delivery_of_event ci) events) b w) of
                                     (w, b) \<Rightarrow> (w, b, \<lparr>cv_ci = ci, cv_established = established\<rparr>))))))"

text \<open>
  The CI part of \<open>poll_github\<close>: the outbox is drained, then each polled repository in the order of the
  configuration; the views are kept under the path of the repository.
\<close>

record ci_poll_input =
  cp_monitor :: repo_monitor
  cp_repo_name :: string
  cp_inferred :: "string option"
  cp_prs_complete :: bool
  cp_fetch :: ci_fetch

fun poll_ci_repos ::
    "bool \<Rightarrow> ci_poll_input list \<Rightarrow> (string, ci_view) hmap \<Rightarrow> ci_baseline \<Rightarrow> ci_world \<Rightarrow>
     ci_world \<times> ci_baseline \<times> (string, ci_view) hmap" where
  "poll_ci_repos has_path [] views b w = (w, b, views)"
| "poll_ci_repos has_path (i # inputs) views b w =
     (let path = gm_path (cp_monitor i)
      in case poll_ci_repo has_path (cp_monitor i) (cp_repo_name i) (cp_inferred i) (cp_prs_complete i) (cp_fetch i)
                (hm_get views path) b w of
           (w, b, view) \<Rightarrow> poll_ci_repos has_path inputs (hm_put path view views) b w)"

definition poll_github_ci ::
    "bool \<Rightarrow> ci_poll_input list \<Rightarrow> (string, ci_view) hmap \<Rightarrow> ci_baseline \<Rightarrow> ci_world \<Rightarrow>
     ci_world \<times> ci_baseline \<times> (string, ci_view) hmap" where
  "poll_github_ci has_path inputs views b w =
     (case drain_pending_outbox has_path b w of (w, b) \<Rightarrow> poll_ci_repos has_path inputs views b w)"

end
