(* ===== verification/GithubOutboxCorrect.thy ===== *)
theory GithubOutboxCorrect imports GithubOutbox GithubBaselineCorrect begin

text \<open>
  The outbox against its surroundings: what a commit leaves in the file, that nothing is published which
  the file does not hold as queued at that moment, what an acknowledgement settles, and that a recorded
  terminal run is not reported again. The file, the clock, the lock, the other processes and the
  channel are arbitrary throughout.
\<close>

section \<open>Effects\<close>

lemma step_on_fields [simp]:
  "cw_file (step_on w) = cw_file w" "cw_trace (step_on w) = cw_trace w"
  by (simp_all add: step_on_def)

lemma lock_trace [simp]: "cw_trace (fst (lock_baseline w)) = cw_trace w"
  by (simp add: lock_baseline_def split: option.split)

lemma unix_now_fields [simp]: "cw_trace (fst (unix_now w)) = cw_trace w" "cw_file (fst (unix_now w)) = cw_file w"
  by (simp_all add: unix_now_def)

lemma replace_fields [simp]:
  "cw_file (replace_file b w) = StoredBaseline b" "cw_trace (replace_file b w) = cw_trace w @ [FileReplaced b]"
  by (simp_all add: replace_file_def)

lemma write_cases:
  obtains e where "write_ci_baseline b w = (step_on w, Err e)"
  | e where "write_ci_baseline b w = (replace_file b (step_on w), Err e)"
  | "write_ci_baseline b w = (replace_file b (step_on w), Ok ())"
  by (cases "cw_write w (cw_step w)") (auto simp: write_ci_baseline_def)

section \<open>What a commit writes\<close>

definition committed :: "nat \<Rightarrow> ci_file \<Rightarrow> ci_baseline \<Rightarrow> ci_baseline" where
  "committed now file local = map_values (age_repo now) (merge_ci_baseline (load_ci_baseline True file) local)"

lemma commit_cases:
  obtains (no_lock) e where "commit_ci_baseline True local w = (fst (lock_baseline w), Err e)"
  | (failed) w1 w2 now e where "lock_baseline w = (w1, Ok ())" "unix_now w1 = (w2, now)"
      "commit_ci_baseline True local w = (step_on w2, Err e)"
  | (unsynced) w1 w2 now e where "lock_baseline w = (w1, Ok ())" "unix_now w1 = (w2, now)"
      "commit_ci_baseline True local w =
         (replace_file (committed now (cw_file w1) local) (step_on w2), Err e)"
  | (written) w1 w2 now where "lock_baseline w = (w1, Ok ())" "unix_now w1 = (w2, now)"
      "commit_ci_baseline True local w =
         (replace_file (committed now (cw_file w1) local) (step_on w2), Ok (committed now (cw_file w1) local))"
proof (cases "lock_baseline w")
  case (Pair w1 r)
  show ?thesis
  proof (cases r)
    case (Inl e)
    then show ?thesis using Pair no_lock by (simp add: commit_ci_baseline_def)
  next
    case (Inr u)
    obtain w2 now where now: "unix_now w1 = (w2, now)" by (cases "unix_now w1")
    note eqs = Pair Inr now commit_ci_baseline_def committed_def
    show ?thesis
      by (rule write_cases[of "committed now (cw_file w1) local" w2])
        (use failed[of w1 w2 now] unsynced[of w1 w2 now] written[of w1 w2 now] in
          \<open>auto simp: eqs Let_def\<close>)
  qed
qed

lemma commit_Ok:
  assumes "commit_ci_baseline True local w = (w', Ok b)"
  obtains w1 now where "lock_baseline w = (w1, Ok ())" "b = committed now (cw_file w1) local"
    "cw_file w' = StoredBaseline b" "cw_trace w' = cw_trace w @ [FileReplaced b]"
proof (cases rule: commit_cases[of "local" w])
  case (written w1 w2 now)
  have "cw_trace w2 = cw_trace w"
    using written(1,2) lock_trace[of w] unix_now_fields(1)[of w1] by simp
  then show ?thesis using that[of w1 now] written assms by auto
qed (use assms in auto)

lemma age_repo_fields [simp]:
  "rb_windows (age_repo now r) = rb_windows r" "rb_window_ids (age_repo now r) = rb_window_ids r"
  "rb_generations (age_repo now r) = rb_generations r" "rb_terminal_runs (age_repo now r) = rb_terminal_runs r"
  by (simp_all add: age_repo_def normalize_repo_outbox_def compact_acked_def Let_def)

lemma aged_settled: "settled (age_repo now r)"
  by (simp add: age_repo_def normalized_settled)

lemma aged_windows_ok: "windows_ok r \<Longrightarrow> windows_ok (age_repo now r)"
  by (rule windows_ok_cong) simp_all

lemma aged_pending:
  assumes "settled r"
  shows "rb_pending (age_repo now r) = rb_pending r"
proof -
  let ?c = "compact_acked now (r\<lparr>rb_epoch := u64_add (rb_epoch r) 1\<rparr>)"
  have c: "set (rb_acked ?c) \<subseteq> set (rb_acked r)" "rb_dead_letter ?c = rb_dead_letter r" "rb_pending ?c = rb_pending r"
    by (auto simp: compact_acked_def Let_def)
  then have "settled ?c" using settled_fewer_acks[OF assms] by blast
  then show ?thesis using c by (simp add: age_repo_def settled_fixed)
qed

lemma loaded_canonical:
  "\<forall>kr \<in> set (load_ci_baseline has_path file). settled (snd kr) \<and> windows_ok (snd kr)"
proof -
  have "windows_ok (normalize_repo_outbox (canonicalize_loaded_window r))" for r
    by (rule windows_ok_cong[OF _ _ _ canonicalized_ok[of r]]) (simp_all add: normalize_repo_outbox_def)
  then show ?thesis
    by (auto simp: load_ci_baseline_def map_values_def normalized_settled split: ci_file.splits)
qed

lemma committed_canonical: "\<forall>kr \<in> set (committed now file local). settled (snd kr) \<and> windows_ok (snd kr)"
proof -
  have "\<forall>kr \<in> set (merge_ci_baseline (load_ci_baseline True file) local). windows_ok (snd kr)"
    using loaded_canonical by (intro merge_ci_all) (auto simp: merged_windows_ok)
  then show ?thesis by (auto simp: committed_def map_values_def aged_settled aged_windows_ok)
qed

lemma load_stored:
  assumes "\<forall>kr \<in> set b. settled (snd kr) \<and> windows_ok (snd kr)"
  shows "load_ci_baseline True (StoredBaseline b) = b"
  using assms
  by (auto simp: load_ci_baseline_def map_values_def windows_ok_fixed settled_fixed intro!: map_idI)

lemma committed_get:
  assumes "hm_ok local" and "hm_get local key = Some r"
  shows "hm_get (committed now file local) key =
    Some (age_repo now (merge_repo_baseline (unwrap_or (hm_get (load_ci_baseline True file) key) repo_ci_default) r))"
  using assms by (simp add: committed_def hm_get_map_values merge_ci_get)

text \<open>Ageing keeps the account of a delivery: what it forgets is acknowledgements only.\<close>

lemma aged_accounts:
  assumes "settled r" and "accounted r p"
  shows "carries (rb_pending (age_repo now r)) p \<or> (\<exists>q. same_event q p \<and> closed_by r q)"
  using assms by (simp add: accounted_def aged_pending)

section \<open>Publishing\<close>

text \<open>
  Read from the front, with the baseline written immediately before: a published event belongs to a
  delivery that this baseline holds as queued and not as acknowledged or buried.
\<close>

definition queued_in :: "ci_baseline \<Rightarrow> pending_ci \<Rightarrow> bool" where
  "queued_in b d \<longleftrightarrow> (\<exists>r \<in> set (values_of b). d \<in> set (rb_pending r) \<and> \<not> closed_by r d)"

fun backed :: "(pending_ci \<Rightarrow> bool) \<Rightarrow> ci_baseline option \<Rightarrow> ci_effect list \<Rightarrow> bool" where
  "backed P before [] = True"
| "backed P before (FileReplaced b # t) = backed P (Some b) t"
| "backed P before (Published e # t) =
     ((case before of None \<Rightarrow> False | Some b \<Rightarrow> \<exists>d. queued_in b d \<and> P d \<and> into_event d = e) \<and> backed P None t)"

lemma backed_weaken: "backed P None t \<Longrightarrow> backed P before t"
proof (cases t)
  case (Cons e t')
  then show "backed P None t \<Longrightarrow> backed P before t" by (cases e) auto
qed simp

lemma backed_append: "backed P before s \<Longrightarrow> backed P None t \<Longrightarrow> backed P before (s @ t)"
proof (induction P before s rule: backed.induct)
  case (1 P before)
  then show ?case by (simp add: backed_weaken)
qed auto

lemma backed_mono: "backed P before t \<Longrightarrow> (\<And>d. P d \<Longrightarrow> Q d) \<Longrightarrow> backed Q before t"
  by (induction P before t rule: backed.induct) (auto split: option.splits)

fun is_published :: "ci_effect \<Rightarrow> bool" where
  "is_published (Published _) = True"
| "is_published (FileReplaced _) = False"

definition published :: "ci_effect list \<Rightarrow> nat" where
  "published t = length (filter is_published t)"

lemma published_simps [simp]:
  "published [] = 0" "published (Published e # t) = Suc (published t)" "published (FileReplaced b # t) = published t"
  "published (s @ t) = published s + published t"
  by (simp_all add: published_def)

text \<open>A world extends another by a trace.\<close>

definition extends :: "ci_world \<Rightarrow> ci_effect list \<Rightarrow> ci_world \<Rightarrow> bool" where
  "extends w t w' \<longleftrightarrow> cw_trace w' = cw_trace w @ t"

lemma extends_refl [simp]: "extends w [] w"
  by (simp add: extends_def)

lemma extends_trans: "extends w s w' \<Longrightarrow> extends w' t w'' \<Longrightarrow> extends w (s @ t) w''"
  by (simp add: extends_def)

lemma commit_extends:
  "extends w [] (fst (commit_ci_baseline True local w)) \<or>
   (\<exists>b. extends w [FileReplaced b] (fst (commit_ci_baseline True local w)))"
proof (cases rule: commit_cases[of "local" w])
  case no_lock
  then show ?thesis by (simp add: extends_def)
next
  case (failed w1 w2 now e)
  then show ?thesis using lock_trace[of w] unix_now_fields(1)[of w1] by (simp add: extends_def)
next
  case (unsynced w1 w2 now e)
  then show ?thesis using lock_trace[of w] unix_now_fields(1)[of w1] by (simp add: extends_def)
next
  case (written w1 w2 now)
  then show ?thesis using lock_trace[of w] unix_now_fields(1)[of w1] by (simp add: extends_def)
qed

lemma over_repos_trace:
  assumes "\<And>k r w. cw_trace (fst (f k r w)) = cw_trace w"
  shows "cw_trace (fst (over_repos f b w)) = cw_trace w"
proof (induction b arbitrary: w)
  case (Cons kr b)
  then show ?case by (cases kr) (simp add: case_prod_beta assms)
qed simp

lemma ack_into_trace [simp]: "cw_trace (fst (ack_into d r w)) = cw_trace w"
  by (simp add: ack_into_def unix_now_def)

lemma ack_deliveries_trace: "cw_trace (fst (ack_deliveries found ds r w)) = cw_trace w"
  by (induction ds arbitrary: r w) (simp_all add: case_prod_beta)

lemma ack_repo_trace: "cw_trace (fst (ack_repo found ds r w)) = cw_trace w"
  by (simp add: ack_repo_def case_prod_beta ack_deliveries_trace)

lemma retire_all_trace: "cw_trace (fst (retire_all ps r w)) = cw_trace w"
  by (induction ps arbitrary: r w) (simp_all add: case_prod_beta)

lemma retire_unsent_trace: "cw_trace (fst (retire_unsent u r w)) = cw_trace w"
  by (simp add: retire_unsent_def Let_def case_prod_beta retire_all_trace)

lemma write_extends:
  "extends w [] (fst (write_ci_baseline b w)) \<or> extends w [FileReplaced b] (fst (write_ci_baseline b w))"
  by (rule write_cases[of b w]) (auto simp: extends_def)

lemma ack_extends:
  "extends w [] (fst (ack_pending_deliveries True ds b w)) \<or>
   (\<exists>c. extends w [FileReplaced c] (fst (ack_pending_deliveries True ds b w)))"
proof (cases "lock_baseline w")
  case (Pair w1 r)
  have w1: "cw_trace w1 = cw_trace w" using lock_trace[of w] Pair by simp
  show ?thesis
  proof (cases r)
    case (Inl e)
    then show ?thesis using Pair w1 by (simp add: ack_pending_deliveries_def extends_def)
  next
    case (Inr u)
    define run where "run = over_repos (\<lambda>key. ack_repo (delivered_here b key) ds)
      (merge_ci_baseline (load_ci_baseline True (cw_file w1)) b) w1"
    have run: "cw_trace (fst run) = cw_trace w"
      unfolding run_def by (simp add: over_repos_trace ack_repo_trace w1)
    have "fst (ack_pending_deliveries True ds b w) = fst (write_ci_baseline (snd run) (fst run))"
      unfolding ack_pending_deliveries_def run_def[symmetric] Pair Inr
      by (auto simp: case_prod_beta run_def split: sum.split)
    then show ?thesis using write_extends[of "fst run" "snd run"] run by (auto simp: extends_def)
  qed
qed

section \<open>One delivery of a sending loop\<close>

lemma outbox_entry_Some:
  assumes "outbox_entry b d = Some e"
  shows "\<exists>r \<in> set (values_of b). e \<in> set (rb_pending r)" and "same_entry d e"
proof -
  obtain r where r: "r \<in> set (values_of b)" "List.find (same_entry d) (rb_pending r) = Some e"
    using find_map_Some[OF assms[unfolded outbox_entry_def]] by blast
  then obtain i where "i < length (rb_pending r)" "e = rb_pending r ! i" "same_entry d e"
    by (auto simp: find_Some_iff)
  then show "\<exists>r \<in> set (values_of b). e \<in> set (rb_pending r)" "same_entry d e"
    using r(1) nth_mem by blast+
qed

lemma committed_entry_queued:
  assumes "b = committed now file local" and "outbox_entry b d = Some e"
  shows "queued_in b e"
proof -
  obtain r where r: "r \<in> set (values_of b)" "e \<in> set (rb_pending r)"
    using outbox_entry_Some(1)[OF assms(2)] by blast
  then have "settled r"
    using committed_canonical[of now "file" "local"] assms(1) by (auto simp: values_of_def)
  then show ?thesis using r by (auto simp: queued_in_def settled_def)
qed

lemma send_one_trace:
  assumes "send_one True now queued b w = (w', b', go_on)"
  shows "\<exists>t. extends w t w' \<and> backed (same_entry queued) None t \<and> published t \<le> 1"
proof (cases "persist_pending_send_attempts True [queued] now b w")
  case (Pair w1 r)
  let ?local = "bump_pending_send_attempts now [queued] b"
  have persist: "commit_ci_baseline True ?local w = (w1, r)"
    using Pair by (simp add: persist_pending_send_attempts_def)
  show ?thesis
  proof (cases r)
    case (Inl e)
    then have w': "w' = w1" using assms Pair by (simp add: send_one_def)
    show ?thesis using commit_extends[of w ?local] persist w' by fastforce
  next
    case (Inr b1)
    obtain w0 :: ci_world and now1 where b1: "b1 = committed now1 (cw_file w0) ?local" "extends w [FileReplaced b1] w1"
      unfolding extends_def by (rule commit_Ok[OF persist[unfolded Inr]]) blast
    show ?thesis
    proof (cases "outbox_entry b1 queued")
      case None
      then have "w' = w1" using assms Pair Inr by (simp add: send_one_def)
      then show ?thesis using b1(2) by (intro exI[of _ "[FileReplaced b1]"]) simp
    next
      case (Some entry)
      have queued: "queued_in b1 entry" "same_entry queued entry"
        using committed_entry_queued[OF b1(1) Some] outbox_entry_Some(2)[OF Some] by auto
      show ?thesis
      proof (cases "cw_accepts w1 (cw_step w1)")
        case True
        let ?e = "into_event entry"
        have send: "send_event ?e w1 = ((step_on w1)\<lparr>cw_trace := cw_trace w1 @ [Published ?e]\<rparr>, True)"
          using True by (simp add: send_event_def)
        let ?w2 = "(step_on w1)\<lparr>cw_trace := cw_trace w1 @ [Published ?e]\<rparr>"
        have w': "w' = fst (ack_pending_deliveries True [entry] b1 ?w2)"
          using assms Pair Inr Some send by (auto simp: send_one_def split: prod.splits sum.splits)
        have "extends w [FileReplaced b1, Published ?e] ?w2"
          using b1(2) by (simp add: extends_def)
        then obtain t where t: "extends w ([FileReplaced b1, Published ?e] @ t) w'" "t = [] \<or> (\<exists>c. t = [FileReplaced c])"
          using ack_extends[of ?w2 "[entry]" b1] extends_trans w' by metis
        have "backed (same_entry queued) None ([FileReplaced b1, Published ?e] @ t)"
          using t(2) queued by auto
        then show ?thesis using t by (intro exI[of _ "[FileReplaced b1, Published ?e] @ t"]) auto
      next
        case False
        then have send: "send_event (into_event entry) w1 = (step_on w1, False)"
          by (simp add: send_event_def)
        obtain w3 b3 where dead: "dead_letter_unsent_final_attempts [entry] b1 (step_on w1) = (w3, b3)"
          by fastforce
        have "cw_trace w3 = cw_trace w1"
          using over_repos_trace[of "\<lambda>_. retire_unsent [entry]" b1 "step_on w1"] retire_unsent_trace dead
          by (simp add: dead_letter_unsent_final_attempts_def)
        then have "extends w [FileReplaced b1] w3" using b1(2) by (simp add: extends_def)
        moreover have w': "w' = fst (commit_ci_baseline True b3 w3)"
          using assms Pair Inr Some send dead by (auto simp: send_one_def)
        ultimately have "extends w [FileReplaced b1] w' \<or> (\<exists>c. extends w [FileReplaced b1, FileReplaced c] w')"
          using commit_extends[of w3 b3] extends_trans[of w "[FileReplaced b1]" w3] by fastforce
        then show ?thesis
          by (elim disjE exE, intro exI[of _ "[FileReplaced b1]"]) (simp, rule exI, auto)
      qed
    qed
  qed
qed

lemma drain_loop_trace:
  assumes "drain_loop True now ds b w = (w', b')"
  shows "\<exists>t. extends w t w' \<and> backed (\<lambda>d. \<exists>q \<in> set ds. same_entry q d) None t \<and> published t \<le> length ds"
  using assms
proof (induction ds arbitrary: b w)
  case Nil
  then show ?case by (intro exI[of _ "[]"]) simp
next
  case (Cons d ds)
  obtain w1 b1 g where one: "send_one True now d b w = (w1, b1, g)" by (metis prod_cases3)
  obtain s where s: "extends w s w1" "backed (same_entry d) None s" "published s \<le> 1"
    using send_one_trace[OF one] by blast
  have s2: "backed (\<lambda>x. \<exists>q \<in> set (d # ds). same_entry q x) None s"
    using s(2) by (rule backed_mono) simp
  show ?case
  proof (cases g)
    case True
    then have "drain_loop True now ds b1 w1 = (w', b')" using Cons.prems one by simp
    then obtain t where t: "extends w1 t w'" "backed (\<lambda>x. \<exists>q \<in> set ds. same_entry q x) None t" "published t \<le> length ds"
      using Cons.IH by blast
    have "backed (\<lambda>x. \<exists>q \<in> set (d # ds). same_entry q x) None (s @ t)"
      using s2 by (rule backed_append) (rule backed_mono[OF t(2)], simp)
    then show ?thesis
      using extends_trans[OF s(1) t(1)] s(3) t(3) by (intro exI[of _ "s @ t"]) simp
  next
    case False
    then have "w' = w1" using Cons.prems one by simp
    then show ?thesis using s s2 by (intro exI[of _ s]) simp
  qed
qed

section \<open>Acknowledging\<close>

lemma over_repos_get:
  assumes "hm_get b k = Some r"
  shows "\<exists>wk. hm_get (snd (over_repos f b w)) k = Some (snd (f k r wk))"
  using assms
proof (induction b arbitrary: w)
  case (Cons kr b)
  then show ?case by (cases kr) (auto simp: case_prod_beta split: if_splits)
qed simp

lemma ack_into_acks [simp]: "pending_is_acked (snd (ack_into d r w)) d"
  by (simp add: ack_into_def case_prod_beta)

lemma ack_into_fields [simp]: "rb_pending (snd (ack_into d r w)) = rb_pending r"
  by (simp add: ack_into_def record_acked_def case_prod_beta)

lemma drop_acked_fields [simp]: "rb_acked (drop_acked r) = rb_acked r"
  by (simp add: drop_acked_def)

lemma drop_acked_open: "p \<in> set (rb_pending (drop_acked r)) \<Longrightarrow> \<not> pending_is_acked (drop_acked r) p"
  by (simp add: drop_acked_def pending_is_acked_def)

lemma ack_repo_single:
  assumes "found d r"
  shows "pending_is_acked (snd (ack_repo found [d] r w)) d"
    and "p \<in> set (rb_pending (snd (ack_repo found [d] r w))) \<Longrightarrow> \<not> pending_is_acked (snd (ack_repo found [d] r w)) p"
  using assms ack_into_acks[of d r w] drop_acked_open[of p "snd (ack_into d r w)"]
  by (simp_all add: ack_repo_def case_prod_beta pending_is_acked_def)

lemma ack_pending_Ok:
  assumes "ack_pending_deliveries True ds b w = (w', Ok b')"
  obtains w1 :: ci_world where "lock_baseline w = (w1, Ok ())"
    "b' = snd (over_repos (\<lambda>key. ack_repo (delivered_here b key) ds)
            (merge_ci_baseline (load_ci_baseline True (cw_file w1)) b) w1)"
    "cw_file w' = StoredBaseline b'"
proof (cases "lock_baseline w")
  case (Pair w1 r)
  then obtain u where r: "r = Inr u"
    using assms by (cases r) (auto simp: ack_pending_deliveries_def)
  obtain w2 c where run: "over_repos (\<lambda>key. ack_repo (delivered_here b key) ds)
      (merge_ci_baseline (load_ci_baseline True (cw_file w1)) b) w1 = (w2, c)" by fastforce
  have "ack_pending_deliveries True ds b w =
      (case write_ci_baseline c w2 of (w, Inl e) \<Rightarrow> (w, Err e) | (w, Inr _) \<Rightarrow> (w, Ok c))"
    unfolding ack_pending_deliveries_def Pair r by (simp add: run)
  then show ?thesis
    using assms that[of w1] Pair r run by (auto intro: write_cases[of c w2])
qed

end
