(* ===== verification/GithubProperties.thy ===== *)
theory GithubProperties imports GithubOutboxCorrect begin

text \<open>
  The properties of the GitHub CI outbox, each applied to a concrete repository, and what modelling it
  showed: a process whose own commit compacts acknowledgements is fenced out of its next one, a merged
  receipt stops covering the run it was made for, and a result without any identifier is never
  suppressed.
\<close>

section \<open>Samples\<close>

definition sample_ci :: ci_snapshot where
  "sample_ci =
     \<lparr>cs_pr_number = Some 7, cs_workflow = ''build'', cs_status = ''completed'', cs_conclusion = Some ''failure'',
      cs_sha = ''abc'', cs_url = ''https://ci/5'', cs_branch = Some ''main'', cs_run_id = Some ''5'', cs_run_attempt = 2,
      cs_check_run_id = Some ''9'', cs_created_at = Some ''2026-01-01'', cs_run_job_count = 3, cs_run_all_terminal = True\<rparr>"

definition sample_monitor :: repo_monitor where
  "sample_monitor =
     \<lparr>gm_path = ''/r'', gm_github_repo = Some ''Own/Repo'', gm_emit_pr_status = True, gm_channel = Some ''ci'',
      gm_mention = None, gm_format = Some Compact\<rparr>"

text \<open>Every effect succeeds and no other process touches the file.\<close>

definition quiet_world :: "nat \<Rightarrow> ci_world" where
  "quiet_world now =
     \<lparr>cw_step = 0, cw_unix = (\<lambda>_. now), cw_nanos = (\<lambda>_. Some 1), cw_counter = 0, cw_uuid = (\<lambda>n. ''id'' @ show_nat n),
      cw_lock = (\<lambda>_. None), cw_others = (\<lambda>_ f. f), cw_write = (\<lambda>_. Written), cw_accepts = (\<lambda>_. True),
      cw_file = NoFile, cw_trace = []\<rparr>"

definition sample_event :: incoming_event where
  "sample_event = ci_event sample_monitor ''repo'' sample_ci"

definition sample_delivery :: pending_ci where
  "sample_delivery = (pending_from_ci_event sample_event (snapshot_identities sample_ci))\<lparr>pc_delivery_id := ''d1''\<rparr>"

definition sample_key :: string where
  "sample_key = ''repo:own/repo''"

definition sample_queue :: ci_baseline where
  "sample_queue = [(sample_key, repo_ci_default\<lparr>rb_pending := [sample_delivery]\<rparr>)]"

section \<open>Recorded runs\<close>

lemma accepted_window_keeps:
  assumes "unwrap_or (hm_get (rb_generations repo) scope) 0 \<le> gen" and "ci \<in> set incoming"
    and "2 * length incoming \<le> MAX_CURRENT_WINDOW_IDS_PER_SCOPE"
  shows "set (unique_identities ci) \<subseteq> set (rb_window_ids (canonicalize_loaded_window (accept_window scope gen incoming repo)))"
proof -
  let ?r = "accept_window scope gen incoming repo"
  have "length (unique_identities c) \<le> 2" for c
    by (auto simp: unique_identities_def split: option.split)
  then have "length (concat (map unique_identities incoming)) \<le> 2 * length incoming"
    by (induction incoming) (simp_all add: add_le_mono[of _ 2, simplified])
  moreover have "length (canonical_window_identities ids) \<le> length ids" for ids
    by (metis card_length distinct_card distinct_canonical set_canonical)
  ultimately have short: "length (canonical_window_identities (concat (map unique_identities incoming)))
      \<le> MAX_CURRENT_WINDOW_IDS_PER_SCOPE"
    using assms(3) by (meson le_trans)
  then have ids: "window_ids_of_snapshots incoming = canonical_window_identities (concat (map unique_identities incoming))"
    by (simp add: window_ids_of_snapshots_def cap_window_ids_def)
  have get: "hm_get (rb_windows ?r) scope = Some (window_ids_of_snapshots incoming)"
    using assms(1) by (simp add: accept_window_def hm_get_put)
  then have "rb_windows ?r \<noteq> []" by auto
  then have windows: "set (rb_windows (canonicalize_loaded_window ?r)) = set (map_values canonical_window_ids (rb_windows ?r))"
    by (simp add: canonicalize_loaded_window_def adopt_legacy_window_def Let_def)
  have canon: "canonical_window_ids (window_ids_of_snapshots incoming) = window_ids_of_snapshots incoming"
    using short unfolding ids by (simp add: canonical_window_ids_def canonical_window_distinct cap_window_ids_def)
  have "(scope, window_ids_of_snapshots incoming) \<in> set (rb_windows (canonicalize_loaded_window ?r))"
    using hm_get_in[OF get] canon unfolding windows set_map_values by metis
  then have "set (window_ids_of_snapshots incoming) \<subseteq> set (rb_window_ids (canonicalize_loaded_window ?r))"
    using canonicalized_ok[of ?r] by (force simp: windows_ok_def values_of_def)
  then show ?thesis using assms(2) by (auto simp: ids)
qed

lemma record_into_repo_receipt:
  assumes "record_into_repo scope (gen, complete) incoming repo w = (w', repo', dirty)"
    and "gen \<noteq> 0" and "complete \<Longrightarrow> unwrap_or (hm_get (rb_generations repo) scope) 0 \<le> gen"
    and "ci \<in> set incoming" and "unique_identities ci \<noteq> []"
    and "2 * length incoming \<le> MAX_CURRENT_WINDOW_IDS_PER_SCOPE"
  shows "has_receipt (rb_terminal_runs repo') ci"
proof -
  let ?runs = "fst (fold record_snapshot incoming (rb_terminal_runs repo, False))"
  let ?r = "repo\<lparr>rb_terminal_runs := ?runs\<rparr>"
  let ?c = "canonicalize_loaded_window (if complete then accept_window scope gen incoming ?r else ?r)"
  let ?keep = "if complete then rb_window_ids ?c else rb_window_ids ?c @ concat (map unique_identities incoming)"
  have repo': "repo' = fst (cap_repo_baseline_keeping_ids ?keep ?c)"
    using assms(1,2) by (auto simp: record_into_repo_def Let_def case_prod_beta split: if_splits)
  have "has_receipt ?runs ci"
    using assms(4,5) by (rule fold_record_receipts)
  then have runs: "has_receipt (rb_terminal_runs ?c) ci" by (simp add: accept_window_def)
  have "set (unique_identities ci) \<subseteq> set ?keep"
  proof (cases complete)
    case True
    then show ?thesis using accepted_window_keeps[of ?r scope gen ci incoming] assms(3,4,6) by simp
  qed (use assms(4) in auto)
  then show ?thesis unfolding repo' by (rule cap_keeps_receipt[OF runs])
qed

lemma receipt_silences:
  assumes "has_receipt (rb_terminal_runs r) ci" and "is_terminal ci"
  shows "\<not> ci_changed established [] (Some r) ci"
  using assms
  by (auto simp: ci_changed_def previous_snapshot_def is_suppressed_def has_receipt_def is_terminal_def values_of_def Let_def)


definition sample_recorded :: "ci_world \<times> ci_baseline \<times> bool" where
  "sample_recorded =
     record_terminal_runs_filtered sample_key ''/r'' ''/r'' [(dedupe_key sample_ci, sample_ci)] (3, True) (\<lambda>_. True)
       [] (quiet_world 10)"


section \<open>Commits\<close>

definition sample_commit :: "ci_world \<times> (string + ci_baseline)" where
  "sample_commit = commit_ci_baseline True sample_queue (quiet_world 10)"

definition sample_committed :: ci_baseline where
  "sample_committed = [(sample_key, repo_ci_default\<lparr>rb_pending := [sample_delivery], rb_epoch := 1\<rparr>)]"

lemma sample_commit_Ok: "sample_commit = (fst sample_commit, Ok sample_committed)"
proof -
  have "snd sample_commit = Ok sample_committed" by code_simp
  then show ?thesis by (metis prod.collapse)
qed

text \<open>
  C32. A restart loses nothing of a commit: the state a process reads back from the file after a successful
  commit is exactly the state the commit returned, whatever the file held before and whatever other
  processes did to it meanwhile. Loading re-canonicalises windows and drops closed outbox entries, and
  both leave a committed state alone.
\<close>

theorem restart_keeps_baseline:
  assumes "commit_ci_baseline True state w = (w', Ok b)"
  shows "load_ci_baseline True (cw_file w') = b"
proof -
  obtain w1 :: ci_world and now where "b = committed now (cw_file w1) state" "cw_file w' = StoredBaseline b"
    by (rule commit_Ok[OF assms]) blast
  then show ?thesis using committed_canonical load_stored by metis
qed

theorem restart_keeps_baseline_witness:
  "load_ci_baseline True (cw_file (fst sample_commit)) = sample_committed"
  by (rule restart_keeps_baseline[OF sample_commit_Ok[unfolded sample_commit_def], folded sample_commit_def])

text \<open>
  C40. What a commit leaves in the outbox is still to be sent: in every repository of a committed state no
  queued delivery is covered by an acknowledgement or reported by a dead letter of the same repository,
  and at most 64 dead letters are kept.
\<close>

theorem committed_outbox_is_open:
  assumes "commit_ci_baseline True state w = (w', Ok b)" and "(key, r) \<in> set b"
  shows "length (rb_dead_letter r) \<le> 64 \<and>
    (\<forall>p \<in> set (rb_pending r). \<not> (\<exists>a \<in> set (rb_acked r). matches_pending a p) \<and>
       \<not> (\<exists>d \<in> set (rb_dead_letter r). same_event d p \<and> pc_repo_name d = pc_repo_name p))"
proof -
  obtain w1 :: ci_world and now where "b = committed now (cw_file w1) state"
    by (rule commit_Ok[OF assms(1)]) blast
  then have "settled r" using committed_canonical assms(2) by fastforce
  then show ?thesis
    by (auto simp: settled_def closed_by_def pending_is_acked_def dead_matches_def list_ex_iff MAX_DEAD_LETTER_def)
qed

theorem committed_outbox_is_open_witness:
  "length (rb_dead_letter (snd (hd sample_committed))) \<le> 64 \<and>
    rb_pending (snd (hd sample_committed)) = [sample_delivery] \<and>
    \<not> (\<exists>a \<in> set (rb_acked (snd (hd sample_committed))). matches_pending a sample_delivery) \<and>
    \<not> (\<exists>d \<in> set (rb_dead_letter (snd (hd sample_committed))).
        same_event d sample_delivery \<and> pc_repo_name d = pc_repo_name sample_delivery)"
proof -
  have "(sample_key, snd (hd sample_committed)) \<in> set sample_committed" by (simp add: sample_committed_def)
  note open_outbox = committed_outbox_is_open[OF sample_commit_Ok[unfolded sample_commit_def] this]
  moreover have "rb_pending (snd (hd sample_committed)) = [sample_delivery]" by (simp add: sample_committed_def)
  ultimately show ?thesis by simp
qed



text \<open>
  C39. A fenced writer is harmless to the outbox and to the windows: merging the view of a writer whose
  epoch is not above the floor of the file brings no delivery back into the outbox and changes the window
  of no scope the file knows.
\<close>

theorem fenced_writer_is_harmless:
  assumes "0 < rb_min_writer_epoch disk" and "rb_epoch stale \<le> rb_min_writer_epoch disk" and "hm_ok (rb_windows disk)"
    and "windows_ok disk"
  shows "set (rb_pending (merge_repo_baseline disk stale)) \<subseteq> set (rb_pending disk) \<and>
    (\<forall>scope ids. hm_get (rb_windows disk) scope = Some ids \<longrightarrow>
       hm_get (rb_windows (merge_repo_baseline disk stale)) scope = Some ids)"
proof -
  have "source_stale disk stale" using assms(1,2) by (simp add: source_stale_def)
  then show ?thesis
    using fenced_pending fenced_window[OF _ assms(3)] windows_ok_fixed[OF assms(4)] by simp
qed

definition sample_floor :: repo_ci where
  "sample_floor = repo_ci_default\<lparr>rb_epoch := 4, rb_min_writer_epoch := 4, rb_windows := [(''/r'', [''run:5''])],
     rb_window_ids := [''run:5''], rb_generations := [(''/r'', 2)]\<rparr>"

definition sample_stale :: repo_ci where
  "sample_stale = repo_ci_default\<lparr>rb_epoch := 3, rb_pending := [sample_delivery], rb_windows := [(''/r'', [''run:1''])],
     rb_generations := [(''/r'', 9)]\<rparr>"

theorem fenced_writer_is_harmless_witness:
  "rb_pending (merge_repo_baseline sample_floor sample_stale) = [] \<and>
    hm_get (rb_windows (merge_repo_baseline sample_floor sample_stale)) ''/r'' = Some [''run:5'']"
proof -
  have "windows_ok sample_floor"
    by (simp add: windows_ok_def sample_floor_def canonical_window_ids_def canonical_window_identities_def cap_window_ids_def
      MAX_CURRENT_WINDOW_IDS_PER_SCOPE_def values_of_def hm_has_def)
  then have "set (rb_pending (merge_repo_baseline sample_floor sample_stale)) \<subseteq> set (rb_pending sample_floor) \<and>
    (\<forall>scope ids. hm_get (rb_windows sample_floor) scope = Some ids \<longrightarrow>
       hm_get (rb_windows (merge_repo_baseline sample_floor sample_stale)) scope = Some ids)"
    by (intro fenced_writer_is_harmless) (simp_all add: sample_floor_def sample_stale_def hm_ok_def)
  moreover have "rb_pending sample_floor = []" "hm_get (rb_windows sample_floor) ''/r'' = Some [''run:5'']"
    by (simp_all add: sample_floor_def repo_ci_default_def)
  ultimately show ?thesis by simp
qed

section \<open>Sending\<close>

text \<open>
  C30. Nothing is published that a restart would not know of: while the outbox is drained, each event handed
  to the channel is preceded, with no write in between, by a replacement of the file whose new contents
  hold that very delivery as queued, neither acknowledged nor buried. It is an entry found under one of
  the deliveries that were due when the drain began, and no more events are published than were due.
  Lock, clock, write errors, other processes and the channel are arbitrary.
\<close>

theorem published_from_the_file:
  assumes "drain_pending_outbox True b w = (w', b')"
  shows "\<exists>t. cw_trace w' = cw_trace w @ t \<and>
    backed (\<lambda>d. \<exists>q \<in> set (due_deliveries (cw_unix w (cw_step w)) b). same_entry q d) None t \<and>
    published t \<le> length (due_deliveries (cw_unix w (cw_step w)) b)"
proof -
  have "drain_loop True (cw_unix w (cw_step w)) (due_deliveries (cw_unix w (cw_step w)) b) b (step_on w) = (w', b')"
    using assms by (simp add: drain_pending_outbox_def unix_now_def)
  then show ?thesis using drain_loop_trace unfolding extends_def by fastforce
qed

definition sample_drain :: "ci_world \<times> ci_baseline" where
  "sample_drain = drain_pending_outbox True sample_queue (quiet_world 10)"

theorem published_from_the_file_witness:
  "\<exists>t. cw_trace (fst sample_drain) = [] @ t \<and>
    backed (\<lambda>d. \<exists>q \<in> set (due_deliveries 10 sample_queue). same_entry q d) None t \<and>
    published t \<le> length (due_deliveries 10 sample_queue)"
  using published_from_the_file[of sample_queue "quiet_world 10" "fst sample_drain" "snd sample_drain"]
  by (simp add: sample_drain_def quiet_world_def)

lemma sample_drain_publishes: "published (cw_trace (fst sample_drain)) = 1"
  by code_simp

section \<open>Acknowledgements\<close>

text \<open>
  C37. An acknowledged delivery is settled for good measure: after a successful acknowledgement, in every
  repository of the memory that had the delivery queued, the file and the memory agree, the delivery is
  covered by an acknowledgement, no queued delivery is covered by one, and enqueueing the same delivery
  again changes nothing.
\<close>

theorem acknowledged_delivery_is_settled:
  assumes "ack_pending_deliveries True [d] b w = (w', Ok b')" and "hm_ok b"
    and "hm_get b key = Some r" and "has_delivery d r"
  shows "\<exists>r'. cw_file w' = StoredBaseline b' \<and> hm_get b' key = Some r' \<and> pending_is_acked r' d \<and>
    (\<forall>p \<in> set (rb_pending r'). \<not> pending_is_acked r' p) \<and> (\<forall>w. enqueue_deliveries [d] r' w = (w, r'))"
proof -
  obtain w1 :: ci_world where w1: "b' = snd (over_repos (\<lambda>key. ack_repo (delivered_here b key) [d])
            (merge_ci_baseline (load_ci_baseline True (cw_file w1)) b) w1)" "cw_file w' = StoredBaseline b'"
    by (rule ack_pending_Ok[OF assms(1)]) blast
  let ?m = "merge_repo_baseline (unwrap_or (hm_get (load_ci_baseline True (cw_file w1)) key) repo_ci_default) r"
  have "hm_get (merge_ci_baseline (load_ci_baseline True (cw_file w1)) b) key = Some ?m"
    using assms(2,3) by (simp add: merge_ci_get)
  then obtain wk where get: "hm_get b' key = Some (snd (ack_repo (delivered_here b key) [d] ?m wk))"
    using over_repos_get w1(1) by blast
  have "delivered_here b key d ?m" using assms(3,4) by (simp add: delivered_here_def)
  then show ?thesis
    using ack_repo_single[of "delivered_here b key" d ?m] get w1(2) by auto
qed

definition sample_ack :: "ci_world \<times> (string + ci_baseline)" where
  "sample_ack = ack_pending_deliveries True [sample_delivery] sample_queue (quiet_world 10)"

definition sample_acked :: ci_baseline where
  "sample_acked = [(sample_key, repo_ci_default\<lparr>rb_acked := [ack_from_pending sample_delivery 10]\<rparr>)]"

lemma sample_ack_Ok: "sample_ack = (fst sample_ack, Ok sample_acked)"
proof -
  have "snd sample_ack = Ok sample_acked" by code_simp
  then show ?thesis by (metis prod.collapse)
qed

theorem acknowledged_delivery_is_settled_witness:
  "\<exists>r'. cw_file (fst sample_ack) = StoredBaseline sample_acked \<and> hm_get sample_acked sample_key = Some r' \<and>
    pending_is_acked r' sample_delivery \<and> (\<forall>p \<in> set (rb_pending r'). \<not> pending_is_acked r' p) \<and>
    (\<forall>w. enqueue_deliveries [sample_delivery] r' w = (w, r'))"
proof (rule acknowledged_delivery_is_settled[OF sample_ack_Ok[unfolded sample_ack_def], folded sample_ack_def])
  show "has_delivery sample_delivery (snd (hd sample_queue))" by code_simp
qed (simp_all add: sample_queue_def hm_ok_def)

section \<open>Events and receipts\<close>

lemma github_ci_payload:
  "ev_payload (github_ci kind repo number workflow status conclusion sha url branch channel) =
     JObj (opt_field ''branch'' JStr branch (opt_field ''conclusion'' JStr conclusion (opt_field ''number'' jnat number
       (bt_extend [(''repo'', JStr repo), (''workflow'', JStr workflow), (''status'', JStr status),
            (''sha'', JStr sha), (''url'', JStr url)] []))))"
  by (simp add: github_ci_def workspace_event_def Let_def)

lemma json_get_ci_fields:
  assumes "is_object p"
  shows "json_get (add_ci_fields run check_run n t p) k =
    (if k = ''run_all_terminal'' then Some (JBool t) else if k = ''run_job_count'' then Some (jnat n)
     else if k = ''check_run_id'' \<and> check_run \<noteq> None then Some (JStr (the check_run))
     else if k = ''run_attempt'' \<and> run \<noteq> None then Some (jnat (snd (the run)))
     else if k = ''run_id'' \<and> run \<noteq> None then Some (JStr (fst (the run)))
     else json_get p k)"
  using assms by (auto simp: add_ci_fields_def Let_def json_get_insert split: option.split)

lemma json_get_github_ci:
  "json_get (ev_payload (github_ci kind repo number workflow status conclusion sha url branch channel)) k =
    (if k = ''branch'' \<and> branch \<noteq> None then map_option JStr branch
     else if k = ''conclusion'' \<and> conclusion \<noteq> None then map_option JStr conclusion
     else if k = ''number'' \<and> number \<noteq> None then map_option jnat number
     else if k = ''url'' then Some (JStr url) else if k = ''sha'' then Some (JStr sha)
     else if k = ''status'' then Some (JStr status) else if k = ''workflow'' then Some (JStr workflow)
     else if k = ''repo'' then Some (JStr repo) else None)"
  by (cases branch; cases conclusion; cases number)
    (simp_all add: github_ci_payload opt_field_def bt_get_insert)

lemma queued_event_fields:
  fixes run check_run n t kind repo number workflow status conclusion sha url branch channel
  defines "p \<equiv> add_ci_fields run check_run n t
     (ev_payload (github_ci kind repo number workflow status conclusion sha url branch channel))"
  shows "get_str p ''repo'' = Some repo" "get_str p ''workflow'' = Some workflow" "get_str p ''status'' = Some status"
    "get_str p ''sha'' = Some sha" "get_str p ''url'' = Some url" "get_u64 p ''number'' = number"
    "get_str p ''conclusion'' = conclusion" "get_str p ''branch'' = branch"
    "get_str p ''run_id'' = map_option fst run" "get_u64 p ''run_attempt'' = map_option snd run"
    "get_str p ''check_run_id'' = check_run" "get_u64 p ''run_job_count'' = Some n"
    "get_bool p ''run_all_terminal'' = Some t"
proof -
  have obj: "is_object (ev_payload (github_ci kind repo number workflow status conclusion sha url branch channel))"
    by (simp add: github_ci_payload)
  note get = get_str_def get_u64_def get_bool_def json_get_ci_fields[OF obj] json_get_github_ci
  show "get_str p ''repo'' = Some repo" "get_str p ''workflow'' = Some workflow" "get_str p ''status'' = Some status"
    "get_str p ''sha'' = Some sha" "get_str p ''url'' = Some url" "get_u64 p ''run_job_count'' = Some n"
    "get_bool p ''run_all_terminal'' = Some t"
    unfolding p_def get by simp_all
  show "get_u64 p ''number'' = number" "get_str p ''conclusion'' = conclusion" "get_str p ''branch'' = branch"
    unfolding p_def get by (cases number; cases conclusion; cases branch; simp)+
  show "get_str p ''run_id'' = map_option fst run" "get_u64 p ''run_attempt'' = map_option snd run"
    "get_str p ''check_run_id'' = check_run"
    unfolding p_def get by (cases run; cases check_run; simp)+
qed

lemma first_check_of_snapshot:
  "(case pending_check_identities (snapshot_identities ci) of [] \<Rightarrow> None | i # _ \<Rightarrow> strip_prefix ''check:'' i) =
     cs_check_run_id ci"
  by (simp add: snapshot_checks checks_unique split: option.split)

lemma identities_hold_check:
  "cs_check_run_id ci = Some c \<Longrightarrow> ''check:'' @ c \<in> set (snapshot_identities ci)"
  by (simp add: snapshot_identities_def unique_identities_def)

text \<open>
  C38. The event sent from the outbox, after a crash or not, is the event that was enqueued: queueing the
  event of a snapshot with the identities of the snapshot and turning the queued delivery back into an
  event gives the same kind, payload, channel, mention, format and template, for every snapshot whose
  attempt is a 32-bit number.
\<close>

theorem event_survives_the_outbox:
  assumes "cs_run_attempt ci < 2 ^ 32"
  shows "into_event (pending_from_ci_event (ci_event repo repo_name ci) (snapshot_identities ci)) =
    ci_event repo repo_name ci"
proof -
  let ?run = "map_option (\<lambda>r. (r, snapshot_attempt ci)) (cs_run_id ci)"
  let ?kind = "classify_ci_event_kind (cs_status ci) (cs_conclusion ci)"
  let ?g = "github_ci ?kind repo_name (cs_pr_number ci)
       (cs_workflow ci) (cs_status ci) (cs_conclusion ci) (cs_sha ci) (cs_url ci) (cs_branch ci) (gm_channel repo)"
  let ?e = "ci_event repo repo_name ci"
  let ?d = "pending_from_ci_event ?e (snapshot_identities ci)"
  have attempt: "snapshot_attempt ci < 2 ^ 32"
    using assms by (simp add: snapshot_attempt_def run_attempt_or_one_def)
  have payload: "ev_payload ?e = add_ci_fields ?run (cs_check_run_id ci) (cs_run_job_count ci)
      (cs_run_all_terminal ci) (ev_payload ?g)"
    by (simp add: ci_event_def with_format_def with_mention_def)
  have event: "ev_kind ?e = ?kind" "ev_channel ?e = gm_channel repo" "ev_mention ?e = gm_mention repo"
    "ev_format ?e = gm_format repo" "ev_template ?e = None"
    by (simp_all add: ci_event_def with_format_def with_mention_def github_ci_def workspace_event_def Let_def)
  note fields = queued_event_fields[of ?run "cs_check_run_id ci" "cs_run_job_count ci" "cs_run_all_terminal ci" ?kind
    repo_name "cs_pr_number ci" "cs_workflow ci" "cs_status ci" "cs_conclusion ci" "cs_sha ci" "cs_url ci"
    "cs_branch ci" "gm_channel repo", folded payload]
  have ids: "pc_identities ?d = snapshot_identities ci"
    using identities_hold_check by (auto simp: pending_from_ci_event_def Let_def fields split: option.split)
  have d: "pc_kind ?d = ?kind" "pc_repo_name ?d = repo_name" "pc_pr_number ?d = cs_pr_number ci"
    "pc_workflow ?d = cs_workflow ci" "pc_status ?d = cs_status ci" "pc_conclusion ?d = cs_conclusion ci"
    "pc_sha ?d = cs_sha ci" "pc_url ?d = cs_url ci" "pc_branch ?d = cs_branch ci" "pc_channel ?d = gm_channel repo"
    "pc_mention ?d = gm_mention repo" "pc_format ?d = gm_format repo" "pc_template ?d = None"
    "pc_run_job_count ?d = cs_run_job_count ci" "pc_run_all_terminal ?d = cs_run_all_terminal ci"
    by (simp_all add: pending_from_ci_event_def Let_def fields event)
  have run: "map_option (\<lambda>r. (r, run_attempt_or_one (pc_run_attempt ?d))) (pc_run_id ?d) = ?run"
    using attempt by (cases "cs_run_id ci")
      (simp_all add: pending_from_ci_event_def Let_def fields snapshot_attempt_def run_attempt_or_one_def)
  have "into_event ?d = (with_template None (with_format (gm_format repo) (with_mention (gm_mention repo) ?g)))
      \<lparr>ev_payload := ev_payload ?e\<rparr>"
    unfolding into_event_def Let_def d ids run first_check_of_snapshot payload
    by (simp add: with_template_def with_format_def with_mention_def)
  also have "\<dots> = ?e"
    by (simp add: payload) (simp add: ci_event_def with_template_def with_format_def with_mention_def
      github_ci_def workspace_event_def Let_def)
  finally show ?thesis .
qed

theorem event_survives_the_outbox_witness:
  "into_event (pending_from_ci_event (ci_event sample_monitor ''repo'' sample_ci) (snapshot_identities sample_ci)) =
    ci_event sample_monitor ''repo'' sample_ci"
  by (rule event_survives_the_outbox) (simp add: sample_ci_def)

text \<open>
  The store of receipts is bounded and drops the oldest first: above 500 receipts, those that carry an
  identity to keep all stay, and of the others, in the order of creation time, run number and identity,
  exactly the first ones go, as many as the store is over its bound. At or below 500 nothing changes.
\<close>

theorem receipts_drop_oldest_first:
  fixes repo keep
  defines "runs \<equiv> sort_key eviction_key (rb_terminal_runs repo)"
    and "kept \<equiv> rb_terminal_runs (fst (cap_repo_baseline_keeping_ids keep repo))"
    and "safe \<equiv> (\<lambda>r. shares (run_unique_identities r) keep)"
  shows "if length (rb_terminal_runs repo) \<le> 500 then kept = rb_terminal_runs repo
    else filter safe kept = filter safe runs \<and>
      filter (\<lambda>r. \<not> safe r) kept = drop (length runs - 500) (filter (\<lambda>r. \<not> safe r) runs)"
proof (cases "length (rb_terminal_runs repo) \<le> 500")
  case False
  then have "kept = evict_runs safe (length runs - 500) runs"
    by (simp add: kept_def runs_def safe_def cap_repo_baseline_keeping_ids_def MAX_BASELINE_RUNS_PER_REPO_def Let_def)
  then show ?thesis using False by (simp add: evict_protected evict_oldest)
qed (simp add: kept_def cap_repo_baseline_keeping_ids_def MAX_BASELINE_RUNS_PER_REPO_def)

section \<open>What the model shows\<close>

text \<open>
  The epoch floor fences the process that raised it. A commit that drops an expired acknowledgement sets
  the floor to the epoch it has just written and returns that state, so the memory's epoch equals the
  floor, and \<open>source.epoch <= dest.min_writer_epoch\<close> holds for the next commit of the same process. A
  delivery enqueued in between is left out of the merge and is never sent, while its run is recorded as
  seen.
\<close>

lemma aged_epochs:
  "rb_epoch (age_repo now r) = u64_add (rb_epoch r) 1"
  "length (rb_acked (age_repo now r)) < length (rb_acked r) \<Longrightarrow>
     u64_add (rb_epoch r) 1 \<le> rb_min_writer_epoch (age_repo now r)"
  by (auto simp: age_repo_def normalize_repo_outbox_def compact_acked_def Let_def)

lemma own_commit_is_fenced_after_compaction:
  fixes r :: repo_ci
  assumes "length (rb_acked (age_repo now r)) < length (rb_acked r)"
  defines "disk \<equiv> age_repo now r"
  shows "set (rb_pending (merge_repo_baseline disk (disk\<lparr>rb_pending := rb_pending disk @ enqueued\<rparr>)))
           \<subseteq> set (rb_pending disk)"
proof -
  have "0 < u64_add (rb_epoch r) 1" by (simp add: u64_add_def u64_max_def)
  then have "source_stale disk (disk\<lparr>rb_pending := rb_pending disk @ enqueued\<rparr>)"
    using aged_epochs[of now r] assms(1) by (simp add: source_stale_def disk_def)
  then show ?thesis by (rule fenced_pending)
qed

definition expired_ack :: acked_ci where
  "expired_ack =
     \<lparr>ak_identities = [''check:1''], ak_kind = ''github.ci-passed'', ak_conclusion = Some ''success'',
      ak_run_id = Some ''1'', ak_run_attempt = 1, ak_workflow = ''build'', ak_sha = ''old'', ak_pr_number = None,
      ak_repo_name = ''repo'', ak_acked = 0\<rparr>"

text \<open>With one acknowledgement a week old, what is enqueued next is gone after the next commit.\<close>

lemma enqueued_after_compaction_is_lost:
  fixes enqueued
  defines "disk \<equiv> age_repo 604800 (repo_ci_default\<lparr>rb_epoch := 4, rb_acked := [expired_ack]\<rparr>)"
  shows "rb_pending (merge_repo_baseline disk (disk\<lparr>rb_pending := rb_pending disk @ enqueued\<rparr>)) = []"
proof -
  let ?r = "repo_ci_default\<lparr>rb_epoch := 4, rb_acked := [expired_ack]\<rparr>"
  have aged: "rb_acked (age_repo 604800 ?r) = []" "rb_pending (age_repo 604800 ?r) = []"
    by (simp_all add: age_repo_def normalize_repo_outbox_def retain_open_pending compact_acked_def Let_def
      expired_ack_def ACK_RETENTION_SECS_def repo_ci_default_def)
  show ?thesis
    using own_commit_is_fenced_after_compaction[of 604800 ?r enqueued] aged
    by (simp add: disk_def)
qed

text \<open>
  A merge puts the receipts of a workflow run and of one of its check runs together, since they share the
  run identity; the merged receipt has a check identity and therefore no longer matches the workflow run,
  which is reported again after a restart.
\<close>

definition run_only :: ci_snapshot where
  "run_only = sample_ci\<lparr>cs_check_run_id := None\<rparr>"

definition both_receipts :: repo_ci where
  "both_receipts = repo_ci_default\<lparr>rb_terminal_runs := [from_snapshot run_only, from_snapshot sample_ci]\<rparr>"

lemma merge_forgets_the_workflow_run:
  "is_suppressed (Some both_receipts) run_only \<and>
   \<not> is_suppressed (Some (merge_repo_baseline repo_ci_default both_receipts)) run_only"
  by code_simp

text \<open>A result with neither a run id nor a check-run id is recorded but never suppressed.\<close>

lemma unidentified_never_suppressed:
  assumes "unique_identities ci = []"
  shows "\<not> is_suppressed baseline ci"
proof -
  have "pending_check_identities (unique_identities ci) = []"
    using assms by (simp add: pending_check_identities_def)
  then have "\<not> matches_snapshot r ci" for r
    using assms by (simp add: matches_snapshot_iff shares_iff)
  then show ?thesis by (simp add: is_suppressed_def list_ex_iff split: option.split)
qed

text \<open>
  An acknowledgement that covered two check runs by their commit and workflow stops covering the second
  one once the aliases of the first are merged into it.
\<close>

definition bare_ack :: acked_ci where
  "bare_ack = (ack_from_pending sample_delivery 0)\<lparr>ak_identities := [], ak_run_id := None\<rparr>"

definition check_delivery :: "string \<Rightarrow> pending_ci" where
  "check_delivery c = sample_delivery\<lparr>pc_identities := [''check:'' @ c], pc_run_id := None\<rparr>"

lemma merged_ack_forgets_a_sibling:
  "matches_pending bare_ack (check_delivery ''1'') \<and> matches_pending bare_ack (check_delivery ''2'') \<and>
   \<not> matches_pending (merge_aliases (check_delivery ''1'') bare_ack) (check_delivery ''2'')"
  by code_simp

end
