(* ===== verification/GithubActivity.thy ===== *)
theory GithubActivity imports GithubCi begin

text \<open>
  The activity feeds of a monitored GitHub repository (\<open>src/source/github.rs\<close>): conversation and inline
  comments of pull requests, comments of issues, reviews, and the changes between two lists of issues or
  pull requests. The state between polls (\<open>PRActivityState\<close>) holds the cursors of the feeds, the
  identifiers already dealt with, the comments that wait for the title and author of their pull request,
  and an unfinished scan of reviews.

  What a poll asks of its surroundings (a page of a feed, a look-up of a pull request or an issue, whether
  the channel takes an event) takes the next number of \<open>aw_step\<close> and is answered by the function of the
  world at that number. URL parsing is the parameter \<open>parse_url\<close>: the path of the URL and whether it can
  be split into segments. Every event sent is logged with what it reports.
\<close>

section \<open>Data\<close>

record issue_snapshot =
  iu_title :: string
  iu_state :: string
  iu_comments :: nat

record pr_snapshot =
  pu_updated_at :: string
  pu_author :: string
  pu_title :: string
  pu_status :: string
  pu_url :: string
  pu_head_branch :: string
  pu_head_sha :: string

record pr_metadata =
  md_title :: string
  md_author :: string

record pending_comment =
  pn_id :: nat
  pn_number :: nat
  pn_author :: string
  pn_url :: string
  pn_path :: "string option"
  pn_created_at :: string
  pn_attempts :: nat

record review_scan =
  sc_lower :: string
  sc_upper :: string
  sc_pending :: "nat list"
  sc_prs :: "(nat, pr_snapshot) hmap"

record activity_state =
  ac_issue_cursor :: "string option"
  ac_issue_lower :: "string option"
  ac_issue_ids :: "nat list"
  ac_pr_cursor :: "string option"
  ac_pr_lower :: "string option"
  ac_review_cursor :: "string option"
  ac_review_lower :: "string option"
  ac_review_comment_ids :: "nat list"
  ac_pr_ids :: "nat list"
  ac_watermark :: "string option"
  ac_scan :: "review_scan option"
  ac_review_ids :: "nat list"
  ac_metadata :: "(nat, pr_metadata option) hmap"
  ac_metadata_order :: "nat list"
  ac_pending :: "pending_comment list"

text \<open>The rows of the feeds.\<close>

record feed_comment =
  fc_user :: "string option"
  fc_id :: nat
  fc_issue_url :: string
  fc_html_url :: string
  fc_created_at :: string
  fc_updated_at :: string

record feed_review_comment =
  fr_id :: nat
  fr_pull_request_url :: string
  fr_html_url :: string
  fr_created_at :: string
  fr_updated_at :: string
  fr_path :: string
  fr_user :: "string option"

record feed_review =
  fv_id :: nat
  fv_html_url :: string
  fv_submitted_at :: "string option"
  fv_state :: string
  fv_user :: "string option"

record github_pull =
  pl_updated_at :: string
  pl_user :: "string option"
  pl_number :: nat
  pl_title :: string
  pl_state :: string
  pl_html_url :: string
  pl_merged_at :: "string option"
  pl_head_ref :: string
  pl_head_sha :: string

record github_issue =
  gi_number :: nat
  gi_title :: string
  gi_state :: string
  gi_comments :: nat
  gi_pull_request :: bool

definition pull_request_snapshot :: "github_pull \<Rightarrow> nat \<times> pr_snapshot" where
  "pull_request_snapshot p =
     (pl_number p,
      \<lparr>pu_updated_at = pl_updated_at p, pu_author = unwrap_or (pl_user p) [], pu_title = pl_title p,
       pu_status = (if pl_merged_at p \<noteq> None then ''merged'' else pl_state p), pu_url = pl_html_url p,
       pu_head_branch = pl_head_ref p, pu_head_sha = pl_head_sha p\<rparr>)"

record activity_monitor = repo_monitor +
  gm_emit_issue_opened :: bool
  gm_emit_pr_activity :: bool

definition MAX_EMITTED_COMMENT_IDS :: nat where "MAX_EMITTED_COMMENT_IDS = 1000"
definition MAX_REVIEW_FETCH_PRS :: nat where "MAX_REVIEW_FETCH_PRS = 20"
definition MAX_CI_PAGES :: nat where "MAX_CI_PAGES = 5"
definition MAX_COMMENT_PAGES :: nat where "MAX_COMMENT_PAGES = 10"
definition MAX_PR_METADATA_LOOKUPS :: nat where "MAX_PR_METADATA_LOOKUPS = 20"
definition MAX_PR_METADATA_CACHE :: nat where "MAX_PR_METADATA_CACHE = 256"
definition MAX_PENDING_PR_COMMENTS :: nat where "MAX_PENDING_PR_COMMENTS = 500"
definition MAX_METADATA_ATTEMPTS :: nat where "MAX_METADATA_ATTEMPTS = 10"

section \<open>The surroundings of a poll\<close>

record 'a feed_page =
  fp_entries :: "'a list"
  fp_next :: "string option"
  fp_date :: "string option"

text \<open>
  The answer to a look-up of a pull request: its title and author, gone (404 or 410), or an error. The flag
  tells whether the back-off of the client is running when the code asks after an error.
\<close>

datatype metadata_answer = MetaFound pr_metadata bool | MetaGone | MetaError bool

datatype activity_item = PrComment pending_comment | IssueComment nat nat | Review nat nat | IssueChange nat | PrStatus nat

record activity_world =
  aw_step :: nat
  aw_metadata :: "nat \<Rightarrow> metadata_answer"
  aw_comments :: "nat \<Rightarrow> string + feed_comment feed_page"
  aw_review_comments :: "nat \<Rightarrow> string + feed_review_comment feed_page"
  aw_reviews :: "nat \<Rightarrow> string + feed_review feed_page"
  aw_issue :: "nat \<Rightarrow> string + github_issue"
  aw_issue_list :: "nat \<Rightarrow> string + github_issue list"
  aw_pulls :: "nat \<Rightarrow> string + github_pull feed_page"
  aw_accepts :: "nat \<Rightarrow> bool"
  aw_sent :: "(activity_item \<times> incoming_event) list"

definition aw_tick :: "activity_world \<Rightarrow> activity_world" where
  "aw_tick w = w\<lparr>aw_step := Suc (aw_step w)\<rparr>"

text \<open>\<open>send_event(..).await?\<close>: a closed channel ends the poll with an error.\<close>

definition send_activity :: "activity_item \<Rightarrow> incoming_event \<Rightarrow> activity_world \<Rightarrow> activity_world \<times> bool" where
  "send_activity item e w =
     (if aw_accepts w (aw_step w) then ((aw_tick w)\<lparr>aw_sent := aw_sent w @ [(item, e)]\<rparr>, True)
      else (aw_tick w, False))"

definition channel_closed :: string where "channel_closed = ''github source channel closed''"

section \<open>Remembered identifiers and cached titles\<close>

definition remember_activity_id :: "nat \<Rightarrow> nat list \<Rightarrow> nat list" where
  "remember_activity_id i ids =
     (if i \<in> set ids then ids
      else let ids = ids @ [i] in if MAX_EMITTED_COMMENT_IDS < length ids then tl ids else ids)"

definition refresh_delivered_comment_id :: "pending_comment \<Rightarrow> activity_state \<Rightarrow> activity_state" where
  "refresh_delivered_comment_id c st =
     (if pn_path c \<noteq> None
      then st\<lparr>ac_review_comment_ids := remember_activity_id (pn_id c) (remove1 (pn_id c) (ac_review_comment_ids st))\<rparr>
      else st\<lparr>ac_pr_ids := remember_activity_id (pn_id c) (remove1 (pn_id c) (ac_pr_ids st))\<rparr>)"

definition cache_pr_metadata :: "nat \<Rightarrow> pr_metadata option \<Rightarrow> activity_state \<Rightarrow> activity_state" where
  "cache_pr_metadata number m st =
     (let st =
        (if hm_has (ac_metadata st) number then st
         else
           let order = ac_metadata_order st @ [number]
           in if MAX_PR_METADATA_CACHE < length order
              then st\<lparr>ac_metadata_order := tl order, ac_metadata := hm_remove (hd order) (ac_metadata st)\<rparr>
              else st\<lparr>ac_metadata_order := order\<rparr>)
      in st\<lparr>ac_metadata := hm_put number m (ac_metadata st)\<rparr>)"

definition metadata_of_pr :: "pr_snapshot \<Rightarrow> pr_metadata" where
  "metadata_of_pr pr = \<lparr>md_title = pu_title pr, md_author = pu_author pr\<rparr>"

text \<open>The outer option tells whether anything is known; the inner one is empty for a pull request that is gone.\<close>

definition known_pr_metadata ::
    "nat \<Rightarrow> (nat, pr_snapshot) hmap \<Rightarrow> activity_state \<Rightarrow> activity_state \<times> pr_metadata option option" where
  "known_pr_metadata number prs st =
     (let listed = opt_or (hm_get prs number) (Option.bind (ac_scan st) (\<lambda>scan. hm_get (sc_prs scan) number))
      in case opt_filter (\<lambda>pr. pu_author pr \<noteq> []) listed of
           Some pr \<Rightarrow> (cache_pr_metadata number (Some (metadata_of_pr pr)) st, Some (Some (metadata_of_pr pr)))
         | None \<Rightarrow> (st, hm_get (ac_metadata st) number))"

datatype metadata_lookup = LookupResolved | LookupFailed | LookupBackoff

definition resolve_pr_metadata ::
    "nat \<Rightarrow> activity_state \<Rightarrow> activity_world \<Rightarrow> activity_world \<times> activity_state \<times> metadata_lookup" where
  "resolve_pr_metadata number st w =
     (let failed = (\<lambda>backing_off. if backing_off then LookupBackoff else LookupFailed)
      in case aw_metadata w (aw_step w) of
           MetaGone \<Rightarrow> (aw_tick w, cache_pr_metadata number None st, LookupResolved)
         | MetaFound m backing_off \<Rightarrow>
             if md_author m = [] then (aw_tick w, st, failed backing_off)
             else (aw_tick w, cache_pr_metadata number (Some m) st, LookupResolved)
         | MetaError backing_off \<Rightarrow> (aw_tick w, st, failed backing_off))"

section \<open>Comments of pull requests\<close>

definition pr_comment_payload ::
    "string \<Rightarrow> nat \<Rightarrow> pr_metadata option \<Rightarrow> nat \<Rightarrow> string \<Rightarrow> string \<Rightarrow> github_pr_comment" where
  "pr_comment_payload repo number m comment_id author url =
     \<lparr>prc_repo = repo, prc_number = number, prc_title = unwrap_or (map_option md_title m) [],
      prc_author = author, prc_pr_author = unwrap_or (map_option md_author m) [], prc_url = url,
      prc_comment_id = comment_id\<rparr>"

definition pending_comment_event ::
    "pending_comment \<Rightarrow> pr_metadata option \<Rightarrow> activity_monitor \<Rightarrow> string \<Rightarrow> incoming_event" where
  "pending_comment_event c m repo repo_name =
     (let payload = pr_comment_payload repo_name (pn_number c) m (pn_id c) (pn_author c) (pn_url c);
          e = (case pn_path c of
                 Some path \<Rightarrow> github_pr_review_commented \<lparr>prrc_comment = payload, prrc_path = path\<rparr> (gm_channel repo)
               | None \<Rightarrow> github_pr_commented payload (gm_channel repo))
      in with_format (gm_format repo) (with_mention (gm_mention repo) e))"

text \<open>\<open>emit_pending_comment\<close> followed by \<open>refresh_delivered_comment_id\<close>, as the callers do.\<close>

definition emit_pending_comment ::
    "pending_comment \<Rightarrow> pr_metadata option \<Rightarrow> activity_monitor \<Rightarrow> string \<Rightarrow> activity_world \<Rightarrow> activity_world \<times> bool" where
  "emit_pending_comment c m repo repo_name w =
     send_activity (PrComment c) (pending_comment_event c m repo repo_name) w"

definition deliver_comment ::
    "pending_comment \<Rightarrow> pr_metadata option \<Rightarrow> activity_monitor \<Rightarrow> string \<Rightarrow> activity_state \<Rightarrow> activity_world \<Rightarrow>
     activity_world \<times> (string + activity_state)" where
  "deliver_comment c m repo repo_name st w =
     (case emit_pending_comment c m repo repo_name w of
        (w, True) \<Rightarrow> (w, Ok (refresh_delivered_comment_id c st))
      | (w, False) \<Rightarrow> (w, Err channel_closed))"

text \<open>
  The bookkeeping of one poll: which pull requests were looked up, with what outcome, and which comments
  had their attempt counted.
\<close>

record lookup_round =
  lk_attempted :: "(nat, metadata_lookup) hmap"
  lk_counted :: "(bool \<times> nat) list"

definition lookup_for_comment ::
    "pending_comment \<Rightarrow> (nat, pr_snapshot) hmap \<Rightarrow> lookup_round \<Rightarrow> activity_state \<Rightarrow> activity_world \<Rightarrow>
     activity_world \<times> activity_state \<times> lookup_round" where
  "lookup_for_comment c prs lk st w =
     (case known_pr_metadata (pn_number c) prs st of
        (st, known) \<Rightarrow>
          if known = None \<and> \<not> hm_has (lk_attempted lk) (pn_number c) \<and>
             length (lk_attempted lk) < MAX_PR_METADATA_LOOKUPS
          then (case resolve_pr_metadata (pn_number c) st w of
                  (w, st, outcome) \<Rightarrow>
                    (w, st, lk\<lparr>lk_attempted := hm_put (pn_number c) outcome (lk_attempted lk)\<rparr>))
          else (w, st, lk))"

definition count_attempt :: "pending_comment \<Rightarrow> lookup_round \<Rightarrow> pending_comment \<times> lookup_round" where
  "count_attempt c lk =
     (let key = (pn_path c \<noteq> None, pn_id c)
      in if hm_get (lk_attempted lk) (pn_number c) = Some LookupFailed \<and> key \<notin> set (lk_counted lk)
         then (c\<lparr>pn_attempts := pn_attempts c + 1\<rparr>, lk\<lparr>lk_counted := key # lk_counted lk\<rparr>)
         else (c, lk))"

fun drain_comments ::
    "activity_monitor \<Rightarrow> string \<Rightarrow> (nat, pr_snapshot) hmap \<Rightarrow> pending_comment list \<Rightarrow> pending_comment list \<Rightarrow>
     lookup_round \<Rightarrow> activity_state \<Rightarrow> activity_world \<Rightarrow> activity_world \<times> (string + activity_state \<times> lookup_round)" where
  "drain_comments repo repo_name prs [] retained lk st w = (w, Ok (st\<lparr>ac_pending := retained\<rparr>, lk))"
| "drain_comments repo repo_name prs (c # cs) retained lk st w =
     (case lookup_for_comment c prs lk st w of
        (w, st, lk) \<Rightarrow>
          (case known_pr_metadata (pn_number c) prs st of
             (st, Some m) \<Rightarrow>
               (case deliver_comment c m repo repo_name st w of
                  (w, Inl e) \<Rightarrow> (w, Err e)
                | (w, Inr st) \<Rightarrow> drain_comments repo repo_name prs cs retained lk st w)
           | (st, None) \<Rightarrow>
               (case count_attempt c lk of
                  (c, lk) \<Rightarrow>
                    if MAX_METADATA_ATTEMPTS \<le> pn_attempts c
                    then (case deliver_comment c None repo repo_name st w of
                            (w, Inl e) \<Rightarrow> (w, Err e)
                          | (w, Inr st) \<Rightarrow> drain_comments repo repo_name prs cs retained lk st w)
                    else drain_comments repo repo_name prs cs (retained @ [c]) lk st w)))"

definition drain_pending_comments ::
    "activity_monitor \<Rightarrow> string \<Rightarrow> (nat, pr_snapshot) hmap \<Rightarrow> lookup_round \<Rightarrow> activity_state \<Rightarrow> activity_world \<Rightarrow>
     activity_world \<times> (string + activity_state \<times> lookup_round)" where
  "drain_pending_comments repo repo_name prs lk st w =
     drain_comments repo repo_name prs (ac_pending st) [] lk (st\<lparr>ac_pending := []\<rparr>) w"

text \<open>A comment whose pull request is unknown waits; a full queue gives up its oldest comment first.\<close>

definition accept_activity_comment ::
    "activity_monitor \<Rightarrow> string \<Rightarrow> (nat, pr_snapshot) hmap \<Rightarrow> pending_comment \<Rightarrow> activity_state \<Rightarrow> activity_world \<Rightarrow>
     activity_world \<times> (string + activity_state)" where
  "accept_activity_comment repo repo_name prs c st w =
     (case known_pr_metadata (pn_number c) prs st of
        (st, Some m) \<Rightarrow>
          (case emit_pending_comment c m repo repo_name w of
             (w, True) \<Rightarrow> (w, Ok st) | (w, False) \<Rightarrow> (w, Err channel_closed))
      | (st, None) \<Rightarrow>
          if length (ac_pending st) = MAX_PENDING_PR_COMMENTS
          then
            let oldest = hd (ac_pending st); st = st\<lparr>ac_pending := tl (ac_pending st)\<rparr>
            in (case known_pr_metadata (pn_number oldest) prs st of
                  (st, known) \<Rightarrow>
                    (case deliver_comment oldest (Option.bind known (\<lambda>m. m)) repo repo_name st w of
                       (w, Inl e) \<Rightarrow> (w, Err e)
                     | (w, Inr st) \<Rightarrow> (w, Ok (st\<lparr>ac_pending := ac_pending st @ [c]\<rparr>))))
          else (w, Ok (st\<lparr>ac_pending := ac_pending st @ [c]\<rparr>)))"

section \<open>Pages of a feed\<close>

text \<open>
  \<open>fetch_pr_activity_pages\<close>: at most ten pages; a comment feed without a cursor takes the newest page only.
  What the request asks for (the order, the time to start from, the size of a page) is left to the answers,
  which are arbitrary; \<open>key\<close> is \<open>pagination_page_key\<close>, which rests on the URL parser.
\<close>

fun feed_pages ::
    "(string \<Rightarrow> string) \<Rightarrow> (nat \<Rightarrow> string) \<Rightarrow> bool \<Rightarrow> (activity_world \<Rightarrow> nat \<Rightarrow> string + 'a feed_page) \<Rightarrow> nat \<Rightarrow> nat \<Rightarrow>
     string list \<Rightarrow> 'a list \<Rightarrow> string option \<Rightarrow> activity_world \<Rightarrow> activity_world \<times> (string + 'a list \<times> bool \<times> string option)" where
  "feed_pages key page_url newest_only ask 0 page seen entries fetched_at w = (w, Ok (entries, False, fetched_at))"
| "feed_pages key page_url newest_only ask (Suc n) page seen entries fetched_at w =
     (let seen = key (page_url page) # seen
      in case ask w (aw_step w) of
           Inl e \<Rightarrow> (aw_tick w, Err e)
         | Inr p \<Rightarrow>
             (let fetched_at = (if page = 1 then fp_date p else fetched_at);
                  entries = entries @ fp_entries p
              in if newest_only then (aw_tick w, Ok (entries, True, fetched_at))
                 else case fp_next p of
                        None \<Rightarrow> (aw_tick w, Ok (entries, True, fetched_at))
                      | Some url \<Rightarrow>
                          if key url \<in> set seen then (aw_tick w, Ok (entries, False, fetched_at))
                          else feed_pages key page_url newest_only ask n (page + 1) (key url # seen) entries fetched_at
                                 (aw_tick w)))"

record feed_env =
  fe_page_key :: "string \<Rightarrow> string"
  fe_parse_url :: "string \<Rightarrow> (string \<times> bool) option"
  fe_api_base :: string
  fe_cutoff :: string

definition fetch_pr_activity_pages ::
    "feed_env \<Rightarrow> string \<Rightarrow> bool \<Rightarrow> string option \<Rightarrow> (activity_world \<Rightarrow> nat \<Rightarrow> string + 'a feed_page) \<Rightarrow> activity_world \<Rightarrow>
     activity_world \<times> (string + 'a list \<times> bool \<times> string option)" where
  "fetch_pr_activity_pages env endpoint is_comment_feed cursor ask w =
     (let base = trim_end_matches (\<lambda>c. c = ''/'') (fe_api_base env)
      in feed_pages (fe_page_key env) (\<lambda>page. base @ ''/'' @ endpoint @ ''?page='' @ show_nat page)
           (is_comment_feed \<and> cursor = None) ask MAX_COMMENT_PAGES 1 [] [] None w)"

section \<open>Which pull request or issue a comment belongs to\<close>

definition segments_after_owner :: "string \<Rightarrow> string list" where
  "segments_after_owner path = drop 2 (split_on CHR ''/'' path)"

definition numbered :: "string \<Rightarrow> string list \<Rightarrow> nat option" where
  "numbered kind segments =
     (case segments of k # n # _ \<Rightarrow> if k = kind then parse_uint u64_max n else None | _ \<Rightarrow> None)"

definition web_segments :: "feed_env \<Rightarrow> string \<Rightarrow> string list option" where
  "web_segments env url =
     (case fe_parse_url env url of
        Some (path, True) \<Rightarrow> Some (segments_after_owner (tl path))
      | _ \<Rightarrow> None)"

definition api_segments :: "feed_env \<Rightarrow> string \<Rightarrow> string list option" where
  "api_segments env url =
     (case fe_parse_url env url of
        None \<Rightarrow> None
      | Some (path, _) \<Rightarrow>
          map_option segments_after_owner
            (strip_prefix ''/repos/'' (unwrap_or (strip_prefix ''/api/v3'' path) path)))"

definition pr_number :: "feed_env \<Rightarrow> feed_comment \<Rightarrow> nat option" where
  "pr_number env c =
     (let web = web_segments env (fc_html_url c);
          api = Option.bind (api_segments env (fc_issue_url c)) (numbered ''pulls'')
      in case web of
           Some (k # rest) \<Rightarrow> if k = ''pull'' then numbered ''pull'' (k # rest) else api
         | _ \<Rightarrow> api)"

definition issue_number :: "feed_env \<Rightarrow> feed_comment \<Rightarrow> nat option" where
  "issue_number env c =
     (case Option.bind (web_segments env (fc_html_url c)) (numbered ''issues'') of
        None \<Rightarrow> None
      | Some n \<Rightarrow>
          if Option.bind (api_segments env (fc_issue_url c)) (numbered ''issues'') = Some n then Some n else None)"

section \<open>The conversation feed\<close>

definition issue_title_and_count ::
    "(nat, issue_snapshot) hmap \<Rightarrow> nat \<Rightarrow> activity_world \<Rightarrow> activity_world \<times> (string + (string \<times> nat) option)" where
  "issue_title_and_count issues number w =
     (case hm_get issues number of
        Some i \<Rightarrow> (w, Ok (Some (iu_title i, iu_comments i)))
      | None \<Rightarrow>
          (case aw_issue w (aw_step w) of
             Inl e \<Rightarrow> (aw_tick w, Err e)
           | Inr i \<Rightarrow> (aw_tick w, Ok (if gi_pull_request i then None else Some (gi_title i, gi_comments i)))))"

definition emit_issue_feed_comment ::
    "feed_env \<Rightarrow> activity_monitor \<Rightarrow> string \<Rightarrow> (nat, issue_snapshot) hmap \<Rightarrow> feed_comment \<Rightarrow> string option \<Rightarrow>
     nat list \<Rightarrow> activity_state \<Rightarrow> activity_world \<Rightarrow> activity_world \<times> (string + activity_state \<times> nat list)" where
  "emit_issue_feed_comment env repo repo_name issues c lower commented st w =
     (let remembered = st\<lparr>ac_issue_ids := remember_activity_id (fc_id c) (ac_issue_ids st)\<rparr>
      in if fc_id c \<in> set (ac_issue_ids st) then (w, Ok (st, commented))
         else case issue_number env c of
                None \<Rightarrow> (w, Ok (st, commented))
              | Some number \<Rightarrow>
                  if (case lower of None \<Rightarrow> False | Some l \<Rightarrow> l \<le> fc_created_at c) \<and> number \<notin> set commented
                  then (case issue_title_and_count issues number w of
                          (w, Inl e) \<Rightarrow> (w, Err e)
                        | (w, Inr None) \<Rightarrow> (w, Ok (st, commented))
                        | (w, Inr (Some (title, n))) \<Rightarrow>
                            (case send_activity (IssueComment number (fc_id c))
                                    (with_format (gm_format repo) (with_mention (gm_mention repo)
                                       (github_issue_commented repo_name number title n (gm_channel repo)))) w of
                               (w, True) \<Rightarrow> (w, Ok (remembered, number # commented))
                             | (w, False) \<Rightarrow> (w, Err channel_closed)))
                  else (w, Ok (remembered, commented)))"

definition awaits :: "bool \<Rightarrow> nat \<Rightarrow> activity_state \<Rightarrow> bool" where
  "awaits inline i st = list_ex (\<lambda>p. (pn_path p \<noteq> None) = inline \<and> pn_id p = i) (ac_pending st)"

definition conversation_comment ::
    "activity_monitor \<Rightarrow> string \<Rightarrow> (nat, pr_snapshot) hmap \<Rightarrow> string option \<Rightarrow> nat \<Rightarrow> feed_comment \<Rightarrow> activity_state \<Rightarrow>
     activity_world \<Rightarrow> activity_world \<times> (string + activity_state)" where
  "conversation_comment repo repo_name prs lower number c st w =
     (let remember = (\<lambda>st. st\<lparr>ac_pr_ids := remember_activity_id (fc_id c) (ac_pr_ids st)\<rparr>)
      in if fc_id c \<in> set (ac_pr_ids st) \<or> awaits False (fc_id c) st then (w, Ok st)
         else case lower of
                None \<Rightarrow> (w, Ok (remember st))
              | Some l \<Rightarrow>
                  if fc_created_at c < l then (w, Ok st)
                  else (case accept_activity_comment repo repo_name prs
                               \<lparr>pn_id = fc_id c, pn_number = number, pn_author = unwrap_or (fc_user c) [],
                                pn_url = fc_html_url c, pn_path = None, pn_created_at = fc_created_at c,
                                pn_attempts = 0\<rparr> st w of
                          (w, Inl e) \<Rightarrow> (w, Err e)
                        | (w, Inr st) \<Rightarrow> (w, Ok (remember st))))"

fun conversation_comments ::
    "feed_env \<Rightarrow> activity_monitor \<Rightarrow> string \<Rightarrow> (nat, pr_snapshot) hmap \<Rightarrow> (nat, issue_snapshot) hmap \<Rightarrow> string option \<Rightarrow>
     feed_comment list \<Rightarrow> nat list \<Rightarrow> activity_state \<Rightarrow> activity_world \<Rightarrow> activity_world \<times> (string + activity_state)" where
  "conversation_comments env repo repo_name prs issues lower [] commented st w = (w, Ok st)"
| "conversation_comments env repo repo_name prs issues lower (c # cs) commented st w =
     (case pr_number env c of
        None \<Rightarrow>
          if gm_emit_issue_opened repo
          then (case emit_issue_feed_comment env repo repo_name issues c lower commented st w of
                  (w, Inl e) \<Rightarrow> (w, Err e)
                | (w, Inr (st, commented)) \<Rightarrow> conversation_comments env repo repo_name prs issues lower cs commented st w)
          else conversation_comments env repo repo_name prs issues lower cs commented st w
      | Some number \<Rightarrow>
          if \<not> gm_emit_pr_activity repo then conversation_comments env repo repo_name prs issues lower cs commented st w
          else (case conversation_comment repo repo_name prs lower number c st w of
                  (w, Inl e) \<Rightarrow> (w, Err e)
                | (w, Inr st) \<Rightarrow> conversation_comments env repo repo_name prs issues lower cs commented st w))"

text \<open>\<open>iter().max()\<close> of timestamps, compared as text.\<close>

definition max_of :: "string list \<Rightarrow> string option" where
  "max_of xs = (case xs of [] \<Rightarrow> None | y # ys \<Rightarrow> Some (fold max ys y))"

definition newest_update :: "feed_env \<Rightarrow> string list \<Rightarrow> string option \<Rightarrow> string option \<Rightarrow> string" where
  "newest_update env updates cursor fetched_at =
     unwrap_or (max_of (updates @ (case cursor of None \<Rightarrow> [] | Some c \<Rightarrow> [c])))
       (unwrap_or fetched_at (fe_cutoff env))"

text \<open>
  The creation bound after a page run: the first run starts it, a complete run moves it up to the newest
  update, an incomplete one leaves it. \<open>lower.unwrap()\<close> panics on None, which is the error here.
\<close>

definition next_lower ::
    "string option \<Rightarrow> string option \<Rightarrow> bool \<Rightarrow> string option \<Rightarrow> string \<Rightarrow> string + string option" where
  "next_lower cursor lower complete fetched_at newest =
     (if cursor = None then Ok (Some (unwrap_or fetched_at newest))
      else if complete then (case lower of None \<Rightarrow> Err ''called Option::unwrap() on a None value''
                             | Some l \<Rightarrow> Ok (Some (max l newest)))
      else Ok lower)"

definition poll_conversation ::
    "feed_env \<Rightarrow> string \<Rightarrow> activity_monitor \<Rightarrow> string \<Rightarrow> (nat, pr_snapshot) hmap \<Rightarrow> (nat, issue_snapshot) hmap \<Rightarrow>
     activity_state \<Rightarrow> activity_world \<Rightarrow> activity_world \<times> (string + activity_state)" where
  "poll_conversation env github_repo repo repo_name prs issues st w =
     (let pr = gm_emit_pr_activity repo;
          cursor = (if pr then ac_pr_cursor st else ac_issue_cursor st)
      in case fetch_pr_activity_pages env (''repos/'' @ github_repo @ ''/issues/comments'') True cursor aw_comments w of
           (w, Inl e) \<Rightarrow> (w, Ok st)
         | (w, Inr (comments, complete, fetched_at)) \<Rightarrow>
             (let newest = newest_update env (map fc_updated_at comments) cursor fetched_at;
                  lower = (if pr then ac_pr_lower st else ac_issue_lower st)
              in case conversation_comments env repo repo_name prs issues lower comments [] st w of
                   (w, Inl e) \<Rightarrow> (w, Err e)
                 | (w, Inr st) \<Rightarrow>
                     (case next_lower cursor lower complete fetched_at newest of
                        Inl e \<Rightarrow> (w, Err e)
                      | Inr bound \<Rightarrow>
                          (w, Ok (if pr then st\<lparr>ac_pr_cursor := Some newest, ac_pr_lower := bound\<rparr>
                                  else st\<lparr>ac_issue_cursor := Some newest, ac_issue_lower := bound\<rparr>)))))"

section \<open>The feed of inline comments\<close>

definition last_segment :: "string \<Rightarrow> string" where
  "last_segment s = last (split_on CHR ''/'' s)"

definition inline_comment ::
    "activity_monitor \<Rightarrow> string \<Rightarrow> (nat, pr_snapshot) hmap \<Rightarrow> string option \<Rightarrow> feed_review_comment \<Rightarrow> activity_state \<Rightarrow>
     activity_world \<Rightarrow> activity_world \<times> (string + activity_state)" where
  "inline_comment repo repo_name prs lower c st w =
     (let remember = (\<lambda>st. st\<lparr>ac_review_comment_ids := remember_activity_id (fr_id c) (ac_review_comment_ids st)\<rparr>)
      in if fr_id c \<in> set (ac_review_comment_ids st) \<or> awaits True (fr_id c) st then (w, Ok st)
         else case lower of
                None \<Rightarrow> (w, Ok (remember st))
              | Some l \<Rightarrow>
                  if fr_created_at c < l then (w, Ok st)
                  else case parse_uint u64_max (last_segment (fr_pull_request_url c)) of
                         None \<Rightarrow> (w, Ok st)
                       | Some number \<Rightarrow>
                           (case accept_activity_comment repo repo_name prs
                                   \<lparr>pn_id = fr_id c, pn_number = number, pn_author = unwrap_or (fr_user c) [],
                                    pn_url = fr_html_url c, pn_path = Some (fr_path c), pn_created_at = fr_created_at c,
                                    pn_attempts = 0\<rparr> st w of
                              (w, Inl e) \<Rightarrow> (w, Err e)
                            | (w, Inr st) \<Rightarrow> (w, Ok (remember st))))"

fun inline_comments ::
    "activity_monitor \<Rightarrow> string \<Rightarrow> (nat, pr_snapshot) hmap \<Rightarrow> string option \<Rightarrow> feed_review_comment list \<Rightarrow> activity_state \<Rightarrow>
     activity_world \<Rightarrow> activity_world \<times> (string + activity_state)" where
  "inline_comments repo repo_name prs lower [] st w = (w, Ok st)"
| "inline_comments repo repo_name prs lower (c # cs) st w =
     (case inline_comment repo repo_name prs lower c st w of
        (w, Inl e) \<Rightarrow> (w, Err e)
      | (w, Inr st) \<Rightarrow> inline_comments repo repo_name prs lower cs st w)"

definition poll_inline ::
    "feed_env \<Rightarrow> string \<Rightarrow> activity_monitor \<Rightarrow> string \<Rightarrow> (nat, pr_snapshot) hmap \<Rightarrow> activity_state \<Rightarrow> activity_world \<Rightarrow>
     activity_world \<times> (string + activity_state)" where
  "poll_inline env github_repo repo repo_name prs st w =
     (let cursor = ac_review_cursor st
      in case fetch_pr_activity_pages env (''repos/'' @ github_repo @ ''/pulls/comments'') True cursor
                aw_review_comments w of
           (w, Inl e) \<Rightarrow> (w, Ok st)
         | (w, Inr (comments, complete, fetched_at)) \<Rightarrow>
             (let newest = newest_update env (map fr_updated_at comments) cursor fetched_at;
                  lower = ac_review_lower st
              in case inline_comments repo repo_name prs lower comments st w of
                   (w, Inl e) \<Rightarrow> (w, Err e)
                 | (w, Inr st) \<Rightarrow>
                     (case next_lower cursor lower complete fetched_at newest of
                        Inl e \<Rightarrow> (w, Err e)
                      | Inr bound \<Rightarrow>
                          (w, Ok (st\<lparr>ac_review_cursor := Some newest,
                                     ac_review_lower := (if cursor = None \<or> complete then bound else ac_review_lower st)\<rparr>)))))"

section \<open>The scan of reviews\<close>

definition review_state_of :: "string \<Rightarrow> string option" where
  "review_state_of s =
     (if s = ''APPROVED'' then Some ''approved''
      else if s = ''CHANGES_REQUESTED'' then Some ''changes_requested''
      else if s = ''COMMENTED'' then Some ''commented'' else None)"

definition one_review ::
    "activity_monitor \<Rightarrow> string \<Rightarrow> string \<Rightarrow> nat \<Rightarrow> pr_snapshot \<Rightarrow> feed_review \<Rightarrow> activity_state \<Rightarrow> activity_world \<Rightarrow>
     activity_world \<times> (string + activity_state)" where
  "one_review repo repo_name lower number pr r st w =
     (case review_state_of (fv_state r) of
        None \<Rightarrow> (w, Ok st)
      | Some review_state \<Rightarrow>
          (case fv_submitted_at r of
             None \<Rightarrow> (w, Ok st)
           | Some submitted_at \<Rightarrow>
               if fv_id r \<in> set (ac_review_ids st) then (w, Ok st)
               else
                 let seeding = (ac_watermark st = None);
                     remembered = st\<lparr>ac_review_ids := remember_activity_id (fv_id r) (ac_review_ids st)\<rparr>
                 in if \<not> seeding \<and> submitted_at < lower then (w, Ok st)
                    else if seeding then (w, Ok remembered)
                    else (case send_activity (Review number (fv_id r))
                                 (with_format (gm_format repo) (with_mention (gm_mention repo)
                                    (github_pr_reviewed
                                       \<lparr>prr_repo = repo_name, prr_number = number, prr_title = pu_title pr,
                                        prr_author = unwrap_or (fv_user r) [], prr_pr_author = pu_author pr,
                                        prr_url = fv_html_url r, prr_review_id = fv_id r, prr_state = review_state\<rparr>
                                       (gm_channel repo)))) w of
                            (w, True) \<Rightarrow> (w, Ok remembered)
                          | (w, False) \<Rightarrow> (w, Err channel_closed))))"

fun each_review ::
    "activity_monitor \<Rightarrow> string \<Rightarrow> string \<Rightarrow> nat \<Rightarrow> pr_snapshot \<Rightarrow> feed_review list \<Rightarrow> activity_state \<Rightarrow> activity_world \<Rightarrow>
     activity_world \<times> (string + activity_state)" where
  "each_review repo repo_name lower number pr [] st w = (w, Ok st)"
| "each_review repo repo_name lower number pr (r # rs) st w =
     (case one_review repo repo_name lower number pr r st w of
        (w, Inl e) \<Rightarrow> (w, Err e)
      | (w, Inr st) \<Rightarrow> each_review repo repo_name lower number pr rs st w)"

text \<open>\<open>Vec::sort_unstable_by\<close> with distinct numbers: the order of update, then of number.\<close>

definition build_scan :: "feed_env \<Rightarrow> (nat, pr_snapshot) hmap \<Rightarrow> string option \<Rightarrow> activity_state \<Rightarrow> review_scan" where
  "build_scan env prs baseline_cutoff st =
     (let newest = unwrap_or (max_of (map pu_updated_at (values_of prs) @
                     (case ac_watermark st of None \<Rightarrow> [] | Some m \<Rightarrow> [m]))) (fe_cutoff env);
          upper = (if ac_watermark st = None then unwrap_or baseline_cutoff newest else newest);
          lower = unwrap_or (ac_watermark st) upper;
          candidates = filter (\<lambda>(_, pr). if ac_watermark st = None then pu_updated_at pr = newest
                                         else lower \<le> pu_updated_at pr) prs
      in \<lparr>sc_lower = lower, sc_upper = upper,
          sc_pending = map fst (sort_key (\<lambda>(n, pr). (pu_updated_at pr, n)) candidates), sc_prs = prs\<rparr>)"

fun run_scan ::
    "feed_env \<Rightarrow> string \<Rightarrow> activity_monitor \<Rightarrow> string \<Rightarrow> nat \<Rightarrow> review_scan \<Rightarrow> activity_state \<Rightarrow> activity_world \<Rightarrow>
     activity_world \<times> (string + activity_state \<times> review_scan)" where
  "run_scan env github_repo repo repo_name 0 scan st w = (w, Ok (st, scan))"
| "run_scan env github_repo repo repo_name (Suc n) scan st w =
     (case sc_pending scan of
        [] \<Rightarrow> (w, Ok (st, scan))
      | number # rest \<Rightarrow>
          (case hm_get (sc_prs scan) number of
             None \<Rightarrow> (w, Err ''no entry found for key'')
           | Some pr \<Rightarrow>
               (case fetch_pr_activity_pages env
                       (''repos/'' @ github_repo @ ''/pulls/'' @ show_nat number @ ''/reviews'') False None aw_reviews w of
                  (w, Inl e) \<Rightarrow> (w, Ok (st, scan))
                | (w, Inr (reviews, fetched_all, _)) \<Rightarrow>
                    (case each_review repo repo_name (sc_lower scan) number pr reviews st w of
                       (w, Inl e) \<Rightarrow> (w, Err e)
                     | (w, Inr st) \<Rightarrow>
                         if fetched_all
                         then run_scan env github_repo repo repo_name n (scan\<lparr>sc_pending := rest\<rparr>) st w
                         else (w, Ok (st, scan))))))"

definition poll_reviews ::
    "feed_env \<Rightarrow> string \<Rightarrow> activity_monitor \<Rightarrow> string \<Rightarrow> (nat, pr_snapshot) hmap \<Rightarrow> bool \<Rightarrow> string option \<Rightarrow>
     activity_state \<Rightarrow> activity_world \<Rightarrow> activity_world \<times> (string + activity_state)" where
  "poll_reviews env github_repo repo repo_name prs prs_complete baseline_cutoff st w =
     (if ac_scan st = None \<and> \<not> prs_complete \<and> prs = [] then (w, Ok st)
      else
        let scan = (case ac_scan st of Some scan \<Rightarrow> scan | None \<Rightarrow> build_scan env prs baseline_cutoff st)
        in case run_scan env github_repo repo repo_name MAX_REVIEW_FETCH_PRS scan (st\<lparr>ac_scan := None\<rparr>) w of
             (w, Inl e) \<Rightarrow> (w, Err e)
           | (w, Inr (st, scan)) \<Rightarrow>
               (w, Ok (if sc_pending scan = [] then st\<lparr>ac_watermark := Some (sc_upper scan)\<rparr>
                       else st\<lparr>ac_scan := Some scan\<rparr>)))"

section \<open>One poll of the activity\<close>

definition refresh_titles :: "(nat, pr_snapshot) hmap \<Rightarrow> activity_state \<Rightarrow> activity_state" where
  "refresh_titles prs st =
     fold (\<lambda>(number, pr) st.
             if hm_has (ac_metadata st) number \<and> pu_author pr \<noteq> []
             then cache_pr_metadata number (Some (metadata_of_pr pr)) st else st) prs st"

definition bind_state ::
    "activity_world \<times> (string + 'a) \<Rightarrow> ('a \<Rightarrow> activity_world \<Rightarrow> activity_world \<times> (string + 'b)) \<Rightarrow>
     activity_world \<times> (string + 'b)" where
  "bind_state r f = (case r of (w, Inl e) \<Rightarrow> (w, Err e) | (w, Inr a) \<Rightarrow> f a w)"

definition poll_pr_activity ::
    "feed_env \<Rightarrow> string \<Rightarrow> activity_monitor \<Rightarrow> string \<Rightarrow> (nat, pr_snapshot) hmap \<Rightarrow> (nat, issue_snapshot) hmap \<Rightarrow> bool \<Rightarrow>
     string option \<Rightarrow> activity_state \<Rightarrow> activity_world \<Rightarrow> activity_world \<times> (string + activity_state)" where
  "poll_pr_activity env github_repo repo repo_name prs issues prs_complete baseline_cutoff st w =
     (if \<not> gm_emit_pr_activity repo \<and> \<not> gm_emit_issue_opened repo then (w, Ok st)
      else
        bind_state (drain_pending_comments repo repo_name prs \<lparr>lk_attempted = [], lk_counted = []\<rparr>
                      (refresh_titles prs st) w) (\<lambda>(st, lk) w.
        bind_state (poll_conversation env github_repo repo repo_name prs issues st w) (\<lambda>st w.
        if \<not> gm_emit_pr_activity repo then (w, Ok st)
        else
          bind_state (poll_inline env github_repo repo repo_name prs st w) (\<lambda>st w.
          bind_state (drain_pending_comments repo repo_name prs lk st w) (\<lambda>(st, _) w.
          poll_reviews env github_repo repo repo_name prs prs_complete baseline_cutoff st w)))))"

section \<open>Issues and the state of pull requests\<close>

definition issue_events :: "activity_monitor \<Rightarrow> string \<Rightarrow> (nat, issue_snapshot) hmap \<Rightarrow> nat \<times> issue_snapshot \<Rightarrow> incoming_event list" where
  "issue_events repo repo_name previous entry =
     (let number = fst entry; issue = snd entry;
          dress = (\<lambda>e. with_format (gm_format repo) (with_mention (gm_mention repo) e))
      in case hm_get previous number of
           None \<Rightarrow> [dress (github_issue_opened repo_name number (iu_title issue) (gm_channel repo))]
         | Some old \<Rightarrow>
             (if iu_state old \<noteq> iu_state issue \<and> iu_state issue = ''closed''
              then [dress (github_issue_closed repo_name number (iu_title issue) (gm_channel repo))] else []) @
             (if iu_comments old < iu_comments issue
              then [dress (github_issue_commented repo_name number (iu_title issue) (iu_comments issue) (gm_channel repo))]
              else []))"

definition collect_issue_events ::
    "activity_monitor \<Rightarrow> string \<Rightarrow> (nat, issue_snapshot) hmap \<Rightarrow> (nat, issue_snapshot) hmap \<Rightarrow> incoming_event list" where
  "collect_issue_events repo repo_name previous current = concat (map (issue_events repo repo_name previous) current)"

fun send_all :: "(activity_item \<times> incoming_event) list \<Rightarrow> activity_world \<Rightarrow> activity_world \<times> (string + unit)" where
  "send_all [] w = (w, Ok ())"
| "send_all ((item, e) # es) w =
     (case send_activity item e w of (w, True) \<Rightarrow> send_all es w | (w, False) \<Rightarrow> (w, Err channel_closed))"

text \<open>The fetched list is an argument: None when the fetch failed. Comments are left to the comment feed.\<close>

definition poll_issues ::
    "activity_monitor \<Rightarrow> string \<Rightarrow> (nat, issue_snapshot) hmap option \<Rightarrow> (nat, issue_snapshot) hmap option \<Rightarrow>
     activity_world \<Rightarrow> activity_world \<times> (string + (nat, issue_snapshot) hmap)" where
  "poll_issues repo repo_name fetched previous w =
     (if \<not> gm_emit_issue_opened repo then (w, Ok (unwrap_or previous []))
      else case fetched of
             None \<Rightarrow> (w, Ok (unwrap_or previous []))
           | Some issues \<Rightarrow>
               (case previous of
                  None \<Rightarrow> (w, Ok issues)
                | Some old \<Rightarrow>
                    (let events = filter (\<lambda>e. canonical_kind e \<noteq> ''github.issue-commented'')
                                    (collect_issue_events repo repo_name old issues)
                     in case send_all (map (\<lambda>e. (IssueChange (unwrap_or (get_u64 (ev_payload e) ''number'') 0), e)) events) w of
                          (w, Inl e) \<Rightarrow> (w, Err e)
                        | (w, Inr _) \<Rightarrow> (w, Ok issues))))"

definition pr_status_events ::
    "activity_monitor \<Rightarrow> string \<Rightarrow> (nat, pr_snapshot) hmap \<Rightarrow> nat \<times> pr_snapshot \<Rightarrow> (activity_item \<times> incoming_event) list" where
  "pr_status_events repo repo_name previous entry =
     (let number = fst entry; pr = snd entry; old = hm_get previous number
      in if map_option pu_status old = Some (pu_status pr) then []
         else [(PrStatus number,
                with_format (gm_format repo) (with_mention (gm_mention repo)
                  (github_pr_status_changed repo_name number (pu_title pr)
                     (unwrap_or (map_option pu_status old) ''<new>'') (pu_status pr) (pu_url pr) (gm_channel repo))))])"

text \<open>The list and whether every page was seen; a failed fetch keeps the previous list as an incomplete one.\<close>

definition poll_pull_requests ::
    "activity_monitor \<Rightarrow> string \<Rightarrow> (string + (nat, pr_snapshot) hmap \<times> bool) option \<Rightarrow> (nat, pr_snapshot) hmap option \<Rightarrow>
     activity_world \<Rightarrow> activity_world \<times> (string + (nat, pr_snapshot) hmap \<times> bool)" where
  "poll_pull_requests repo repo_name fetched previous w =
     (case (if gm_emit_pr_status repo then fetched else None) of
        None \<Rightarrow> (w, Ok (unwrap_or previous [], True))
      | Some (Inl e) \<Rightarrow> (w, Ok (unwrap_or previous [], False))
      | Some (Inr (prs, complete)) \<Rightarrow>
          (case send_all (case previous of None \<Rightarrow> []
                          | Some old \<Rightarrow> concat (map (pr_status_events repo repo_name old) prs)) w of
             (w, Inl e) \<Rightarrow> (w, Err e)
           | (w, Inr _) \<Rightarrow> (w, Ok (prs, complete))))"

section \<open>The lists of issues and pull requests\<close>

text \<open>\<open>collect()\<close> into a \<open>HashMap\<close>: a later row of the same number replaces an earlier one.\<close>

definition collect_rows :: "('k \<times> 'v) list \<Rightarrow> ('k, 'v) hmap" where
  "collect_rows rows = fold (\<lambda>(k, v) m. hm_put k v m) rows []"

definition issue_row :: "github_issue \<Rightarrow> nat \<times> issue_snapshot" where
  "issue_row i = (gi_number i, \<lparr>iu_title = gi_title i, iu_state = gi_state i, iu_comments = gi_comments i\<rparr>)"

definition fetch_issues :: "activity_world \<Rightarrow> activity_world \<times> (nat, issue_snapshot) hmap option" where
  "fetch_issues w =
     (aw_tick w,
      case aw_issue_list w (aw_step w) of
        Inl e \<Rightarrow> None
      | Inr rows \<Rightarrow> Some (collect_rows (map issue_row (filter (\<lambda>i. \<not> gi_pull_request i) rows))))"

definition pulls_page :: "feed_env \<Rightarrow> string \<Rightarrow> nat \<Rightarrow> string" where
  "pulls_page env github_repo page =
     fe_page_key env (trim_end_matches (\<lambda>c. c = ''/'') (fe_api_base env) @ ''/repos/'' @ github_repo @ ''/pulls?page='' @ show_nat page)"

text \<open>The loop runs at most \<open>MAX_CI_PAGES\<close> times, so that many rounds are never used up.\<close>

fun pull_pages ::
    "feed_env \<Rightarrow> string \<Rightarrow> nat \<Rightarrow> nat \<Rightarrow> string list \<Rightarrow> github_pull list \<Rightarrow> activity_world \<Rightarrow>
     activity_world \<times> (string + github_pull list \<times> bool)" where
  "pull_pages env github_repo 0 page seen pulls w = (w, Ok (pulls, False))"
| "pull_pages env github_repo (Suc n) page seen pulls w =
     (let seen = pulls_page env github_repo page # seen
      in case aw_pulls w (aw_step w) of
           Inl e \<Rightarrow> (aw_tick w, Err e)
         | Inr p \<Rightarrow>
             (case fp_next p of
                None \<Rightarrow> (aw_tick w, Ok (pulls @ fp_entries p, True))
              | Some url \<Rightarrow>
                  if MAX_CI_PAGES \<le> page \<or> fe_page_key env url \<in> set seen
                  then (aw_tick w, Ok (pulls @ fp_entries p, False))
                  else pull_pages env github_repo n (page + 1) (fe_page_key env url # seen) (pulls @ fp_entries p)
                         (aw_tick w)))"

definition fetch_pull_requests ::
    "feed_env \<Rightarrow> string \<Rightarrow> activity_world \<Rightarrow> activity_world \<times> (string + (nat, pr_snapshot) hmap \<times> bool)" where
  "fetch_pull_requests env github_repo w =
     (case pull_pages env github_repo MAX_CI_PAGES 1 [] [] w of
        (w, Inl e) \<Rightarrow> (w, Err e)
      | (w, Inr (pulls, complete)) \<Rightarrow> (w, Ok (collect_rows (map pull_request_snapshot pulls), complete)))"

text \<open>The pull requests updated since the watermark; without one, the first page and its date.\<close>

fun updated_pages ::
    "feed_env \<Rightarrow> string \<Rightarrow> string option \<Rightarrow> nat \<Rightarrow> nat \<Rightarrow> string list \<Rightarrow> (nat, pr_snapshot) hmap \<Rightarrow> activity_world \<Rightarrow>
     activity_world \<times> (string + (nat, pr_snapshot) hmap \<times> bool \<times> string option)" where
  "updated_pages env github_repo cursor 0 page seen prs w = (w, Ok (prs, False, None))"
| "updated_pages env github_repo cursor (Suc n) page seen prs w =
     (let seen = pulls_page env github_repo page # seen
      in case aw_pulls w (aw_step w) of
           Inl e \<Rightarrow> (aw_tick w, Err e)
         | Inr p \<Rightarrow>
             if list_ex (\<lambda>pull. pl_updated_at pull = []) (fp_entries p)
             then (aw_tick w, Err ''GitHub updated PR response is missing updated_at'')
             else
               let prs = fold (\<lambda>(k, v) m. hm_put k v m) (map pull_request_snapshot (fp_entries p)) prs
               in case cursor of
                    None \<Rightarrow> (aw_tick w, Ok (prs, True, fp_date p))
                  | Some c \<Rightarrow>
                      (case opt_filter (\<lambda>_. \<not> list_ex (\<lambda>pull. pl_updated_at pull < c) (fp_entries p)) (fp_next p) of
                         None \<Rightarrow> (aw_tick w, Ok (prs, True, None))
                       | Some url \<Rightarrow>
                           if fe_page_key env url \<in> set seen then (aw_tick w, Ok (prs, False, None))
                           else updated_pages env github_repo cursor n (page + 1) (fe_page_key env url # seen) prs (aw_tick w)))"

definition fetch_updated_pull_requests ::
    "feed_env \<Rightarrow> string \<Rightarrow> string option \<Rightarrow> activity_world \<Rightarrow>
     activity_world \<times> (string + (nat, pr_snapshot) hmap \<times> bool \<times> string option)" where
  "fetch_updated_pull_requests env github_repo cursor w = updated_pages env github_repo cursor MAX_CI_PAGES 1 [] [] w"

section \<open>One repository of a poll\<close>

text \<open>
  The part of \<open>GitHubRepoState\<close> the feeds use, and the part of \<open>poll_github\<close> before the CI results of a
  repository. The lists survive a failure of their own poll; an error of the activity ends the whole poll
  before anything is stored.
\<close>

record repo_feeds =
  rf_activity :: activity_state
  rf_issues :: "(nat, issue_snapshot) hmap"
  rf_prs :: "(nat, pr_snapshot) hmap"

text \<open>\<open>PRActivityState::default()\<close>.\<close>

definition fresh_activity :: activity_state where
  "fresh_activity =
     \<lparr>ac_issue_cursor = None, ac_issue_lower = None, ac_issue_ids = [], ac_pr_cursor = None, ac_pr_lower = None,
      ac_review_cursor = None, ac_review_lower = None, ac_review_comment_ids = [], ac_pr_ids = [], ac_watermark = None,
      ac_scan = None, ac_review_ids = [], ac_metadata = [], ac_metadata_order = [], ac_pending = []\<rparr>"

definition updated_window ::
    "feed_env \<Rightarrow> string \<Rightarrow> activity_monitor \<Rightarrow> activity_state \<Rightarrow> repo_feeds option \<Rightarrow> activity_world \<Rightarrow>
     activity_world \<times> (nat, pr_snapshot) hmap \<times> bool \<times> string option" where
  "updated_window env github_repo repo activity previous w =
     (if gm_emit_pr_activity repo \<and> ac_scan activity = None
      then (case fetch_updated_pull_requests env github_repo
                   (Option.bind previous (\<lambda>p. ac_watermark (rf_activity p))) w of
              (w, Inl e) \<Rightarrow> (w, [], False, None)
            | (w, Inr r) \<Rightarrow> (w, r))
      else (w, [], True, None))"

definition poll_repo_feeds ::
    "feed_env \<Rightarrow> string \<Rightarrow> activity_monitor \<Rightarrow> string \<Rightarrow> repo_feeds option \<Rightarrow> activity_world \<Rightarrow>
     activity_world \<times> (string + repo_feeds)" where
  "poll_repo_feeds env github_repo repo repo_name previous w =
     (let activity = unwrap_or (map_option rf_activity previous) fresh_activity
      in case updated_window env github_repo repo activity previous w of
           (w, activity_prs, complete, cutoff) \<Rightarrow>
      (case (if gm_emit_issue_opened repo then fetch_issues w else (w, None)) of (w, fetched) \<Rightarrow>
      (case poll_issues repo repo_name fetched (map_option rf_issues previous) w of (w, polled) \<Rightarrow>
      (let issues = (case polled of Inl e \<Rightarrow> unwrap_or (map_option rf_issues previous) [] | Inr issues \<Rightarrow> issues)
       in case (if gm_emit_pr_status repo
                then (case fetch_pull_requests env github_repo w of (w, r) \<Rightarrow> (w, Some r)) else (w, None)) of (w, fetched) \<Rightarrow>
      (case poll_pull_requests repo repo_name fetched (map_option rf_prs previous) w of (w, polled) \<Rightarrow>
      (let prs = (case polled of Inl e \<Rightarrow> unwrap_or (map_option rf_prs previous) [] | Inr (prs, _) \<Rightarrow> prs)
       in case poll_pr_activity env github_repo repo repo_name activity_prs issues complete cutoff activity w of
            (w, Inl e) \<Rightarrow> (w, Err e)
          | (w, Inr activity) \<Rightarrow> (w, Ok \<lparr>rf_activity = activity, rf_issues = issues, rf_prs = prs\<rparr>)))))))"

end
