(* ===== verification/GithubActivityCorrect.thy ===== *)
theory GithubActivityCorrect imports GithubActivity begin

text \<open>
  The comments of a poll of the activity feeds, from the stage that accepts or holds them back to the whole
  poll: what was announced and what still waits is what waited before and what was accepted.
\<close>

section \<open>What was announced\<close>

text \<open>A comment apart from its count of failed look-ups.\<close>

definition bare :: "pending_comment \<Rightarrow> pending_comment" where
  "bare c = c\<lparr>pn_attempts := 0\<rparr>"

fun comments_sent :: "(activity_item \<times> incoming_event) list \<Rightarrow> pending_comment list" where
  "comments_sent [] = []"
| "comments_sent ((PrComment c, _) # es) = c # comments_sent es"
| "comments_sent (_ # es) = comments_sent es"

lemma comments_sent_append [simp]: "comments_sent (es @ fs) = comments_sent es @ comments_sent fs"
  by (induction es rule: comments_sent.induct) auto

definition bare_mset :: "pending_comment list \<Rightarrow> pending_comment multiset" where
  "bare_mset cs = mset (map bare cs)"

lemma bare_mset_simps [simp]:
  "bare_mset [] = {#}" "bare_mset (c # cs) = add_mset (bare c) (bare_mset cs)"
  "bare_mset (cs @ ds) = bare_mset cs + bare_mset ds"
  by (simp_all add: bare_mset_def)

text \<open>
  \<open>flow w w' before after accepted\<close>: between the two worlds, what was announced and what waits afterwards
  is what waited before and what was accepted, each comment exactly as often.
\<close>

definition flow ::
    "activity_world \<Rightarrow> activity_world \<Rightarrow> pending_comment list \<Rightarrow> pending_comment list \<Rightarrow> pending_comment list \<Rightarrow> bool" where
  "flow w w' before after accepted \<longleftrightarrow>
     (\<exists>es. aw_sent w' = aw_sent w @ es \<and>
       bare_mset (comments_sent es) + bare_mset after = bare_mset before + bare_mset accepted)"

lemma flow_refl [simp]: "flow w w ps ps []"
  by (simp add: flow_def)

lemma flow_trans:
  assumes "flow w w' ps qs as" and "flow w' w'' qs rs bs"
  shows "flow w w'' ps rs (as @ bs)"
proof -
  obtain es fs where e: "aw_sent w' = aw_sent w @ es" "bare_mset (comments_sent es) + bare_mset qs = bare_mset ps + bare_mset as"
    and f: "aw_sent w'' = aw_sent w' @ fs" "bare_mset (comments_sent fs) + bare_mset rs = bare_mset qs + bare_mset bs"
    using assms by (auto simp: flow_def)
  have "bare_mset (comments_sent (es @ fs)) + bare_mset rs = bare_mset (comments_sent es) + (bare_mset (comments_sent fs) + bare_mset rs)"
    by (simp add: add.assoc)
  also have "\<dots> = (bare_mset (comments_sent es) + bare_mset qs) + bare_mset bs"
    by (simp only: f(2) add.assoc)
  also have "\<dots> = bare_mset ps + bare_mset (as @ bs)"
    by (simp only: e(2) add.assoc bare_mset_simps)
  finally have "bare_mset (comments_sent (es @ fs)) + bare_mset rs = bare_mset ps + bare_mset (as @ bs)" .
  then show ?thesis using e(1) f(1) by (auto simp: flow_def)
qed

lemma flow_bare: "bare_mset ps = bare_mset ps' \<Longrightarrow> bare_mset qs = bare_mset qs' \<Longrightarrow> flow w w' ps qs as = flow w w' ps' qs' as"
  by (simp add: flow_def)

lemma tick_sent [simp]: "aw_sent (aw_tick w) = aw_sent w"
  by (simp add: aw_tick_def)

lemma flow_same_sent: "aw_sent w' = aw_sent w \<Longrightarrow> flow w w' ps ps []"
  by (simp add: flow_def)

section \<open>Parts of the state an operation leaves alone\<close>

lemma cache_fields [simp]:
  "ac_pending (cache_pr_metadata n m st) = ac_pending st"
  "ac_pr_lower (cache_pr_metadata n m st) = ac_pr_lower st"
  "ac_review_lower (cache_pr_metadata n m st) = ac_review_lower st"
  "ac_issue_lower (cache_pr_metadata n m st) = ac_issue_lower st"
  "ac_pr_cursor (cache_pr_metadata n m st) = ac_pr_cursor st"
  "ac_review_cursor (cache_pr_metadata n m st) = ac_review_cursor st"
  "ac_issue_cursor (cache_pr_metadata n m st) = ac_issue_cursor st"
  "ac_scan (cache_pr_metadata n m st) = ac_scan st"
  "ac_watermark (cache_pr_metadata n m st) = ac_watermark st"
  by (simp_all add: cache_pr_metadata_def Let_def)

lemma refresh_fields [simp]:
  "ac_pending (refresh_delivered_comment_id c st) = ac_pending st"
  "ac_pr_lower (refresh_delivered_comment_id c st) = ac_pr_lower st"
  "ac_review_lower (refresh_delivered_comment_id c st) = ac_review_lower st"
  "ac_issue_lower (refresh_delivered_comment_id c st) = ac_issue_lower st"
  "ac_pr_cursor (refresh_delivered_comment_id c st) = ac_pr_cursor st"
  "ac_review_cursor (refresh_delivered_comment_id c st) = ac_review_cursor st"
  "ac_issue_cursor (refresh_delivered_comment_id c st) = ac_issue_cursor st"
  "ac_scan (refresh_delivered_comment_id c st) = ac_scan st"
  "ac_watermark (refresh_delivered_comment_id c st) = ac_watermark st"
  by (simp_all add: refresh_delivered_comment_id_def)

text \<open>The positions of the feeds and the scan, as one value.\<close>

definition positions :: "activity_state \<Rightarrow> string option list \<times> review_scan option" where
  "positions st =
     ([ac_pr_lower st, ac_review_lower st, ac_issue_lower st, ac_pr_cursor st, ac_review_cursor st, ac_issue_cursor st,
       ac_watermark st], ac_scan st)"

lemma positions_update [simp]:
  "positions (cache_pr_metadata n m st) = positions st"
  "positions (refresh_delivered_comment_id c st) = positions st"
  "positions (st\<lparr>ac_pending := ps\<rparr>) = positions st"
  "positions (st\<lparr>ac_pr_ids := ids\<rparr>) = positions st"
  "positions (st\<lparr>ac_issue_ids := ids\<rparr>) = positions st"
  "positions (st\<lparr>ac_review_comment_ids := ids\<rparr>) = positions st"
  "positions (st\<lparr>ac_review_ids := ids\<rparr>) = positions st"
  by (simp_all add: positions_def)

lemma positions_known: "known_pr_metadata n prs st = (st', known) \<Longrightarrow> positions st' = positions st \<and> ac_pending st' = ac_pending st"
  by (auto simp: known_pr_metadata_def Let_def split: option.splits)

lemma positions_resolve:
  "resolve_pr_metadata n st w = (w', st', l) \<Longrightarrow>
     positions st' = positions st \<and> ac_pending st' = ac_pending st \<and> aw_sent w' = aw_sent w"
  by (auto simp: resolve_pr_metadata_def Let_def split: metadata_answer.splits if_splits)

lemma positions_lookup:
  assumes "lookup_for_comment c prs lk st w = (w', st', lk')"
  shows "positions st' = positions st \<and> ac_pending st' = ac_pending st \<and> aw_sent w' = aw_sent w"
proof -
  obtain st1 known where k: "known_pr_metadata (pn_number c) prs st = (st1, known)" by fastforce
  obtain w2 st2 l where r: "resolve_pr_metadata (pn_number c) st1 w = (w2, st2, l)" by (metis prod_cases3)
  show ?thesis
    using assms positions_known[OF k] positions_resolve[OF r]
    by (auto simp: lookup_for_comment_def k r split: if_splits)
qed

section \<open>Delivering\<close>

lemma emit_flow:
  assumes "emit_pending_comment c m repo name w = (w', True)"
  shows "flow w w' (c # ps) ps []"
  using assms by (auto simp: emit_pending_comment_def send_activity_def flow_def bare_mset_def split: if_splits)

lemma deliver_flow:
  assumes "deliver_comment c m repo name st w = (w', Ok st')"
  shows "flow w w' (c # ps) ps []" and "positions st' = positions st" and "ac_pending st' = ac_pending st"
proof -
  obtain w1 b where e: "emit_pending_comment c m repo name w = (w1, b)" by fastforce
  then have b: "b" "w' = w1" "st' = refresh_delivered_comment_id c st"
    using assms by (auto simp: deliver_comment_def split: bool.splits)
  show "flow w w' (c # ps) ps []" using e b emit_flow by simp
  show "positions st' = positions st" "ac_pending st' = ac_pending st" using b by simp_all
qed

lemma count_attempt_bare: "count_attempt c lk = (c', lk') \<Longrightarrow> bare c' = bare c"
  by (auto simp: count_attempt_def bare_def Let_def split: if_splits)

lemma drain_flow:
  assumes "drain_comments repo name prs cs retained lk st w = (w', Ok (st', lk'))"
  shows "flow w w' (retained @ cs) (ac_pending st') [] \<and> positions st' = positions st"
  using assms
proof (induction cs arbitrary: retained lk st w)
  case Nil
  then show ?case by auto
next
  case (Cons c cs)
  obtain w1 st1 lk1 where l: "lookup_for_comment c prs lk st w = (w1, st1, lk1)" by (metis prod_cases3)
  obtain st2 known where k: "known_pr_metadata (pn_number c) prs st1 = (st2, known)" by fastforce
  have pos: "positions st2 = positions st" and sent: "aw_sent w1 = aw_sent w"
    using positions_lookup[OF l] positions_known[OF k] by auto
  have start: "flow w w1 (retained @ c # cs) (retained @ c # cs) []"
    using sent by (rule flow_same_sent)
  have move: "flow w1 w2 (c # retained @ cs) (retained @ cs) [] \<Longrightarrow> flow w w2 (retained @ c # cs) (retained @ cs) []" for w2
    using flow_trans[OF start, of w2 "retained @ cs" "[]"] by (simp add: flow_def)
  have delivered: ?case
    if d: "deliver_comment x m repo name st2 w1 = (w2, Ok st3)" and x: "bare x = bare c"
      and go: "drain_comments repo name prs cs retained lk3 st3 w2 = (w', Ok (st', lk'))" for x m w2 st3 lk3
  proof -
    have "flow w1 w2 (x # retained @ cs) (retained @ cs) []" by (rule deliver_flow(1)[OF d])
    then have "flow w1 w2 (c # retained @ cs) (retained @ cs) []" using x by (simp add: flow_def)
    then show ?thesis
      using flow_trans[OF move] Cons.IH[OF go] deliver_flow(2)[OF d] pos by fastforce
  qed
  show ?case
  proof (cases known)
    case (Some m)
    then show ?thesis
      using Cons.prems l k delivered[of c m] by (auto split: prod.splits sum.splits)
  next
    case None
    obtain c' lk2 where c': "count_attempt c lk1 = (c', lk2)" by fastforce
    have bare: "bare c' = bare c" using count_attempt_bare[OF c'] .
    show ?thesis
    proof (cases "MAX_METADATA_ATTEMPTS \<le> pn_attempts c'")
      case True
      then show ?thesis
        using Cons.prems l k None c' delivered[of c' None] bare by (auto split: prod.splits sum.splits)
    next
      case False
      then have "drain_comments repo name prs cs (retained @ [c']) lk2 st2 w1 = (w', Ok (st', lk'))"
        using Cons.prems l k None c' by simp
      then have "flow w1 w' ((retained @ [c']) @ cs) (ac_pending st') [] \<and> positions st' = positions st2"
        by (rule Cons.IH)
      then show ?thesis using pos bare sent by (simp add: flow_def)
    qed
  qed
qed

lemma drain_pending_flow:
  assumes "drain_pending_comments repo name prs lk st w = (w', Ok (st', lk'))"
  shows "flow w w' (ac_pending st) (ac_pending st') [] \<and> positions st' = positions st"
  using drain_flow[OF assms[unfolded drain_pending_comments_def]] by simp

lemma accept_flow:
  assumes "accept_activity_comment repo name prs c st w = (w', Ok st')"
  shows "flow w w' (ac_pending st) (ac_pending st') [c] \<and> positions st' = positions st"
proof -
  obtain st1 known where k: "known_pr_metadata (pn_number c) prs st = (st1, known)" by fastforce
  have pos: "positions st1 = positions st" "ac_pending st1 = ac_pending st"
    using positions_known[OF k] by auto
  show ?thesis
  proof (cases known)
    case (Some m)
    obtain w1 b where e: "emit_pending_comment c m repo name w = (w1, b)" by fastforce
    have b: "b" "w' = w1" "st' = st1"
      using assms by (auto simp: accept_activity_comment_def k Some e split: bool.splits)
    have "flow w w' (c # ac_pending st) (ac_pending st) []"
      using emit_flow e b by simp
    then show ?thesis using pos b by (simp add: flow_def)
  next
    case None
    show ?thesis
    proof (cases "length (ac_pending st1) = MAX_PENDING_PR_COMMENTS")
      case False
      then have "w' = w" "st' = st1\<lparr>ac_pending := ac_pending st1 @ [c]\<rparr>"
        using assms by (auto simp: accept_activity_comment_def k None)
      then show ?thesis using pos by (simp add: flow_def)
    next
      case True
      then obtain oldest rest where full: "ac_pending st1 = oldest # rest"
        by (cases "ac_pending st1") (auto simp: MAX_PENDING_PR_COMMENTS_def)
      obtain st2 known2 where k2: "known_pr_metadata (pn_number oldest) prs (st1\<lparr>ac_pending := rest\<rparr>) = (st2, known2)"
        by fastforce
      have pos2: "positions st2 = positions st1" "ac_pending st2 = rest"
        using positions_known[OF k2] by auto
      obtain st3 where d: "deliver_comment oldest (Option.bind known2 (\<lambda>m. m)) repo name st2 w = (w', Ok st3)"
        and st': "st' = st3\<lparr>ac_pending := ac_pending st3 @ [c]\<rparr>"
        using assms True by (auto simp: accept_activity_comment_def k None full k2 Let_def split: prod.splits sum.splits)
      have "flow w w' (oldest # rest) rest []" by (rule deliver_flow(1)[OF d])
      moreover have "ac_pending st = oldest # rest" using full pos(2) by simp
      ultimately show ?thesis
        using st' deliver_flow(2,3)[OF d] pos(1) pos2 by (simp add: flow_def)
    qed
  qed
qed

section \<open>The feeds\<close>

text \<open>A comment may be announced when it was created at or after the bound of its feed.\<close>

definition eligible :: "bool \<Rightarrow> string option \<Rightarrow> pending_comment \<Rightarrow> bool" where
  "eligible inline lower c \<longleftrightarrow> (pn_path c \<noteq> None) = inline \<and> (\<exists>l. lower = Some l \<and> l \<le> pn_created_at c)"

text \<open>One step of a feed keeps the positions and accepts only comments that satisfy the test.\<close>

definition feeds ::
    "(pending_comment \<Rightarrow> bool) \<Rightarrow> activity_state \<Rightarrow> activity_world \<Rightarrow> activity_state \<Rightarrow> activity_world \<Rightarrow> bool" where
  "feeds P st w st' w' \<longleftrightarrow>
     positions st' = positions st \<and> (\<exists>acc. flow w w' (ac_pending st) (ac_pending st') acc \<and> (\<forall>c \<in> set acc. P c))"

lemma feeds_refl [simp]: "feeds P st w st w"
  unfolding feeds_def by (metis empty_iff flow_refl set_empty)

lemma feeds_trans: "feeds P st w st' w' \<Longrightarrow> feeds P st' w' st'' w'' \<Longrightarrow> feeds P st w st'' w''"
  unfolding feeds_def by (elim conjE exE) (intro conjI exI, simp, erule flow_trans, assumption, auto)

lemma feeds_mono: "feeds P st w st' w' \<Longrightarrow> (\<And>c. P c \<Longrightarrow> Q c) \<Longrightarrow> feeds Q st w st' w'"
  unfolding feeds_def by blast

lemma feeds_quiet:
  assumes "aw_sent w' = aw_sent w @ es" and "comments_sent es = []"
    and "positions st' = positions st" and "ac_pending st' = ac_pending st"
  shows "feeds P st w st' w'"
  unfolding feeds_def using assms
  by (intro conjI exI[of _ "[]"]) (auto simp: flow_def)

lemma accept_feeds:
  assumes "accept_activity_comment repo name prs c st w = (w', Ok st')" and "P c"
  shows "feeds P st w st' w'"
  using accept_flow[OF assms(1)] assms(2) unfolding feeds_def by (metis empty_iff insert_iff list.set(1,2))

lemma feeds_remember: "feeds P st w st' w' \<Longrightarrow> positions st'' = positions st' \<Longrightarrow> ac_pending st'' = ac_pending st' \<Longrightarrow> feeds P st w st'' w'"
  by (simp add: feeds_def)

lemma conversation_feeds:
  assumes "conversation_comment repo name prs lower number c st w = (w', Ok st')"
  shows "feeds (eligible False lower) st w st' w'"
proof (cases "fc_id c \<in> set (ac_pr_ids st) \<or> awaits False (fc_id c) st")
  case False
  note unknown = this
  show ?thesis
  proof (cases lower)
    case None
    then show ?thesis
      using assms unknown by (auto simp: conversation_comment_def intro!: feeds_quiet[of _ _ "[]"])
  next
    case (Some l)
    let ?p = "\<lparr>pn_id = fc_id c, pn_number = number, pn_author = unwrap_or (fc_user c) [], pn_url = fc_html_url c,
      pn_path = None, pn_created_at = fc_created_at c, pn_attempts = 0\<rparr>"
    obtain w1 r where a: "accept_activity_comment repo name prs ?p st w = (w1, r)" by fastforce
    show ?thesis
    proof (cases "fc_created_at c < l")
      case False
      then obtain st1 where r: "r = Inr st1" and st': "w' = w1"
        "st' = st1\<lparr>ac_pr_ids := remember_activity_id (fc_id c) (ac_pr_ids st1)\<rparr>"
        using assms unknown Some a by (cases r) (auto simp: conversation_comment_def)
      have "feeds (eligible False lower) st w st1 w1"
        using accept_feeds[OF a[unfolded r]] Some False by (simp add: eligible_def)
      then show ?thesis unfolding st' by (rule feeds_remember) simp_all
    qed (use assms unknown Some in \<open>auto simp: conversation_comment_def\<close>)
  qed
qed (use assms in \<open>auto simp: conversation_comment_def\<close>)

lemma inline_feeds:
  assumes "inline_comment repo name prs lower c st w = (w', Ok st')"
  shows "feeds (eligible True lower) st w st' w'"
proof (cases "fr_id c \<in> set (ac_review_comment_ids st) \<or> awaits True (fr_id c) st")
  case True
  then show ?thesis using assms by (auto simp: inline_comment_def)
next
  case False
  note unknown = this
  show ?thesis
  proof (cases lower)
    case None
    then show ?thesis
      using assms unknown by (auto simp: inline_comment_def intro!: feeds_quiet[of _ _ "[]"])
  next
    case (Some l)
    note lower = this
    show ?thesis
    proof (cases "fr_created_at c < l")
      case True
      then show ?thesis using assms unknown lower by (simp add: inline_comment_def)
    next
      case young: False
      show ?thesis
      proof (cases "parse_uint u64_max (last_segment (fr_pull_request_url c))")
        case None
        then show ?thesis using assms unknown lower young by (simp add: inline_comment_def)
      next
        case (Some number)
        let ?p = "\<lparr>pn_id = fr_id c, pn_number = number, pn_author = unwrap_or (fr_user c) [], pn_url = fr_html_url c,
          pn_path = Some (fr_path c), pn_created_at = fr_created_at c, pn_attempts = 0\<rparr>"
        obtain w1 r where a: "accept_activity_comment repo name prs ?p st w = (w1, r)" by fastforce
        obtain st1 where r: "r = Inr st1" and st': "w' = w1"
          "st' = st1\<lparr>ac_review_comment_ids := remember_activity_id (fr_id c) (ac_review_comment_ids st1)\<rparr>"
          using assms unknown lower a young Some by (cases r) (auto simp: inline_comment_def)
        have "feeds (eligible True lower) st w st1 w1"
          using lower young by (intro accept_feeds[OF a[unfolded r]]) (simp add: eligible_def)
        then show ?thesis unfolding st' by (rule feeds_remember) simp_all
      qed
    qed
  qed
qed

lemma send_quiet:
  assumes "send_activity item e w = (w', b)" and "comments_sent [(item, e)] = []"
  shows "\<exists>es. aw_sent w' = aw_sent w @ es \<and> comments_sent es = []"
  using assms by (auto simp: send_activity_def split: if_splits)

lemma issue_lookup_sent: "issue_title_and_count issues n w = (w', r) \<Longrightarrow> aw_sent w' = aw_sent w"
  by (auto simp: issue_title_and_count_def split: option.splits sum.splits)

lemma issue_comment_quiet:
  assumes "emit_issue_feed_comment env repo name issues c lower commented st w = (w', Ok (st', commented'))"
  shows "feeds P st w st' w'"
proof -
  have quiet: "\<exists>es. aw_sent w' = aw_sent w @ es \<and> comments_sent es = []"
    "st' = st \<or> st' = st\<lparr>ac_issue_ids := remember_activity_id (fc_id c) (ac_issue_ids st)\<rparr>"
  proof -
    consider (settled) "w' = w" "st' = st \<or> st' = st\<lparr>ac_issue_ids := remember_activity_id (fc_id c) (ac_issue_ids st)\<rparr>"
      | (asked) number w1 r where "issue_title_and_count issues number w = (w1, Inr r)"
          "(case r of None \<Rightarrow> (w1, Ok (st, commented))
            | Some (title, n) \<Rightarrow>
                (case send_activity (IssueComment number (fc_id c))
                        (with_format (gm_format repo) (with_mention (gm_mention repo)
                           (github_issue_commented name number title n (gm_channel repo)))) w1 of
                   (w, True) \<Rightarrow> (w, Ok (st\<lparr>ac_issue_ids := remember_activity_id (fc_id c) (ac_issue_ids st)\<rparr>, number # commented))
                 | (w, False) \<Rightarrow> (w, Err channel_closed))) = (w', Ok (st', commented'))"
    proof (cases "fc_id c \<in> set (ac_issue_ids st)")
      case False
      note unknown = this
      show ?thesis
      proof (cases "issue_number env c")
        case (Some number)
        obtain w1 r where i: "issue_title_and_count issues number w = (w1, r)" by fastforce
        show ?thesis
        proof (cases "(case lower of None \<Rightarrow> False | Some l \<Rightarrow> l \<le> fc_created_at c) \<and> number \<notin> set commented")
          case True
          then obtain x where "r = Inr x"
            using assms unknown Some i by (cases r) (simp_all add: emit_issue_feed_comment_def)
          with True show ?thesis
            using assms unknown Some i asked[of number w1 x]
            by (cases x) (simp_all add: emit_issue_feed_comment_def)
        qed (use assms unknown Some settled in \<open>auto simp: emit_issue_feed_comment_def\<close>)
      qed (use assms unknown settled in \<open>auto simp: emit_issue_feed_comment_def\<close>)
    qed (use assms settled in \<open>auto simp: emit_issue_feed_comment_def\<close>)
    then show "\<exists>es. aw_sent w' = aw_sent w @ es \<and> comments_sent es = []"
      "st' = st \<or> st' = st\<lparr>ac_issue_ids := remember_activity_id (fc_id c) (ac_issue_ids st)\<rparr>"
      using issue_lookup_sent by (cases; fastforce simp: send_activity_def split: option.splits prod.splits if_splits)+
  qed
  then obtain es where "aw_sent w' = aw_sent w @ es" "comments_sent es = []" by blast
  then show ?thesis by (rule feeds_quiet) (use quiet(2) in auto)
qed

lemma conversation_comments_feeds:
  assumes "conversation_comments env repo name prs issues lower cs commented st w = (w', Ok st')"
  shows "feeds (\<lambda>c. gm_emit_pr_activity repo \<and> eligible False lower c) st w st' w'"
  using assms
proof (induction cs arbitrary: commented st w)
  case (Cons c cs)
  let ?P = "\<lambda>c. gm_emit_pr_activity repo \<and> eligible False lower c"
  show ?case
  proof (cases "pr_number env c")
    case None
    show ?thesis
    proof (cases "gm_emit_issue_opened repo")
      case True
      obtain w1 r where i: "emit_issue_feed_comment env repo name issues c lower commented st w = (w1, r)" by fastforce
      then obtain st1 com where r: "r = Inr (st1, com)"
        and go: "conversation_comments env repo name prs issues lower cs com st1 w1 = (w', Ok st')"
        using Cons.prems None True by (cases r) auto
      show ?thesis using feeds_trans[OF issue_comment_quiet[OF i[unfolded r]] Cons.IH[OF go]] .
    qed (use Cons None in simp)
  next
    case (Some number)
    show ?thesis
    proof (cases "gm_emit_pr_activity repo")
      case True
      obtain w1 r where i: "conversation_comment repo name prs lower number c st w = (w1, r)" by fastforce
      then obtain st1 where r: "r = Inr st1"
        and go: "conversation_comments env repo name prs issues lower cs commented st1 w1 = (w', Ok st')"
        using Cons.prems Some True by (cases r) auto
      have "feeds ?P st w st1 w1"
        by (rule feeds_mono[OF conversation_feeds[OF i[unfolded r]]]) (simp add: True)
      then show ?thesis using Cons.IH[OF go] by (rule feeds_trans)
    qed (use Cons Some in simp)
  qed
qed simp

lemma inline_comments_feeds:
  assumes "inline_comments repo name prs lower cs st w = (w', Ok st')"
  shows "feeds (eligible True lower) st w st' w'"
  using assms
proof (induction cs arbitrary: st w)
  case (Cons c cs)
  obtain w1 r where i: "inline_comment repo name prs lower c st w = (w1, r)" by fastforce
  then obtain st1 where r: "r = Inr st1" and go: "inline_comments repo name prs lower cs st1 w1 = (w', Ok st')"
    using Cons.prems by (cases r) auto
  show ?case using feeds_trans[OF inline_feeds[OF i[unfolded r]] Cons.IH[OF go]] .
qed simp

lemma pages_sent: "aw_sent (fst (feed_pages key url newest ask n page seen entries d w)) = aw_sent w"
proof (induction n arbitrary: page seen entries d w newest)
  case (Suc n)
  show ?case
  proof (cases "ask w (aw_step w)")
    case (Inr p)
    show ?thesis
    proof (cases newest)
      case True
      then show ?thesis by (simp add: Inr)
    next
      case False
      show ?thesis
        unfolding feed_pages.simps Let_def Inr sum.case
        using False by (cases "fp_next p") (simp_all add: Suc.IH)
    qed
  qed simp
qed simp

lemma fetch_sent:
  "fetch_pr_activity_pages env endpoint feed cursor ask w = (w', r) \<Longrightarrow> aw_sent w' = aw_sent w"
  using pages_sent unfolding fetch_pr_activity_pages_def Let_def by (metis fst_conv)

section \<open>A whole poll\<close>

text \<open>The queue between two states of a poll, whatever happened to the positions.\<close>

definition passes ::
    "(pending_comment \<Rightarrow> bool) \<Rightarrow> activity_state \<Rightarrow> activity_world \<Rightarrow> activity_state \<Rightarrow> activity_world \<Rightarrow> bool" where
  "passes P st w st' w' \<longleftrightarrow>
     (\<exists>acc. flow w w' (ac_pending st) (ac_pending st') acc \<and> (\<forall>c \<in> set acc. P c))"

lemma feeds_carries: "feeds P st w st' w' \<Longrightarrow> passes P st w st' w'"
  by (auto simp: feeds_def passes_def)

lemma passes_trans:
  assumes "passes P st w st' w'" and "passes P st' w' st'' w''"
  shows "passes P st w st'' w''"
proof -
  obtain as bs where "flow w w' (ac_pending st) (ac_pending st') as" "\<forall>c \<in> set as. P c"
    and "flow w' w'' (ac_pending st') (ac_pending st'') bs" "\<forall>c \<in> set bs. P c"
    using assms by (auto simp: passes_def)
  then show ?thesis unfolding passes_def using flow_trans by (intro exI[of _ "as @ bs"]) auto
qed

lemma passes_mono: "passes P st w st' w' \<Longrightarrow> (\<And>c. P c \<Longrightarrow> Q c) \<Longrightarrow> passes Q st w st' w'"
  unfolding passes_def by blast

lemma passes_same:
  "passes P st w st' w' \<Longrightarrow> ac_pending st'' = ac_pending st' \<Longrightarrow> passes P st w st'' w'"
  "passes P st w st' w' \<Longrightarrow> ac_pending st0 = ac_pending st \<Longrightarrow> aw_sent w0 = aw_sent w \<Longrightarrow> passes P st0 w0 st' w'"
  by (simp_all add: passes_def flow_def)

lemma passes_quiet:
  "aw_sent w' = aw_sent w @ es \<Longrightarrow> comments_sent es = [] \<Longrightarrow> ac_pending st' = ac_pending st \<Longrightarrow> passes P st w st' w'"
  unfolding passes_def by (intro exI[of _ "[]"]) (auto simp: flow_def)

lemma drain_carries:
  assumes "drain_pending_comments repo name prs lk st w = (w', Ok (st', lk'))"
  shows "passes P st w st' w'" and "positions st' = positions st"
  using drain_pending_flow[OF assms] by (auto simp: passes_def intro: exI[of _ "[]"])

lemma conversation_carries:
  assumes "poll_conversation env gr repo name prs issues st w = (w', Ok st')"
  shows "passes (\<lambda>c. eligible False (ac_pr_lower st) c) st w st' w'"
proof -
  let ?pr = "gm_emit_pr_activity repo"
  let ?cursor = "if ?pr then ac_pr_cursor st else ac_issue_cursor st"
  let ?lower = "if ?pr then ac_pr_lower st else ac_issue_lower st"
  obtain w1 r where f: "fetch_pr_activity_pages env (''repos/'' @ gr @ ''/issues/comments'') True ?cursor aw_comments w = (w1, r)"
    by fastforce
  show ?thesis
  proof (cases r)
    case (Inl e)
    then show ?thesis
      using assms f fetch_sent[OF f] by (auto simp: poll_conversation_def Let_def intro!: passes_quiet[of _ _ "[]"])
  next
    case (Inr x)
    obtain comments complete d where x: "x = (comments, complete, d)" by (metis prod_cases3)
    obtain w2 r2 where c: "conversation_comments env repo name prs issues ?lower comments [] st w1 = (w2, r2)" by fastforce
    obtain st1 where r2: "r2 = Inr st1" and rest: "w' = w2" "ac_pending st' = ac_pending st1"
      using assms f c by (cases r2) (auto simp: poll_conversation_def Let_def Inr x split: sum.splits)
    have "passes (\<lambda>c. ?pr \<and> eligible False ?lower c) st w1 st1 w2"
      using conversation_comments_feeds[OF c[unfolded r2]] by (rule feeds_carries)
    then have "passes (\<lambda>c. eligible False (ac_pr_lower st) c) st w1 st1 w2" by (rule passes_mono) auto
    then show ?thesis using rest fetch_sent[OF f] by (auto intro: passes_same)
  qed
qed

lemma conversation_review_lower:
  assumes "poll_conversation env gr repo name prs issues st w = (w', Ok st')"
  shows "ac_review_lower st' = ac_review_lower st"
proof -
  let ?pr = "gm_emit_pr_activity repo"
  let ?cursor = "if ?pr then ac_pr_cursor st else ac_issue_cursor st"
  let ?lower = "if ?pr then ac_pr_lower st else ac_issue_lower st"
  obtain w1 r where f: "fetch_pr_activity_pages env (''repos/'' @ gr @ ''/issues/comments'') True ?cursor aw_comments w = (w1, r)"
    by fastforce
  show ?thesis
  proof (cases r)
    case (Inl e)
    then show ?thesis using assms f by (auto simp: poll_conversation_def Let_def)
  next
    case (Inr x)
    obtain comments complete d where x: "x = (comments, complete, d)" by (metis prod_cases3)
    obtain w2 r2 where c: "conversation_comments env repo name prs issues ?lower comments [] st w1 = (w2, r2)" by fastforce
    obtain st1 where r2: "r2 = Inr st1" and rest: "ac_review_lower st' = ac_review_lower st1"
      using assms f c by (cases r2) (auto simp: poll_conversation_def Let_def Inr x split: sum.splits)
    show ?thesis
      using conversation_comments_feeds[OF c[unfolded r2]] rest by (simp add: feeds_def positions_def)
  qed
qed

lemma inline_carries:
  assumes "poll_inline env gr repo name prs st w = (w', Ok st')"
  shows "passes (eligible True (ac_review_lower st)) st w st' w'"
proof -
  obtain w1 r where f: "fetch_pr_activity_pages env (''repos/'' @ gr @ ''/pulls/comments'') True (ac_review_cursor st)
      aw_review_comments w = (w1, r)"
    by fastforce
  show ?thesis
  proof (cases r)
    case (Inl e)
    then show ?thesis
      using assms f fetch_sent[OF f] by (auto simp: poll_inline_def Let_def intro!: passes_quiet[of _ _ "[]"])
  next
    case (Inr x)
    obtain comments complete d where x: "x = (comments, complete, d)" by (metis prod_cases3)
    obtain w2 r2 where c: "inline_comments repo name prs (ac_review_lower st) comments st w1 = (w2, r2)" by fastforce
    obtain st1 where r2: "r2 = Inr st1" and rest: "w' = w2" "ac_pending st' = ac_pending st1"
      using assms f c by (cases r2) (auto simp: poll_inline_def Let_def Inr x split: sum.splits)
    have "passes (eligible True (ac_review_lower st)) st w1 st1 w2"
      using inline_comments_feeds[OF c[unfolded r2]] by (rule feeds_carries)
    then show ?thesis using rest fetch_sent[OF f] by (auto intro: passes_same)
  qed
qed

text \<open>The scan of reviews leaves the queue alone and announces reviews only.\<close>

definition uncommented :: "activity_state \<Rightarrow> activity_world \<Rightarrow> activity_state \<Rightarrow> activity_world \<Rightarrow> bool" where
  "uncommented st w st' w' \<longleftrightarrow>
     ac_pending st' = ac_pending st \<and> (\<exists>es. aw_sent w' = aw_sent w @ es \<and> comments_sent es = [])"

lemma uncommented_refl [simp]: "uncommented st w st w"
  by (simp add: uncommented_def)

lemma uncommented_trans: "uncommented st w st' w' \<Longrightarrow> uncommented st' w' st'' w'' \<Longrightarrow> uncommented st w st'' w''"
  by (force simp: uncommented_def)

lemma uncommented_carries: "uncommented st w st' w' \<Longrightarrow> passes P st w st' w'"
  using passes_quiet by (auto simp: uncommented_def)

lemma uncommented_same: "aw_sent w' = aw_sent w \<Longrightarrow> ac_pending st' = ac_pending st \<Longrightarrow> uncommented st w st' w'"
  by (simp add: uncommented_def)

lemma one_review_quiet:
  assumes "one_review repo name lower number pr r st w = (w', Ok st')"
  shows "uncommented st w st' w'"
  using assms
  by (auto simp: one_review_def send_activity_def uncommented_def Let_def split: option.splits if_splits)

lemma each_review_quiet:
  assumes "each_review repo name lower number pr rs st w = (w', Ok st')"
  shows "uncommented st w st' w'"
  using assms
proof (induction rs arbitrary: st w)
  case (Cons r rs)
  obtain w1 x where o: "one_review repo name lower number pr r st w = (w1, x)" by fastforce
  then obtain st1 where x: "x = Inr st1" and go: "each_review repo name lower number pr rs st1 w1 = (w', Ok st')"
    using Cons.prems by (cases x) auto
  show ?case using uncommented_trans[OF one_review_quiet[OF o[unfolded x]] Cons.IH[OF go]] .
qed simp

lemma run_scan_quiet:
  assumes "run_scan env gr repo name n scan st w = (w', Ok (st', scan'))"
  shows "uncommented st w st' w'"
  using assms
proof (induction n arbitrary: scan st w)
  case (Suc n)
  show ?case
  proof (cases "sc_pending scan")
    case (Cons number rest)
    then obtain pr where pr: "hm_get (sc_prs scan) number = Some pr" using Suc.prems by (auto split: option.splits)
    obtain w1 x where f: "fetch_pr_activity_pages env (''repos/'' @ gr @ ''/pulls/'' @ show_nat number @ ''/reviews'')
        False None aw_reviews w = (w1, x)" by fastforce
    have sent: "aw_sent w1 = aw_sent w" using fetch_sent[OF f] .
    show ?thesis
    proof (cases x)
      case (Inl e)
      then show ?thesis using Suc.prems Cons pr f sent by (auto intro: uncommented_same)
    next
      case (Inr y)
      obtain reviews all d where y: "y = (reviews, all, d)" by (metis prod_cases3)
      obtain w2 z where e: "each_review repo name (sc_lower scan) number pr reviews st w1 = (w2, z)" by fastforce
      obtain st1 where z: "z = Inr st1" and go:
        "(if all then run_scan env gr repo name n (scan\<lparr>sc_pending := rest\<rparr>) st1 w2 else (w2, Ok (st1, scan))) = (w', Ok (st', scan'))"
        using Suc.prems Cons pr f Inr y e by (cases z) auto
      have first: "uncommented st w st1 w2"
        using uncommented_trans[OF uncommented_same[OF sent refl] each_review_quiet[OF e[unfolded z]]] .
      show ?thesis
      proof (cases all)
        case True
        then show ?thesis using uncommented_trans[OF first Suc.IH] go by simp
      qed (use go first in auto)
    qed
  qed (use Suc in auto)
qed simp

lemma reviews_quiet:
  assumes "poll_reviews env gr repo name prs complete cutoff st w = (w', Ok st')"
  shows "uncommented st w st' w'"
proof (cases "ac_scan st = None \<and> \<not> complete \<and> prs = []")
  case True
  then show ?thesis using assms by (simp add: poll_reviews_def)
next
  case False
  let ?scan = "case ac_scan st of Some scan \<Rightarrow> scan | None \<Rightarrow> build_scan env prs cutoff st"
  obtain w1 r where s: "run_scan env gr repo name MAX_REVIEW_FETCH_PRS ?scan (st\<lparr>ac_scan := None\<rparr>) w = (w1, r)" by fastforce
  have "poll_reviews env gr repo name prs complete cutoff st w =
      (case (w1, r) of (w, Inl e) \<Rightarrow> (w, Err e)
       | (w, Inr (st, scan)) \<Rightarrow> (w, Ok (if sc_pending scan = [] then st\<lparr>ac_watermark := Some (sc_upper scan)\<rparr> else st\<lparr>ac_scan := Some scan\<rparr>)))"
    unfolding poll_reviews_def Let_def s using False by auto
  then obtain st1 scan where r: "r = Inr (st1, scan)" and w: "w' = w1" and p: "ac_pending st' = ac_pending st1"
    using assms by (cases r) (auto split: if_splits)
  have "uncommented (st\<lparr>ac_scan := None\<rparr>) w st1 w1" using run_scan_quiet[OF s[unfolded r]] .
  then show ?thesis using w p by (simp add: uncommented_def)
qed

text \<open>
  What one poll announced and what waits afterwards is what waited before and what the feeds accepted, and
  those comments were created at or after the bound their feed had when the poll began.
\<close>

lemma refresh_titles_fields:
  "ac_pending (refresh_titles prs st) = ac_pending st \<and> positions (refresh_titles prs st) = positions st"
  unfolding refresh_titles_def
  by (induction prs arbitrary: st) (auto split: prod.splits)

lemma bind_state_ok:
  assumes "bind_state r f = (w', Ok y)"
  obtains w x where "r = (w, Ok x)" and "f x w = (w', Ok y)"
  using assms by (auto simp: bind_state_def split: prod.splits sum.splits)

lemma poll_stages:
  assumes "poll_pr_activity env gr repo name prs issues complete cutoff st w = (w', Ok st')"
    and "gm_emit_pr_activity repo \<or> gm_emit_issue_opened repo"
  obtains w1 st1 lk1 w2 st2
  where "drain_pending_comments repo name prs \<lparr>lk_attempted = [], lk_counted = []\<rparr> (refresh_titles prs st) w = (w1, Ok (st1, lk1))"
    and "poll_conversation env gr repo name prs issues st1 w1 = (w2, Ok st2)"
    and "\<not> gm_emit_pr_activity repo \<longrightarrow> w' = w2 \<and> st' = st2"
    and "gm_emit_pr_activity repo \<longrightarrow> (\<exists>w3 st3 w4 st4 lk4.
      poll_inline env gr repo name prs st2 w2 = (w3, Ok st3) \<and>
      drain_pending_comments repo name prs lk1 st3 w3 = (w4, Ok (st4, lk4)) \<and>
      poll_reviews env gr repo name prs complete cutoff st4 w4 = (w', Ok st'))"
proof -
  let ?lk = "\<lparr>lk_attempted = [], lk_counted = []\<rparr>"
  let ?st = "refresh_titles prs st"
  let ?tail = "\<lambda>lk st w. if \<not> gm_emit_pr_activity repo then (w, Ok st)
      else bind_state (poll_inline env gr repo name prs st w) (\<lambda>st w.
        bind_state (drain_pending_comments repo name prs lk st w) (\<lambda>(st, _) w.
        poll_reviews env gr repo name prs complete cutoff st w))"
  have "bind_state (drain_pending_comments repo name prs ?lk ?st w) (\<lambda>(st, lk) w.
      bind_state (poll_conversation env gr repo name prs issues st w) (?tail lk)) = (w', Ok st')"
    using assms unfolding poll_pr_activity_def by (simp split: if_split_asm)
  then obtain w1 st1 lk1 where d: "drain_pending_comments repo name prs ?lk ?st w = (w1, Ok (st1, lk1))"
    and rest1: "bind_state (poll_conversation env gr repo name prs issues st1 w1) (?tail lk1) = (w', Ok st')"
    by (rule bind_state_ok) (metis (no_types, lifting) old.prod.case surj_pair)
  obtain w2 st2 where c: "poll_conversation env gr repo name prs issues st1 w1 = (w2, Ok st2)"
    and rest2: "?tail lk1 st2 w2 = (w', Ok st')"
    using rest1 by (rule bind_state_ok)
  show thesis
  proof (rule that[OF d c])
    show "gm_emit_pr_activity repo \<longrightarrow> (\<exists>w3 st3 w4 st4 lk4.
      poll_inline env gr repo name prs st2 w2 = (w3, Ok st3) \<and>
      drain_pending_comments repo name prs lk1 st3 w3 = (w4, Ok (st4, lk4)) \<and>
      poll_reviews env gr repo name prs complete cutoff st4 w4 = (w', Ok st'))"
      using rest2 by (auto elim!: bind_state_ok)
  qed (use rest2 in auto)
qed

lemma poll_carries:
  assumes "poll_pr_activity env gr repo name prs issues complete cutoff st w = (w', Ok st')"
  shows "passes (\<lambda>c. eligible False (ac_pr_lower st) c \<or> eligible True (ac_review_lower st) c) st w st' w'"
    (is "passes ?P st w st' w'")
proof (cases "gm_emit_pr_activity repo \<or> gm_emit_issue_opened repo")
  case True
  from assms True obtain w1 st1 lk1 w2 st2
    where d: "drain_pending_comments repo name prs \<lparr>lk_attempted = [], lk_counted = []\<rparr> (refresh_titles prs st) w = (w1, Ok (st1, lk1))"
      and c: "poll_conversation env gr repo name prs issues st1 w1 = (w2, Ok st2)"
      and stop: "\<not> gm_emit_pr_activity repo \<longrightarrow> w' = w2 \<and> st' = st2"
      and more: "gm_emit_pr_activity repo \<longrightarrow> (\<exists>w3 st3 w4 st4 lk4.
        poll_inline env gr repo name prs st2 w2 = (w3, Ok st3) \<and>
        drain_pending_comments repo name prs lk1 st3 w3 = (w4, Ok (st4, lk4)) \<and>
        poll_reviews env gr repo name prs complete cutoff st4 w4 = (w', Ok st'))"
    by (rule poll_stages)
  have p0: "ac_pending (refresh_titles prs st) = ac_pending st" "positions (refresh_titles prs st) = positions st"
    using refresh_titles_fields[of prs st] by auto
  have p1: "ac_pr_lower st1 = ac_pr_lower st" "ac_review_lower st1 = ac_review_lower st"
    using drain_carries(2)[OF d] p0 by (auto simp: positions_def)
  have "passes ?P st w st1 w1"
    using passes_same(2)[OF drain_carries(1)[OF d], of st w] p0 by simp
  moreover have "passes ?P st1 w1 st2 w2"
    using conversation_carries[OF c] by (rule passes_mono) (simp add: p1)
  ultimately have first: "passes ?P st w st2 w2" by (rule passes_trans)
  show ?thesis
  proof (cases "gm_emit_pr_activity repo")
    case False
    then show ?thesis using stop first by simp
  next
    case True
    then obtain w3 st3 w4 st4 lk4 where i: "poll_inline env gr repo name prs st2 w2 = (w3, Ok st3)"
      and d2: "drain_pending_comments repo name prs lk1 st3 w3 = (w4, Ok (st4, lk4))"
      and v: "poll_reviews env gr repo name prs complete cutoff st4 w4 = (w', Ok st')"
      using more by blast
    have "passes ?P st2 w2 st3 w3"
      using inline_carries[OF i] by (rule passes_mono) (simp add: conversation_review_lower[OF c] p1)
    then show ?thesis
      using first drain_carries(1)[OF d2] uncommented_carries[OF reviews_quiet[OF v]] by (meson passes_trans)
  qed
qed (use assms in \<open>auto simp: poll_pr_activity_def intro!: uncommented_carries\<close>)

end
