(* ===== verification/GithubActivityBounds.thy ===== *)
theory GithubActivityBounds imports GithubActivityCorrect begin

text \<open>
  The state of the activity feeds between polls: the bounds of its queues and caches, and the facts its
  \<open>unwrap\<close> calls and index operations rest on. A judgement \<open>yields\<close> in the style of Hoare logic says what
  an operation returns and which errors it can end with, and is passed through a poll by one rule.
\<close>

section \<open>The invariant\<close>

definition metadata_ok :: "activity_state \<Rightarrow> bool" where
  "metadata_ok st \<longleftrightarrow>
     distinct (ac_metadata_order st) \<and> set (ac_metadata_order st) = fst ` set (ac_metadata st) \<and>
     length (ac_metadata_order st) \<le> MAX_PR_METADATA_CACHE"

definition ids_ok :: "nat list \<Rightarrow> bool" where
  "ids_ok ids \<longleftrightarrow> distinct ids \<and> length ids \<le> MAX_EMITTED_COMMENT_IDS"

definition scan_ok :: "review_scan \<Rightarrow> bool" where
  "scan_ok scan \<longleftrightarrow> (\<forall>n \<in> set (sc_pending scan). hm_has (sc_prs scan) n)"

definition queue_ok :: "pending_comment list \<Rightarrow> bool" where
  "queue_ok ps \<longleftrightarrow> length ps \<le> MAX_PENDING_PR_COMMENTS \<and> (\<forall>c \<in> set ps. pn_attempts c < MAX_METADATA_ATTEMPTS)"

definition paired :: "string option \<Rightarrow> string option \<Rightarrow> bool" where
  "paired cursor lower \<longleftrightarrow> (cursor = None) = (lower = None)"

definition activity_ok :: "activity_state \<Rightarrow> bool" where
  "activity_ok st \<longleftrightarrow>
     queue_ok (ac_pending st) \<and> metadata_ok st \<and>
     ids_ok (ac_issue_ids st) \<and> ids_ok (ac_pr_ids st) \<and> ids_ok (ac_review_comment_ids st) \<and> ids_ok (ac_review_ids st) \<and>
     paired (ac_issue_cursor st) (ac_issue_lower st) \<and> paired (ac_pr_cursor st) (ac_pr_lower st) \<and>
     paired (ac_review_cursor st) (ac_review_lower st) \<and> (\<forall>scan. ac_scan st = Some scan \<longrightarrow> scan_ok scan)"

lemma fresh_activity_ok: "activity_ok fresh_activity"
  by (simp add: fresh_activity_def activity_ok_def queue_ok_def metadata_ok_def ids_ok_def paired_def)

lemma remember_ids_ok [wf_intros]: "ids_ok ids \<Longrightarrow> ids_ok (remember_activity_id i ids)"
proof (cases "i \<in> set ids")
  case False
  assume ok: "ids_ok ids"
  have "distinct (tl (ids @ [i]))" using ok False by (intro distinct_tl) (simp add: ids_ok_def)
  then show ?thesis
    using ok False unfolding ids_ok_def remember_activity_id_def Let_def by auto
qed (simp add: remember_activity_id_def)

lemma remove_ids_ok [wf_intros]: "ids_ok ids \<Longrightarrow> ids_ok (remove1 i ids)"
  by (auto simp: ids_ok_def length_remove1)

lemma cache_metadata_ok:
  assumes "metadata_ok st"
  shows "metadata_ok (cache_pr_metadata n m st)"
proof (cases "hm_has (ac_metadata st) n")
  case True
  then have "n \<in> fst ` set (ac_metadata st)" using hm_get_None[of "ac_metadata st" n] by (auto simp: hm_has_def)
  then show ?thesis
    using assms True by (auto simp: metadata_ok_def cache_pr_metadata_def keys_hm_put insert_absorb)
next
  case False
  then have new: "n \<notin> set (ac_metadata_order st)"
    using assms hm_get_None[of "ac_metadata st" n] by (auto simp: metadata_ok_def hm_has_def)
  have removed: "fst ` set (hm_remove k h) = fst ` set h - {k}" for k and h :: "(nat, pr_metadata option) hmap"
    by (force simp: hm_remove_def)
  show ?thesis
  proof (cases "ac_metadata_order st")
    case Nil
    then show ?thesis
      using assms False by (auto simp: metadata_ok_def cache_pr_metadata_def Let_def MAX_PR_METADATA_CACHE_def keys_hm_put)
  next
    case (Cons old order)
    then show ?thesis
      using assms False new
      by (auto simp: metadata_ok_def cache_pr_metadata_def Let_def keys_hm_put removed)
  qed
qed

lemma cache_other_fields [simp]:
  "ac_issue_ids (cache_pr_metadata n m st) = ac_issue_ids st"
  "ac_pr_ids (cache_pr_metadata n m st) = ac_pr_ids st"
  "ac_review_comment_ids (cache_pr_metadata n m st) = ac_review_comment_ids st"
  "ac_review_ids (cache_pr_metadata n m st) = ac_review_ids st"
  by (simp_all add: cache_pr_metadata_def Let_def)

lemma cache_ok [wf_intros]: "activity_ok st \<Longrightarrow> activity_ok (cache_pr_metadata n m st)"
  using cache_metadata_ok by (simp add: activity_ok_def)

lemma refresh_ok [wf_intros]: "activity_ok st \<Longrightarrow> activity_ok (refresh_delivered_comment_id c st)"
  by (auto simp: refresh_delivered_comment_id_def activity_ok_def metadata_ok_def intro: wf_intros)

lemma known_ok: "known_pr_metadata n prs st = (st', known) \<Longrightarrow> activity_ok st \<Longrightarrow> activity_ok st'"
  by (auto simp: known_pr_metadata_def Let_def split: option.splits intro: wf_intros)

lemma activity_ok_pending: "activity_ok st \<Longrightarrow> queue_ok ps \<Longrightarrow> activity_ok (st\<lparr>ac_pending := ps\<rparr>)"
  by (simp add: activity_ok_def metadata_ok_def)

lemma activity_ok_ids [wf_intros]:
  "activity_ok st \<Longrightarrow> activity_ok (st\<lparr>ac_pr_ids := remember_activity_id i (ac_pr_ids st)\<rparr>)"
  "activity_ok st \<Longrightarrow> activity_ok (st\<lparr>ac_issue_ids := remember_activity_id i (ac_issue_ids st)\<rparr>)"
  "activity_ok st \<Longrightarrow> activity_ok (st\<lparr>ac_review_comment_ids := remember_activity_id i (ac_review_comment_ids st)\<rparr>)"
  "activity_ok st \<Longrightarrow> activity_ok (st\<lparr>ac_review_ids := remember_activity_id i (ac_review_ids st)\<rparr>)"
  by (simp_all add: activity_ok_def metadata_ok_def remember_ids_ok)

section \<open>What an operation yields\<close>

text \<open>
  The surroundings an operation leaves satisfy \<open>W\<close>; it ends with an error of \<open>E\<close> or with a result of \<open>Q\<close>.
\<close>

definition yields ::
    "(activity_world \<Rightarrow> bool) \<Rightarrow> (string \<Rightarrow> bool) \<Rightarrow> ('a \<Rightarrow> bool) \<Rightarrow> activity_world \<times> (string + 'a) \<Rightarrow> bool" where
  "yields W E Q r \<longleftrightarrow> W (fst r) \<and> (case snd r of Inl e \<Rightarrow> E e | Inr x \<Rightarrow> Q x)"

text \<open>
  The look-ups of issues are answered as before; an error is that of a closed channel or of such a look-up,
  never that of an \<open>unwrap\<close> or an index.
\<close>

abbreviation safe :: "(nat \<Rightarrow> string + github_issue) \<Rightarrow> ('a \<Rightarrow> bool) \<Rightarrow> activity_world \<times> (string + 'a) \<Rightarrow> bool" where
  "safe issue \<equiv> yields (\<lambda>w. aw_issue w = issue) (\<lambda>e. e = channel_closed \<or> (\<exists>k. issue k = Inl e))"

named_theorems yield_intros

lemma yields_ok [yield_intros]: "W w \<Longrightarrow> Q x \<Longrightarrow> yields W E Q (w, Ok x)"
  by (simp add: yields_def)

lemma yields_error: "W w \<Longrightarrow> E e \<Longrightarrow> yields W E Q (w, Err e)"
  by (simp add: yields_def)

lemma yields_bind [yield_intros]:
  assumes "yields W E P r" and "\<And>w x. W w \<Longrightarrow> P x \<Longrightarrow> yields W E Q (f w x)"
  shows "yields W E Q (case r of (w, Inl e) \<Rightarrow> (w, Err e) | (w, Inr x) \<Rightarrow> f w x)"
proof (cases r)
  case (Pair w x)
  then show ?thesis
    using assms(1) assms(2)[of w] by (cases x) (auto simp: yields_def)
qed

lemma yields_bind_state [yield_intros]:
  assumes "yields W E P r" and "\<And>w x. W w \<Longrightarrow> P x \<Longrightarrow> yields W E Q (f x w)"
  shows "yields W E Q (bind_state r f)"
  unfolding bind_state_def by (rule yields_bind[OF assms])

lemma tick_issue [simp]: "aw_issue (aw_tick w) = aw_issue w"
  by (simp add: aw_tick_def)

lemma send_issue: "send_activity item e w = (w', b) \<Longrightarrow> aw_issue w' = aw_issue w"
  by (auto simp: send_activity_def split: if_splits)

lemma yields_send [yield_intros]:
  assumes "aw_issue w = issue" and "\<And>w. aw_issue w = issue \<Longrightarrow> safe issue Q (w, Ok x)"
  shows "safe issue Q (case send_activity item e w of (w, True) \<Rightarrow> (w, Ok x) | (w, False) \<Rightarrow> (w, Err channel_closed))"
  using assms send_issue by (auto intro: yields_error split: prod.splits bool.splits)

section \<open>Comments\<close>

lemma yields_deliver [yield_intros]:
  assumes "aw_issue w = issue" and "activity_ok st"
  shows "safe issue (\<lambda>st'. activity_ok st' \<and> ac_pending st' = ac_pending st) (deliver_comment c m repo name st w)"
  unfolding deliver_comment_def emit_pending_comment_def
  using assms by (intro yields_send yields_ok conjI refresh_ok) simp_all

lemma resolve_ok:
  assumes "resolve_pr_metadata n st w = (w', st', l)"
  shows "aw_issue w' = aw_issue w" and "activity_ok st \<Longrightarrow> activity_ok st'"
  using assms by (auto simp: resolve_pr_metadata_def Let_def split: metadata_answer.splits if_splits intro: wf_intros)

lemma lookup_ok:
  assumes "lookup_for_comment c prs lk st w = (w', st', lk')"
  shows "aw_issue w' = aw_issue w" and "activity_ok st \<Longrightarrow> activity_ok st'"
proof -
  obtain st1 known where k: "known_pr_metadata (pn_number c) prs st = (st1, known)" by fastforce
  obtain w2 st2 l where r: "resolve_pr_metadata (pn_number c) st1 w = (w2, st2, l)" by (metis prod_cases3)
  show "aw_issue w' = aw_issue w" "activity_ok st \<Longrightarrow> activity_ok st'"
    using assms known_ok[OF k] resolve_ok[OF r] by (auto simp: lookup_for_comment_def k r split: if_splits)
qed

lemma yields_drain_comments:
  assumes "aw_issue w = issue" and "activity_ok st" and "queue_ok retained" and "ac_pending st = []"
    and "length retained + length cs \<le> MAX_PENDING_PR_COMMENTS"
  shows "safe issue (\<lambda>(st', _). activity_ok st') (drain_comments repo name prs cs retained lk st w)"
  using assms
proof (induction cs arbitrary: retained lk st w)
  case Nil
  then show ?case by (auto intro!: yields_ok activity_ok_pending)
next
  case (Cons c cs)
  obtain w1 st1 lk1 where l: "lookup_for_comment c prs lk st w = (w1, st1, lk1)" by (metis prod_cases3)
  obtain st2 known where k: "known_pr_metadata (pn_number c) prs st1 = (st2, known)" by fastforce
  have w1: "aw_issue w1 = issue" and st2: "activity_ok st2" and empty: "ac_pending st2 = []"
    using lookup_ok[OF l] known_ok[OF k] positions_lookup[OF l] positions_known[OF k] Cons.prems by auto
  have deliver: "safe issue (\<lambda>(st', _). activity_ok st')
      (case deliver_comment x m repo name st2 w1 of (w, Inl e) \<Rightarrow> (w, Err e)
       | (w, Inr st) \<Rightarrow> drain_comments repo name prs cs retained lk3 st w)" for x m lk3
    by (rule yields_bind[OF yields_deliver[OF w1 st2]]) (use Cons.IH Cons.prems empty in auto)
  show ?case
  proof (cases known)
    case (Some m)
    then show ?thesis using deliver l k by simp
  next
    case None
    obtain c' lk2 where c': "count_attempt c lk1 = (c', lk2)" by fastforce
    show ?thesis
    proof (cases "MAX_METADATA_ATTEMPTS \<le> pn_attempts c'")
      case True
      then show ?thesis using deliver l k None c' by simp
    next
      case False
      then have "queue_ok (retained @ [c'])" using Cons.prems by (auto simp: queue_ok_def)
      then have "safe issue (\<lambda>(st', _). activity_ok st') (drain_comments repo name prs cs (retained @ [c']) lk2 st2 w1)"
        using Cons.prems w1 st2 empty by (intro Cons.IH) auto
      then show ?thesis using l k None c' False by simp
    qed
  qed
qed

lemma yields_drain [yield_intros]:
  assumes "aw_issue w = issue" and "activity_ok st"
  shows "safe issue (\<lambda>(st', _). activity_ok st') (drain_pending_comments repo name prs lk st w)"
  unfolding drain_pending_comments_def
  using assms by (intro yields_drain_comments activity_ok_pending) (auto simp: activity_ok_def queue_ok_def)

lemma yields_accept [yield_intros]:
  assumes "aw_issue w = issue" and "activity_ok st" and fresh: "pn_attempts c = 0"
  shows "safe issue activity_ok (accept_activity_comment repo name prs c st w)"
proof -
  obtain st1 known where k: "known_pr_metadata (pn_number c) prs st = (st1, known)" by fastforce
  have ok: "activity_ok st1" using known_ok[OF k] assms by simp
  have queue: "queue_ok (ac_pending st1)" using ok by (simp add: activity_ok_def)
  have joined: "activity_ok (s\<lparr>ac_pending := ps @ [c]\<rparr>)"
    if "activity_ok s" "queue_ok ps" "length ps < MAX_PENDING_PR_COMMENTS" for s ps
    using that fresh by (intro activity_ok_pending) (auto simp: queue_ok_def MAX_METADATA_ATTEMPTS_def)
  show ?thesis
  proof (cases known)
    case (Some m)
    then show ?thesis
      using ok assms by (auto simp: accept_activity_comment_def k emit_pending_comment_def intro!: yield_intros)
  next
    case None
    show ?thesis
    proof (cases "length (ac_pending st1) = MAX_PENDING_PR_COMMENTS")
      case False
      then have "length (ac_pending st1) < MAX_PENDING_PR_COMMENTS" using queue by (simp add: queue_ok_def)
      then show ?thesis
        using ok queue assms False None by (auto simp: accept_activity_comment_def k intro!: yields_ok joined)
    next
      case True
      then obtain oldest rest where full: "ac_pending st1 = oldest # rest"
        by (cases "ac_pending st1") (auto simp: MAX_PENDING_PR_COMMENTS_def)
      have rest: "queue_ok rest" "length rest < MAX_PENDING_PR_COMMENTS"
        using queue full by (auto simp: queue_ok_def)
      obtain st2 known2 where k2: "known_pr_metadata (pn_number oldest) prs (st1\<lparr>ac_pending := rest\<rparr>) = (st2, known2)"
        by fastforce
      have st2: "activity_ok st2" "ac_pending st2 = rest"
        using known_ok[OF k2] positions_known[OF k2] activity_ok_pending[OF ok rest(1)] by auto
      have "safe issue activity_ok
          (case deliver_comment oldest (Option.bind known2 (\<lambda>m. m)) repo name st2 w of (w, Inl e) \<Rightarrow> (w, Err e)
           | (w, Inr st) \<Rightarrow> (w, Ok (st\<lparr>ac_pending := ac_pending st @ [c]\<rparr>)))"
        by (rule yields_bind[OF yields_deliver[OF assms(1) st2(1)]]) (use st2 rest joined in \<open>auto intro!: yields_ok\<close>)
      then show ?thesis
        using True None full k2 by (simp add: accept_activity_comment_def k Let_def)
    qed
  qed
qed

lemma yields_conversation_comment [yield_intros]:
  assumes "aw_issue w = issue" and "activity_ok st"
  shows "safe issue activity_ok (conversation_comment repo name prs lower number c st w)"
  unfolding conversation_comment_def Let_def using assms
  by (auto split: option.splits intro!: yields_ok yields_bind[OF yields_accept] wf_intros)

lemma yields_inline_comment [yield_intros]:
  assumes "aw_issue w = issue" and "activity_ok st"
  shows "safe issue activity_ok (inline_comment repo name prs lower c st w)"
  unfolding inline_comment_def Let_def using assms
  by (auto split: option.splits intro!: yields_ok yields_bind[OF yields_accept] wf_intros)

lemma yields_inline_comments [yield_intros]:
  assumes "aw_issue w = issue" and "activity_ok st"
  shows "safe issue activity_ok (inline_comments repo name prs lower cs st w)"
  using assms
proof (induction cs arbitrary: st w)
  case (Cons c cs)
  then show ?case by (auto intro!: yields_bind[OF yields_inline_comment])
qed (simp add: yields_ok)

lemma yields_issue_lookup:
  assumes "aw_issue w = issue"
  shows "safe issue (\<lambda>_. True) (issue_title_and_count issues n w)"
  using assms by (auto simp: issue_title_and_count_def yields_def split: option.splits sum.splits)

lemma yields_issue_comment:
  assumes "aw_issue w = issue" and "activity_ok st"
  shows "safe issue (\<lambda>(st', _). activity_ok st')
    (emit_issue_feed_comment env repo name issues c lower commented st w)"
proof -
  let ?st = "st\<lparr>ac_issue_ids := remember_activity_id (fc_id c) (ac_issue_ids st)\<rparr>"
  have kept: "activity_ok ?st" using assms by (intro wf_intros)
  have "safe issue (\<lambda>(st', _). activity_ok st')
      (case issue_title_and_count issues number w of
         (w, Inl e) \<Rightarrow> (w, Err e)
       | (w, Inr None) \<Rightarrow> (w, Ok (st, commented))
       | (w, Inr (Some (title, n))) \<Rightarrow>
           (case send_activity (IssueComment number (fc_id c)) (e title n) w of
              (w, True) \<Rightarrow> (w, Ok (?st, number # commented)) | (w, False) \<Rightarrow> (w, Err channel_closed)))" for number e
    by (rule yields_bind[OF yields_issue_lookup[OF assms(1)]])
      (use assms kept in \<open>auto split: option.splits intro!: yields_send yields_ok\<close>)
  then show ?thesis
    using assms kept
    by (auto simp: emit_issue_feed_comment_def Let_def split: option.split intro!: yields_ok)
qed

lemma yields_conversation_comments:
  assumes "aw_issue w = issue" and "activity_ok st"
  shows "safe issue activity_ok (conversation_comments env repo name prs issues lower cs commented st w)"
  using assms
proof (induction cs arbitrary: commented st w)
  case (Cons c cs)
  show ?case
  proof (cases "pr_number env c")
    case None
    have "safe issue activity_ok
        (case emit_issue_feed_comment env repo name issues c lower commented st w of (w, Inl e) \<Rightarrow> (w, Err e)
         | (w, Inr (st, commented)) \<Rightarrow> conversation_comments env repo name prs issues lower cs commented st w)"
      by (rule yields_bind[OF yields_issue_comment]) (use Cons in auto)
    then show ?thesis using None Cons by simp
  next
    case (Some number)
    have "safe issue activity_ok
        (case conversation_comment repo name prs lower number c st w of (w, Inl e) \<Rightarrow> (w, Err e)
         | (w, Inr st) \<Rightarrow> conversation_comments env repo name prs issues lower cs commented st w)"
      by (rule yields_bind[OF yields_conversation_comment]) (use Cons in auto)
    then show ?thesis using Some Cons by simp
  qed
qed (simp add: yields_ok)

section \<open>The feeds\<close>

lemma pages_issue: "aw_issue (fst (feed_pages key url newest ask n page seen entries d w)) = aw_issue w"
proof (induction n arbitrary: page seen entries d w newest)
  case (Suc n)
  show ?case
  proof (cases "ask w (aw_step w)")
    case (Inr p)
    show ?thesis
    proof (cases newest)
      case True
      then show ?thesis by (simp add: Inr)
    next
      case False
      show ?thesis
        unfolding feed_pages.simps Let_def Inr sum.case
        using False by (cases "fp_next p") (simp_all add: Suc.IH)
    qed
  qed simp
qed simp

lemma fetch_issue:
  "fetch_pr_activity_pages env endpoint feed cursor ask w = (w', r) \<Longrightarrow> aw_issue w' = aw_issue w"
  using pages_issue unfolding fetch_pr_activity_pages_def Let_def by (metis fst_conv)

lemma next_lower_paired:
  assumes "paired cursor lower"
  obtains bound where "next_lower cursor lower complete d newest = Ok bound" and "paired (Some newest) bound"
  using assms that
  by (cases cursor; cases lower; cases complete) (auto simp: next_lower_def paired_def)

lemma yields_conversation:
  assumes "aw_issue w = issue" and "activity_ok st"
  shows "safe issue activity_ok (poll_conversation env gr repo name prs issues st w)"
proof -
  let ?pr = "gm_emit_pr_activity repo"
  let ?cursor = "if ?pr then ac_pr_cursor st else ac_issue_cursor st"
  let ?lower = "if ?pr then ac_pr_lower st else ac_issue_lower st"
  obtain w1 r where f: "fetch_pr_activity_pages env (''repos/'' @ gr @ ''/issues/comments'') True ?cursor aw_comments w = (w1, r)"
    by fastforce
  have w1: "aw_issue w1 = issue" using fetch_issue[OF f] assms by simp
  show ?thesis
  proof (cases r)
    case (Inl e)
    then show ?thesis using f w1 assms by (auto simp: poll_conversation_def Let_def intro!: yields_ok)
  next
    case (Inr x)
    obtain comments complete d where x: "x = (comments, complete, d)" by (metis prod_cases3)
    let ?newest = "newest_update env (map fc_updated_at comments) ?cursor d"
    have "paired ?cursor ?lower" using assms by (auto simp: activity_ok_def)
    then obtain bound where n: "next_lower ?cursor ?lower complete d ?newest = Ok bound" and b: "paired (Some ?newest) bound"
      by (rule next_lower_paired)
    have "safe issue activity_ok
        (case conversation_comments env repo name prs issues ?lower comments [] st w1 of (w, Inl e) \<Rightarrow> (w, Err e)
         | (w, Inr st) \<Rightarrow> (w, Ok (if ?pr then st\<lparr>ac_pr_cursor := Some ?newest, ac_pr_lower := bound\<rparr>
                                  else st\<lparr>ac_issue_cursor := Some ?newest, ac_issue_lower := bound\<rparr>)))"
      by (rule yields_bind[OF yields_conversation_comments[OF w1 assms(2)]])
        (use b in \<open>auto simp: activity_ok_def metadata_ok_def intro!: yields_ok\<close>)
    then show ?thesis
      unfolding poll_conversation_def Let_def f Inr x prod.case sum.case n by simp
  qed
qed

lemma yields_inline:
  assumes "aw_issue w = issue" and "activity_ok st"
  shows "safe issue activity_ok (poll_inline env gr repo name prs st w)"
proof -
  obtain w1 r where f: "fetch_pr_activity_pages env (''repos/'' @ gr @ ''/pulls/comments'') True (ac_review_cursor st)
      aw_review_comments w = (w1, r)"
    by fastforce
  have w1: "aw_issue w1 = issue" using fetch_issue[OF f] assms by simp
  show ?thesis
  proof (cases r)
    case (Inl e)
    then show ?thesis using f w1 assms by (auto simp: poll_inline_def Let_def intro!: yields_ok)
  next
    case (Inr x)
    obtain comments complete d where x: "x = (comments, complete, d)" by (metis prod_cases3)
    let ?newest = "newest_update env (map fr_updated_at comments) (ac_review_cursor st) d"
    have p: "paired (ac_review_cursor st) (ac_review_lower st)" using assms by (simp add: activity_ok_def)
    then obtain bound where n: "next_lower (ac_review_cursor st) (ac_review_lower st) complete d ?newest = Ok bound"
      and b: "paired (Some ?newest) bound"
      by (rule next_lower_paired)
    have "safe issue (\<lambda>s. activity_ok s \<and> positions s = positions st)
        (inline_comments repo name prs (ac_review_lower st) comments st w1)"
    proof -
      obtain w2 y where i: "inline_comments repo name prs (ac_review_lower st) comments st w1 = (w2, y)" by fastforce
      then show ?thesis
        using yields_inline_comments[OF w1 assms(2), of repo name prs "ac_review_lower st" comments]
          inline_comments_feeds[of repo name prs "ac_review_lower st" comments st w1 w2]
        by (cases y) (auto simp: yields_def feeds_def)
    qed
    then have "safe issue activity_ok
        (case inline_comments repo name prs (ac_review_lower st) comments st w1 of (w, Inl e) \<Rightarrow> (w, Err e)
         | (w, Inr s) \<Rightarrow> (w, Ok (s\<lparr>ac_review_cursor := Some ?newest,
             ac_review_lower := (if ac_review_cursor st = None \<or> complete then bound else ac_review_lower s)\<rparr>)))"
      by (rule yields_bind)
        (use b p in \<open>auto simp: activity_ok_def metadata_ok_def positions_def paired_def intro!: yields_ok\<close>)
    then show ?thesis
      unfolding poll_inline_def Let_def f Inr x prod.case sum.case n by simp
  qed
qed

section \<open>Reviews\<close>

lemma yields_one_review:
  assumes "aw_issue w = issue" and "activity_ok st"
  shows "safe issue activity_ok (one_review repo name lower number pr r st w)"
proof -
  have "activity_ok (st\<lparr>ac_review_ids := remember_activity_id (fv_id r) (ac_review_ids st)\<rparr>)"
    using assms by (intro wf_intros)
  then show ?thesis
    using assms
    by (auto simp: one_review_def Let_def split: option.split intro!: yields_send yields_ok)
qed

lemma yields_each_review:
  assumes "aw_issue w = issue" and "activity_ok st"
  shows "safe issue activity_ok (each_review repo name lower number pr rs st w)"
  using assms
proof (induction rs arbitrary: st w)
  case (Cons r rs)
  then show ?case by (auto intro!: yields_bind[OF yields_one_review])
qed (simp add: yields_ok)

lemma yields_run_scan:
  assumes "aw_issue w = issue" and "activity_ok st" and "scan_ok scan"
  shows "safe issue (\<lambda>(st', scan'). activity_ok st' \<and> scan_ok scan') (run_scan env gr repo name n scan st w)"
  using assms
proof (induction n arbitrary: scan st w)
  case (Suc n)
  show ?case
  proof (cases "sc_pending scan")
    case Nil
    then show ?thesis using Suc.prems by (simp add: yields_ok)
  next
    case (Cons number rest)
    then obtain pr where pr: "hm_get (sc_prs scan) number = Some pr"
      using Suc.prems by (auto simp: scan_ok_def hm_has_def)
    have rest: "scan_ok (scan\<lparr>sc_pending := rest\<rparr>)" using Suc.prems Cons by (simp add: scan_ok_def)
    obtain w1 x where f: "fetch_pr_activity_pages env (''repos/'' @ gr @ ''/pulls/'' @ show_nat number @ ''/reviews'')
        False None aw_reviews w = (w1, x)" by fastforce
    have w1: "aw_issue w1 = issue" using fetch_issue[OF f] Suc.prems by simp
    show ?thesis
    proof (cases x)
      case (Inl e)
      then show ?thesis using Cons pr f w1 Suc.prems by (simp add: yields_ok)
    next
      case (Inr y)
      obtain reviews all d where y: "y = (reviews, all, d)" by (metis prod_cases3)
      have "safe issue (\<lambda>(st', scan'). activity_ok st' \<and> scan_ok scan')
          (case each_review repo name (sc_lower scan) number pr reviews st w1 of (w, Inl e) \<Rightarrow> (w, Err e)
           | (w, Inr st) \<Rightarrow> if all then run_scan env gr repo name n (scan\<lparr>sc_pending := rest\<rparr>) st w else (w, Ok (st, scan)))"
        by (rule yields_bind[OF yields_each_review[OF w1 Suc.prems(2)]])
          (use Suc.IH rest Suc.prems in \<open>auto intro!: yields_ok\<close>)
      then show ?thesis using Cons pr f Inr y by simp
    qed
  qed
qed (simp add: yields_ok)

lemma build_scan_ok: "scan_ok (build_scan env prs cutoff st)"
  by (fastforce simp: scan_ok_def build_scan_def Let_def hm_has_def hm_get_def map_of_eq_None_iff)

lemma yields_reviews:
  assumes "aw_issue w = issue" and "activity_ok st"
  shows "safe issue activity_ok (poll_reviews env gr repo name prs complete cutoff st w)"
proof (cases "ac_scan st = None \<and> \<not> complete \<and> prs = []")
  case True
  then show ?thesis using assms by (simp add: poll_reviews_def yields_ok)
next
  case False
  let ?scan = "case ac_scan st of Some scan \<Rightarrow> scan | None \<Rightarrow> build_scan env prs cutoff st"
  have scan: "scan_ok ?scan" using assms build_scan_ok by (auto simp: activity_ok_def split: option.splits)
  have "activity_ok (st\<lparr>ac_scan := None\<rparr>)" using assms by (simp add: activity_ok_def metadata_ok_def)
  note run = yields_run_scan[OF assms(1) this scan, of env gr repo name MAX_REVIEW_FETCH_PRS]
  have "safe issue activity_ok
      (case run_scan env gr repo name MAX_REVIEW_FETCH_PRS ?scan (st\<lparr>ac_scan := None\<rparr>) w of (w, Inl e) \<Rightarrow> (w, Err e)
       | (w, Inr y) \<Rightarrow> (case y of (st, scan) \<Rightarrow> (w, Ok (if sc_pending scan = []
            then st\<lparr>ac_watermark := Some (sc_upper scan)\<rparr> else st\<lparr>ac_scan := Some scan\<rparr>))))"
    by (rule yields_bind[OF run]) (auto simp: activity_ok_def metadata_ok_def intro!: yields_ok)
  then show ?thesis unfolding poll_reviews_def Let_def using False by auto
qed

lemma refresh_titles_ok: "activity_ok st \<Longrightarrow> activity_ok (refresh_titles prs st)"
  unfolding refresh_titles_def by (induction prs arbitrary: st) (auto simp: cache_ok)

lemma yields_poll:
  assumes "aw_issue w = issue" and "activity_ok st"
  shows "safe issue activity_ok (poll_pr_activity env gr repo name prs issues complete cutoff st w)"
  unfolding poll_pr_activity_def using assms refresh_titles_ok
  by (auto intro!: yields_ok yields_bind_state[OF yields_drain] yields_bind_state[OF yields_conversation]
      yields_bind_state[OF yields_inline] yields_reviews)

end
