(* ===== verification/GithubActivityProperties.thy ===== *)
theory GithubActivityProperties imports GithubActivityBounds begin

text \<open>
  The properties of the activity feeds: what a poll announces is what was accepted and no longer waits, a
  first poll announces nothing, the bounds of the feeds only advance, and the state stays within the limits
  of the code, so that no \<open>unwrap\<close> of it fails.
\<close>

section \<open>A first poll\<close>

text \<open>Nothing waits, and neither inline comments nor reviews have a position yet.\<close>

definition unstarted :: "activity_state \<Rightarrow> bool" where
  "unstarted st \<longleftrightarrow> ac_pending st = [] \<and> ac_review_lower st = None \<and> ac_watermark st = None"

abbreviation silent :: "(activity_item \<times> incoming_event) list \<Rightarrow> ('a \<Rightarrow> bool) \<Rightarrow> activity_world \<times> (string + 'a) \<Rightarrow> bool" where
  "silent sent \<equiv> yields (\<lambda>w. aw_sent w = sent) (\<lambda>_. True)"

lemma drain_nothing:
  "ac_pending st = [] \<Longrightarrow> drain_pending_comments repo name prs lk st w = (w, Ok (st\<lparr>ac_pending := []\<rparr>, lk))"
  by (simp add: drain_pending_comments_def)

lemma silent_conversation_comments:
  assumes "aw_sent w = sent" and "unstarted st"
  shows "silent sent unstarted (conversation_comments env repo name prs issues None cs commented st w)"
  using assms
proof (induction cs arbitrary: commented st w)
  case (Cons c cs)
  show ?case
  proof (cases "pr_number env c")
    case None
    have "silent sent (\<lambda>(st', _). unstarted st') (emit_issue_feed_comment env repo name issues c None commented st w)"
      using Cons.prems by (auto simp: emit_issue_feed_comment_def Let_def unstarted_def split: option.split intro!: yields_ok)
    then have "silent sent unstarted
        (case emit_issue_feed_comment env repo name issues c None commented st w of (w, Inl e) \<Rightarrow> (w, Err e)
         | (w, Inr (st, commented)) \<Rightarrow> conversation_comments env repo name prs issues None cs commented st w)"
      by (rule yields_bind) (use Cons.IH in auto)
    then show ?thesis using None Cons by simp
  next
    case (Some number)
    have "silent sent unstarted (conversation_comment repo name prs None number c st w)"
      using Cons.prems by (auto simp: conversation_comment_def unstarted_def intro!: yields_ok)
    then have "silent sent unstarted
        (case conversation_comment repo name prs None number c st w of (w, Inl e) \<Rightarrow> (w, Err e)
         | (w, Inr st) \<Rightarrow> conversation_comments env repo name prs issues None cs commented st w)"
      by (rule yields_bind) (use Cons.IH in auto)
    then show ?thesis using Some Cons by simp
  qed
qed (simp add: yields_ok)

lemma silent_conversation:
  assumes "aw_sent w = sent" and "unstarted st" and "ac_pr_lower st = None" and "ac_issue_lower st = None"
  shows "silent sent unstarted (poll_conversation env gr repo name prs issues st w)"
proof -
  let ?pr = "gm_emit_pr_activity repo"
  let ?cursor = "if ?pr then ac_pr_cursor st else ac_issue_cursor st"
  obtain w1 r where f: "fetch_pr_activity_pages env (''repos/'' @ gr @ ''/issues/comments'') True ?cursor aw_comments w = (w1, r)"
    by fastforce
  have w1: "aw_sent w1 = sent" using fetch_sent[OF f] assms by simp
  show ?thesis
  proof (cases r)
    case (Inl e)
    then show ?thesis using f w1 assms by (auto simp: poll_conversation_def Let_def intro!: yields_ok)
  next
    case (Inr x)
    obtain comments complete d where x: "x = (comments, complete, d)" by (metis prod_cases3)
    let ?newest = "newest_update env (map fc_updated_at comments) ?cursor d"
    have lower: "(if ?pr then ac_pr_lower st else ac_issue_lower st) = None" using assms by simp
    have "silent sent unstarted
        (case conversation_comments env repo name prs issues None comments [] st w1 of (w, Inl e) \<Rightarrow> (w, Err e)
         | (w, Inr st) \<Rightarrow> (case next_lower ?cursor None complete d ?newest of
              Inl e \<Rightarrow> (w, Err e)
            | Inr bound \<Rightarrow> (w, Ok (if ?pr then st\<lparr>ac_pr_cursor := Some ?newest, ac_pr_lower := bound\<rparr>
                                  else st\<lparr>ac_issue_cursor := Some ?newest, ac_issue_lower := bound\<rparr>))))"
      by (rule yields_bind[OF silent_conversation_comments[OF w1 assms(2)]])
        (auto simp: unstarted_def split: sum.split intro!: yields_ok yields_error)
    then show ?thesis
      unfolding poll_conversation_def Let_def f Inr x prod.case sum.case lower .
  qed
qed

lemma silent_inline_comments:
  assumes "aw_sent w = sent" and "unstarted st"
  shows "silent sent unstarted (inline_comments repo name prs None cs st w)"
  using assms
proof (induction cs arbitrary: st w)
  case (Cons c cs)
  have "silent sent unstarted (inline_comment repo name prs None c st w)"
    using Cons.prems by (auto simp: inline_comment_def unstarted_def intro!: yields_ok)
  then show ?case unfolding inline_comments.simps by (rule yields_bind) (use Cons.IH in auto)
qed (simp add: yields_ok)

lemma silent_inline:
  assumes "aw_sent w = sent" and "unstarted st"
  shows "silent sent (\<lambda>st'. ac_pending st' = [] \<and> ac_watermark st' = None) (poll_inline env gr repo name prs st w)"
proof -
  obtain w1 r where f: "fetch_pr_activity_pages env (''repos/'' @ gr @ ''/pulls/comments'') True (ac_review_cursor st)
      aw_review_comments w = (w1, r)"
    by fastforce
  have w1: "aw_sent w1 = sent" using fetch_sent[OF f] assms by simp
  show ?thesis
  proof (cases r)
    case (Inl e)
    then show ?thesis using f w1 assms by (auto simp: poll_inline_def Let_def unstarted_def intro!: yields_ok)
  next
    case (Inr x)
    obtain comments complete d where x: "x = (comments, complete, d)" by (metis prod_cases3)
    have lower: "ac_review_lower st = None" using assms by (simp add: unstarted_def)
    show ?thesis
      unfolding poll_inline_def Let_def f Inr x prod.case sum.case lower
      by (rule yields_bind[OF silent_inline_comments[OF w1 assms(2)]])
        (auto simp: unstarted_def split: sum.split intro!: yields_ok yields_error)
  qed
qed

lemma silent_each_review:
  assumes "aw_sent w = sent" and "ac_watermark st = None"
  shows "silent sent (\<lambda>st'. ac_watermark st' = None) (each_review repo name lower number pr rs st w)"
  using assms
proof (induction rs arbitrary: st w)
  case (Cons r rs)
  have "silent sent (\<lambda>st'. ac_watermark st' = None) (one_review repo name lower number pr r st w)"
    using Cons.prems by (auto simp: one_review_def Let_def split: option.split intro!: yields_ok)
  then show ?case unfolding each_review.simps by (rule yields_bind) (use Cons.IH in auto)
qed (simp add: yields_ok)

lemma silent_run_scan:
  assumes "aw_sent w = sent" and "ac_watermark st = None"
  shows "silent sent (\<lambda>_. True) (run_scan env gr repo name n scan st w)"
  using assms
proof (induction n arbitrary: scan st w)
  case (Suc n)
  show ?case
  proof (cases "sc_pending scan")
    case (Cons number rest)
    obtain w1 x where f: "fetch_pr_activity_pages env (''repos/'' @ gr @ ''/pulls/'' @ show_nat number @ ''/reviews'')
        False None aw_reviews w = (w1, x)" by fastforce
    have w1: "aw_sent w1 = sent" using fetch_sent[OF f] Suc.prems by simp
    show ?thesis
    proof (cases "hm_get (sc_prs scan) number")
      case None
      then show ?thesis using Cons Suc.prems by (simp add: yields_error)
    next
      case (Some pr)
      show ?thesis
      proof (cases x)
        case (Inl e)
        then show ?thesis using Cons Some f w1 Suc.prems by (simp add: yields_ok)
      next
        case (Inr y)
        obtain reviews all d where y: "y = (reviews, all, d)" by (metis prod_cases3)
        have "silent sent (\<lambda>_. True)
            (case each_review repo name (sc_lower scan) number pr reviews st w1 of (w, Inl e) \<Rightarrow> (w, Err e)
             | (w, Inr st) \<Rightarrow> if all then run_scan env gr repo name n (scan\<lparr>sc_pending := rest\<rparr>) st w else (w, Ok (st, scan)))"
          by (rule yields_bind[OF silent_each_review[OF w1 Suc.prems(2)]]) (use Suc.IH in \<open>auto intro!: yields_ok\<close>)
        then show ?thesis using Cons Some f Inr y by simp
      qed
    qed
  qed (use Suc.prems in \<open>simp add: yields_ok\<close>)
qed (simp add: yields_ok)

lemma silent_reviews:
  assumes "aw_sent w = sent" and "ac_watermark st = None"
  shows "silent sent (\<lambda>_. True) (poll_reviews env gr repo name prs complete cutoff st w)"
proof (cases "ac_scan st = None \<and> \<not> complete \<and> prs = []")
  case True
  then show ?thesis using assms by (simp add: poll_reviews_def yields_ok)
next
  case False
  have "silent sent (\<lambda>_. True)
      (case run_scan env gr repo name MAX_REVIEW_FETCH_PRS scan (st\<lparr>ac_scan := None\<rparr>) w of (w, Inl e) \<Rightarrow> (w, Err e)
       | (w, Inr y) \<Rightarrow> (case y of (st, scan) \<Rightarrow> (w, Ok (if sc_pending scan = []
            then st\<lparr>ac_watermark := Some (sc_upper scan)\<rparr> else st\<lparr>ac_scan := Some scan\<rparr>))))" for scan
    by (rule yields_bind[OF silent_run_scan]) (use assms in \<open>auto intro!: yields_ok\<close>)
  then show ?thesis unfolding poll_reviews_def Let_def using False by auto
qed

lemma silent_first_poll:
  assumes "aw_sent w = sent"
  shows "silent sent (\<lambda>_. True) (poll_pr_activity env gr repo name prs issues complete cutoff fresh_activity w)"
proof (cases "gm_emit_pr_activity repo \<or> gm_emit_issue_opened repo")
  case True
  let ?st = "(refresh_titles prs fresh_activity)\<lparr>ac_pending := []\<rparr>"
  have pending: "ac_pending (refresh_titles prs fresh_activity) = []"
    using refresh_titles_fields[of prs fresh_activity] by (simp add: fresh_activity_def)
  have st: "unstarted ?st" "ac_pr_lower ?st = None" "ac_issue_lower ?st = None"
    using refresh_titles_fields[of prs fresh_activity] by (auto simp: unstarted_def positions_def fresh_activity_def)
  have tail: "silent sent (\<lambda>_. True)
      (bind_state (drain_pending_comments repo name prs lk s w') (\<lambda>(st, _) w. poll_reviews env gr repo name prs complete cutoff st w))"
    if "aw_sent w' = sent" "ac_pending s = []" "ac_watermark s = None" for s w' lk
    using that by (simp add: drain_nothing bind_state_def silent_reviews)
  have inline: "silent sent (\<lambda>_. True)
      (bind_state (poll_inline env gr repo name prs s w') (\<lambda>st w.
        bind_state (drain_pending_comments repo name prs lk st w) (\<lambda>(st, _) w.
        poll_reviews env gr repo name prs complete cutoff st w)))"
    if "aw_sent w' = sent" "unstarted s" for s w' lk
    by (rule yields_bind_state[OF silent_inline[OF that]]) (elim conjE, rule tail)
  have "silent sent (\<lambda>_. True)
      (bind_state (poll_conversation env gr repo name prs issues ?st w) (\<lambda>st w.
        if \<not> gm_emit_pr_activity repo then (w, Ok st)
        else bind_state (poll_inline env gr repo name prs st w) (\<lambda>st w.
          bind_state (drain_pending_comments repo name prs lk st w) (\<lambda>(st, _) w.
          poll_reviews env gr repo name prs complete cutoff st w))))" for lk
    by (rule yields_bind_state[OF silent_conversation[OF assms st]])
      (simp add: inline yields_ok)
  then show ?thesis
    unfolding poll_pr_activity_def drain_nothing[OF pending] using True by (auto simp: bind_state_def)
qed (use assms in \<open>auto simp: poll_pr_activity_def intro!: yields_ok\<close>)

lemma pull_pages_sent: "aw_sent (fst (pull_pages env gr n page seen pulls w)) = aw_sent w"
proof (induction n arbitrary: page seen pulls w)
  case (Suc n)
  show ?case
  proof (cases "aw_pulls w (aw_step w)")
    case (Inr p)
    then show ?thesis by (cases "fp_next p") (simp_all add: Let_def Suc.IH)
  qed (simp add: Let_def)
qed simp

lemma pull_pages_issue: "aw_issue (fst (pull_pages env gr n page seen pulls w)) = aw_issue w"
proof (induction n arbitrary: page seen pulls w)
  case (Suc n)
  show ?case
  proof (cases "aw_pulls w (aw_step w)")
    case (Inr p)
    then show ?thesis by (cases "fp_next p") (simp_all add: Let_def Suc.IH)
  qed (simp add: Let_def)
qed simp

lemma updated_pages_world:
  "aw_sent (fst (updated_pages env gr cursor n page seen prs w)) = aw_sent w \<and>
   aw_issue (fst (updated_pages env gr cursor n page seen prs w)) = aw_issue w"
proof (induction n arbitrary: page seen prs w)
  case (Suc n)
  show ?case
  proof (cases "aw_pulls w (aw_step w)")
    case (Inr p)
    show ?thesis
    proof (cases cursor)
      case (Some c)
      then show ?thesis
        using Inr Suc.IH by (auto simp: Let_def opt_filter_def split: option.splits)
    qed (simp add: Inr Let_def)
  qed (simp add: Let_def)
qed simp

lemma fetch_pulls_world:
  assumes "fetch_pull_requests env gr w = (w', r)"
  shows "aw_sent w' = aw_sent w" and "aw_issue w' = aw_issue w"
  using assms pull_pages_sent[of env gr MAX_CI_PAGES 1 "[]" "[]" w] pull_pages_issue[of env gr MAX_CI_PAGES 1 "[]" "[]" w]
  by (auto simp: fetch_pull_requests_def split: prod.splits sum.splits)

lemma updated_window_world:
  assumes "updated_window env gr repo activity previous w = (w', r)"
  shows "aw_sent w' = aw_sent w" and "aw_issue w' = aw_issue w"
proof -
  have "aw_sent (fst (updated_window env gr repo activity previous w)) = aw_sent w \<and>
        aw_issue (fst (updated_window env gr repo activity previous w)) = aw_issue w"
    using updated_pages_world[of env gr _ MAX_CI_PAGES 1 "[]" "[]" w]
    by (auto simp: updated_window_def fetch_updated_pull_requests_def split: prod.splits sum.splits) (metis fst_conv)+
  then show "aw_sent w' = aw_sent w" "aw_issue w' = aw_issue w" using assms by simp_all
qed

lemma fetch_issues_world:
  assumes "(if b then fetch_issues w else (w, None)) = (w', r)"
  shows "aw_sent w' = aw_sent w" and "aw_issue w' = aw_issue w"
  using assms by (auto simp: fetch_issues_def split: if_splits)

lemma fetch_status_world:
  assumes "(if b then (case fetch_pull_requests env gr w of (w, r) \<Rightarrow> (w, Some r)) else (w, None)) = (w', r)"
  shows "aw_sent w' = aw_sent w" and "aw_issue w' = aw_issue w"
  using assms fetch_pulls_world by (auto split: if_splits prod.splits)

lemma send_all_issue: "send_all es w = (w', r) \<Longrightarrow> aw_issue w' = aw_issue w"
  by (induction es w arbitrary: w' r rule: send_all.induct) (auto dest: send_issue split: prod.splits bool.splits)

lemma poll_issues_world:
  assumes "poll_issues repo name fetched previous w = (w', r)"
  shows "aw_issue w' = aw_issue w" and "previous = None \<Longrightarrow> aw_sent w' = aw_sent w"
  using assms by (auto simp: poll_issues_def Let_def dest: send_all_issue split: option.splits prod.splits sum.splits if_splits)

lemma poll_pull_requests_world:
  assumes "poll_pull_requests repo name fetched previous w = (w', r)"
  shows "aw_issue w' = aw_issue w" and "previous = None \<Longrightarrow> aw_sent w' = aw_sent w"
  using assms
  by (auto simp: poll_pull_requests_def Let_def dest: send_all_issue split: option.splits prod.splits sum.splits if_splits)

text \<open>A poll of one repository, up to its activity.\<close>

lemma poll_repo_feeds_cases:
  obtains w5 updated issues complete cutoff pulls where
    "poll_repo_feeds env gr repo name previous w =
       (case poll_pr_activity env gr repo name updated issues complete cutoff
               (unwrap_or (map_option rf_activity previous) fresh_activity) w5 of
          (w, Inl e) \<Rightarrow> (w, Err e)
        | (w, Inr activity) \<Rightarrow> (w, Ok \<lparr>rf_activity = activity, rf_issues = issues, rf_prs = pulls\<rparr>))"
    and "aw_issue w5 = aw_issue w" and "previous = None \<longrightarrow> aw_sent w5 = aw_sent w"
proof -
  let ?activity = "unwrap_or (map_option rf_activity previous) fresh_activity"
  obtain w1 updated complete cutoff where u: "updated_window env gr repo ?activity previous w = (w1, updated, complete, cutoff)"
    by (metis prod_cases4)
  obtain w2 listed where f: "(if gm_emit_issue_opened repo then fetch_issues w1 else (w1, None)) = (w2, listed)" by fastforce
  obtain w3 polled where i: "poll_issues repo name listed (map_option rf_issues previous) w2 = (w3, polled)" by fastforce
  obtain w4 fetched where g: "(if gm_emit_pr_status repo
      then (case fetch_pull_requests env gr w3 of (w, r) \<Rightarrow> (w, Some r)) else (w3, None)) = (w4, fetched)" by fastforce
  obtain w5 statuses where p: "poll_pull_requests repo name fetched (map_option rf_prs previous) w4 = (w5, statuses)" by fastforce
  let ?issues = "case polled of Inl e \<Rightarrow> unwrap_or (map_option rf_issues previous) [] | Inr issues \<Rightarrow> issues"
  let ?pulls = "case statuses of Inl e \<Rightarrow> unwrap_or (map_option rf_prs previous) [] | Inr (prs, _) \<Rightarrow> prs"
  have same: "aw_issue w5 = aw_issue w"
    using updated_window_world(2)[OF u] fetch_issues_world(2)[OF f] poll_issues_world(1)[OF i]
      fetch_status_world(2)[OF g] poll_pull_requests_world(1)[OF p] by simp
  have quiet: "previous = None \<longrightarrow> aw_sent w5 = aw_sent w"
    using updated_window_world(1)[OF u] fetch_issues_world(1)[OF f] poll_issues_world(2)[OF i]
      fetch_status_world(1)[OF g] poll_pull_requests_world(2)[OF p] by simp
  have "poll_repo_feeds env gr repo name previous w =
      (case poll_pr_activity env gr repo name updated ?issues complete cutoff ?activity w5 of
         (w, Inl e) \<Rightarrow> (w, Err e)
       | (w, Inr activity) \<Rightarrow> (w, Ok \<lparr>rf_activity = activity, rf_issues = ?issues, rf_prs = ?pulls\<rparr>))"
    unfolding poll_repo_feeds_def Let_def u prod.case f i g p by (rule refl)
  then show thesis using same quiet by (rule that)
qed

section \<open>The positions of the feeds\<close>

definition moves_on :: "string option \<Rightarrow> string option \<Rightarrow> bool" where
  "moves_on a b \<longleftrightarrow> (case a of None \<Rightarrow> True | Some x \<Rightarrow> (case b of None \<Rightarrow> False | Some y \<Rightarrow> x \<le> y))"

lemma moves_on_refl [simp]: "moves_on a a"
  by (cases a) (simp_all add: moves_on_def)

lemma moves_on_trans: "moves_on a b \<Longrightarrow> moves_on b c \<Longrightarrow> moves_on a c"
  by (auto simp: moves_on_def split: option.splits)

definition feed_positions :: "activity_state \<Rightarrow> string option list" where
  "feed_positions st =
     [ac_pr_lower st, ac_review_lower st, ac_issue_lower st, ac_pr_cursor st, ac_review_cursor st, ac_issue_cursor st]"

definition feeds_advance :: "activity_state \<Rightarrow> activity_state \<Rightarrow> bool" where
  "feeds_advance st st' = list_all2 moves_on (feed_positions st) (feed_positions st')"

lemma feeds_advance_same: "feed_positions st' = feed_positions st \<Longrightarrow> feeds_advance st st'"
  by (simp add: feeds_advance_def list_all2_same)

lemma feeds_advance_trans: "feeds_advance a b \<Longrightarrow> feeds_advance b c \<Longrightarrow> feeds_advance a c"
  unfolding feeds_advance_def by (rule list_all2_trans[rotated]) (use moves_on_trans in blast)+

lemma positions_feed: "positions st' = positions st \<Longrightarrow> feed_positions st' = feed_positions st"
  by (simp add: positions_def feed_positions_def)

lemma feeds_positions: "feeds P st w st' w' \<Longrightarrow> feed_positions st' = feed_positions st"
  by (rule positions_feed) (simp add: feeds_def)

lemma max_of_upper: "x \<in> set xs \<Longrightarrow> \<exists>m. max_of xs = Some m \<and> x \<le> m"
  by (cases xs) (simp_all add: max_of_def Max.set_eq_fold[symmetric])

lemma newest_advances: "moves_on cursor (Some (newest_update env updates cursor d))"
proof (cases cursor)
  case (Some c)
  then obtain m where "max_of (updates @ [c]) = Some m" "c \<le> m" using max_of_upper[of c "updates @ [c]"] by auto
  then show ?thesis using Some by (simp add: newest_update_def moves_on_def)
qed (simp add: moves_on_def)

lemma next_lower_advances:
  "next_lower cursor lower complete d newest = Ok bound \<Longrightarrow> paired cursor lower \<Longrightarrow> moves_on lower bound"
  by (cases cursor; cases lower; cases complete) (auto simp: next_lower_def paired_def moves_on_def)

lemma finished_feed:
  assumes "(case r of Inl e \<Rightarrow> (w, Inl e)
            | Inr x \<Rightarrow> (case n of Inl e \<Rightarrow> (w, Inl e) | Inr b \<Rightarrow> (w, Inr (f x b)))) = (w', Inr y)"
  obtains x b where "r = Inr x" and "n = Inr b" and "y = f x b"
  using assms by (cases r; cases n) auto

lemma conversation_advances:
  assumes "poll_conversation env gr repo name prs issues st w = (w', Ok st')" and "activity_ok st"
  shows "feeds_advance st st'"
proof -
  let ?pr = "gm_emit_pr_activity repo"
  let ?cursor = "if ?pr then ac_pr_cursor st else ac_issue_cursor st"
  let ?lower = "if ?pr then ac_pr_lower st else ac_issue_lower st"
  obtain w1 r where f: "fetch_pr_activity_pages env (''repos/'' @ gr @ ''/issues/comments'') True ?cursor aw_comments w = (w1, r)"
    by fastforce
  show ?thesis
  proof (cases r)
    case (Inl e)
    then show ?thesis using assms f by (auto simp: poll_conversation_def Let_def intro: feeds_advance_same)
  next
    case (Inr x)
    obtain comments complete d where x: "x = (comments, complete, d)" by (metis prod_cases3)
    let ?newest = "newest_update env (map fc_updated_at comments) ?cursor d"
    obtain w2 r2 where c: "conversation_comments env repo name prs issues ?lower comments [] st w1 = (w2, r2)" by fastforce
    obtain st1 bound where r2: "r2 = Inr st1" and n: "next_lower ?cursor ?lower complete d ?newest = Ok bound"
      and st': "st' = (if ?pr then st1\<lparr>ac_pr_cursor := Some ?newest, ac_pr_lower := bound\<rparr>
                       else st1\<lparr>ac_issue_cursor := Some ?newest, ac_issue_lower := bound\<rparr>)"
      by (rule finished_feed[OF assms(1)[unfolded poll_conversation_def Let_def f Inr x prod.case(1) sum.case c]]) (rule that)
    have same: "feed_positions st1 = feed_positions st"
      by (rule feeds_positions[OF conversation_comments_feeds[OF c[unfolded r2]]])
    have "paired ?cursor ?lower" using assms(2) by (auto simp: activity_ok_def)
    then have "moves_on ?lower bound" by (rule next_lower_advances[OF n])
    moreover have "moves_on ?cursor (Some ?newest)" by (rule newest_advances)
    ultimately show ?thesis
      using same st' by (auto simp: feeds_advance_def feed_positions_def split: if_splits)
  qed
qed

lemma inline_advances:
  assumes "poll_inline env gr repo name prs st w = (w', Ok st')" and "activity_ok st"
  shows "feeds_advance st st'"
proof -
  obtain w1 r where f: "fetch_pr_activity_pages env (''repos/'' @ gr @ ''/pulls/comments'') True (ac_review_cursor st)
      aw_review_comments w = (w1, r)"
    by fastforce
  show ?thesis
  proof (cases r)
    case (Inl e)
    then show ?thesis using assms f by (auto simp: poll_inline_def Let_def intro: feeds_advance_same)
  next
    case (Inr x)
    obtain comments complete d where x: "x = (comments, complete, d)" by (metis prod_cases3)
    let ?newest = "newest_update env (map fr_updated_at comments) (ac_review_cursor st) d"
    obtain w2 r2 where c: "inline_comments repo name prs (ac_review_lower st) comments st w1 = (w2, r2)" by fastforce
    obtain st1 bound where r2: "r2 = Inr st1"
      and n: "next_lower (ac_review_cursor st) (ac_review_lower st) complete d ?newest = Ok bound"
      and st': "st' = st1\<lparr>ac_review_cursor := Some ?newest,
        ac_review_lower := (if ac_review_cursor st = None \<or> complete then bound else ac_review_lower st1)\<rparr>"
      by (rule finished_feed[OF assms(1)[unfolded poll_inline_def Let_def f Inr x prod.case(1) sum.case c]]) (rule that)
    have same: "feed_positions st1 = feed_positions st"
      by (rule feeds_positions[OF inline_comments_feeds[OF c[unfolded r2]]])
    have "moves_on (ac_review_lower st) bound"
      using assms(2) by (intro next_lower_advances[OF n]) (simp add: activity_ok_def)
    moreover have "moves_on (ac_review_cursor st) (Some ?newest)" by (rule newest_advances)
    ultimately show ?thesis
      using same st' by (auto simp: feeds_advance_def feed_positions_def)
  qed
qed

lemma review_positions:
  assumes "one_review repo name lower number pr r st w = (w', Ok st')"
  shows "feed_positions st' = feed_positions st"
  using assms by (auto simp: one_review_def Let_def feed_positions_def split: option.splits if_splits prod.splits bool.splits)

lemma each_review_positions:
  assumes "each_review repo name lower number pr rs st w = (w', Ok st')"
  shows "feed_positions st' = feed_positions st"
  using assms
proof (induction rs arbitrary: st w)
  case (Cons r rs)
  obtain w1 x where o: "one_review repo name lower number pr r st w = (w1, x)" by fastforce
  then show ?case using Cons review_positions by (cases x) fastforce+
qed simp

lemma run_scan_positions:
  assumes "run_scan env gr repo name n scan st w = (w', Ok (st', scan'))"
  shows "feed_positions st' = feed_positions st"
  using assms
proof (induction n arbitrary: scan st w)
  case (Suc n)
  then show ?case
    by (auto split: list.splits option.splits prod.splits sum.splits if_splits dest!: each_review_positions)
qed simp

lemma reviews_positions:
  assumes "poll_reviews env gr repo name prs complete cutoff st w = (w', Ok st')"
  shows "feed_positions st' = feed_positions st"
  using assms
  by (auto simp: poll_reviews_def Let_def feed_positions_def split: prod.splits sum.splits if_splits
      dest!: run_scan_positions[unfolded feed_positions_def])

lemma stage_ok: "r = (w', Ok st') \<Longrightarrow> safe issue Q r \<Longrightarrow> Q st'"
  by (simp add: yields_def)

lemma drain_feed_positions:
  "drain_pending_comments repo name prs lk st w = (w', Ok (st', lk')) \<Longrightarrow> feed_positions st' = feed_positions st"
  using drain_carries(2) positions_feed by blast

lemma poll_advances:
  assumes "poll_pr_activity env gr repo name prs issues complete cutoff st w = (w', Ok st')" and ok: "activity_ok st"
  shows "feeds_advance st st'"
proof (cases "gm_emit_pr_activity repo \<or> gm_emit_issue_opened repo")
  case True
  from assms(1) True obtain w1 st1 lk1 w2 st2
    where d: "drain_pending_comments repo name prs \<lparr>lk_attempted = [], lk_counted = []\<rparr> (refresh_titles prs st) w = (w1, Ok (st1, lk1))"
      and c: "poll_conversation env gr repo name prs issues st1 w1 = (w2, Ok st2)"
      and stop: "\<not> gm_emit_pr_activity repo \<longrightarrow> w' = w2 \<and> st' = st2"
      and more: "gm_emit_pr_activity repo \<longrightarrow> (\<exists>w3 st3 w4 st4 lk4.
        poll_inline env gr repo name prs st2 w2 = (w3, Ok st3) \<and>
        drain_pending_comments repo name prs lk1 st3 w3 = (w4, Ok (st4, lk4)) \<and>
        poll_reviews env gr repo name prs complete cutoff st4 w4 = (w', Ok st'))"
    by (rule poll_stages)
  have ok1: "activity_ok st1"
    using stage_ok[OF d yields_drain[OF refl refresh_titles_ok[OF ok]]] by simp
  have ok2: "activity_ok st2" by (rule stage_ok[OF c yields_conversation[OF refl ok1]])
  have "feed_positions st1 = feed_positions st"
    using drain_feed_positions[OF d] refresh_titles_fields[of prs st] positions_feed by metis
  then have first: "feeds_advance st st2"
    using feeds_advance_trans[OF feeds_advance_same conversation_advances[OF c ok1]] by simp
  show ?thesis
  proof (cases "gm_emit_pr_activity repo")
    case True
    then obtain w3 st3 w4 st4 lk4 where i: "poll_inline env gr repo name prs st2 w2 = (w3, Ok st3)"
      and d2: "drain_pending_comments repo name prs lk1 st3 w3 = (w4, Ok (st4, lk4))"
      and v: "poll_reviews env gr repo name prs complete cutoff st4 w4 = (w', Ok st')"
      using more by blast
    have "feed_positions st' = feed_positions st3"
      using drain_feed_positions[OF d2] reviews_positions[OF v] by simp
    then show ?thesis
      using feeds_advance_trans[OF first feeds_advance_trans[OF inline_advances[OF i ok2] feeds_advance_same]] by simp
  qed (use stop first in simp)
qed (use assms in \<open>auto simp: poll_pr_activity_def intro: feeds_advance_same\<close>)

section \<open>Lists that did not change\<close>

lemma unchanged_issue: "hm_get old (fst entry) = Some (snd entry) \<Longrightarrow> issue_events repo name old entry = []"
  by (simp add: issue_events_def Let_def)

lemma unchanged_pr: "hm_get old (fst entry) = Some (snd entry) \<Longrightarrow> pr_status_events repo name old entry = []"
  by (simp add: pr_status_events_def Let_def)

lemma own_entry: "hm_ok m \<Longrightarrow> entry \<in> set m \<Longrightarrow> hm_get m (fst entry) = Some (snd entry)"
  using hm_get_iff[of m "fst entry" "snd entry"] by simp

section \<open>A scan that does not move\<close>

lemma capped_pages:
  assumes "\<And>k. \<exists>p u. ask w0 k = Inr p \<and> fp_next p = Some u"
    and "\<And>w. ask (aw_tick w) = ask w" and "ask w = ask w0"
  shows "\<exists>w' es d. feed_pages key url False ask n page seen entries d0 w = (w', Ok (es, False, d))"
  using assms(3)
proof (induction n arbitrary: page seen entries d0 w)
  case (Suc n)
  obtain p u where p: "ask w (aw_step w) = Inr p" "fp_next p = Some u" using assms(1)[of "aw_step w"] Suc.prems by auto
  show ?case
    using Suc.IH[of "aw_tick w"] Suc.prems assms(2)[of w] p by (auto simp: Let_def)
qed simp

lemma capped_fetch:
  assumes "\<And>k. \<exists>p u. aw_reviews w k = Inr p \<and> fp_next p = Some u"
  shows "\<exists>w1 es d. fetch_pr_activity_pages env endpoint False None aw_reviews w = (w1, Ok (es, False, d))"
proof -
  have tick: "aw_reviews (aw_tick v) = aw_reviews v" for v by (simp add: aw_tick_def)
  show ?thesis
    unfolding fetch_pr_activity_pages_def Let_def simp_thms by (rule capped_pages[OF assms tick refl])
qed

section \<open>A sample repository\<close>

definition feed_sample_repo :: activity_monitor where
  "feed_sample_repo =
     \<lparr>gm_path = ''/r'', gm_github_repo = Some ''o/r'', gm_emit_pr_status = False, gm_channel = None, gm_mention = None,
      gm_format = None, gm_emit_issue_opened = True, gm_emit_pr_activity = True\<rparr>"

definition feed_sample_env :: feed_env where
  "feed_sample_env =
     \<lparr>fe_page_key = (\<lambda>s. s), fe_parse_url = (\<lambda>url. map_option (\<lambda>path. (path, True)) (strip_prefix ''https://h'' url)),
      fe_api_base = ''https://h'', fe_cutoff = ''2024''\<rparr>"

text \<open>A comment of pull request 7 and one of issue 9.\<close>

definition feed_sample_comment :: feed_comment where
  "feed_sample_comment =
     \<lparr>fc_user = Some ''ann'', fc_id = 1, fc_issue_url = ''https://h/repos/o/r/issues/7'',
      fc_html_url = ''https://h/o/r/pull/7'', fc_created_at = ''2025'', fc_updated_at = ''2025''\<rparr>"

definition feed_sample_issue_comment :: feed_comment where
  "feed_sample_issue_comment =
     \<lparr>fc_user = Some ''bob'', fc_id = 2, fc_issue_url = ''https://h/repos/o/r/issues/9'',
      fc_html_url = ''https://h/o/r/issues/9'', fc_created_at = ''2025'', fc_updated_at = ''2025''\<rparr>"

definition feed_sample_pending :: pending_comment where
  "feed_sample_pending =
     \<lparr>pn_id = 1, pn_number = 7, pn_author = ''ann'', pn_url = ''https://h/o/r/pull/7'', pn_path = None,
      pn_created_at = ''2025'', pn_attempts = 0\<rparr>"

text \<open>The conversation feed has a position; \<open>known\<close> tells whether pull request 7 has been looked up.\<close>

definition feed_sample_state :: "bool \<Rightarrow> activity_state" where
  "feed_sample_state known =
     \<lparr>ac_issue_cursor = None, ac_issue_lower = None, ac_issue_ids = [], ac_pr_cursor = Some ''2024'', ac_pr_lower = Some ''2024'',
      ac_review_cursor = None, ac_review_lower = None, ac_review_comment_ids = [], ac_pr_ids = [], ac_watermark = None,
      ac_scan = None, ac_review_ids = [],
      ac_metadata = (if known then [(7, Some \<lparr>md_title = ''T'', md_author = ''amy''\<rparr>)] else []),
      ac_metadata_order = (if known then [7] else []), ac_pending = []\<rparr>"

definition feed_sample_world :: "feed_comment list \<Rightarrow> activity_world" where
  "feed_sample_world comments =
     \<lparr>aw_step = 0, aw_metadata = (\<lambda>_. MetaError False),
      aw_comments = (\<lambda>_. Inr \<lparr>fp_entries = comments, fp_next = None, fp_date = None\<rparr>),
      aw_review_comments = (\<lambda>_. Inr \<lparr>fp_entries = [], fp_next = None, fp_date = None\<rparr>),
      aw_reviews = (\<lambda>_. Inr \<lparr>fp_entries = [], fp_next = None, fp_date = None\<rparr>),
      aw_issue = (\<lambda>_. Inl ''410 Gone''), aw_issue_list = (\<lambda>_. Inr []),
      aw_pulls = (\<lambda>_. Inr \<lparr>fp_entries = [], fp_next = None, fp_date = None\<rparr>),
      aw_accepts = (\<lambda>_. True), aw_sent = []\<rparr>"

definition feed_sample_poll :: "bool \<Rightarrow> activity_world \<Rightarrow> activity_world \<times> (string + activity_state)" where
  "feed_sample_poll known w =
     poll_pr_activity feed_sample_env ''o/r'' feed_sample_repo ''r'' [] [] True None (feed_sample_state known) w"

lemma sample_waits:
  "(case feed_sample_poll False (feed_sample_world [feed_sample_comment]) of
      (w, Inl e) \<Rightarrow> False
    | (w, Inr st) \<Rightarrow> map bare (ac_pending st) = [feed_sample_pending] \<and> aw_sent w = [] \<and> ac_pr_lower st = Some ''2025'')"
  by code_simp

lemma sample_fails:
  "(case feed_sample_poll True (feed_sample_world [feed_sample_comment, feed_sample_issue_comment]) of
      (w, r) \<Rightarrow> r = Inl ''410 Gone'' \<and> map fst (aw_sent w) = [PrComment feed_sample_pending])"
  by code_simp

lemma sample_feeds:
  "(case poll_repo_feeds feed_sample_env ''o/r'' feed_sample_repo ''r''
          (Some \<lparr>rf_activity = feed_sample_state False, rf_issues = [], rf_prs = []\<rparr>) (feed_sample_world [feed_sample_comment]) of
      (w, Inl e) \<Rightarrow> False
    | (w, Inr s) \<Rightarrow> map pn_attempts (ac_pending (rf_activity s)) = [1])"
  by code_simp

lemma sample_state_ok: "activity_ok (feed_sample_state False)"
  by (simp add: feed_sample_state_def activity_ok_def queue_ok_def metadata_ok_def ids_ok_def paired_def)

text \<open>
  C34. A poll of a repository keeps its queue of waiting comments, its windows of identifiers and its
  cache of titles within their limits, and every \<open>unwrap\<close> and index of the feeds succeeds: the poll ends with an
  error only when the channel is closed or the look-up of an issue failed.\<close>

theorem feeds_poll_is_sound:
  assumes "\<forall>p. previous = Some p \<longrightarrow> activity_ok (rf_activity p)"
    and "poll_repo_feeds env gr repo name previous w = (w', r)"
  shows "case r of Inl e \<Rightarrow> e = channel_closed \<or> (\<exists>k. aw_issue w k = Inl e) | Inr s \<Rightarrow> activity_ok (rf_activity s)"
proof -
  let ?activity = "unwrap_or (map_option rf_activity previous) fresh_activity"
  have ok: "activity_ok ?activity"
    using assms(1) fresh_activity_ok by (cases previous) simp_all
  obtain w5 updated issues complete cutoff pulls where p: "poll_repo_feeds env gr repo name previous w =
      (case poll_pr_activity env gr repo name updated issues complete cutoff ?activity w5 of
         (w, Inl e) \<Rightarrow> (w, Err e)
       | (w, Inr activity) \<Rightarrow> (w, Ok \<lparr>rf_activity = activity, rf_issues = issues, rf_prs = pulls\<rparr>))"
    and same: "aw_issue w5 = aw_issue w"
    by (rule poll_repo_feeds_cases)
  have "safe (aw_issue w) (\<lambda>s. activity_ok (rf_activity s)) (poll_repo_feeds env gr repo name previous w)"
    unfolding p by (rule yields_bind[OF yields_poll[OF same ok]]) (simp add: yields_ok)
  then show ?thesis using assms(2) by (simp add: yields_def)
qed

theorem feeds_poll_is_sound_witness:
  "\<exists>w' s. poll_repo_feeds feed_sample_env ''o/r'' feed_sample_repo ''r''
       (Some \<lparr>rf_activity = feed_sample_state False, rf_issues = [], rf_prs = []\<rparr>) (feed_sample_world [feed_sample_comment]) =
       (w', Inr s) \<and> activity_ok (rf_activity s) \<and> map pn_attempts (ac_pending (rf_activity s)) = [1]"
proof -
  let ?previous = "Some \<lparr>rf_activity = feed_sample_state False, rf_issues = [], rf_prs = []\<rparr>"
  obtain w' s where p: "poll_repo_feeds feed_sample_env ''o/r'' feed_sample_repo ''r'' ?previous
      (feed_sample_world [feed_sample_comment]) = (w', Inr s)"
    and "map pn_attempts (ac_pending (rf_activity s)) = [1]"
    using sample_feeds by (auto split: prod.splits sum.splits)
  moreover have "activity_ok (rf_activity s)"
    using feeds_poll_is_sound[OF _ p] sample_state_ok by simp
  ultimately show ?thesis by (intro exI conjI)
qed



text \<open>
  C35. The first poll of a repository announces nothing: no issue, no change of a pull request, no comment
  and no review, whatever the answers and however it ends.\<close>

theorem cold_start_is_silent: "aw_sent (fst (poll_repo_feeds env gr repo name None w)) = aw_sent w"
proof -
  obtain w5 updated issues complete cutoff pulls where p: "poll_repo_feeds env gr repo name None w =
      (case poll_pr_activity env gr repo name updated issues complete cutoff
              (unwrap_or (map_option rf_activity (None :: repo_feeds option)) fresh_activity) w5 of
         (w, Inl e) \<Rightarrow> (w, Err e)
       | (w, Inr activity) \<Rightarrow> (w, Ok \<lparr>rf_activity = activity, rf_issues = issues, rf_prs = pulls\<rparr>))"
    and "aw_issue w5 = aw_issue w" and same: "(None :: repo_feeds option) = None \<longrightarrow> aw_sent w5 = aw_sent w"
    by (rule poll_repo_feeds_cases)
  have "silent (aw_sent w) (\<lambda>_. True) (poll_repo_feeds env gr repo name None w)"
    unfolding p using same by (auto intro!: yields_bind[OF silent_first_poll] yields_ok)
  then show ?thesis by (simp add: yields_def)
qed

text \<open>
  C36. A poll moves the positions of the three comment feeds forward only: neither the cursor of a feed nor
  the bound below which its comments count as old ever goes back or is forgotten.\<close>

theorem feed_bounds_advance:
  assumes "poll_pr_activity env gr repo name prs issues complete cutoff st w = (w', Ok st')" and "activity_ok st"
  shows "list_all2 moves_on (feed_positions st) (feed_positions st')"
  using poll_advances[OF assms] by (simp add: feeds_advance_def)

theorem feed_bounds_advance_witness:
  "\<exists>w' st'. feed_sample_poll False (feed_sample_world [feed_sample_comment]) = (w', Ok st') \<and>
     list_all2 moves_on (feed_positions (feed_sample_state False)) (feed_positions st') \<and>
     ac_pr_lower (feed_sample_state False) = Some ''2024'' \<and> ac_pr_lower st' = Some ''2025''"
proof -
  obtain w' st' where p: "feed_sample_poll False (feed_sample_world [feed_sample_comment]) = (w', Ok st')"
    and lower: "ac_pr_lower st' = Some ''2025''"
    using sample_waits by (auto split: prod.splits sum.splits)
  show ?thesis
    using feed_bounds_advance[OF p[unfolded feed_sample_poll_def] sample_state_ok] p lower
    by (auto simp: feed_sample_state_def)
qed

section \<open>What was found\<close>

text \<open>Lists that did not change announce nothing.\<close>

lemma unchanged_lists_are_silent:
  assumes "hm_ok issues" and "hm_ok prs"
  shows "collect_issue_events repo name issues issues = []"
    and "poll_pull_requests repo name (Some (Inr (prs, complete))) (Some prs) w =
         (w, Ok (prs, complete \<or> \<not> gm_emit_pr_status repo))"
proof -
  have "map (issue_events repo name issues) issues = map (\<lambda>_. []) issues"
    using unchanged_issue own_entry[OF assms(1)] by (intro map_cong) auto
  then show "collect_issue_events repo name issues issues = []" by (simp add: collect_issue_events_def)
  have "map (pr_status_events repo name prs) prs = map (\<lambda>_. []) prs"
    using unchanged_pr own_entry[OF assms(2)] by (intro map_cong) auto
  then have "concat (map (pr_status_events repo name prs) prs) = []" by simp
  then show "poll_pull_requests repo name (Some (Inr (prs, complete))) (Some prs) w =
      (w, Ok (prs, complete \<or> \<not> gm_emit_pr_status repo))"
    by (simp add: poll_pull_requests_def unwrap_or_def del: concat_eq_Nil_conv)
qed

text \<open>
  An issue whose look-up fails ends the poll after comments of the same page were announced, and with it what
  the poll had remembered of them: the next poll announces them again, and so does every one after it.
\<close>

lemma failed_issue_lookup_repeats_comments:
  "(case feed_sample_poll True (feed_sample_world [feed_sample_comment, feed_sample_issue_comment]) of
      (w, r) \<Rightarrow> r = Inl ''410 Gone'' \<and>
        map fst (aw_sent (fst (feed_sample_poll True w))) = [PrComment feed_sample_pending, PrComment feed_sample_pending])"
  by code_simp

text \<open>
  A pull request whose reviews always have a further page blocks the scan: after every poll it is still the
  first one waiting, and none behind it is looked at.
\<close>

lemma capped_reviews_block_scan:
  assumes more: "\<And>k. \<exists>p u. aw_reviews w k = Inr p \<and> fp_next p = Some u"
    and scan: "ac_scan st = Some scan" "sc_pending scan = number # rest" "hm_get (sc_prs scan) number = Some pr"
    and poll: "poll_reviews env gr repo name prs complete cutoff st w = (w', Ok st')"
  shows "ac_scan st' = Some scan"
proof -
  obtain w1 es d where f: "fetch_pr_activity_pages env (''repos/'' @ gr @ ''/pulls/'' @ show_nat number @ ''/reviews'')
      False None aw_reviews w = (w1, Ok (es, False, d))"
    using capped_fetch[of w, OF more] by blast
  obtain w2 r where e: "each_review repo name (sc_lower scan) number pr es (st\<lparr>ac_scan := None\<rparr>) w1 = (w2, r)" by fastforce
  obtain n where n: "MAX_REVIEW_FETCH_PRS = Suc n" by (simp add: that[of 19] MAX_REVIEW_FETCH_PRS_def)
  have run: "run_scan env gr repo name MAX_REVIEW_FETCH_PRS scan (st\<lparr>ac_scan := None\<rparr>) w =
      (case r of Inl e \<Rightarrow> (w2, Err e) | Inr s \<Rightarrow> (w2, Ok (s, scan)))"
    unfolding n using scan f e by (cases r) simp_all
  then show ?thesis
    using poll scan by (cases r) (auto simp: poll_reviews_def run)
qed

end
