(* ===== verification/Spec2Isabelle.thy ===== *)
theory Spec2Isabelle
  imports Prelude RustStr CircuitBreaker RateLimit TimerWheel Json Events Normalize Glob DynamicTokens Targets RouteConfig Router Chunks Batchers BatchersCorrect AlertStore Dispatch DispatchCorrect Cron CronCorrect Ledger LedgerCorrect DispatchLedger DiscordSend DiscordSendCorrect DiscordLane DiscordLaneCorrect GjcEvents GjcEventsCorrect LaneState GjcLane GjcLaneSteps GjcLaneCorrect GjcLaneProperties GjcReconcile GjcReconcileCorrect GjcReconcileProperties GithubCi GithubBaseline GithubCiCorrect GithubBaselineCorrect GithubOutbox GithubOutboxCorrect GithubProperties GithubActivity GithubActivityCorrect GithubActivityBounds GithubActivityProperties
begin

text \<open>
  A verification library for clawhip, the daemon that accepts events from agents, repositories and
  terminals, decides where they go, and delivers them to chat channels and other sinks.

  \<^bold>\<open>The program.\<close> Sources and clients hand the daemon an \<open>IncomingEvent\<close> (\<open>src/events.rs\<close>). The daemon
  normalises it and queues it for the dispatcher (\<open>src/dispatch.rs\<close>), which records it in the event ledger
  (\<open>src/ledger.rs\<close>), asks the router (\<open>src/router.rs\<close>) for the deliveries it calls for, holds routine
  events and CI jobs back in batches on a timer wheel (\<open>src/core/timer_wheel.rs\<close>), renders each delivery,
  expanding dynamic tokens where the route opts in (\<open>src/dynamic_tokens.rs\<close>), and sends it. Discord
  (\<open>src/discord.rs\<close>) is reached through a rate limiter and a circuit breaker per target (\<open>src/core/\<close>); what
  cannot be delivered ends as a dead letter. Alerts of agent sessions come from the GJC event bridge
  (\<open>src/gjc_sdk_events.rs\<close>), are staged in the lane store (\<open>src/gjc_lane.rs\<close>), and are acknowledged after the
  dispatcher answered for them. The cron source (\<open>src/cron.rs\<close>) produces scheduled events; the GitHub source
  (\<open>src/source/github.rs\<close>) polls issues, pull requests, their comments and reviews, and CI runs, and keeps an
  outbox on disk of the CI events whose delivery nobody acknowledged yet.

  \<^bold>\<open>Theories and code.\<close> The theories follow the code's order of calls; a theory \<open>XCorrect\<close> holds the lemmas
  of the definitions of \<open>X\<close> where both together would be long.

    \<^item> \<open>Prelude\<close>, \<open>RustStr\<close>, \<open>Json\<close>: options, results, \<open>BTreeMap\<close> as sorted association lists, the UTF-8 string
      functions of Rust, JSON values.
    \<^item> \<open>CircuitBreaker\<close>, \<open>RateLimit\<close>, \<open>TimerWheel\<close>: the files of \<open>src/core/\<close>, the clock as an argument.
    \<^item> \<open>Events\<close>, \<open>Normalize\<close>: \<open>src/events.rs\<close>, the event constructors, the canonical kinds, the template
      context, and the normalisation of native metadata.
    \<^item> \<open>Targets\<close>: \<open>src/sink/mod.rs\<close> and the identifiers of \<open>src/telemetry.rs\<close>.
    \<^item> \<open>Glob\<close>, \<open>RouteConfig\<close>, \<open>Router\<close>, \<open>DynamicTokens\<close>: routes and filters of \<open>src/config.rs\<close>, the matcher, the
      resolution and its explanation, the rendering of a delivery.
    \<^item> \<open>Chunks\<close>, \<open>Batchers\<close>, \<open>BatchersCorrect\<close>, \<open>Dispatch\<close>, \<open>DispatchCorrect\<close>, \<open>DispatchLedger\<close>: \<open>src/dispatch.rs\<close>.
      The state of the run loop is the record \<open>dispatcher\<close>, its effects are appended to \<open>d_log\<close>; sinks, disk and
      renderer are fields of \<open>dispatch_env\<close>.
    \<^item> \<open>AlertStore\<close>: the pending alerts of \<open>src/gjc_lane.rs\<close> with the file they are persisted in.
    \<^item> \<open>Cron\<close>, \<open>CronCorrect\<close>: \<open>src/cron.rs\<close>, the calendar as a parameter.
    \<^item> \<open>Ledger\<close>, \<open>LedgerCorrect\<close>: \<open>src/ledger.rs\<close> over a model of its two directories.
    \<^item> \<open>DiscordSend\<close>, \<open>DiscordSendCorrect\<close>, \<open>DiscordLane\<close>, \<open>DiscordLaneCorrect\<close>: \<open>src/discord.rs\<close> and
      \<open>src/core/dlq.rs\<close> over a model of the HTTP server, which answers each request from everything done before.
    \<^item> \<open>GjcEvents\<close>, \<open>GjcEventsCorrect\<close>: \<open>src/gjc_sdk_events.rs\<close> and the identifiers of \<open>src/gjc/model.rs\<close>: a bridge is a
      map of tracks, one per session, and \<open>observe\<close> a function from a snapshot and a bridge to a bridge and events.
    \<^item> \<open>LaneState\<close>, \<open>GjcLane\<close>: the data and the operations of \<open>GjcLaneStore\<close> in \<open>src/gjc_lane.rs\<close>. The record \<open>lane_store\<close>
      is the mutex-protected state with the file beside it; each closure handed to \<open>mutate\<close> is a change of one record.
      \<open>GjcLaneSteps\<close> has the operations as a labelled step relation and its effects, \<open>GjcLaneCorrect\<close> the invariants
      over its runs, \<open>GjcLaneProperties\<close> the properties with their samples.
    \<^item> \<open>GjcReconcile\<close>, \<open>GjcReconcileCorrect\<close>, \<open>GjcReconcileProperties\<close>: the polling loop \<open>GjcReconciler\<close> and the adapter to
      session queries. The record \<open>poll_world\<close> says what each await returns and what other tasks did meanwhile; a
      pass leaves a trace of its queries and alerts.
    \<^item> \<open>GithubCi\<close>, \<open>GithubCiCorrect\<close>: the CI part of \<open>src/source/github.rs\<close> without the disk: the snapshots of runs and
      jobs, the identities and receipts that make an event unrepeatable, and the events of a poll.
    \<^item> \<open>GithubBaseline\<close>, \<open>GithubBaselineCorrect\<close>: what is remembered of earlier polls (\<open>CiBaseline\<close>): runs, the window of
      identifiers seen and attempts, how it is merged, compacted and aged.
    \<^item> \<open>GithubOutbox\<close>, \<open>GithubOutboxCorrect\<close>, \<open>GithubProperties\<close>: the file of the outbox with its schema and generation,
      the state \<open>ci_state\<close> in memory, and the operations between the two. The record \<open>ci_world\<close> holds the files and
      answers each await (a lock, a read, a write, a fetch, a delivery) by its number; every event sent is logged.
    \<^item> \<open>GithubActivity\<close>: the feeds of the same file. \<open>activity_state\<close> is \<open>PRActivityState\<close>, the record \<open>activity_world\<close>
      answers each request by its number, \<open>poll_pr_activity\<close> has the stages of the function of that name, and
      \<open>poll_repo_feeds\<close> the part of \<open>poll_github\<close> before the CI results. \<open>GithubActivityCorrect\<close> follows the comments
      through a poll, \<open>GithubActivityBounds\<close> has the invariant with a judgement in the style of Hoare logic,
      \<open>GithubActivityProperties\<close> the properties.

  \<^bold>\<open>Interfaces.\<close> The contracts components rely on are locales, each interpreted on the code's own
  operations: \<open>keyed_store\<close> (maps), \<open>delay_queue\<close> (the timer wheel, used by both batchers), \<open>alert_journal\<close>
  (the durable delivery states, used by the dispatcher for at-most-once delivery), \<open>event_log\<close> (the
  ledger, used by the dispatcher to drop repeated events), \<open>record_invariant\<close> and \<open>record_order\<close> (what every operation
  of the lane store keeps of each lane, lifted to runs), and \<open>poll_invariant\<close> (what the parts of a polling pass keep).

  \<^bold>\<open>What is proved.\<close> Routing delivers each matching route once and fails as a whole when a target is
  missing; glob patterns, schedules and indexed queries mean what they say; the timer wheel returns
  exactly the due entries; batching loses and duplicates nothing and splits within the limits; every
  waiter for an alert is answered and a destination accepts an alert at most once across failures and
  restarts; the ledger survives restarts and makes repeated events silent; due minutes of the
  scheduler run once and in order; a Discord message ends accepted once or buried once, and the lane path
  reports truthfully whether a message may have been accepted; rendered texts and token outputs
  respect their bounds. The event bridge announces the end of a turn once and gives the same report the same
  identifier across restarts. What the lane store writes opens again as it was; lanes only move forward, a stale
  writer is refused, a failed turn stages its alert in the same write, an outage stages one alert. A polling pass
  is a run of the store; it announces a failure only when the session just confirmed it, loses no staged
  alert, and its replay ends. Of the CI outbox: a run on record is not announced again, a delivery that was
  acknowledged is settled and one that was not is still in the file when it is published, a commit accounts for
  everything queued, a restart keeps the baseline, a writer that lost its lease changes nothing, and the file it
  writes opens again. Of the feeds: a poll announces or keeps every comment it accepted, exactly once, the bounds of
  the feeds only advance, a first poll is silent, and no index or \<open>unwrap\<close> fails.

  \<^bold>\<open>What was found.\<close> Each flaw is a theorem over a concrete run: a failed disk write loses an alert
  silently, a stale timer entry flushes a newer batch early, a second normalisation changes the kind of
  agent events, payload text reaches dynamic tokens, a clock set back repeats minutes, a degraded
  checkpoint silences a job, a torn append blocks the restart, compaction drops records it never read,
  a negative waiting time panics, one rate-limited message blocks its channel, gate titles are not
  redacted, a lane that comes back unchanged stays unavailable, an overtaken failure blocks the alerts
  behind it, and in the CI outbox an event queued after compaction is lost, a merge forgets the run of a
  workflow, a job without identity is never suppressed and a merged acknowledgement forgets its sibling; in the
  feeds a failed look-up of an issue repeats the comments announced before it, and a pull request with more than ten
  pages of reviews blocks the scan.

  \<^bold>\<open>Bounds and recursion.\<close> Loops are structural recursion or carry a termination proof by a length
  measure. \<open>field_range\<close> of \<open>Cron\<close> may not return and is a \<open>partial_function\<close>; \<open>cron_parse_returns\<close> shows that it
  does. The replay of staged alerts carries a bound on its rounds; \<open>replay_ends\<close> says which bound is enough and for
  which other tasks. The CI outbox has the bounds of the code: 500 receipts, 501,000 identifiers in the window, 3
  attempts and 3,600 seconds of back-off for an event, 7 days for an acknowledgement, 64 dead letters. The loops over the pages of a feed take
  the bound of the code (10 and 5 pages, 20 pull requests of a scan) as the number of rounds they recurse on. Machine integers are natural numbers where the code saturates or checks, with the saturation
  written out; fingerprints are 64-bit words. Floating-point numbers are rationals.

  \<^bold>\<open>Not modelled.\<close> Locks and tasks (each operation here is one critical section of the code), log lines,
  the HTTP and file-system libraries, time and JSON text (parameters), and the parts of the program that
  are mostly I/O: the HTTP daemon and the command line, the requests to GitHub (their answers are arguments) and
  the polling task around them, the pollers of git and tmux, the installers of hooks, and the release tooling. Long error texts are cut to their first clause.
\<close>

end
